(* ===== verification/Prelude.thy ===== *)
theory Prelude
  imports Main "HOL-Library.Char_ord" "HOL-Library.List_Lexorder"
begin

text \<open>
  What every component of the development shares: the theorem collections, the
  fragments of the Go language and standard library the sources use (time values,
  error values and \<open>errors.Is\<close>, map lookups with a default, the tail of a slice), and
  the generic list and map lemmas the component proofs rewrite with.

  A Go string is a \<^typ>\<open>string\<close> of bytes. An instant of Go's \<open>time.Time\<close> is an
  integer number of nanoseconds since the zero time, so the zero \<open>Time\<close> is 0; a
  \<open>time.Duration\<close> is an integer number of nanoseconds. A nil pointer is
  \<^const>\<open>None\<close>. A nil slice and an empty slice are both the empty list.
\<close>

named_theorems frame_rules \<open>what an operation leaves unchanged\<close>
named_theorems inv_rules \<open>invariants the operations preserve\<close>
named_theorems go_defs \<open>definitions of the Go fragment, to unfold\<close>

section \<open>Time\<close>

type_synonym go_time = int
type_synonym duration = int

definition zero_time :: go_time where
  "zero_time = 0"

definition IsZero :: "go_time \<Rightarrow> bool" where
  "IsZero t \<longleftrightarrow> t = 0"

definition max_duration :: int where
  "max_duration = 9223372036854775807"

definition min_duration :: int where
  "min_duration = - 9223372036854775808"

text \<open>\<open>t.Sub(u)\<close> saturates at the largest and the smallest duration.\<close>

definition time_sub :: "go_time \<Rightarrow> go_time \<Rightarrow> duration" where
  "time_sub t u = max min_duration (min max_duration (t - u))"

definition nanosecond :: duration where "nanosecond = 1"
definition millisecond :: duration where "millisecond = 1000000"
definition second :: duration where "second = 1000000000"
definition minute :: duration where "minute = 60 * 1000000000"
definition hour :: duration where "hour = 3600 * 1000000000"

lemmas duration_defs [go_defs] =
  nanosecond_def millisecond_def second_def minute_def hour_def

lemma time_sub_less_iff:
  "min_duration < d \<Longrightarrow> d \<le> max_duration \<Longrightarrow> time_sub t u < d \<longleftrightarrow> t - u < d"
  by (auto simp: time_sub_def max_duration_def min_duration_def)

lemma time_sub_ge_iff:
  "min_duration < d \<Longrightarrow> d \<le> max_duration \<Longrightarrow> d \<le> time_sub t u \<longleftrightarrow> d \<le> t - u"
  by (auto simp: time_sub_def max_duration_def min_duration_def)

lemma time_sub_gt_iff:
  "min_duration \<le> d \<Longrightarrow> d < max_duration \<Longrightarrow> d < time_sub t u \<longleftrightarrow> d < t - u"
  by (auto simp: time_sub_def max_duration_def min_duration_def)

lemma time_sub_mono: "t \<le> t' \<Longrightarrow> time_sub t u \<le> time_sub t' u"
  by (auto simp: time_sub_def)

lemma time_sub_self [simp]: "time_sub t t = 0"
  by (simp add: time_sub_def max_duration_def min_duration_def)

section \<open>Maps of strings\<close>

text \<open>\<open>m[k]\<close> of a Go \<open>map[string]string\<close>: a missing key, and a nil map, read as the
  empty string.\<close>

type_synonym labels = "string \<rightharpoonup> string"

definition label :: "labels \<Rightarrow> string \<Rightarrow> string" where
  "label m k = (case m k of None \<Rightarrow> [] | Some v \<Rightarrow> v)"

lemma label_empty [simp]: "label Map.empty k = []"
  by (simp add: label_def)

lemma label_upd [simp]: "label (m(k \<mapsto> v)) k' = (if k' = k then v else label m k')"
  by (simp add: label_def)

lemma label_del [simp]: "label (m(k := None)) k' = (if k' = k then [] else label m k')"
  by (simp add: label_def)

section \<open>Slices\<close>

text \<open>\<open>xs[len(xs)-n:]\<close> guarded by \<open>len(xs) > n\<close>: the last \<open>n\<close> elements.\<close>

definition last_n :: "nat \<Rightarrow> 'a list \<Rightarrow> 'a list" where
  "last_n n xs = (if length xs > n then drop (length xs - n) xs else xs)"

lemma length_last_n: "length (last_n n xs) = min n (length xs)"
  by (simp add: last_n_def)

lemma last_n_id: "length xs \<le> n \<Longrightarrow> last_n n xs = xs"
  by (simp add: last_n_def)

lemma set_last_n: "set (last_n n xs) \<subseteq> set xs"
  by (auto simp: last_n_def dest: in_set_dropD)

lemma last_last_n: "0 < n \<Longrightarrow> xs \<noteq> [] \<Longrightarrow> last (last_n n xs) = last xs"
  by (simp add: last_n_def)

lemma last_n_snoc_in: "0 < n \<Longrightarrow> x \<in> set (last_n n (xs @ [x]))"
  by (simp add: last_n_def Suc_diff_le not_less_eq_eq)

lemma last_n_suffix: "\<exists>ys. xs = ys @ last_n n xs"
  by (metis append.left_neutral append_take_drop_id last_n_def)

text \<open>\<open>append(xs, x)\<close> unless \<open>x\<close> is already there: a set kept as a slice.\<close>

definition add_once :: "'a \<Rightarrow> 'a list \<Rightarrow> 'a list" where
  "add_once x xs = (if x \<in> set xs then xs else xs @ [x])"

lemma set_add_once [simp]: "set (add_once x xs) = insert x (set xs)"
  by (auto simp: add_once_def)

lemma distinct_add_once [simp]: "distinct (add_once x xs) = distinct xs"
  by (auto simp: add_once_def)

lemma add_once_idem [simp]: "add_once x (add_once x xs) = add_once x xs"
  by (simp add: add_once_def)

lemma find_Some_iff': "List.find P xs = Some x \<Longrightarrow> x \<in> set xs \<and> P x"
  by (auto simp: find_Some_iff)

section \<open>Errors\<close>

text \<open>
  The sentinels of \<open>internal/state/store.go\<close>, any other error by its text, and an error
  wrapped with \<open>fmt.Errorf("...: %w", err)\<close>. \<open>errors.Is\<close> unwraps.
\<close>

datatype err =
    ErrNotFound
  | ErrConflict
  | ErrAlreadyExists
  | ErrDeleting
  | ErrUnknownIndex
  | ErrOther string
  | Wrapped string err

fun errors_Is :: "err \<Rightarrow> err \<Rightarrow> bool" where
  "errors_Is (Wrapped m e) target = (Wrapped m e = target \<or> errors_Is e target)"
| "errors_Is e target = (e = target)"

lemma errors_Is_refl [simp]: "errors_Is e e"
  by (cases e) auto

type_synonym 'a result = "err + 'a"

lemma Inl_neq_conv [simp]: "(\<forall>y. x \<noteq> Inl y) \<longleftrightarrow> (\<exists>z. x = Inr z)"
  by (cases x) auto

end
