(* ===== verification/StateRecord.thy ===== *)
theory StateRecord
  imports Prelude
begin

text \<open>
  The manager's state record: \<open>internal/state/vocabulary.go\<close> (the closed vocabularies)
  and \<open>internal/state/record.go\<close> (the control record of a conversation, its
  sub-records and the out-of-line blob). Every Go struct is a record with the source's
  fields under a two-letter prefix; \<open>*T\<close> is \<open>T option\<close>, \<open>[]T\<close> a list, \<open>Ref\<close> and \<open>Key\<close> are
  strings, the 32- and 64-bit counters are integers (no operation here comes near
  their width).
\<close>

section \<open>Vocabularies\<close>

abbreviation PhasePending :: string where "PhasePending \<equiv> ''Pending''"
abbreviation PhaseIdle :: string where "PhaseIdle \<equiv> ''Idle''"
abbreviation PhaseQueued :: string where "PhaseQueued \<equiv> ''Queued''"
abbreviation PhaseWorking :: string where "PhaseWorking \<equiv> ''Working''"
abbreviation PhaseClosed :: string where "PhaseClosed \<equiv> ''Closed''"

abbreviation InputTask :: string where "InputTask \<equiv> ''task''"
abbreviation InputAlert :: string where "InputAlert \<equiv> ''alert''"
abbreviation InputReply :: string where "InputReply \<equiv> ''reply''"
abbreviation InputRecurrence :: string where "InputRecurrence \<equiv> ''recurrence''"
abbreviation InputJob :: string where "InputJob \<equiv> ''job''"

abbreviation OriginSignal :: string where "OriginSignal \<equiv> ''signal''"
abbreviation OriginChannel :: string where "OriginChannel \<equiv> ''channel''"
abbreviation OriginMember :: string where "OriginMember \<equiv> ''member''"
abbreviation OriginManager :: string where "OriginManager \<equiv> ''manager''"

abbreviation SignalKindChat :: string where "SignalKindChat \<equiv> ''chat''"
abbreviation LabelChatChannel :: string where "LabelChatChannel \<equiv> ''agentops.dev/channel''"
abbreviation LabelChatSender :: string where "LabelChatSender \<equiv> ''agentops.dev/sender''"

definition MaxRecordedInputText :: nat where
  "MaxRecordedInputText = 2000"

section \<open>The record and its parts\<close>

type_synonym key = string
type_synonym revision = string
type_synonym ref = string

record ToolsetBinding =
  ts_Mode :: string
  ts_Refs :: "ref list"

record ToolingBinding =
  tl_Refs :: "ref list"

record Provenance =
  pv_Parent :: ref
  pv_Entry :: string

record OriginReader =
  or_Channel :: string
  or_Key :: string

record SignalProvenance =
  sp_SourceRef :: ref
  sp_Labels :: labels
  sp_Severity :: string

record InputOrigin =
  io_Kind :: string
  io_Name :: string
  io_Entry :: string
  io_SignalKind :: string
  io_Sender :: string

record InputItem =
  in_ID :: string
  in_Type :: string
  in_Agent :: string
  in_Payload :: string
  in_PayloadRef :: key
  in_Origin :: "InputOrigin option"
  in_ReceivedAt :: go_time

record RecordedInput =
  ri_ID :: string
  ri_Type :: string
  ri_Text :: string
  ri_Truncated :: bool
  ri_PayloadRef :: key
  ri_Surface :: string
  ri_Sender :: string
  ri_Origin :: string
  ri_ReceivedAt :: "go_time option"

record Run =
  run_RunID :: string
  run_JobKind :: string
  run_Status :: string
  run_ExitCode :: "int option"
  run_Result :: string
  run_StartedAt :: "go_time option"
  run_FinishedAt :: "go_time option"
  run_InputIDs :: "string list"
  run_DeliveryTracked :: bool
  run_Delivered :: "string list"
  run_RoutedToParent :: bool
  run_Inputs :: "RecordedInput list"

record RunUpdate =
  ru_MarkDeliveryTracked :: bool
  ru_MarkDelivered :: "string list"
  ru_MarkRoutedToParent :: bool

record ReaderMark =
  rm_Key :: string
  rm_ReadAt :: "string option"

record OpClaim =
  oc_Holder :: string
  oc_ClaimedAt :: go_time

record ThreadBinding =
  th_Channel :: string
  th_ThreadID :: string
  th_ReadAt :: "string option"
  th_ReadTracked :: bool
  th_Readers :: "ReaderMark list"
  th_UndeliveredReply :: string
  th_Claim :: "OpClaim option"

record ConversationBudget =
  bd_MaxAgents :: int
  bd_MaxTurns :: int
  bd_Deadline :: "go_time option"
  bd_AgentsInvoked :: int
  bd_Turns :: int

record InflightRun =
  if_RunID :: string
  if_InputIDs :: "string list"
  if_DispatchedAt :: go_time
  if_Moved :: bool

record ContextCheckpoint =
  cp_At :: go_time
  cp_Generation :: string
  cp_Quiesced :: bool
  cp_Bytes :: int

record Condition =
  co_Type :: string
  co_Status :: string
  co_Reason :: string
  co_Message :: string
  co_ObservedGeneration :: int
  co_LastTransitionTime :: go_time

record ConversationRecord =
  cr_Name :: string
  cr_ID :: string
  cr_CreatedAt :: go_time
  cr_DeletionRequestedAt :: "go_time option"
  cr_Finalizers :: "string list"
  cr_NameBase :: string
  cr_CausedBy :: "Provenance option"
  cr_CoordinatorRef :: ref
  cr_EscalationChannelRefs :: "ref list"
  cr_ChannelRefs :: "ref list"
  cr_ProfileRef :: ref
  cr_PipelineRef :: ref
  cr_Signal :: "SignalProvenance option"
  cr_Title :: string
  cr_ConversationID :: string
  cr_OriginReader :: "OriginReader option"
  cr_Toolsets :: "ToolsetBinding option"
  cr_MCPConfigs :: "ToolingBinding option"
  cr_RuntimeRef :: ref
  cr_ServiceAccountName :: string
  cr_ContextClaimName :: string
  cr_WorkspaceClaimName :: string
  cr_Inputs :: "InputItem list"
  cr_Phase :: string
  cr_Threads :: "ThreadBinding list"
  cr_RuntimeContextID :: string
  cr_SessionID :: string
  cr_RuntimePod :: string
  cr_Inflight :: "InflightRun option"
  cr_ProcessedInputIDs :: "string list"
  cr_LastActivity :: "go_time option"
  cr_ClosedAt :: "go_time option"
  cr_Budget :: "ConversationBudget option"
  cr_EscalatedAt :: "go_time option"
  cr_EscalationMessage :: string
  cr_CloseReason :: string
  cr_Brief :: string
  cr_ThreadsArchived :: "string list"
  cr_Reopens :: int
  cr_ContextCheckpoint :: "ContextCheckpoint option"
  cr_RuntimeStartFailures :: int
  cr_LastRuntimeStartFailure :: "go_time option"
  cr_Conditions :: "Condition list"
  cr_ExpiresAt :: "go_time option"

record Blob =
  bl_ConversationName :: string
  bl_Type :: string
  bl_Payload :: string
  bl_Labels :: labels
  bl_Severity :: string

text \<open>Go's composite literal \<open>ConversationRecord{...}\<close> starts from the zero value.\<close>

definition zero_record :: ConversationRecord where
  "zero_record = \<lparr>
    cr_Name = [], cr_ID = [], cr_CreatedAt = 0, cr_DeletionRequestedAt = None,
    cr_Finalizers = [], cr_NameBase = [], cr_CausedBy = None, cr_CoordinatorRef = [],
    cr_EscalationChannelRefs = [], cr_ChannelRefs = [], cr_ProfileRef = [], cr_PipelineRef = [],
    cr_Signal = None, cr_Title = [], cr_ConversationID = [], cr_OriginReader = None,
    cr_Toolsets = None, cr_MCPConfigs = None, cr_RuntimeRef = [], cr_ServiceAccountName = [],
    cr_ContextClaimName = [], cr_WorkspaceClaimName = [], cr_Inputs = [],
    cr_Phase = [], cr_Threads = [], cr_RuntimeContextID = [], cr_SessionID = [],
    cr_RuntimePod = [], cr_Inflight = None, cr_ProcessedInputIDs = [], cr_LastActivity = None,
    cr_ClosedAt = None, cr_Budget = None, cr_EscalatedAt = None, cr_EscalationMessage = [],
    cr_CloseReason = [], cr_Brief = [], cr_ThreadsArchived = [], cr_Reopens = 0,
    cr_ContextCheckpoint = None, cr_RuntimeStartFailures = 0, cr_LastRuntimeStartFailure = None,
    cr_Conditions = [], cr_ExpiresAt = None\<rparr>"

end
