(* ===== verification/GoStrings.thy ===== *)
theory GoStrings
  imports Prelude
begin

text \<open>
  The parts of Go's \<open>strings\<close>, \<open>strconv\<close> and \<open>unicode/utf8\<close> the sources use, on byte
  strings: UTF-8 decoding with the replacement rune for invalid bytes, \<open>TrimSpace\<close> and
  \<open>Fields\<close> (Unicode white space), prefixes, \<open>Itoa\<close>, \<open>Atoi\<close> and \<open>FormatInt\<close>.
\<close>

section \<open>Bytes and digits\<close>

abbreviation code :: "char \<Rightarrow> int" where "code c \<equiv> of_char c"

lemma code_nonneg [simp]: "0 \<le> code c"
  using pos_mod_sign [of 256 "code c"] by simp

lemma code_less [simp]: "code c < 256"
  using pos_mod_bound [of 256 "code c"] by simp

definition is_digit :: "char \<Rightarrow> bool" where
  "is_digit c \<longleftrightarrow> 48 \<le> code c \<and> code c \<le> 57"

definition digit_val :: "char \<Rightarrow> int" where
  "digit_val c = code c - 48"

definition digit_char :: "int \<Rightarrow> char" where
  "digit_char d = (if d < 10 then char_of (48 + d) else char_of (87 + d))"

definition is_lower :: "char \<Rightarrow> bool" where
  "is_lower c \<longleftrightarrow> 97 \<le> code c \<and> code c \<le> 122"

definition is_upper :: "char \<Rightarrow> bool" where
  "is_upper c \<longleftrightarrow> 65 \<le> code c \<and> code c \<le> 90"

definition ascii_lower :: "char \<Rightarrow> char" where
  "ascii_lower c = (if is_upper c then char_of (code c + 32) else c)"

lemma is_digit_digit_char: "0 \<le> d \<Longrightarrow> d < 10 \<Longrightarrow> is_digit (digit_char d)"
  by (simp add: is_digit_def digit_char_def)

lemma digit_val_digit_char: "0 \<le> d \<Longrightarrow> d < 10 \<Longrightarrow> digit_val (digit_char d) = d"
  by (simp add: digit_val_def digit_char_def)

section \<open>Numbers\<close>

text \<open>\<open>strconv.FormatInt(n, base)\<close> of a number that is not negative.\<close>

function format_base :: "int \<Rightarrow> int \<Rightarrow> string" where
  "format_base b n =
     (if n < b \<or> b < 2 then [digit_char n] else format_base b (n div b) @ [digit_char (n mod b)])"
  by pat_completeness auto
termination
proof (relation "measure (\<lambda>(b, n). nat n)", goal_cases)
  case (2 b n)
  then have "n div b < n" by (intro int_div_less_self) auto
  with 2 show ?case by auto
qed simp

declare format_base.simps [simp del]

definition itoa :: "int \<Rightarrow> string" where
  "itoa i = (if i < 0 then CHR ''-'' # format_base 10 (- i) else format_base 10 i)"

text \<open>The value of a string of digits, most significant first.\<close>

definition digits_val :: "string \<Rightarrow> int" where
  "digits_val ds = fold (\<lambda>c acc. 10 * acc + digit_val c) ds 0"

definition atoi :: "string \<Rightarrow> int option" where
  "atoi s =
     (let (neg, ds) = (case s of
             c # r \<Rightarrow> if c = CHR ''-'' then (True, r) else if c = CHR ''+'' then (False, r) else (False, s)
           | [] \<Rightarrow> (False, s));
          n = (if neg then - digits_val ds else digits_val ds)
      in if ds = [] \<or> \<not> list_all is_digit ds \<or> n < min_duration \<or> max_duration < n
         then None else Some n)"

lemma fold_digits: "fold (\<lambda>c acc. 10 * acc + digit_val c) ds a
    = a * 10 ^ length ds + digits_val ds"
proof (induction ds arbitrary: a)
  case Nil
  show ?case by (simp add: digits_val_def)
next
  case (Cons c ds)
  show ?case
    using Cons.IH [of "10 * a + digit_val c"] Cons.IH [of "digit_val c"]
    by (simp add: digits_val_def algebra_simps)
qed

lemma digits_val_snoc: "digits_val (ds @ [c]) = 10 * digits_val ds + digit_val c"
  by (simp add: digits_val_def)

lemma format_base_digits:
  "0 \<le> n \<Longrightarrow> list_all is_digit (format_base 10 n) \<and> format_base 10 n \<noteq> []"
proof (induction "10::int" n rule: format_base.induct)
  case (1 n)
  then show ?case
    by (subst format_base.simps, subst (2) format_base.simps) (auto simp: is_digit_digit_char)
qed

lemma digits_val_format_base: "0 \<le> n \<Longrightarrow> digits_val (format_base 10 n) = n"
proof (induction "10::int" n rule: format_base.induct)
  case (1 n)
  show ?case
  proof (cases "n < 10")
    case True
    with 1 show ?thesis
      by (subst format_base.simps) (simp add: digits_val_def digit_val_digit_char)
  next
    case False
    with 1 have "digits_val (format_base 10 (n div 10)) = n div 10" by simp
    with False show ?thesis
      by (subst format_base.simps) (simp add: digits_val_snoc digit_val_digit_char)
  qed
qed

lemma itoa_digits: "0 \<le> n \<Longrightarrow> list_all is_digit (itoa n) \<and> itoa n \<noteq> []"
  using format_base_digits [of n] by (simp add: itoa_def)

lemma digits_val_itoa: "0 \<le> n \<Longrightarrow> digits_val (itoa n) = n"
  by (simp add: itoa_def digits_val_format_base)

lemma itoa_inject: "0 \<le> m \<Longrightarrow> 0 \<le> n \<Longrightarrow> itoa m = itoa n \<longleftrightarrow> m = n"
  by (metis digits_val_itoa)

lemma atoi_itoa: "0 \<le> n \<Longrightarrow> n \<le> max_duration \<Longrightarrow> atoi (itoa n) = Some n"
proof -
  assume n: "0 \<le> n" "n \<le> max_duration"
  obtain c r where cr: "itoa n = c # r" using itoa_digits [OF n(1)] by (cases "itoa n") auto
  with itoa_digits [OF n(1)] have "is_digit c" by simp
  then have "c \<noteq> CHR ''-''" "c \<noteq> CHR ''+''" by (auto simp: is_digit_def)
  then show ?thesis
    using n itoa_digits [of n] digits_val_itoa [of n]
    by (simp add: atoi_def cr min_duration_def)
qed

section \<open>Prefixes and cuts\<close>

fun has_prefix :: "string \<Rightarrow> string \<Rightarrow> bool" where
  "has_prefix s [] = True"
| "has_prefix (c # s) (d # p) = (c = d \<and> has_prefix s p)"
| "has_prefix [] (d # p) = False"

lemma has_prefix_iff: "has_prefix s p \<longleftrightarrow> (\<exists>r. s = p @ r)"
  by (induction s p rule: has_prefix.induct) auto

definition trim_prefix :: "string \<Rightarrow> string \<Rightarrow> string" where
  "trim_prefix s p = (if has_prefix s p then drop (length p) s else s)"

lemma trim_prefix_append [simp]: "trim_prefix (p @ r) p = r"
  by (simp add: trim_prefix_def has_prefix_iff)

definition has_suffix :: "string \<Rightarrow> string \<Rightarrow> bool" where
  "has_suffix s p \<longleftrightarrow> has_prefix (rev s) (rev p)"

definition trim_suffix :: "string \<Rightarrow> string \<Rightarrow> string" where
  "trim_suffix s p = (if has_suffix s p then take (length s - length p) s else s)"

fun join :: "string \<Rightarrow> string list \<Rightarrow> string" where
  "join sep [] = []"
| "join sep [w] = w"
| "join sep (w # ws) = w @ sep @ join sep ws"

fun contains_sub :: "string \<Rightarrow> string \<Rightarrow> bool" where
  "contains_sub [] p = (p = [])"
| "contains_sub (c # s) p = (has_prefix (c # s) p \<or> contains_sub s p)"

text \<open>\<open>strings.Split(s, sep)\<close> for a one-byte separator.\<close>

fun split_byte :: "char \<Rightarrow> string \<Rightarrow> string list" where
  "split_byte sep [] = [[]]"
| "split_byte sep (c # s) =
     (if c = sep then [] # split_byte sep s
      else (case split_byte sep s of w # ws \<Rightarrow> (c # w) # ws | [] \<Rightarrow> [[c]]))"

lemma split_byte_nonempty: "split_byte sep s \<noteq> []"
  by (induction s) (auto split: list.splits)

section \<open>UTF-8\<close>

text \<open>
  \<open>utf8.DecodeRune\<close>: the rune and the number of bytes read. An invalid sequence reads
  one byte as the replacement rune U+FFFD.
\<close>

definition rune_error :: int where
  "rune_error = 65533"

definition cont :: "char \<Rightarrow> int \<Rightarrow> int \<Rightarrow> bool" where
  "cont c lo hi \<longleftrightarrow> lo \<le> code c \<and> code c \<le> hi"

definition decode_rune :: "string \<Rightarrow> int \<times> nat" where
  "decode_rune s = (case s of
     [] \<Rightarrow> (rune_error, 0)
   | c0 # r \<Rightarrow>
      (let b = code c0 in
       if b < 128 then (b, 1)
       else if 194 \<le> b \<and> b \<le> 223 then
         (case r of c1 # _ \<Rightarrow> if cont c1 128 191 then ((b - 192) * 64 + (code c1 - 128), 2)
                             else (rune_error, 1)
          | [] \<Rightarrow> (rune_error, 1))
       else if 224 \<le> b \<and> b \<le> 239 then
         (case r of c1 # c2 # _ \<Rightarrow>
            if cont c1 (if b = 224 then 160 else 128) (if b = 237 then 159 else 191) \<and> cont c2 128 191
            then ((b - 224) * 4096 + (code c1 - 128) * 64 + (code c2 - 128), 3) else (rune_error, 1)
          | _ \<Rightarrow> (rune_error, 1))
       else if 240 \<le> b \<and> b \<le> 244 then
         (case r of c1 # c2 # c3 # _ \<Rightarrow>
            if cont c1 (if b = 240 then 144 else 128) (if b = 244 then 143 else 191)
               \<and> cont c2 128 191 \<and> cont c3 128 191
            then ((b - 240) * 262144 + (code c1 - 128) * 4096 + (code c2 - 128) * 64
                  + (code c3 - 128), 4)
            else (rune_error, 1)
          | _ \<Rightarrow> (rune_error, 1))
       else (rune_error, 1)))"

text \<open>\<open>utf8.EncodeRune\<close>.\<close>

definition encode_rune :: "int \<Rightarrow> string" where
  "encode_rune r0 =
     (let r = (if r0 < 0 \<or> r0 > 1114111 \<or> (55296 \<le> r0 \<and> r0 \<le> 57343) then rune_error else r0) in
      if r < 128 then [char_of r]
      else if r < 2048 then [char_of (192 + r div 64), char_of (128 + r mod 64)]
      else if r < 65536 then
        [char_of (224 + r div 4096), char_of (128 + r div 64 mod 64), char_of (128 + r mod 64)]
      else [char_of (240 + r div 262144), char_of (128 + r div 4096 mod 64),
            char_of (128 + r div 64 mod 64), char_of (128 + r mod 64)])"

text \<open>A string as its runes, each with the bytes it was read from.\<close>

lemma decode_rune_size: "s \<noteq> [] \<Longrightarrow> 0 < snd (decode_rune s)"
  by (cases s) (auto simp: decode_rune_def Let_def split: list.splits)

function segs :: "string \<Rightarrow> (int \<times> string) list" where
  "segs s = (if s = [] then []
     else (let (r, n) = decode_rune s in (r, take n s) # segs (drop n s)))"
  by pat_completeness auto
termination
proof (relation "measure length", goal_cases)
  case 1
  then show ?case by simp
next
  case (2 s x r n)
  then show ?case using decode_rune_size [of s] by (metis diff_less in_measure length_drop
      length_greater_0_conv snd_conv)
qed

declare segs.simps [simp del]

definition runes :: "string \<Rightarrow> int list" where
  "runes s = map fst (segs s)"

definition runes_string :: "int list \<Rightarrow> string" where
  "runes_string rs = concat (map encode_rune rs)"

lemma segs_Nil [simp]: "segs [] = []"
  by (simp add: segs.simps)

lemma segs_ascii: "code c < 128 \<Longrightarrow> segs (c # s) = (code c, [c]) # segs s"
  by (subst segs.simps) (simp add: decode_rune_def)

lemma concat_segs: "concat (map snd (segs s)) = s"
proof (induction s rule: segs.induct)
  case (1 s)
  then show ?case
    by (subst segs.simps) (auto split: prod.splits)
qed

lemma runes_ascii: "list_all (\<lambda>c. code c < 128) s \<Longrightarrow> runes s = map code s"
  by (induction s) (auto simp: runes_def segs_ascii)

lemma encode_rune_ascii: "0 \<le> r \<Longrightarrow> r < 128 \<Longrightarrow> encode_rune r = [char_of r]"
  by (simp add: encode_rune_def)

lemma runes_string_ascii:
  "list_all (\<lambda>c. code c < 128) s \<Longrightarrow> runes_string (runes s) = s"
  by (induction s) (auto simp: runes_def runes_string_def segs_ascii encode_rune_ascii)

text \<open>
  The Unicode scalar values round-trip through UTF-8, and decoding yields nothing else.
\<close>

definition valid_rune :: "int \<Rightarrow> bool" where
  "valid_rune r \<longleftrightarrow> 0 \<le> r \<and> r \<le> 1114111 \<and> \<not> (55296 \<le> r \<and> r \<le> 57343)"

lemma code_char_of: "0 \<le> n \<Longrightarrow> n < 256 \<Longrightarrow> code (char_of n) = n"
  by simp

lemma split64:
  fixes r :: int
  shows "r = r div 4096 * 4096 + r div 64 mod 64 * 64 + r mod 64"
    and "r = r div 262144 * 262144 + r div 4096 mod 64 * 4096 + r div 64 mod 64 * 64 + r mod 64"
proof -
  have d: "r div 4096 = r div 64 div 64" "r div 262144 = r div 64 div 64 div 64"
    using zdiv_zmult2_eq [of 64 r 64] zdiv_zmult2_eq [of 64 "r div 64" 64]
      zdiv_zmult2_eq [of 4096 r 64] by simp_all
  show "r = r div 4096 * 4096 + r div 64 mod 64 * 64 + r mod 64"
    unfolding d using div_mult_mod_eq [of r 64] div_mult_mod_eq [of "r div 64" 64] by linarith
  show "r = r div 262144 * 262144 + r div 4096 mod 64 * 4096 + r div 64 mod 64 * 64 + r mod 64"
    unfolding d using div_mult_mod_eq [of r 64] div_mult_mod_eq [of "r div 64" 64]
      div_mult_mod_eq [of "r div 64 div 64" 64] by linarith
qed

lemma decode_encode:
  assumes "valid_rune r"
  shows "decode_rune (encode_rune r @ s) = (r, length (encode_rune r))"
proof -
  have v: "0 \<le> r" "r \<le> 1114111" "\<not> (55296 \<le> r \<and> r \<le> 57343)"
    using assms by (auto simp: valid_rune_def)
  have sc: "(if r < 0 \<or> r > 1114111 \<or> (55296 \<le> r \<and> r \<le> 57343) then rune_error else r) = r"
    using v by auto
  consider "r < 128" | "128 \<le> r" "r < 2048" | "2048 \<le> r" "r < 65536" | "65536 \<le> r" by linarith
  then show ?thesis
  proof cases
    case 1
    with v show ?thesis by (simp add: encode_rune_def decode_rune_def)
  next
    case 2
    define a b where "a = r div 64" and "b = r mod 64"
    have ab: "2 \<le> a" "a \<le> 31" "0 \<le> b" "b \<le> 63" "r = a * 64 + b"
      using 2 by (auto simp: a_def b_def)
    with 2 v show ?thesis
      by (simp add: encode_rune_def decode_rune_def cont_def flip: a_def b_def)
  next
    case 3
    define a b c where "a = r div 4096" and "b = r div 64 mod 64" and "c = r mod 64"
    have ab: "0 \<le> a" "a \<le> 15" "0 \<le> b" "b \<le> 63" "0 \<le> c" "c \<le> 63" by (use 3 in \<open>auto simp: a_def b_def c_def\<close>)
    have eq: "r = a * 4096 + b * 64 + c" unfolding a_def b_def c_def by (rule split64(1))
    have bounds: "a = 0 \<Longrightarrow> 32 \<le> b" "a = 13 \<Longrightarrow> b \<le> 31" using ab eq 3 v by auto
    have enc: "encode_rune r = [char_of (224 + a), char_of (128 + b), char_of (128 + c)]"
      unfolding encode_rune_def sc Let_def using 3 by (simp add: a_def b_def c_def)
    have "decode_rune (encode_rune r @ s) = (a * 4096 + b * 64 + c, 3)"
      unfolding enc decode_rune_def cont_def using ab bounds by simp
    then show ?thesis by (simp add: eq [symmetric] enc)
  next
    case 4
    define a b c d where "a = r div 262144" and "b = r div 4096 mod 64" and "c = r div 64 mod 64"
      and "d = r mod 64"
    have ab: "0 \<le> a" "a \<le> 4" "0 \<le> b" "b \<le> 63" "0 \<le> c" "c \<le> 63" "0 \<le> d" "d \<le> 63"
      by (use 4 v in \<open>auto simp: a_def b_def c_def d_def\<close>)
    have eq: "r = a * 262144 + b * 4096 + c * 64 + d"
      unfolding a_def b_def c_def d_def by (rule split64(2))
    have bounds: "a = 0 \<Longrightarrow> 16 \<le> b" "a = 4 \<Longrightarrow> b \<le> 15" using ab eq 4 v by auto
    have enc: "encode_rune r
        = [char_of (240 + a), char_of (128 + b), char_of (128 + c), char_of (128 + d)]"
      unfolding encode_rune_def sc Let_def using 4 by (simp add: a_def b_def c_def d_def)
    have "decode_rune (encode_rune r @ s) = (a * 262144 + b * 4096 + c * 64 + d, 4)"
      unfolding enc decode_rune_def cont_def using ab bounds by simp
    then show ?thesis by (simp add: eq [symmetric] enc)
  qed
qed

lemma decode_rune_valid: "valid_rune (fst (decode_rune s))"
proof (cases s)
  case Nil
  then show ?thesis by (simp add: decode_rune_def valid_rune_def rune_error_def)
next
  case (Cons c0 r)
  have "code c0 < 256" "0 \<le> code c0" by simp_all
  then show ?thesis
    unfolding Cons decode_rune_def Let_def cont_def rune_error_def valid_rune_def
    by (simp split: list.splits; fastforce)
qed

lemma encode_rune_nonempty: "encode_rune r \<noteq> []"
  by (simp add: encode_rune_def Let_def)

lemma segs_encode: "valid_rune r \<Longrightarrow> segs (encode_rune r @ s) = (r, encode_rune r) # segs s"
  using encode_rune_nonempty [of r] decode_encode [of r s]
  by (subst segs.simps) simp

lemma runes_runes_string: "list_all valid_rune rs \<Longrightarrow> runes (runes_string rs) = rs"
  by (induction rs) (auto simp: runes_def runes_string_def segs_encode)

lemma runes_valid: "list_all valid_rune (runes s)"
proof (induction s rule: segs.induct)
  case (1 s)
  then show ?case
    using decode_rune_valid [of s]
    by (subst runes_def, subst segs.simps) (auto simp: runes_def split: prod.splits)
qed
lemma runes_take: "runes (runes_string (take n (runes s))) = take n (runes s)"
  using runes_valid [of s]
  by (intro runes_runes_string) (auto simp: list_all_iff dest: in_set_takeD)

section \<open>White space\<close>

definition is_space :: "int \<Rightarrow> bool" where
  "is_space r \<longleftrightarrow> r \<in> {9, 10, 11, 12, 13, 32, 133, 160, 5760, 8232, 8233, 8239, 8287, 12288}
     \<or> (8192 \<le> r \<and> r \<le> 8202)"

definition trim_space :: "string \<Rightarrow> string" where
  "trim_space s = concat (map snd
     (rev (dropWhile (\<lambda>p. is_space (fst p)) (rev (dropWhile (\<lambda>p. is_space (fst p)) (segs s))))))"

fun fields_segs :: "(int \<times> string) list \<Rightarrow> string \<Rightarrow> string list" where
  "fields_segs [] w = (if w = [] then [] else [w])"
| "fields_segs ((r, bs) # ss) w =
     (if is_space r then (if w = [] then [] else [w]) @ fields_segs ss []
      else fields_segs ss (w @ bs))"

definition fields :: "string \<Rightarrow> string list" where
  "fields s = fields_segs (segs s) []"

lemma fields_segs_nonempty: "w \<in> set (fields_segs ss v) \<Longrightarrow> w \<noteq> []"
  by (induction ss v rule: fields_segs.induct) (auto split: if_splits)

lemma fields_nonempty: "w \<in> set (fields s) \<Longrightarrow> w \<noteq> []"
  by (auto simp: fields_def dest: fields_segs_nonempty)

end
