(* ===== verification/GoTime.thy ===== *)
theory GoTime
  imports GoStrings "HOL-Library.Monad_Syntax"
begin

text \<open>
  The calendar half of Go's \<open>time\<close> package: the civil date of an instant, \<open>Format\<close> and
  \<open>Parse\<close> for the layout RFC3339Nano, the two operations the record's timestamps go
  through. Days are counted from 1 January of the year 1, where the zero time lies.
\<close>

definition is_leap :: "int \<Rightarrow> bool" where
  "is_leap y \<longleftrightarrow> y mod 4 = 0 \<and> (y mod 100 \<noteq> 0 \<or> y mod 400 = 0)"

definition month_lengths :: "int \<Rightarrow> int list" where
  "month_lengths y = [31, if is_leap y then 29 else 28, 31, 30, 31, 30, 31, 31, 30, 31, 30, 31]"

definition days_in :: "int \<Rightarrow> int \<Rightarrow> int" where
  "days_in m y = month_lengths y ! nat (m - 1)"

text \<open>Days before a year, and the day number of a civil date (\<open>time.Date\<close>).\<close>

definition days_before_year :: "int \<Rightarrow> int" where
  "days_before_year y = 365 * (y - 1) + (y - 1) div 4 - (y - 1) div 100 + (y - 1) div 400"

definition days_from_civil :: "int \<Rightarrow> int \<Rightarrow> int \<Rightarrow> int" where
  "days_from_civil y m d =
     days_before_year y + sum_list (take (nat (m - 1)) (month_lengths y)) + d - 1"

text \<open>The civil date of a day number, by 400-, 100-, 4- and 1-year cycles.\<close>

fun find_month :: "int list \<Rightarrow> int \<Rightarrow> int \<Rightarrow> int \<times> int" where
  "find_month [] m d = (m, d + 1)"
| "find_month (l # ls) m d = (if d < l then (m, d + 1) else find_month ls (m + 1) (d - l))"

definition year_day :: "int \<Rightarrow> int \<times> int" where
  "year_day n =
     (let n400 = n div 146097; d = n mod 146097;
          n100 = (let q = d div 36524 in q - q div 4); d = d - 36524 * n100;
          n4 = d div 1461; d = d - 1461 * n4;
          n1 = (let q = d div 365 in q - q div 4); d = d - 365 * n1
      in (400 * n400 + 100 * n100 + 4 * n4 + n1 + 1, d))"

definition civil_from_days :: "int \<Rightarrow> int \<times> int \<times> int" where
  "civil_from_days n = (let (y, d) = year_day n in (y, find_month (month_lengths y) 1 d))"

section \<open>Format\<close>

definition pad :: "nat \<Rightarrow> int \<Rightarrow> string" where
  "pad w n = (let s = itoa n in replicate (w - length s) (CHR ''0'') @ s)"

definition pad_int :: "nat \<Rightarrow> int \<Rightarrow> string" where
  "pad_int w i = (if i < 0 then CHR ''-'' # pad w (- i) else pad w i)"

definition format_frac :: "int \<Rightarrow> string" where
  "format_frac ns =
     (if ns = 0 then [] else CHR ''.'' # rev (dropWhile (\<lambda>c. c = CHR ''0'') (rev (pad 9 ns))))"

definition time_Format :: "go_time \<Rightarrow> string" where
  "time_Format t =
     (let secs = t div 1000000000; ns = t mod 1000000000;
          sod = secs mod 86400; (y, m, d) = civil_from_days (secs div 86400)
      in pad_int 4 y @ ''-'' @ pad 2 m @ ''-'' @ pad 2 d @ ''T''
         @ pad 2 (sod div 3600) @ '':'' @ pad 2 (sod mod 3600 div 60) @ '':''
         @ pad 2 (sod mod 60) @ format_frac ns @ ''Z'')"

section \<open>Parse\<close>

text \<open>
  \<open>time.Parse\<close> walks the layout. \<open>getnum\<close> reads two digits, or one where the layout
  element allows it (the hour); the fraction takes a period or a comma and keeps nine
  digits; the zone is \<open>Z\<close> or \<open>+hh:mm\<close>.
\<close>

definition getnum :: "bool \<Rightarrow> string \<Rightarrow> (int \<times> string) option" where
  "getnum fixed s = (case s of
     a # r \<Rightarrow>
       if \<not> is_digit a then None
       else (case r of
          b # r' \<Rightarrow> if is_digit b then Some (digit_val a * 10 + digit_val b, r')
                   else if fixed then None else Some (digit_val a, r)
        | [] \<Rightarrow> if fixed then None else Some (digit_val a, []))
   | [] \<Rightarrow> None)"

definition skip :: "char \<Rightarrow> string \<Rightarrow> string option" where
  "skip c s = (case s of a # r \<Rightarrow> if a = c then Some r else None | [] \<Rightarrow> None)"

definition get_year :: "string \<Rightarrow> (int \<times> string) option" where
  "get_year s = (if 4 \<le> length s \<and> list_all is_digit (take 4 s)
     then Some (digits_val (take 4 s), drop 4 s) else None)"

definition get_frac :: "string \<Rightarrow> int \<times> string" where
  "get_frac s = (case s of
     c # r \<Rightarrow>
       (let ds = takeWhile is_digit r in
        if (c = CHR ''.'' \<or> c = CHR '','') \<and> ds \<noteq> []
        then (digits_val (take 9 ds) * 10 ^ (9 - length (take 9 ds)), drop (length ds) r)
        else (0, s))
   | [] \<Rightarrow> (0, []))"

definition get_zone :: "string \<Rightarrow> (int \<times> string) option" where
  "get_zone s = (case s of
     c # r \<Rightarrow>
       if c = CHR ''Z'' then Some (0, r)
       else if c \<noteq> CHR ''+'' \<and> c \<noteq> CHR ''-'' then None
       else do {
         (h, r1) \<leftarrow> getnum True r; r2 \<leftarrow> skip CHR '':'' r1; (m, r3) \<leftarrow> getnum True r2;
         (if h > 24 \<or> m > 60 then None
          else Some ((if c = CHR ''-'' then - 1 else 1) * (h * 60 + m) * 60, r3))
       }
   | [] \<Rightarrow> None)"

definition time_Parse :: "string \<Rightarrow> go_time option" where
  "time_Parse s0 = do {
     (y, s1) \<leftarrow> get_year s0;      s2 \<leftarrow> skip CHR ''-'' s1;
     (mo, s3) \<leftarrow> getnum True s2;  s4 \<leftarrow> skip CHR ''-'' s3;
     (d, s5) \<leftarrow> getnum True s4;   s6 \<leftarrow> skip CHR ''T'' s5;
     (h, s7) \<leftarrow> getnum False s6;  s8 \<leftarrow> skip CHR '':'' s7;
     (mi, s9) \<leftarrow> getnum True s8;  s10 \<leftarrow> skip CHR '':'' s9;
     (sec, s11) \<leftarrow> getnum True s10;
     let (ns, s12) = get_frac s11;
     (off, s13) \<leftarrow> get_zone s12;
     (if s13 \<noteq> [] \<or> mo < 1 \<or> 12 < mo \<or> 24 \<le> h \<or> 60 \<le> mi \<or> 60 \<le> sec
         \<or> d < 1 \<or> d > days_in mo y
      then None
      else Some ((days_from_civil y mo d * 86400 + h * 3600 + mi * 60 + sec - off)
                 * 1000000000 + ns))
   }"

lemma time_Parse_Nil [simp]: "time_Parse [] = None"
  by (simp add: time_Parse_def get_year_def)

section \<open>The civil date of a day number, and back\<close>

lemma year_day_cycles:
  fixes a b c e :: int
  assumes "0 \<le> b" "b \<le> 3" "0 \<le> c" "c \<le> 24" "0 \<le> e" "e \<le> 3"
  defines "y \<equiv> 400 * a + 100 * b + 4 * c + e + 1"
  shows "days_before_year y = 146097 * a + 36524 * b + 1461 * c + 365 * e"
    and "is_leap y \<longleftrightarrow> e = 3 \<and> (c < 24 \<or> b = 3)"
proof -
  have d4: "(y - 1) div 4 = 100 * a + 25 * b + c"
    by (rule int_div_pos_eq [of _ _ _ e]) (use assms in auto)
  have d100: "(y - 1) div 100 = 4 * a + b"
    by (rule int_div_pos_eq [of _ _ _ "4 * c + e"]) (use assms in auto)
  have d400: "(y - 1) div 400 = a"
    by (rule int_div_pos_eq [of _ _ _ "100 * b + 4 * c + e"]) (use assms in auto)
  show "days_before_year y = 146097 * a + 36524 * b + 1461 * c + 365 * e"
    unfolding days_before_year_def d4 d100 d400 by (simp add: y_def)
  have m4: "y mod 4 = (if e = 3 then 0 else e + 1)"
    by (rule int_mod_pos_eq [of _ _ "100 * a + 25 * b + c + (if e = 3 then 1 else 0)"])
      (use assms in auto)
  have m100: "y mod 100 = (if e = 3 \<and> c = 24 then 0 else 4 * c + e + 1)"
    by (rule int_mod_pos_eq [of _ _ "4 * a + b + (if e = 3 \<and> c = 24 then 1 else 0)"])
      (use assms in auto)
  have m400: "y mod 400 = (if e = 3 \<and> c = 24 \<and> b = 3 then 0 else 100 * b + 4 * c + e + 1)"
    by (rule int_mod_pos_eq [of _ _ "a + (if e = 3 \<and> c = 24 \<and> b = 3 then 1 else 0)"])
      (use assms in auto)
  show "is_leap y \<longleftrightarrow> e = 3 \<and> (c < 24 \<or> b = 3)"
    unfolding is_leap_def m4 m100 m400 using assms(1-6) by auto
qed

lemma capped_div:
  fixes r w :: int
  assumes "0 \<le> r" "r \<le> 4 * w" "0 < w"
  defines "b \<equiv> r div w - r div w div 4"
  shows "0 \<le> b" "b \<le> 3" "0 \<le> r - w * b" "r - w * b \<le> w" "b < 3 \<Longrightarrow> r - w * b < w"
    "r - w * b = w \<Longrightarrow> b = 3 \<and> r = 4 * w"
proof -
  define q where "q = r div w"
  define m where "m = r mod w"
  have m: "r = w * q + m" "0 \<le> m" "m < w"
    using assms(3) by (simp_all add: q_def m_def)
  then have q: "w * q \<le> r" "r < w * q + w" by linarith+
  have q0: "0 \<le> q" using assms by (simp add: q_def pos_imp_zdiv_nonneg_iff)
  have "q \<le> 4"
  proof (rule ccontr)
    assume "\<not> q \<le> 4"
    then have "w * 5 \<le> w * q" using assms(3) by (intro mult_left_mono) auto
    with q assms show False by simp
  qed
  then consider "q = 4" | "0 \<le> q" "q \<le> 3" using q0 by linarith
  then have "(b = 3 \<and> r = 4 * w) \<or> (b = q \<and> 0 \<le> q \<and> q \<le> 3)"
  proof cases
    case 1
    with q assms show ?thesis by (simp add: b_def flip: q_def)
  next
    case 2
    then have "q div 4 = 0" by simp
    with 2 show ?thesis by (simp add: b_def flip: q_def)
  qed
  then show "0 \<le> b" "b \<le> 3" "0 \<le> r - w * b" "r - w * b \<le> w" "b < 3 \<Longrightarrow> r - w * b < w"
    "r - w * b = w \<Longrightarrow> b = 3 \<and> r = 4 * w"
    using q assms(3) by (auto simp: algebra_simps)
qed

lemma year_day_spec:
  assumes "year_day n = (y, d)"
  shows "n = days_before_year y + d" and "0 \<le> d" and "d < (if is_leap y then 366 else 365)"
proof -
  define a r where "a = n div 146097" and "r = n mod 146097"
  define b s where "b = (let q = r div 36524 in q - q div 4)" and "s = r - 36524 * b"
  define c t where "c = s div 1461" and "t = s - 1461 * c"
  define e where "e = (let q = t div 365 in q - q div 4)"
  have y: "y = 400 * a + 100 * b + 4 * c + e + 1" and dd: "d = t - 365 * e"
    using assms by (auto simp: year_day_def Let_def a_def r_def b_def s_def c_def t_def e_def)
  have r: "0 \<le> r" "r < 146097" by (auto simp: r_def)
  have b0: "b = r div 36524 - r div 36524 div 4" by (simp add: b_def Let_def)
  note cb = capped_div [of r 36524, folded b0, folded s_def]
  have b: "0 \<le> b" "b \<le> 3" "0 \<le> s" "s \<le> 36524" "b < 3 \<Longrightarrow> s < 36524"
    using cb r by simp_all
  have st: "s = 1461 * c + t" "0 \<le> t" "t < 1461"
    by (simp_all add: t_def c_def minus_mult_div_eq_mod)
  have c: "0 \<le> c" "c \<le> 24" using st b(3,4) by linarith+
  have t: "0 \<le> t" "t \<le> 1460" "c = 24 \<Longrightarrow> b < 3 \<Longrightarrow> t < 1460"
    using st b(4,5) by linarith+
  have e0: "e = t div 365 - t div 365 div 4" by (simp add: e_def Let_def)
  note ce = capped_div [of t 365, folded e0, folded dd]
  have e: "0 \<le> e" "e \<le> 3" "0 \<le> d" "d \<le> 365" "d = 365 \<Longrightarrow> e = 3 \<and> t = 1460"
    using ce t by simp_all
  note cyc = year_day_cycles [OF b(1,2) c(1,2) e(1,2), of a, folded y]
  show "n = days_before_year y + d"
    using div_mult_mod_eq [of n 146097] by (simp add: cyc(1) dd t_def s_def a_def r_def)
  show "0 \<le> d" by (rule e)
  have "b = 3" if "c = 24" "t = 1460" using t(3) that b(2) by (cases "b < 3") auto
  then show "d < (if is_leap y then 366 else 365)"
    using e(4,5) c(2) unfolding cyc(2) by (cases "d = 365") auto
qed

lemma find_month_spec:
  assumes "find_month ls m d = (m', d')" "0 \<le> d" "d < sum_list ls"
  shows "\<exists>k < length ls. m' = m + int k \<and> 1 \<le> d' \<and> d' \<le> ls ! k
      \<and> d = sum_list (take k ls) + d' - 1"
  using assms
proof (induction ls m d rule: find_month.induct)
  case (1 m d)
  then show ?case by simp
next
  case (2 l ls m d)
  show ?case
  proof (cases "d < l")
    case True
    with 2 show ?thesis by (intro exI [of _ 0]) auto
  next
    case False
    with 2 obtain k where "k < length ls" "m' = m + 1 + int k" "1 \<le> d'" "d' \<le> ls ! k"
      "d - l = sum_list (take k ls) + d' - 1" by auto
    then show ?thesis by (intro exI [of _ "Suc k"]) auto
  qed
qed

lemma civil_round:
  assumes "civil_from_days n = (y, m, d)"
  shows "days_from_civil y m d = n" and "1 \<le> m" and "m \<le> 12" and "1 \<le> d" and "d \<le> days_in m y"
proof -
  obtain yd where yd: "year_day n = (y, yd)" "find_month (month_lengths y) 1 yd = (m, d)"
    using assms by (auto simp: civil_from_days_def split: prod.splits)
  note spec = year_day_spec [OF yd(1)]
  have "sum_list (month_lengths y) = (if is_leap y then 366 else 365)"
    by (simp add: month_lengths_def)
  with find_month_spec [OF yd(2)] spec obtain k where k: "k < length (month_lengths y)"
    "m = 1 + int k" "1 \<le> d" "d \<le> month_lengths y ! k"
    "yd = sum_list (take k (month_lengths y)) + d - 1" by auto
  then show "days_from_civil y m d = n" "1 \<le> m" "m \<le> 12" "1 \<le> d" "d \<le> days_in m y"
    using spec(1) by (auto simp: days_from_civil_def days_in_def month_lengths_def)
qed
section \<open>Digits\<close>

lemma length_format_base: "0 \<le> n \<Longrightarrow> n < 10 ^ Suc w \<Longrightarrow> length (format_base 10 n) \<le> Suc w"
proof (induction w arbitrary: n)
  case 0
  then show ?case by (simp add: format_base.simps)
next
  case (Suc w)
  have "n div 10 < 10 ^ Suc w" using Suc.prems by (simp add: div_less_iff_less_mult)
  with Suc.IH [of "n div 10"] Suc.prems show ?case
    by (subst format_base.simps) simp
qed

lemma fold_zeros: "fold (\<lambda>c acc. 10 * acc + digit_val c) (replicate k (CHR ''0'')) (0::int) = 0"
  by (induction k) (auto simp: digit_val_def)

lemma pad_spec:
  assumes "0 \<le> n" "n < 10 ^ Suc w"
  shows "length (pad (Suc w) n) = Suc w" "list_all is_digit (pad (Suc w) n)"
    "digits_val (pad (Suc w) n) = n"
proof -
  have p: "pad (Suc w) n = replicate (Suc w - length (format_base 10 n)) (CHR ''0'') @ format_base 10 n"
    using assms by (simp add: pad_def itoa_def Let_def)
  show "length (pad (Suc w) n) = Suc w" using length_format_base [OF assms] p by simp
  show "list_all is_digit (pad (Suc w) n)"
    using format_base_digits [OF assms(1)] p by (auto simp: list_all_iff is_digit_def)
  show "digits_val (pad (Suc w) n) = n"
    using digits_val_format_base [OF assms(1)]
    by (simp add: p digits_val_def fold_zeros del: fold_replicate)
qed

lemma getnum_pad: "0 \<le> n \<Longrightarrow> n < 100 \<Longrightarrow> getnum fixed (pad 2 n @ s) = Some (n, s)"
proof -
  assume n: "0 \<le> n" "n < 100"
  note sp = pad_spec [of n 1, unfolded Suc_1, OF n(1)]
  obtain a b where ab: "pad 2 n = [a, b]"
    using sp(1) n(2) by (auto simp: numeral_2_eq_2 length_Suc_conv)
  with sp n(2) show ?thesis by (simp add: getnum_def digits_val_def)
qed

lemma get_year_pad: "0 \<le> y \<Longrightarrow> y < 10000 \<Longrightarrow> get_year (pad_int 4 y @ s) = Some (y, s)"
  using pad_spec [of y 3] by (simp add: get_year_def pad_int_def)

lemma strip_zeros:
  "\<exists>k. xs = rev (dropWhile (\<lambda>c. c = z) (rev xs)) @ replicate k z"
proof (induction xs rule: rev_induct)
  case Nil
  then show ?case by simp
next
  case (snoc x xs)
  then obtain k where k: "xs = rev (dropWhile (\<lambda>c. c = z) (rev xs)) @ replicate k z" by blast
  show ?case
  proof (cases "x = z")
    case True
    have "xs @ [x] = rev (dropWhile (\<lambda>c. c = z) (rev xs)) @ replicate (Suc k) z"
      using k True by (metis append.assoc replicate_Suc replicate_append_same)
    moreover have "dropWhile (\<lambda>c. c = z) (rev (xs @ [x])) = dropWhile (\<lambda>c. c = z) (rev xs)"
      using True by simp
    ultimately show ?thesis by metis
  next
    case False
    then show ?thesis by (intro exI [of _ 0]) simp
  qed
qed

lemma digits_val_zeros: "digits_val (ds @ replicate k (CHR ''0'')) = digits_val ds * 10 ^ k"
  using fold_digits [of "replicate k (CHR ''0'')" "digits_val ds"]
  by (simp add: digits_val_def fold_zeros del: fold_replicate)

lemma get_frac_format:
  assumes "0 \<le> ns" "ns < 1000000000"
  shows "get_frac (format_frac ns @ ''Z'') = (ns, ''Z'')"
proof (cases "ns = 0")
  case True
  then show ?thesis by (simp add: format_frac_def get_frac_def)
next
  case False
  note sp = pad_spec [of ns 8, simplified, OF assms]
  define ds where "ds = rev (dropWhile (\<lambda>c. c = CHR ''0'') (rev (pad 9 ns)))"
  obtain k where k: "pad 9 ns = ds @ replicate k (CHR ''0'')"
    using strip_zeros [of "pad 9 ns"] by (auto simp: ds_def)
  then have len: "length ds + k = 9" using sp(1) by (metis length_append length_replicate)
  have dig: "list_all is_digit ds" using sp(2) by (simp add: k list_all_append)
  have val: "digits_val ds * 10 ^ k = ns" using sp(3) by (simp add: k digits_val_zeros)
  have ne: "ds \<noteq> []" using val False by (auto simp: digits_val_def)
  have fmt: "format_frac ns = CHR ''.'' # ds" using False by (simp add: format_frac_def ds_def)
  have tw: "takeWhile is_digit (ds @ ''Z'') = ds"
    using dig by (simp add: takeWhile_append2 list_all_iff is_digit_def)
  have "9 - length ds = k" "take 9 ds = ds" using len by auto
  with val ne show ?thesis
    by (simp add: get_frac_def fmt tw)
qed

lemma skip_Cons [simp]: "skip c (c # s) = Some s"
  by (simp add: skip_def)

text \<open>The layout writes a four-digit year, so the round trip holds from the zero time up to the year
10000.\<close>

definition year_10000 :: go_time where
  "year_10000 = days_before_year 10000 * 86400 * 1000000000"

lemma days_before_year_mono: "y \<le> y' \<Longrightarrow> days_before_year y \<le> days_before_year y'"
proof -
  assume le: "y \<le> y'"
  define u u' where "u = y - 1" and "u' = y' - 1"
  have uu: "u \<le> u'" using le by (simp add: u_def u'_def)
  have "100 * (u' div 100) \<le> u'" "u < 100 * (u div 100) + 100"
    using mult_div_mod_eq [of 100 u] mult_div_mod_eq [of 100 u'] pos_mod_sign [of 100 u']
      pos_mod_bound [of 100 u] by linarith+
  then have "u' div 100 - u div 100 \<le> u' - u" using uu by linarith
  moreover have "u div 4 \<le> u' div 4" "u div 400 \<le> u' div 400" using uu by (simp_all add: zdiv_mono1)
  ultimately show ?thesis
    unfolding days_before_year_def u_def [symmetric] u'_def [symmetric] using uu by linarith
qed

lemma time_Parse_Format:
  assumes "0 \<le> t" "t < year_10000"
  shows "time_Parse (time_Format t) = Some t"
proof -
  define secs ns where "secs = t div 1000000000" and "ns = t mod 1000000000"
  define day sod where "day = secs div 86400" and "sod = secs mod 86400"
  obtain y m d where ymd: "civil_from_days day = (y, m, d)" by (metis prod_cases3)
  note cr = civil_round [OF ymd]
  have day: "0 \<le> day" "day < days_before_year 10000"
    using assms by (auto simp: day_def secs_def year_10000_def pos_imp_zdiv_nonneg_iff
        div_less_iff_less_mult)
  obtain yd where yd: "year_day day = (y, yd)"
    using ymd by (auto simp: civil_from_days_def split: prod.splits)
  note ys = year_day_spec [OF yd]
  have y: "0 \<le> y" "y < 10000"
  proof -
    show "0 \<le> y"
    proof (rule ccontr)
      assume "\<not> 0 \<le> y"
      then have "days_before_year y \<le> days_before_year (- 1)" by (intro days_before_year_mono) simp
      also have "\<dots> = - 731" by (simp add: days_before_year_def)
      finally show False using ys day by (auto split: if_splits)
    qed
    show "y < 10000"
      using days_before_year_mono [of 10000 y] ys day by (cases "10000 \<le> y") auto
  qed
  have sod: "0 \<le> sod" "sod < 86400" by (auto simp: sod_def)
  define h mi sec where "h = sod div 3600" and "mi = sod mod 3600 div 60" and "sec = sod mod 60"
  have hms: "0 \<le> h" "h < 24" "0 \<le> mi" "mi < 60" "0 \<le> sec" "sec < 60"
    using sod by (auto simp: h_def mi_def sec_def div_less_iff_less_mult)
  have sum: "sod = h * 3600 + mi * 60 + sec"
  proof -
    have "sec = sod mod 3600 mod 60" by (simp add: sec_def mod_mod_cancel)
    then show ?thesis
      using div_mult_mod_eq [of sod 3600] div_mult_mod_eq [of "sod mod 3600" 60]
      unfolding h_def mi_def by linarith
  qed
  have ns: "0 \<le> ns" "ns < 1000000000" by (auto simp: ns_def)
  have fmt: "time_Format t = pad_int 4 y @ CHR ''-'' # pad 2 m @ CHR ''-'' # pad 2 d @ CHR ''T''
      # pad 2 h @ CHR '':'' # pad 2 mi @ CHR '':'' # pad 2 sec @ format_frac ns @ ''Z''"
    using ymd by (simp add: time_Format_def Let_def secs_def day_def sod_def h_def mi_def sec_def ns_def
        split: prod.splits)
  have dm: "d < 100" using cr(2-5)
  proof -
    have "days_in m y \<le> 31" using cr(2,3)
      by (auto simp: days_in_def month_lengths_def nth_Cons' split: if_splits)
    with cr(5) show ?thesis by simp
  qed
  have tt: "t = (day * 86400 + sod) * 1000000000 + ns"
    by (simp add: day_def sod_def secs_def ns_def)
  show ?thesis
    unfolding time_Parse_def fmt
    using y cr hms dm
    by (simp add: get_year_pad getnum_pad get_frac_format [OF ns] get_zone_def tt sum algebra_simps)
qed

end
