(* ===== verification/StateHelpers.thy ===== *)
theory StateHelpers
  imports StateRecord GoTime
begin

text \<open>
  \<open>internal/state/helpers.go\<close>: the record's own vocabulary. Lookups on a record, the
  reader watermarks, the delivery rule of an input, the entry a run keeps of an input,
  and the conditions list. A method with a pointer receiver returns the updated value;
  \<open>time.Now()\<close> is the argument \<open>now\<close>.
\<close>

section \<open>Lookups on a record\<close>

definition ContextID :: "ConversationRecord \<Rightarrow> string" where
  "ContextID r = (if cr_RuntimeContextID r \<noteq> [] then cr_RuntimeContextID r else cr_SessionID r)"

definition SetContextID :: "string \<Rightarrow> ConversationRecord \<Rightarrow> ConversationRecord" where
  "SetContextID i r = r\<lparr>cr_RuntimeContextID := i, cr_SessionID := []\<rparr>"

definition Thread :: "ConversationRecord \<Rightarrow> string \<Rightarrow> ThreadBinding option" where
  "Thread r channel = List.find (\<lambda>t. th_Channel t = channel) (cr_Threads r)"

definition ThreadFor :: "ConversationRecord \<Rightarrow> string \<Rightarrow> string option" where
  "ThreadFor r channel = map_option th_ThreadID
     (List.find (\<lambda>t. th_Channel t = channel \<and> th_ThreadID t \<noteq> []) (cr_Threads r))"

definition BoundTo :: "ConversationRecord \<Rightarrow> string \<Rightarrow> bool" where
  "BoundTo r channel \<longleftrightarrow> channel \<in> set (cr_ChannelRefs r)"

definition ThreadArchived :: "ConversationRecord \<Rightarrow> string \<Rightarrow> bool" where
  "ThreadArchived r channel \<longleftrightarrow> channel \<in> set (cr_ThreadsArchived r)"

definition SameOrigin :: "ConversationRecord \<Rightarrow> ConversationRecord \<Rightarrow> bool" where
  "SameOrigin r other =
     (if cr_PipelineRef r \<noteq> [] then cr_PipelineRef other = cr_PipelineRef r
      else if cr_CoordinatorRef r \<noteq> [] then cr_CoordinatorRef other = cr_CoordinatorRef r
      else False)"

section \<open>Reader watermarks\<close>

definition Watermark :: "ThreadBinding \<Rightarrow> string \<Rightarrow> string option" where
  "Watermark t reader =
     (if reader \<noteq> [] then
        (case List.find (\<lambda>m. rm_Key m = reader) (th_Readers t) of
           Some m \<Rightarrow> rm_ReadAt m
         | None \<Rightarrow> th_ReadAt t)
      else th_ReadAt t)"

definition ParseWatermark :: "string \<Rightarrow> go_time option" where
  "ParseWatermark s = (if s = [] then None else time_Parse s)"

definition Unread :: "ThreadBinding \<Rightarrow> go_time option \<Rightarrow> string \<Rightarrow> bool" where
  "Unread t lastActivity reader =
     (if \<not> th_ReadTracked t then False
      else (case Watermark t reader of
        None \<Rightarrow> True
      | Some at \<Rightarrow>
         (case ParseWatermark at of
            None \<Rightarrow> True
          | Some parsed \<Rightarrow>
             (case lastActivity of None \<Rightarrow> False | Some a \<Rightarrow> a > parsed))))"

definition UnreadFor :: "ConversationRecord \<Rightarrow> string \<Rightarrow> string \<Rightarrow> bool" where
  "UnreadFor r channel reader =
     (case Thread r channel of None \<Rightarrow> False | Some t \<Rightarrow> Unread t (cr_LastActivity r) reader)"

section \<open>Inputs and runs\<close>

definition OriginSurface :: "InputItem \<Rightarrow> labels \<Rightarrow> string" where
  "OriginSurface i labels =
     (case in_Origin i of
        None \<Rightarrow> []
      | Some o' \<Rightarrow>
          if io_Kind o' = OriginChannel then io_Name o'
          else if io_Kind o' = OriginSignal then label labels LabelChatChannel
          else [])"

definition OriginSender :: "InputItem \<Rightarrow> labels \<Rightarrow> string" where
  "OriginSender i labels =
     (case in_Origin i of
        Some o' \<Rightarrow> if io_Sender o' \<noteq> [] then io_Sender o' else label labels LabelChatSender
      | None \<Rightarrow> label labels LabelChatSender)"

definition TypedByAPerson :: "InputItem \<Rightarrow> bool" where
  "TypedByAPerson i =
     (case in_Origin i of
        None \<Rightarrow> False
      | Some o' \<Rightarrow> io_Kind o' = OriginChannel \<or> io_SignalKind o' = SignalKindChat)"

definition DeliverTo :: "InputItem \<Rightarrow> string \<Rightarrow> string \<Rightarrow> bool \<Rightarrow> bool" where
  "DeliverTo i channel originSurface originEchoes =
     (case in_Origin i of
        None \<Rightarrow> False
      | Some _ \<Rightarrow> \<not> (channel = originSurface \<and> originEchoes))"

definition Record :: "InputItem \<Rightarrow> string \<Rightarrow> labels \<Rightarrow> RecordedInput" where
  "Record i text labels =
     (let rs = runes text; long = length rs > MaxRecordedInputText in
      \<lparr>ri_ID = in_ID i, ri_Type = in_Type i,
       ri_Text = (if long then runes_string (take MaxRecordedInputText rs) else text),
       ri_Truncated = long,
       ri_PayloadRef = in_PayloadRef i,
       ri_Surface = OriginSurface i labels, ri_Sender = OriginSender i labels,
       ri_Origin = (case in_Origin i of None \<Rightarrow> [] | Some o' \<Rightarrow> io_Kind o'),
       ri_ReceivedAt = (if IsZero (in_ReceivedAt i) then None else Some (in_ReceivedAt i))\<rparr>)"

definition DeliveredTo :: "Run \<Rightarrow> string \<Rightarrow> bool" where
  "DeliveredTo r channel \<longleftrightarrow> channel \<in> set (run_Delivered r)"

section \<open>Conditions\<close>

definition FindCondition :: "ConversationRecord \<Rightarrow> string \<Rightarrow> Condition option" where
  "FindCondition r t = List.find (\<lambda>c. co_Type c = t) (cr_Conditions r)"

text \<open>The overwrite of an existing condition, field by field, and whether one differed.\<close>

definition merge_condition :: "go_time \<Rightarrow> Condition \<Rightarrow> Condition \<Rightarrow> Condition \<times> bool" where
  "merge_condition now existing c =
     (let stamp = (if IsZero (co_LastTransitionTime c) then now else co_LastTransitionTime c);
          moved = (co_Status existing \<noteq> co_Status c);
          e1 = (if moved then existing\<lparr>co_Status := co_Status c, co_LastTransitionTime := stamp\<rparr>
                else existing);
          ch1 = moved;
          ch2 = (ch1 \<or> co_Reason e1 \<noteq> co_Reason c);
          e2 = e1\<lparr>co_Reason := co_Reason c\<rparr>;
          ch3 = (ch2 \<or> co_Message e2 \<noteq> co_Message c);
          e3 = e2\<lparr>co_Message := co_Message c\<rparr>;
          ch4 = (ch3 \<or> co_ObservedGeneration e3 \<noteq> co_ObservedGeneration c);
          e4 = e3\<lparr>co_ObservedGeneration := co_ObservedGeneration c\<rparr>
      in (e4, ch4))"

fun update_first :: "('a \<Rightarrow> bool) \<Rightarrow> ('a \<Rightarrow> 'a) \<Rightarrow> 'a list \<Rightarrow> 'a list" where
  "update_first P f [] = []"
| "update_first P f (x # xs) = (if P x then f x # xs else x # update_first P f xs)"

definition SetCondition ::
    "go_time \<Rightarrow> Condition \<Rightarrow> ConversationRecord \<Rightarrow> ConversationRecord \<times> bool" where
  "SetCondition now c r =
     (case FindCondition r (co_Type c) of
        None \<Rightarrow>
          (let c' = (if IsZero (co_LastTransitionTime c)
                     then c\<lparr>co_LastTransitionTime := now\<rparr> else c)
           in (r\<lparr>cr_Conditions := cr_Conditions r @ [c']\<rparr>, True))
      | Some existing \<Rightarrow>
          (r\<lparr>cr_Conditions := update_first (\<lambda>x. co_Type x = co_Type c)
                (\<lambda>x. fst (merge_condition now x c)) (cr_Conditions r)\<rparr>,
           snd (merge_condition now existing c)))"

fun remove_first :: "('a \<Rightarrow> bool) \<Rightarrow> 'a list \<Rightarrow> 'a list" where
  "remove_first P [] = []"
| "remove_first P (x # xs) = (if P x then xs else x # remove_first P xs)"

definition RemoveCondition :: "string \<Rightarrow> ConversationRecord \<Rightarrow> ConversationRecord \<times> bool" where
  "RemoveCondition t r =
     (case FindCondition r t of
        None \<Rightarrow> (r, False)
      | Some _ \<Rightarrow> (r\<lparr>cr_Conditions := remove_first (\<lambda>c. co_Type c = t) (cr_Conditions r)\<rparr>, True))"

section \<open>Lemmas\<close>

lemma ContextID_SetContextID [simp]: "ContextID (SetContextID i r) = i"
  by (simp add: ContextID_def SetContextID_def)

lemma ThreadFor_nonempty: "ThreadFor r ch = Some t \<Longrightarrow> t \<noteq> []"
  by (auto simp: ThreadFor_def dest: find_Some_iff')

lemma update_first_none: "\<not> (\<exists>x \<in> set xs. P x) \<Longrightarrow> update_first P f xs = xs"
  by (induction xs) auto

lemma length_update_first [simp]: "length (update_first P f xs) = length xs"
  by (induction xs) auto

lemma find_update_first_same:
  "(\<And>x. P x \<Longrightarrow> P (f x)) \<Longrightarrow>
   List.find P (update_first P f xs) = map_option f (List.find P xs)"
  by (induction xs) auto

lemma find_update_first_other:
  "(\<And>x. P x \<Longrightarrow> \<not> Q x \<and> \<not> Q (f x)) \<Longrightarrow>
   List.find Q (update_first P f xs) = List.find Q xs"
  by (induction xs) auto

lemma find_append: "List.find P (xs @ ys) =
    (case List.find P xs of Some x \<Rightarrow> Some x | None \<Rightarrow> List.find P ys)"
  by (induction xs) auto

lemma merge_condition_type [simp]: "co_Type (fst (merge_condition now e c)) = co_Type e"
  by (simp add: merge_condition_def Let_def)

lemma merge_condition_fields [simp]:
  "co_Status (fst (merge_condition now e c)) = co_Status c"
  "co_Reason (fst (merge_condition now e c)) = co_Reason c"
  "co_Message (fst (merge_condition now e c)) = co_Message c"
  "co_ObservedGeneration (fst (merge_condition now e c)) = co_ObservedGeneration c"
  by (auto simp: merge_condition_def Let_def)

lemma merge_condition_time:
  "co_LastTransitionTime (fst (merge_condition now e c)) =
     (if co_Status e = co_Status c then co_LastTransitionTime e
      else if IsZero (co_LastTransitionTime c) then now else co_LastTransitionTime c)"
  by (simp add: merge_condition_def Let_def)

lemma merge_condition_changed:
  "snd (merge_condition now e c) \<longleftrightarrow>
     (co_Status e \<noteq> co_Status c \<or> co_Reason e \<noteq> co_Reason c \<or> co_Message e \<noteq> co_Message c
      \<or> co_ObservedGeneration e \<noteq> co_ObservedGeneration c)"
  by (auto simp: merge_condition_def Let_def)

lemma merge_condition_unchanged: "\<not> snd (merge_condition now e c) \<Longrightarrow> fst (merge_condition now e c) = e"
  by (simp add: merge_condition_def Let_def split: if_splits)

lemma FindCondition_type: "FindCondition r t = Some c \<Longrightarrow> co_Type c = t"
  by (auto simp: FindCondition_def dest: find_Some_iff')

lemma FindCondition_SetCondition_same:
  "FindCondition (fst (SetCondition now c r)) (co_Type c) =
     Some (case FindCondition r (co_Type c) of
        None \<Rightarrow> (if IsZero (co_LastTransitionTime c) then c\<lparr>co_LastTransitionTime := now\<rparr> else c)
      | Some e \<Rightarrow> fst (merge_condition now e c))"
  by (auto simp: SetCondition_def FindCondition_def find_append find_update_first_same
      split: option.splits)

lemma FindCondition_SetCondition_other:
  "t \<noteq> co_Type c \<Longrightarrow> FindCondition (fst (SetCondition now c r)) t = FindCondition r t"
  by (auto simp: SetCondition_def FindCondition_def find_append
      find_update_first_other split: option.splits)

lemma SetCondition_again:
  "snd (SetCondition now' c (fst (SetCondition now c r))) = False"
proof -
  obtain e where e: "FindCondition (fst (SetCondition now c r)) (co_Type c) = Some e"
    and eq: "co_Status e = co_Status c" "co_Reason e = co_Reason c" "co_Message e = co_Message c"
      "co_ObservedGeneration e = co_ObservedGeneration c"
    by (auto simp: FindCondition_SetCondition_same split: option.splits)
  show ?thesis
    by (simp add: SetCondition_def [where now = now'] e merge_condition_changed eq)
qed

lemma find_remove_first_other:
  "(\<And>x. P x \<Longrightarrow> \<not> Q x) \<Longrightarrow> List.find Q (remove_first P xs) = List.find Q xs"
  by (induction xs) auto

section \<open>Properties\<close>

text \<open>
  The entry a run keeps of a message holds the message's first
  \<^const>\<open>MaxRecordedInputText\<close> runes, cut on a rune boundary, is marked truncated exactly
  when something was cut, and is the message itself, byte for byte, when nothing was.
\<close>

theorem Record_keeps_a_rune_prefix:
  "runes (ri_Text (Record i msg labels)) = take MaxRecordedInputText (runes msg)
   \<and> ri_Truncated (Record i msg labels) = (MaxRecordedInputText < length (runes msg))
   \<and> (ri_Truncated (Record i msg labels) \<or> ri_Text (Record i msg labels) = msg)"
  by (auto simp: Record_def Let_def runes_take)

text \<open>
  Setting a condition leaves exactly one answer for its type, with the caller's
  status, reason and message; the transition time moves only with the status; every
  other type's condition is as it was; and setting the same condition again reports
  that nothing changed.
\<close>

theorem SetCondition_spec:
  "(\<exists>e. FindCondition (fst (SetCondition now c r)) (co_Type c) = Some e
        \<and> co_Status e = co_Status c \<and> co_Reason e = co_Reason c \<and> co_Message e = co_Message c
        \<and> co_LastTransitionTime e =
            (case FindCondition r (co_Type c) of
               Some old \<Rightarrow> if co_Status old = co_Status c then co_LastTransitionTime old
                          else if IsZero (co_LastTransitionTime c) then now
                          else co_LastTransitionTime c
             | None \<Rightarrow> if IsZero (co_LastTransitionTime c) then now else co_LastTransitionTime c))
   \<and> (\<forall>t. t = co_Type c \<or> FindCondition (fst (SetCondition now c r)) t = FindCondition r t)
   \<and> snd (SetCondition now' c (fst (SetCondition now c r))) = False"
  using SetCondition_again [of now' c now r] FindCondition_SetCondition_other [of _ c now r]
  by (auto simp: FindCondition_SetCondition_same merge_condition_time split: option.splits)

end
