(* ===== verification/StateSignal.thy ===== *)
theory StateSignal
  imports StateHelpers "HOL-Library.Multiset"
begin

text \<open>
  The Signal half of the state contract, \<open>internal/state/signal.go\<close>: the durable
  message of one admitted signal with its claimants' progress, the phase roll-up of
  \<open>helpers.go\<close>, the arrival order, and the cooldown and receipt entries.
\<close>

section \<open>Vocabulary and records\<close>

abbreviation SignalPending :: string where "SignalPending \<equiv> ''Pending''"
abbreviation SignalRouted :: string where "SignalRouted \<equiv> ''Routed''"
abbreviation SignalPartiallyRouted :: string where "SignalPartiallyRouted \<equiv> ''PartiallyRouted''"
abbreviation SignalDropped :: string where "SignalDropped \<equiv> ''Dropped''"
abbreviation SignalFailed :: string where "SignalFailed \<equiv> ''Failed''"

abbreviation ClaimantRouting :: string where "ClaimantRouting \<equiv> ''Routing''"
abbreviation ClaimantRouted :: string where "ClaimantRouted \<equiv> ''Routed''"
abbreviation ClaimantFailed :: string where "ClaimantFailed \<equiv> ''Failed''"
abbreviation ClaimantSkipped :: string where "ClaimantSkipped \<equiv> ''Skipped''"

abbreviation ClaimantKindPipeline :: string where "ClaimantKindPipeline \<equiv> ''Pipeline''"
abbreviation ClaimantKindCoordinator :: string where "ClaimantKindCoordinator \<equiv> ''Coordinator''"

definition TerminalSignalPhase :: "string \<Rightarrow> bool" where
  "TerminalSignalPhase phase \<longleftrightarrow>
     phase = SignalRouted \<or> phase = SignalDropped \<or> phase = SignalFailed"

record SignalClaimant =
  sc_Kind :: string
  sc_Name :: string
  sc_State :: string
  sc_ConversationRef :: ref
  sc_Reason :: string

record SignalRecord =
  sr_Name :: string
  sr_ID :: string
  sr_CreatedAt :: go_time
  sr_SourceID :: string
  sr_SourceRef :: ref
  sr_Adapter :: string
  sr_InitiationID :: string
  sr_SignalID :: string
  sr_Kind :: string
  sr_Title :: string
  sr_Severity :: string
  sr_Labels :: labels
  sr_Reader :: string
  sr_Payload :: string
  sr_Phase :: string
  sr_Reason :: string
  sr_Attempts :: int
  sr_FirstAttemptAt :: "go_time option"
  sr_CompletedAt :: "go_time option"
  sr_ConsumedBy :: string
  sr_ConsumedAt :: "go_time option"
  sr_Claimants :: "SignalClaimant list"
  sr_ExpiresAt :: "go_time option"

definition sr_Terminal :: "SignalRecord \<Rightarrow> bool" where
  "sr_Terminal r = TerminalSignalPhase (sr_Phase r)"

record Received =
  rc_Total :: int
  rc_Last :: "go_time option"

record CooldownEntry =
  ce_InitiationID :: string
  ce_At :: go_time

section \<open>Arrival order\<close>

definition SignalArrivesBefore :: "SignalRecord \<Rightarrow> SignalRecord \<Rightarrow> bool" where
  "SignalArrivesBefore a b =
     (if sr_CreatedAt a \<noteq> sr_CreatedAt b then sr_CreatedAt a < sr_CreatedAt b
      else sr_Name a < sr_Name b)"

text \<open>The pair the comparison reads, ordered lexicographically.\<close>

datatype arrival = Arrival (arr_at: go_time) (arr_name: string)

definition arrival_of :: "SignalRecord \<Rightarrow> arrival" where
  "arrival_of s = Arrival (sr_CreatedAt s) (sr_Name s)"

instantiation arrival :: linorder
begin

definition less_arrival :: "arrival \<Rightarrow> arrival \<Rightarrow> bool" where
  "less_arrival a b \<longleftrightarrow> arr_at a < arr_at b \<or> arr_at a = arr_at b \<and> arr_name a < arr_name b"

definition less_eq_arrival :: "arrival \<Rightarrow> arrival \<Rightarrow> bool" where
  "less_eq_arrival a b \<longleftrightarrow> a < b \<or> a = b"

instance
  by intro_classes (auto simp: less_arrival_def less_eq_arrival_def intro: arrival.expand
      dest: order.strict_trans)

end

lemma SignalArrivesBefore_iff: "SignalArrivesBefore a b \<longleftrightarrow> arrival_of a < arrival_of b"
  by (auto simp: SignalArrivesBefore_def less_arrival_def arrival_of_def)

section \<open>The phase roll-up\<close>

definition SignalRollupPhase :: "SignalClaimant list \<Rightarrow> string" where
  "SignalRollupPhase claimants =
     (if claimants = [] then SignalPending
      else
        let anyRouting = list_ex (\<lambda>c. sc_State c = ClaimantRouting) claimants;
            anyRouted = list_ex (\<lambda>c. sc_State c = ClaimantRouted) claimants
        in if anyRouting \<and> anyRouted then SignalPartiallyRouted
           else if anyRouting then SignalPending
           else if anyRouted then SignalRouted
           else SignalFailed)"

lemma SignalRollupPhase_terminal:
  "TerminalSignalPhase (SignalRollupPhase cs) \<longleftrightarrow>
     cs \<noteq> [] \<and> (\<forall>c \<in> set cs. sc_State c \<noteq> ClaimantRouting)"
  by (auto simp: TerminalSignalPhase_def SignalRollupPhase_def Let_def list_ex_iff)

text \<open>
  A signal's phase is a function of its claimants: it is final exactly when there is a
  claimant and none is still routing, it is \<open>Routed\<close> exactly when moreover one of them
  was routed, \<open>Failed\<close> when none was, \<open>PartiallyRouted\<close> when some were and some still
  route; and it is never \<open>Dropped\<close>.
\<close>

theorem SignalRollupPhase_spec:
  "(TerminalSignalPhase (SignalRollupPhase cs) \<longleftrightarrow>
      cs \<noteq> [] \<and> \<not> (\<exists>c \<in> set cs. sc_State c = ClaimantRouting))
   \<and> (SignalRollupPhase cs = SignalRouted \<longleftrightarrow>
      (\<exists>c \<in> set cs. sc_State c = ClaimantRouted) \<and> \<not> (\<exists>c \<in> set cs. sc_State c = ClaimantRouting))
   \<and> (SignalRollupPhase cs = SignalPartiallyRouted \<longleftrightarrow>
      (\<exists>c \<in> set cs. sc_State c = ClaimantRouted) \<and> (\<exists>c \<in> set cs. sc_State c = ClaimantRouting))
   \<and> (SignalRollupPhase cs = SignalFailed \<longleftrightarrow>
      cs \<noteq> [] \<and> \<not> (\<exists>c \<in> set cs. sc_State c = ClaimantRouted \<or> sc_State c = ClaimantRouting))
   \<and> SignalRollupPhase cs \<noteq> SignalDropped"
  by (auto simp: TerminalSignalPhase_def SignalRollupPhase_def Let_def list_ex_iff)

text \<open>
  Sorting the messages of one conversation by arrival gives one order, whatever order
  the store listed them in, as long as their names differ: the comparison the consumer
  uses is the strict part of a linear order on (creation instant, name).
\<close>

theorem arrival_order_is_unique:
  assumes "distinct (map sr_Name xs)" and "set xs = set ys" and "distinct ys"
  shows "sort_key arrival_of xs = sort_key arrival_of ys
    \<and> sorted_wrt SignalArrivesBefore (sort_key arrival_of xs)"
proof
  have inj: "inj_on arrival_of (set xs)"
    using assms(1) by (auto simp: inj_on_def arrival_of_def distinct_map)
  have dx: "distinct xs" using assms(1) by (simp add: distinct_map)
  have "mset xs = mset ys" using dx assms(2,3) by (simp add: set_eq_iff_mset_eq_distinct)
  then have m: "mset (sort_key arrival_of xs) = mset (sort_key arrival_of ys)" by simp
  show eq: "sort_key arrival_of xs = sort_key arrival_of ys"
    by (rule sort_key_eq_sort_key [OF \<open>mset xs = mset ys\<close> inj])
  have "sorted (map arrival_of (sort_key arrival_of xs))" by simp
  moreover have "distinct (map arrival_of (sort_key arrival_of xs))"
    using inj dx by (simp add: distinct_map)
  ultimately have "sorted_wrt (<) (map arrival_of (sort_key arrival_of xs))"
    by (simp add: strict_sorted_iff)
  then show "sorted_wrt SignalArrivesBefore (sort_key arrival_of xs)"
    by (simp add: sorted_wrt_map SignalArrivesBefore_iff [abs_def])
qed

text \<open>Two messages of one instant, listed in either order.\<close>

definition sample_signal :: "string \<Rightarrow> go_time \<Rightarrow> SignalRecord" where
  "sample_signal n at = \<lparr>sr_Name = n, sr_ID = [], sr_CreatedAt = at, sr_SourceID = [], sr_SourceRef = [],
     sr_Adapter = [], sr_InitiationID = [], sr_SignalID = [], sr_Kind = [], sr_Title = [],
     sr_Severity = [], sr_Labels = Map.empty, sr_Reader = [], sr_Payload = [], sr_Phase = [],
     sr_Reason = [], sr_Attempts = 0, sr_FirstAttemptAt = None, sr_CompletedAt = None,
     sr_ConsumedBy = [], sr_ConsumedAt = None, sr_Claimants = [], sr_ExpiresAt = None\<rparr>"

theorem arrival_order_is_unique_witness:
  "sort_key arrival_of [sample_signal ''b'' 5, sample_signal ''a'' 5, sample_signal ''z'' 1]
    = sort_key arrival_of [sample_signal ''z'' 1, sample_signal ''a'' 5, sample_signal ''b'' 5]
   \<and> sorted_wrt SignalArrivesBefore
      (sort_key arrival_of [sample_signal ''b'' 5, sample_signal ''a'' 5, sample_signal ''z'' 1])"
  by (rule arrival_order_is_unique) (auto simp: sample_signal_def)

end
