(* ===== verification/ApiTypes.thy ===== *)
theory ApiTypes
  imports StateSignal
begin

text \<open>
  The custom resources behind the kube backend: \<open>api/v1alpha1/conversation_types.go\<close>,
  \<open>common_types.go\<close>, \<open>conversationinput_types.go\<close>, \<open>signal_types.go\<close> and
  \<open>signalsource_types.go\<close>, with the part of \<open>metav1.ObjectMeta\<close> the code reads. A
  \<open>metav1.Time\<close> is its instant; the string-typed enumerations are strings.
\<close>

section \<open>Shared pieces\<close>

record ObjectRef =
  obj_Name :: string

record api_ToolsetBinding =
  ats_Mode :: string
  ats_Refs :: "ObjectRef list"

record api_ToolingBinding =
  atl_Refs :: "ObjectRef list"

record OwnerReference =
  ow_APIVersion :: string
  ow_Kind :: string
  ow_Name :: string
  ow_UID :: string
  ow_Controller :: "bool option"
  ow_BlockOwnerDeletion :: "bool option"

record ObjectMeta =
  om_Name :: string
  om_UID :: string
  om_ResourceVersion :: string
  om_CreationTimestamp :: go_time
  om_DeletionTimestamp :: "go_time option"
  om_Finalizers :: "string list"
  om_Labels :: labels
  om_Annotations :: labels
  om_OwnerReferences :: "OwnerReference list"

definition zero_meta :: ObjectMeta where
  "zero_meta = \<lparr>om_Name = [], om_UID = [], om_ResourceVersion = [], om_CreationTimestamp = 0,
     om_DeletionTimestamp = None, om_Finalizers = [], om_Labels = Map.empty,
     om_Annotations = Map.empty, om_OwnerReferences = []\<rparr>"

abbreviation LabelCausedBy :: string where "LabelCausedBy \<equiv> ''agentops.dev/caused-by''"
abbreviation LabelNameBase :: string where "LabelNameBase \<equiv> ''agentops.dev/name-base''"
abbreviation LabelChatMessage :: string where "LabelChatMessage \<equiv> ''agentops.dev/message''"

section \<open>Conversation\<close>

record api_Provenance =
  apv_Parent :: string
  apv_Entry :: string

record api_OriginReader =
  aor_Channel :: string
  aor_Key :: string

record api_SignalProvenance =
  asp_SourceRef :: "ObjectRef option"
  asp_Labels :: labels
  asp_Severity :: string

record api_InputOrigin =
  aio_Kind :: string
  aio_Name :: string
  aio_Entry :: string
  aio_SignalKind :: string
  aio_Sender :: string

record api_InputItem =
  ain_ID :: string
  ain_Type :: string
  ain_Payload :: string
  ain_PayloadRef :: "ObjectRef option"
  ain_Agent :: string
  ain_Origin :: "api_InputOrigin option"
  ain_ReceivedAt :: go_time

record ConversationSpec =
  cs_CausedBy :: "api_Provenance option"
  cs_CoordinatorRef :: "ObjectRef option"
  cs_EscalationChannelRefs :: "ObjectRef list"
  cs_ChannelRefs :: "ObjectRef list"
  cs_ProfileRef :: ObjectRef
  cs_PipelineRef :: "ObjectRef option"
  cs_Signal :: "api_SignalProvenance option"
  cs_Title :: string
  cs_ConversationID :: string
  cs_OriginReader :: "api_OriginReader option"
  cs_Toolsets :: "api_ToolsetBinding option"
  cs_MCPConfigs :: "api_ToolingBinding option"
  cs_RuntimeRef :: "ObjectRef option"
  cs_ServiceAccountName :: string
  cs_ContextClaimName :: string
  cs_WorkspaceClaimName :: string
  cs_Inputs :: "api_InputItem list"

record api_RecordedInput =
  ari_ID :: string
  ari_Type :: string
  ari_Text :: string
  ari_Truncated :: bool
  ari_PayloadRef :: "ObjectRef option"
  ari_Surface :: string
  ari_Sender :: string
  ari_Origin :: string
  ari_ReceivedAt :: "go_time option"

record RunStatus =
  rs_RunID :: string
  rs_JobKind :: string
  rs_Status :: string
  rs_ExitCode :: "int option"
  rs_Result :: string
  rs_StartedAt :: "go_time option"
  rs_FinishedAt :: "go_time option"
  rs_InputIDs :: "string list"
  rs_DeliveryTracked :: bool
  rs_Delivered :: "string list"
  rs_RoutedToParent :: bool
  rs_Inputs :: "api_RecordedInput list"

record api_ReaderMark =
  arm_Key :: string
  arm_ReadAt :: "string option"

record api_OpClaim =
  aoc_Holder :: string
  aoc_ClaimedAt :: go_time

record api_ThreadBinding =
  ath_Channel :: string
  ath_ThreadID :: string
  ath_ReadAt :: "string option"
  ath_ReadTracked :: bool
  ath_Readers :: "api_ReaderMark list"
  ath_UndeliveredReply :: string
  ath_Claim :: "api_OpClaim option"

record api_InflightRun =
  aif_RunID :: string
  aif_InputIDs :: "string list"
  aif_DispatchedAt :: go_time
  aif_Moved :: bool

record api_ConversationBudget =
  abd_MaxAgents :: int
  abd_MaxTurns :: int
  abd_Deadline :: "go_time option"
  abd_AgentsInvoked :: int
  abd_Turns :: int

record api_ContextCheckpoint =
  acp_At :: go_time
  acp_Generation :: string
  acp_Quiesced :: bool
  acp_Bytes :: int

record meta_Condition =
  mc_Type :: string
  mc_Status :: string
  mc_Reason :: string
  mc_Message :: string
  mc_ObservedGeneration :: int
  mc_LastTransitionTime :: go_time

record ConversationStatus =
  ct_Phase :: string
  ct_Threads :: "api_ThreadBinding list"
  ct_RuntimeContextID :: string
  ct_SessionID :: string
  ct_RuntimePod :: string
  ct_Inflight :: "api_InflightRun option"
  ct_Runs :: "RunStatus list"
  ct_ProcessedInputIDs :: "string list"
  ct_LastActivity :: "go_time option"
  ct_ClosedAt :: "go_time option"
  ct_Budget :: "api_ConversationBudget option"
  ct_EscalatedAt :: "go_time option"
  ct_EscalationMessage :: string
  ct_CloseReason :: string
  ct_Brief :: string
  ct_ThreadsArchived :: "string list"
  ct_Reopens :: int
  ct_ContextCheckpoint :: "api_ContextCheckpoint option"
  ct_RuntimeStartFailures :: int
  ct_LastRuntimeStartFailure :: "go_time option"
  ct_Conditions :: "meta_Condition list"

record Conversation =
  c_Meta :: ObjectMeta
  c_Spec :: ConversationSpec
  c_Status :: ConversationStatus

definition zero_spec :: ConversationSpec where
  "zero_spec = \<lparr>cs_CausedBy = None, cs_CoordinatorRef = None, cs_EscalationChannelRefs = [],
     cs_ChannelRefs = [], cs_ProfileRef = \<lparr>obj_Name = []\<rparr>, cs_PipelineRef = None,
     cs_Signal = None, cs_Title = [], cs_ConversationID = [], cs_OriginReader = None,
     cs_Toolsets = None, cs_MCPConfigs = None, cs_RuntimeRef = None,
     cs_ServiceAccountName = [], cs_ContextClaimName = [], cs_WorkspaceClaimName = [],
     cs_Inputs = []\<rparr>"

definition zero_status :: ConversationStatus where
  "zero_status = \<lparr>ct_Phase = [], ct_Threads = [], ct_RuntimeContextID = [], ct_SessionID = [],
     ct_RuntimePod = [], ct_Inflight = None, ct_Runs = [], ct_ProcessedInputIDs = [],
     ct_LastActivity = None, ct_ClosedAt = None, ct_Budget = None, ct_EscalatedAt = None,
     ct_EscalationMessage = [], ct_CloseReason = [], ct_Brief = [], ct_ThreadsArchived = [],
     ct_Reopens = 0, ct_ContextCheckpoint = None, ct_RuntimeStartFailures = 0,
     ct_LastRuntimeStartFailure = None, ct_Conditions = []\<rparr>"

definition zero_Conversation :: Conversation where
  "zero_Conversation = \<lparr>c_Meta = zero_meta, c_Spec = zero_spec, c_Status = zero_status\<rparr>"

record ConversationInputSpec =
  ci_ConversationRef :: ObjectRef
  ci_Type :: string
  ci_Payload :: string
  ci_Labels :: labels
  ci_Severity :: string

record ConversationInput =
  ci_Meta :: ObjectMeta
  ci_Spec :: ConversationInputSpec

section \<open>Bounds the API declares\<close>

definition MaxConversationTitle :: nat where
  "MaxConversationTitle = 500"

definition BoundConversationTitle :: "string \<Rightarrow> string" where
  "BoundConversationTitle s =
     (let rs = runes s in
      if length rs \<le> MaxConversationTitle then s else runes_string (take MaxConversationTitle rs))"

lemma BoundConversationTitle_runes:
  "runes (BoundConversationTitle s) = take MaxConversationTitle (runes s)"
  by (simp add: BoundConversationTitle_def Let_def runes_take)

section \<open>Signal and SignalSource\<close>

record api_SignalSpec =
  as_SourceRef :: ObjectRef
  as_Adapter :: string
  as_InitiationID :: string
  as_SignalID :: string
  as_Kind :: string
  as_Title :: string
  as_Severity :: string
  as_Labels :: labels
  as_Reader :: string
  as_Payload :: string

record ClaimantRef =
  clr_Kind :: string
  clr_Name :: string

record api_SignalClaimant =
  asc_Ref :: ClaimantRef
  asc_State :: string
  asc_ConversationRef :: "ObjectRef option"
  asc_Reason :: string

record api_SignalStatus =
  at_Phase :: string
  at_Reason :: string
  at_Attempts :: int
  at_FirstAttemptAt :: "go_time option"
  at_CompletedAt :: "go_time option"
  at_ConsumedBy :: string
  at_ConsumedAt :: "go_time option"
  at_Claimants :: "api_SignalClaimant list"

record Signal =
  sg_Meta :: ObjectMeta
  sg_Spec :: api_SignalSpec
  sg_Status :: api_SignalStatus

record api_CooldownEntry =
  ace_InitiationID :: string
  ace_At :: go_time

record SignalSourceStatus =
  sst_LastReceived :: "go_time option"
  sst_ReceivedTotal :: int
  sst_Cooldown :: "api_CooldownEntry list"

record SignalSource =
  ss_Meta :: ObjectMeta
  ss_CooldownHours :: int
  ss_Status :: SignalSourceStatus

end
