(* ===== verification/KubeMapping.thy ===== *)
theory KubeMapping
  imports ApiTypes
begin

text \<open>
  \<open>internal/state/kube/mapping.go\<close>, \<open>blobs.go\<close>, \<open>signal_mapping.go\<close> and the annotation
  half of \<open>expiry.go\<close>: the record to and from the custom resources. The \<open>apply\<close>
  functions, which write through a pointer, return the updated object.
\<close>

section \<open>Leaves\<close>

definition refToObjectRef :: "ref \<Rightarrow> ObjectRef option" where
  "refToObjectRef r = (if r = [] then None else Some \<lparr>obj_Name = r\<rparr>)"

definition objectRefToRef :: "ObjectRef option \<Rightarrow> ref" where
  "objectRefToRef r = (case r of None \<Rightarrow> [] | Some o' \<Rightarrow> obj_Name o')"

definition refsToObjectRefs :: "ref list \<Rightarrow> ObjectRef list" where
  "refsToObjectRefs refs = map (\<lambda>r. \<lparr>obj_Name = r\<rparr>) refs"

definition objectRefsToRefs :: "ObjectRef list \<Rightarrow> ref list" where
  "objectRefsToRefs refs = map obj_Name refs"

definition keyToObjectRef :: "key \<Rightarrow> ObjectRef option" where
  "keyToObjectRef k = (if k = [] then None else Some \<lparr>obj_Name = k\<rparr>)"

definition objectRefToKey :: "ObjectRef option \<Rightarrow> key" where
  "objectRefToKey r = (case r of None \<Rightarrow> [] | Some o' \<Rightarrow> obj_Name o')"

definition metaTimeToTimePtr :: "go_time option \<Rightarrow> go_time option" where
  "metaTimeToTimePtr t = (case t of None \<Rightarrow> None | Some x \<Rightarrow> Some x)"

definition timeToMetaTimePtr :: "go_time option \<Rightarrow> go_time option" where
  "timeToMetaTimePtr t = (case t of None \<Rightarrow> None | Some x \<Rightarrow> Some x)"

section \<open>Expiry annotation\<close>

abbreviation ExpiresAtAnnotation :: string where
  "ExpiresAtAnnotation \<equiv> ''agentops.dev/state-expires-at''"

definition expiresAtFromAnnotations :: "labels \<Rightarrow> go_time option" where
  "expiresAtFromAnnotations annotations =
     (case annotations ExpiresAtAnnotation of
        None \<Rightarrow> None
      | Some v \<Rightarrow> if v = [] then None else time_Parse v)"

definition setExpiresAt :: "ObjectMeta \<Rightarrow> go_time option \<Rightarrow> ObjectMeta" where
  "setExpiresAt m at =
     (case at of
        None \<Rightarrow> m\<lparr>om_Annotations := (om_Annotations m)(ExpiresAtAnnotation := None)\<rparr>
      | Some t \<Rightarrow> m\<lparr>om_Annotations := (om_Annotations m)(ExpiresAtAnnotation \<mapsto> time_Format t)\<rparr>)"

definition isExpired :: "Conversation \<Rightarrow> go_time \<Rightarrow> bool" where
  "isExpired conv now =
     (case expiresAtFromAnnotations (om_Annotations (c_Meta conv)) of
        None \<Rightarrow> False | Some at \<Rightarrow> at < now)"

section \<open>Nested shapes\<close>

definition toStateInputOrigin :: "api_InputOrigin \<Rightarrow> InputOrigin" where
  "toStateInputOrigin x = \<lparr>io_Kind = aio_Kind x, io_Name = aio_Name x, io_Entry = aio_Entry x,
     io_SignalKind = aio_SignalKind x, io_Sender = aio_Sender x\<rparr>"

definition toAPIInputOrigin :: "InputOrigin \<Rightarrow> api_InputOrigin" where
  "toAPIInputOrigin x = \<lparr>aio_Kind = io_Kind x, aio_Name = io_Name x, aio_Entry = io_Entry x,
     aio_SignalKind = io_SignalKind x, aio_Sender = io_Sender x\<rparr>"

definition toStateInputItems :: "api_InputItem list \<Rightarrow> InputItem list" where
  "toStateInputItems items = map (\<lambda>it.
     \<lparr>in_ID = ain_ID it, in_Type = ain_Type it, in_Agent = ain_Agent it,
      in_Payload = ain_Payload it, in_PayloadRef = objectRefToKey (ain_PayloadRef it),
      in_Origin = map_option toStateInputOrigin (ain_Origin it),
      in_ReceivedAt = ain_ReceivedAt it\<rparr>) items"

definition toAPIInputItems :: "InputItem list \<Rightarrow> api_InputItem list" where
  "toAPIInputItems items = map (\<lambda>it.
     \<lparr>ain_ID = in_ID it, ain_Type = in_Type it, ain_Payload = in_Payload it,
      ain_PayloadRef = keyToObjectRef (in_PayloadRef it), ain_Agent = in_Agent it,
      ain_Origin = map_option toAPIInputOrigin (in_Origin it),
      ain_ReceivedAt = in_ReceivedAt it\<rparr>) items"

definition toStateRecordedInput :: "api_RecordedInput \<Rightarrow> RecordedInput" where
  "toStateRecordedInput r = \<lparr>ri_ID = ari_ID r, ri_Type = ari_Type r, ri_Text = ari_Text r,
     ri_Truncated = ari_Truncated r, ri_PayloadRef = objectRefToKey (ari_PayloadRef r),
     ri_Surface = ari_Surface r, ri_Sender = ari_Sender r, ri_Origin = ari_Origin r,
     ri_ReceivedAt = metaTimeToTimePtr (ari_ReceivedAt r)\<rparr>"

definition toAPIRecordedInput :: "RecordedInput \<Rightarrow> api_RecordedInput" where
  "toAPIRecordedInput r = \<lparr>ari_ID = ri_ID r, ari_Type = ri_Type r, ari_Text = ri_Text r,
     ari_Truncated = ri_Truncated r, ari_PayloadRef = keyToObjectRef (ri_PayloadRef r),
     ari_Surface = ri_Surface r, ari_Sender = ri_Sender r, ari_Origin = ri_Origin r,
     ari_ReceivedAt = timeToMetaTimePtr (ri_ReceivedAt r)\<rparr>"

definition toStateRecordedInputs :: "api_RecordedInput list \<Rightarrow> RecordedInput list" where
  "toStateRecordedInputs ris = map toStateRecordedInput ris"

definition toAPIRecordedInputs :: "RecordedInput list \<Rightarrow> api_RecordedInput list" where
  "toAPIRecordedInputs ris = map toAPIRecordedInput ris"

definition toStateReaderMarks :: "api_ReaderMark list \<Rightarrow> ReaderMark list" where
  "toStateReaderMarks rs = map (\<lambda>r. \<lparr>rm_Key = arm_Key r, rm_ReadAt = arm_ReadAt r\<rparr>) rs"

definition toAPIReaderMarks :: "ReaderMark list \<Rightarrow> api_ReaderMark list" where
  "toAPIReaderMarks rs = map (\<lambda>r. \<lparr>arm_Key = rm_Key r, arm_ReadAt = rm_ReadAt r\<rparr>) rs"

definition toStateOpClaim :: "api_OpClaim option \<Rightarrow> OpClaim option" where
  "toStateOpClaim c = (case c of None \<Rightarrow> None
     | Some x \<Rightarrow> Some \<lparr>oc_Holder = aoc_Holder x, oc_ClaimedAt = aoc_ClaimedAt x\<rparr>)"

definition toAPIOpClaim :: "OpClaim option \<Rightarrow> api_OpClaim option" where
  "toAPIOpClaim c = (case c of None \<Rightarrow> None
     | Some x \<Rightarrow> Some \<lparr>aoc_Holder = oc_Holder x, aoc_ClaimedAt = oc_ClaimedAt x\<rparr>)"

definition toStateThreadBindings :: "api_ThreadBinding list \<Rightarrow> ThreadBinding list" where
  "toStateThreadBindings tbs = map (\<lambda>tb.
     \<lparr>th_Channel = ath_Channel tb, th_ThreadID = ath_ThreadID tb, th_ReadAt = ath_ReadAt tb,
      th_ReadTracked = ath_ReadTracked tb, th_Readers = toStateReaderMarks (ath_Readers tb),
      th_UndeliveredReply = ath_UndeliveredReply tb, th_Claim = toStateOpClaim (ath_Claim tb)\<rparr>) tbs"

definition toAPIThreadBindings :: "ThreadBinding list \<Rightarrow> api_ThreadBinding list" where
  "toAPIThreadBindings tbs = map (\<lambda>tb.
     \<lparr>ath_Channel = th_Channel tb, ath_ThreadID = th_ThreadID tb, ath_ReadAt = th_ReadAt tb,
      ath_ReadTracked = th_ReadTracked tb, ath_Readers = toAPIReaderMarks (th_Readers tb),
      ath_UndeliveredReply = th_UndeliveredReply tb, ath_Claim = toAPIOpClaim (th_Claim tb)\<rparr>) tbs"

definition toStateConditions :: "meta_Condition list \<Rightarrow> Condition list" where
  "toStateConditions cs = map (\<lambda>c.
     \<lparr>co_Type = mc_Type c, co_Status = mc_Status c, co_Reason = mc_Reason c,
      co_Message = mc_Message c, co_ObservedGeneration = mc_ObservedGeneration c,
      co_LastTransitionTime = mc_LastTransitionTime c\<rparr>) cs"

definition toAPIConditions :: "Condition list \<Rightarrow> meta_Condition list" where
  "toAPIConditions cs = map (\<lambda>c.
     \<lparr>mc_Type = co_Type c, mc_Status = co_Status c, mc_Reason = co_Reason c,
      mc_Message = co_Message c, mc_ObservedGeneration = co_ObservedGeneration c,
      mc_LastTransitionTime = co_LastTransitionTime c\<rparr>) cs"

definition toRun :: "RunStatus \<Rightarrow> Run" where
  "toRun rs = \<lparr>run_RunID = rs_RunID rs, run_JobKind = rs_JobKind rs, run_Status = rs_Status rs,
     run_ExitCode = rs_ExitCode rs, run_Result = rs_Result rs,
     run_StartedAt = metaTimeToTimePtr (rs_StartedAt rs),
     run_FinishedAt = metaTimeToTimePtr (rs_FinishedAt rs), run_InputIDs = rs_InputIDs rs,
     run_DeliveryTracked = rs_DeliveryTracked rs, run_Delivered = rs_Delivered rs,
     run_RoutedToParent = rs_RoutedToParent rs,
     run_Inputs = toStateRecordedInputs (rs_Inputs rs)\<rparr>"

definition toRunStatus :: "Run \<Rightarrow> RunStatus" where
  "toRunStatus r = \<lparr>rs_RunID = run_RunID r, rs_JobKind = run_JobKind r, rs_Status = run_Status r,
     rs_ExitCode = run_ExitCode r, rs_Result = run_Result r,
     rs_StartedAt = timeToMetaTimePtr (run_StartedAt r),
     rs_FinishedAt = timeToMetaTimePtr (run_FinishedAt r), rs_InputIDs = run_InputIDs r,
     rs_DeliveryTracked = run_DeliveryTracked r, rs_Delivered = run_Delivered r,
     rs_RoutedToParent = run_RoutedToParent r,
     rs_Inputs = toAPIRecordedInputs (run_Inputs r)\<rparr>"

section \<open>The control record\<close>

definition toRecord :: "Conversation \<Rightarrow> ConversationRecord" where
  "toRecord conv =
    (let m = c_Meta conv; s = c_Spec conv; st = c_Status conv in
     \<lparr>cr_Name = om_Name m,
      cr_ID = om_UID m,
      cr_CreatedAt = om_CreationTimestamp m,
      cr_DeletionRequestedAt = metaTimeToTimePtr (om_DeletionTimestamp m),
      cr_Finalizers = om_Finalizers m,
      cr_NameBase = label (om_Labels m) LabelNameBase,
      cr_CausedBy = (case cs_CausedBy s of None \<Rightarrow> None
        | Some x \<Rightarrow> Some \<lparr>pv_Parent = apv_Parent x, pv_Entry = apv_Entry x\<rparr>),
      cr_CoordinatorRef = objectRefToRef (cs_CoordinatorRef s),
      cr_EscalationChannelRefs = objectRefsToRefs (cs_EscalationChannelRefs s),
      cr_ChannelRefs = objectRefsToRefs (cs_ChannelRefs s),
      cr_ProfileRef = obj_Name (cs_ProfileRef s),
      cr_PipelineRef = objectRefToRef (cs_PipelineRef s),
      cr_Signal = (case cs_Signal s of None \<Rightarrow> None
        | Some x \<Rightarrow> Some \<lparr>sp_SourceRef = objectRefToRef (asp_SourceRef x),
            sp_Labels = asp_Labels x, sp_Severity = asp_Severity x\<rparr>),
      cr_Title = cs_Title s,
      cr_ConversationID = cs_ConversationID s,
      cr_OriginReader = (case cs_OriginReader s of None \<Rightarrow> None
        | Some x \<Rightarrow> Some \<lparr>or_Channel = aor_Channel x, or_Key = aor_Key x\<rparr>),
      cr_Toolsets = (case cs_Toolsets s of None \<Rightarrow> None
        | Some x \<Rightarrow> Some \<lparr>ts_Mode = ats_Mode x, ts_Refs = objectRefsToRefs (ats_Refs x)\<rparr>),
      cr_MCPConfigs = (case cs_MCPConfigs s of None \<Rightarrow> None
        | Some x \<Rightarrow> Some \<lparr>tl_Refs = objectRefsToRefs (atl_Refs x)\<rparr>),
      cr_RuntimeRef = objectRefToRef (cs_RuntimeRef s),
      cr_ServiceAccountName = cs_ServiceAccountName s,
      cr_ContextClaimName = cs_ContextClaimName s,
      cr_WorkspaceClaimName = cs_WorkspaceClaimName s,
      cr_Inputs = toStateInputItems (cs_Inputs s),
      cr_Phase = ct_Phase st,
      cr_Threads = toStateThreadBindings (ct_Threads st),
      cr_RuntimeContextID = ct_RuntimeContextID st,
      cr_SessionID = ct_SessionID st,
      cr_RuntimePod = ct_RuntimePod st,
      cr_Inflight = (case ct_Inflight st of None \<Rightarrow> None
        | Some x \<Rightarrow> Some \<lparr>if_RunID = aif_RunID x, if_InputIDs = aif_InputIDs x,
            if_DispatchedAt = aif_DispatchedAt x, if_Moved = aif_Moved x\<rparr>),
      cr_ProcessedInputIDs = ct_ProcessedInputIDs st,
      cr_LastActivity = metaTimeToTimePtr (ct_LastActivity st),
      cr_ClosedAt = metaTimeToTimePtr (ct_ClosedAt st),
      cr_Budget = (case ct_Budget st of None \<Rightarrow> None
        | Some x \<Rightarrow> Some \<lparr>bd_MaxAgents = abd_MaxAgents x, bd_MaxTurns = abd_MaxTurns x,
            bd_Deadline = metaTimeToTimePtr (abd_Deadline x),
            bd_AgentsInvoked = abd_AgentsInvoked x, bd_Turns = abd_Turns x\<rparr>),
      cr_EscalatedAt = metaTimeToTimePtr (ct_EscalatedAt st),
      cr_EscalationMessage = ct_EscalationMessage st,
      cr_CloseReason = ct_CloseReason st,
      cr_Brief = ct_Brief st,
      cr_ThreadsArchived = ct_ThreadsArchived st,
      cr_Reopens = ct_Reopens st,
      cr_ContextCheckpoint = (case ct_ContextCheckpoint st of None \<Rightarrow> None
        | Some x \<Rightarrow> Some \<lparr>cp_At = acp_At x, cp_Generation = acp_Generation x,
            cp_Quiesced = acp_Quiesced x, cp_Bytes = acp_Bytes x\<rparr>),
      cr_RuntimeStartFailures = ct_RuntimeStartFailures st,
      cr_LastRuntimeStartFailure = metaTimeToTimePtr (ct_LastRuntimeStartFailure st),
      cr_Conditions = toStateConditions (ct_Conditions st),
      cr_ExpiresAt = expiresAtFromAnnotations (om_Annotations m)\<rparr>)"

definition setLabel :: "labels \<Rightarrow> string \<Rightarrow> string \<Rightarrow> labels" where
  "setLabel m k v = (if v = [] then m(k := None) else m(k \<mapsto> v))"

definition applySpec :: "ConversationSpec \<Rightarrow> ConversationRecord \<Rightarrow> ConversationSpec" where
  "applySpec s rec = s\<lparr>
     cs_CausedBy := (case cr_CausedBy rec of None \<Rightarrow> None
       | Some x \<Rightarrow> Some \<lparr>apv_Parent = pv_Parent x, apv_Entry = pv_Entry x\<rparr>),
     cs_CoordinatorRef := refToObjectRef (cr_CoordinatorRef rec),
     cs_EscalationChannelRefs := refsToObjectRefs (cr_EscalationChannelRefs rec),
     cs_ChannelRefs := refsToObjectRefs (cr_ChannelRefs rec),
     cs_ProfileRef := \<lparr>obj_Name = cr_ProfileRef rec\<rparr>,
     cs_PipelineRef := refToObjectRef (cr_PipelineRef rec),
     cs_Signal := (case cr_Signal rec of None \<Rightarrow> None
       | Some x \<Rightarrow> Some \<lparr>asp_SourceRef = refToObjectRef (sp_SourceRef x),
           asp_Labels = sp_Labels x, asp_Severity = sp_Severity x\<rparr>),
     cs_Title := cr_Title rec,
     cs_ConversationID := cr_ConversationID rec,
     cs_OriginReader := (case cr_OriginReader rec of None \<Rightarrow> None
       | Some x \<Rightarrow> Some \<lparr>aor_Channel = or_Channel x, aor_Key = or_Key x\<rparr>),
     cs_Toolsets := (case cr_Toolsets rec of None \<Rightarrow> None
       | Some x \<Rightarrow> Some \<lparr>ats_Mode = ts_Mode x, ats_Refs = refsToObjectRefs (ts_Refs x)\<rparr>),
     cs_MCPConfigs := (case cr_MCPConfigs rec of None \<Rightarrow> None
       | Some x \<Rightarrow> Some \<lparr>atl_Refs = refsToObjectRefs (tl_Refs x)\<rparr>),
     cs_RuntimeRef := refToObjectRef (cr_RuntimeRef rec),
     cs_ServiceAccountName := cr_ServiceAccountName rec,
     cs_ContextClaimName := cr_ContextClaimName rec,
     cs_WorkspaceClaimName := cr_WorkspaceClaimName rec,
     cs_Inputs := toAPIInputItems (cr_Inputs rec)\<rparr>"

definition applySpecAndMeta :: "Conversation \<Rightarrow> ConversationRecord \<Rightarrow> Conversation" where
  "applySpecAndMeta conv rec =
     (let parent = (case cr_CausedBy rec of None \<Rightarrow> [] | Some x \<Rightarrow> pv_Parent x);
          m = c_Meta conv;
          m = m\<lparr>om_Finalizers := cr_Finalizers rec,
                om_Labels := setLabel (setLabel (om_Labels m) LabelNameBase (cr_NameBase rec))
                               LabelCausedBy parent\<rparr>
      in conv\<lparr>c_Meta := setExpiresAt m (cr_ExpiresAt rec), c_Spec := applySpec (c_Spec conv) rec\<rparr>)"

definition applyStatus :: "Conversation \<Rightarrow> ConversationRecord \<Rightarrow> Conversation" where
  "applyStatus conv rec = conv\<lparr>c_Status := (c_Status conv)\<lparr>
     ct_Phase := cr_Phase rec,
     ct_Threads := toAPIThreadBindings (cr_Threads rec),
     ct_RuntimeContextID := cr_RuntimeContextID rec,
     ct_SessionID := cr_SessionID rec,
     ct_RuntimePod := cr_RuntimePod rec,
     ct_Inflight := (case cr_Inflight rec of None \<Rightarrow> None
       | Some x \<Rightarrow> Some \<lparr>aif_RunID = if_RunID x, aif_InputIDs = if_InputIDs x,
           aif_DispatchedAt = if_DispatchedAt x, aif_Moved = if_Moved x\<rparr>),
     ct_ProcessedInputIDs := cr_ProcessedInputIDs rec,
     ct_LastActivity := timeToMetaTimePtr (cr_LastActivity rec),
     ct_ClosedAt := timeToMetaTimePtr (cr_ClosedAt rec),
     ct_Budget := (case cr_Budget rec of None \<Rightarrow> None
       | Some x \<Rightarrow> Some \<lparr>abd_MaxAgents = bd_MaxAgents x, abd_MaxTurns = bd_MaxTurns x,
           abd_Deadline = timeToMetaTimePtr (bd_Deadline x),
           abd_AgentsInvoked = bd_AgentsInvoked x, abd_Turns = bd_Turns x\<rparr>),
     ct_EscalatedAt := timeToMetaTimePtr (cr_EscalatedAt rec),
     ct_EscalationMessage := cr_EscalationMessage rec,
     ct_CloseReason := cr_CloseReason rec,
     ct_Brief := cr_Brief rec,
     ct_ThreadsArchived := cr_ThreadsArchived rec,
     ct_Reopens := cr_Reopens rec,
     ct_ContextCheckpoint := (case cr_ContextCheckpoint rec of None \<Rightarrow> None
       | Some x \<Rightarrow> Some \<lparr>acp_At = cp_At x, acp_Generation = cp_Generation x,
           acp_Quiesced = cp_Quiesced x, acp_Bytes = cp_Bytes x\<rparr>),
     ct_RuntimeStartFailures := cr_RuntimeStartFailures rec,
     ct_LastRuntimeStartFailure := timeToMetaTimePtr (cr_LastRuntimeStartFailure rec),
     ct_Conditions := toAPIConditions (cr_Conditions rec)\<rparr>\<rparr>"

section \<open>Blobs and signals\<close>

definition applyBlob :: "ConversationInput \<Rightarrow> Blob \<Rightarrow> ConversationInput" where
  "applyBlob ci blob = ci\<lparr>ci_Spec := (ci_Spec ci)\<lparr>
     ci_ConversationRef := \<lparr>obj_Name = bl_ConversationName blob\<rparr>, ci_Type := bl_Type blob,
     ci_Payload := bl_Payload blob, ci_Labels := bl_Labels blob,
     ci_Severity := bl_Severity blob\<rparr>\<rparr>"

definition toBlob :: "ConversationInput \<Rightarrow> Blob" where
  "toBlob ci = \<lparr>bl_ConversationName = obj_Name (ci_ConversationRef (ci_Spec ci)),
     bl_Type = ci_Type (ci_Spec ci), bl_Payload = ci_Payload (ci_Spec ci),
     bl_Labels = ci_Labels (ci_Spec ci), bl_Severity = ci_Severity (ci_Spec ci)\<rparr>"

abbreviation signalSourceKind :: string where "signalSourceKind \<equiv> ''SignalSource''"

definition ownerSourceID :: "Signal \<Rightarrow> string" where
  "ownerSourceID sig =
     (case List.find (\<lambda>w. ow_Kind w = signalSourceKind \<and> ow_Controller w = Some True)
        (om_OwnerReferences (sg_Meta sig)) of
        Some w \<Rightarrow> ow_UID w | None \<Rightarrow> [])"

definition toSignalRecord :: "Signal \<Rightarrow> SignalRecord" where
  "toSignalRecord sig =
    (let m = sg_Meta sig; sp = sg_Spec sig; st = sg_Status sig in
     \<lparr>sr_Name = om_Name m, sr_ID = om_UID m, sr_CreatedAt = om_CreationTimestamp m,
      sr_SourceID = ownerSourceID sig,
      sr_SourceRef = obj_Name (as_SourceRef sp), sr_Adapter = as_Adapter sp,
      sr_InitiationID = as_InitiationID sp, sr_SignalID = as_SignalID sp, sr_Kind = as_Kind sp,
      sr_Title = as_Title sp, sr_Severity = as_Severity sp, sr_Labels = as_Labels sp,
      sr_Reader = as_Reader sp, sr_Payload = as_Payload sp,
      sr_Phase = at_Phase st, sr_Reason = at_Reason st, sr_Attempts = at_Attempts st,
      sr_FirstAttemptAt = metaTimeToTimePtr (at_FirstAttemptAt st),
      sr_CompletedAt = metaTimeToTimePtr (at_CompletedAt st),
      sr_ConsumedBy = at_ConsumedBy st, sr_ConsumedAt = metaTimeToTimePtr (at_ConsumedAt st),
      sr_Claimants = map (\<lambda>c. \<lparr>sc_Kind = clr_Kind (asc_Ref c), sc_Name = clr_Name (asc_Ref c),
          sc_State = asc_State c, sc_ConversationRef = objectRefToRef (asc_ConversationRef c),
          sc_Reason = asc_Reason c\<rparr>) (at_Claimants st),
      sr_ExpiresAt = expiresAtFromAnnotations (om_Annotations m)\<rparr>)"

definition applySignalSpec :: "Signal \<Rightarrow> SignalRecord \<Rightarrow> Signal" where
  "applySignalSpec sig rec =
    (let sp = \<lparr>as_SourceRef = \<lparr>obj_Name = sr_SourceRef rec\<rparr>, as_Adapter = sr_Adapter rec,
           as_InitiationID = sr_InitiationID rec, as_SignalID = sr_SignalID rec,
           as_Kind = sr_Kind rec, as_Title = sr_Title rec, as_Severity = sr_Severity rec,
           as_Labels = sr_Labels rec, as_Reader = sr_Reader rec, as_Payload = sr_Payload rec\<rparr>;
         m = sg_Meta sig;
         m = (if sr_SourceID rec \<noteq> [] then
                m\<lparr>om_OwnerReferences := [\<lparr>ow_APIVersion = ''agentops.dev/v1alpha1'',
                    ow_Kind = signalSourceKind, ow_Name = sr_SourceRef rec,
                    ow_UID = sr_SourceID rec, ow_Controller = Some True,
                    ow_BlockOwnerDeletion = Some True\<rparr>]\<rparr>
              else m)
     in sig\<lparr>sg_Spec := sp, sg_Meta := setExpiresAt m (sr_ExpiresAt rec)\<rparr>)"

definition applySignalStatus :: "Signal \<Rightarrow> SignalRecord \<Rightarrow> Signal" where
  "applySignalStatus sig rec = sig\<lparr>sg_Status :=
     \<lparr>at_Phase = sr_Phase rec, at_Reason = sr_Reason rec, at_Attempts = sr_Attempts rec,
      at_FirstAttemptAt = timeToMetaTimePtr (sr_FirstAttemptAt rec),
      at_CompletedAt = timeToMetaTimePtr (sr_CompletedAt rec),
      at_ConsumedBy = sr_ConsumedBy rec, at_ConsumedAt = timeToMetaTimePtr (sr_ConsumedAt rec),
      at_Claimants = map (\<lambda>c. \<lparr>asc_Ref = \<lparr>clr_Kind = sc_Kind c, clr_Name = sc_Name c\<rparr>,
          asc_State = sc_State c, asc_ConversationRef = refToObjectRef (sc_ConversationRef c),
          asc_Reason = sc_Reason c\<rparr>) (sr_Claimants rec)\<rparr>\<rparr>"

definition toCooldownEntries :: "api_CooldownEntry list \<Rightarrow> CooldownEntry list" where
  "toCooldownEntries xs =
     map (\<lambda>e. \<lparr>ce_InitiationID = ace_InitiationID e, ce_At = ace_At e\<rparr>) xs"

definition toAPICooldownEntries :: "CooldownEntry list \<Rightarrow> api_CooldownEntry list" where
  "toAPICooldownEntries xs =
     map (\<lambda>e. \<lparr>ace_InitiationID = ce_InitiationID e, ace_At = ce_At e\<rparr>) xs"

section \<open>Round trips\<close>

lemma ref_round [simp]: "objectRefToRef (refToObjectRef r) = r"
  by (simp add: objectRefToRef_def refToObjectRef_def)

lemma refs_round [simp]: "objectRefsToRefs (refsToObjectRefs rs) = rs"
  by (induction rs) (auto simp: objectRefsToRefs_def refsToObjectRefs_def)

lemma key_round [simp]: "objectRefToKey (keyToObjectRef k) = k"
  by (simp add: objectRefToKey_def keyToObjectRef_def)

lemma meta_time_id [simp]: "metaTimeToTimePtr t = t" "timeToMetaTimePtr t = t"
  by (simp_all add: metaTimeToTimePtr_def timeToMetaTimePtr_def split: option.splits)

lemma origin_round [simp]: "toStateInputOrigin (toAPIInputOrigin x) = x"
  by (simp add: toStateInputOrigin_def toAPIInputOrigin_def)

lemma inputs_round [simp]: "toStateInputItems (toAPIInputItems xs) = xs"
  by (induction xs) (auto simp: toStateInputItems_def toAPIInputItems_def option.map_comp o_def
      option.map_ident)

lemma recorded_round [simp]: "toStateRecordedInputs (toAPIRecordedInputs xs) = xs"
  by (induction xs) (auto simp: toStateRecordedInputs_def toAPIRecordedInputs_def
      toStateRecordedInput_def toAPIRecordedInput_def)

lemma marks_round [simp]: "toStateReaderMarks (toAPIReaderMarks xs) = xs"
  by (induction xs) (auto simp: toStateReaderMarks_def toAPIReaderMarks_def)

lemma claim_round [simp]: "toStateOpClaim (toAPIOpClaim c) = c"
  by (simp add: toStateOpClaim_def toAPIOpClaim_def split: option.splits)

lemma threads_round [simp]: "toStateThreadBindings (toAPIThreadBindings xs) = xs"
  by (induction xs) (auto simp: toStateThreadBindings_def toAPIThreadBindings_def)

lemma conditions_round [simp]: "toStateConditions (toAPIConditions xs) = xs"
  by (induction xs) (auto simp: toStateConditions_def toAPIConditions_def)

lemma run_round [simp]: "toRun (toRunStatus r) = r"
  by (simp add: toRun_def toRunStatus_def)

lemma cooldown_round [simp]: "toCooldownEntries (toAPICooldownEntries xs) = xs"
  by (induction xs) (auto simp: toCooldownEntries_def toAPICooldownEntries_def)

lemma setExpiresAt_meta [simp]:
  "om_Name (setExpiresAt m t) = om_Name m" "om_UID (setExpiresAt m t) = om_UID m"
  "om_ResourceVersion (setExpiresAt m t) = om_ResourceVersion m"
  "om_CreationTimestamp (setExpiresAt m t) = om_CreationTimestamp m"
  "om_DeletionTimestamp (setExpiresAt m t) = om_DeletionTimestamp m"
  "om_Finalizers (setExpiresAt m t) = om_Finalizers m"
  "om_Labels (setExpiresAt m t) = om_Labels m"
  "om_OwnerReferences (setExpiresAt m t) = om_OwnerReferences m"
  by (simp_all add: setExpiresAt_def split: option.splits)

lemma expiresAt_setExpiresAt:
  "expiresAtFromAnnotations (om_Annotations (setExpiresAt m t)) =
     (case t of None \<Rightarrow> None | Some x \<Rightarrow> time_Parse (time_Format x))"
  by (auto simp: expiresAtFromAnnotations_def setExpiresAt_def split: option.splits)

definition storable_time :: "go_time option \<Rightarrow> bool" where
  "storable_time t = (case t of None \<Rightarrow> True | Some x \<Rightarrow> 0 \<le> x \<and> x < year_10000)"

lemma expiresAt_round:
  "storable_time t \<Longrightarrow> expiresAtFromAnnotations (om_Annotations (setExpiresAt m t)) = t"
  by (auto simp: expiresAt_setExpiresAt storable_time_def time_Parse_Format split: option.splits)

lemma label_setLabel: "label (setLabel m k v) k' = (if k' = k then v else label m k')"
  by (auto simp: setLabel_def)

text \<open>The record as the backend keeps it: the identity fields are the object's own.\<close>

definition with_identity :: "ObjectMeta \<Rightarrow> ConversationRecord \<Rightarrow> ConversationRecord" where
  "with_identity m rec = rec\<lparr>cr_Name := om_Name m, cr_ID := om_UID m,
     cr_CreatedAt := om_CreationTimestamp m, cr_DeletionRequestedAt := om_DeletionTimestamp m\<rparr>"

lemma c_Meta_applyStatus [simp]: "c_Meta (applyStatus conv rec) = c_Meta conv"
  by (simp add: applyStatus_def)

lemma c_Spec_applyStatus [simp]: "c_Spec (applyStatus conv rec) = c_Spec conv"
  by (simp add: applyStatus_def)

lemma c_Status_applySpecAndMeta [simp]: "c_Status (applySpecAndMeta conv rec) = c_Status conv"
  by (simp add: applySpecAndMeta_def Let_def)

lemma ct_Runs_applyStatus [simp]: "ct_Runs (c_Status (applyStatus conv rec)) = ct_Runs (c_Status conv)"
  by (simp add: applyStatus_def)

lemma om_applySpecAndMeta [simp]:
  "om_Name (c_Meta (applySpecAndMeta conv rec)) = om_Name (c_Meta conv)"
  "om_UID (c_Meta (applySpecAndMeta conv rec)) = om_UID (c_Meta conv)"
  "om_ResourceVersion (c_Meta (applySpecAndMeta conv rec)) = om_ResourceVersion (c_Meta conv)"
  "om_CreationTimestamp (c_Meta (applySpecAndMeta conv rec)) = om_CreationTimestamp (c_Meta conv)"
  "om_DeletionTimestamp (c_Meta (applySpecAndMeta conv rec)) = om_DeletionTimestamp (c_Meta conv)"
  "om_Finalizers (c_Meta (applySpecAndMeta conv rec)) = cr_Finalizers rec"
  "om_OwnerReferences (c_Meta (applySpecAndMeta conv rec)) = om_OwnerReferences (c_Meta conv)"
  by (simp_all add: applySpecAndMeta_def Let_def)

lemma label_applySpecAndMeta:
  "label (om_Labels (c_Meta (applySpecAndMeta conv rec))) LabelNameBase = cr_NameBase rec"
  "k \<noteq> LabelNameBase \<Longrightarrow> k \<noteq> LabelCausedBy \<Longrightarrow>
   om_Labels (c_Meta (applySpecAndMeta conv rec)) k = om_Labels (c_Meta conv) k"
  by (simp_all add: applySpecAndMeta_def Let_def label_setLabel) (simp add: setLabel_def)

lemma annotations_applySpecAndMeta:
  "k \<noteq> ExpiresAtAnnotation \<Longrightarrow>
   om_Annotations (c_Meta (applySpecAndMeta conv rec)) k = om_Annotations (c_Meta conv) k"
  by (simp add: applySpecAndMeta_def Let_def setExpiresAt_def split: option.splits)

lemma expiry_applySpecAndMeta:
  "storable_time (cr_ExpiresAt rec) \<Longrightarrow>
   expiresAtFromAnnotations (om_Annotations (c_Meta (applySpecAndMeta conv rec))) = cr_ExpiresAt rec"
  by (simp add: applySpecAndMeta_def Let_def expiresAt_round)

lemma option_rebuild:
  "(case x of None \<Rightarrow> None | Some y \<Rightarrow> Some y) = x"
  by (cases x) auto

lemma toRecord_apply:
  assumes "storable_time (cr_ExpiresAt rec)"
  shows "toRecord (applyStatus (applySpecAndMeta conv rec) rec) = with_identity (c_Meta conv) rec"
  using assms
  by (simp add: toRecord_def Let_def with_identity_def label_applySpecAndMeta expiry_applySpecAndMeta)
    (simp add: applyStatus_def applySpecAndMeta_def applySpec_def Let_def
      split: option.splits)

text \<open>
  C28. The custom resource loses nothing of a record: writing a record onto any object and
  reading the object back gives the record, with the identity the object has, for every
  record without an expiry or with one the four-digit-year timestamp can carry. What the
  record does not model, the other labels and annotations, the owner references and the
  run history, is left as it was.
\<close>

theorem record_mapping_round_trip:
  assumes "storable_time (cr_ExpiresAt rec)"
  shows "let conv' = applyStatus (applySpecAndMeta conv rec) rec in toRecord conv' = with_identity (c_Meta conv) rec
    \<and> ct_Runs (c_Status conv') = ct_Runs (c_Status conv)
    \<and> om_OwnerReferences (c_Meta conv') = om_OwnerReferences (c_Meta conv)
    \<and> (\<forall>k. k = LabelNameBase \<or> k = LabelCausedBy \<or> om_Labels (c_Meta conv') k = om_Labels (c_Meta conv) k)
    \<and> (\<forall>k. k = ExpiresAtAnnotation \<or> om_Annotations (c_Meta conv') k = om_Annotations (c_Meta conv) k)"
  using toRecord_apply [OF assms(1), of conv] label_applySpecAndMeta(2) [of _ conv rec]
    annotations_applySpecAndMeta [of _ conv rec]
  unfolding Let_def c_Meta_applyStatus ct_Runs_applyStatus c_Status_applySpecAndMeta
    om_applySpecAndMeta by blast

theorem record_mapping_round_trip_witness:
  "toRecord (applyStatus (applySpecAndMeta zero_Conversation (zero_record\<lparr>cr_Phase := PhaseIdle,
       cr_ExpiresAt := Some 63921355200500000000\<rparr>))
     (zero_record\<lparr>cr_Phase := PhaseIdle, cr_ExpiresAt := Some 63921355200500000000\<rparr>))
   = with_identity zero_meta (zero_record\<lparr>cr_Phase := PhaseIdle,
       cr_ExpiresAt := Some 63921355200500000000\<rparr>)"
proof -
  have "storable_time (Some 63921355200500000000)"
    by (simp add: storable_time_def year_10000_def days_before_year_def)
  then show ?thesis
    using record_mapping_round_trip [of "zero_record\<lparr>cr_Phase := PhaseIdle,
        cr_ExpiresAt := Some 63921355200500000000\<rparr>" zero_Conversation]
    by (simp add: zero_Conversation_def Let_def)
qed

section \<open>The signal record\<close>

definition signal_identity :: "ObjectMeta \<Rightarrow> SignalRecord \<Rightarrow> SignalRecord" where
  "signal_identity m rec = rec\<lparr>sr_Name := om_Name m, sr_ID := om_UID m,
     sr_CreatedAt := om_CreationTimestamp m\<rparr>"

lemma ownerSourceID_applySignalSpec:
  "om_OwnerReferences (sg_Meta sig) = [] \<Longrightarrow> ownerSourceID (applySignalSpec sig rec) = sr_SourceID rec"
  by (auto simp: ownerSourceID_def applySignalSpec_def Let_def)

lemma claimants_round:
  "map (\<lambda>c. \<lparr>sc_Kind = clr_Kind (asc_Ref c), sc_Name = clr_Name (asc_Ref c),
          sc_State = asc_State c, sc_ConversationRef = objectRefToRef (asc_ConversationRef c),
          sc_Reason = asc_Reason c\<rparr>)
    (map (\<lambda>c. \<lparr>asc_Ref = \<lparr>clr_Kind = sc_Kind c, clr_Name = sc_Name c\<rparr>,
          asc_State = sc_State c, asc_ConversationRef = refToObjectRef (sc_ConversationRef c),
          asc_Reason = sc_Reason c\<rparr>) cs) = cs"
  by (induction cs) auto

lemma toSignalRecord_apply:
  assumes "storable_time (sr_ExpiresAt rec)" "om_OwnerReferences (sg_Meta sig) = []"
  shows "toSignalRecord (applySignalStatus (applySignalSpec sig rec) rec)
    = signal_identity (sg_Meta sig) rec"
proof -
  have "ownerSourceID (applySignalStatus (applySignalSpec sig rec) rec) = sr_SourceID rec"
    using ownerSourceID_applySignalSpec [OF assms(2), of rec]
    by (simp add: ownerSourceID_def applySignalStatus_def)
  then show ?thesis
    using assms(1)
    by (simp add: toSignalRecord_def Let_def signal_identity_def)
      (simp add: applySignalStatus_def applySignalSpec_def Let_def expiresAt_round claimants_round
        del: map_map)
qed

end
