(* ===== verification/StateStore.thy ===== *)
theory StateStore
  imports StateSignal
begin

text \<open>
  The Store contract of \<open>internal/state/store.go\<close> as a record of operations over a world
  \<open>'w\<close> (Watch, the change feed, is left out), and its client side of \<open>helpers.go\<close>:
  \<open>Mutate\<close>, the get-modify-put loop every write of the manager goes through, \<open>Patch\<close> and
  \<open>IgnoreNotFound\<close>. An operation takes the world and returns the next one, so what other
  replicas write between two calls is part of the world.

  The closure handed to \<open>Mutate\<close> may assign variables it captured: \<open>'c\<close> is their state,
  threaded through its applications. Two records are compared as values, where the source
  compares their JSON.
\<close>

section \<open>The contract\<close>

datatype Index = ByConversationID | ByPipelineAndPhase | ByPhase | ByCausedBy | ByNameBase | ByAll

record ListKey =
  lk_ConversationID :: string
  lk_PipelineRef :: string
  lk_Phase :: string
  lk_CausedBy :: string
  lk_NameBase :: string

definition no_key :: ListKey where
  "no_key = \<lparr>lk_ConversationID = [], lk_PipelineRef = [], lk_Phase = [], lk_CausedBy = [],
     lk_NameBase = []\<rparr>"

record 'w Store =
  st_Get :: "'w \<Rightarrow> key \<Rightarrow> 'w \<times> (ConversationRecord \<times> revision) result"
  st_Create :: "'w \<Rightarrow> key \<Rightarrow> ConversationRecord \<Rightarrow> 'w \<times> revision result"
  st_Update :: "'w \<Rightarrow> key \<Rightarrow> revision \<Rightarrow> ConversationRecord \<Rightarrow> 'w \<times> revision result"
  st_Delete :: "'w \<Rightarrow> key \<Rightarrow> 'w \<times> unit result"
  st_List :: "'w \<Rightarrow> Index \<Rightarrow> ListKey \<Rightarrow> 'w \<times> ConversationRecord list result"
  st_AppendRun :: "'w \<Rightarrow> key \<Rightarrow> Run \<Rightarrow> 'w \<times> unit result"
  st_UpdateRun :: "'w \<Rightarrow> key \<Rightarrow> string \<Rightarrow> RunUpdate \<Rightarrow> 'w \<times> unit result"
  st_ListRuns :: "'w \<Rightarrow> key \<Rightarrow> 'w \<times> Run list result"
  st_GetWithRuns :: "'w \<Rightarrow> key \<Rightarrow> 'w \<times> (ConversationRecord \<times> revision \<times> Run list) result"
  st_PutBlob :: "'w \<Rightarrow> key \<Rightarrow> Blob \<Rightarrow> 'w \<times> unit result"
  st_GetBlob :: "'w \<Rightarrow> key \<Rightarrow> 'w \<times> Blob result"
  st_DeleteBlob :: "'w \<Rightarrow> key \<Rightarrow> 'w \<times> unit result"

section \<open>Mutate\<close>

definition MutateMaxAttempts :: nat where
  "MutateMaxAttempts = 10"

type_synonym 'c closure = "'c \<Rightarrow> ConversationRecord \<Rightarrow> 'c \<times> ConversationRecord result"

fun Mutate_loop :: "'w Store \<Rightarrow> key \<Rightarrow> 'c closure \<Rightarrow> nat \<Rightarrow> err option \<Rightarrow> 'c \<Rightarrow> 'w
    \<Rightarrow> 'w \<times> 'c \<times> ConversationRecord result" where
  "Mutate_loop s key fn 0 lastErr c w =
     (w, c, Inl (case lastErr of
        Some e \<Rightarrow> Wrapped ''state: mutate: exhausted attempts'' e
      | None \<Rightarrow> ErrOther ''state: mutate: exhausted attempts''))"
| "Mutate_loop s key fn (Suc n) lastErr c w =
     (case st_Get s w key of
        (w, Inl e) \<Rightarrow> (w, c, Inl e)
      | (w, Inr (before, rv)) \<Rightarrow>
         (case fn c before of
            (c, Inl e) \<Rightarrow> (w, c, Inl e)
          | (c, Inr after) \<Rightarrow>
              if after = before then (w, c, Inr after)
              else (case st_Update s w key rv after of
                 (w, Inr _) \<Rightarrow> (w, c, Inr after)
               | (w, Inl e) \<Rightarrow>
                   if \<not> errors_Is e ErrConflict then (w, c, Inl e)
                   else Mutate_loop s key fn n (Some e) c w)))"

definition Mutate :: "'w Store \<Rightarrow> key \<Rightarrow> 'c closure \<Rightarrow> 'c \<Rightarrow> 'w
    \<Rightarrow> 'w \<times> 'c \<times> ConversationRecord result" where
  "Mutate s key fn = Mutate_loop s key fn MutateMaxAttempts None"

definition Patch :: "'w Store \<Rightarrow> ConversationRecord \<Rightarrow> (ConversationRecord \<Rightarrow> ConversationRecord)
    \<Rightarrow> 'w \<Rightarrow> 'w \<times> ConversationRecord \<times> err option" where
  "Patch s rec fn w =
     (case Mutate s (cr_Name rec) (\<lambda>u r. (u, Inr (fn r))) () w of
        (w, _, Inl e) \<Rightarrow> (w, rec, Some e)
      | (w, _, Inr updated) \<Rightarrow> (w, updated, None))"

definition IgnoreNotFound :: "err option \<Rightarrow> err option" where
  "IgnoreNotFound e = (case e of
     Some x \<Rightarrow> if errors_Is x ErrNotFound then None else Some x
   | None \<Rightarrow> None)"

section \<open>Other writers\<close>

text \<open>
  What other replicas do between two calls of one caller: the \<open>i\<close>-th call is made in the
  world the \<open>i\<close>-th environment step leaves. The interleaved store is the same store with
  those steps run before each of its operations.
\<close>

type_synonym 'w others = "('w \<Rightarrow> 'w) list"

definition lift_op :: "('w \<Rightarrow> 'w \<times> 'a) \<Rightarrow> 'w \<times> 'w others \<Rightarrow> ('w \<times> 'w others) \<times> 'a" where
  "lift_op f s = (case s of (w, es) \<Rightarrow>
     (let w1 = (case es of [] \<Rightarrow> w | e # _ \<Rightarrow> e w); (w2, x) = f w1 in ((w2, tl es), x)))"

definition interleaved :: "'w Store \<Rightarrow> ('w \<times> 'w others) Store" where
  "interleaved s = \<lparr>
     st_Get = (\<lambda>w k. lift_op (\<lambda>w. st_Get s w k) w),
     st_Create = (\<lambda>w k r. lift_op (\<lambda>w. st_Create s w k r) w),
     st_Update = (\<lambda>w k v r. lift_op (\<lambda>w. st_Update s w k v r) w),
     st_Delete = (\<lambda>w k. lift_op (\<lambda>w. st_Delete s w k) w),
     st_List = (\<lambda>w i k. lift_op (\<lambda>w. st_List s w i k) w),
     st_AppendRun = (\<lambda>w k r. lift_op (\<lambda>w. st_AppendRun s w k r) w),
     st_UpdateRun = (\<lambda>w k i u. lift_op (\<lambda>w. st_UpdateRun s w k i u) w),
     st_ListRuns = (\<lambda>w k. lift_op (\<lambda>w. st_ListRuns s w k) w),
     st_GetWithRuns = (\<lambda>w k. lift_op (\<lambda>w. st_GetWithRuns s w k) w),
     st_PutBlob = (\<lambda>w k b. lift_op (\<lambda>w. st_PutBlob s w k b) w),
     st_GetBlob = (\<lambda>w k. lift_op (\<lambda>w. st_GetBlob s w k) w),
     st_DeleteBlob = (\<lambda>w k. lift_op (\<lambda>w. st_DeleteBlob s w k) w)\<rparr>"

text \<open>An environment step that keeps the store's state sound and never reuses a revision.\<close>

definition admissible :: "('w \<Rightarrow> key \<Rightarrow> ('r \<times> revision) option) \<Rightarrow> ('w \<Rightarrow> bool) \<Rightarrow> ('w \<Rightarrow> 'w) \<Rightarrow> bool" where
  "admissible cur ok e \<longleftrightarrow> (\<forall>w. ok w \<longrightarrow> ok (e w) \<and>
     (\<forall>k r v r'. cur w k = Some (r, v) \<longrightarrow> cur (e w) k = Some (r', v) \<longrightarrow> r' = r))"

lemma lift_step:
  assumes "lift_op f (w, es) = ((w', es'), x)" "ok w" "\<forall>e \<in> set es. admissible cur ok e"
  obtains w1 where "f w1 = (w', x)" "ok w1" "es' = tl es" "\<forall>e \<in> set es'. admissible cur ok e"
    "w1 = w \<and> es = [] \<or> (\<exists>e. es = e # es' \<and> w1 = e w)"
    "\<And>k r v r'. cur w k = Some (r, v) \<Longrightarrow> cur w1 k = Some (r', v) \<Longrightarrow> r' = r"
proof (cases es)
  case Nil
  with assms that [of w] show ?thesis by (auto simp: lift_op_def split: prod.splits)
next
  case (Cons e rest)
  with assms that [of "e w"] show ?thesis
    by (auto simp: lift_op_def admissible_def split: prod.splits)
qed

text \<open>What a successful call did: nothing, or one write on top of the record it was computed from.\<close>

definition applied :: "('w \<Rightarrow> key \<Rightarrow> (ConversationRecord \<times> revision) option)
    \<Rightarrow> (ConversationRecord \<Rightarrow> ConversationRecord \<Rightarrow> ConversationRecord) \<Rightarrow> ('w \<Rightarrow> bool)
    \<Rightarrow> key \<Rightarrow> 'c closure \<Rightarrow> 'c \<Rightarrow> ConversationRecord \<Rightarrow> 'w \<Rightarrow> bool" where
  "applied cur stored ok k fn c' r w' \<longleftrightarrow> (\<exists>w0 cb old v. ok w0 \<and> cur w0 k = Some (old, v) \<and> fn cb old = (c', Inr r)
     \<and> (r = old \<and> cur w' = cur w0
        \<or> (\<exists>v'. cur w' k = Some (stored old r, v') \<or> (cur w' k = None \<and> cr_Finalizers r = []))))"

section \<open>The laws Mutate relies on\<close>

text \<open>
  \<open>cur w k\<close> is the stored record under a key with its revision. A read that succeeds
  returns it and leaves it; a write succeeds only under the current revision, and then the
  stored record is \<open>stored old new\<close> (the backend keeps the read-only fields of \<open>old\<close>); a
  conflict changes nothing and means the revision was stale.
\<close>

locale cas_store =
  fixes s :: "'w Store"
    and cur :: "'w \<Rightarrow> key \<Rightarrow> (ConversationRecord \<times> revision) option"
    and stored :: "ConversationRecord \<Rightarrow> ConversationRecord \<Rightarrow> ConversationRecord"
    and ok :: "'w \<Rightarrow> bool"
  assumes get_keeps: "ok w \<Longrightarrow> st_Get s w k = (w', x) \<Longrightarrow> ok w' \<and> cur w' = cur w"
    and get_current: "ok w \<Longrightarrow> st_Get s w k = (w', Inr (r, v)) \<Longrightarrow> cur w k = Some (r, v)"
    and update_ok: "ok w \<Longrightarrow> st_Update s w k v r = (w', y) \<Longrightarrow> ok w'"
    and update_hit: "ok w \<Longrightarrow> st_Update s w k v r = (w', Inr v') \<Longrightarrow>
        \<exists>old. cur w k = Some (old, v)
          \<and> (cur w' k = Some (stored old r, v') \<or> (cur w' k = None \<and> cr_Finalizers r = []))"
    and update_conflict: "ok w \<Longrightarrow> st_Update s w k v r = (w', Inl e) \<Longrightarrow> errors_Is e ErrConflict \<Longrightarrow>
        cur w' = cur w \<and> (\<forall>old v'. cur w k = Some (old, v') \<longrightarrow> v' \<noteq> v)"
begin

lemma Mutate_loop_atomic:
  assumes "Mutate_loop (interleaved s) k fn n le c (w, es) = ((w', es'), c', Inr r)"
    and "ok w" and "\<forall>e \<in> set es. admissible cur ok e"
  shows "ok w' \<and> applied cur stored ok k fn c' r w'"
  using assms
proof (induction n arbitrary: le c w es)
  case 0
  then show ?case by simp
next
  case (Suc n)
  obtain w1 es1 x where g: "st_Get (interleaved s) (w, es) k = ((w1, es1), x)"
    by (metis prod_cases3 surj_pair)
  from g have "lift_op (\<lambda>w. st_Get s w k) (w, es) = ((w1, es1), x)" by (simp add: interleaved_def)
  then obtain w0 where w0: "st_Get s w0 k = (w1, x)" "ok w0" "\<forall>e \<in> set es1. admissible cur ok e"
    by (rule lift_step [where ok = ok and cur = cur, OF _ Suc.prems(2,3)]) blast
  have ok1: "ok w1" "cur w1 = cur w0" using get_keeps [OF w0(2,1)] by auto
  from Suc.prems(1) g obtain old v where x: "x = Inr (old, v)"
    by (cases x) (auto split: prod.splits)
  have cur1: "cur w1 k = Some (old, v)" using get_current [OF w0(2)] w0(1) x ok1 by auto
  obtain c1 y where f: "fn c old = (c1, y)" by fastforce
  with Suc.prems(1) g x obtain new where y: "y = Inr new" by (cases y) auto
  show ?case
  proof (cases "new = old")
    case True
    with Suc.prems(1) g x f y have "w' = w1" "c' = c1" "r = old" by auto
    with ok1 cur1 f y True show ?thesis unfolding applied_def by blast
  next
    case False
    obtain w3 es3 z where u: "st_Update (interleaved s) (w1, es1) k v new = ((w3, es3), z)"
      by (metis prod_cases3 surj_pair)
    from u have "lift_op (\<lambda>w. st_Update s w k v new) (w1, es1) = ((w3, es3), z)"
      by (simp add: interleaved_def)
    then obtain w2 where w2: "st_Update s w2 k v new = (w3, z)" "ok w2"
      "\<forall>e \<in> set es3. admissible cur ok e"
      "\<And>k r v r'. cur w1 k = Some (r, v) \<Longrightarrow> cur w2 k = Some (r', v) \<Longrightarrow> r' = r"
      by (rule lift_step [where ok = ok and cur = cur, OF _ ok1(1) w0(3)]) blast
    have ok3: "ok w3" by (rule update_ok [OF w2(2,1)])
    show ?thesis
    proof (cases z)
      case (Inr v')
      with Suc.prems(1) g x f y False u have eqs: "w' = w3" "c' = c1" "r = new" by auto
      obtain old' where o: "cur w2 k = Some (old', v)"
        "cur w3 k = Some (stored old' new, v') \<or> (cur w3 k = None \<and> cr_Finalizers new = [])"
        using update_hit [OF w2(2)] w2(1) Inr by blast
      have "old' = old" using w2(4) [OF cur1 o(1)] .
      with o w2(2) f y eqs ok3 show ?thesis unfolding applied_def by blast
    next
      case (Inl e)
      with Suc.prems(1) g x f y False u
      have "Mutate_loop (interleaved s) k fn n (Some e) c1 (w3, es3) = ((w', es'), c', Inr r)"
        by (auto split: if_splits)
      from Suc.IH [OF this ok3 w2(3)] show ?thesis .
    qed
  qed
qed

text \<open>Without other writers the first attempt settles it: no call ends in a conflict.\<close>

lemma Mutate_loop_alone:
  assumes "ok w" and "0 < n" and "Mutate_loop s k fn n le c w = (w', c', Inl e)"
    and "errors_Is e ErrConflict"
    and "\<And>w w' e. st_Get s w k = (w', Inl e) \<Longrightarrow> \<not> errors_Is e ErrConflict"
    and "\<And>c r c' e. fn c r = (c', Inl e) \<Longrightarrow> \<not> errors_Is e ErrConflict"
  shows False
proof -
  obtain m where n: "n = Suc m" using assms(2) by (cases n) auto
  obtain w1 x where g: "st_Get s w k = (w1, x)" by fastforce
  have ok1: "ok w1" "cur w1 = cur w" using get_keeps [OF assms(1) g] by auto
  from assms(3,4,5) g n obtain old v where x: "x = Inr (old, v)"
    by (cases x) auto
  have cur1: "cur w1 k = Some (old, v)" using get_current [OF assms(1)] g x ok1 by auto
  obtain c1 y where f: "fn c old = (c1, y)" by fastforce
  with assms(3,4,6) g x n obtain new where y: "y = Inr new" by (cases y) auto
  obtain w2 z where u: "st_Update s w1 k v new = (w2, z)" by fastforce
  from assms(3) n g x f y u have "new \<noteq> old" by auto
  with assms(3,4) n g x f y u obtain e' where "z = Inl e'" "errors_Is e' ErrConflict"
    by (cases z) (auto split: if_splits)
  with update_conflict [OF ok1(1)] u cur1 show False by blast
qed

end

end
