(* ===== verification/KubeStore.thy ===== *)
theory KubeStore
  imports KubeMapping StateStore
begin

text \<open>
  The kube backend of the Store contract: \<open>internal/state/kube/store.go\<close>, \<open>runs.go\<close>,
  \<open>list.go\<close>, the sweep of \<open>expiry.go\<close> and \<open>blobs.go\<close>. The controller-runtime client, and
  the API server behind it, are the argument \<open>c\<close>: a record of the calls the code makes,
  over the server's world. Error texts are kept without their arguments.
\<close>

section \<open>The client\<close>

datatype kerr = KNotFound | KConflict | KAlreadyExists | KOther string

type_synonym 'a kresult = "kerr + 'a"

record 'w KubeClient =
  k_Get :: "'w \<Rightarrow> key \<Rightarrow> 'w \<times> Conversation kresult"
  k_List :: "'w \<Rightarrow> 'w \<times> Conversation list kresult"
  k_Lister :: "('w \<Rightarrow> 'w \<times> Conversation list kresult) option"
  k_Create :: "'w \<Rightarrow> Conversation \<Rightarrow> 'w \<times> Conversation kresult"
  k_Update :: "'w \<Rightarrow> Conversation \<Rightarrow> 'w \<times> Conversation kresult"
  k_StatusUpdate :: "'w \<Rightarrow> Conversation \<Rightarrow> 'w \<times> Conversation kresult"
  k_Delete :: "'w \<Rightarrow> key \<Rightarrow> 'w \<times> unit kresult"
  k_GetInput :: "'w \<Rightarrow> key \<Rightarrow> 'w \<times> ConversationInput kresult"
  k_CreateInput :: "'w \<Rightarrow> ConversationInput \<Rightarrow> 'w \<times> ConversationInput kresult"
  k_UpdateInput :: "'w \<Rightarrow> ConversationInput \<Rightarrow> 'w \<times> ConversationInput kresult"
  k_DeleteInput :: "'w \<Rightarrow> key \<Rightarrow> 'w \<times> unit kresult"
  k_Now :: "'w \<Rightarrow> go_time"

fun kerr_text :: "kerr \<Rightarrow> string" where
  "kerr_text KNotFound = ''not found''"
| "kerr_text KConflict = ''conflict''"
| "kerr_text KAlreadyExists = ''already exists''"
| "kerr_text (KOther m) = m"

definition kwrap :: "string \<Rightarrow> kerr \<Rightarrow> err" where
  "kwrap m e = Wrapped m (ErrOther (kerr_text e))"

lemma errors_Is_kwrap [simp]:
  "errors_Is (kwrap m e) ErrConflict = False" "errors_Is (kwrap m e) ErrNotFound = False"
  by (simp_all add: kwrap_def)

text \<open>The store's own state beside the server's: the expiry flag.\<close>

record 'w kube =
  kw_api :: 'w
  kw_armed :: bool

definition call :: "('w \<Rightarrow> 'w \<times> 'a) \<Rightarrow> 'w kube \<Rightarrow> 'w kube \<times> 'a" where
  "call f w = (let (a, x) = f (kw_api w) in (w\<lparr>kw_api := a\<rparr>, x))"

lemma call_eq: "call f w = (w', x) \<longleftrightarrow> f (kw_api w) = (kw_api w', x) \<and> kw_armed w' = kw_armed w"
  by (cases w; cases w') (auto simp: call_def split: prod.splits)

definition armExpiry :: "go_time option \<Rightarrow> 'w kube \<Rightarrow> 'w kube" where
  "armExpiry at w = (case at of None \<Rightarrow> w | Some _ \<Rightarrow> w\<lparr>kw_armed := True\<rparr>)"

lemma kw_api_armExpiry [simp]: "kw_api (armExpiry at w) = kw_api w"
  by (simp add: armExpiry_def split: option.splits)

abbreviation rv_of :: "Conversation \<Rightarrow> string" where
  "rv_of conv \<equiv> om_ResourceVersion (c_Meta conv)"

section \<open>Reads\<close>

definition getVisible :: "'w KubeClient \<Rightarrow> 'w kube \<Rightarrow> key \<Rightarrow> 'w kube \<times> Conversation result" where
  "getVisible c w key =
     (case call (\<lambda>a. k_Get c a key) w of
        (w, Inl e) \<Rightarrow> (w, Inl (if e = KNotFound then ErrNotFound else kwrap ''kube: get conversation'' e))
      | (w, Inr conv) \<Rightarrow>
          if isExpired conv (k_Now c (kw_api w)) then (w\<lparr>kw_armed := True\<rparr>, Inl ErrNotFound)
          else (w, Inr conv))"

definition kube_Get :: "'w KubeClient \<Rightarrow> 'w kube \<Rightarrow> key \<Rightarrow> 'w kube \<times> (ConversationRecord \<times> revision) result" where
  "kube_Get c w key =
     (case getVisible c w key of
        (w, Inl e) \<Rightarrow> (w, Inl e)
      | (w, Inr conv) \<Rightarrow> (w, Inr (toRecord conv, rv_of conv)))"

definition toRuns :: "RunStatus list \<Rightarrow> Run list" where
  "toRuns rs = (if rs = [] then [] else map toRun rs)"

definition kube_GetWithRuns ::
    "'w KubeClient \<Rightarrow> 'w kube \<Rightarrow> key \<Rightarrow> 'w kube \<times> (ConversationRecord \<times> revision \<times> Run list) result" where
  "kube_GetWithRuns c w key =
     (case getVisible c w key of
        (w, Inl e) \<Rightarrow> (w, Inl e)
      | (w, Inr conv) \<Rightarrow> (w, Inr (toRecord conv, rv_of conv, toRuns (ct_Runs (c_Status conv)))))"

section \<open>Create\<close>

definition new_conv :: "key \<Rightarrow> Conversation" where
  "new_conv key = zero_Conversation\<lparr>c_Meta := zero_meta\<lparr>om_Name := key\<rparr>\<rparr>"

definition kube_Create ::
    "'w KubeClient \<Rightarrow> 'w kube \<Rightarrow> key \<Rightarrow> ConversationRecord \<Rightarrow> 'w kube \<times> revision result" where
  "kube_Create c w key rec =
     (case call (\<lambda>a. k_Create c a (applySpecAndMeta (new_conv key) rec))
             (armExpiry (cr_ExpiresAt rec) w) of
        (w, Inl e) \<Rightarrow> (w, Inl (if e = KAlreadyExists then ErrAlreadyExists
                            else kwrap ''kube: create conversation'' e))
      | (w, Inr conv) \<Rightarrow>
          (case call (\<lambda>a. k_StatusUpdate c a (applyStatus conv rec)) w of
             (w, Inl e) \<Rightarrow> (w, Inl (kwrap ''kube: create conversation status'' e))
           | (w, Inr conv) \<Rightarrow> (w, Inr (rv_of conv))))"

section \<open>Update\<close>

definition statusUpdateMaxAttempts :: nat where
  "statusUpdateMaxAttempts = 20"

definition statusChangedBeyondRuns :: "ConversationStatus \<Rightarrow> ConversationStatus \<Rightarrow> bool" where
  "statusChangedBeyondRuns base current \<longleftrightarrow> base\<lparr>ct_Runs := ct_Runs current\<rparr> \<noteq> current"

fun updateStatus_loop :: "'w KubeClient \<Rightarrow> key \<Rightarrow> ConversationStatus \<Rightarrow> ConversationRecord \<Rightarrow>
    nat \<Rightarrow> Conversation \<Rightarrow> 'w kube \<Rightarrow> 'w kube \<times> revision result" where
  "updateStatus_loop c key base rec 0 conv w =
     (w, Inl (ErrOther ''kube: update conversation status: exhausted attempts on conflict''))"
| "updateStatus_loop c key base rec (Suc n) conv w =
     (case call (\<lambda>a. k_StatusUpdate c a conv) w of
        (w, Inr conv) \<Rightarrow> (w, Inr (rv_of conv))
      | (w, Inl e) \<Rightarrow>
          if e \<noteq> KConflict then (w, Inl (kwrap ''kube: update conversation status'' e))
          else (case call (\<lambda>a. k_Get c a key) w of
             (w, Inl e) \<Rightarrow> (w, Inl (kwrap ''kube: re-read conversation before status retry'' e))
           | (w, Inr conv) \<Rightarrow>
               if statusChangedBeyondRuns base (c_Status conv) then (w, Inl ErrConflict)
               else updateStatus_loop c key base rec n (applyStatus conv rec) w))"

definition updateStatusRetrying :: "'w KubeClient \<Rightarrow> key \<Rightarrow> Conversation \<Rightarrow> ConversationRecord \<Rightarrow>
    'w kube \<Rightarrow> 'w kube \<times> revision result" where
  "updateStatusRetrying c key conv rec w =
     updateStatus_loop c key (c_Status conv) rec statusUpdateMaxAttempts (applyStatus conv rec) w"

definition updateError :: "string \<Rightarrow> kerr \<Rightarrow> err" where
  "updateError what e =
     (if e = KConflict then ErrConflict else if e = KNotFound then ErrNotFound
      else kwrap (''kube: '' @ what) e)"

fun release_loop :: "'w KubeClient \<Rightarrow> key \<Rightarrow> ConversationRecord \<Rightarrow> nat \<Rightarrow> Conversation \<Rightarrow>
    'w kube \<Rightarrow> 'w kube \<times> revision result" where
  "release_loop c key rec 0 conv w =
     (w, Inl (ErrOther ''kube: release conversation: exhausted attempts on conflict''))"
| "release_loop c key rec (Suc n) conv w =
     (let conv = applySpecAndMeta conv rec in
      case call (\<lambda>a. k_Update c a conv) w of
        (w, Inr conv) \<Rightarrow> (w, Inr (rv_of conv))
      | (w, Inl e) \<Rightarrow>
          if e = KNotFound then (w, Inr (rv_of conv))
          else if e \<noteq> KConflict then (w, Inl (kwrap ''kube: release conversation'' e))
          else (case call (\<lambda>a. k_Get c a key) w of
             (w, Inl e) \<Rightarrow>
               if e = KNotFound then (w, Inr (rv_of conv))
               else (w, Inl (kwrap ''kube: re-read conversation before release retry'' e))
           | (w, Inr conv) \<Rightarrow> release_loop c key rec n conv w))"

definition updateReleasingLastFinalizer :: "'w KubeClient \<Rightarrow> key \<Rightarrow> Conversation \<Rightarrow>
    ConversationRecord \<Rightarrow> 'w kube \<Rightarrow> 'w kube \<times> revision result" where
  "updateReleasingLastFinalizer c key conv rec w =
     (case call (\<lambda>a. k_StatusUpdate c a (applyStatus conv rec)) w of
        (w, Inl e) \<Rightarrow> (w, Inl (updateError ''update conversation status'' e))
      | (w, Inr conv) \<Rightarrow> release_loop c key rec statusUpdateMaxAttempts conv w)"

definition addsFinalizer :: "string list \<Rightarrow> string list \<Rightarrow> bool" where
  "addsFinalizer cur next' = list_ex (\<lambda>f. \<not> List.member cur f) next'"

definition kube_Update :: "'w KubeClient \<Rightarrow> 'w kube \<Rightarrow> key \<Rightarrow> revision \<Rightarrow> ConversationRecord \<Rightarrow>
    'w kube \<times> revision result" where
  "kube_Update c w key rev' rec =
     (case call (\<lambda>a. k_Get c a key) (armExpiry (cr_ExpiresAt rec) w) of
        (w, Inl e) \<Rightarrow> (w, Inl (if e = KNotFound then ErrNotFound
                            else kwrap ''kube: update conversation'' e))
      | (w, Inr conv) \<Rightarrow>
          if rv_of conv \<noteq> rev' then (w, Inl ErrConflict)
          else (let deleting = (om_DeletionTimestamp (c_Meta conv) \<noteq> None) in
            if deleting \<and> addsFinalizer (om_Finalizers (c_Meta conv)) (cr_Finalizers rec)
            then (w, Inl ErrDeleting)
            else if deleting \<and> cr_Finalizers rec = []
            then updateReleasingLastFinalizer c key conv rec w
            else (case call (\<lambda>a. k_Update c a (applySpecAndMeta conv rec)) w of
               (w, Inl e) \<Rightarrow> (w, Inl (updateError ''update conversation'' e))
             | (w, Inr conv) \<Rightarrow> updateStatusRetrying c key conv rec w)))"

section \<open>Delete and List\<close>

definition kube_Delete :: "'w KubeClient \<Rightarrow> 'w kube \<Rightarrow> key \<Rightarrow> 'w kube \<times> unit result" where
  "kube_Delete c w key =
     (case call (\<lambda>a. k_Delete c a key) w of
        (w, Inl e) \<Rightarrow> (w, if e = KNotFound then Inr () else Inl (kwrap ''kube: delete conversation'' e))
      | (w, Inr _) \<Rightarrow> (w, Inr ()))"

definition DeclaredIndexes :: "Index list" where
  "DeclaredIndexes = [ByConversationID, ByPipelineAndPhase, ByPhase, ByCausedBy, ByNameBase, ByAll]"

definition isDeclaredIndex :: "Index \<Rightarrow> bool" where
  "isDeclaredIndex index = list_ex (\<lambda>d. d = index) DeclaredIndexes"

fun matchesIndex :: "Conversation \<Rightarrow> Index \<Rightarrow> ListKey \<Rightarrow> bool" where
  "matchesIndex conv ByConversationID key = (cs_ConversationID (c_Spec conv) = lk_ConversationID key)"
| "matchesIndex conv ByPipelineAndPhase key =
     (case cs_PipelineRef (c_Spec conv) of
        None \<Rightarrow> False
      | Some p \<Rightarrow> obj_Name p = lk_PipelineRef key \<and> ct_Phase (c_Status conv) = lk_Phase key)"
| "matchesIndex conv ByPhase key = (ct_Phase (c_Status conv) = lk_Phase key)"
| "matchesIndex conv ByCausedBy key =
     (case cs_CausedBy (c_Spec conv) of None \<Rightarrow> False | Some p \<Rightarrow> apv_Parent p = lk_CausedBy key)"
| "matchesIndex conv ByNameBase key = (label (om_Labels (c_Meta conv)) LabelNameBase = lk_NameBase key)"
| "matchesIndex conv ByAll key = True"

definition listReader :: "'w KubeClient \<Rightarrow> 'w \<Rightarrow> 'w \<times> Conversation list kresult" where
  "listReader c = (case k_Lister c of Some l \<Rightarrow> l | None \<Rightarrow> k_List c)"

fun list_items :: "go_time \<Rightarrow> Index \<Rightarrow> ListKey \<Rightarrow> Conversation list \<Rightarrow> bool \<times> ConversationRecord list" where
  "list_items now index key [] = (False, [])"
| "list_items now index key (conv # rest) =
     (let (arm, out) = list_items now index key rest in
      if isExpired conv now then (True, out)
      else if \<not> matchesIndex conv index key then (arm, out)
      else (arm, toRecord conv # out))"

definition kube_List :: "'w KubeClient \<Rightarrow> 'w kube \<Rightarrow> Index \<Rightarrow> ListKey \<Rightarrow>
    'w kube \<times> ConversationRecord list result" where
  "kube_List c w index key =
     (if \<not> isDeclaredIndex index then (w, Inl ErrUnknownIndex)
      else (case call (listReader c) w of
        (w, Inl e) \<Rightarrow> (w, Inl (kwrap ''kube: list conversations'' e))
      | (w, Inr items) \<Rightarrow>
          (let (arm, out) = list_items (k_Now c (kw_api w)) index key items
           in (w\<lparr>kw_armed := kw_armed w \<or> arm\<rparr>, Inr out))))"

section \<open>Runs\<close>

definition maxRunHistory :: nat where
  "maxRunHistory = 10"

definition append_run :: "RunStatus \<Rightarrow> Conversation \<Rightarrow> Conversation" where
  "append_run rs conv = conv\<lparr>c_Status := (c_Status conv)\<lparr>
     ct_Runs := last_n maxRunHistory (ct_Runs (c_Status conv) @ [rs])\<rparr>\<rparr>"

fun AppendRun_loop :: "'w KubeClient \<Rightarrow> key \<Rightarrow> RunStatus \<Rightarrow> nat \<Rightarrow> 'w kube \<Rightarrow> 'w kube \<times> unit result" where
  "AppendRun_loop c key rs 0 w = (w, Inl ErrConflict)"
| "AppendRun_loop c key rs (Suc n) w =
     (case call (\<lambda>a. k_Get c a key) w of
        (w, Inl e) \<Rightarrow> (w, Inl (if e = KNotFound then ErrNotFound
                            else kwrap ''kube: get conversation to append run'' e))
      | (w, Inr conv) \<Rightarrow>
          (case call (\<lambda>a. k_StatusUpdate c a (append_run rs conv)) w of
             (w, Inl e) \<Rightarrow> if e = KConflict then AppendRun_loop c key rs n w
                          else (w, Inl (kwrap ''kube: append run to conversation'' e))
           | (w, Inr _) \<Rightarrow> (w, Inr ())))"

definition kube_AppendRun :: "'w KubeClient \<Rightarrow> 'w kube \<Rightarrow> key \<Rightarrow> Run \<Rightarrow> 'w kube \<times> unit result" where
  "kube_AppendRun c w key run = AppendRun_loop c key (toRunStatus run) statusUpdateMaxAttempts w"

definition kube_ListRuns :: "'w KubeClient \<Rightarrow> 'w kube \<Rightarrow> key \<Rightarrow> 'w kube \<times> Run list result" where
  "kube_ListRuns c w key =
     (case call (\<lambda>a. k_Get c a key) w of
        (w, Inl e) \<Rightarrow> (w, Inl (if e = KNotFound then ErrNotFound
                            else kwrap ''kube: get conversation to list runs'' e))
      | (w, Inr conv) \<Rightarrow> (w, Inr (toRuns (ct_Runs (c_Status conv)))))"

definition runByID :: "RunStatus list \<Rightarrow> string \<Rightarrow> RunStatus option" where
  "runByID runs runID = List.find (\<lambda>r. rs_RunID r = runID) runs"

fun mark_delivered :: "string list \<Rightarrow> RunStatus \<times> bool \<Rightarrow> RunStatus \<times> bool" where
  "mark_delivered [] st = st"
| "mark_delivered (ch # rest) (run, changed) =
     mark_delivered rest
       (if \<not> List.member (rs_Delivered run) ch
        then (run\<lparr>rs_Delivered := rs_Delivered run @ [ch]\<rparr>, True) else (run, changed))"

definition applyRunUpdate :: "RunStatus \<Rightarrow> RunUpdate \<Rightarrow> RunStatus \<times> bool" where
  "applyRunUpdate run upd =
     (let (run, changed) = (if ru_MarkDeliveryTracked upd \<and> \<not> rs_DeliveryTracked run
            then (run\<lparr>rs_DeliveryTracked := True\<rparr>, True) else (run, False));
          (run, changed) = (if ru_MarkRoutedToParent upd \<and> \<not> rs_RoutedToParent run
            then (run\<lparr>rs_RoutedToParent := True\<rparr>, True) else (run, changed))
      in mark_delivered (ru_MarkDelivered upd) (run, changed))"

definition update_run :: "string \<Rightarrow> RunUpdate \<Rightarrow> Conversation \<Rightarrow> Conversation" where
  "update_run runID upd conv = conv\<lparr>c_Status := (c_Status conv)\<lparr>
     ct_Runs := update_first (\<lambda>r. rs_RunID r = runID) (\<lambda>r. fst (applyRunUpdate r upd))
       (ct_Runs (c_Status conv))\<rparr>\<rparr>"

fun UpdateRun_loop :: "'w KubeClient \<Rightarrow> key \<Rightarrow> string \<Rightarrow> RunUpdate \<Rightarrow> nat \<Rightarrow> 'w kube
    \<Rightarrow> 'w kube \<times> unit result" where
  "UpdateRun_loop c key runID upd 0 w = (w, Inl ErrConflict)"
| "UpdateRun_loop c key runID upd (Suc n) w =
     (case call (\<lambda>a. k_Get c a key) w of
        (w, Inl e) \<Rightarrow> (w, Inl (if e = KNotFound then ErrNotFound
                            else kwrap ''kube: get conversation to update run'' e))
      | (w, Inr conv) \<Rightarrow>
          (case runByID (ct_Runs (c_Status conv)) runID of
             None \<Rightarrow> (w, Inl ErrNotFound)
           | Some run \<Rightarrow>
               if \<not> snd (applyRunUpdate run upd) then (w, Inr ())
               else (case call (\<lambda>a. k_StatusUpdate c a (update_run runID upd conv)) w of
                  (w, Inl e) \<Rightarrow> if e = KConflict then UpdateRun_loop c key runID upd n w
                               else (w, Inl (kwrap ''kube: update run of conversation'' e))
                | (w, Inr _) \<Rightarrow> (w, Inr ()))))"

definition kube_UpdateRun :: "'w KubeClient \<Rightarrow> 'w kube \<Rightarrow> key \<Rightarrow> string \<Rightarrow> RunUpdate
    \<Rightarrow> 'w kube \<times> unit result" where
  "kube_UpdateRun c w key runID upd = UpdateRun_loop c key runID upd statusUpdateMaxAttempts w"

section \<open>Expiry sweep\<close>

fun sweep_items :: "'w KubeClient \<Rightarrow> go_time \<Rightarrow> Conversation list \<Rightarrow> 'w kube \<Rightarrow> 'w kube" where
  "sweep_items c now [] w = w"
| "sweep_items c now (conv # rest) w =
     sweep_items c now rest
       (if isExpired conv now then fst (call (\<lambda>a. k_Delete c a (om_Name (c_Meta conv))) w)
        else if expiresAtFromAnnotations (om_Annotations (c_Meta conv)) \<noteq> None
        then w\<lparr>kw_armed := True\<rparr> else w)"

definition sweepExpired :: "'w KubeClient \<Rightarrow> 'w kube \<Rightarrow> 'w kube" where
  "sweepExpired c w =
     (case call (k_List c) w of
        (w, Inl e) \<Rightarrow> w\<lparr>kw_armed := True\<rparr>
      | (w, Inr items) \<Rightarrow> sweep_items c (k_Now c (kw_api w)) items w)"

text \<open>One tick of \<open>Run\<close>; its start raises the flag.\<close>

definition Run_tick :: "'w KubeClient \<Rightarrow> 'w kube \<Rightarrow> 'w kube" where
  "Run_tick c w = (if kw_armed w then sweepExpired c (w\<lparr>kw_armed := False\<rparr>) else w)"

section \<open>Blobs\<close>

definition new_input :: "key \<Rightarrow> ConversationInput" where
  "new_input key = \<lparr>ci_Meta = zero_meta\<lparr>om_Name := key\<rparr>,
     ci_Spec = \<lparr>ci_ConversationRef = \<lparr>obj_Name = []\<rparr>, ci_Type = [], ci_Payload = [],
       ci_Labels = Map.empty, ci_Severity = []\<rparr>\<rparr>"

definition kube_PutBlob :: "'w KubeClient \<Rightarrow> 'w kube \<Rightarrow> key \<Rightarrow> Blob \<Rightarrow> 'w kube \<times> unit result" where
  "kube_PutBlob c w key blob =
     (case call (\<lambda>a. k_GetInput c a key) w of
        (w, Inr ci) \<Rightarrow>
          (case call (\<lambda>a. k_UpdateInput c a (applyBlob ci blob)) w of
             (w, Inl e) \<Rightarrow> (w, Inl (kwrap ''kube: update blob'' e))
           | (w, Inr _) \<Rightarrow> (w, Inr ()))
      | (w, Inl e) \<Rightarrow>
          if e = KNotFound then
            (case call (\<lambda>a. k_CreateInput c a (applyBlob (new_input key) blob)) w of
               (w, Inl e) \<Rightarrow> (w, Inl (kwrap ''kube: create blob'' e))
             | (w, Inr _) \<Rightarrow> (w, Inr ()))
          else (w, Inl (kwrap ''kube: get blob before put'' e)))"

definition kube_GetBlob :: "'w KubeClient \<Rightarrow> 'w kube \<Rightarrow> key \<Rightarrow> 'w kube \<times> Blob result" where
  "kube_GetBlob c w key =
     (case call (\<lambda>a. k_GetInput c a key) w of
        (w, Inl e) \<Rightarrow> (w, Inl (if e = KNotFound then ErrNotFound else kwrap ''kube: get blob'' e))
      | (w, Inr ci) \<Rightarrow> (w, Inr (toBlob ci)))"

definition kube_DeleteBlob :: "'w KubeClient \<Rightarrow> 'w kube \<Rightarrow> key \<Rightarrow> 'w kube \<times> unit result" where
  "kube_DeleteBlob c w key =
     (case call (\<lambda>a. k_DeleteInput c a key) w of
        (w, Inl e) \<Rightarrow> (w, if e = KNotFound then Inr () else Inl (kwrap ''kube: delete blob'' e))
      | (w, Inr _) \<Rightarrow> (w, Inr ()))"

section \<open>The backend behind the contract\<close>

definition kube_Store :: "'w KubeClient \<Rightarrow> 'w kube Store" where
  "kube_Store c = \<lparr>st_Get = kube_Get c, st_Create = kube_Create c, st_Update = kube_Update c,
     st_Delete = kube_Delete c, st_List = kube_List c, st_AppendRun = kube_AppendRun c,
     st_UpdateRun = kube_UpdateRun c, st_ListRuns = kube_ListRuns c,
     st_GetWithRuns = kube_GetWithRuns c, st_PutBlob = kube_PutBlob c,
     st_GetBlob = kube_GetBlob c, st_DeleteBlob = kube_DeleteBlob c\<rparr>"

end
