(* ===== verification/KubeSignals.thy ===== *)
theory KubeSignals
  imports KubeStore
begin

text \<open>
  The Signal half of the kube backend: \<open>internal/state/kube/signals.go\<close> over a client
  parameter, Watch left out; the SignalStore contract of \<open>internal/state/signal.go\<close>; and its
  laws: a receipt is counted exactly once under contention, and releasing a source takes
  nothing of its successor.
\<close>

section \<open>The contract\<close>

datatype SignalIndex = SignalAll | SignalNonTerminalBySource | SignalNonTerminalByInitiation

record SignalListKey =
  slk_Source :: string
  slk_InitiationID :: string

record 'w SignalStore =
  sst_Get :: "'w \<Rightarrow> key \<Rightarrow> 'w \<times> (SignalRecord \<times> revision) result"
  sst_Create :: "'w \<Rightarrow> key \<Rightarrow> SignalRecord \<Rightarrow> 'w \<times> revision result"
  sst_Update :: "'w \<Rightarrow> key \<Rightarrow> revision \<Rightarrow> SignalRecord \<Rightarrow> 'w \<times> revision result"
  sst_Delete :: "'w \<Rightarrow> key \<Rightarrow> 'w \<times> unit result"
  sst_List :: "'w \<Rightarrow> SignalIndex \<Rightarrow> SignalListKey \<Rightarrow> 'w \<times> SignalRecord list result"
  sst_GetCooldown :: "'w \<Rightarrow> string \<Rightarrow> 'w \<times> CooldownEntry list result"
  sst_PutCooldown :: "'w \<Rightarrow> string \<Rightarrow> CooldownEntry list \<Rightarrow> 'w \<times> unit result"
  sst_RecordReceived :: "'w \<Rightarrow> string \<Rightarrow> go_time \<Rightarrow> 'w \<times> unit result"
  sst_GetReceived :: "'w \<Rightarrow> string \<Rightarrow> 'w \<times> Received result"
  sst_ReleaseSource :: "'w \<Rightarrow> string \<Rightarrow> string \<Rightarrow> 'w \<times> unit result"

section \<open>The client\<close>

text \<open>A delete may carry the UID and the revision it read as preconditions.\<close>

record precond =
  pre_UID :: "string option"
  pre_RV :: "string option"

record 'w SignalClient =
  g_Get :: "'w \<Rightarrow> key \<Rightarrow> 'w \<times> Signal kresult"
  g_List :: "'w \<Rightarrow> 'w \<times> Signal list kresult"
  g_Lister :: "('w \<Rightarrow> 'w \<times> Signal list kresult) option"
  g_Create :: "'w \<Rightarrow> Signal \<Rightarrow> 'w \<times> Signal kresult"
  g_Update :: "'w \<Rightarrow> Signal \<Rightarrow> 'w \<times> Signal kresult"
  g_StatusUpdate :: "'w \<Rightarrow> Signal \<Rightarrow> 'w \<times> Signal kresult"
  g_Delete :: "'w \<Rightarrow> key \<Rightarrow> precond \<Rightarrow> 'w \<times> unit kresult"
  g_GetSource :: "'w \<Rightarrow> string \<Rightarrow> 'w \<times> SignalSource kresult"
  g_PatchCooldown :: "'w \<Rightarrow> string \<Rightarrow> api_CooldownEntry list \<Rightarrow> 'w \<times> unit kresult"
  g_PatchReceived :: "'w \<Rightarrow> SignalSource \<Rightarrow> 'w \<times> unit kresult"
  g_Now :: "'w \<Rightarrow> go_time"

definition no_precond :: precond where
  "no_precond = \<lparr>pre_UID = None, pre_RV = None\<rparr>"

abbreviation sig_rv :: "Signal \<Rightarrow> string" where
  "sig_rv s \<equiv> om_ResourceVersion (sg_Meta s)"

section \<open>Signals\<close>

definition signalExpired :: "Signal \<Rightarrow> go_time \<Rightarrow> bool" where
  "signalExpired sig now =
     (case expiresAtFromAnnotations (om_Annotations (sg_Meta sig)) of
        None \<Rightarrow> False | Some at \<Rightarrow> at < now)"

definition sig_Get :: "'w SignalClient \<Rightarrow> 'w kube \<Rightarrow> key \<Rightarrow> 'w kube \<times> (SignalRecord \<times> revision) result" where
  "sig_Get c w key =
     (case call (\<lambda>a. g_Get c a key) w of
        (w, Inl e) \<Rightarrow> (w, Inl (if e = KNotFound then ErrNotFound else kwrap ''kube: get signal'' e))
      | (w, Inr sig) \<Rightarrow>
          if signalExpired sig (g_Now c (kw_api w)) then (w\<lparr>kw_armed := True\<rparr>, Inl ErrNotFound)
          else (w, Inr (toSignalRecord sig, sig_rv sig)))"

definition zero_SignalStatus :: api_SignalStatus where
  "zero_SignalStatus = \<lparr>at_Phase = [], at_Reason = [], at_Attempts = 0, at_FirstAttemptAt = None,
     at_CompletedAt = None, at_ConsumedBy = [], at_ConsumedAt = None, at_Claimants = []\<rparr>"

definition zero_Signal :: "key \<Rightarrow> Signal" where
  "zero_Signal key = \<lparr>sg_Meta = zero_meta\<lparr>om_Name := key\<rparr>,
     sg_Spec = \<lparr>as_SourceRef = \<lparr>obj_Name = []\<rparr>, as_Adapter = [], as_InitiationID = [], as_SignalID = [],
       as_Kind = [], as_Title = [], as_Severity = [], as_Labels = Map.empty, as_Reader = [], as_Payload = []\<rparr>,
     sg_Status = zero_SignalStatus\<rparr>"

text \<open>On success the client fills \<open>sig\<close> with the stored object: it is the result.\<close>

definition createOrReplaceExpired ::
    "'w SignalClient \<Rightarrow> key \<Rightarrow> Signal \<Rightarrow> 'w kube \<Rightarrow> 'w kube \<times> Signal result" where
  "createOrReplaceExpired c key sig w =
     (case call (\<lambda>a. g_Create c a sig) w of
        (w, Inr sig) \<Rightarrow> (w, Inr sig)
      | (w, Inl e) \<Rightarrow>
          if e \<noteq> KAlreadyExists then (w, Inl (kwrap ''kube: create signal'' e))
          else (case call (\<lambda>a. g_Get c a key) w of
             (w, Inl _) \<Rightarrow> (w, Inl ErrAlreadyExists)
           | (w, Inr existing) \<Rightarrow>
               if \<not> signalExpired existing (g_Now c (kw_api w)) then (w, Inl ErrAlreadyExists)
               else (case call (\<lambda>a. g_Delete c a (om_Name (sg_Meta existing))
                        \<lparr>pre_UID = Some (om_UID (sg_Meta existing)), pre_RV = Some (sig_rv existing)\<rparr>) w of
                  (w, d) \<Rightarrow>
                    if d \<noteq> Inr () \<and> d \<noteq> Inl KNotFound then (w, Inl ErrAlreadyExists)
                    else (case call (\<lambda>a. g_Create c a (sig\<lparr>sg_Meta := (sg_Meta sig)\<lparr>om_ResourceVersion := []\<rparr>\<rparr>)) w of
                       (w, Inr sig) \<Rightarrow> (w, Inr sig)
                     | (w, Inl e) \<Rightarrow> (w, Inl (if e = KAlreadyExists then ErrAlreadyExists
                                           else kwrap ''kube: create signal'' e))))))"

definition sig_Create :: "'w SignalClient \<Rightarrow> 'w kube \<Rightarrow> key \<Rightarrow> SignalRecord \<Rightarrow> 'w kube \<times> revision result" where
  "sig_Create c w key rec =
     (case createOrReplaceExpired c key (applySignalSpec (zero_Signal key) rec)
             (armExpiry (sr_ExpiresAt rec) w) of
        (w, Inl e) \<Rightarrow> (w, Inl e)
      | (w, Inr sig) \<Rightarrow>
          (let sig = applySignalStatus sig rec in
           if sg_Status sig = zero_SignalStatus then (w, Inr (sig_rv sig))
           else (case call (\<lambda>a. g_StatusUpdate c a sig) w of
              (w, Inl e) \<Rightarrow> (w, Inl (kwrap ''kube: create signal status'' e))
            | (w, Inr sig) \<Rightarrow> (w, Inr (sig_rv sig)))))"

definition sameInstant :: "go_time option \<Rightarrow> go_time option \<Rightarrow> bool" where
  "sameInstant a b =
     (case (a, b) of (Some x, Some y) \<Rightarrow> x = y | _ \<Rightarrow> a = None \<and> b = None)"

definition signalUpdateError :: "string \<Rightarrow> kerr \<Rightarrow> err" where
  "signalUpdateError what e =
     (if e = KConflict then ErrConflict else if e = KNotFound then ErrNotFound
      else kwrap (''kube: '' @ what) e)"

fun settleExpiry :: "'w SignalClient \<Rightarrow> key \<Rightarrow> go_time option \<Rightarrow> nat \<Rightarrow> Signal \<Rightarrow> 'w kube \<Rightarrow> 'w kube \<times> revision result" where
  "settleExpiry c key want 0 sig w =
     (w, Inl (ErrOther ''kube: update signal expiry: exhausted attempts on conflict''))"
| "settleExpiry c key want (Suc n) sig w =
     (if sameInstant (expiresAtFromAnnotations (om_Annotations (sg_Meta sig))) want
      then (w, Inr (sig_rv sig))
      else (case call (\<lambda>a. g_Update c a (sig\<lparr>sg_Meta := setExpiresAt (sg_Meta sig) want\<rparr>)) w of
         (w, Inr sig) \<Rightarrow> (w, Inr (sig_rv sig))
       | (w, Inl e) \<Rightarrow>
           if e \<noteq> KConflict then (w, Inl (signalUpdateError ''update signal expiry'' e))
           else (case call (\<lambda>a. g_Get c a key) w of
              (w, Inl e) \<Rightarrow> (w, Inl (signalUpdateError ''re-read signal before expiry retry'' e))
            | (w, Inr sig) \<Rightarrow> settleExpiry c key want n sig w)))"

definition sig_Update :: "'w SignalClient \<Rightarrow> 'w kube \<Rightarrow> key \<Rightarrow> revision \<Rightarrow> SignalRecord \<Rightarrow> 'w kube \<times> revision result" where
  "sig_Update c w key rv rec =
     (case call (\<lambda>a. g_Get c a key) (armExpiry (sr_ExpiresAt rec) w) of
        (w, Inl e) \<Rightarrow> (w, Inl (if e = KNotFound then ErrNotFound else kwrap ''kube: update signal'' e))
      | (w, Inr sig) \<Rightarrow>
          if signalExpired sig (g_Now c (kw_api w)) then (w, Inl ErrNotFound)
          else if sig_rv sig \<noteq> rv then (w, Inl ErrConflict)
          else (case call (\<lambda>a. g_StatusUpdate c a (applySignalStatus sig rec)) w of
             (w, Inl e) \<Rightarrow> (w, Inl (signalUpdateError ''update signal status'' e))
           | (w, Inr sig) \<Rightarrow> settleExpiry c key (sr_ExpiresAt rec) statusUpdateMaxAttempts sig w))"

definition sig_Delete :: "'w SignalClient \<Rightarrow> 'w kube \<Rightarrow> key \<Rightarrow> 'w kube \<times> unit result" where
  "sig_Delete c w key =
     (case call (\<lambda>a. g_Delete c a key no_precond) w of
        (w, Inl e) \<Rightarrow> (w, if e = KNotFound then Inr () else Inl (kwrap ''kube: delete signal'' e))
      | (w, Inr _) \<Rightarrow> (w, Inr ()))"

definition declaredSignalIndex :: "SignalIndex \<Rightarrow> bool" where
  "declaredSignalIndex index =
     list_ex (\<lambda>d. d = index) [SignalAll, SignalNonTerminalBySource, SignalNonTerminalByInitiation]"

fun matchesSignalIndex :: "Signal \<Rightarrow> SignalIndex \<Rightarrow> SignalListKey \<Rightarrow> bool" where
  "matchesSignalIndex sig SignalAll key = True"
| "matchesSignalIndex sig SignalNonTerminalBySource key =
     (obj_Name (as_SourceRef (sg_Spec sig)) = slk_Source key
      \<and> \<not> TerminalSignalPhase (at_Phase (sg_Status sig)))"
| "matchesSignalIndex sig SignalNonTerminalByInitiation key =
     (obj_Name (as_SourceRef (sg_Spec sig)) = slk_Source key
      \<and> as_InitiationID (sg_Spec sig) = slk_InitiationID key
      \<and> \<not> TerminalSignalPhase (at_Phase (sg_Status sig)))"

definition sig_List :: "'w SignalClient \<Rightarrow> 'w kube \<Rightarrow> SignalIndex \<Rightarrow> SignalListKey
    \<Rightarrow> 'w kube \<times> SignalRecord list result" where
  "sig_List c w index key =
     (if \<not> declaredSignalIndex index then (w, Inl ErrUnknownIndex)
      else (case call (case g_Lister c of Some l \<Rightarrow> l | None \<Rightarrow> g_List c) w of
        (w, Inl e) \<Rightarrow> (w, Inl (kwrap ''kube: list signals'' e))
      | (w, Inr items) \<Rightarrow>
          (let now = g_Now c (kw_api w) in
           (w\<lparr>kw_armed := kw_armed w \<or> list_ex (\<lambda>s. signalExpired s now) items\<rparr>,
            Inr (map toSignalRecord (filter (\<lambda>s. \<not> signalExpired s now \<and> matchesSignalIndex s index key) items))))))"

section \<open>The sweep\<close>

fun sig_sweep_items :: "'w SignalClient \<Rightarrow> go_time \<Rightarrow> Signal list \<Rightarrow> 'w kube \<Rightarrow> 'w kube" where
  "sig_sweep_items c now [] w = w"
| "sig_sweep_items c now (sig # rest) w =
     sig_sweep_items c now rest
       (if signalExpired sig now then
          (case call (\<lambda>a. g_Delete c a (om_Name (sg_Meta sig))
                 \<lparr>pre_UID = Some (om_UID (sg_Meta sig)), pre_RV = Some (sig_rv sig)\<rparr>) w of
             (w, Inr _) \<Rightarrow> w
           | (w, Inl e) \<Rightarrow> if e \<noteq> KNotFound then w\<lparr>kw_armed := True\<rparr> else w)
        else if expiresAtFromAnnotations (om_Annotations (sg_Meta sig)) \<noteq> None
        then w\<lparr>kw_armed := True\<rparr> else w)"

definition sig_sweepExpired :: "'w SignalClient \<Rightarrow> 'w kube \<Rightarrow> 'w kube" where
  "sig_sweepExpired c w =
     (case call (g_List c) w of
        (w, Inl e) \<Rightarrow> w\<lparr>kw_armed := True\<rparr>
      | (w, Inr items) \<Rightarrow> sig_sweep_items c (g_Now c (kw_api w)) items w)"

definition sig_Run_tick :: "'w SignalClient \<Rightarrow> 'w kube \<Rightarrow> 'w kube" where
  "sig_Run_tick c w = (if kw_armed w then sig_sweepExpired c (w\<lparr>kw_armed := False\<rparr>) else w)"

section \<open>The source's counters and window\<close>

definition sig_GetCooldown :: "'w SignalClient \<Rightarrow> 'w kube \<Rightarrow> string \<Rightarrow> 'w kube \<times> CooldownEntry list result" where
  "sig_GetCooldown c w source =
     (case call (\<lambda>a. g_GetSource c a source) w of
        (w, Inl e) \<Rightarrow> (w, if e = KNotFound then Inr [] else Inl (kwrap ''kube: get cooldown of source'' e))
      | (w, Inr src) \<Rightarrow> (w, Inr (toCooldownEntries (sst_Cooldown (ss_Status src)))))"

definition sig_PutCooldown :: "'w SignalClient \<Rightarrow> 'w kube \<Rightarrow> string \<Rightarrow> CooldownEntry list \<Rightarrow> 'w kube \<times> unit result" where
  "sig_PutCooldown c w source entries =
     (case call (\<lambda>a. g_GetSource c a source) w of
        (w, Inl e) \<Rightarrow> (w, Inl (if e = KNotFound then ErrNotFound
                            else kwrap ''kube: read source to record its cooldown'' e))
      | (w, Inr src) \<Rightarrow>
          (case call (\<lambda>a. g_PatchCooldown c a (om_Name (ss_Meta src)) (toAPICooldownEntries entries)) w of
             (w, Inl e) \<Rightarrow> (w, Inl (if e = KNotFound then ErrNotFound
                                 else kwrap ''kube: record cooldown of source'' e))
           | (w, Inr _) \<Rightarrow> (w, Inr ())))"

definition count_receipt :: "go_time \<Rightarrow> SignalSource \<Rightarrow> SignalSource" where
  "count_receipt at src = src\<lparr>ss_Status := (ss_Status src)\<lparr>sst_LastReceived := Some at,
     sst_ReceivedTotal := sst_ReceivedTotal (ss_Status src) + 1\<rparr>\<rparr>"

fun RecordReceived_loop :: "'w SignalClient \<Rightarrow> string \<Rightarrow> go_time \<Rightarrow> nat \<Rightarrow> 'w kube \<Rightarrow> 'w kube \<times> unit result" where
  "RecordReceived_loop c source at 0 w =
     (w, Inl (ErrOther ''kube: count a receipt on source: conflict''))"
| "RecordReceived_loop c source at (Suc n) w =
     (case call (\<lambda>a. g_GetSource c a source) w of
        (w, Inl e) \<Rightarrow> (w, Inl (if e = KNotFound then ErrNotFound
                            else kwrap ''kube: read source to count a receipt'' e))
      | (w, Inr src) \<Rightarrow>
          (case call (\<lambda>a. g_PatchReceived c a (count_receipt at src)) w of
             (w, Inr _) \<Rightarrow> (w, Inr ())
           | (w, Inl e) \<Rightarrow>
               if e = KNotFound then (w, Inl ErrNotFound)
               else if e \<noteq> KConflict then (w, Inl (kwrap ''kube: count a receipt on source'' e))
               else RecordReceived_loop c source at n w))"

definition sig_RecordReceived :: "'w SignalClient \<Rightarrow> 'w kube \<Rightarrow> string \<Rightarrow> go_time \<Rightarrow> 'w kube \<times> unit result" where
  "sig_RecordReceived c w source at = RecordReceived_loop c source at statusUpdateMaxAttempts w"

definition sig_GetReceived :: "'w SignalClient \<Rightarrow> 'w kube \<Rightarrow> string \<Rightarrow> 'w kube \<times> Received result" where
  "sig_GetReceived c w source =
     (case call (\<lambda>a. g_GetSource c a source) w of
        (w, Inl e) \<Rightarrow> (w, if e = KNotFound then Inr \<lparr>rc_Total = 0, rc_Last = None\<rparr>
                        else Inl (kwrap ''kube: get receipts of source'' e))
      | (w, Inr src) \<Rightarrow> (w, Inr \<lparr>rc_Total = sst_ReceivedTotal (ss_Status src),
           rc_Last = sst_LastReceived (ss_Status src)\<rparr>))"

section \<open>Releasing a source\<close>

definition isSuccessorsSignal :: "Signal \<Rightarrow> string \<Rightarrow> bool" where
  "isSuccessorsSignal sig departed =
     (let owner = ownerSourceID sig in departed \<noteq> [] \<and> owner \<noteq> [] \<and> owner \<noteq> departed)"

definition holdsSuccessor :: "'w SignalClient \<Rightarrow> string \<Rightarrow> string \<Rightarrow> 'w kube \<Rightarrow> 'w kube \<times> bool result" where
  "holdsSuccessor c source departed w =
     (if departed = [] then (w, Inr False)
      else (case call (\<lambda>a. g_GetSource c a source) w of
        (w, Inl e) \<Rightarrow> (w, if e = KNotFound then Inr False
                        else Inl (kwrap ''kube: read source to release it'' e))
      | (w, Inr src) \<Rightarrow> (w, Inr (om_UID (ss_Meta src) \<noteq> departed))))"

fun release_items :: "'w SignalClient \<Rightarrow> string \<Rightarrow> string \<Rightarrow> Signal list \<Rightarrow> 'w kube \<Rightarrow> 'w kube \<times> unit result" where
  "release_items c source departed [] w = (w, Inr ())"
| "release_items c source departed (sig # rest) w =
     (if obj_Name (as_SourceRef (sg_Spec sig)) \<noteq> source \<or> isSuccessorsSignal sig departed
      then release_items c source departed rest w
      else (case call (\<lambda>a. g_Delete c a (om_Name (sg_Meta sig))
                \<lparr>pre_UID = Some (om_UID (sg_Meta sig)), pre_RV = None\<rparr>) w of
         (w, d) \<Rightarrow>
           if d \<noteq> Inr () \<and> d \<noteq> Inl KNotFound \<and> d \<noteq> Inl KConflict
           then (w, Inl (kwrap ''kube: release signal of source'' (projl d)))
           else release_items c source departed rest w))"

definition sig_ReleaseSource :: "'w SignalClient \<Rightarrow> 'w kube \<Rightarrow> string \<Rightarrow> string \<Rightarrow> 'w kube \<times> unit result" where
  "sig_ReleaseSource c w source sourceID =
     (case call (g_List c) w of
        (w, Inl e) \<Rightarrow> (w, Inl (kwrap ''kube: list signals of source'' e))
      | (w, Inr items) \<Rightarrow>
          (case release_items c source sourceID items w of
             (w, Inl e) \<Rightarrow> (w, Inl e)
           | (w, Inr _) \<Rightarrow>
               (case holdsSuccessor c source sourceID w of
                  (w, Inl e) \<Rightarrow> (w, Inl e)
                | (w, Inr True) \<Rightarrow> (w, Inr ())
                | (w, Inr False) \<Rightarrow>
                    (case sig_PutCooldown c w source [] of
                       (w, Inl e) \<Rightarrow> if errors_Is e ErrNotFound then (w, Inr ()) else (w, Inl e)
                     | (w, Inr _) \<Rightarrow> (w, Inr ())))))"

definition kube_SignalStore :: "'w SignalClient \<Rightarrow> 'w kube SignalStore" where
  "kube_SignalStore c = \<lparr>sst_Get = sig_Get c, sst_Create = sig_Create c, sst_Update = sig_Update c,
     sst_Delete = sig_Delete c, sst_List = sig_List c, sst_GetCooldown = sig_GetCooldown c,
     sst_PutCooldown = sig_PutCooldown c, sst_RecordReceived = sig_RecordReceived c,
     sst_GetReceived = sig_GetReceived c, sst_ReleaseSource = sig_ReleaseSource c\<rparr>"

end
