(* ===== verification/KubeLaws.thy ===== *)
theory KubeLaws
  imports KubeStore
begin

text \<open>
  What the kube backend relies on of the API server, as a locale over its world, and what
  the backend then promises: the laws of the compare-and-swap store, the bounds of the run
  history, the deletion contract. A reference server, small and executable, shows the laws
  can hold.
\<close>

section \<open>Other clients\<close>

text \<open>The same client with other writers' steps run before each of its calls.\<close>

definition interleaved_client :: "'w KubeClient \<Rightarrow> ('w \<times> 'w others) KubeClient" where
  "interleaved_client c = \<lparr>
     k_Get = (\<lambda>w k. lift_op (\<lambda>w. k_Get c w k) w),
     k_List = (\<lambda>w. lift_op (k_List c) w),
     k_Lister = map_option lift_op (k_Lister c),
     k_Create = (\<lambda>w x. lift_op (\<lambda>w. k_Create c w x) w),
     k_Update = (\<lambda>w x. lift_op (\<lambda>w. k_Update c w x) w),
     k_StatusUpdate = (\<lambda>w x. lift_op (\<lambda>w. k_StatusUpdate c w x) w),
     k_Delete = (\<lambda>w k. lift_op (\<lambda>w. k_Delete c w k) w),
     k_GetInput = (\<lambda>w k. lift_op (\<lambda>w. k_GetInput c w k) w),
     k_CreateInput = (\<lambda>w x. lift_op (\<lambda>w. k_CreateInput c w x) w),
     k_UpdateInput = (\<lambda>w x. lift_op (\<lambda>w. k_UpdateInput c w x) w),
     k_DeleteInput = (\<lambda>w k. lift_op (\<lambda>w. k_DeleteInput c w k) w),
     k_Now = (\<lambda>w. k_Now c (fst w))\<rparr>"

definition kube_versions :: "('w \<Rightarrow> key \<Rightarrow> Conversation option) \<Rightarrow> 'w \<Rightarrow> key
    \<Rightarrow> (Conversation \<times> revision) option" where
  "kube_versions objs w k = map_option (\<lambda>x. (x, rv_of x)) (objs w k)"

section \<open>The run history\<close>

lemma status_update_runs:
  "c_Status (append_run rs x) = (c_Status x)\<lparr>ct_Runs := last_n maxRunHistory (ct_Runs (c_Status x) @ [rs])\<rparr>"
  "c_Meta (append_run rs x) = c_Meta x" "c_Meta (update_run i u x) = c_Meta x"
  by (simp_all add: append_run_def update_run_def)

lemma mark_delivered_spec:
  "rs_Delivered (fst (mark_delivered chs (r, b))) = fold add_once chs (rs_Delivered r)
   \<and> fst (mark_delivered chs (r, b)) = r\<lparr>rs_Delivered := fold add_once chs (rs_Delivered r)\<rparr>
   \<and> snd (mark_delivered chs (r, b)) = (b \<or> \<not> set chs \<subseteq> set (rs_Delivered r))"
proof (induction chs arbitrary: r b)
  case (Cons ch chs)
  then show ?case by (auto simp: add_once_def)
qed auto

lemma set_fold_add_once: "set (fold add_once xs ys) = set ys \<union> set xs"
  by (induction xs arbitrary: ys) auto

lemma fold_add_once_subset: "set xs \<subseteq> set ys \<Longrightarrow> fold add_once xs ys = ys"
  by (induction xs) (auto simp: add_once_def)

lemma distinct_fold_add_once: "distinct (fold add_once xs ys) = distinct ys"
  by (induction xs arbitrary: ys) auto

lemma applyRunUpdate_eq:
  "fst (applyRunUpdate r u) = r\<lparr>rs_DeliveryTracked := rs_DeliveryTracked r \<or> ru_MarkDeliveryTracked u,
     rs_RoutedToParent := rs_RoutedToParent r \<or> ru_MarkRoutedToParent u,
     rs_Delivered := fold add_once (ru_MarkDelivered u) (rs_Delivered r)\<rparr>"
  "snd (applyRunUpdate r u) \<longleftrightarrow> ru_MarkDeliveryTracked u \<and> \<not> rs_DeliveryTracked r
     \<or> ru_MarkRoutedToParent u \<and> \<not> rs_RoutedToParent r
     \<or> \<not> set (ru_MarkDelivered u) \<subseteq> set (rs_Delivered r)"
  by (auto simp: applyRunUpdate_def mark_delivered_spec)

lemma applyRunUpdate_id [simp]: "rs_RunID (fst (applyRunUpdate r u)) = rs_RunID r"
  by (simp add: applyRunUpdate_eq)

section \<open>The API server's laws\<close>

text \<open>
  \<open>objs w k\<close> is the stored object under a name. \<open>wspec\<close>, \<open>wstatus\<close> and \<open>wrun\<close> are what
  storing a spec, a status and a run entry keeps of them: the schema's defaults and the
  second-granular encoding of \<open>metav1.Time\<close>.
\<close>

definition main_written :: "(ConversationSpec \<Rightarrow> ConversationSpec) \<Rightarrow> Conversation \<Rightarrow> Conversation
    \<Rightarrow> string \<Rightarrow> Conversation" where
  "main_written wspec old sent v = old\<lparr>
     c_Meta := (c_Meta old)\<lparr>om_ResourceVersion := v, om_Finalizers := om_Finalizers (c_Meta sent),
       om_Labels := om_Labels (c_Meta sent), om_Annotations := om_Annotations (c_Meta sent),
       om_OwnerReferences := om_OwnerReferences (c_Meta sent)\<rparr>,
     c_Spec := wspec (c_Spec sent)\<rparr>"

definition status_written :: "(ConversationStatus \<Rightarrow> ConversationStatus) \<Rightarrow> Conversation
    \<Rightarrow> Conversation \<Rightarrow> string \<Rightarrow> Conversation" where
  "status_written wstatus old sent v = old\<lparr>
     c_Meta := (c_Meta old)\<lparr>om_ResourceVersion := v\<rparr>, c_Status := wstatus (c_Status sent)\<rparr>"

lemma main_written_simps [simp]:
  "c_Status (main_written ws old sent v) = c_Status old"
  "rv_of (main_written ws old sent v) = v"
  "om_Name (c_Meta (main_written ws old sent v)) = om_Name (c_Meta old)"
  "om_UID (c_Meta (main_written ws old sent v)) = om_UID (c_Meta old)"
  "om_CreationTimestamp (c_Meta (main_written ws old sent v)) = om_CreationTimestamp (c_Meta old)"
  "om_DeletionTimestamp (c_Meta (main_written ws old sent v)) = om_DeletionTimestamp (c_Meta old)"
  by (simp_all add: main_written_def)

lemma status_written_simps [simp]:
  "c_Spec (status_written ws old sent v) = c_Spec old"
  "c_Status (status_written ws old sent v) = ws (c_Status sent)"
  "rv_of (status_written ws old sent v) = v"
  "om_Name (c_Meta (status_written ws old sent v)) = om_Name (c_Meta old)"
  "om_DeletionTimestamp (c_Meta (status_written ws old sent v)) = om_DeletionTimestamp (c_Meta old)"
  "om_Finalizers (c_Meta (status_written ws old sent v)) = om_Finalizers (c_Meta old)"
  by (simp_all add: status_written_def)

definition kube_current :: "('w \<Rightarrow> key \<Rightarrow> Conversation option) \<Rightarrow> 'w kube \<Rightarrow> key
    \<Rightarrow> (ConversationRecord \<times> revision) option" where
  "kube_current objs w k = map_option (\<lambda>x. (toRecord x, rv_of x)) (objs (kw_api w) k)"

text \<open>What a record reads as once it has been written over one with another identity.\<close>

definition kube_stored :: "(ConversationSpec \<Rightarrow> ConversationSpec) \<Rightarrow> (ConversationStatus \<Rightarrow> ConversationStatus)
    \<Rightarrow> ConversationRecord \<Rightarrow> ConversationRecord \<Rightarrow> ConversationRecord" where
  "kube_stored wspec wstatus old rec =
     toRecord \<lparr>c_Meta = setExpiresAt \<lparr>om_Name = cr_Name old, om_UID = cr_ID old, om_ResourceVersion = [],
          om_CreationTimestamp = cr_CreatedAt old, om_DeletionTimestamp = cr_DeletionRequestedAt old,
          om_Finalizers = cr_Finalizers rec,
          om_Labels = setLabel Map.empty LabelNameBase (cr_NameBase rec),
          om_Annotations = Map.empty, om_OwnerReferences = []\<rparr> (cr_ExpiresAt rec),
        c_Spec = wspec (applySpec zero_spec rec),
        c_Status = wstatus (c_Status (applyStatus zero_Conversation rec))\<rparr>"

text \<open>What an Update that returns did, to the object of its key.\<close>

definition kube_updated :: "(ConversationSpec \<Rightarrow> ConversationSpec) \<Rightarrow> (ConversationStatus \<Rightarrow> ConversationStatus)
    \<Rightarrow> (RunStatus \<Rightarrow> RunStatus) \<Rightarrow> Conversation \<Rightarrow> ConversationRecord \<Rightarrow> revision \<Rightarrow> Conversation option \<Rightarrow> bool" where
  "kube_updated wspec wstatus wrun old rec v' x' \<longleftrightarrow>
     (case x' of
        None \<Rightarrow> cr_Finalizers rec = [] \<and> om_DeletionTimestamp (c_Meta old) \<noteq> None
      | Some x \<Rightarrow> rv_of x = v' \<and> toRecord x = kube_stored wspec wstatus (toRecord old) rec
          \<and> ct_Runs (c_Status x) = map wrun (ct_Runs (c_Status old)))"

text \<open>What an atomic update of the run history leaves: \<open>f\<close> applied to the object as it was at
  the instant of the write.\<close>

definition kube_runs_written :: "('w \<Rightarrow> key \<Rightarrow> Conversation option) \<Rightarrow> ('w \<Rightarrow> bool)
    \<Rightarrow> (ConversationStatus \<Rightarrow> ConversationStatus) \<Rightarrow> key \<Rightarrow> (Conversation \<Rightarrow> Conversation) \<Rightarrow> 'w \<Rightarrow> bool" where
  "kube_runs_written objs ok wstatus k f w' \<longleftrightarrow> (\<exists>a conv v. ok a \<and> objs a k = Some conv
     \<and> objs w' = (objs a)(k \<mapsto> status_written wstatus conv (f conv) v))"

locale kube_api =
  fixes c :: "'w KubeClient"
    and objs :: "'w \<Rightarrow> key \<Rightarrow> Conversation option"
    and ok :: "'w \<Rightarrow> bool"
    and wspec :: "ConversationSpec \<Rightarrow> ConversationSpec"
    and wstatus :: "ConversationStatus \<Rightarrow> ConversationStatus"
    and wrun :: "RunStatus \<Rightarrow> RunStatus"
  assumes named: "ok w \<Longrightarrow> objs w k = Some x \<Longrightarrow> om_Name (c_Meta x) = k"
    and get_same: "ok w \<Longrightarrow> k_Get c w k = (w', y) \<Longrightarrow> ok w' \<and> objs w' = objs w"
    and get_hit: "ok w \<Longrightarrow> k_Get c w k = (w', Inr x) \<Longrightarrow> objs w k = Some x"
    and get_miss: "ok w \<Longrightarrow> k_Get c w k = (w', Inl KNotFound) \<Longrightarrow> objs w k = None"
    and create_ok: "ok w \<Longrightarrow> k_Create c w x = (w', y) \<Longrightarrow> ok w'"
    and create_new: "ok w \<Longrightarrow> k_Create c w x = (w', Inr x') \<Longrightarrow>
        objs w (om_Name (c_Meta x)) = None \<and> objs w' = (objs w)(om_Name (c_Meta x) \<mapsto> x')
        \<and> om_Name (c_Meta x') = om_Name (c_Meta x) \<and> om_DeletionTimestamp (c_Meta x') = None
        \<and> om_Finalizers (c_Meta x') = om_Finalizers (c_Meta x)
        \<and> om_Labels (c_Meta x') = om_Labels (c_Meta x)
        \<and> om_Annotations (c_Meta x') = om_Annotations (c_Meta x)
        \<and> c_Spec x' = wspec (c_Spec x) \<and> ct_Runs (c_Status x') = []"
    and create_taken: "ok w \<Longrightarrow> k_Create c w x = (w', Inl KAlreadyExists) \<Longrightarrow>
        objs w' = objs w \<and> objs w (om_Name (c_Meta x)) \<noteq> None"
    and main_ok: "ok w \<Longrightarrow> k_Update c w x = (w', y) \<Longrightarrow> ok w'"
    and main_hit: "ok w \<Longrightarrow> k_Update c w x = (w', Inr x') \<Longrightarrow>
        \<exists>old. objs w (om_Name (c_Meta x)) = Some old \<and> rv_of old = rv_of x
          \<and> x' = main_written wspec old x (rv_of x')
          \<and> objs w' = (objs w)(om_Name (c_Meta x) :=
              (if om_DeletionTimestamp (c_Meta old) \<noteq> None \<and> om_Finalizers (c_Meta x) = []
               then None else Some x'))"
    and main_conflict: "ok w \<Longrightarrow> k_Update c w x = (w', Inl KConflict) \<Longrightarrow>
        objs w' = objs w \<and> (\<forall>old. objs w (om_Name (c_Meta x)) = Some old \<longrightarrow> rv_of old \<noteq> rv_of x)"
    and main_missing: "ok w \<Longrightarrow> k_Update c w x = (w', Inl KNotFound) \<Longrightarrow>
        objs w' = objs w \<and> objs w (om_Name (c_Meta x)) = None"
    and status_ok: "ok w \<Longrightarrow> k_StatusUpdate c w x = (w', y) \<Longrightarrow> ok w'"
    and status_hit: "ok w \<Longrightarrow> k_StatusUpdate c w x = (w', Inr x') \<Longrightarrow>
        \<exists>old. objs w (om_Name (c_Meta x)) = Some old \<and> rv_of old = rv_of x
          \<and> x' = status_written wstatus old x (rv_of x')
          \<and> objs w' = (objs w)(om_Name (c_Meta x) \<mapsto> x')"
    and status_conflict: "ok w \<Longrightarrow> k_StatusUpdate c w x = (w', Inl KConflict) \<Longrightarrow>
        objs w' = objs w \<and> (\<forall>old. objs w (om_Name (c_Meta x)) = Some old \<longrightarrow> rv_of old \<noteq> rv_of x)"
    and status_missing: "ok w \<Longrightarrow> k_StatusUpdate c w x = (w', Inl KNotFound) \<Longrightarrow>
        objs w' = objs w \<and> objs w (om_Name (c_Meta x)) = None"
    and delete_ok: "ok w \<Longrightarrow> k_Delete c w k = (w', u) \<Longrightarrow> ok w'"
    and delete_hit: "ok w \<Longrightarrow> k_Delete c w k = (w', Inr ()) \<Longrightarrow>
        \<exists>old. objs w k = Some old
          \<and> (if om_Finalizers (c_Meta old) = [] then objs w' = (objs w)(k := None)
             else \<exists>v t. objs w' = (objs w)(k \<mapsto> old\<lparr>c_Meta := (c_Meta old)\<lparr>om_ResourceVersion := v,
                    om_DeletionTimestamp := Some t\<rparr>\<rparr>)
                  \<and> (\<forall>t'. om_DeletionTimestamp (c_Meta old) = Some t' \<longrightarrow> t = t'))"
    and delete_else: "ok w \<Longrightarrow> k_Delete c w k = (w', u) \<Longrightarrow> j \<noteq> k \<Longrightarrow> objs w' j = objs w j"
    and delete_miss: "ok w \<Longrightarrow> k_Delete c w k = (w', Inl KNotFound) \<Longrightarrow> objs w' = objs w \<and> objs w k = None"
    and list_same: "ok w \<Longrightarrow> k_List c w = (w', z) \<Longrightarrow> ok w' \<and> objs w' = objs w"
    and list_all_of: "ok w \<Longrightarrow> k_List c w = (w', Inr xs) \<Longrightarrow>
        distinct (map (om_Name \<circ> c_Meta) xs) \<and> (\<forall>x. x \<in> set xs \<longleftrightarrow> (\<exists>k. objs w k = Some x))"
    and wstatus_runs: "wstatus (s\<lparr>ct_Runs := rs\<rparr>) = (wstatus s)\<lparr>ct_Runs := map wrun rs\<rparr>"
    and wrun_keeps: "rs_RunID (wrun r) = rs_RunID r" "rs_Delivered (wrun r) = rs_Delivered r"
        "rs_DeliveryTracked (wrun r) = rs_DeliveryTracked r"
        "rs_RoutedToParent (wrun r) = rs_RoutedToParent r" "wrun (wrun r) = wrun r"
begin

section \<open>The backend as a compare-and-swap store\<close>

abbreviation kcur :: "'w kube \<Rightarrow> key \<Rightarrow> (ConversationRecord \<times> revision) option" where
  "kcur \<equiv> kube_current objs"

abbreviation kstored :: "ConversationRecord \<Rightarrow> ConversationRecord \<Rightarrow> ConversationRecord" where
  "kstored \<equiv> kube_stored wspec wstatus"

lemma applySpec_any: "applySpec s rec = applySpec zero_spec rec"
  by (simp add: applySpec_def)

lemma applyStatus_any:
  "c_Status (applyStatus x rec) = (c_Status (applyStatus zero_Conversation rec))\<lparr>ct_Runs := ct_Runs (c_Status x)\<rparr>"
  by (simp add: applyStatus_def)

lemma toRecord_eqI:
  assumes "om_Name (c_Meta x) = om_Name (c_Meta y)" "om_UID (c_Meta x) = om_UID (c_Meta y)"
    "om_CreationTimestamp (c_Meta x) = om_CreationTimestamp (c_Meta y)"
    "om_DeletionTimestamp (c_Meta x) = om_DeletionTimestamp (c_Meta y)"
    "om_Finalizers (c_Meta x) = om_Finalizers (c_Meta y)"
    "label (om_Labels (c_Meta x)) LabelNameBase = label (om_Labels (c_Meta y)) LabelNameBase"
    "expiresAtFromAnnotations (om_Annotations (c_Meta x)) = expiresAtFromAnnotations (om_Annotations (c_Meta y))"
    "c_Spec x = c_Spec y" "(c_Status x)\<lparr>ct_Runs := []\<rparr> = (c_Status y)\<lparr>ct_Runs := []\<rparr>"
  shows "toRecord x = toRecord y"
  using assms by (cases "c_Status x"; cases "c_Status y") (simp add: toRecord_def Let_def)

lemma toRecord_identity [simp]:
  "cr_Name (toRecord x) = om_Name (c_Meta x)" "cr_ID (toRecord x) = om_UID (c_Meta x)"
  "cr_CreatedAt (toRecord x) = om_CreationTimestamp (c_Meta x)"
  "cr_DeletionRequestedAt (toRecord x) = om_DeletionTimestamp (c_Meta x)"
  "cr_Finalizers (toRecord x) = om_Finalizers (c_Meta x)"
  by (simp_all add: toRecord_def Let_def)

lemma expiry_after_apply:
  "expiresAtFromAnnotations (om_Annotations (c_Meta (applySpecAndMeta x rec)))
    = (case cr_ExpiresAt rec of None \<Rightarrow> None | Some t \<Rightarrow> time_Parse (time_Format t))"
  by (simp add: applySpecAndMeta_def Let_def expiresAt_setExpiresAt)

lemma spec_after_apply: "c_Spec (applySpecAndMeta x rec) = applySpec zero_spec rec"
  by (simp add: applySpecAndMeta_def Let_def applySpec_any [of "c_Spec x"])

lemma wstatus_apply:
  "(wstatus (c_Status (applyStatus y rec)))\<lparr>ct_Runs := []\<rparr>
    = (wstatus (c_Status (applyStatus zero_Conversation rec)))\<lparr>ct_Runs := []\<rparr>"
  by (simp add: applyStatus_any [of y] wstatus_runs)

lemma toRecord_written:
  assumes "c_Meta x' = (c_Meta (main_written wspec x (applySpecAndMeta x rec) v))\<lparr>om_ResourceVersion := v'\<rparr>"
    and "c_Spec x' = wspec (c_Spec (applySpecAndMeta x rec))"
    and "c_Status x' = wstatus (c_Status (applyStatus y rec))"
  shows "toRecord x' = kstored (toRecord x) rec"
  unfolding kube_stored_def
  by (rule toRecord_eqI)
    (simp_all only: assms spec_after_apply wstatus_apply [of y] Conversation.simps,
     simp_all add: main_written_def label_applySpecAndMeta(1) label_setLabel expiry_after_apply
       expiresAt_setExpiresAt)

abbreviation kok :: "'w kube \<Rightarrow> bool" where
  "kok w \<equiv> ok (kw_api w)"

abbreviation kobjs :: "'w kube \<Rightarrow> key \<Rightarrow> Conversation option" where
  "kobjs w \<equiv> objs (kw_api w)"

lemma getVisible_ok:
  assumes "kok w" "getVisible c w k = (w', x)"
  shows "kok w' \<and> kobjs w' = kobjs w \<and> (\<forall>conv. x = Inr conv \<longrightarrow> kobjs w k = Some conv)"
proof -
  obtain w1 y where g: "call (\<lambda>a. k_Get c a k) w = (w1, y)" by fastforce
  with get_same [OF assms(1)] get_hit [OF assms(1)]
  have "kok w1" "kobjs w1 = kobjs w" "\<And>conv. y = Inr conv \<Longrightarrow> kobjs w k = Some conv"
    by (auto simp: call_eq)
  with assms(2) g show ?thesis
    by (cases y) (auto simp: getVisible_def split: if_splits)
qed

lemma call_Get:
  assumes "kok w" "call (\<lambda>a. k_Get c a k) w = (w', x)"
  shows "kok w'" "kobjs w' = kobjs w" "x = Inr conv \<Longrightarrow> kobjs w k = Some conv \<and> om_Name (c_Meta conv) = k"
    "x = Inl KNotFound \<Longrightarrow> kobjs w k = None"
  using assms get_same get_hit get_miss named by (fastforce simp: call_eq)+

lemma call_Status:
  assumes "kok w" "call (\<lambda>a. k_StatusUpdate c a conv) w = (w', x)"
    and "kobjs w k = Some old" "om_Name (c_Meta conv) = k" "rv_of old = rv_of conv"
  shows "kok w'" "x \<noteq> Inl KConflict" "x \<noteq> Inl KNotFound"
    "x = Inr new \<Longrightarrow> new = status_written wstatus old conv (rv_of new) \<and> kobjs w' = (kobjs w)(k \<mapsto> new)"
proof -
  have f: "k_StatusUpdate c (kw_api w) conv = (kw_api w', x)" using assms(2) by (simp add: call_eq)
  show "kok w'" by (rule status_ok [OF assms(1) f])
  show "x \<noteq> Inl KConflict" using status_conflict [OF assms(1), of conv] f assms(3-5) by blast
  show "x \<noteq> Inl KNotFound" using status_missing [OF assms(1), of conv] f assms(3-5) by force
  assume "x = Inr new"
  with status_hit [OF assms(1), of conv] f assms(3-5)
  show "new = status_written wstatus old conv (rv_of new) \<and> kobjs w' = (kobjs w)(k \<mapsto> new)"
    by (metis option.inject)
qed

lemma call_Main:
  assumes "kok w" "call (\<lambda>a. k_Update c a conv) w = (w', x)"
    and "kobjs w k = Some old" "om_Name (c_Meta conv) = k" "rv_of old = rv_of conv"
  shows "kok w'" "x \<noteq> Inl KConflict" "x \<noteq> Inl KNotFound"
    "x = Inr new \<Longrightarrow> new = main_written wspec old conv (rv_of new)
       \<and> kobjs w' = (kobjs w)(k := (if om_DeletionTimestamp (c_Meta old) \<noteq> None
            \<and> om_Finalizers (c_Meta conv) = [] then None else Some new))"
proof -
  have f: "k_Update c (kw_api w) conv = (kw_api w', x)" using assms(2) by (simp add: call_eq)
  show "kok w'" by (rule main_ok [OF assms(1) f])
  show "x \<noteq> Inl KConflict" using main_conflict [OF assms(1), of conv] f assms(3-5) by blast
  show "x \<noteq> Inl KNotFound" using main_missing [OF assms(1), of conv] f assms(3-5) by force
  assume "x = Inr new"
  with main_hit [OF assms(1), of conv] f assms(3-5)
  show "new = main_written wspec old conv (rv_of new)
       \<and> kobjs w' = (kobjs w)(k := (if om_DeletionTimestamp (c_Meta old) \<noteq> None
            \<and> om_Finalizers (c_Meta conv) = [] then None else Some new))"
    by (metis option.inject)
qed

lemma updateStatus_alone:
  assumes "kok w" "updateStatus_loop c k base rec (Suc n) conv w = (w', y)"
    and "kobjs w k = Some old" "om_Name (c_Meta conv) = k" "rv_of old = rv_of conv"
  shows "kok w' \<and> (case y of
      Inr v \<Rightarrow> kobjs w' = (kobjs w)(k \<mapsto> status_written wstatus old conv v)
    | Inl e \<Rightarrow> \<not> errors_Is e ErrConflict \<and> \<not> errors_Is e ErrNotFound \<and> e \<noteq> ErrDeleting)"
proof -
  obtain w1 x where u: "call (\<lambda>a. k_StatusUpdate c a conv) w = (w1, x)" by fastforce
  note facts = call_Status [OF assms(1) u assms(3-5)]
  show ?thesis
  proof (cases x)
    case (Inl e)
    with facts(2) have "e \<noteq> KConflict" by simp
    with assms(2) u Inl facts(1) show ?thesis by (auto simp: kwrap_def)
  next
    case (Inr new)
    with assms(2) u facts(1) facts(4) [OF Inr] show ?thesis by auto
  qed
qed

lemma release_alone:
  assumes "kok w" "release_loop c k rec (Suc n) conv w = (w', y)"
    and "kobjs w k = Some old" "om_Name (c_Meta conv) = k" "rv_of old = rv_of conv"
    and "om_DeletionTimestamp (c_Meta old) \<noteq> None" "cr_Finalizers rec = []"
  shows "kok w' \<and> (case y of Inr v \<Rightarrow> kobjs w' = (kobjs w)(k := None)
    | Inl e \<Rightarrow> \<not> errors_Is e ErrConflict \<and> \<not> errors_Is e ErrNotFound \<and> e \<noteq> ErrDeleting)"
proof -
  obtain w1 x where u: "call (\<lambda>a. k_Update c a (applySpecAndMeta conv rec)) w = (w1, x)" by fastforce
  note facts = call_Main [OF assms(1) u assms(3)]
  show ?thesis
  proof (cases x)
    case (Inl e)
    with facts(2,3) assms(4,5) have "e \<noteq> KConflict" "e \<noteq> KNotFound" by auto
    with assms(2) u Inl facts(1) assms(4,5) show ?thesis by (auto simp: kwrap_def)
  next
    case (Inr new)
    with assms(2,4-7) u facts(1) facts(4) [OF _ _ Inr] show ?thesis by auto
  qed
qed

lemma toRecord_status_written:
  assumes "x = main_written wspec old (applySpecAndMeta old rec) v"
  shows "toRecord (status_written wstatus x (applyStatus x rec) v') = kstored (toRecord old) rec"
  by (rule toRecord_written [where v = v and v' = v' and y = x])
    (simp_all add: assms status_written_def main_written_def)

lemma runs_status_written:
  "ct_Runs (c_Status (status_written wstatus x (applyStatus x rec) v')) = map wrun (ct_Runs (c_Status x))"
proof -
  obtain s where s: "c_Status (applyStatus x rec) = s\<lparr>ct_Runs := ct_Runs (c_Status x)\<rparr>"
    by (metis applyStatus_any)
  show ?thesis by (simp add: status_written_def s wstatus_runs)
qed

abbreviation updated :: "Conversation \<Rightarrow> ConversationRecord \<Rightarrow> revision \<Rightarrow> Conversation option \<Rightarrow> bool" where
  "updated \<equiv> kube_updated wspec wstatus wrun"

lemma kube_Update_releasing:
  assumes "kok w" "kobjs w k = Some conv" "om_DeletionTimestamp (c_Meta conv) \<noteq> None"
    "cr_Finalizers rec = []" "updateReleasingLastFinalizer c k conv rec w = (w', y)"
  shows "kok w' \<and> (case y of Inr v \<Rightarrow> kobjs w' = (kobjs w)(k := None)
    | Inl e \<Rightarrow> \<not> errors_Is e ErrConflict \<and> \<not> errors_Is e ErrNotFound \<and> e \<noteq> ErrDeleting)"
proof -
  have nm: "om_Name (c_Meta conv) = k" by (rule named [OF assms(1,2)])
  obtain w1 x where u: "call (\<lambda>a. k_StatusUpdate c a (applyStatus conv rec)) w = (w1, x)" by fastforce
  note f = call_Status [OF assms(1) u assms(2)]
  show ?thesis
  proof (cases x)
    case (Inl e)
    with f nm have "e \<noteq> KConflict" "e \<noteq> KNotFound" "kok w1" by auto
    with assms(5) u Inl show ?thesis
      by (auto simp: updateReleasingLastFinalizer_def updateError_def kwrap_def)
  next
    case (Inr new)
    with f nm have new: "new = status_written wstatus conv (applyStatus conv rec) (rv_of new)"
      "kobjs w1 = (kobjs w)(k \<mapsto> new)" "kok w1" by auto
    have "release_loop c k rec (Suc 19) new w1 = (w', y)"
      using assms(5) u Inr by (simp add: updateReleasingLastFinalizer_def statusUpdateMaxAttempts_def)
    from release_alone [OF new(3) this, of new] new nm assms(3,4)
    show ?thesis by (cases y) (auto, (metis status_written_simps(4,5))+)
  qed
qed

lemma kube_Update_result:
  assumes "kok w" "kube_Update c w k v rec = (w', y)"
  shows "kok w' \<and> (case y of
      Inr v' \<Rightarrow> (\<exists>old x'. kobjs w k = Some old \<and> rv_of old = v \<and> kobjs w' = (kobjs w)(k := x')
                  \<and> updated old rec v' x')
    | Inl e \<Rightarrow> (errors_Is e ErrConflict \<longrightarrow> kobjs w' = kobjs w \<and> (\<forall>old. kobjs w k = Some old \<longrightarrow> rv_of old \<noteq> v))
        \<and> (errors_Is e ErrNotFound \<longrightarrow> kobjs w' = kobjs w \<and> kobjs w k = None)
        \<and> (e = ErrDeleting \<longrightarrow> kobjs w' = kobjs w))"
proof -
  obtain w1 x where g: "call (\<lambda>a. k_Get c a k) (armExpiry (cr_ExpiresAt rec) w) = (w1, x)" by fastforce
  have g1: "kok w1" "kobjs w1 = kobjs w" "\<And>conv. x = Inr conv \<Longrightarrow> kobjs w k = Some conv \<and> om_Name (c_Meta conv) = k"
    "x = Inl KNotFound \<Longrightarrow> kobjs w k = None"
    using call_Get [OF _ g] assms(1) by simp_all
  show ?thesis
  proof (cases x)
    case (Inl e)
    with assms(2) g g1 show ?thesis by (auto simp: kube_Update_def kwrap_def split: if_splits)
  next
    case (Inr conv)
    note conv = g1(3) [OF Inr]
    let ?del = "om_DeletionTimestamp (c_Meta conv) \<noteq> None"
    consider (stale) "rv_of conv \<noteq> v"
      | (refused) "rv_of conv = v" "?del" "addsFinalizer (om_Finalizers (c_Meta conv)) (cr_Finalizers rec)"
      | (release) "rv_of conv = v" "?del" "cr_Finalizers rec = []"
          "\<not> addsFinalizer (om_Finalizers (c_Meta conv)) (cr_Finalizers rec)"
      | (main) "rv_of conv = v" "\<not> (?del \<and> addsFinalizer (om_Finalizers (c_Meta conv)) (cr_Finalizers rec))"
          "\<not> (?del \<and> cr_Finalizers rec = [])" by blast
    then show ?thesis
    proof cases
      case stale
      with assms(2) g g1 Inr show ?thesis by (auto simp: kube_Update_def)
    next
      case refused
      with assms(2) g g1 Inr show ?thesis by (auto simp: kube_Update_def Let_def)
    next
      case release
      with assms(2) g Inr have r: "updateReleasingLastFinalizer c k conv rec w1 = (w', y)"
        by (simp add: kube_Update_def Let_def)
      have "kobjs w1 k = Some conv" using conv g1(2) by simp
      from kube_Update_releasing [OF g1(1) this release(2,3) r] g1(2) conv release
      show ?thesis by (cases y) (auto simp: kube_updated_def intro!: exI [of _ None])
    next
      case main
      obtain w2 z where u: "call (\<lambda>a. k_Update c a (applySpecAndMeta conv rec)) w1 = (w2, z)" by fastforce
      have c1: "kobjs w1 k = Some conv" using conv g1(2) by simp
      note f = call_Main [OF g1(1) u c1]
      show ?thesis
      proof (cases z)
        case (Inl e)
        with f conv have "e \<noteq> KConflict" "e \<noteq> KNotFound" "kok w2" by auto
        with assms(2) g Inr u Inl main show ?thesis
          by (auto simp: kube_Update_def Let_def updateError_def kwrap_def)
      next
        case z: (Inr new)
        with f conv have new: "new = main_written wspec conv (applySpecAndMeta conv rec) (rv_of new)"
          "kok w2" "kobjs w2 = (kobjs w1)(k := (if om_DeletionTimestamp (c_Meta conv) \<noteq> None
             \<and> om_Finalizers (c_Meta (applySpecAndMeta conv rec)) = [] then None else Some new))" by auto
        have k2: "kobjs w2 = (kobjs w)(k \<mapsto> new)" using new(3) main(3) g1(2) by auto
        have nm: "om_Name (c_Meta (applyStatus new rec)) = k" using new(1) conv
          by (metis c_Meta_applyStatus main_written_simps(3))
        have "updateStatus_loop c k (c_Status new) rec (Suc 19) (applyStatus new rec) w2 = (w', y)"
          using assms(2) g Inr u z main
          by (auto simp: kube_Update_def Let_def updateStatusRetrying_def statusUpdateMaxAttempts_def
              split: if_splits)
        from updateStatus_alone [OF new(2) this _ nm, of new] k2
        have res: "kok w' \<and> (case y of
              Inr v \<Rightarrow> kobjs w' = (kobjs w)(k \<mapsto> status_written wstatus new (applyStatus new rec) v)
            | Inl e \<Rightarrow> \<not> errors_Is e ErrConflict \<and> \<not> errors_Is e ErrNotFound \<and> e \<noteq> ErrDeleting)"
          by (cases y) auto
        have "updated conv rec v' (Some (status_written wstatus new (applyStatus new rec) v'))" for v'
          using toRecord_status_written [OF new(1), of v'] runs_status_written [of new rec v']
            arg_cong [OF new(1), of "\<lambda>x. c_Status x"]
          by (simp add: kube_updated_def)
        with res conv main(1) show ?thesis by (cases y) auto
      qed
    qed
  qed
qed

lemma kube_cas: "cas_store (kube_Store c) kcur kstored kok"
proof
  fix w k w' x assume "kok w" "st_Get (kube_Store c) w k = (w', x)"
  then show "kok w' \<and> kcur w' = kcur w"
    using getVisible_ok [of w k]
    by (auto simp: kube_Store_def kube_Get_def kube_current_def fun_eq_iff split: prod.splits sum.splits)
next
  fix w k w' r v assume "kok w" "st_Get (kube_Store c) w k = (w', Inr (r, v))"
  then show "kcur w k = Some (r, v)"
    using getVisible_ok [of w k]
    by (auto simp: kube_Store_def kube_Get_def kube_current_def split: prod.splits sum.splits)
next
  fix w k v r w' y assume "kok w" "st_Update (kube_Store c) w k v r = (w', y)"
  then show "kok w'" using kube_Update_result [of w k v r] by (simp add: kube_Store_def)
next
  fix w k v r w' v' assume "kok w" "st_Update (kube_Store c) w k v r = (w', Inr v')"
  then obtain old x' where "kobjs w k = Some old" "rv_of old = v" "kobjs w' = (kobjs w)(k := x')"
      "updated old r v' x'"
    using kube_Update_result [of w k v r w' "Inr v'"] by (auto simp: kube_Store_def)
  then show "\<exists>old. kcur w k = Some (old, v)
      \<and> (kcur w' k = Some (kstored old r, v') \<or> (kcur w' k = None \<and> cr_Finalizers r = []))"
    by (cases x') (auto simp: kube_current_def kube_updated_def)
next
  fix w k v r w' e assume "kok w" "st_Update (kube_Store c) w k v r = (w', Inl e)" "errors_Is e ErrConflict"
  then show "kcur w' = kcur w \<and> (\<forall>old v'. kcur w k = Some (old, v') \<longrightarrow> v' \<noteq> v)"
    using kube_Update_result [of w k v r w' "Inl e"] by (auto simp: kube_Store_def kube_current_def fun_eq_iff)
qed

end

sublocale kube_api \<subseteq> cas: cas_store "kube_Store c" "kube_current objs" "kube_stored wspec wstatus" "\<lambda>w. ok (kw_api w)"
  by (rule kube_cas)

context kube_api begin

abbreviation runs_written :: "key \<Rightarrow> (Conversation \<Rightarrow> Conversation) \<Rightarrow> 'w \<Rightarrow> bool" where
  "runs_written \<equiv> kube_runs_written objs ok wstatus"

lemma interleaved_status:
  assumes "call (\<lambda>a. k_Get (interleaved_client c) a k) w = (w1, Inr conv)"
    and "call (\<lambda>a. k_StatusUpdate (interleaved_client c) a (f conv)) w1 = (w2, x)"
    and "\<And>x. c_Meta (f x) = c_Meta x"
    and "ok (fst (kw_api w))" "\<forall>e \<in> set (snd (kw_api w)). admissible (kube_versions objs) ok e"
  shows "ok (fst (kw_api w2))" "\<forall>e \<in> set (snd (kw_api w2)). admissible (kube_versions objs) ok e"
    "x = Inr new \<Longrightarrow> runs_written k f (fst (kw_api w2))"
proof -
  obtain a es where w: "kw_api w = (a, es)" by fastforce
  obtain a1 es1 where w1: "kw_api w1 = (a1, es1)" by fastforce
  obtain a2 es2 where w2: "kw_api w2 = (a2, es2)" by fastforce
  have g: "lift_op (\<lambda>w. k_Get c w k) (a, es) = ((a1, es1), Inr conv)"
    using assms(1) w w1 by (simp add: call_eq interleaved_client_def)
  have u: "lift_op (\<lambda>w. k_StatusUpdate c w (f conv)) (a1, es1) = ((a2, es2), x)"
    using assms(2) w1 w2 by (simp add: call_eq interleaved_client_def)
  have pre: "ok a" "\<forall>e \<in> set es. admissible (kube_versions objs) ok e" using assms(4,5) w by auto
  obtain b where b: "k_Get c b k = (a1, Inr conv)" "ok b" "\<forall>e \<in> set es1. admissible (kube_versions objs) ok e"
    by (rule lift_step [OF g pre]) blast
  have oa1: "ok a1" "objs a1 k = Some conv" using get_same [OF b(2,1)] get_hit [OF b(2,1)] by auto
  have nm: "om_Name (c_Meta conv) = k" by (rule named [OF oa1])
  obtain d where d: "k_StatusUpdate c d (f conv) = (a2, x)" "ok d"
    "\<forall>e \<in> set es2. admissible (kube_versions objs) ok e"
    "\<And>k r v r'. kube_versions objs a1 k = Some (r, v) \<Longrightarrow> kube_versions objs d k = Some (r', v) \<Longrightarrow> r' = r"
    by (rule lift_step [OF u oa1(1) b(3)]) blast
  show "ok (fst (kw_api w2))" "\<forall>e \<in> set (snd (kw_api w2)). admissible (kube_versions objs) ok e"
    using status_ok [OF d(2,1)] w2 d(3) by auto
  assume x: "x = Inr new"
  with status_hit [OF d(2)] d(1) obtain old where old: "objs d k = Some old" "rv_of old = rv_of conv"
    "new = status_written wstatus old (f conv) (rv_of new)" "objs a2 = (objs d)(k \<mapsto> new)"
    using nm assms(3) by (metis (no_types, lifting))
  have "old = conv"
    using d(4) [of k conv "rv_of conv" old] oa1(2) old(1,2) by (simp add: kube_versions_def)
  with old d(2) w2 show "runs_written k f (fst (kw_api w2))"
    unfolding kube_runs_written_def by (metis fst_conv)
qed

lemma interleaved_get:
  assumes "call (\<lambda>a. k_Get (interleaved_client c) a k) w = (w1, x)"
    and "ok (fst (kw_api w))" "\<forall>e \<in> set (snd (kw_api w)). admissible (kube_versions objs) ok e"
  shows "ok (fst (kw_api w1)) \<and> (\<forall>conv. x = Inr conv \<longrightarrow> objs (fst (kw_api w1)) k = Some conv)"
proof -
  obtain a es where w: "kw_api w = (a, es)" by fastforce
  obtain a1 es1 where w1: "kw_api w1 = (a1, es1)" by fastforce
  have g: "lift_op (\<lambda>w. k_Get c w k) (a, es) = ((a1, es1), x)"
    using assms(1) w w1 by (simp add: call_eq interleaved_client_def)
  obtain b where b: "k_Get c b k = (a1, x)" "ok b"
    by (rule lift_step [OF g, of ok "kube_versions objs"]) (use assms(2,3) w in auto)
  with get_same [OF b(2,1)] get_hit [OF b(2)] w1 show ?thesis by auto
qed

lemma AppendRun_loop_atomic:
  assumes "AppendRun_loop (interleaved_client c) k rs n w = (w', Inr ())"
    and "ok (fst (kw_api w))" "\<forall>e \<in> set (snd (kw_api w)). admissible (kube_versions objs) ok e"
  shows "runs_written k (append_run rs) (fst (kw_api w'))"
  using assms
proof (induction n arbitrary: w)
  case (Suc n)
  obtain w1 x where g: "call (\<lambda>a. k_Get (interleaved_client c) a k) w = (w1, x)" by fastforce
  with Suc.prems(1) obtain conv where x: "x = Inr conv" by (cases x) auto
  obtain w2 y where u: "call (\<lambda>a. k_StatusUpdate (interleaved_client c) a (append_run rs conv)) w1 = (w2, y)"
    by fastforce
  note i = interleaved_status [OF g [unfolded x] u status_update_runs(2) Suc.prems(2,3)]
  show ?case
  proof (cases y)
    case (Inl e)
    with Suc.prems(1) g x u have "AppendRun_loop (interleaved_client c) k rs n w2 = (w', Inr ())"
      by (auto split: if_splits)
    from Suc.IH [OF this i(1,2)] show ?thesis .
  next
    case (Inr new)
    with i(3) [OF Inr] Suc.prems(1) g x u show ?thesis by auto
  qed
qed simp

lemma UpdateRun_loop_atomic:
  assumes "UpdateRun_loop (interleaved_client c) k i u n w = (w', Inr ())"
    and "ok (fst (kw_api w))" "\<forall>e \<in> set (snd (kw_api w)). admissible (kube_versions objs) ok e"
  shows "runs_written k (update_run i u) (fst (kw_api w'))
    \<or> (\<exists>conv run. objs (fst (kw_api w')) k = Some conv \<and> runByID (ct_Runs (c_Status conv)) i = Some run
         \<and> \<not> snd (applyRunUpdate run u))"
  using assms
proof (induction n arbitrary: w)
  case (Suc n)
  obtain w1 x where g: "call (\<lambda>a. k_Get (interleaved_client c) a k) w = (w1, x)" by fastforce
  with Suc.prems(1) obtain conv where x: "x = Inr conv" by (cases x) auto
  with Suc.prems(1) g obtain run where run: "runByID (ct_Runs (c_Status conv)) i = Some run"
    by (auto split: option.splits)
  have o1: "objs (fst (kw_api w1)) k = Some conv"
    using interleaved_get [OF g Suc.prems(2,3)] x by simp
  show ?case
  proof (cases "snd (applyRunUpdate run u)")
    case False
    with Suc.prems(1) g x run o1 show ?thesis by auto
  next
    case True
    obtain w2 y where u: "call (\<lambda>a. k_StatusUpdate (interleaved_client c) a (update_run i u conv)) w1 = (w2, y)"
      by fastforce
    note i = interleaved_status [OF g [unfolded x] u status_update_runs(3) Suc.prems(2,3)]
    show ?thesis
    proof (cases y)
      case (Inl e)
      with Suc.prems(1) g x u run True have "UpdateRun_loop (interleaved_client c) k i u n w2 = (w', Inr ())"
        by (auto split: if_splits)
      from Suc.IH [OF this i(1,2)] show ?thesis .
    next
      case (Inr new)
      with i(3) [OF Inr] Suc.prems(1) g x u run True show ?thesis by auto
    qed
  qed
qed simp

section \<open>Create, delete, expiry\<close>

lemma kube_Create_result:
  assumes "kok w" "kube_Create c w k rec = (w', Inr v)"
  shows "kok w' \<and> kobjs w k = None \<and> (\<exists>x. kobjs w' = (kobjs w)(k \<mapsto> x) \<and> rv_of x = v
    \<and> toRecord x = kstored (toRecord x) rec \<and> om_DeletionTimestamp (c_Meta x) = None
    \<and> ct_Runs (c_Status x) = [])"
proof -
  let ?new = "applySpecAndMeta (new_conv k) rec"
  have nm: "om_Name (c_Meta ?new) = k" by (simp add: new_conv_def)
  obtain w1 y where g: "call (\<lambda>a. k_Create c a ?new) (armExpiry (cr_ExpiresAt rec) w) = (w1, y)" by fastforce
  from assms(2) g obtain x1 where y: "y = Inr x1" by (cases y) (auto simp: kube_Create_def)
  from g y have cr: "k_Create c (kw_api w) ?new = (kw_api w1, Inr x1)" by (simp add: call_eq)
  note law = create_new [OF assms(1) cr, unfolded nm]
  have k1: "kok w1" by (rule create_ok [OF assms(1) cr])
  obtain w2 z where u: "call (\<lambda>a. k_StatusUpdate c a (applyStatus x1 rec)) w1 = (w2, z)" by fastforce
  from assms(2) g y u obtain x where z: "z = Inr x" and eqs: "w' = w2" "v = rv_of x"
    by (cases z) (auto simp: kube_Create_def)
  have "kobjs w1 k = Some x1" using law by simp
  from call_Status [OF k1 u this] law
  have x: "kok w2" "x = status_written wstatus x1 (applyStatus x1 rec) (rv_of x)"
    "kobjs w2 = (kobjs w)(k \<mapsto> x)" using z by auto
  have "toRecord x = kstored (toRecord x) rec"
    unfolding kube_stored_def
    by (rule toRecord_eqI, simp_all only: toRecord_identity)
      (subst x(2), simp add: status_written_def law label_applySpecAndMeta(1) label_setLabel
        expiry_after_apply expiresAt_setExpiresAt spec_after_apply wstatus_apply [of x1])+
  moreover have "ct_Runs (c_Status x) = []"
    by (subst x(2), simp only: runs_status_written, simp add: law)
  moreover have "om_DeletionTimestamp (c_Meta x) = None"
    using arg_cong [OF x(2), of "\<lambda>x. om_DeletionTimestamp (c_Meta x)"] law by simp
  ultimately show ?thesis using x law eqs by blast
qed

lemma kube_Delete_result:
  assumes "kok w" "kube_Delete c w k = (w', Inr ())"
  shows "kok w' \<and> (case kobjs w k of
      None \<Rightarrow> kobjs w' = kobjs w
    | Some old \<Rightarrow>
        if om_Finalizers (c_Meta old) = [] then kobjs w' = (kobjs w)(k := None)
        else (\<exists>x t. kobjs w' = (kobjs w)(k \<mapsto> x) \<and> om_DeletionTimestamp (c_Meta x) = Some t
               \<and> (\<forall>t'. om_DeletionTimestamp (c_Meta old) = Some t' \<longrightarrow> t = t')
               \<and> toRecord x = (toRecord old)\<lparr>cr_DeletionRequestedAt := Some t\<rparr>))"
proof -
  obtain w1 y where c: "call (\<lambda>a. k_Delete c a k) w = (w1, y)" by fastforce
  with assms(2) have d: "k_Delete c (kw_api w) k = (kw_api w1, y)" "w' = w1" "y = Inr () \<or> y = Inl KNotFound"
    by (auto simp: kube_Delete_def call_eq kwrap_def split: sum.splits if_splits)
  have k1: "kok w1" by (rule delete_ok [OF assms(1) d(1)])
  from d(3) show ?thesis
  proof
    assume y: "y = Inr ()"
    obtain old where old: "kobjs w k = Some old" and
      upd: "if om_Finalizers (c_Meta old) = [] then kobjs w1 = (kobjs w)(k := None)
         else \<exists>v t. kobjs w1 = (kobjs w)(k \<mapsto> old\<lparr>c_Meta := (c_Meta old)\<lparr>om_ResourceVersion := v,
                om_DeletionTimestamp := Some t\<rparr>\<rparr>)
              \<and> (\<forall>t'. om_DeletionTimestamp (c_Meta old) = Some t' \<longrightarrow> t = t')"
      using delete_hit [OF assms(1)] d(1) y by blast
    have "toRecord (old\<lparr>c_Meta := (c_Meta old)\<lparr>om_ResourceVersion := v, om_DeletionTimestamp := Some t\<rparr>\<rparr>)
        = (toRecord old)\<lparr>cr_DeletionRequestedAt := Some t\<rparr>" for v t
      by (simp add: toRecord_def Let_def)
    note rec = this
    show ?thesis
    proof (cases "om_Finalizers (c_Meta old) = []")
      case True
      with upd k1 old d(2) show ?thesis by simp
    next
      case False
      with upd obtain v t where "kobjs w1 = (kobjs w)(k \<mapsto> old\<lparr>c_Meta := (c_Meta old)\<lparr>om_ResourceVersion := v,
                om_DeletionTimestamp := Some t\<rparr>\<rparr>)"
        "\<forall>t'. om_DeletionTimestamp (c_Meta old) = Some t' \<longrightarrow> t = t'" by auto
      then have "\<exists>x t. kobjs w' = (kobjs w)(k \<mapsto> x) \<and> om_DeletionTimestamp (c_Meta x) = Some t
               \<and> (\<forall>t'. om_DeletionTimestamp (c_Meta old) = Some t' \<longrightarrow> t = t')
               \<and> toRecord x = (toRecord old)\<lparr>cr_DeletionRequestedAt := Some t\<rparr>"
        unfolding d(2) by (intro exI [of _ "old\<lparr>c_Meta := (c_Meta old)\<lparr>om_ResourceVersion := v,
            om_DeletionTimestamp := Some t\<rparr>\<rparr>"] exI [of _ t]) (simp add: rec)
      with False k1 old d(2) show ?thesis by simp
    qed
  next
    assume "y = Inl KNotFound"
    with delete_miss [OF assms(1)] d k1 show ?thesis by auto
  qed
qed

lemma sweep_items_result:
  assumes "kok w" "distinct (map (om_Name \<circ> c_Meta) items)"
    and "\<And>x. x \<in> set items \<Longrightarrow> kobjs w (om_Name (c_Meta x)) = Some x"
  shows "kok (sweep_items c now items w)
    \<and> (\<forall>k x. kobjs w k = Some x \<longrightarrow> \<not> isExpired x now \<longrightarrow> kobjs (sweep_items c now items w) k = Some x)
    \<and> (\<forall>x \<in> set items. \<not> isExpired x now \<longrightarrow>
        expiresAtFromAnnotations (om_Annotations (c_Meta x)) \<noteq> None \<longrightarrow> kw_armed (sweep_items c now items w))
    \<and> (kw_armed w \<longrightarrow> kw_armed (sweep_items c now items w))"
  using assms
proof (induction items arbitrary: w)
  case (Cons y ys)
  let ?w = "if isExpired y now then fst (call (\<lambda>a. k_Delete c a (om_Name (c_Meta y))) w)
        else if expiresAtFromAnnotations (om_Annotations (c_Meta y)) \<noteq> None
        then w\<lparr>kw_armed := True\<rparr> else w"
  have step: "kok ?w \<and> (\<forall>j. j \<noteq> om_Name (c_Meta y) \<or> \<not> isExpired y now \<longrightarrow> kobjs ?w j = kobjs w j)
    \<and> (kw_armed w \<longrightarrow> kw_armed ?w)" if "kok w"
  proof -
    obtain w1 u where d: "call (\<lambda>a. k_Delete c a (om_Name (c_Meta y))) w = (w1, u)" by fastforce
    then have d': "k_Delete c (kw_api w) (om_Name (c_Meta y)) = (kw_api w1, u)" "kw_armed w1 = kw_armed w"
      by (auto simp: call_eq)
    show ?thesis
    proof (cases "isExpired y now")
      case True
      with d d' delete_ok [OF that d'(1)] delete_else [OF that d'(1)] show ?thesis by simp
    qed (use that in simp)
  qed
  have pre: "kobjs ?w (om_Name (c_Meta x)) = Some x"
    if "kok w" "distinct (map (om_Name \<circ> c_Meta) (y # ys))" "x \<in> set ys"
      "\<And>x. x \<in> set (y # ys) \<Longrightarrow> kobjs w (om_Name (c_Meta x)) = Some x" for x
  proof -
    have "om_Name (c_Meta x) \<noteq> om_Name (c_Meta y)" using that(2,3) by (auto simp: image_iff)
    with step [OF that(1)] that(3) that(4) [of x] show ?thesis by (metis list.set_intros(2))
  qed
  note st = step [OF Cons.prems(1)]
  have ih: "kok (sweep_items c now ys ?w)
    \<and> (\<forall>k x. kobjs ?w k = Some x \<longrightarrow> \<not> isExpired x now \<longrightarrow> kobjs (sweep_items c now ys ?w) k = Some x)
    \<and> (\<forall>x \<in> set ys. \<not> isExpired x now \<longrightarrow>
        expiresAtFromAnnotations (om_Annotations (c_Meta x)) \<noteq> None \<longrightarrow> kw_armed (sweep_items c now ys ?w))
    \<and> (kw_armed ?w \<longrightarrow> kw_armed (sweep_items c now ys ?w))"
    by (rule Cons.IH) (use st Cons.prems(2) pre [OF Cons.prems(1,2) _ Cons.prems(3)] in \<open>auto\<close>)
  have keep: "kobjs ?w k = Some x" if "kobjs w k = Some x" "\<not> isExpired x now" for k x
    using st that Cons.prems(3) [of y] by (metis list.set_intros(1) option.inject)
  have raised: "kw_armed ?w" if "\<not> isExpired y now"
    "expiresAtFromAnnotations (om_Annotations (c_Meta y)) \<noteq> None"
    using that by simp
  show ?case unfolding sweep_items.simps(2)
  proof (intro conjI allI ballI impI)
    show "kok (sweep_items c now ys ?w)" using ih by blast
  next
    fix k x assume "kobjs w k = Some x" "\<not> isExpired x now"
    with keep ih show "kobjs (sweep_items c now ys ?w) k = Some x" by blast
  next
    fix x assume x: "x \<in> set (y # ys)" "\<not> isExpired x now"
      "expiresAtFromAnnotations (om_Annotations (c_Meta x)) \<noteq> None"
    show "kw_armed (sweep_items c now ys ?w)"
    proof (cases "x = y")
      case True
      with x raised ih show ?thesis by blast
    next
      case False
      with x ih show ?thesis by (metis set_ConsD)
    qed
  next
    assume "kw_armed w"
    with st ih show "kw_armed (sweep_items c now ys ?w)" by blast
  qed
qed simp

lemma Run_tick_result:
  assumes "kok w"
  shows "kok (Run_tick c w) \<and> (\<exists>now.
     (\<forall>k x. kobjs w k = Some x \<longrightarrow> \<not> isExpired x now \<longrightarrow> kobjs (Run_tick c w) k = Some x)
   \<and> (kw_armed w \<longrightarrow> kw_armed (Run_tick c w)
       \<or> (\<forall>k x. kobjs w k = Some x \<longrightarrow> isExpired x now
            \<or> expiresAtFromAnnotations (om_Annotations (c_Meta x)) = None)))"
proof (cases "kw_armed w")
  case False
  with assms show ?thesis by (auto simp: Run_tick_def)
next
  case True
  let ?w = "w\<lparr>kw_armed := False\<rparr>"
  obtain w1 y where l: "call (k_List c) ?w = (w1, y)" by fastforce
  then have l': "k_List c (kw_api w) = (kw_api w1, y)" by (simp add: call_eq)
  have s: "kok w1" "kobjs w1 = kobjs w" using list_same [OF assms l'] by auto
  show ?thesis
  proof (cases y)
    case (Inl e)
    with l s True show ?thesis by (auto simp: Run_tick_def sweepExpired_def)
  next
    case (Inr items)
    with l l' have items: "distinct (map (om_Name \<circ> c_Meta) items)"
      "\<And>x. x \<in> set items \<longleftrightarrow> (\<exists>k. kobjs w k = Some x)"
      using list_all_of [OF assms] by auto
    let ?now = "k_Now c (kw_api w1)"
    have eq: "Run_tick c w = sweep_items c ?now items w1"
      using True l Inr by (simp add: Run_tick_def sweepExpired_def)
    have "kobjs w1 (om_Name (c_Meta x)) = Some x" if "x \<in> set items" for x
      using items(2) that named [OF assms] s by metis
    note r = sweep_items_result [OF s(1) items(1) this, where now = ?now]
    show ?thesis unfolding eq
    proof (intro conjI exI [of _ ?now])
      show "kok (sweep_items c ?now items w1)" using r by blast
      show "\<forall>k x. kobjs w k = Some x \<longrightarrow> \<not> isExpired x ?now \<longrightarrow> kobjs (sweep_items c ?now items w1) k = Some x"
        using r s(2) by simp
      show "kw_armed w \<longrightarrow> kw_armed (sweep_items c ?now items w1) \<or> (\<forall>k x. kobjs w k = Some x \<longrightarrow>
          isExpired x ?now \<or> expiresAtFromAnnotations (om_Annotations (c_Meta x)) = None)"
        using r items(2) by blast
    qed
  qed
qed

end

end
