(* ===== verification/KubeServer.thy ===== *)
theory KubeServer
  imports KubeLaws "HOL-Library.AList"
begin

text \<open>
  A reference API server for one namespace of Conversations, executable, that satisfies the
  laws the kube backend relies on; and the properties of the backend, stated for every
  server that satisfies them.
\<close>

section \<open>A reference server\<close>

record ref_world =
  rw_items :: "(key \<times> Conversation) list"
  rw_inputs :: "(key \<times> ConversationInput) list"
  rw_rv :: int
  rw_clock :: go_time

text \<open>What the encoding keeps: whole seconds, and the schema's default binding mode.\<close>

definition wire_time :: "go_time \<Rightarrow> go_time" where
  "wire_time t = second * (t div second)"

definition ref_run :: "RunStatus \<Rightarrow> RunStatus" where
  "ref_run r = r\<lparr>rs_StartedAt := map_option wire_time (rs_StartedAt r),
     rs_FinishedAt := map_option wire_time (rs_FinishedAt r)\<rparr>"

definition ref_status :: "ConversationStatus \<Rightarrow> ConversationStatus" where
  "ref_status s = s\<lparr>ct_LastActivity := map_option wire_time (ct_LastActivity s),
     ct_ClosedAt := map_option wire_time (ct_ClosedAt s),
     ct_EscalatedAt := map_option wire_time (ct_EscalatedAt s),
     ct_LastRuntimeStartFailure := map_option wire_time (ct_LastRuntimeStartFailure s),
     ct_Runs := map ref_run (ct_Runs s)\<rparr>"

definition ref_spec :: "ConversationSpec \<Rightarrow> ConversationSpec" where
  "ref_spec s = s\<lparr>cs_Toolsets := map_option (\<lambda>t. if ats_Mode t = [] then t\<lparr>ats_Mode := ''merge''\<rparr> else t)
     (cs_Toolsets s)\<rparr>"

definition ref_bump :: "ref_world \<Rightarrow> ref_world" where
  "ref_bump w = w\<lparr>rw_rv := rw_rv w + 1\<rparr>"

definition ref_put :: "key \<Rightarrow> Conversation \<Rightarrow> ref_world \<Rightarrow> ref_world" where
  "ref_put k x w = (ref_bump w)\<lparr>rw_items := AList.update k x (rw_items w)\<rparr>"

definition ref_drop :: "key \<Rightarrow> ref_world \<Rightarrow> ref_world" where
  "ref_drop k w = (ref_bump w)\<lparr>rw_items := AList.delete k (rw_items w)\<rparr>"

definition ref_Get :: "ref_world \<Rightarrow> key \<Rightarrow> ref_world \<times> Conversation kresult" where
  "ref_Get w k = (w, case map_of (rw_items w) k of None \<Rightarrow> Inl KNotFound | Some x \<Rightarrow> Inr x)"

definition ref_Create :: "ref_world \<Rightarrow> Conversation \<Rightarrow> ref_world \<times> Conversation kresult" where
  "ref_Create w x =
     (let k = om_Name (c_Meta x) in
      case map_of (rw_items w) k of
        Some _ \<Rightarrow> (w, Inl KAlreadyExists)
      | None \<Rightarrow>
          (let x' = x\<lparr>c_Meta := (c_Meta x)\<lparr>om_UID := ''uid-'' @ itoa (rw_rv w),
                  om_ResourceVersion := itoa (rw_rv w), om_CreationTimestamp := rw_clock w,
                  om_DeletionTimestamp := None\<rparr>,
                c_Spec := ref_spec (c_Spec x), c_Status := zero_status\<rparr>
           in (ref_put k x' w, Inr x')))"

definition ref_guarded :: "ref_world \<Rightarrow> Conversation \<Rightarrow>
    (Conversation \<Rightarrow> ref_world \<times> Conversation kresult) \<Rightarrow> ref_world \<times> Conversation kresult" where
  "ref_guarded w x f = (case map_of (rw_items w) (om_Name (c_Meta x)) of
       None \<Rightarrow> (w, Inl KNotFound)
     | Some old \<Rightarrow> if rv_of old \<noteq> rv_of x then (w, Inl KConflict) else f old)"

definition ref_Update :: "ref_world \<Rightarrow> Conversation \<Rightarrow> ref_world \<times> Conversation kresult" where
  "ref_Update w x = ref_guarded w x (\<lambda>old.
     let x' = main_written ref_spec old x (itoa (rw_rv w)) in
     (if om_DeletionTimestamp (c_Meta old) \<noteq> None \<and> om_Finalizers (c_Meta x) = []
      then ref_drop (om_Name (c_Meta x)) w else ref_put (om_Name (c_Meta x)) x' w, Inr x'))"

definition ref_StatusUpdate :: "ref_world \<Rightarrow> Conversation \<Rightarrow> ref_world \<times> Conversation kresult" where
  "ref_StatusUpdate w x = ref_guarded w x (\<lambda>old.
     let x' = status_written ref_status old x (itoa (rw_rv w)) in
     (ref_put (om_Name (c_Meta x)) x' w, Inr x'))"

definition ref_Delete :: "ref_world \<Rightarrow> key \<Rightarrow> ref_world \<times> unit kresult" where
  "ref_Delete w k = (case map_of (rw_items w) k of
       None \<Rightarrow> (w, Inl KNotFound)
     | Some old \<Rightarrow>
         (if om_Finalizers (c_Meta old) = [] then ref_drop k w
          else ref_put k (old\<lparr>c_Meta := (c_Meta old)\<lparr>om_ResourceVersion := itoa (rw_rv w),
                 om_DeletionTimestamp := Some (case om_DeletionTimestamp (c_Meta old) of
                    None \<Rightarrow> rw_clock w | Some t \<Rightarrow> t)\<rparr>\<rparr>) w, Inr ()))"

definition ref_GetInput :: "ref_world \<Rightarrow> key \<Rightarrow> ref_world \<times> ConversationInput kresult" where
  "ref_GetInput w k = (w, case map_of (rw_inputs w) k of None \<Rightarrow> Inl KNotFound | Some x \<Rightarrow> Inr x)"

definition ref_PutInput :: "ref_world \<Rightarrow> ConversationInput \<Rightarrow> ref_world \<times> ConversationInput kresult" where
  "ref_PutInput w x = ((ref_bump w)\<lparr>rw_inputs := AList.update (om_Name (ci_Meta x)) x (rw_inputs w)\<rparr>, Inr x)"

definition ref_DeleteInput :: "ref_world \<Rightarrow> key \<Rightarrow> ref_world \<times> unit kresult" where
  "ref_DeleteInput w k = (case map_of (rw_inputs w) k of
       None \<Rightarrow> (w, Inl KNotFound)
     | Some _ \<Rightarrow> ((ref_bump w)\<lparr>rw_inputs := AList.delete k (rw_inputs w)\<rparr>, Inr ()))"

definition ref_client :: "ref_world KubeClient" where
  "ref_client = \<lparr>k_Get = ref_Get, k_List = (\<lambda>w. (w, Inr (map snd (rw_items w)))), k_Lister = None,
     k_Create = ref_Create, k_Update = ref_Update, k_StatusUpdate = ref_StatusUpdate,
     k_Delete = ref_Delete, k_GetInput = ref_GetInput, k_CreateInput = ref_PutInput,
     k_UpdateInput = ref_PutInput, k_DeleteInput = ref_DeleteInput, k_Now = rw_clock\<rparr>"

definition ref_objs :: "ref_world \<Rightarrow> key \<Rightarrow> Conversation option" where
  "ref_objs w = map_of (rw_items w)"

text \<open>Names are keys, and every revision in use was handed out before the next one.\<close>

definition ref_ok :: "ref_world \<Rightarrow> bool" where
  "ref_ok w \<longleftrightarrow> distinct (map fst (rw_items w)) \<and> 0 \<le> rw_rv w
     \<and> (\<forall>(k, x) \<in> set (rw_items w). om_Name (c_Meta x) = k
          \<and> (\<exists>n. 0 \<le> n \<and> n < rw_rv w \<and> rv_of x = itoa n))"

lemma ref_objs_put [simp]: "ref_objs (ref_put k x w) = (ref_objs w)(k \<mapsto> x)"
  by (simp add: ref_objs_def ref_put_def update_conv')

lemma ref_objs_drop [simp]: "ref_objs (ref_drop k w) = (ref_objs w)(k := None)"
  by (simp add: ref_objs_def ref_drop_def delete_conv')

lemma rw_rv_put [simp]: "rw_rv (ref_put k x w) = rw_rv w + 1" "rw_rv (ref_drop k w) = rw_rv w + 1"
  by (simp_all add: ref_put_def ref_drop_def ref_bump_def)

lemma ref_ok_iff:
  "ref_ok w \<longleftrightarrow> distinct (map fst (rw_items w)) \<and> 0 \<le> rw_rv w
     \<and> (\<forall>k x. ref_objs w k = Some x \<longrightarrow> om_Name (c_Meta x) = k
          \<and> (\<exists>n. 0 \<le> n \<and> n < rw_rv w \<and> rv_of x = itoa n))"
  by (auto simp: ref_ok_def ref_objs_def dest: map_of_SomeD)

lemma ref_ok_fresh:
  assumes "ref_ok w" "ref_objs w k = Some x" shows "rv_of x \<noteq> itoa (rw_rv w)"
proof -
  obtain n where "0 \<le> n" "n < rw_rv w" "rv_of x = itoa n"
    using assms by (auto simp: ref_ok_iff)
  then show ?thesis using itoa_inject [of n "rw_rv w"] by simp
qed

lemma ref_ok_put:
  assumes "ref_ok w" "om_Name (c_Meta x) = k" "rv_of x = itoa (rw_rv w)"
  shows "ref_ok (ref_put k x w)"
proof -
  have "\<exists>n. 0 \<le> n \<and> n < rw_rv w + 1 \<and> rv_of y = itoa n" if "ref_objs w j = Some y" for j y
    using assms(1) that unfolding ref_ok_iff by (metis less_add_one less_trans)
  moreover have "\<exists>n. 0 \<le> n \<and> n < rw_rv w + 1 \<and> rv_of x = itoa n"
    using assms(1,3) unfolding ref_ok_iff by (intro exI [of _ "rw_rv w"]) simp
  moreover have "distinct (map fst (rw_items (ref_put k x w)))"
    using assms(1) by (simp add: ref_ok_iff ref_put_def distinct_update ref_bump_def)
  ultimately show ?thesis
    using assms(1,2) unfolding ref_ok_iff ref_objs_put by simp
qed

lemma ref_ok_drop:
  assumes "ref_ok w" shows "ref_ok (ref_drop k w)"
proof -
  have "\<exists>n. 0 \<le> n \<and> n < rw_rv w + 1 \<and> rv_of y = itoa n" if "ref_objs w j = Some y" for j y
    using assms that unfolding ref_ok_iff by (metis less_add_one less_trans)
  moreover have "distinct (map fst (rw_items (ref_drop k w)))"
    using assms by (simp add: ref_ok_iff ref_drop_def distinct_delete ref_bump_def)
  ultimately show ?thesis
    using assms unfolding ref_ok_iff ref_objs_drop by simp
qed

lemma ref_guarded_cases:
  "ref_guarded w x f = (w', y) \<Longrightarrow>
    (ref_objs w (om_Name (c_Meta x)) = None \<and> w' = w \<and> y = Inl KNotFound)
  \<or> (\<exists>old. ref_objs w (om_Name (c_Meta x)) = Some old \<and> rv_of old \<noteq> rv_of x \<and> w' = w \<and> y = Inl KConflict)
  \<or> (\<exists>old. ref_objs w (om_Name (c_Meta x)) = Some old \<and> rv_of old = rv_of x \<and> f old = (w', y))"
  by (auto simp: ref_guarded_def ref_objs_def split: option.splits if_splits)

lemma wire_time_idem [simp]: "wire_time (wire_time t) = wire_time t"
  by (simp add: wire_time_def second_def)

interpretation ref: kube_api ref_client ref_objs ref_ok ref_spec ref_status ref_run
proof (unfold_locales, goal_cases)
  case (1 w k x)
  then show ?case by (auto simp: ref_ok_iff)
next
  case (2 w k w' y)
  then show ?case by (simp add: ref_client_def ref_Get_def)
next
  case (3 w k w' x)
  then show ?case by (auto simp: ref_client_def ref_Get_def ref_objs_def split: option.splits)
next
  case (4 w k w')
  then show ?case by (auto simp: ref_client_def ref_Get_def ref_objs_def split: option.splits)
next
  case (5 w x w' y)
  then show ?case
    by (auto simp: ref_client_def ref_Create_def Let_def intro!: ref_ok_put split: option.splits)
next
  case (6 w x w' x')
  then show ?case
    by (auto simp: ref_client_def ref_Create_def Let_def ref_objs_def [symmetric] zero_status_def
        split: option.splits)
next
  case (7 w x w')
  then show ?case by (auto simp: ref_client_def ref_Create_def Let_def ref_objs_def split: option.splits)
next
  case (8 w x w' y)
  then show ?case
    by (auto simp: ref_client_def ref_Update_def Let_def ref_ok_iff [of w]
        dest!: ref_guarded_cases intro!: ref_ok_put ref_ok_drop split: if_splits)
next
  case (9 w x w' x')
  then show ?case
    by (auto simp: ref_client_def ref_Update_def Let_def dest!: ref_guarded_cases)
next
  case (10 w x w')
  then show ?case by (auto simp: ref_client_def ref_Update_def Let_def dest!: ref_guarded_cases)
next
  case (11 w x w')
  then show ?case by (auto simp: ref_client_def ref_Update_def Let_def dest!: ref_guarded_cases)
next
  case (12 w x w' y)
  then show ?case
    by (auto simp: ref_client_def ref_StatusUpdate_def Let_def ref_ok_iff [of w]
        dest!: ref_guarded_cases intro!: ref_ok_put)
next
  case (13 w x w' x')
  then show ?case by (auto simp: ref_client_def ref_StatusUpdate_def Let_def dest!: ref_guarded_cases)
next
  case (14 w x w')
  then show ?case by (auto simp: ref_client_def ref_StatusUpdate_def Let_def dest!: ref_guarded_cases)
next
  case (15 w x w')
  then show ?case by (auto simp: ref_client_def ref_StatusUpdate_def Let_def dest!: ref_guarded_cases)
next
  case (16 w k w' u)
  then have "\<And>x. ref_objs w k = Some x \<Longrightarrow> om_Name (c_Meta x) = k" by (simp add: ref_ok_iff)
  with 16 show ?case
    by (auto simp: ref_client_def ref_Delete_def ref_objs_def [symmetric]
        intro!: ref_ok_put ref_ok_drop split: option.splits if_splits)
next
  case (17 w k w')
  then obtain old where old: "ref_objs w k = Some old"
    by (auto simp: ref_client_def ref_Delete_def ref_objs_def split: option.splits)
  with 17 have w': "w' = (if om_Finalizers (c_Meta old) = [] then ref_drop k w
          else ref_put k (old\<lparr>c_Meta := (c_Meta old)\<lparr>om_ResourceVersion := itoa (rw_rv w),
                 om_DeletionTimestamp := Some (case om_DeletionTimestamp (c_Meta old) of
                    None \<Rightarrow> rw_clock w | Some t \<Rightarrow> t)\<rparr>\<rparr>) w)"
    by (auto simp: ref_client_def ref_Delete_def ref_objs_def)
  show ?case
    by (rule exI [of _ old], simp only: w' old if_distrib [of ref_objs] ref_objs_put ref_objs_drop)
      (auto intro!: exI [of _ "itoa (rw_rv w)"] split: option.splits)
next
  case (18 w k w' u j)
  then show ?case
    by (auto simp: ref_client_def ref_Delete_def ref_objs_def [symmetric] split: option.splits if_splits)
next
  case (19 w k w')
  then show ?case
    by (auto simp: ref_client_def ref_Delete_def ref_objs_def split: option.splits if_splits)
next
  case (20 w w' z)
  then show ?case by (simp add: ref_client_def)
next
  case (21 w w' xs)
  then have xs: "xs = map snd (rw_items w)" and ok: "ref_ok w" by (auto simp: ref_client_def)
  have "map (om_Name \<circ> c_Meta) xs = map fst (rw_items w)"
    using ok by (auto simp: xs ref_ok_def)
  moreover have "x \<in> set xs \<longleftrightarrow> (\<exists>k. ref_objs w k = Some x)" for x
    using ok by (simp add: xs ref_ok_def ref_objs_def image_iff) (metis prod.collapse snd_conv)
  ultimately show ?case using ok by (simp add: ref_ok_def)
next
  case (22 s rs)
  then show ?case by (simp add: ref_status_def)
qed (simp_all add: ref_run_def option.map_comp o_def)

section \<open>A sample world\<close>

definition sample_conv :: Conversation where
  "sample_conv = zero_Conversation\<lparr>c_Meta := zero_meta\<lparr>om_Name := ''c'', om_ResourceVersion := ''1''\<rparr>\<rparr>"

definition sample_world :: ref_world where
  "sample_world = \<lparr>rw_items = [(''c'', sample_conv)], rw_inputs = [], rw_rv = 2, rw_clock = 0\<rparr>"

definition sample_kube :: "ref_world kube" where
  "sample_kube = \<lparr>kw_api = sample_world, kw_armed = False\<rparr>"

text \<open>Another replica records a run start failure on the conversation \<open>c\<close>.\<close>

definition touch :: "ref_world \<Rightarrow> ref_world" where
  "touch w = (case ref_objs w ''c'' of
      None \<Rightarrow> w
    | Some x \<Rightarrow> ref_put ''c'' (x\<lparr>c_Meta := (c_Meta x)\<lparr>om_ResourceVersion := itoa (rw_rv w)\<rparr>,
        c_Status := (c_Status x)\<lparr>ct_RuntimeStartFailures := ct_RuntimeStartFailures (c_Status x) + 1\<rparr>\<rparr>) w)"

lemma sample_ok [simp]: "ref_ok sample_world"
proof -
  have "itoa 1 = ''1''" by code_simp
  then have "\<exists>n. 0 \<le> n \<and> n < 2 \<and> ''1'' = itoa n" by (intro exI [of _ 1]) simp
  then show ?thesis by (simp add: ref_ok_def sample_world_def sample_conv_def)
qed

lemma ref_ok_touch: "ref_ok w \<Longrightarrow> ref_ok (touch w)"
  by (auto simp: touch_def split: option.splits intro!: ref_ok_put)
    (auto simp: ref_ok_iff)

lemma touch_admissible: "admissible (kube_versions ref_objs) ref_ok touch"
proof -
  have "ref_ok (touch w)" if "ref_ok w" for w by (rule ref_ok_touch [OF that])
  moreover have "kube_versions ref_objs w k = Some (r, v) \<Longrightarrow>
      kube_versions ref_objs (touch w) k = Some (r', v) \<Longrightarrow> r' = r" if "ref_ok w" for w k r v r'
    using ref_ok_fresh [OF that, of k r]
    by (auto simp: touch_def kube_versions_def split: option.splits if_splits)
  ultimately show ?thesis by (simp add: admissible_def)
qed

definition touch_kube :: "ref_world kube \<Rightarrow> ref_world kube" where
  "touch_kube w = w\<lparr>kw_api := touch (kw_api w)\<rparr>"


section \<open>Evaluating the backend on the reference server\<close>

lemma itoa_small: "itoa 2 = ''2''" "itoa 3 = ''3''" "itoa 4 = ''4''" "itoa 5 = ''5''" "itoa 6 = ''6''"
  by code_simp+

lemmas ref_eval = ref_client_def ref_Get_def ref_Create_def ref_Update_def ref_StatusUpdate_def ref_Delete_def
  ref_guarded_def ref_put_def ref_drop_def ref_bump_def ref_objs_def ref_spec_def ref_status_def
  main_written_def status_written_def touch_def touch_kube_def

lemmas mapping_eval = toRecord_def applySpecAndMeta_def applySpec_def applyStatus_def setExpiresAt_def
  setLabel_def refToObjectRef_def refsToObjectRefs_def toAPIInputItems_def toAPIThreadBindings_def
  toAPIConditions_def objectRefToRef_def objectRefsToRefs_def toStateInputItems_def
  toStateThreadBindings_def toStateConditions_def expiresAtFromAnnotations_def

lemmas kube_eval = kube_Store_def kube_Get_def kube_Create_def getVisible_def kube_Update_def
  updateStatusRetrying_def updateReleasingLastFinalizer_def kube_AppendRun_def kube_UpdateRun_def
  kube_Delete_def Run_tick_def sweepExpired_def statusUpdateMaxAttempts_def call_def armExpiry_def
  isExpired_def new_conv_def

lemmas sample_eval = sample_kube_def sample_world_def sample_conv_def zero_Conversation_def zero_meta_def
  zero_spec_def zero_status_def zero_record_def itoa_small interleaved_def interleaved_client_def
  lift_op_def numeral_eq_Suc Let_def



definition sample_run :: Run where
  "sample_run = \<lparr>run_RunID = ''r1'', run_JobKind = [], run_Status = ''ok'', run_ExitCode = Some 0,
     run_Result = ''done'', run_StartedAt = None, run_FinishedAt = None, run_InputIDs = [],
     run_DeliveryTracked = False, run_Delivered = [], run_RoutedToParent = False, run_Inputs = []\<rparr>"

definition contended :: "(ref_world \<times> ref_world others) kube" where
  "contended = \<lparr>kw_api = (sample_world, [id, touch]), kw_armed = False\<rparr>"

lemma sample_append:
  "\<exists>w'. kube_AppendRun (interleaved_client ref_client) contended ''c'' sample_run = (w', Inr ())"
  by (simp add: contended_def kube_eval ref_eval sample_eval append_run_def)

section \<open>Properties\<close>



text \<open>
  Appending a run commutes with every other writer: when \<open>AppendRun\<close> returns, there was an
  instant at which the object's history became its last \<^const>\<open>maxRunHistory\<close> entries with
  the new run at the end, and nothing else of the object changed.
\<close>

theorem kube_AppendRun_is_atomic:
  assumes "kube_api c objs ok wspec wstatus wrun"
    and "kube_AppendRun (interleaved_client c) w k run = (w', Inr ())"
    and "ok (fst (kw_api w))" "\<forall>e \<in> set (snd (kw_api w)). admissible (kube_versions objs) ok e"
  shows "\<exists>a before after. ok a \<and> objs a k = Some before
    \<and> objs (fst (kw_api w')) = (objs a)(k \<mapsto> after)
    \<and> ct_Runs (c_Status after) = map wrun (last_n maxRunHistory (ct_Runs (c_Status before) @ [toRunStatus run]))
    \<and> length (ct_Runs (c_Status after)) \<le> maxRunHistory
    \<and> c_Spec after = c_Spec before
    \<and> (c_Status after)\<lparr>ct_Runs := []\<rparr> = (wstatus (c_Status before))\<lparr>ct_Runs := []\<rparr>"
proof -
  obtain a conv v where "ok a" "objs a k = Some conv" "objs (fst (kw_api w'))
      = (objs a)(k \<mapsto> status_written wstatus conv (append_run (toRunStatus run) conv) v)"
    using kube_api.AppendRun_loop_atomic [OF assms(1) assms(2) [unfolded kube_AppendRun_def] assms(3,4)]
    by (auto simp: kube_runs_written_def)
  then show ?thesis
    using kube_api.wstatus_runs [OF assms(1)]
    by (intro exI [of _ a] exI [of _ conv] exI [of _ "status_written wstatus conv
          (append_run (toRunStatus run) conv) v"])
      (simp add: status_update_runs length_last_n maxRunHistory_def)
qed

theorem kube_AppendRun_is_atomic_witness:
  "\<exists>w'. kube_AppendRun (interleaved_client ref_client) contended ''c'' sample_run = (w', Inr ())
    \<and> (\<exists>a before after. ref_ok a \<and> ref_objs a ''c'' = Some before
      \<and> ref_objs (fst (kw_api w')) = (ref_objs a)(''c'' \<mapsto> after)
      \<and> length (ct_Runs (c_Status after)) \<le> maxRunHistory)"
proof -
  obtain w' where w': "kube_AppendRun (interleaved_client ref_client) contended ''c'' sample_run = (w', Inr ())"
    using sample_append by blast
  have "ref_ok (fst (kw_api contended))"
    "\<forall>e \<in> set (snd (kw_api contended)). admissible (kube_versions ref_objs) ref_ok e"
    using touch_admissible by (auto simp: contended_def admissible_def)
  with w' kube_AppendRun_is_atomic [OF ref.kube_api_axioms w'] show ?thesis by blast
qed

text \<open>
  A run's delivery record is a state that only grows: an update sets exactly its flags
  and adds exactly its channels, without repeats, it reports a change exactly when there is
  one, updates commute, and repeating one changes nothing.
\<close>

theorem applyRunUpdate_grows:
  "let r1 = fst (applyRunUpdate r u); view = (\<lambda>r. (rs_DeliveryTracked r, rs_RoutedToParent r, set (rs_Delivered r))) in
     view r1 = (rs_DeliveryTracked r \<or> ru_MarkDeliveryTracked u, rs_RoutedToParent r \<or> ru_MarkRoutedToParent u,
        set (rs_Delivered r) \<union> set (ru_MarkDelivered u))
   \<and> distinct (rs_Delivered r1) = distinct (rs_Delivered r)
   \<and> (snd (applyRunUpdate r u) \<longleftrightarrow> r1 \<noteq> r)
   \<and> applyRunUpdate r1 u = (r1, False)
   \<and> view (fst (applyRunUpdate r1 u')) = view (fst (applyRunUpdate (fst (applyRunUpdate r u')) u))"
proof -
  have eq: "snd (applyRunUpdate r u) \<longleftrightarrow> fst (applyRunUpdate r u) \<noteq> r"
  proof
    assume "snd (applyRunUpdate r u)"
    then consider "ru_MarkDeliveryTracked u" "\<not> rs_DeliveryTracked r"
      | "ru_MarkRoutedToParent u" "\<not> rs_RoutedToParent r"
      | "\<not> set (ru_MarkDelivered u) \<subseteq> set (rs_Delivered r)" by (auto simp: applyRunUpdate_eq(2))
    then have "(rs_DeliveryTracked (fst (applyRunUpdate r u)), rs_RoutedToParent (fst (applyRunUpdate r u)),
        set (rs_Delivered (fst (applyRunUpdate r u)))) \<noteq> (rs_DeliveryTracked r, rs_RoutedToParent r, set (rs_Delivered r))"
      by cases (auto simp: applyRunUpdate_eq(1) set_fold_add_once)
    then show "fst (applyRunUpdate r u) \<noteq> r" by auto
  next
    assume "fst (applyRunUpdate r u) \<noteq> r"
    then show "snd (applyRunUpdate r u)"
      by (rule contrapos_np) (auto simp: applyRunUpdate_eq fold_add_once_subset)
  qed
  have again: "applyRunUpdate (fst (applyRunUpdate r u)) u = (fst (applyRunUpdate r u), False)"
    by (rule prod_eqI) (auto simp: applyRunUpdate_eq fold_add_once_subset set_fold_add_once)
  show ?thesis
    unfolding Let_def using eq again
    by (auto simp: applyRunUpdate_eq(1) set_fold_add_once distinct_fold_add_once)
qed

text \<open>
  \<open>UpdateRun\<close> under contention: when it returns, there was an instant at which the update
  was applied to the named run of the object as it then stood, or at which that run already
  satisfied it and nothing was written.
\<close>

theorem kube_UpdateRun_is_atomic:
  assumes "kube_api c objs ok wspec wstatus wrun"
    and "kube_UpdateRun (interleaved_client c) w k i u = (w', Inr ())"
    and "ok (fst (kw_api w))" "\<forall>e \<in> set (snd (kw_api w)). admissible (kube_versions objs) ok e"
  shows "kube_runs_written objs ok wstatus k (update_run i u) (fst (kw_api w'))
    \<or> (\<exists>conv run. objs (fst (kw_api w')) k = Some conv \<and> runByID (ct_Runs (c_Status conv)) i = Some run
         \<and> fst (applyRunUpdate run u) = run)"
proof -
  have "\<not> snd (applyRunUpdate run u) \<Longrightarrow> fst (applyRunUpdate run u) = run" for run
    by (auto simp: applyRunUpdate_eq fold_add_once_subset)
  then show ?thesis
    using kube_api.UpdateRun_loop_atomic [OF assms(1) assms(2) [unfolded kube_UpdateRun_def] assms(3,4)]
    by blast
qed

definition contended_run :: "(ref_world \<times> ref_world others) kube" where
  "contended_run = \<lparr>kw_api = (sample_world\<lparr>rw_items := [(''c'', sample_conv\<lparr>c_Status := zero_status\<lparr>ct_Runs :=
     [toRunStatus sample_run]\<rparr>\<rparr>)]\<rparr>, [id, touch]), kw_armed = False\<rparr>"

theorem kube_UpdateRun_is_atomic_witness:
  "let u = \<lparr>ru_MarkDeliveryTracked = True, ru_MarkDelivered = [''tg''], ru_MarkRoutedToParent = False\<rparr> in
   \<exists>w'. kube_UpdateRun (interleaved_client ref_client) contended_run ''c'' ''r1'' u = (w', Inr ())
    \<and> (kube_runs_written ref_objs ref_ok ref_status ''c'' (update_run ''r1'' u) (fst (kw_api w'))
      \<or> (\<exists>conv run. ref_objs (fst (kw_api w')) ''c'' = Some conv
            \<and> runByID (ct_Runs (c_Status conv)) ''r1'' = Some run \<and> fst (applyRunUpdate run u) = run))"
proof -
  let ?u = "\<lparr>ru_MarkDeliveryTracked = True, ru_MarkDelivered = [''tg''], ru_MarkRoutedToParent = False\<rparr>"
  have "\<exists>w'. kube_UpdateRun (interleaved_client ref_client) contended_run ''c'' ''r1'' ?u = (w', Inr ())"
    by (simp add: contended_run_def sample_run_def toRunStatus_def kube_eval ref_eval sample_eval
        update_run_def runByID_def applyRunUpdate_def toAPIRecordedInputs_def ref_run_def)
  then obtain w' where w': "kube_UpdateRun (interleaved_client ref_client) contended_run ''c'' ''r1'' ?u = (w', Inr ())"
    by blast
  have "ref_ok (sample_world\<lparr>rw_items := [(''c'', sample_conv\<lparr>c_Status := zero_status\<lparr>ct_Runs :=
     [toRunStatus sample_run]\<rparr>\<rparr>)]\<rparr>)"
    using sample_ok by (simp add: ref_ok_def sample_world_def sample_conv_def)
  then have "ref_ok (fst (kw_api contended_run))"
    "\<forall>e \<in> set (snd (kw_api contended_run)). admissible (kube_versions ref_objs) ref_ok e"
    using touch_admissible by (auto simp: contended_run_def admissible_def)
  from kube_UpdateRun_is_atomic [OF ref.kube_api_axioms w' this] w' show ?thesis by (simp add: Let_def)
qed



text \<open>
  The life cycle of a record: a Create that returns found the key free and stored the
  record with an empty run history, under the revision it returned; a Delete that returns
  removed a record without finalizers and only marked one that holds any, keeping the
  first deletion time, and was no error for an absent key.
\<close>

theorem kube_lifecycle:
  assumes "kube_api c objs ok wspec wstatus wrun" and "ok (kw_api w)"
  shows "(\<forall>rec w' v. kube_Create c w k rec = (w', Inr v) \<longrightarrow>
       objs (kw_api w) k = None \<and> (\<exists>x. objs (kw_api w') = (objs (kw_api w))(k \<mapsto> x) \<and> rv_of x = v
         \<and> toRecord x = kube_stored wspec wstatus (toRecord x) rec \<and> ct_Runs (c_Status x) = []))
    \<and> (\<forall>w'. kube_Delete c w k = (w', Inr ()) \<longrightarrow> (case objs (kw_api w) k of
        None \<Rightarrow> objs (kw_api w') = objs (kw_api w)
      | Some old \<Rightarrow>
        if om_Finalizers (c_Meta old) = [] then objs (kw_api w') = (objs (kw_api w))(k := None)
        else (\<exists>x t. objs (kw_api w') = (objs (kw_api w))(k \<mapsto> x) \<and> om_DeletionTimestamp (c_Meta x) = Some t
               \<and> (\<forall>t'. om_DeletionTimestamp (c_Meta old) = Some t' \<longrightarrow> t = t')
               \<and> toRecord x = (toRecord old)\<lparr>cr_DeletionRequestedAt := Some t\<rparr>)))"
  using kube_api.kube_Create_result [OF assms] kube_api.kube_Delete_result [OF assms] by blast

theorem kube_lifecycle_witness:
  "(\<exists>w' v. kube_Create ref_client sample_kube ''d'' (zero_record\<lparr>cr_Title := ''t''\<rparr>) = (w', Inr v)
      \<and> ref_objs (kw_api sample_kube) ''d'' = None)
   \<and> (\<exists>w'. kube_Delete ref_client sample_kube ''c'' = (w', Inr ())
      \<and> ref_objs (kw_api w') = (ref_objs (kw_api sample_kube))(''c'' := None))"
proof -
  have ok: "ref_ok (kw_api sample_kube)" by (simp add: sample_kube_def)
  have "\<exists>w' v. kube_Create ref_client sample_kube ''d'' (zero_record\<lparr>cr_Title := ''t''\<rparr>) = (w', Inr v)"
    "\<exists>w'. kube_Delete ref_client sample_kube ''c'' = (w', Inr ())"
    by (simp_all add: kube_eval ref_eval mapping_eval sample_eval)
  moreover have "ref_objs (kw_api sample_kube) ''c'' = Some sample_conv" "om_Finalizers (c_Meta sample_conv) = []"
    by (simp_all add: sample_eval ref_eval)
  ultimately show ?thesis
    using kube_lifecycle [OF ref.kube_api_axioms ok, of "''d''"] kube_lifecycle [OF ref.kube_api_axioms ok, of "''c''"]
    by force
qed

text \<open>
  The expiry sweep deletes only what has expired: after a tick, at some instant, every
  object that had not expired is as it was; and the flag that arms the next tick is lowered
  only when no object is left whose expiry lies ahead.
\<close>

theorem expiry_sweep_is_safe:
  assumes "kube_api c objs ok wspec wstatus wrun" and "ok (kw_api w)"
  shows "\<exists>now. (\<forall>k x. objs (kw_api w) k = Some x \<longrightarrow> \<not> isExpired x now \<longrightarrow> objs (kw_api (Run_tick c w)) k = Some x)
   \<and> (kw_armed w \<longrightarrow> kw_armed (Run_tick c w) \<or> (\<forall>k x. objs (kw_api w) k = Some x \<longrightarrow> isExpired x now
            \<or> expiresAtFromAnnotations (om_Annotations (c_Meta x)) = None))"
  using kube_api.Run_tick_result [OF assms] by blast

theorem expiry_sweep_is_safe_witness:
  "\<exists>now. (\<forall>k x. ref_objs sample_world k = Some x \<longrightarrow> \<not> isExpired x now \<longrightarrow>
      ref_objs (kw_api (Run_tick ref_client (sample_kube\<lparr>kw_armed := True\<rparr>))) k = Some x)"
  using expiry_sweep_is_safe [OF ref.kube_api_axioms, of "sample_kube\<lparr>kw_armed := True\<rparr>"]
  by (auto simp: sample_kube_def)

text \<open>
  A write of one writer can be half applied and still be refused: with another writer's
  status change between its two calls, Update reports a conflict after its main write has
  landed. The stored title is the caller's, and the caller has been told that nothing was
  written.
\<close>

theorem kube_Update_conflict_after_write:
  "\<exists>w' x. kube_Update (interleaved_client ref_client)
        \<lparr>kw_api = (sample_world, [id, id, touch]), kw_armed = False\<rparr> ''c'' ''1''
        (zero_record\<lparr>cr_Title := ''t''\<rparr>) = (w', Inl ErrConflict)
    \<and> ref_objs (fst (kw_api w')) ''c'' = Some x \<and> cs_Title (c_Spec x) = ''t''
    \<and> cs_Title (c_Spec sample_conv) = []"
  by (simp add: kube_eval ref_eval mapping_eval sample_eval statusChangedBeyondRuns_def)

text \<open>The conversation \<open>c\<close> with an expiry in the first second of the calendar.\<close>

definition expired_conv :: Conversation where
  "expired_conv = sample_conv\<lparr>c_Meta := (c_Meta sample_conv)\<lparr>om_Annotations :=
     [ExpiresAtAnnotation \<mapsto> ''0001-01-01T00:00:01Z'']\<rparr>\<rparr>"

definition expired_kube :: "ref_world kube" where
  "expired_kube = \<lparr>kw_api = sample_world\<lparr>rw_items := [(''c'', expired_conv)], rw_clock := hour\<rparr>, kw_armed = True\<rparr>"

lemma expired_parse: "time_Parse ''0001-01-01T00:00:01Z'' = Some 1000000000"
  by code_simp

text \<open>
  Expiry hides a record from Get and not from Update: a record whose expiry has passed
  reads as absent, and a write at its revision still succeeds.
\<close>

theorem kube_Update_writes_expired:
  "(\<exists>w'. kube_Get ref_client expired_kube ''c'' = (w', Inl ErrNotFound))
   \<and> (\<exists>w' v. kube_Update ref_client expired_kube ''c'' ''1'' (zero_record\<lparr>cr_Title := ''t''\<rparr>) = (w', Inr v))"
  by (simp add: kube_eval ref_eval mapping_eval sample_eval expired_kube_def expired_conv_def
      expired_parse hour_def)

text \<open>
  A sweep whose delete call fails forgets the expired record: the record stays, and the
  flag that would make the next tick look again is lowered.
\<close>

theorem failed_sweep_disarms:
  "let c = ref_client\<lparr>k_Delete := (\<lambda>w k. (w, Inl (KOther ''timeout'')))\<rparr>; w' = Run_tick c expired_kube in
   ref_objs (kw_api w') ''c'' = Some expired_conv \<and> isExpired expired_conv (rw_clock (kw_api w')) \<and> \<not> kw_armed w'"
  by (simp add: kube_eval ref_eval sample_eval expired_kube_def expired_conv_def
      expired_parse hour_def expiresAtFromAnnotations_def)

end
