(* ===== verification/SignalLaws.thy ===== *)
theory SignalLaws
  imports KubeSignals KubeServer
begin

text \<open>
  What the Signal store relies on of the API server, as a locale; that a receipt is counted
  exactly once whatever else writes the source; that releasing a source takes all of the
  departed source's signals and none of its successor's; and a reference server.
\<close>

section \<open>Laws\<close>

abbreviation src_rv :: "SignalSource \<Rightarrow> string" where
  "src_rv s \<equiv> om_ResourceVersion (ss_Meta s)"

definition src_versions :: "('w \<Rightarrow> string \<Rightarrow> SignalSource option) \<Rightarrow> 'w \<Rightarrow> key \<Rightarrow> (SignalSource \<times> revision) option" where
  "src_versions srcs w k = map_option (\<lambda>x. (x, src_rv x)) (srcs w k)"

definition received_written :: "SignalSource \<Rightarrow> SignalSource \<Rightarrow> string \<Rightarrow> SignalSource" where
  "received_written old sent v = old\<lparr>ss_Meta := (ss_Meta old)\<lparr>om_ResourceVersion := v\<rparr>,
     ss_Status := (ss_Status old)\<lparr>sst_LastReceived := sst_LastReceived (ss_Status sent),
       sst_ReceivedTotal := sst_ReceivedTotal (ss_Status sent)\<rparr>\<rparr>"

definition interleaved_signals :: "'w SignalClient \<Rightarrow> ('w \<times> 'w others) SignalClient" where
  "interleaved_signals c = \<lparr>
     g_Get = (\<lambda>w k. lift_op (\<lambda>w. g_Get c w k) w),
     g_List = lift_op (g_List c), g_Lister = map_option lift_op (g_Lister c),
     g_Create = (\<lambda>w x. lift_op (\<lambda>w. g_Create c w x) w),
     g_Update = (\<lambda>w x. lift_op (\<lambda>w. g_Update c w x) w),
     g_StatusUpdate = (\<lambda>w x. lift_op (\<lambda>w. g_StatusUpdate c w x) w),
     g_Delete = (\<lambda>w k p. lift_op (\<lambda>w. g_Delete c w k p) w),
     g_GetSource = (\<lambda>w k. lift_op (\<lambda>w. g_GetSource c w k) w),
     g_PatchCooldown = (\<lambda>w k x. lift_op (\<lambda>w. g_PatchCooldown c w k x) w),
     g_PatchReceived = (\<lambda>w x. lift_op (\<lambda>w. g_PatchReceived c w x) w),
     g_Now = (\<lambda>w. g_Now c (fst w))\<rparr>"

locale signal_api =
  fixes c :: "'w SignalClient"
    and sigs :: "'w \<Rightarrow> key \<Rightarrow> Signal option"
    and srcs :: "'w \<Rightarrow> string \<Rightarrow> SignalSource option"
    and ok :: "'w \<Rightarrow> bool"
  assumes sig_named: "ok w \<Longrightarrow> sigs w k = Some s \<Longrightarrow> om_Name (sg_Meta s) = k"
    and src_same: "ok w \<Longrightarrow> g_GetSource c w k = (w', y) \<Longrightarrow> ok w' \<and> srcs w' = srcs w \<and> sigs w' = sigs w"
    and src_hit: "ok w \<Longrightarrow> g_GetSource c w k = (w', Inr x) \<Longrightarrow> srcs w k = Some x \<and> om_Name (ss_Meta x) = k"
    and received_ok: "ok w \<Longrightarrow> g_PatchReceived c w x = (w', u) \<Longrightarrow> ok w'"
    and received_hit: "ok w \<Longrightarrow> g_PatchReceived c w x = (w', Inr ()) \<Longrightarrow>
        \<exists>old v. srcs w (om_Name (ss_Meta x)) = Some old \<and> src_rv old = src_rv x
          \<and> srcs w' = (srcs w)(om_Name (ss_Meta x) \<mapsto> received_written old x v)"
    and cooldown_keeps: "ok w \<Longrightarrow> g_PatchCooldown c w k es = (w', u) \<Longrightarrow> ok w' \<and> sigs w' = sigs w"
    and listed: "ok w \<Longrightarrow> g_List c w = (w', z) \<Longrightarrow> ok w' \<and> sigs w' = sigs w"
    and list_is: "ok w \<Longrightarrow> g_List c w = (w', Inr xs) \<Longrightarrow> (\<forall>s. s \<in> set xs \<longleftrightarrow> (\<exists>k. sigs w k = Some s))"
    and deleted: "ok w \<Longrightarrow> g_Delete c w k p = (w', u) \<Longrightarrow> ok w' \<and> (\<forall>j. j \<noteq> k \<longrightarrow> sigs w' j = sigs w j)
        \<and> (sigs w k = None \<longrightarrow> sigs w' k = None) \<and> (u = Inr () \<longrightarrow> sigs w' k = None) \<and> (u = Inl KNotFound \<longrightarrow> sigs w' k = None)
        \<and> (u = Inl KConflict \<longrightarrow> sigs w' k = sigs w k
             \<and> (\<forall>s. sigs w k = Some s \<longrightarrow> pre_RV p = None \<longrightarrow> pre_UID p \<noteq> Some (om_UID (sg_Meta s))))"
begin

lemma count_receipt_meta [simp]: "ss_Meta (count_receipt at src) = ss_Meta src"
  by (simp add: count_receipt_def)

lemma RecordReceived_loop_atomic:
  assumes "RecordReceived_loop (interleaved_signals c) k at n w = (w', Inr ())"
    and "ok (fst (kw_api w))" "\<forall>e \<in> set (snd (kw_api w)). admissible (src_versions srcs) ok e"
  shows "\<exists>a old v. ok a \<and> srcs a k = Some old
    \<and> srcs (fst (kw_api w')) = (srcs a)(k \<mapsto> received_written old (count_receipt at old) v)"
  using assms
proof (induction n arbitrary: w)
  case (Suc n)
  obtain w1 x where g: "call (\<lambda>a. g_GetSource (interleaved_signals c) a k) w = (w1, x)" by fastforce
  with Suc.prems(1) obtain src where x: "x = Inr src" by (cases x) auto
  obtain w2 y where u: "call (\<lambda>a. g_PatchReceived (interleaved_signals c) a (count_receipt at src)) w1 = (w2, y)"
    by fastforce
  obtain a es where w: "kw_api w = (a, es)" by fastforce
  obtain a1 es1 where w1: "kw_api w1 = (a1, es1)" by fastforce
  obtain a2 es2 where w2: "kw_api w2 = (a2, es2)" by fastforce
  have gl: "lift_op (\<lambda>w. g_GetSource c w k) (a, es) = ((a1, es1), Inr src)"
    using g x w w1 by (simp add: call_eq interleaved_signals_def)
  have ul: "lift_op (\<lambda>w. g_PatchReceived c w (count_receipt at src)) (a1, es1) = ((a2, es2), y)"
    using u w1 w2 by (simp add: call_eq interleaved_signals_def)
  have pre: "ok a" "\<forall>e \<in> set es. admissible (src_versions srcs) ok e" using Suc.prems(2,3) w by auto
  obtain b where b: "g_GetSource c b k = (a1, Inr src)" "ok b"
    "\<forall>e \<in> set es1. admissible (src_versions srcs) ok e"
    by (rule lift_step [OF gl pre]) blast
  have o1: "ok a1" "srcs a1 k = Some src" "om_Name (ss_Meta src) = k"
    using src_same [OF b(2,1)] src_hit [OF b(2,1)] by auto
  obtain d where d: "g_PatchReceived c d (count_receipt at src) = (a2, y)" "ok d"
    "\<forall>e \<in> set es2. admissible (src_versions srcs) ok e"
    "\<And>k r v r'. src_versions srcs a1 k = Some (r, v) \<Longrightarrow> src_versions srcs d k = Some (r', v) \<Longrightarrow> r' = r"
    by (rule lift_step [OF ul o1(1) b(3)]) blast
  show ?case
  proof (cases y)
    case (Inl e)
    with Suc.prems(1) g x u have r: "RecordReceived_loop (interleaved_signals c) k at n w2 = (w', Inr ())"
      by (auto split: if_splits)
    show ?thesis by (rule Suc.IH [OF r]) (use received_ok [OF d(2,1)] d(3) w2 in auto)
  next
    case (Inr z)
    with received_hit [OF d(2)] d(1) o1(3) obtain old v where old: "srcs d k = Some old"
      "src_rv old = src_rv src" "srcs a2 = (srcs d)(k \<mapsto> received_written old (count_receipt at src) v)"
      by fastforce
    have "old = src"
      using d(4) [of k src "src_rv src" old] o1(2) old(1,2) by (simp add: src_versions_def)
    with old d(2) w2 Suc.prems(1) g x u Inr show ?thesis by auto
  qed
qed simp

lemma release_items_result:
  assumes "ok (kw_api w)" "release_items c source departed items w = (w', y)"
    and "\<And>s. s \<in> set items \<Longrightarrow> sigs (kw_api w) (om_Name (sg_Meta s)) = Some s \<or> sigs (kw_api w) (om_Name (sg_Meta s)) = None"
  shows "ok (kw_api w')
    \<and> (\<forall>k s. sigs (kw_api w) k = Some s \<longrightarrow> om_Name (sg_Meta s) = k \<longrightarrow>
          obj_Name (as_SourceRef (sg_Spec s)) \<noteq> source \<or> isSuccessorsSignal s departed \<longrightarrow> sigs (kw_api w') k = Some s)
    \<and> (y = Inr () \<longrightarrow> (\<forall>s \<in> set items. obj_Name (as_SourceRef (sg_Spec s)) = source \<longrightarrow>
          \<not> isSuccessorsSignal s departed \<longrightarrow> sigs (kw_api w') (om_Name (sg_Meta s)) = None))
    \<and> (\<forall>k. sigs (kw_api w) k = None \<longrightarrow> sigs (kw_api w') k = None)"
  using assms
proof (induction items arbitrary: w)
  case (Cons s rest)
  show ?case
  proof (cases "obj_Name (as_SourceRef (sg_Spec s)) \<noteq> source \<or> isSuccessorsSignal s departed")
    case True
    with Cons.prems(2) have r: "release_items c source departed rest w = (w', y)" by simp
    from Cons.IH [OF Cons.prems(1) r] Cons.prems(3) True show ?thesis by auto
  next
    case False
    let ?k = "om_Name (sg_Meta s)"
    obtain w1 d where d: "call (\<lambda>a. g_Delete c a ?k \<lparr>pre_UID = Some (om_UID (sg_Meta s)), pre_RV = None\<rparr>) w = (w1, d)"
      by fastforce
    then have d': "g_Delete c (kw_api w) ?k \<lparr>pre_UID = Some (om_UID (sg_Meta s)), pre_RV = None\<rparr> = (kw_api w1, d)"
      by (simp add: call_eq)
    note law = deleted [OF Cons.prems(1) d']
    have keep: "sigs (kw_api w1) k = Some t" if "sigs (kw_api w) k = Some t" "om_Name (sg_Meta t) = k"
      "obj_Name (as_SourceRef (sg_Spec t)) \<noteq> source \<or> isSuccessorsSignal t departed" for k t
    proof (cases "k = ?k")
      case True
      with Cons.prems(3) [of s] that(1) have "t = s" by auto
      with False that(3) show ?thesis by blast
    next
      case False
      with law that(1) show ?thesis by simp
    qed
    show ?thesis
    proof (cases "d \<noteq> Inr () \<and> d \<noteq> Inl KNotFound \<and> d \<noteq> Inl KConflict")
      case True
      with False d Cons.prems(2) have "w' = w1" "y \<noteq> Inr ()" by auto
      moreover have "sigs (kw_api w1) k = None" if "sigs (kw_api w) k = None" for k
        using law that by (cases "k = ?k") auto
      ultimately show ?thesis using law keep by simp
    next
      case False': False
      with False d Cons.prems(2) have r: "release_items c source departed rest w1 = (w', y)" by auto
      have gone: "sigs (kw_api w1) ?k = None"
        using False' law Cons.prems(3) [of s] by auto
      have mono: "sigs (kw_api w1) k = None" if "sigs (kw_api w) k = None" for k
        using that law gone by (cases "k = ?k") auto
      have pre: "\<And>t. t \<in> set rest \<Longrightarrow> sigs (kw_api w1) (om_Name (sg_Meta t)) = Some t \<or> sigs (kw_api w1) (om_Name (sg_Meta t)) = None"
        using Cons.prems(3) law gone by (metis list.set_intros(2))
      from Cons.IH [OF _ r pre] law keep mono gone show ?thesis by auto
    qed
  qed
qed simp

lemma ReleaseSource_result:
  assumes "ok (kw_api w)" "sig_ReleaseSource c w source departed = (w', y)"
  shows "(\<forall>k s. sigs (kw_api w) k = Some s \<longrightarrow>
          obj_Name (as_SourceRef (sg_Spec s)) \<noteq> source \<or> isSuccessorsSignal s departed \<longrightarrow> sigs (kw_api w') k = Some s)
    \<and> (y = Inr () \<longrightarrow> (\<forall>k s. sigs (kw_api w) k = Some s \<longrightarrow> obj_Name (as_SourceRef (sg_Spec s)) = source \<longrightarrow>
          \<not> isSuccessorsSignal s departed \<longrightarrow> sigs (kw_api w') k = None))"
proof -
  obtain w1 z where l: "call (g_List c) w = (w1, z)" by fastforce
  then have l': "g_List c (kw_api w) = (kw_api w1, z)" by (simp add: call_eq)
  have s1: "ok (kw_api w1)" "sigs (kw_api w1) = sigs (kw_api w)" using listed [OF assms(1) l'] by auto
  show ?thesis
  proof (cases z)
    case (Inl e)
    with assms(2) l s1 show ?thesis by (auto simp: sig_ReleaseSource_def)
  next
    case (Inr items)
    with l' list_is [OF assms(1)] have items: "s \<in> set items \<longleftrightarrow> (\<exists>k. sigs (kw_api w) k = Some s)" for s by blast
    obtain w2 r where rel: "release_items c source departed items w1 = (w2, r)" by fastforce
    have pre: "sigs (kw_api w1) (om_Name (sg_Meta s)) = Some s \<or> sigs (kw_api w1) (om_Name (sg_Meta s)) = None"
      if "s \<in> set items" for s
      using items [of s] that sig_named [OF assms(1)] s1(2) by metis
    note res = release_items_result [OF s1(1) rel pre]
    have rest: "sigs (kw_api w') = sigs (kw_api w2) \<and> (y = Inr () \<longrightarrow> r = Inr ())"
    proof (cases r)
      case (Inl e)
      with assms(2) l Inr rel show ?thesis by (auto simp: sig_ReleaseSource_def)
    next
      case r: (Inr u)
      obtain w3 h where h: "holdsSuccessor c source departed w2 = (w3, h)" by fastforce
      have w3: "ok (kw_api w3)" "sigs (kw_api w3) = sigs (kw_api w2)"
      proof -
        obtain w4 q where q: "call (\<lambda>a. g_GetSource c a source) w2 = (w4, q)" by fastforce
        have "ok (kw_api w4) \<and> sigs (kw_api w4) = sigs (kw_api w2)"
          using src_same [of "kw_api w2" source "kw_api w4" q] q res by (simp add: call_eq)
        with h q res show "ok (kw_api w3)" "sigs (kw_api w3) = sigs (kw_api w2)"
          by (auto simp: holdsSuccessor_def split: if_splits sum.splits)
      qed
      obtain w5 p where p: "sig_PutCooldown c w3 source [] = (w5, p)" by fastforce
      have w5: "sigs (kw_api w5) = sigs (kw_api w2)"
      proof -
        obtain w4 q where q: "call (\<lambda>a. g_GetSource c a source) w3 = (w4, q)" by fastforce
        have w4: "ok (kw_api w4)" "sigs (kw_api w4) = sigs (kw_api w2)"
          using src_same [of "kw_api w3" source "kw_api w4" q] q w3 by (simp_all add: call_eq)
        show ?thesis
        proof (cases q)
          case (Inl e)
          with p q w4 show ?thesis by (auto simp: sig_PutCooldown_def)
        next
          case (Inr src)
          obtain w6 v where "call (\<lambda>a. g_PatchCooldown c a (om_Name (ss_Meta src)) (toAPICooldownEntries [])) w4 = (w6, v)"
            by fastforce
          with p q Inr w4 cooldown_keeps [of "kw_api w4" "om_Name (ss_Meta src)" "toAPICooldownEntries []"]
          show ?thesis by (cases v) (auto simp: sig_PutCooldown_def call_eq)
        qed
      qed
      from assms(2) l Inr rel r h p w3 w5 show ?thesis
        by (auto simp: sig_ReleaseSource_def split: sum.splits bool.splits if_splits)
    qed
    show ?thesis
    proof (intro conjI allI impI)
      fix k s assume "sigs (kw_api w) k = Some s"
        "obj_Name (as_SourceRef (sg_Spec s)) \<noteq> source \<or> isSuccessorsSignal s departed"
      with res rest s1(2) sig_named [OF assms(1)] show "sigs (kw_api w') k = Some s" by metis
    next
      fix k s assume "y = Inr ()" "sigs (kw_api w) k = Some s"
        "obj_Name (as_SourceRef (sg_Spec s)) = source" "\<not> isSuccessorsSignal s departed"
      with res rest s1(2) sig_named [OF assms(1)] items [of s] show "sigs (kw_api w') k = None" by metis
    qed
  qed
qed

end

section \<open>A reference server\<close>

record ref_signals =
  rs_sigs :: "(key \<times> Signal) list"
  rs_srcs :: "(string \<times> SignalSource) list"
  rs_rv :: int

definition rsig_delete :: "ref_signals \<Rightarrow> key \<Rightarrow> precond \<Rightarrow> ref_signals \<times> unit kresult" where
  "rsig_delete w k p = (case map_of (rs_sigs w) k of
      None \<Rightarrow> (w, Inl KNotFound)
    | Some s \<Rightarrow>
        if (pre_UID p \<noteq> None \<and> pre_UID p \<noteq> Some (om_UID (sg_Meta s)))
          \<or> (pre_RV p \<noteq> None \<and> pre_RV p \<noteq> Some (sig_rv s)) then (w, Inl KConflict)
        else (w\<lparr>rs_sigs := AList.delete k (rs_sigs w)\<rparr>, Inr ()))"

definition rsig_get_source :: "ref_signals \<Rightarrow> string \<Rightarrow> ref_signals \<times> SignalSource kresult" where
  "rsig_get_source w k = (w, case map_of (rs_srcs w) k of None \<Rightarrow> Inl KNotFound | Some s \<Rightarrow> Inr s)"

definition rsig_received :: "ref_signals \<Rightarrow> SignalSource \<Rightarrow> ref_signals \<times> unit kresult" where
  "rsig_received w x = (case map_of (rs_srcs w) (om_Name (ss_Meta x)) of
      None \<Rightarrow> (w, Inl KNotFound)
    | Some old \<Rightarrow>
        if src_rv old \<noteq> src_rv x then (w, Inl KConflict)
        else (w\<lparr>rs_srcs := AList.update (om_Name (ss_Meta x)) (received_written old x (itoa (rs_rv w))) (rs_srcs w),
                rs_rv := rs_rv w + 1\<rparr>, Inr ()))"

definition rsig_cooldown :: "ref_signals \<Rightarrow> string \<Rightarrow> api_CooldownEntry list \<Rightarrow> ref_signals \<times> unit kresult" where
  "rsig_cooldown w k es = (case map_of (rs_srcs w) k of
      None \<Rightarrow> (w, Inl KNotFound)
    | Some old \<Rightarrow>
        (w\<lparr>rs_srcs := AList.update k (old\<lparr>ss_Meta := (ss_Meta old)\<lparr>om_ResourceVersion := itoa (rs_rv w)\<rparr>,
              ss_Status := (ss_Status old)\<lparr>sst_Cooldown := es\<rparr>\<rparr>) (rs_srcs w),
           rs_rv := rs_rv w + 1\<rparr>, Inr ()))"

definition rsig_refuse :: "ref_signals \<Rightarrow> Signal \<Rightarrow> ref_signals \<times> Signal kresult" where
  "rsig_refuse w s = (w, Inl (KOther ''read-only''))"

text \<open>Signals are only read and deleted here; the sources are written.\<close>

definition rsig_client :: "ref_signals SignalClient" where
  "rsig_client = \<lparr>
     g_Get = (\<lambda>w k. (w, case map_of (rs_sigs w) k of None \<Rightarrow> Inl KNotFound | Some s \<Rightarrow> Inr s)),
     g_List = (\<lambda>w. (w, Inr (map snd (rs_sigs w)))), g_Lister = None,
     g_Create = rsig_refuse, g_Update = rsig_refuse, g_StatusUpdate = rsig_refuse,
     g_Delete = rsig_delete, g_GetSource = rsig_get_source,
     g_PatchCooldown = rsig_cooldown, g_PatchReceived = rsig_received, g_Now = (\<lambda>w. 0)\<rparr>"

definition rsig_ok :: "ref_signals \<Rightarrow> bool" where
  "rsig_ok w \<longleftrightarrow> distinct (map fst (rs_sigs w)) \<and> 0 \<le> rs_rv w
     \<and> (\<forall>(k, s) \<in> set (rs_sigs w). om_Name (sg_Meta s) = k)
     \<and> (\<forall>k s. map_of (rs_srcs w) k = Some s \<longrightarrow> om_Name (ss_Meta s) = k
          \<and> (\<exists>n. 0 \<le> n \<and> n < rs_rv w \<and> src_rv s = itoa n))"

lemma received_written_simps [simp]:
  "om_Name (ss_Meta (received_written old x v)) = om_Name (ss_Meta old)"
  "src_rv (received_written old x v) = v"
  by (simp_all add: received_written_def)

lemma rsig_ok_source:
  assumes "rsig_ok w" "om_Name (ss_Meta s) = k" "src_rv s = itoa (rs_rv w)"
  shows "rsig_ok (w\<lparr>rs_srcs := AList.update k s (rs_srcs w), rs_rv := rs_rv w + 1\<rparr>)"
proof -
  have "\<exists>n. 0 \<le> n \<and> n < rs_rv w + 1 \<and> src_rv t = itoa n" if "map_of (rs_srcs w) j = Some t" for j t
    using assms(1) that unfolding rsig_ok_def by (metis less_add_one less_trans)
  moreover have "\<exists>n. 0 \<le> n \<and> n < rs_rv w + 1 \<and> src_rv s = itoa n"
    using assms(1,3) unfolding rsig_ok_def by (intro exI [of _ "rs_rv w"]) simp
  ultimately show ?thesis
    using assms(1,2) unfolding rsig_ok_def by (simp add: update_conv')
qed

lemma rsig_ok_delete: "rsig_ok w \<Longrightarrow> rsig_ok (w\<lparr>rs_sigs := AList.delete k (rs_sigs w)\<rparr>)"
  using distinct_delete [of "rs_sigs w" k] by (auto simp: rsig_ok_def AList.delete_eq)

lemma rsig_named: "rsig_ok w \<Longrightarrow> map_of (rs_srcs w) k = Some s \<Longrightarrow> om_Name (ss_Meta s) = k"
  by (simp add: rsig_ok_def)

interpretation rsig: signal_api rsig_client "\<lambda>w. map_of (rs_sigs w)" "\<lambda>w. map_of (rs_srcs w)" rsig_ok
proof (unfold_locales, goal_cases)
  case (1 w k s)
  then show ?case by (auto simp: rsig_ok_def dest: map_of_SomeD)
next
  case (2 w k w' y)
  then show ?case by (simp add: rsig_client_def rsig_get_source_def)
next
  case (3 w k w' x)
  then show ?case by (auto simp: rsig_client_def rsig_get_source_def rsig_named split: option.splits)
next
  case (4 w x w' u)
  then show ?case
    by (auto simp: rsig_client_def rsig_received_def intro!: rsig_ok_source dest: rsig_named
        split: option.splits if_splits)
next
  case (5 w x w')
  then show ?case
    by (auto simp: rsig_client_def rsig_received_def update_conv' split: option.splits if_splits)
next
  case (6 w k es w' u)
  then show ?case
    by (auto simp: rsig_client_def rsig_cooldown_def intro!: rsig_ok_source dest: rsig_named
        split: option.splits)
next
  case (7 w w' z)
  then show ?case by (simp add: rsig_client_def)
next
  case (8 w w' xs)
  then have xs: "xs = map snd (rs_sigs w)" "distinct (map fst (rs_sigs w))"
    by (auto simp: rsig_client_def rsig_ok_def)
  then show ?case by (simp add: image_iff) (metis prod.collapse snd_conv)
next
  case (9 w k p w' u)
  then show ?case
    by (auto simp: rsig_client_def rsig_delete_def delete_conv' rsig_ok_delete split: option.splits if_splits)
qed

section \<open>Properties\<close>

definition sample_source :: SignalSource where
  "sample_source = \<lparr>ss_Meta = zero_meta\<lparr>om_Name := ''s'', om_UID := ''u2'', om_ResourceVersion := ''1''\<rparr>,
     ss_CooldownHours = 6,
     ss_Status = \<lparr>sst_LastReceived = None, sst_ReceivedTotal = 4, sst_Cooldown = []\<rparr>\<rparr>"

definition owned_signal :: "key \<Rightarrow> string \<Rightarrow> Signal" where
  "owned_signal k uid = applySignalSpec ((zero_Signal k)\<lparr>sg_Meta := zero_meta\<lparr>om_Name := k, om_UID := k\<rparr>\<rparr>)
     ((sample_signal k 0)\<lparr>sr_SourceRef := ''s'', sr_SourceID := uid\<rparr>)"

definition sample_signals :: ref_signals where
  "sample_signals = \<lparr>rs_sigs = [(''old'', owned_signal ''old'' ''u1''), (''new'', owned_signal ''new'' ''u2'')],
     rs_srcs = [(''s'', sample_source)], rs_rv = 2\<rparr>"

lemma sample_signals_ok [simp]: "rsig_ok sample_signals"
proof -
  have "itoa 1 = ''1''" by code_simp
  then have "\<exists>n. 0 \<le> n \<and> n < 2 \<and> ''1'' = itoa n" by (intro exI [of _ 1]) simp
  then show ?thesis
    by (simp add: rsig_ok_def sample_signals_def sample_source_def owned_signal_def applySignalSpec_def
        Let_def sample_signal_def)
qed

text \<open>Another replica counts a receipt of its own.\<close>

definition count_elsewhere :: "ref_signals \<Rightarrow> ref_signals" where
  "count_elsewhere w = (case map_of (rs_srcs w) ''s'' of None \<Rightarrow> w
     | Some s \<Rightarrow> fst (rsig_received w (count_receipt 1 s)))"

lemma count_elsewhere_admissible:
  "admissible (src_versions (\<lambda>w. map_of (rs_srcs w))) rsig_ok count_elsewhere"
proof -
  have "rsig_ok (count_elsewhere w)" if "rsig_ok w" for w
    using that rsig.received_ok [of w "count_receipt 1 _"]
    by (auto simp: count_elsewhere_def rsig_client_def split: option.splits)
      (metis prod.collapse)
  moreover have "r' = r" if prems: "rsig_ok w" "src_versions (\<lambda>w. map_of (rs_srcs w)) w k = Some (r, v)"
    "src_versions (\<lambda>w. map_of (rs_srcs w)) (count_elsewhere w) k = Some (r', v)" for w k r v r'
  proof -
    have r: "v = src_rv r" "map_of (rs_srcs w) k = Some r"
      using prems(2) by (auto simp: src_versions_def)
    then obtain n where "0 \<le> n" "n < rs_rv w" "src_rv r = itoa n"
      using prems(1) unfolding rsig_ok_def by metis
    with r have "v \<noteq> itoa (rs_rv w)" using itoa_inject [of n "rs_rv w"] by simp
    with prems(2,3) show ?thesis
      by (auto simp: count_elsewhere_def rsig_received_def src_versions_def update_conv'
          split: option.splits if_splits)
  qed
  ultimately show ?thesis by (simp add: admissible_def)
qed

text \<open>
  A receipt is counted exactly once: when \<open>RecordReceived\<close> returns, there was an instant
  at which the source's total grew by one and its last instant became the receipt's, and
  nothing else of the source changed, whatever other replicas write between its calls.
\<close>

theorem RecordReceived_counts_once:
  assumes "signal_api c sigs srcs ok"
    and "sig_RecordReceived (interleaved_signals c) w k at = (w', Inr ())"
    and "ok (fst (kw_api w))" "\<forall>e \<in> set (snd (kw_api w)). admissible (src_versions srcs) ok e"
  shows "\<exists>a old new. ok a \<and> srcs a k = Some old \<and> srcs (fst (kw_api w')) = (srcs a)(k \<mapsto> new)
    \<and> sst_ReceivedTotal (ss_Status new) = sst_ReceivedTotal (ss_Status old) + 1
    \<and> sst_LastReceived (ss_Status new) = Some at
    \<and> sst_Cooldown (ss_Status new) = sst_Cooldown (ss_Status old)"
proof -
  obtain a old v where "ok a" "srcs a k = Some old"
    "srcs (fst (kw_api w')) = (srcs a)(k \<mapsto> received_written old (count_receipt at old) v)"
    using signal_api.RecordReceived_loop_atomic [OF assms(1) assms(2) [unfolded sig_RecordReceived_def] assms(3,4)]
    by blast
  then show ?thesis
    by (intro exI [of _ a] exI [of _ old] exI [of _ "received_written old (count_receipt at old) v"])
      (simp add: received_written_def count_receipt_def)
qed

theorem RecordReceived_counts_once_witness:
  "let w = \<lparr>kw_api = (sample_signals, [id, count_elsewhere]), kw_armed = False\<rparr> in
   \<exists>w'. sig_RecordReceived (interleaved_signals rsig_client) w ''s'' 7 = (w', Inr ())
    \<and> (\<exists>a old new. rsig_ok a \<and> map_of (rs_srcs a) ''s'' = Some old
        \<and> map_of (rs_srcs (fst (kw_api w'))) = (map_of (rs_srcs a))(''s'' \<mapsto> new)
        \<and> sst_ReceivedTotal (ss_Status new) = sst_ReceivedTotal (ss_Status old) + 1)"
proof -
  let ?w = "\<lparr>kw_api = (sample_signals, [id, count_elsewhere]), kw_armed = False\<rparr>"
  have "\<exists>w'. sig_RecordReceived (interleaved_signals rsig_client) ?w ''s'' 7 = (w', Inr ())"
    by (simp add: sig_RecordReceived_def statusUpdateMaxAttempts_def numeral_eq_Suc interleaved_signals_def
        lift_op_def call_def rsig_client_def rsig_get_source_def rsig_received_def sample_signals_def
        sample_source_def zero_meta_def count_receipt_def count_elsewhere_def received_written_def
        Let_def) (simp add: itoa_small [simplified numeral_eq_Suc])?
  then obtain w' where w': "sig_RecordReceived (interleaved_signals rsig_client) ?w ''s'' 7 = (w', Inr ())"
    by blast
  have ok: "rsig_ok (fst (kw_api ?w))" by simp
  have adm: "\<forall>e \<in> set (snd (kw_api ?w)). admissible (src_versions (\<lambda>w. map_of (rs_srcs w))) rsig_ok e"
    using count_elsewhere_admissible by (simp add: admissible_def)
  from RecordReceived_counts_once [OF rsig.signal_api_axioms w' ok adm] w' show ?thesis
    unfolding Let_def by blast
qed

text \<open>
  Releasing a source takes nothing of its successor: every signal of another source, and
  every signal recorded under another identity than the departed one, survives; and when the
  release succeeds every other signal naming the source is gone.
\<close>

theorem ReleaseSource_spares_the_successor:
  assumes "signal_api c sigs srcs ok" and "ok (kw_api w)"
    and "sig_ReleaseSource c w source departed = (w', y)"
  shows "(\<forall>k s. sigs (kw_api w) k = Some s \<longrightarrow>
          obj_Name (as_SourceRef (sg_Spec s)) \<noteq> source \<or> isSuccessorsSignal s departed \<longrightarrow> sigs (kw_api w') k = Some s)
    \<and> (y = Inr () \<longrightarrow> (\<forall>k s. sigs (kw_api w) k = Some s \<longrightarrow> obj_Name (as_SourceRef (sg_Spec s)) = source \<longrightarrow>
          \<not> isSuccessorsSignal s departed \<longrightarrow> sigs (kw_api w') k = None))"
  by (rule signal_api.ReleaseSource_result [OF assms])

theorem ReleaseSource_spares_the_successor_witness:
  "\<exists>w'. sig_ReleaseSource rsig_client \<lparr>kw_api = sample_signals, kw_armed = False\<rparr> ''s'' ''u1'' = (w', Inr ())
    \<and> map_of (rs_sigs (kw_api w')) ''old'' = None
    \<and> map_of (rs_sigs (kw_api w')) ''new'' = Some (owned_signal ''new'' ''u2'')"
proof -
  let ?w = "\<lparr>kw_api = sample_signals, kw_armed = False\<rparr>"
  have f: "obj_Name (as_SourceRef (sg_Spec (owned_signal k u))) = ''s''" "om_Name (sg_Meta (owned_signal k u)) = k"
    "om_UID (sg_Meta (owned_signal k u)) = k" "u \<noteq> [] \<Longrightarrow> ownerSourceID (owned_signal k u) = u" for k u
    by (simp_all add: owned_signal_def applySignalSpec_def Let_def sample_signal_def ownerSourceID_def)
  have "\<exists>w'. sig_ReleaseSource rsig_client ?w ''s'' ''u1'' = (w', Inr ())"
    by (simp add: sig_ReleaseSource_def call_def rsig_client_def sample_signals_def rsig_delete_def f
        isSuccessorsSignal_def Let_def holdsSuccessor_def rsig_get_source_def sample_source_def)
  then obtain w' where w': "sig_ReleaseSource rsig_client ?w ''s'' ''u1'' = (w', Inr ())" by blast
  have "rsig_ok (kw_api ?w)" by simp
  from ReleaseSource_spares_the_successor [OF rsig.signal_api_axioms this w'] w' show ?thesis
    by (auto simp: sample_signals_def f isSuccessorsSignal_def Let_def split: if_splits)
qed

end
