(* ===== verification/Breaker.thy ===== *)
theory Breaker
  imports Prelude
begin

text \<open>
  The storage breaker, \<open>internal/storagebreaker/breaker.go\<close>: whether unavailable context
  storage is one conversation's loss or an outage. The mutex makes every method one step;
  the clock is an argument.
\<close>

section \<open>The breaker\<close>

definition Window :: duration where
  "Window = 2 * minute"

definition Threshold :: nat where
  "Threshold = 3"

definition ProbeInterval :: duration where
  "ProbeInterval = minute"

record Breaker =
  br_reports :: "go_time list"
  br_open :: bool
  br_since :: go_time
  br_lastProbe :: go_time

definition Breaker_New :: Breaker where
  "Breaker_New = \<lparr>br_reports = [], br_open = False, br_since = 0, br_lastProbe = 0\<rparr>"

definition Report :: "Breaker \<Rightarrow> go_time \<Rightarrow> Breaker \<times> bool" where
  "Report b now =
     (let cutoff = now - Window;
          kept = filter (\<lambda>t. t > cutoff) (br_reports b);
          b = b\<lparr>br_reports := kept @ [now]\<rparr>;
          b = (if length (br_reports b) \<ge> Threshold \<and> \<not> br_open b
               then b\<lparr>br_open := True, br_since := now\<rparr> else b)
      in (b, br_open b))"

definition Continued :: "Breaker \<Rightarrow> Breaker" where
  "Continued b = b\<lparr>br_open := False, br_reports := [], br_lastProbe := 0\<rparr>"

definition Breaker_Open :: "Breaker \<Rightarrow> bool \<times> go_time" where
  "Breaker_Open b = (br_open b, br_since b)"

definition ProbeDue :: "Breaker \<Rightarrow> go_time \<Rightarrow> Breaker \<times> bool" where
  "ProbeDue b now =
     (if \<not> br_open b then (b, True)
      else if \<not> IsZero (br_lastProbe b) \<and> time_sub now (br_lastProbe b) < ProbeInterval then (b, False)
      else (b\<lparr>br_lastProbe := now\<rparr>, True))"

section \<open>Runs of the breaker\<close>

fun report_all :: "Breaker \<Rightarrow> go_time list \<Rightarrow> Breaker" where
  "report_all b [] = b"
| "report_all b (t # ts) = report_all (fst (Report b t)) ts"

text \<open>The polls a sequence of \<open>ProbeDue\<close> calls grants.\<close>

fun granted :: "Breaker \<Rightarrow> go_time list \<Rightarrow> go_time list" where
  "granted b [] = []"
| "granted b (t # ts) = (if snd (ProbeDue b t) then t # granted (fst (ProbeDue b t)) ts
                         else granted (fst (ProbeDue b t)) ts)"

lemma report_all_append: "report_all b (ts @ us) = report_all (report_all b ts) us"
  by (induction ts arbitrary: b) auto

lemma report_all_state:
  assumes "sorted ts" "ts \<noteq> []"
  shows "br_reports (report_all Breaker_New ts) = filter (\<lambda>t. t > last ts - Window) ts
    \<and> (br_open (report_all Breaker_New ts) \<longleftrightarrow>
        (\<exists>n \<le> length ts. 0 < n \<and> Threshold \<le> length (filter (\<lambda>t. t > ts ! (n - 1) - Window) (take n ts))))"
  using assms
proof (induction ts rule: rev_induct)
  case (snoc x ts)
  let ?b = "report_all Breaker_New ts"
  have srt: "sorted ts" "\<And>t. t \<in> set ts \<Longrightarrow> t \<le> x" using snoc.prems(1) by (auto simp: sorted_append)
  have reps: "filter (\<lambda>t. t > x - Window) (br_reports ?b) = filter (\<lambda>t. t > x - Window) ts"
  proof (cases "ts = []")
    case True
    then show ?thesis by (simp add: Breaker_New_def)
  next
    case False
    then have "br_reports ?b = filter (\<lambda>t. t > last ts - Window) ts" using snoc.IH srt by blast
    moreover have "last ts \<le> x" using False srt(2) by simp
    ultimately show ?thesis by (auto intro: filter_cong)
  qed
  have x_in: "filter (\<lambda>t. t > x - Window) (ts @ [x]) = filter (\<lambda>t. t > x - Window) ts @ [x]"
    by (simp add: Window_def minute_def)
  have open_eq: "br_open (report_all Breaker_New (ts @ [x])) \<longleftrightarrow>
      br_open ?b \<or> Threshold \<le> length (filter (\<lambda>t. t > x - Window) (ts @ [x]))"
    unfolding x_in by (auto simp: report_all_append Report_def Let_def reps)
  have old: "br_open ?b \<longleftrightarrow> (\<exists>n \<le> length ts. 0 < n \<and>
      Threshold \<le> length (filter (\<lambda>t. t > ts ! (n - 1) - Window) (take n ts)))"
  proof (cases "ts = []")
    case True
    then show ?thesis by (simp add: Breaker_New_def)
  next
    case False
    then show ?thesis using snoc.IH srt by blast
  qed
  have split: "(\<exists>n \<le> length (ts @ [x]). 0 < n \<and> Threshold \<le> length (filter
        (\<lambda>t. t > (ts @ [x]) ! (n - 1) - Window) (take n (ts @ [x]))))
    \<longleftrightarrow> (\<exists>n \<le> length ts. 0 < n \<and> Threshold \<le> length (filter (\<lambda>t. t > ts ! (n - 1) - Window) (take n ts)))
      \<or> Threshold \<le> length (filter (\<lambda>t. t > x - Window) (ts @ [x]))"
    (is "?A \<longleftrightarrow> ?B \<or> ?C")
  proof
    assume ?A
    then obtain n where n: "n \<le> Suc (length ts)" "0 < n" "Threshold \<le> length (filter
        (\<lambda>t. t > (ts @ [x]) ! (n - 1) - Window) (take n (ts @ [x])))" by auto
    show "?B \<or> ?C"
    proof (cases "n = Suc (length ts)")
      case True
      with n(3) show ?thesis by simp
    next
      case False
      with n have "n \<le> length ts" by simp
      moreover from this n(2) have "n - 1 < length ts" by (cases n) auto
      ultimately have "0 < n \<and> Threshold \<le> length (filter (\<lambda>t. t > ts ! (n - 1) - Window) (take n ts))"
        using n by (simp add: nth_append)
      with \<open>n \<le> length ts\<close> show ?thesis by blast
    qed
  next
    assume "?B \<or> ?C"
    then show ?A
    proof
      assume ?B
      then obtain n where "n \<le> length ts" "0 < n"
        "Threshold \<le> length (filter (\<lambda>t. t > ts ! (n - 1) - Window) (take n ts))" by blast
      moreover from this have "n - 1 < length ts" by (cases n) auto
      ultimately show ?A by (intro exI [of _ n]) (simp add: nth_append)
    next
      assume ?C
      then show ?A by (intro exI [of _ "Suc (length ts)"]) (simp add: nth_append)
    qed
  qed
  have "br_reports (report_all Breaker_New (ts @ [x])) = filter (\<lambda>t. t > x - Window) (ts @ [x])"
    unfolding x_in by (simp add: report_all_append Report_def Let_def reps)
  then show ?case using open_eq old split by simp
qed simp

text \<open>With three as the threshold: three reports, the last less than a window after the first.\<close>

lemma three_in_window:
  assumes "sorted ts" "0 < n" "n \<le> length ts"
  shows "Threshold \<le> length (filter (\<lambda>t. t > ts ! (n - 1) - Window) (take n ts))
    \<longleftrightarrow> 3 \<le> n \<and> ts ! (n - 1) - ts ! (n - 3) < Window"
proof -
  let ?P = "\<lambda>t. t > ts ! (n - 1) - Window"
  have mono: "ts ! i \<le> ts ! j" if "i \<le> j" "j < n" for i j
    using assms that by (intro sorted_nth_mono) auto
  have eq: "length (filter ?P (take n ts)) = card {i. i < n \<and> ?P (ts ! i)}"
    using assms(3) by (auto simp: length_filter_conv_card intro!: arg_cong [where f = card])
  have fin: "finite {i. i < n \<and> ?P (ts ! i)}" by simp
  show ?thesis
  proof
    assume "Threshold \<le> length (filter ?P (take n ts))"
    then have c: "3 \<le> card {i. i < n \<and> ?P (ts ! i)}" unfolding eq Threshold_def .
    have "card {i. i < n \<and> ?P (ts ! i)} \<le> card {..<n}" by (rule card_mono) auto
    with c have n3: "3 \<le> n" by simp
    have "?P (ts ! (n - 3))"
    proof (rule ccontr)
      assume neg: "\<not> ?P (ts ! (n - 3))"
      have "{i. i < n \<and> ?P (ts ! i)} \<subseteq> {n - 2..<n}"
      proof
        fix i assume i: "i \<in> {i. i < n \<and> ?P (ts ! i)}"
        then have "\<not> i \<le> n - 3" using neg mono [of i "n - 3"] n3 by auto
        with i show "i \<in> {n - 2..<n}" by auto
      qed
      then have "card {i. i < n \<and> ?P (ts ! i)} \<le> card {n - 2..<n}" by (intro card_mono) auto
      with c n3 show False by simp
    qed
    with n3 show "3 \<le> n \<and> ts ! (n - 1) - ts ! (n - 3) < Window" by simp
  next
    assume h: "3 \<le> n \<and> ts ! (n - 1) - ts ! (n - 3) < Window"
    have "{n - 3..<n} \<subseteq> {i. i < n \<and> ?P (ts ! i)}"
    proof
      fix i assume "i \<in> {n - 3..<n}"
      with h mono [of "n - 3" i] show "i \<in> {i. i < n \<and> ?P (ts ! i)}" by auto
    qed
    from card_mono [OF fin this] h show "Threshold \<le> length (filter ?P (take n ts))"
      unfolding eq Threshold_def by simp
  qed
qed

section \<open>Properties\<close>

text \<open>
  The breaker opens exactly on an outage: after reports at non-decreasing instants, with
  no continuation between, it is open if and only if three consecutive reports lie less than
  two minutes apart; spread wider, any number of losses leaves it closed.
\<close>

theorem breaker_opens_iff_three_in_window:
  assumes "sorted ts"
  shows "br_open (report_all Breaker_New ts) \<longleftrightarrow>
    (\<exists>n. n + 2 < length ts \<and> ts ! (n + 2) - ts ! n < Window)"
proof (cases "ts = []")
  case False
  have "br_open (report_all Breaker_New ts) \<longleftrightarrow>
      (\<exists>n \<le> length ts. 0 < n \<and> 3 \<le> n \<and> ts ! (n - 1) - ts ! (n - 3) < Window)"
    using report_all_state [OF assms False] three_in_window [OF assms] by auto
  also have "\<dots> \<longleftrightarrow> (\<exists>n. n + 2 < length ts \<and> ts ! (n + 2) - ts ! n < Window)"
  proof
    assume "\<exists>n \<le> length ts. 0 < n \<and> 3 \<le> n \<and> ts ! (n - 1) - ts ! (n - 3) < Window"
    then obtain n where n: "n \<le> length ts" "3 \<le> n" "ts ! (n - 1) - ts ! (n - 3) < Window" by blast
    obtain m where "n = m + 3" using n(2) by (metis le_add_diff_inverse2)
    with n show "\<exists>n. n + 2 < length ts \<and> ts ! (n + 2) - ts ! n < Window"
      by (intro exI [of _ m]) (auto simp: numeral_eq_Suc)
  next
    assume "\<exists>n. n + 2 < length ts \<and> ts ! (n + 2) - ts ! n < Window"
    then obtain n where "n + 2 < length ts" "ts ! (n + 2) - ts ! n < Window" by blast
    then show "\<exists>n \<le> length ts. 0 < n \<and> 3 \<le> n \<and> ts ! (n - 1) - ts ! (n - 3) < Window"
      by (intro exI [of _ "n + 3"]) auto
  qed
  finally show ?thesis .
qed (simp add: Breaker_New_def)

theorem breaker_opens_iff_three_in_window_witness:
  "br_open (report_all Breaker_New [0, 1, 60 * 1000000000])
   \<and> \<not> br_open (report_all Breaker_New [0, 1, 2 * 60 * 1000000000])"
  using breaker_opens_iff_three_in_window [of "[0, 1, 60 * 1000000000]"]
    breaker_opens_iff_three_in_window [of "[0, 1, 2 * 60 * 1000000000]"]
  by (auto simp: Window_def minute_def less_Suc_eq numeral_eq_Suc intro: exI [of _ 0])

lemma granted_open:
  assumes "br_open b" "sorted ts" "\<And>t. t \<in> set ts \<Longrightarrow> 0 < t \<and> br_lastProbe b \<le> t"
  shows "sorted_wrt (\<lambda>s t. ProbeInterval \<le> t - s) (granted b ts)
    \<and> (\<forall>t \<in> set (granted b ts). br_lastProbe b = 0 \<or> ProbeInterval \<le> t - br_lastProbe b)"
  using assms
proof (induction ts arbitrary: b)
  case (Cons t ts)
  have pos: "0 < t" "br_lastProbe b \<le> t" "sorted ts" "\<And>u. u \<in> set ts \<Longrightarrow> t \<le> u"
    using Cons.prems by auto
  have iv: "min_duration < ProbeInterval" "ProbeInterval \<le> max_duration"
    by (simp_all add: ProbeInterval_def minute_def min_duration_def max_duration_def)
  show ?case
  proof (cases "snd (ProbeDue b t)")
    case True
    then have b': "fst (ProbeDue b t) = b\<lparr>br_lastProbe := t\<rparr>"
      and late: "br_lastProbe b = 0 \<or> ProbeInterval \<le> t - br_lastProbe b"
      using Cons.prems(1) time_sub_less_iff [OF iv, of t "br_lastProbe b"]
      by (auto simp: ProbeDue_def IsZero_def split: if_splits)
    have "br_open (b\<lparr>br_lastProbe := t\<rparr>)" using Cons.prems(1) by simp
    from Cons.IH [OF this pos(3)] pos
    have ih: "sorted_wrt (\<lambda>s t. ProbeInterval \<le> t - s) (granted (b\<lparr>br_lastProbe := t\<rparr>) ts)"
      "\<forall>u \<in> set (granted (b\<lparr>br_lastProbe := t\<rparr>) ts). ProbeInterval \<le> u - t" by (auto, force+)
    have "br_lastProbe b = 0 \<or> ProbeInterval \<le> u - br_lastProbe b"
      if "u \<in> set (granted (b\<lparr>br_lastProbe := t\<rparr>) ts)" for u
      using ih(2) that pos(2) by force
    with True b' late ih show ?thesis by auto
  next
    case False
    then have "fst (ProbeDue b t) = b" by (auto simp: ProbeDue_def split: if_splits)
    with False Cons.IH [OF Cons.prems(1) pos(3)] Cons.prems(3) show ?thesis by auto
  qed
qed simp

text \<open>
  While the breaker is open the probes are one at a time and never stop: whatever the
  instants at which callers poll, two granted probes are at least a probe interval apart,
  and a poll that long after the last granted one is granted.
\<close>

theorem probes_are_spaced_and_live:
  assumes "br_open b" "sorted ts" "\<And>t. t \<in> set ts \<Longrightarrow> 0 < t \<and> br_lastProbe b \<le> t"
  shows "sorted_wrt (\<lambda>s t. ProbeInterval \<le> t - s) (granted b ts)
    \<and> (\<forall>now. br_lastProbe b + ProbeInterval \<le> now \<longrightarrow> snd (ProbeDue b now))"
proof -
  have iv: "min_duration < ProbeInterval" "ProbeInterval \<le> max_duration"
    by (simp_all add: ProbeInterval_def minute_def min_duration_def max_duration_def)
  show ?thesis
    using granted_open [OF assms] assms(1) time_sub_less_iff [OF iv, of _ "br_lastProbe b"]
    by (auto simp: ProbeDue_def)
qed

theorem probes_are_spaced_and_live_witness:
  "sorted_wrt (\<lambda>s t. ProbeInterval \<le> t - s)
     (granted (Breaker_New\<lparr>br_open := True\<rparr>) [1, 2, 60 * 1000000000, 1 + 60 * 1000000000])
   \<and> granted (Breaker_New\<lparr>br_open := True\<rparr>) [1, 2, 60 * 1000000000, 1 + 60 * 1000000000] = [1, 1 + 60 * 1000000000]"
proof
  show "sorted_wrt (\<lambda>s t. ProbeInterval \<le> t - s)
     (granted (Breaker_New\<lparr>br_open := True\<rparr>) [1, 2, 60 * 1000000000, 1 + 60 * 1000000000])"
    by (rule probes_are_spaced_and_live [THEN conjunct1]) (auto simp: Breaker_New_def)
  show "granted (Breaker_New\<lparr>br_open := True\<rparr>) [1, 2, 60 * 1000000000, 1 + 60 * 1000000000]
      = [1, 1 + 60 * 1000000000]"
    by (simp add: ProbeDue_def Breaker_New_def ProbeInterval_def minute_def IsZero_def time_sub_def
        max_duration_def min_duration_def)
qed

end
