(* ===== verification/Messages.thy ===== *)
theory Messages
  imports StateRecord GoStrings
begin

text \<open>
  The typed messages the manager sends to channel adapters, \<open>internal/chat/message.go\<close>, and
  the command names of \<open>internal/chat/router.go\<close> and \<open>vocabulary.go\<close>. A character outside
  ASCII is written as its code point and encoded, as a Go string literal is.
\<close>

section \<open>Messages\<close>

record Choice =
  ch_Label :: string
  ch_Command :: string

record Message =
  msg_Kind :: string
  msg_Body :: string
  msg_Pipeline :: string
  msg_Source :: string
  msg_Title :: string
  msg_Labels :: labels
  msg_Severity :: string
  msg_InputRef :: string
  msg_OriginKind :: string
  msg_Choices :: "Choice list"
  msg_ExpectsReply :: bool
  msg_InReplyTo :: string
  msg_Origin :: string
  msg_Sender :: string
  msg_Status :: string
  msg_Level :: string

definition zero_message :: Message where
  "zero_message = \<lparr>msg_Kind = [], msg_Body = [], msg_Pipeline = [], msg_Source = [], msg_Title = [],
     msg_Labels = Map.empty, msg_Severity = [], msg_InputRef = [], msg_OriginKind = [], msg_Choices = [],
     msg_ExpectsReply = False, msg_InReplyTo = [], msg_Origin = [], msg_Sender = [], msg_Status = [], msg_Level = []\<rparr>"

abbreviation MsgSignal :: string where "MsgSignal \<equiv> ''signal''"
abbreviation MsgAnswer :: string where "MsgAnswer \<equiv> ''answer''"
abbreviation MsgRelay :: string where "MsgRelay \<equiv> ''relay''"
abbreviation MsgNotice :: string where "MsgNotice \<equiv> ''notice''"
abbreviation NoticeInfo :: string where "NoticeInfo \<equiv> ''info''"
abbreviation NoticeWarn :: string where "NoticeWarn \<equiv> ''warn''"

definition SignalMessage :: "string \<Rightarrow> string \<Rightarrow> string \<Rightarrow> string \<Rightarrow> labels \<Rightarrow> string \<Rightarrow> string \<Rightarrow> Message" where
  "SignalMessage pipeline source title inputRef labels body originKind =
     zero_message\<lparr>msg_Kind := MsgSignal, msg_Pipeline := pipeline, msg_Source := source, msg_Title := title,
       msg_Labels := labels, msg_InputRef := inputRef, msg_Body := body, msg_OriginKind := originKind\<rparr>"

definition WithSeverity :: "Message \<Rightarrow> string \<Rightarrow> Message" where
  "WithSeverity m severity = m\<lparr>msg_Severity := severity\<rparr>"

definition AnswerMessage :: "string \<Rightarrow> string \<Rightarrow> Message" where
  "AnswerMessage body status = zero_message\<lparr>msg_Kind := MsgAnswer, msg_Body := body, msg_Status := status\<rparr>"

definition RelayMessage :: "string \<Rightarrow> string \<Rightarrow> string \<Rightarrow> Message" where
  "RelayMessage origin sender body =
     zero_message\<lparr>msg_Kind := MsgRelay, msg_Origin := origin, msg_Sender := sender, msg_Body := body\<rparr>"

definition Notice :: "string \<Rightarrow> Message" where
  "Notice body = zero_message\<lparr>msg_Kind := MsgNotice, msg_Level := NoticeInfo, msg_Body := body\<rparr>"

definition Warn :: "string \<Rightarrow> Message" where
  "Warn body = zero_message\<lparr>msg_Kind := MsgNotice, msg_Level := NoticeWarn, msg_Body := body\<rparr>"

definition RunReplyMessage :: "Run \<Rightarrow> Message" where
  "RunReplyMessage run =
     (let body = trim_space (run_Result run) in
      if run_Status run \<noteq> ''succeeded'' \<and> body \<noteq> [] then Warn body
      else if run_Status run \<noteq> ''succeeded'' then Warn (runes_string [10060] @ '' run failed ('' @ run_Status run @ '')'')
      else if body = [] then Warn (runes_string [10060] @ '' run finished without output'')
      else AnswerMessage body (run_Status run))"

section \<open>Commands\<close>

abbreviation ListCommand :: string where "ListCommand \<equiv> ''pipelines''"
abbreviation RetiredListCommand :: string where "RetiredListCommand \<equiv> ''agents''"
abbreviation CloseCommand :: string where "CloseCommand \<equiv> ''close''"
abbreviation ExitCommand :: string where "ExitCommand \<equiv> ''exit''"

definition isListCommand :: "string \<Rightarrow> bool" where
  "isListCommand name \<longleftrightarrow> name = ListCommand \<or> name = RetiredListCommand \<or> name = ''help'' \<or> name = ''start''"

definition ReservedCommands :: "string list" where
  "ReservedCommands = [ListCommand, RetiredListCommand, ''help'', ''start'', ExitCommand, CloseCommand]"

end
