(* ===== verification/Activity.thy ===== *)
theory Activity
  imports GoTime "HOL-Library.AList"
begin

text \<open>
  The activity log, \<open>internal/activity/event.go\<close> and \<open>log.go\<close>: a fixed-size ring of the
  hops the manager mediates, replayed by cursor and fanned out to streaming subscribers.
  Methods run under the log's mutex, so each is one step; the metric observers, which only
  look, are left out. Sequence numbers are 64 bits wide in the source; they count emitted
  events and are natural numbers here. A data map is an association list, its keys distinct.
\<close>

section \<open>Events\<close>

definition MaxDataKeys :: nat where "MaxDataKeys = 16"
definition MaxDataValue :: nat where "MaxDataValue = 200"

definition RuneStart :: "char \<Rightarrow> bool" where
  "RuneStart c \<longleftrightarrow> \<not> (128 \<le> code c \<and> code c < 192)"

fun truncate_at :: "string \<Rightarrow> nat \<Rightarrow> nat" where
  "truncate_at s 0 = 0"
| "truncate_at s (Suc n) = (if RuneStart (s ! Suc n) then Suc n else truncate_at s n)"

definition Truncate :: "string \<Rightarrow> nat \<Rightarrow> string" where
  "Truncate s n = (if length s \<le> n then s else take (truncate_at s n) s)"

definition BoundData :: "(string \<times> string) list \<Rightarrow> (string \<times> string) list" where
  "BoundData data =
     fold (\<lambda>k out. AList.update (Truncate k MaxDataValue)
             (Truncate (case map_of data k of None \<Rightarrow> [] | Some v \<Rightarrow> v) MaxDataValue) out)
       (take MaxDataKeys (sort (map fst data))) []"

record NodeRef =
  nd_Kind :: string
  nd_Name :: string

definition Node :: "string \<Rightarrow> string \<Rightarrow> NodeRef option" where
  "Node kind name = Some \<lparr>nd_Kind = kind, nd_Name = name\<rparr>"

record Event =
  ev_Cursor :: string
  ev_TS :: go_time
  ev_Kind :: string
  ev_From :: "NodeRef option"
  ev_To :: "NodeRef option"
  ev_Status :: string
  ev_Conversation :: string
  ev_Pipeline :: string
  ev_RunID :: string
  ev_OpID :: string
  ev_InputID :: string
  ev_LatencyMs :: int
  ev_Detail :: string
  ev_Code :: string
  ev_Data :: "(string \<times> string) list"
  ev_Adapter :: string

definition zero_event :: Event where
  "zero_event = \<lparr>ev_Cursor = [], ev_TS = 0, ev_Kind = [], ev_From = None, ev_To = None, ev_Status = [],
     ev_Conversation = [], ev_Pipeline = [], ev_RunID = [], ev_OpID = [], ev_InputID = [],
     ev_LatencyMs = 0, ev_Detail = [], ev_Code = [], ev_Data = [], ev_Adapter = []\<rparr>"

section \<open>The ring\<close>

definition DefaultSize :: int where "DefaultSize = 10000"
definition subscriberBuffer :: nat where "subscriberBuffer = 256"

record subscriber =
  sub_ch :: "Event list"
  sub_lagged :: bool

record Log =
  lg_buf :: "Event list"
  lg_next :: nat
  lg_subs :: "(nat \<times> subscriber) list"
  lg_subSeq :: nat

definition NewLog :: "int \<Rightarrow> Log" where
  "NewLog n = \<lparr>lg_buf = replicate (nat (if n \<le> 0 then DefaultSize else n)) zero_event,
     lg_next = 1, lg_subs = [], lg_subSeq = 0\<rparr>"

definition Cursor :: "nat \<Rightarrow> string" where
  "Cursor seq = pad 16 (int seq)"

definition max_uint64 :: int where
  "max_uint64 = 18446744073709551615"

definition parseCursor :: "string \<Rightarrow> nat option" where
  "parseCursor s =
     (if s = [] then None
      else if list_all is_digit s \<and> digits_val s \<le> max_uint64 then Some (nat (digits_val s)) else None)"

definition normalized :: "go_time \<Rightarrow> Event \<Rightarrow> Event" where
  "normalized now e =
     (let e = (if IsZero (ev_TS e) then e\<lparr>ev_TS := now\<rparr> else e);
          e = (if ev_Status e = [] then e\<lparr>ev_Status := ''ok''\<rparr> else e)
      in e\<lparr>ev_Data := BoundData (ev_Data e)\<rparr>)"

definition offer :: "Event \<Rightarrow> subscriber \<Rightarrow> subscriber" where
  "offer e s = (if length (sub_ch s) < subscriberBuffer then s\<lparr>sub_ch := sub_ch s @ [e]\<rparr>
                else s\<lparr>sub_lagged := True\<rparr>)"

definition Emit :: "go_time \<Rightarrow> Event \<Rightarrow> Log \<Rightarrow> Log" where
  "Emit now e l =
     (let e = (normalized now e)\<lparr>ev_Cursor := Cursor (lg_next l)\<rparr>
      in l\<lparr>lg_buf := (lg_buf l)[(lg_next l - 1) mod length (lg_buf l) := e],
           lg_next := lg_next l + 1,
           lg_subs := map (\<lambda>(i, s). (i, offer e s)) (lg_subs l)\<rparr>)"

definition oldestSeq :: "Log \<Rightarrow> nat" where
  "oldestSeq l =
     (if lg_next l = 1 then 0
      else let capacity = length (lg_buf l) in
        if lg_next l - 1 \<le> capacity then 1 else lg_next l - capacity)"

text \<open>The entries from a sequence number on, at most \<open>limit\<close> of them.\<close>

definition ring_from :: "Log \<Rightarrow> nat \<Rightarrow> nat \<Rightarrow> Event list" where
  "ring_from l start limit = map (\<lambda>seq. lg_buf l ! ((seq - 1) mod length (lg_buf l)))
     (take limit [start ..< lg_next l])"

definition Since :: "Log option \<Rightarrow> string \<Rightarrow> int \<Rightarrow> Event list \<times> bool" where
  "Since lg cursor limit =
     (case lg of
        None \<Rightarrow> ([], False)
      | Some l \<Rightarrow>
         (let limit = (if limit \<le> 0 \<or> limit > int (length (lg_buf l)) then length (lg_buf l) else nat limit);
              oldest = oldestSeq l in
          case parseCursor cursor of
            Some seq \<Rightarrow>
              if seq \<ge> lg_next l then ([], True)
              else if oldest = 0 then ([], False)
              else if seq + 1 < oldest then (ring_from l oldest limit, True)
              else if seq + 1 \<ge> lg_next l then ([], False)
              else (ring_from l (seq + 1) limit, False)
          | None \<Rightarrow>
              if oldest = 0 then ([], False)
              else (ring_from l (if lg_next l - oldest > limit then lg_next l - limit else oldest) limit, False)))"

definition Latest :: "Log option \<Rightarrow> string" where
  "Latest lg = (case lg of None \<Rightarrow> [] | Some l \<Rightarrow> if lg_next l = 1 then [] else Cursor (lg_next l - 1))"

definition Subscribe :: "Log \<Rightarrow> Log \<times> nat" where
  "Subscribe l =
     (let i = lg_subSeq l + 1 in
      (l\<lparr>lg_subSeq := i, lg_subs := lg_subs l @ [(i, \<lparr>sub_ch = [], sub_lagged = False\<rparr>)]\<rparr>, i))"

definition Subscription_Close :: "nat \<Rightarrow> Log \<Rightarrow> Log" where
  "Subscription_Close i l = l\<lparr>lg_subs := AList.delete i (lg_subs l)\<rparr>"

text \<open>Whether an open subscription dropped events.\<close>

definition Lagged :: "nat \<Rightarrow> Log \<Rightarrow> bool" where
  "Lagged i l = (case map_of (lg_subs l) i of None \<Rightarrow> False | Some s \<Rightarrow> sub_lagged s)"

section \<open>The log as a bounded history\<close>

text \<open>The whole history, and what a reader may see of it.\<close>

definition recorded :: "(go_time \<times> Event) list \<Rightarrow> Event list" where
  "recorded es = map (\<lambda>i. (case es ! i of (now, e) \<Rightarrow> (normalized now e)\<lparr>ev_Cursor := Cursor (i + 1)\<rparr>))
     [0 ..< length es]"

definition replay :: "nat \<Rightarrow> Event list \<Rightarrow> nat option \<Rightarrow> nat \<Rightarrow> Event list \<times> bool" where
  "replay capacity h cursor limit =
     (case cursor of
        None \<Rightarrow> (last_n limit h, False)
      | Some seq \<Rightarrow>
          if length h < seq then ([], True)
          else if seq + capacity < length h then (take limit (last_n capacity h), True)
          else (take limit (drop seq h), False))"

definition capacity_of :: "int \<Rightarrow> nat" where
  "capacity_of n = nat (if n \<le> 0 then DefaultSize else n)"

definition limit_of :: "nat \<Rightarrow> int \<Rightarrow> nat" where
  "limit_of capacity limit = (if limit \<le> 0 \<or> limit > int capacity then capacity else nat limit)"

definition holds_history :: "nat \<Rightarrow> Log \<Rightarrow> Event list \<Rightarrow> bool" where
  "holds_history n l h \<longleftrightarrow> 0 < n \<and> length (lg_buf l) = n \<and> lg_next l = length h + 1
     \<and> (\<forall>i < length h. length h \<le> i + n \<longrightarrow> lg_buf l ! (i mod n) = h ! i)"

lemma capacity_pos: "0 < capacity_of n"
  by (simp add: capacity_of_def DefaultSize_def)

lemma holds_New: "holds_history (capacity_of n) (NewLog n) []"
  using capacity_pos [of n] by (simp add: holds_history_def NewLog_def capacity_of_def)

lemma mod_window:
  assumes "i < m" "m \<le> i + n" "i mod n = m mod (n::nat)"
  shows "m = i + n"
proof -
  have "n dvd m - i" using assms by (metis mod_eq_dvd_iff_nat less_imp_le_nat)
  with assms have "n \<le> m - i" by (intro dvd_imp_le) auto
  with assms show ?thesis by simp
qed

lemma length_Emit: "length (lg_buf (Emit now e l)) = length (lg_buf l)" "lg_next (Emit now e l) = lg_next l + 1"
  by (simp_all add: Emit_def Let_def)

lemma holds_Emit:
  assumes "holds_history n l h"
  shows "holds_history n (Emit now e l) (h @ [(normalized now e)\<lparr>ev_Cursor := Cursor (length h + 1)\<rparr>])"
proof -
  let ?e = "(normalized now e)\<lparr>ev_Cursor := Cursor (length h + 1)\<rparr>"
  have h: "0 < n" "length (lg_buf l) = n" "lg_next l = length h + 1"
    "\<And>i. i < length h \<Longrightarrow> length h \<le> i + n \<Longrightarrow> lg_buf l ! (i mod n) = h ! i"
    using assms by (auto simp: holds_history_def)
  have buf: "lg_buf (Emit now e l) = (lg_buf l)[length h mod n := ?e]"
    using h by (simp add: Emit_def Let_def)
  have "lg_buf (Emit now e l) ! (i mod n) = (h @ [?e]) ! i"
    if i: "i < length h + 1" "length h + 1 \<le> i + n" for i
  proof (cases "i = length h")
    case True
    with h show ?thesis by (simp add: buf)
  next
    case False
    with i have "i < length h" by simp
    moreover have "i mod n \<noteq> length h mod n"
      using mod_window [of i "length h" n] calculation i h(1) by auto
    ultimately show ?thesis using h i by (simp add: buf nth_append)
  qed
  with h show ?thesis by (simp add: holds_history_def length_Emit)
qed

lemma recorded_snoc:
  "recorded (es @ [(now, e)]) = recorded es @ [(normalized now e)\<lparr>ev_Cursor := Cursor (length es + 1)\<rparr>]"
  by (auto simp: recorded_def nth_append intro!: map_cong)

lemma length_recorded [simp]: "length (recorded es) = length es"
  by (simp add: recorded_def)

lemma holds_run:
  "holds_history (capacity_of n) (fold (\<lambda>(now, e). Emit now e) es (NewLog n)) (recorded es)"
proof (induction es rule: rev_induct)
  case Nil
  show ?case using holds_New [of n] by (simp add: recorded_def)
next
  case (snoc x es)
  obtain now e where x: "x = (now, e)" by fastforce
  from holds_Emit [OF snoc, of now e] show ?case by (simp add: x recorded_snoc)
qed

lemma ring_from_history:
  assumes "holds_history n l h" "0 < start" "length h < start + n"
  shows "ring_from l start limit = take limit (drop (start - 1) h)"
proof -
  have h: "length (lg_buf l) = n" "lg_next l = length h + 1"
    "\<And>i. i < length h \<Longrightarrow> length h \<le> i + n \<Longrightarrow> lg_buf l ! (i mod n) = h ! i"
    using assms by (auto simp: holds_history_def)
  have "map (\<lambda>seq. lg_buf l ! ((seq - 1) mod n)) [start ..< length h + 1] = drop (start - 1) h"
  proof (rule nth_equalityI)
    fix i assume "i < length (map (\<lambda>seq. lg_buf l ! ((seq - 1) mod n)) [start ..< length h + 1])"
    then have i: "i < length h + 1 - start" by (simp del: upt_Suc)
    then have "[start ..< length h + 1] ! i = start + i" by (intro nth_upt) simp
    moreover have "lg_buf l ! ((start + i - 1) mod n) = h ! (start + i - 1)"
      using h(3) [of "start + i - 1"] i assms(2,3) by simp
    ultimately show "map (\<lambda>seq. lg_buf l ! ((seq - 1) mod n)) [start ..< length h + 1] ! i = drop (start - 1) h ! i"
      using i assms(2) by (simp del: upt_Suc add: nth_map)
  qed (use assms(2) in \<open>simp del: upt_Suc\<close>)
  then show ?thesis by (simp add: ring_from_def h take_map [symmetric] del: upt_Suc)
qed

lemma oldestSeq_history:
  assumes "holds_history n l h"
  shows "oldestSeq l = (if h = [] then 0 else length h - min n (length h) + 1)"
  using assms by (auto simp: holds_history_def oldestSeq_def Let_def min_def)

lemma Since_history:
  assumes H: "holds_history n l h"
  shows "Since (Some l) cursor limit = replay n h (parseCursor cursor) (limit_of n limit)"
proof -
  let ?k = "limit_of n limit" and ?m = "length h"
  have l: "length (lg_buf l) = n" "lg_next l = ?m + 1" "0 < n"
    using H by (auto simp: holds_history_def)
  have k: "?k \<le> n" by (auto simp: limit_of_def)
  have lim: "(if limit \<le> 0 \<or> limit > int (length (lg_buf l)) then length (lg_buf l) else nat limit) = ?k"
    by (simp add: l limit_of_def)
  have old: "oldestSeq l = (if h = [] then 0 else ?m - min n ?m + 1)" by (rule oldestSeq_history [OF H])
  show ?thesis
  proof (cases "parseCursor cursor")
    case None
    show ?thesis
    proof (cases "h = []")
      case True
      with None show ?thesis by (simp add: Since_def replay_def lim old Let_def last_n_def)
    next
      case False
      have "(if lg_next l - oldestSeq l > ?k then lg_next l - ?k else oldestSeq l) = ?m - min ?k ?m + 1"
        using k False by (auto simp: old l min_def)
      moreover have "ring_from l (?m - min ?k ?m + 1) ?k = last_n ?k h"
        using ring_from_history [OF H, of "?m - min ?k ?m + 1" ?k] k l(3) by (auto simp: last_n_def min_def)
      moreover have "Since (Some l) cursor limit
          = (ring_from l (if lg_next l - oldestSeq l > ?k then lg_next l - ?k else oldestSeq l) ?k, False)"
        using None False old by (simp add: Since_def lim Let_def)
      ultimately show ?thesis using None by (simp add: replay_def)
    qed
  next
    case (Some seq)
    consider (ahead) "?m < seq" | (evicted) "seq \<le> ?m" "seq + n < ?m" | (held) "seq \<le> ?m" "?m \<le> seq + n" by linarith
    then show ?thesis
    proof cases
      case ahead
      with Some show ?thesis by (simp add: Since_def replay_def l Let_def)
    next
      case evicted
      then have "h \<noteq> []" "oldestSeq l = ?m - n + 1" by (auto simp: old)
      moreover have "ring_from l (?m - n + 1) ?k = take ?k (last_n n h)"
        using ring_from_history [OF H, of "?m - n + 1" ?k] evicted l(3) by (simp add: last_n_def)
      ultimately show ?thesis using Some evicted by (simp add: Since_def replay_def lim l(2) Let_def)
    next
      case held
      have "ring_from l (seq + 1) ?k = take ?k (drop seq h)" if "seq < ?m"
        using ring_from_history [OF H, of "seq + 1" ?k] that held by simp
      with Some held show ?thesis by (auto simp: Since_def replay_def lim l(2) old Let_def)
    qed
  qed
qed

section \<open>Properties\<close>

text \<open>
  C26. The ring is a bounded history with cursors. After any sequence of emissions a reader gets
  exactly what a log that kept everything would give it: with a cursor inside the window, the events
  right after it, none skipped; with a cursor that was evicted, the held tail and the order to
  resync; with one this process never issued, the order to resync; without a cursor, the newest.
\<close>

theorem Since_replays_the_history:
  "Since (Some (fold (\<lambda>(now, e). Emit now e) es (NewLog n))) cursor limit
   = replay (capacity_of n) (recorded es) (parseCursor cursor) (limit_of (capacity_of n) limit)"
  by (rule Since_history [OF holds_run])

lemma parseCursor_Cursor: "int k \<le> max_uint64 \<Longrightarrow> parseCursor (Cursor k) = Some k"
proof -
  assume k: "int k \<le> max_uint64"
  have d: "list_all is_digit (Cursor k)" "Cursor k \<noteq> []"
    using itoa_digits [of "int k"] by (auto simp: Cursor_def pad_def Let_def is_digit_def list_all_iff)
  have "digits_val (Cursor k) = int k"
    using digits_val_itoa [of "int k"] fold_zeros
    by (simp add: Cursor_def pad_def Let_def digits_val_def)
  with d k show ?thesis by (simp add: parseCursor_def)
qed

end
