(* ===== verification/Claimants.thy ===== *)
theory Claimants
  imports ApiTypes "HOL-Library.Multiset"
begin

text \<open>
  Who answers a signal: the Pipeline and Coordinator resources
  (\<open>api/v1alpha1/pipeline_types.go\<close>, \<open>coordinator_types.go\<close>, \<open>agentcapability_types.go\<close>),
  the claimant that stands for either (\<open>internal/chat/claimant.go\<close>, \<open>addressed.go\<close>), the
  Ready lists and the pipeline a conversation belongs to (\<open>chat/pipelines.go\<close>), the
  capability and the snapshot taken of it (\<open>internal/dispatch/capability.go\<close>,
  \<open>internal/runtimepod/snapshot.go\<close>, \<open>persistence.go\<close>). The API reader is a record of the
  reads the code makes, over the world it reads.
\<close>

section \<open>The resources\<close>

record PersistenceBinding =
  pb_ClaimName :: string
  pb_VolumeName :: string

record PipelinePersistence =
  pp_Context :: "PersistenceBinding option"
  pp_Workspace :: "PersistenceBinding option"

record AgentCapabilitySpec =
  ac_ProfileRef :: "ObjectRef option"
  ac_RuntimeRef :: "ObjectRef option"
  ac_ServiceAccountName :: string
  ac_Toolsets :: "api_ToolsetBinding option"
  ac_MCPConfigs :: "api_ToolingBinding option"
  ac_Persistence :: "PipelinePersistence option"

definition ProfileName :: "AgentCapabilitySpec \<Rightarrow> string" where
  "ProfileName s = (case ac_ProfileRef s of None \<Rightarrow> [] | Some r \<Rightarrow> obj_Name r)"

record Pipeline =
  pl_Name :: string
  pl_CreationTimestamp :: go_time
  pl_Icon :: string
  pl_SignalSourceRefs :: "ObjectRef list"
  pl_ChannelRefs :: "ObjectRef list"
  pl_Capability :: AgentCapabilitySpec
  pl_AgentRef :: "ObjectRef option"
  pl_Conditions :: "meta_Condition list"

record CoordinatorLimits =
  lim_MaxAgents :: int
  lim_MaxTurns :: int
  lim_Deadline :: "duration option"

record CoordinatorAgentEntry =
  cae_Name :: string
  cae_CapabilityRef :: "ObjectRef option"
  cae_CoordinatorRef :: "ObjectRef option"
  cae_Description :: string

record Coordinator =
  cor_Name :: string
  cor_CreationTimestamp :: go_time
  cor_SignalSourceRefs :: "ObjectRef list"
  cor_ChannelRefs :: "ObjectRef list"
  cor_Capability :: AgentCapabilitySpec
  cor_AgentRef :: "ObjectRef option"
  cor_Agents :: "CoordinatorAgentEntry list"
  cor_Limits :: "CoordinatorLimits option"
  cor_Conditions :: "meta_Condition list"

text \<open>\<open>apimeta.IsStatusConditionTrue\<close>: the first condition of the type has status True.\<close>

definition IsStatusConditionTrue :: "meta_Condition list \<Rightarrow> string \<Rightarrow> bool" where
  "IsStatusConditionTrue cs t =
     (case List.find (\<lambda>c. mc_Type c = t) cs of None \<Rightarrow> False | Some c \<Rightarrow> mc_Status c = ''True'')"

text \<open>A read that is not found is None inside a success; a failed read is an error.\<close>

record 'w Reader =
  rd_ListPipelines :: "'w \<Rightarrow> Pipeline list result"
  rd_ListCoordinators :: "'w \<Rightarrow> Coordinator list result"
  rd_GetPipeline :: "'w \<Rightarrow> string \<Rightarrow> Pipeline option result"
  rd_GetCoordinator :: "'w \<Rightarrow> string \<Rightarrow> Coordinator option result"
  rd_GetCapability :: "'w \<Rightarrow> string \<Rightarrow> AgentCapabilitySpec option result"
  rd_ProfileRuntime :: "'w \<Rightarrow> string \<Rightarrow> ObjectRef option option result"
  rd_RuntimeExists :: "'w \<Rightarrow> string \<Rightarrow> bool result"
  rd_ChannelExists :: "'w \<Rightarrow> string \<Rightarrow> bool result"

section \<open>Claimants\<close>

datatype Claimant = pipelineClaimant Pipeline | coordinatorClaimant Coordinator

datatype ClaimantKind = ClaimantPipeline | ClaimantCoordinator

definition refNames :: "ObjectRef list \<Rightarrow> ref list" where
  "refNames refs = map obj_Name refs"

fun GetName :: "Claimant \<Rightarrow> string" where
  "GetName (pipelineClaimant p) = pl_Name p"
| "GetName (coordinatorClaimant c) = cor_Name c"

fun claimant_kind :: "Claimant \<Rightarrow> ClaimantKind" where
  "claimant_kind (pipelineClaimant _) = ClaimantPipeline"
| "claimant_kind (coordinatorClaimant _) = ClaimantCoordinator"

fun EscalationChannelRefs :: "Claimant \<Rightarrow> ref list" where
  "EscalationChannelRefs (pipelineClaimant _) = []"
| "EscalationChannelRefs (coordinatorClaimant c) = refNames (cor_ChannelRefs c)"

fun BoundChannelRefs :: "Claimant \<Rightarrow> ref list" where
  "BoundChannelRefs (pipelineClaimant p) = refNames (pl_ChannelRefs p)"
| "BoundChannelRefs (coordinatorClaimant c) = EscalationChannelRefs (coordinatorClaimant c)"

fun SnapshotBudget :: "Claimant \<Rightarrow> go_time \<Rightarrow> ConversationBudget option" where
  "SnapshotBudget (pipelineClaimant _) now = None"
| "SnapshotBudget (coordinatorClaimant c) now =
     (let budget = \<lparr>bd_MaxAgents = 0, bd_MaxTurns = 0, bd_Deadline = None, bd_AgentsInvoked = 0, bd_Turns = 0\<rparr> in
      Some (case cor_Limits c of
        None \<Rightarrow> budget
      | Some limits \<Rightarrow> budget\<lparr>bd_MaxAgents := lim_MaxAgents limits, bd_MaxTurns := lim_MaxTurns limits,
          bd_Deadline := map_option (\<lambda>d. now + d) (lim_Deadline limits)\<rparr>))"

fun CapabilityRef :: "Claimant \<Rightarrow> ObjectRef option" where
  "CapabilityRef (pipelineClaimant p) = pl_AgentRef p"
| "CapabilityRef (coordinatorClaimant c) = cor_AgentRef c"

fun InlineCapability :: "Claimant \<Rightarrow> AgentCapabilitySpec" where
  "InlineCapability (pipelineClaimant p) = pl_Capability p"
| "InlineCapability (coordinatorClaimant c) = cor_Capability c"

definition ClaimantByKind :: "'w Reader \<Rightarrow> 'w \<Rightarrow> ClaimantKind \<Rightarrow> string \<Rightarrow> Claimant option result" where
  "ClaimantByKind rd w kind name =
     (if kind = ClaimantCoordinator then
        (case rd_GetCoordinator rd w name of
           Inl e \<Rightarrow> Inl e | Inr None \<Rightarrow> Inr None | Inr (Some c) \<Rightarrow> Inr (Some (coordinatorClaimant c)))
      else
        (case rd_GetPipeline rd w name of
           Inl e \<Rightarrow> Inl e | Inr None \<Rightarrow> Inr None | Inr (Some p) \<Rightarrow> Inr (Some (pipelineClaimant p))))"

fun resolve_kinds :: "'w Reader \<Rightarrow> 'w \<Rightarrow> string \<Rightarrow> ClaimantKind list \<Rightarrow> Claimant option result" where
  "resolve_kinds rd w name [] = Inr None"
| "resolve_kinds rd w name (k # ks) =
     (case ClaimantByKind rd w k name of
        Inl e \<Rightarrow> Inl e | Inr (Some c) \<Rightarrow> Inr (Some c) | Inr None \<Rightarrow> resolve_kinds rd w name ks)"

definition ResolveClaimant :: "'w Reader \<Rightarrow> 'w \<Rightarrow> string \<Rightarrow> Claimant option result" where
  "ResolveClaimant rd w name = resolve_kinds rd w name [ClaimantPipeline, ClaimantCoordinator]"

section \<open>Ready lists\<close>

text \<open>The sort of the Ready lists, by creation instant and then by name, is stable here; Go's
  need not be, which only matters for two objects of one name.\<close>

definition readyPipelines :: "'w Reader \<Rightarrow> 'w \<Rightarrow> Pipeline list" where
  "readyPipelines rd w =
     (case rd_ListPipelines rd w of
        Inl _ \<Rightarrow> []
      | Inr items \<Rightarrow> sort_key (\<lambda>p. Arrival (pl_CreationTimestamp p) (pl_Name p))
          (filter (\<lambda>p. IsStatusConditionTrue (pl_Conditions p) ''Ready'') items))"

definition readyCoordinators :: "'w Reader \<Rightarrow> 'w \<Rightarrow> Coordinator list" where
  "readyCoordinators rd w =
     (case rd_ListCoordinators rd w of
        Inl _ \<Rightarrow> []
      | Inr items \<Rightarrow> sort_key (\<lambda>c. Arrival (cor_CreationTimestamp c) (cor_Name c))
          (filter (\<lambda>c. IsStatusConditionTrue (cor_Conditions c) ''Ready'') items))"

definition PipelinesForSource :: "'w Reader \<Rightarrow> 'w \<Rightarrow> string \<Rightarrow> Claimant list" where
  "PipelinesForSource rd w source =
     map pipelineClaimant (filter (\<lambda>p. list_ex (\<lambda>r. obj_Name r = source) (pl_SignalSourceRefs p)) (readyPipelines rd w))
     @ map coordinatorClaimant (filter (\<lambda>c. list_ex (\<lambda>r. obj_Name r = source) (cor_SignalSourceRefs c)) (readyCoordinators rd w))"

section \<open>The pipeline of a conversation\<close>

text \<open>The counting map of \<open>sameRefs\<close>, as a function with default 0; the keys it holds are the
  names of either list.\<close>

definition sameRefs :: "ObjectRef list \<Rightarrow> ref list \<Rightarrow> bool" where
  "sameRefs a b =
     (if length a \<noteq> length b then False
      else (let seen = fold (\<lambda>r m. m(obj_Name r := m (obj_Name r) + (1::int))) a (\<lambda>_. 0);
                seen = fold (\<lambda>r m. m(r := m r - 1)) b seen
            in list_all (\<lambda>k. seen k = 0) (map obj_Name a @ b)))"

definition orderedRefsEqual :: "ObjectRef list \<Rightarrow> ref list \<Rightarrow> bool" where
  "orderedRefsEqual a b = (length a = length b \<and> list_all (\<lambda>(x, y). obj_Name x = y) (zip a b))"

definition sameToolsets :: "api_ToolsetBinding option \<Rightarrow> ToolsetBinding option \<Rightarrow> bool" where
  "sameToolsets a b =
     (let (ar, am) = (case a of None \<Rightarrow> ([], []) | Some x \<Rightarrow> (ats_Refs x, ats_Mode x));
          (br, bm) = (case b of None \<Rightarrow> ([], []) | Some x \<Rightarrow> (ts_Refs x, ts_Mode x))
      in if ar = [] \<and> br = [] then True else am = bm \<and> orderedRefsEqual ar br)"

definition sameMCPConfigs :: "api_ToolingBinding option \<Rightarrow> ToolingBinding option \<Rightarrow> bool" where
  "sameMCPConfigs a b =
     orderedRefsEqual (case a of None \<Rightarrow> [] | Some x \<Rightarrow> atl_Refs x) (case b of None \<Rightarrow> [] | Some x \<Rightarrow> tl_Refs x)"

definition wiresLike :: "Pipeline \<Rightarrow> ConversationRecord \<Rightarrow> bool" where
  "wiresLike p conv =
     (let capability = pl_Capability p in
      ProfileName capability = cr_ProfileRef conv \<and> sameRefs (pl_ChannelRefs p) (cr_ChannelRefs conv)
      \<and> sameToolsets (ac_Toolsets capability) (cr_Toolsets conv)
      \<and> sameMCPConfigs (ac_MCPConfigs capability) (cr_MCPConfigs conv))"

fun match_wiring :: "ConversationRecord \<Rightarrow> Pipeline option \<Rightarrow> Pipeline list \<Rightarrow> Pipeline option" where
  "match_wiring conv m [] = m"
| "match_wiring conv m (p # ps) =
     (if \<not> wiresLike p conv then match_wiring conv m ps
      else (case m of Some _ \<Rightarrow> None | None \<Rightarrow> match_wiring conv (Some p) ps))"

definition MatchPipeline :: "Pipeline list \<Rightarrow> ConversationRecord option \<Rightarrow> Pipeline option" where
  "MatchPipeline candidates conv =
     (case conv of
        None \<Rightarrow> None
      | Some c \<Rightarrow>
          if cr_PipelineRef c \<noteq> [] then List.find (\<lambda>p. pl_Name p = cr_PipelineRef c) candidates
          else match_wiring c None candidates)"

definition PipelineForConversation :: "'w Reader \<Rightarrow> 'w \<Rightarrow> ConversationRecord option \<Rightarrow> Pipeline option" where
  "PipelineForConversation rd w conv = MatchPipeline (readyPipelines rd w) conv"

section \<open>Capability and snapshot\<close>

definition ResolveCapability :: "'w Reader \<Rightarrow> 'w \<Rightarrow> Claimant \<Rightarrow> AgentCapabilitySpec result" where
  "ResolveCapability rd w holder =
     (case CapabilityRef holder of
        None \<Rightarrow> Inr (InlineCapability holder)
      | Some r \<Rightarrow> (case rd_GetCapability rd w (obj_Name r) of
          Inl e \<Rightarrow> Inl e
        | Inr None \<Rightarrow> Inl (ErrOther ''not found'')
        | Inr (Some spec) \<Rightarrow> Inr spec))"

definition ToolsetBindingOf :: "api_ToolsetBinding option \<Rightarrow> ToolsetBinding option" where
  "ToolsetBindingOf b = (case b of None \<Rightarrow> None | Some x \<Rightarrow> Some \<lparr>ts_Mode = ats_Mode x, ts_Refs = refNames (ats_Refs x)\<rparr>)"

definition ToolingBindingOf :: "api_ToolingBinding option \<Rightarrow> ToolingBinding option" where
  "ToolingBindingOf b = (case b of None \<Rightarrow> None | Some x \<Rightarrow> Some \<lparr>tl_Refs = refNames (atl_Refs x)\<rparr>)"

record RuntimeDefaults =
  df_ContextPVC :: string
  df_WorkspacePVC :: string

abbreviation VolumeContext :: string where "VolumeContext \<equiv> ''context''"
abbreviation VolumeWorkspace :: string where "VolumeWorkspace \<equiv> ''workspace''"

definition PipelineClaimName :: "string \<Rightarrow> string \<Rightarrow> string" where
  "PipelineClaimName pipeline vol = ''agentops-'' @ pipeline @ ''-'' @ vol"

definition ResolveClaim :: "string \<Rightarrow> string \<Rightarrow> PersistenceBinding option \<Rightarrow> string \<Rightarrow> string" where
  "ResolveClaim pipelineName vol b releaseDefault =
     (case b of
        None \<Rightarrow> releaseDefault
      | Some b \<Rightarrow>
          if pb_ClaimName b \<noteq> [] then pb_ClaimName b
          else if pb_VolumeName b \<noteq> [] \<and> pipelineName \<noteq> [] then PipelineClaimName pipelineName vol
          else releaseDefault)"

definition ResolvePersistence :: "string \<Rightarrow> PipelinePersistence option \<Rightarrow> RuntimeDefaults \<Rightarrow> string \<times> string" where
  "ResolvePersistence pipelineName persistence defaults =
     (let (ctxBinding, wsBinding) = (case persistence of None \<Rightarrow> (None, None)
            | Some p \<Rightarrow> (pp_Context p, pp_Workspace p))
      in (ResolveClaim pipelineName VolumeContext ctxBinding (df_ContextPVC defaults),
          ResolveClaim pipelineName VolumeWorkspace wsBinding (df_WorkspacePVC defaults)))"

record Snapshot =
  sn_RuntimeRef :: ref
  sn_ServiceAccountName :: string
  sn_ContextClaimName :: string
  sn_WorkspaceClaimName :: string

definition SnapshotFor :: "'w Reader \<Rightarrow> 'w \<Rightarrow> string \<Rightarrow> AgentCapabilitySpec \<Rightarrow> RuntimeDefaults \<Rightarrow> Snapshot" where
  "SnapshotFor rd w pipelineName capability defaults =
     (let (ctxClaim, wsClaim) = ResolvePersistence pipelineName (ac_Persistence capability) defaults;
          snap = \<lparr>sn_RuntimeRef = [], sn_ServiceAccountName = ac_ServiceAccountName capability,
                  sn_ContextClaimName = ctxClaim, sn_WorkspaceClaimName = wsClaim\<rparr>;
          by_default = (if rd_RuntimeExists rd w ''default'' = Inr True
                        then snap\<lparr>sn_RuntimeRef := ''default''\<rparr> else snap);
          by_profile = (if ProfileName capability = [] then by_default
            else (case rd_ProfileRuntime rd w (ProfileName capability) of
                Inr (Some (Some p)) \<Rightarrow> if obj_Name p \<noteq> [] then snap\<lparr>sn_RuntimeRef := obj_Name p\<rparr> else by_default
              | _ \<Rightarrow> by_default))
      in case ac_RuntimeRef capability of
           Some r \<Rightarrow> if obj_Name r \<noteq> [] then snap\<lparr>sn_RuntimeRef := obj_Name r\<rparr> else by_profile
         | None \<Rightarrow> by_profile)"

section \<open>Lemmas\<close>

lemma count_up: "fold (\<lambda>r m. m(obj_Name r := m (obj_Name r) + (1::int))) a m0 k
    = m0 k + int (count (mset (map obj_Name a)) k)"
  by (induction a arbitrary: m0) auto

lemma count_down: "fold (\<lambda>r m. m(r := m r - 1)) b m0 k = m0 k - int (count (mset b) k)"
  by (induction b arbitrary: m0) auto

lemma orderedRefsEqual_iff: "orderedRefsEqual a b \<longleftrightarrow> map obj_Name a = b"
  by (auto simp: orderedRefsEqual_def list_eq_iff_nth_eq list_all_length)

lemma match_wiring_Some:
  "match_wiring conv (Some q) ps = (if \<exists>p \<in> set ps. wiresLike p conv then None else Some q)"
  by (induction ps) auto

lemma match_wiring_None:
  "match_wiring conv None ps = (case filter (\<lambda>p. wiresLike p conv) ps of [p] \<Rightarrow> Some p | _ \<Rightarrow> None)"
proof (induction ps)
  case (Cons p ps)
  show ?case
  proof (cases "wiresLike p conv")
    case True
    have "(\<exists>q \<in> set ps. wiresLike q conv) \<longleftrightarrow> filter (\<lambda>p. wiresLike p conv) ps \<noteq> []"
      by (auto simp: filter_empty_conv)
    with True show ?thesis by (auto simp: match_wiring_Some split: list.splits)
  qed (use Cons in simp)
qed simp

section \<open>Properties\<close>

text \<open>
  Channel bindings are compared as bags: \<open>sameRefs\<close> holds exactly when the two lists hold
  the same names with the same multiplicities, in any order.
\<close>

theorem sameRefs_is_bag_equality: "sameRefs a b \<longleftrightarrow> mset (map obj_Name a) = mset b"
proof
  assume "sameRefs a b"
  then have "count (mset (map obj_Name a)) k = count (mset b) k" if "k \<in> set (map obj_Name a @ b)" for k
    using that by (auto simp: sameRefs_def Let_def count_up count_down list_all_iff split: if_splits)
  then show "mset (map obj_Name a) = mset b"
    by (intro multiset_eqI) (metis Un_iff count_eq_zero_iff set_append set_mset_mset)
next
  assume h: "mset (map obj_Name a) = mset b"
  then have "length a = length b" by (metis length_map size_mset)
  with h show "sameRefs a b"
    by (simp add: sameRefs_def Let_def count_up count_down list_all_iff)
qed

text \<open>
  A conversation's pipeline is never guessed: the one its record names if it is Ready,
  and for a record that names none the only Ready pipeline wired like it; two that wire
  alike, or none, give no pipeline.
\<close>

theorem MatchPipeline_is_unambiguous:
  "MatchPipeline candidates (Some conv) = Some p \<longleftrightarrow>
    (if cr_PipelineRef conv \<noteq> [] then List.find (\<lambda>q. pl_Name q = cr_PipelineRef conv) candidates = Some p
     else filter (\<lambda>q. wiresLike q conv) candidates = [p])"
  by (auto simp: MatchPipeline_def match_wiring_None split: list.splits)

end
