(* ===== verification/Cooldown.thy ===== *)
theory Cooldown
  imports StateSignal "HOL-Library.AList"
begin

text \<open>
  Signal suppression, \<open>internal/ingest/grouping.go\<close>, \<open>book.go\<close> and \<open>filter.go\<close>. The map of
  seen ids is an association list with distinct keys: its order stands for Go's unspecified
  iteration order, so what holds of every list holds of every iteration. Methods run under
  the value's mutex, so each is one step; the clock is an argument. The label selector of the
  attribute filter is Kubernetes library code and a parameter.
\<close>

section \<open>One source's cooldown\<close>

record Entry =
  en_InitiationID :: string
  en_At :: go_time

record Cooldown =
  cd_seen :: "(string \<times> go_time) list"
  cd_ttl :: duration

definition MaxCooldownEntries :: nat where
  "MaxCooldownEntries = 200"

definition NewCooldown :: "duration \<Rightarrow> Cooldown" where
  "NewCooldown ttl = \<lparr>cd_seen = [], cd_ttl = ttl\<rparr>"

definition NewCooldownFrom :: "duration \<Rightarrow> Entry list \<Rightarrow> Cooldown" where
  "NewCooldownFrom ttl entries =
     (NewCooldown ttl)\<lparr>cd_seen := fold (\<lambda>e m. AList.update (en_InitiationID e) (en_At e) m) entries []\<rparr>"

text \<open>The live part of the window, newest first, bounded.\<close>

definition Entries :: "Cooldown \<Rightarrow> go_time \<Rightarrow> Entry list" where
  "Entries c now =
     (if cd_ttl c \<le> 0 then []
      else take MaxCooldownEntries
        (sort_key (\<lambda>e. - en_At e)
          (map (\<lambda>(i, at). \<lparr>en_InitiationID = i, en_At = at\<rparr>)
            (filter (\<lambda>(_, at). \<not> cd_ttl c \<le> time_sub now at) (cd_seen c)))))"

fun fresh_loop :: "duration \<Rightarrow> go_time \<Rightarrow> string list \<Rightarrow> (string \<times> go_time) list \<times> string list
    \<Rightarrow> (string \<times> go_time) list \<times> string list" where
  "fresh_loop ttl now [] st = st"
| "fresh_loop ttl now (i # ids) (seen, out) =
     fresh_loop ttl now ids
       (case map_of seen i of
          Some prev \<Rightarrow> if time_sub now prev < ttl then (seen, out)
                      else (AList.update i now seen, out @ [i])
        | None \<Rightarrow> (AList.update i now seen, out @ [i]))"

definition week :: duration where
  "week = 7 * 24 * hour"

definition Fresh :: "Cooldown \<Rightarrow> go_time \<Rightarrow> string list \<Rightarrow> Cooldown \<times> string list" where
  "Fresh c now ids =
     (case fresh_loop (cd_ttl c) now ids (cd_seen c, []) of
        (seen, out) \<Rightarrow> (c\<lparr>cd_seen := filter (\<lambda>(_, ts). \<not> week < time_sub now ts) seen\<rparr>, out))"

definition Cooldown_Stats :: "Cooldown \<Rightarrow> go_time \<Rightarrow> nat \<times> duration" where
  "Cooldown_Stats c now = (length (filter (\<lambda>(_, ts). time_sub now ts < cd_ttl c) (cd_seen c)), cd_ttl c)"

definition Release :: "Cooldown \<Rightarrow> string \<Rightarrow> Cooldown" where
  "Release c i = c\<lparr>cd_seen := AList.delete i (cd_seen c)\<rparr>"

section \<open>The book of cooldowns\<close>

text \<open>
  \<open>For\<close> looks up, builds outside the lock, and stores unless another caller stored first: its
  two locked sections are two steps, between which others may run. A pointer is an \<open>'a\<close>.
\<close>

definition For_lookup :: "(string \<rightharpoonup> 'a) \<Rightarrow> string \<Rightarrow> 'a option" where
  "For_lookup book source = book source"

definition For_store :: "(string \<rightharpoonup> 'a) \<Rightarrow> string \<Rightarrow> 'a option \<Rightarrow> (string \<rightharpoonup> 'a) \<times> 'a option" where
  "For_store book source built =
     (case built of
        None \<Rightarrow> (book, None)
      | Some b \<Rightarrow> (case book source of Some existing \<Rightarrow> (book, Some existing)
                 | None \<Rightarrow> (book(source \<mapsto> b), Some b)))"

record Stat =
  stat_Source :: string
  stat_Suppressed :: nat
  stat_Window :: duration

definition Book_Stats :: "(string \<times> Cooldown) list \<Rightarrow> go_time \<Rightarrow> Stat list" where
  "Book_Stats byName now = sort_key stat_Source
     (map (\<lambda>(name, cd). let (n, window) = Cooldown_Stats cd now in
        \<lparr>stat_Source = name, stat_Suppressed = n, stat_Window = window\<rparr>) byName)"

section \<open>Attribute filter\<close>

record FilterRequirement =
  fr_Key :: string
  fr_Operator :: string
  fr_Values :: "string list"

text \<open>\<open>asSelector\<close> compiles the requirements to a matcher or refuses them.\<close>

record Filter =
  fl_selector :: "labels \<Rightarrow> bool"
  fl_malformed :: bool

definition Compile :: "(FilterRequirement list \<Rightarrow> (labels \<Rightarrow> bool) option) \<Rightarrow> FilterRequirement list \<Rightarrow> Filter" where
  "Compile asSelector reqs =
     (if reqs = [] then \<lparr>fl_selector = (\<lambda>_. True), fl_malformed = False\<rparr>
      else (case asSelector reqs of
         None \<Rightarrow> \<lparr>fl_selector = (\<lambda>_. False), fl_malformed = True\<rparr>
       | Some s \<Rightarrow> \<lparr>fl_selector = s, fl_malformed = False\<rparr>))"

definition Filter_Admits :: "Filter \<Rightarrow> labels \<Rightarrow> bool" where
  "Filter_Admits f attrs = (if fl_malformed f then False else fl_selector f attrs)"

definition Admits :: "(FilterRequirement list \<Rightarrow> (labels \<Rightarrow> bool) option) \<Rightarrow> FilterRequirement list \<Rightarrow> labels \<Rightarrow> bool" where
  "Admits asSelector reqs attrs = Filter_Admits (Compile asSelector reqs) attrs"

section \<open>Lemmas\<close>

text \<open>What the map says about one id: it is inside its window.\<close>

definition held :: "duration \<Rightarrow> (string \<rightharpoonup> go_time) \<Rightarrow> go_time \<Rightarrow> string \<Rightarrow> bool" where
  "held ttl seen now i = (case seen i of None \<Rightarrow> False | Some prev \<Rightarrow> time_sub now prev < ttl)"

lemma fresh_loop_spec:
  "snd (fresh_loop ttl now ids (seen, out)) = out @ snd (fresh_loop ttl now ids (seen, []))"
proof (induction ids arbitrary: seen out)
  case (Cons i ids)
  have app: "snd (fresh_loop ttl now ids (s, out @ [i])) = out @ snd (fresh_loop ttl now ids (s, [i]))" for s
    using Cons.IH [of s "out @ [i]"] Cons.IH [of s "[i]"] by simp
  show ?case
    using Cons.IH [of seen out] app by (auto split: option.splits)
qed simp

lemma fresh_loop_map:
  "map_of (fst (fresh_loop ttl now ids (seen, out))) i =
     (if i \<in> set ids \<and> \<not> held ttl (map_of seen) now i then Some now else map_of seen i)"
proof (induction ids arbitrary: seen out)
  case (Cons j ids)
  show ?case
  proof (cases "held ttl (map_of seen) now j")
    case True
    then have "fresh_loop ttl now (j # ids) (seen, out) = fresh_loop ttl now ids (seen, out)"
      by (auto simp: held_def split: option.splits)
    with Cons.IH [of seen out] True show ?thesis by auto
  next
    case False
    then have "fresh_loop ttl now (j # ids) (seen, out)
        = fresh_loop ttl now ids (AList.update j now seen, out @ [j])"
      by (auto simp: held_def split: option.splits)
    with Cons.IH [of "AList.update j now seen" "out @ [j]"] False show ?thesis
      by (auto simp: held_def update_conv')
  qed
qed simp

lemma fresh_loop_out:
  assumes "0 < ttl"
  shows "set (snd (fresh_loop ttl now ids (seen, []))) = {i \<in> set ids. \<not> held ttl (map_of seen) now i}
    \<and> distinct (snd (fresh_loop ttl now ids (seen, [])))"
proof (induction ids arbitrary: seen)
  case (Cons j ids)
  show ?case
  proof (cases "held ttl (map_of seen) now j")
    case True
    then have "fresh_loop ttl now (j # ids) (seen, []) = fresh_loop ttl now ids (seen, [])"
      by (auto simp: held_def split: option.splits)
    with Cons.IH [of seen] True show ?thesis by auto
  next
    case False
    let ?s = "AList.update j now seen"
    from False have eq: "snd (fresh_loop ttl now (j # ids) (seen, [])) = j # snd (fresh_loop ttl now ids (?s, []))"
      using fresh_loop_spec [of ttl now ids ?s "[j]"] by (auto simp: held_def split: option.splits)
    have h: "held ttl (map_of ?s) now i \<longleftrightarrow> i = j \<or> held ttl (map_of seen) now i" for i
      using assms by (auto simp: held_def update_conv' time_sub_def)
    show ?thesis unfolding eq using Cons.IH [of ?s] False by (auto simp: h)
  qed
qed simp

lemma fresh_loop_step:
  "held ttl (map_of s) now j \<Longrightarrow> fresh_loop ttl now (j # ids) (s, out) = fresh_loop ttl now ids (s, out)"
  "\<not> held ttl (map_of s) now j \<Longrightarrow>
     snd (fresh_loop ttl now (j # ids) (s, [])) = j # snd (fresh_loop ttl now ids (AList.update j now s, []))"
  using fresh_loop_spec [of ttl now ids "AList.update j now s" "[j]"]
  by (auto simp: held_def split: option.splits)

lemma fresh_loop_cong:
  assumes "\<And>i. i \<in> set ids \<Longrightarrow> held ttl (map_of s1) now i = held ttl (map_of s2) now i"
  shows "snd (fresh_loop ttl now ids (s1, [])) = snd (fresh_loop ttl now ids (s2, []))"
  using assms
proof (induction ids arbitrary: s1 s2)
  case (Cons j ids)
  show ?case
  proof (cases "held ttl (map_of s1) now j")
    case True
    moreover from True Cons.prems have "held ttl (map_of s2) now j" by simp
    ultimately show ?thesis
      using Cons.IH [of s1 s2] Cons.prems by (simp only: fresh_loop_step(1) list.set_intros(2))
  next
    case False
    with Cons.prems have f2: "\<not> held ttl (map_of s2) now j" by simp
    have h: "held ttl (map_of (AList.update j now s)) now i = (if i = j then time_sub now now < ttl else held ttl (map_of s) now i)" for s i
      by (auto simp: held_def update_conv')
    show ?thesis
      unfolding fresh_loop_step(2) [OF False] fresh_loop_step(2) [OF f2]
      using Cons.IH [of "AList.update j now s1" "AList.update j now s2"] Cons.prems by (simp add: h)
  qed
qed simp

lemma map_of_fold_update:
  "distinct (map en_InitiationID es) \<Longrightarrow>
   map_of (fold (\<lambda>e m. AList.update (en_InitiationID e) (en_At e) m) es m0) i =
     (case List.find (\<lambda>e. en_InitiationID e = i) es of Some e \<Rightarrow> Some (en_At e) | None \<Rightarrow> map_of m0 i)"
proof (induction es arbitrary: m0)
  case (Cons e es)
  from Cons.prems have d: "distinct (map en_InitiationID es)" "en_InitiationID e \<notin> en_InitiationID ` set es" by auto
  have "List.find (\<lambda>x. en_InitiationID x = en_InitiationID e) es = None"
    unfolding find_None_iff
  proof
    assume "\<exists>x. x \<in> set es \<and> en_InitiationID x = en_InitiationID e"
    then obtain x where "x \<in> set es" "en_InitiationID e = en_InitiationID x" by metis
    with d(2) show False by simp
  qed
  with Cons.IH [OF d(1)] show ?case by (auto simp: update_conv' split: option.splits)
qed simp

lemma distinct_map_sort: "distinct (map f (sort_key k xs)) = distinct (map f xs)"
  by (rule mset_eq_imp_distinct_iff) simp

lemma Entries_live:
  assumes "distinct (map fst (cd_seen c))" "0 < cd_ttl c"
    and "length (filter (\<lambda>(_, at). time_sub now at < cd_ttl c) (cd_seen c)) \<le> MaxCooldownEntries"
  shows "distinct (map en_InitiationID (Entries c now))"
    and "(\<exists>e \<in> set (Entries c now). en_InitiationID e = i \<and> en_At e = at)
      \<longleftrightarrow> map_of (cd_seen c) i = Some at \<and> time_sub now at < cd_ttl c"
proof -
  let ?live = "filter (\<lambda>(_, at). \<not> cd_ttl c \<le> time_sub now at) (cd_seen c)"
  let ?mk = "\<lambda>(i, at). \<lparr>en_InitiationID = i, en_At = at\<rparr>"
  have live: "?live = filter (\<lambda>(_, at). time_sub now at < cd_ttl c) (cd_seen c)"
    by (rule filter_cong) auto
  have len: "length (sort_key (\<lambda>e. - en_At e) (map ?mk ?live)) \<le> MaxCooldownEntries"
    using assms(3) unfolding live by simp
  then have eq: "Entries c now = sort_key (\<lambda>e. - en_At e) (map ?mk ?live)"
    using assms(2) unfolding Entries_def by simp
  have keys: "map en_InitiationID (map ?mk ?live) = map fst ?live"
    by (rule nth_equalityI) (auto simp: split_beta)
  have "distinct (map fst ?live)" using assms(1) by (simp add: distinct_map_filter)
  then have "distinct (map en_InitiationID (map ?mk ?live))" unfolding keys .
  then show "distinct (map en_InitiationID (Entries c now))"
    unfolding eq distinct_map_sort .
  have "(\<exists>e \<in> set (Entries c now). en_InitiationID e = i \<and> en_At e = at) \<longleftrightarrow> (i, at) \<in> set ?live"
    unfolding eq by (force simp: image_iff)
  also have "\<dots> \<longleftrightarrow> map_of (cd_seen c) i = Some at \<and> time_sub now at < cd_ttl c"
    using assms(1) by auto
  finally show "(\<exists>e \<in> set (Entries c now). en_InitiationID e = i \<and> en_At e = at)
      \<longleftrightarrow> map_of (cd_seen c) i = Some at \<and> time_sub now at < cd_ttl c" .
qed

section \<open>Properties\<close>

text \<open>
  A cooldown admits an id exactly once per window: \<open>Fresh\<close> returns, without repeats,
  exactly the ids that are not inside their window, each of them is then inside its window
  until \<open>ttl\<close> has passed, and \<open>Release\<close> makes the id fresh again and no other.
\<close>

theorem Fresh_admits_once_per_window:
  assumes "0 < cd_ttl c" "cd_ttl c \<le> week"
  shows "let c' = fst (Fresh c now ids); out = snd (Fresh c now ids) in
    set out = {i \<in> set ids. \<not> held (cd_ttl c) (map_of (cd_seen c)) now i} \<and> distinct out
    \<and> (\<forall>i \<in> set out. \<forall>now' \<ge> now. now' - now < cd_ttl c \<longrightarrow> i \<notin> set (snd (Fresh c' now' ids')))
    \<and> snd (Fresh (Release c i) now [i]) = [i]
    \<and> (i \<in> set ids \<or> snd (Fresh (Release c i) now ids) = out)"
proof -
  let ?ttl = "cd_ttl c"
  obtain seen out where f: "fresh_loop ?ttl now ids (cd_seen c, []) = (seen, out)" by fastforce
  have out: "set out = {i \<in> set ids. \<not> held ?ttl (map_of (cd_seen c)) now i}" "distinct out"
    using fresh_loop_out [OF assms(1), of now ids "cd_seen c"] f by auto
  let ?seen' = "filter (\<lambda>(_, ts). \<not> week < time_sub now ts) seen"
  have snd_Fresh: "snd (Fresh d t js) = snd (fresh_loop (cd_ttl d) t js (cd_seen d, []))" for d t js
    by (simp add: Fresh_def split: prod.splits)
  have stay: "held ?ttl (map_of ?seen') now' j" if j: "j \<in> set out" and t: "now \<le> now'" "now' - now < ?ttl" for j now'
  proof -
    have "map_of seen j = Some now"
      using fresh_loop_map [of ?ttl now ids "cd_seen c" "[]" j] f j out by auto
    then have "map_of ?seen' j = Some now"
    proof (induction seen)
      case (Cons p ps)
      then show ?case by (cases p) (auto simp: week_def hour_def split: if_splits)
    qed simp
    moreover have "time_sub now' now < ?ttl" using t assms(2)
      by (auto simp: time_sub_def max_duration_def min_duration_def week_def hour_def)
    ultimately show ?thesis by (simp add: held_def)
  qed
  have again: "j \<notin> set (snd (Fresh (fst (Fresh c now ids)) now' ids'))"
    if "j \<in> set out" "now \<le> now'" "now' - now < ?ttl" for j now'
    using stay [OF that] fresh_loop_out [OF assms(1), of now' ids' ?seen']
    unfolding snd_Fresh by (simp add: Fresh_def f)
  have "snd (Fresh (Release c i) now [i]) = [i]"
    by (simp add: snd_Fresh Release_def delete_conv')
  moreover have "snd (Fresh (Release c i) now ids) = snd (Fresh c now ids)" if "i \<notin> set ids"
  proof -
    have "held ?ttl (map_of (AList.delete i (cd_seen c))) now j = held ?ttl (map_of (cd_seen c)) now j"
      if "j \<in> set ids" for j
      using \<open>i \<notin> set ids\<close> that by (auto simp: held_def delete_conv')
    from fresh_loop_cong [OF this] show ?thesis by (simp add: snd_Fresh Release_def)
  qed
  moreover have "snd (Fresh c now ids) = out" by (simp add: snd_Fresh f)
  ultimately show ?thesis using out again unfolding Let_def by auto
qed

theorem Fresh_admits_once_per_window_witness:
  "let c = NewCooldown (6 * 3600 * 1000000000) in
    set (snd (Fresh c 5 [''a'', ''b'', ''a''])) = {''a'', ''b''}
    \<and> ''a'' \<notin> set (snd (Fresh (fst (Fresh c 5 [''a'', ''b'', ''a''])) 6 [''a'', ''c'']))"
proof -
  let ?c = "NewCooldown (6 * 3600 * 1000000000)"
  have "0 < cd_ttl ?c" "cd_ttl ?c \<le> week" by (simp_all add: NewCooldown_def week_def hour_def)
  note P = Fresh_admits_once_per_window [OF this, of 5 "[''a'', ''b'', ''a'']" "[''a'', ''c'']", unfolded Let_def]
  have "set (snd (Fresh ?c 5 [''a'', ''b'', ''a''])) = {''a'', ''b''}"
    using P by (auto simp: held_def NewCooldown_def)
  moreover have "cd_ttl ?c = 6 * 3600 * 1000000000" by (simp add: NewCooldown_def)
  ultimately show ?thesis using P unfolding Let_def by force
qed

text \<open>
  A restart forgets no suppression: a cooldown rebuilt from the entries recorded at some
  instant answers every later question as the original does, as long as the recorded window
  was not over its bound.
\<close>

theorem recovered_cooldown_is_equivalent:
  assumes "distinct (map fst (cd_seen c))" and "0 < cd_ttl c" and "now \<le> now'"
    and "length (filter (\<lambda>(_, at). time_sub now at < cd_ttl c) (cd_seen c)) \<le> MaxCooldownEntries"
  shows "snd (Fresh (NewCooldownFrom (cd_ttl c) (Entries c now)) now' ids) = snd (Fresh c now' ids)"
proof -
  let ?m = "fold (\<lambda>e m. AList.update (en_InitiationID e) (en_At e) m) (Entries c now) []"
  note E = Entries_live [OF assms(1,2,4)]
  have "held (cd_ttl c) (map_of ?m) now' i = held (cd_ttl c) (map_of (cd_seen c)) now' i" for i
  proof (cases "List.find (\<lambda>e. en_InitiationID e = i) (Entries c now)")
    case None
    then have "\<not> (\<exists>e \<in> set (Entries c now). en_InitiationID e = i \<and> en_At e = at)" for at
      by (auto simp: find_None_iff)
    then have "\<not> (map_of (cd_seen c) i = Some at \<and> time_sub now at < cd_ttl c)" for at
      using E(2) [of i at] by blast
    moreover have "time_sub now at \<le> time_sub now' at" for at by (rule time_sub_mono [OF assms(3)])
    ultimately have "\<not> held (cd_ttl c) (map_of (cd_seen c)) now' i"
      by (auto simp: held_def split: option.splits) (meson le_less_trans)
    moreover have "map_of ?m i = None"
      using map_of_fold_update [OF E(1), of "[]" i] None by simp
    ultimately show ?thesis by (simp add: held_def)
  next
    case (Some e)
    then have e: "e \<in> set (Entries c now)" "en_InitiationID e = i" by (auto dest: find_Some_iff')
    then have "map_of (cd_seen c) i = Some (en_At e)" using E(2) [of i "en_At e"] by blast
    moreover have "map_of ?m i = Some (en_At e)"
      using map_of_fold_update [OF E(1), of "[]" i] Some by simp
    ultimately show ?thesis by (simp add: held_def)
  qed
  then have "snd (fresh_loop (cd_ttl c) now' ids (?m, [])) = snd (fresh_loop (cd_ttl c) now' ids (cd_seen c, []))"
    by (rule fresh_loop_cong)
  then show ?thesis
    by (simp add: Fresh_def NewCooldownFrom_def NewCooldown_def split_def)
qed

theorem recovered_cooldown_is_equivalent_witness:
  "let c = \<lparr>cd_seen = [(''a'', 5), (''b'', 7)], cd_ttl = 10\<rparr> in
    snd (Fresh (NewCooldownFrom 10 (Entries c 16)) 16 [''a'', ''b'', ''c'']) = [''a'', ''c'']"
proof -
  let ?c = "\<lparr>cd_seen = [(''a'', 5), (''b'', 7)], cd_ttl = 10\<rparr> :: Cooldown"
  have "snd (Fresh (NewCooldownFrom (cd_ttl ?c) (Entries ?c 16)) 16 [''a'', ''b'', ''c''])
      = snd (Fresh ?c 16 [''a'', ''b'', ''c''])"
    by (rule recovered_cooldown_is_equivalent) (simp_all add: MaxCooldownEntries_def)
  also have "\<dots> = [''a'', ''c'']" by (simp add: Fresh_def time_sub_def max_duration_def min_duration_def)
  finally show ?thesis by simp
qed

lemma fresh_loop_distinct:
  "distinct (map fst seen) \<Longrightarrow> distinct (map fst (fst (fresh_loop ttl now ids (seen, out))))"
  by (induction ids arbitrary: seen out) (auto simp: distinct_update split: option.splits)

text \<open>
  The weekly pruning ends windows longer than a week. An id inside its window, however long, is forgotten
  by the first call that looks at other ids once the id is more than a week old: asked again, still inside the
  window the source configures, it is admitted. \<open>cooldownHours\<close> has no maximum, so any value over 168 is
  cut to a week.
\<close>

theorem week_prune_cuts_longer_windows:
  assumes "distinct (map fst (cd_seen c))" "map_of (cd_seen c) i = Some at" "i \<notin> set others"
    and "week < time_sub now at" "time_sub now at \<le> time_sub later at" "time_sub later at < cd_ttl c"
  shows "held (cd_ttl c) (map_of (cd_seen c)) later i
    \<and> snd (Fresh (fst (Fresh c now others)) later [i]) = [i]"
proof -
  obtain seen out where f: "fresh_loop (cd_ttl c) now others (cd_seen c, []) = (seen, out)" by fastforce
  have d: "distinct (map fst seen)" using fresh_loop_distinct [OF assms(1), of "cd_ttl c" now others "[]"] f by simp
  have "map_of seen i = Some at"
    using fresh_loop_map [of "cd_ttl c" now others "cd_seen c" "[]" i] f assms(2,3) by simp
  then have "(i, t) \<in> set seen \<Longrightarrow> t = at" for t using d by simp
  then have "(i, t) \<notin> set (filter (\<lambda>(_, ts). \<not> week < time_sub now ts) seen)" for t
    using assms(4) by auto
  then have "map_of (filter (\<lambda>(_, ts). \<not> week < time_sub now ts) seen) i = None"
    by (metis map_of_SomeD not_None_eq)
  then show ?thesis using assms(2,6) by (simp add: Fresh_def f held_def)
qed

theorem week_prune_cuts_longer_windows_witness:
  "let c = \<lparr>cd_seen = [(''a'', 0)], cd_ttl = 2 * week\<rparr> in
    snd (Fresh (fst (Fresh c (week + 1) [''b''])) (week + 2) [''a'']) = [''a'']"
  using week_prune_cuts_longer_windows [of "\<lparr>cd_seen = [(''a'', 0)], cd_ttl = 2 * week\<rparr>" "''a''" 0 "[''b'']" "week + 1" "week + 2"]
  by (simp add: time_sub_def max_duration_def min_duration_def week_def hour_def)

end
