(* ===== verification/Naming.thy ===== *)
theory Naming
  imports StateStore
begin

text \<open>
  Names and addresses: the word chain of a conversation's name and its allocation
  (\<open>internal/namewords\<close>), and the chat command that addresses a pipeline
  (\<open>internal/addressing\<close>). The regular expressions are written out as scans over bytes: a
  byte above 127 belongs to no class they name, so runes and bytes agree.
\<close>

section \<open>Words\<close>

definition is_alnum :: "char \<Rightarrow> bool" where
  "is_alnum c \<longleftrightarrow> is_lower c \<or> is_upper c \<or> is_digit c"

definition stopwords :: "string list" where
  "stopwords = [''a'', ''an'', ''the'', ''of'', ''on'', ''in'', ''to'', ''and'', ''is'', ''do'', ''please'']"

definition MaxWordChainLength :: nat where
  "MaxWordChainLength = 24"

text \<open>\<open>camelBoundary.ReplaceAllString(text, "$1 $2")\<close>.\<close>

fun camel_spaced :: "string \<Rightarrow> string" where
  "camel_spaced (c # d # s) =
     (if (is_lower c \<or> is_digit c) \<and> is_upper d then c # CHR '' '' # camel_spaced (d # s)
      else c # camel_spaced (d # s))"
| "camel_spaced s = s"

text \<open>\<open>nonWord.Split\<close>: the maximal runs of letters and digits, empty pieces included.\<close>

function word_split :: "string \<Rightarrow> string \<Rightarrow> string list" where
  "word_split [] cur = [rev cur]"
| "word_split (c # s) cur =
     (if is_alnum c then word_split s (c # cur) else rev cur # word_split (dropWhile (\<lambda>c. \<not> is_alnum c) s) [])"
  by pat_completeness auto
termination
  by (relation "measure (\<lambda>(s, _). length s)")
    (auto simp: le_less_trans [OF length_dropWhile_le])

fun pick_words :: "string list \<Rightarrow> string list \<Rightarrow> string list" where
  "pick_words [] ws = ws"
| "pick_words (token # rest) ws =
     (if token = [] then pick_words rest ws
      else (let w = map ascii_lower token in
        if w \<in> set stopwords then pick_words rest ws
        else if length (ws @ [w]) = 3 then ws @ [w]
        else pick_words rest (ws @ [w])))"

fun fit_chain :: "nat \<Rightarrow> string list \<Rightarrow> string" where
  "fit_chain 0 ws = []"
| "fit_chain (Suc n) ws =
     (if ws = [] then []
      else if length (join ''-'' ws) \<le> MaxWordChainLength then join ''-'' ws
      else fit_chain n (butlast ws))"

definition Words :: "string \<Rightarrow> string" where
  "Words txt = (let ws = pick_words (word_split (camel_spaced txt) []) [] in fit_chain (Suc (length ws)) ws)"

section \<open>Allocation\<close>

definition MaxAllocateAttempts :: nat where
  "MaxAllocateAttempts = 20"

text \<open>A Go \<open>int\<close> is 64 bits wide: one more than the largest is the smallest.\<close>

definition inc64 :: "int \<Rightarrow> int" where
  "inc64 n = (if n = max_duration then min_duration else n + 1)"

text \<open>One turn of the loop over the listed records, and the loop.\<close>

definition bump_highest :: "string \<Rightarrow> ConversationRecord \<Rightarrow> int \<Rightarrow> int" where
  "bump_highest base it highest =
     (if cr_Name it = base then (if highest < 1 then 1 else highest)
      else (let suffix = trim_prefix (cr_Name it) (base @ ''-'') in
        if suffix = cr_Name it then highest
        else (case atoi suffix of
           None \<Rightarrow> highest
         | Some n \<Rightarrow> if n < 1 then highest else if n > highest then n else highest)))"

definition highest_suffix :: "string \<Rightarrow> ConversationRecord list \<Rightarrow> int" where
  "highest_suffix base items = fold (bump_highest base) items 0"

definition nextSuffix :: "string \<Rightarrow> ConversationRecord list \<Rightarrow> int" where
  "nextSuffix base items = inc64 (highest_suffix base items)"

definition nameForSuffix :: "string \<Rightarrow> int \<Rightarrow> string" where
  "nameForSuffix base suffix = (if suffix \<le> 1 then base else base @ ''-'' @ itoa suffix)"

text \<open>\<open>sleep w attempt\<close> is the wait between attempts: it may end the context instead.\<close>

fun Allocate_loop :: "'w Store \<Rightarrow> ('w \<Rightarrow> nat \<Rightarrow> 'w \<times> err option) \<Rightarrow> string \<Rightarrow> nat \<Rightarrow> err option
    \<Rightarrow> ConversationRecord \<Rightarrow> 'w \<Rightarrow> 'w \<times> ConversationRecord \<times> string result" where
  "Allocate_loop s sleep base 0 lastErr rec w =
     (w, rec, Inl (case lastErr of Some e \<Rightarrow> Wrapped ''name-base: exhausted attempts'' e
                   | None \<Rightarrow> ErrOther ''name-base: exhausted attempts''))"
| "Allocate_loop s sleep base (Suc n) lastErr rec w =
     (case (if Suc n < MaxAllocateAttempts then sleep w (MaxAllocateAttempts - Suc n) else (w, None)) of
        (w, Some e) \<Rightarrow> (w, rec, Inl e)
      | (w, None) \<Rightarrow>
        (case st_List s w ByNameBase (no_key\<lparr>lk_NameBase := base\<rparr>) of
           (w, Inl e) \<Rightarrow> (w, rec, Inl (Wrapped ''name-base: list'' e))
         | (w, Inr items) \<Rightarrow>
            (let name = nameForSuffix base (nextSuffix base items);
                 rec = rec\<lparr>cr_Name := name, cr_NameBase := base\<rparr> in
             case st_Create s w name rec of
               (w, Inr _) \<Rightarrow> (w, rec, Inr name)
             | (w, Inl e) \<Rightarrow>
                 if \<not> errors_Is e ErrAlreadyExists then (w, rec, Inl e)
                 else Allocate_loop s sleep base n (Some e) rec w)))"

definition AllocateName :: "'w Store \<Rightarrow> ('w \<Rightarrow> nat \<Rightarrow> 'w \<times> err option) \<Rightarrow> string \<Rightarrow> string
    \<Rightarrow> ConversationRecord \<Rightarrow> 'w \<Rightarrow> 'w \<times> ConversationRecord \<times> string result" where
  "AllocateName s sleep kind ws rec w =
     Allocate_loop s sleep (kind @ ''-'' @ ws) MaxAllocateAttempts None rec w"

section \<open>Addressing\<close>

record Command =
  cmd_Pipeline :: string
  cmd_Rest :: string

definition is_word :: "char \<Rightarrow> bool" where
  "is_word c \<longleftrightarrow> is_alnum c \<or> c = CHR ''_'' \<or> c = CHR ''-''"

definition is_re_space :: "char \<Rightarrow> bool" where
  "is_re_space c \<longleftrightarrow> code c \<in> {9, 10, 12, 13, 32}"

definition is_trimmed :: "char \<Rightarrow> bool" where
  "is_trimmed c \<longleftrightarrow> code c \<in> {32, 10, 9}"

definition trimSpace :: "string \<Rightarrow> string" where
  "trimSpace s = rev (dropWhile is_trimmed (rev (dropWhile is_trimmed s)))"

definition Parse :: "string \<Rightarrow> Command option" where
  "Parse txt =
     (case txt of
        [] \<Rightarrow> None
      | c # s \<Rightarrow>
          if c \<noteq> CHR ''/'' then None
          else (let name = takeWhile is_word s; after = dropWhile is_word s;
                    mention = (case after of [] \<Rightarrow> []
                      | d # r \<Rightarrow> if d = CHR ''@'' then takeWhile (\<lambda>c. \<not> is_re_space c) r else []);
                    after = (if mention \<noteq> [] then drop (Suc (length mention)) after else after)
            in if name = [] then None
               else Some \<lparr>cmd_Pipeline = name, cmd_Rest = trimSpace (dropWhile is_re_space after)\<rparr>))"

section \<open>Lemmas\<close>

lemma word_split_alnum: "list_all is_alnum cur \<Longrightarrow> w \<in> set (word_split s cur) \<Longrightarrow> list_all is_alnum w"
proof (induction s cur rule: word_split.induct)
  case (2 c s cur)
  then show ?case by (cases "is_alnum c") auto
qed simp

definition good_word :: "string \<Rightarrow> bool" where
  "good_word w \<longleftrightarrow> w \<noteq> [] \<and> w \<notin> set stopwords \<and> list_all (\<lambda>c. is_lower c \<or> is_digit c) w"

lemma ascii_lower_alnum: "is_alnum c \<Longrightarrow> is_lower (ascii_lower c) \<or> is_digit (ascii_lower c)"
  by (auto simp: is_alnum_def ascii_lower_def is_lower_def is_upper_def is_digit_def code_char_of)

lemma pick_words_good:
  assumes "\<And>t. t \<in> set ts \<Longrightarrow> list_all is_alnum t" "length ws < 3" "list_all good_word ws"
  shows "length (pick_words ts ws) \<le> 3 \<and> list_all good_word (pick_words ts ws)"
  using assms
proof (induction ts ws rule: pick_words.induct)
  case (2 token rest ws)
  let ?w = "map ascii_lower token"
  have good: "token \<noteq> [] \<Longrightarrow> ?w \<notin> set stopwords \<Longrightarrow> good_word ?w"
    using 2(4) [of token] ascii_lower_alnum by (auto simp: good_word_def list_all_iff)
  show ?case
    using 2 good by (simp add: Let_def)
qed simp

lemma fit_chain_cases:
  "fit_chain n ws = [] \<or> (\<exists>k > 0. k \<le> length ws \<and> fit_chain n ws = join ''-'' (take k ws)
     \<and> length (fit_chain n ws) \<le> MaxWordChainLength)"
proof (induction n ws rule: fit_chain.induct)
  case (2 n ws)
  show ?case
  proof (cases "ws = [] \<or> length (join ''-'' ws) \<le> MaxWordChainLength")
    case True
    then show ?thesis by (cases "ws = []") (auto intro!: exI [of _ "length ws"])
  next
    case False
    with 2 obtain k where "fit_chain n (butlast ws) = [] \<or> 0 < k \<and> k \<le> length (butlast ws)
        \<and> fit_chain n (butlast ws) = join ''-'' (take k (butlast ws))
        \<and> length (fit_chain n (butlast ws)) \<le> MaxWordChainLength" by auto
    with False show ?thesis
      by (auto simp: butlast_conv_take min_def split: if_splits intro!: exI [of _ k])
  qed
qed simp

lemma bump_ge: "h \<le> bump_highest base it h"
  unfolding bump_highest_def Let_def by (simp split: option.split)

lemma bump_le: "h \<le> max_duration \<Longrightarrow> bump_highest base it h \<le> max_duration"
proof -
  have "atoi t = Some n \<Longrightarrow> n \<le> max_duration" for t n
    unfolding atoi_def Let_def by (auto split: if_splits list.splits)
  moreover have "(1::int) \<le> max_duration" by (simp add: max_duration_def)
  ultimately show "h \<le> max_duration \<Longrightarrow> bump_highest base it h \<le> max_duration"
    unfolding bump_highest_def Let_def by (auto split: option.split)
qed

lemma fold_bump_ge: "h \<le> fold (bump_highest base) items h"
  by (induction items arbitrary: h) (auto intro: order_trans [OF bump_ge])

lemma fold_bump_in: "it \<in> set items \<Longrightarrow> (\<And>h. n \<le> bump_highest base it h) \<Longrightarrow>
    n \<le> fold (bump_highest base) items h"
proof (induction items arbitrary: h)
  case (Cons i items)
  show ?case
  proof (cases "it = i")
    case True
    have "n \<le> bump_highest base i h" using Cons.prems(2) True by simp
    also have "\<dots> \<le> fold (bump_highest base) items (bump_highest base i h)" by (rule fold_bump_ge)
    finally show ?thesis by simp
  next
    case False
    with Cons show ?thesis by simp
  qed
qed simp

lemma highest_suffix_le: "highest_suffix base items \<le> max_duration"
proof -
  have "h \<le> max_duration \<Longrightarrow> fold (bump_highest base) items h \<le> max_duration" for h
    by (induction items arbitrary: h) (auto intro: bump_le)
  then show ?thesis by (simp add: highest_suffix_def max_duration_def)
qed

lemma highest_suffix_base:
  "it \<in> set items \<Longrightarrow> cr_Name it = base \<Longrightarrow> 1 \<le> highest_suffix base items"
  unfolding highest_suffix_def by (rule fold_bump_in) (auto simp: bump_highest_def)

lemma highest_suffix_num:
  assumes "1 < n" "n \<le> max_duration" "it \<in> set items" "cr_Name it = base @ ''-'' @ itoa n"
  shows "n \<le> highest_suffix base items"
proof -
  have "trim_prefix (cr_Name it) (base @ ''-'') = itoa n"
    using trim_prefix_append [of "base @ ''-''" "itoa n"] assms(4) by simp
  moreover have "cr_Name it \<noteq> base" "itoa n \<noteq> cr_Name it" using assms(4) by auto
  moreover have "atoi (itoa n) = Some n" using assms by (intro atoi_itoa) auto
  ultimately have "n \<le> bump_highest base it h" for h
    using assms(1) by (simp add: bump_highest_def)
  then show ?thesis unfolding highest_suffix_def by (rule fold_bump_in [OF assms(3)])
qed

section \<open>Properties\<close>

text \<open>
  A name's word chain is empty or one to three words of lower-case letters and digits
  joined by single dashes, none of them a stop word, and never longer than its bound: whole
  words are dropped, none is cut.
\<close>

theorem Words_is_a_bounded_chain:
  "Words txt = [] \<or> (\<exists>ws. Words txt = join ''-'' ws \<and> 0 < length ws \<and> length ws \<le> 3
     \<and> list_all good_word ws \<and> length (Words txt) \<le> MaxWordChainLength)"
proof -
  let ?ws = "pick_words (word_split (camel_spaced txt) []) []"
  have ws: "length ?ws \<le> 3" "list_all good_word ?ws"
    using pick_words_good [of "word_split (camel_spaced txt) []" "[]"] word_split_alnum [of "[]" _ "camel_spaced txt"]
    by auto
  show ?thesis
    using fit_chain_cases [of "Suc (length ?ws)" ?ws]
  proof
    assume "\<exists>k > 0. k \<le> length ?ws \<and> fit_chain (Suc (length ?ws)) ?ws = join ''-'' (take k ?ws)
       \<and> length (fit_chain (Suc (length ?ws)) ?ws) \<le> MaxWordChainLength"
    then obtain k where "0 < k" "k \<le> length ?ws" "Words txt = join ''-'' (take k ?ws)"
      "length (Words txt) \<le> MaxWordChainLength" by (auto simp: Words_def Let_def)
    then show ?thesis using ws
      by (intro disjI2 exI [of _ "take k ?ws"]) (auto simp: list_all_iff dest: in_set_takeD)
  qed (simp add: Words_def Let_def)
qed

text \<open>
  The name a list suggests is free in that list: it is the bare base when no listed
  conversation holds it, and otherwise carries a suffix above every one in use, unless a
  listed suffix is the largest 64-bit number.
\<close>

theorem suggested_name_is_free:
  assumes "0 < nextSuffix base items"
  shows "nameForSuffix base (nextSuffix base items) \<notin> cr_Name ` set items"
proof
  let ?h = "highest_suffix base items"
  assume "nameForSuffix base (nextSuffix base items) \<in> cr_Name ` set items"
  then obtain it where it: "it \<in> set items" "cr_Name it = nameForSuffix base (nextSuffix base items)" by auto
  have s: "nextSuffix base items = ?h + 1" "?h \<noteq> max_duration"
    using assms by (auto simp: nextSuffix_def inc64_def min_duration_def split: if_splits)
  show False
  proof (cases "?h + 1 \<le> 1")
    case True
    with it s have "cr_Name it = base" by (simp add: nameForSuffix_def)
    with highest_suffix_base [OF it(1)] True show False by force
  next
    case False
    with it s have "cr_Name it = base @ ''-'' @ itoa (?h + 1)" by (simp add: nameForSuffix_def)
    with highest_suffix_num [of "?h + 1" it items base] it(1) False highest_suffix_le [of base items] s(2)
    show False by simp
  qed
qed

theorem suggested_name_is_free_witness:
  "let items = [zero_record\<lparr>cr_Name := ''task-disk''\<rparr>, zero_record\<lparr>cr_Name := ''task-disk-7''\<rparr>] in
    0 < nextSuffix ''task-disk'' items
    \<and> nameForSuffix ''task-disk'' (nextSuffix ''task-disk'' items) \<notin> cr_Name ` set items"
proof -
  let ?items = "[zero_record\<lparr>cr_Name := ''task-disk''\<rparr>, zero_record\<lparr>cr_Name := ''task-disk-7''\<rparr>]"
  have "atoi ''7'' = Some 7" by code_simp
  then have "0 < nextSuffix ''task-disk'' ?items"
    by (simp add: nextSuffix_def highest_suffix_def bump_highest_def trim_prefix_def Let_def inc64_def
        max_duration_def)
  from suggested_name_is_free [OF this] this show ?thesis unfolding Let_def by blast
qed

text \<open>
  \<open>AllocateName\<close> returns within its attempts, for any store and whatever other creators
  do; the name it returns is one its own Create stored, under the base it was given, and one
  that was free in the list read just before; no name is made up.
\<close>

theorem AllocateName_creates_what_it_returns:
  assumes "AllocateName s sleep kind ws rec w = (w', rec', Inr name)"
  shows "\<exists>w0 w1 w2 items v. st_List s w0 ByNameBase (no_key\<lparr>lk_NameBase := kind @ ''-'' @ ws\<rparr>) = (w1, Inr items)
    \<and> name = nameForSuffix (kind @ ''-'' @ ws) (nextSuffix (kind @ ''-'' @ ws) items)
    \<and> rec' = rec\<lparr>cr_Name := name, cr_NameBase := kind @ ''-'' @ ws\<rparr>
    \<and> st_Create s w1 name rec' = (w', Inr v)"
proof -
  let ?base = "kind @ ''-'' @ ws"
  have "\<exists>w0 w1 items v. st_List s w0 ByNameBase (no_key\<lparr>lk_NameBase := ?base\<rparr>) = (w1, Inr items)
    \<and> name = nameForSuffix ?base (nextSuffix ?base items)
    \<and> rec' = rec0\<lparr>cr_Name := name, cr_NameBase := ?base\<rparr> \<and> st_Create s w1 name rec' = (w', Inr v)"
    if "Allocate_loop s sleep ?base n le rec0 w = (w', rec', Inr name)" for n le rec0 w
    using that
  proof (induction n arbitrary: le rec0 w)
    case (Suc n)
    obtain w1 e where sl: "(if Suc n < MaxAllocateAttempts then sleep w (MaxAllocateAttempts - Suc n) else (w, None)) = (w1, e)"
      by fastforce
    with Suc.prems have e: "e = None" by (cases e) auto
    obtain w2 l where l: "st_List s w1 ByNameBase (no_key\<lparr>lk_NameBase := ?base\<rparr>) = (w2, l)" by fastforce
    with Suc.prems sl e obtain items where items: "l = Inr items" by (cases l) auto
    let ?name = "nameForSuffix ?base (nextSuffix ?base items)"
    let ?rec = "rec0\<lparr>cr_Name := ?name, cr_NameBase := ?base\<rparr>"
    obtain w3 r where cr: "st_Create s w2 ?name ?rec = (w3, r)" by fastforce
    show ?case
    proof (cases r)
      case (Inl x)
      with Suc.prems sl e l items cr have
        "Allocate_loop s sleep ?base n (Some x) ?rec w3 = (w', rec', Inr name)"
        by (auto simp: Let_def split: if_splits)
      from Suc.IH [OF this] show ?thesis by simp
    next
      case (Inr v)
      with Suc.prems sl e l items cr have "w' = w3" "rec' = ?rec" "name = ?name" by (auto simp: Let_def)
      with l items cr Inr show ?thesis by blast
    qed
  qed simp
  from this [OF assms [unfolded AllocateName_def]] show ?thesis by blast
qed

text \<open>A store of names, to evaluate the allocation on: a list of records, keyed by their name.\<close>

definition names_store :: "ConversationRecord list Store" where
  "names_store = \<lparr>
     st_Get = (\<lambda>w k. (w, case List.find (\<lambda>r. cr_Name r = k) w of None \<Rightarrow> Inl ErrNotFound | Some r \<Rightarrow> Inr (r, ''1''))),
     st_Create = (\<lambda>w k r. if list_ex (\<lambda>x. cr_Name x = k) w then (w, Inl ErrAlreadyExists) else (w @ [r], Inr ''1'')),
     st_Update = (\<lambda>w k v r. (w, Inl ErrConflict)), st_Delete = (\<lambda>w k. (filter (\<lambda>x. cr_Name x \<noteq> k) w, Inr ())),
     st_List = (\<lambda>w i k. (w, Inr w)), st_AppendRun = (\<lambda>w k r. (w, Inl ErrNotFound)),
     st_UpdateRun = (\<lambda>w k i u. (w, Inl ErrNotFound)), st_ListRuns = (\<lambda>w k. (w, Inr [])),
     st_GetWithRuns = (\<lambda>w k. (w, Inl ErrNotFound)), st_PutBlob = (\<lambda>w k b. (w, Inr ())),
     st_GetBlob = (\<lambda>w k. (w, Inl ErrNotFound)), st_DeleteBlob = (\<lambda>w k. (w, Inr ()))\<rparr>"

theorem AllocateName_creates_what_it_returns_witness:
  "\<exists>w' rec'. AllocateName names_store (\<lambda>w n. (w, None)) ''task'' ''disk'' zero_record
      [zero_record\<lparr>cr_Name := ''task-disk''\<rparr>] = (w', rec', Inr ''task-disk-2'')
    \<and> (\<exists>w0 w1 w2 items v. st_List names_store w0 ByNameBase (no_key\<lparr>lk_NameBase := ''task-disk''\<rparr>) = (w1, Inr items)
      \<and> ''task-disk-2'' = nameForSuffix ''task-disk'' (nextSuffix ''task-disk'' items)
      \<and> rec' = zero_record\<lparr>cr_Name := ''task-disk-2'', cr_NameBase := ''task-disk''\<rparr>
      \<and> st_Create names_store w1 ''task-disk-2'' rec' = (w', Inr v))"
proof -
  have two: "itoa 2 = ''2''" by code_simp
  let ?old = "zero_record\<lparr>cr_Name := ''task-disk''\<rparr>"
  let ?new = "zero_record\<lparr>cr_Name := ''task-disk-2'', cr_NameBase := ''task-disk''\<rparr>"
  have "AllocateName names_store (\<lambda>w n. (w, None)) ''task'' ''disk'' zero_record [?old]
      = ([?old, ?new], ?new, Inr ''task-disk-2'')"
    by (simp add: AllocateName_def MaxAllocateAttempts_def numeral_eq_Suc names_store_def nextSuffix_def
        highest_suffix_def bump_highest_def inc64_def max_duration_def nameForSuffix_def two Let_def)
  from AllocateName_creates_what_it_returns [OF this] this show ?thesis by (metis append_Cons append_Nil)
qed

lemma takeWhile_word: "list_all P xs \<Longrightarrow> \<not> P c \<Longrightarrow> takeWhile P (xs @ c # ys) = xs \<and> dropWhile P (xs @ c # ys) = c # ys"
  by (induction xs) auto

lemma word_not_special: "\<not> is_word (CHR '' '')" "\<not> is_word (CHR ''@'')" "is_re_space (CHR '' '')"
  by (simp_all add: is_word_def is_alnum_def is_lower_def is_upper_def is_digit_def is_re_space_def)

text \<open>
  Parsing a chat command inverts writing one: \<open>/pipeline task\<close> and the form chat clients
  write in groups, \<open>/pipeline@bot task\<close>, give back the pipeline and the task; and a text that
  does not start with a slash and a name addresses nothing.
\<close>

theorem Parse_inverts_command:
  assumes "name \<noteq> []" "list_all is_word name" "mention \<noteq> []" "list_all (\<lambda>c. \<not> is_re_space c) mention"
    and "trimSpace task = task" "dropWhile is_re_space task = task"
  shows "Parse (CHR ''/'' # name @ CHR '' '' # task) = Some \<lparr>cmd_Pipeline = name, cmd_Rest = task\<rparr>
    \<and> Parse (CHR ''/'' # name @ CHR ''@'' # mention @ CHR '' '' # task) = Some \<lparr>cmd_Pipeline = name, cmd_Rest = task\<rparr>
    \<and> (\<forall>txt p. Parse txt = Some p \<longrightarrow> (\<exists>rest. txt = CHR ''/'' # cmd_Pipeline p @ rest)
          \<and> cmd_Pipeline p \<noteq> [] \<and> list_all is_word (cmd_Pipeline p))"
proof (intro conjI allI impI)
  show "Parse (CHR ''/'' # name @ CHR '' '' # task) = Some \<lparr>cmd_Pipeline = name, cmd_Rest = task\<rparr>"
    using takeWhile_word [OF assms(2) word_not_special(1), of task] assms(1,5,6)
    by (simp add: Parse_def Let_def word_not_special(3))
next
  have "\<not> \<not> is_re_space (CHR '' '')" by (simp add: word_not_special(3))
  from takeWhile_word [OF assms(4) this, of task]
    takeWhile_word [OF assms(2) word_not_special(2), of "mention @ CHR '' '' # task"] assms(1,3,5,6)
  show "Parse (CHR ''/'' # name @ CHR ''@'' # mention @ CHR '' '' # task) = Some \<lparr>cmd_Pipeline = name, cmd_Rest = task\<rparr>"
    by (simp add: Parse_def Let_def word_not_special(3))
next
  fix m p assume "Parse m = Some p"
  then obtain s where s: "m = CHR ''/'' # s" "cmd_Pipeline p = takeWhile is_word s" "takeWhile is_word s \<noteq> []"
    by (auto simp: Parse_def Let_def split: list.splits if_splits)
  show "\<exists>rest. m = CHR ''/'' # cmd_Pipeline p @ rest"
    using s takeWhile_dropWhile_id [of is_word s] by (intro exI [of _ "dropWhile is_word s"]) simp
  show "cmd_Pipeline p \<noteq> []" using s by simp
  show "list_all is_word (cmd_Pipeline p)" using s by (auto simp: list_all_iff dest: set_takeWhileD)
qed

theorem Parse_inverts_command_witness:
  "Parse ''/k8s-observe@my_bot check:the pods'' = Some \<lparr>cmd_Pipeline = ''k8s-observe'', cmd_Rest = ''check:the pods''\<rparr>"
proof -
  have "list_all is_word ''k8s-observe''" "list_all (\<lambda>c. \<not> is_re_space c) ''my_bot''"
    "trimSpace ''check:the pods'' = ''check:the pods''" "dropWhile is_re_space ''check:the pods'' = ''check:the pods''"
    by code_simp+
  with Parse_inverts_command [of "''k8s-observe''" "''my_bot''" "''check:the pods''"] show ?thesis by simp
qed

end
