(* ===== verification/SignalRoute.thy ===== *)
theory SignalRoute
  imports Messages Activity Claimants Cooldown Naming KubeSignals
begin

text \<open>
  The consumer's routing logic, \<open>internal/signalroute\<close>: given one Signal, \<open>Admit\<close> makes every
  decision of the specification's order and snapshots the claimants, \<open>Route\<close> sends the message
  to each claimant. Both return the signal record updated, as the source mutates it in memory.

  The state is the world the stores and the API reader act on, and the leader's process memory:
  the cooldown book, the activity log, the notices handed to the channel-operation queue. A
  section the source runs under a source's cooldown lock is one function here. The clock is
  read from the world: \<open>d_Now d w n\<close> is the \<open>n\<close>-th reading between two calls that change it.
\<close>

section \<open>State and dependencies\<close>

record 'w RW =
  rt_world :: 'w
  rt_book :: "string \<rightharpoonup> Cooldown"
  rt_log :: "Log option"
  rt_told :: "(string \<times> Message) list"

record 'w Deps =
  d_Signals :: "'w SignalStore"
  d_Store :: "'w Store"
  d_Reader :: "'w Reader"
  d_HasOps :: bool
  d_HasCooldowns :: bool
  d_Runtime :: RuntimeDefaults
  d_MaxQueued :: int
  d_Now :: "'w \<Rightarrow> nat \<Rightarrow> go_time"
  d_Sleep :: "'w \<Rightarrow> nat \<Rightarrow> 'w \<times> err option"

record Result =
  rs_Dropped :: bool
  rs_Wait :: bool
  rs_FirstRouted :: bool
  rs_Rollback :: "(string \<times> string) option"

definition zero_Result :: Result where
  "zero_Result = \<lparr>rs_Dropped = False, rs_Wait = False, rs_FirstRouted = False, rs_Rollback = None\<rparr>"

definition on_world :: "('w \<Rightarrow> 'w \<times> 'a) \<Rightarrow> 'w RW \<Rightarrow> 'w RW \<times> 'a" where
  "on_world f s = (case f (rt_world s) of (w, x) \<Rightarrow> (s\<lparr>rt_world := w\<rparr>, x))"

definition emit :: "'w Deps \<Rightarrow> Event \<Rightarrow> 'w RW \<Rightarrow> 'w RW" where
  "emit d e s = s\<lparr>rt_log := map_option (Emit (d_Now d (rt_world s) 0) e) (rt_log s)\<rparr>"

abbreviation kindChat :: string where "kindChat \<equiv> ''chat''"
abbreviation kindTask :: string where "kindTask \<equiv> ''task''"
abbreviation kindJob :: string where "kindJob \<equiv> ''job''"
abbreviation kindAlert :: string where "kindAlert \<equiv> ''alert''"

definition em_dash :: string where "em_dash = runes_string [8212]"
definition warning_sign :: string where "warning_sign = runes_string [9888, 65039]"

section \<open>Notices\<close>

definition unwiredNotice :: "string \<Rightarrow> Message" where
  "unwiredNotice source = Warn (warning_sign
     @ '' Nothing here is wired to answer. No Ready Pipeline or Coordinator serves the chat source **'' @ source
     @ ''**, so this message was dropped. Add it to one's sources to give it one.'')"

definition unknownTargetNotice :: "string \<Rightarrow> Message" where
  "unknownTargetNotice name = Warn (warning_sign @ '' Unknown pipeline or coordinator **'' @ name @ ''** ''
     @ em_dash @ '' see `/'' @ ListCommand @ ''`.'')"

definition capacityNotice :: Message where
  "capacityNotice = Warn (warning_sign @ '' At capacity '' @ em_dash @ '' too many conversations are already ''
     @ ''waiting for a runtime slot, so this message was dropped. Try again once the backlog clears.'')"

definition newline :: string where "newline = [char_of (10::int)]"

definition ambiguousNotice :: "Claimant list \<Rightarrow> Message" where
  "ambiguousNotice servers =
     (let lines = concat (map (\<lambda>c. runes_string [8226] @ '' `/'' @ GetName c @ '' <task>` '' @ em_dash @ '' ''
            @ ProfileName (InlineCapability c) @ newline) servers)
      in (Warn (runes_string [129300] @ '' **'' @ itoa (int (length servers))
            @ '' pipelines/coordinators serve this chat, so I don't know who you meant.**'' @ newline @ newline
            @ ''Address one of them:'' @ newline @ lines @ newline
            @ ''Your message was not sent to anyone. `/'' @ ListCommand @ ''` shows this list any time.''))
         \<lparr>msg_Choices := map (\<lambda>c. \<lparr>ch_Label = GetName c, ch_Command = ''/'' @ GetName c\<rparr>) servers\<rparr>)"

definition channelOf :: "'w Deps \<Rightarrow> SignalRecord \<Rightarrow> 'w \<Rightarrow> string option" where
  "channelOf d sig w =
     (let name = label (sr_Labels sig) LabelChatChannel in
      if name = [] then None else if rd_ChannelExists (d_Reader d) w name = Inr True then Some name else None)"

definition tell :: "'w Deps \<Rightarrow> string option \<Rightarrow> SignalRecord \<Rightarrow> Message \<Rightarrow> 'w RW \<Rightarrow> 'w RW" where
  "tell d ch sig msg s =
     (case ch of
        None \<Rightarrow> s
      | Some ch \<Rightarrow> if \<not> d_HasOps d then s
          else s\<lparr>rt_told := rt_told s @ [(ch, msg\<lparr>msg_InReplyTo := label (sr_Labels sig) LabelChatMessage\<rparr>)]\<rparr>)"

section \<open>The cooldown of a source\<close>

definition defaultCooldownHours :: int where
  "defaultCooldownHours = 6"

text \<open>\<open>time.Duration(hours)*time.Hour\<close>: the product wraps at 64 bits.\<close>

definition wrap64 :: "int \<Rightarrow> int" where
  "wrap64 i = (i + 9223372036854775808) mod 18446744073709551616 - 9223372036854775808"

definition recoverCooldown :: "'w Deps \<Rightarrow> SignalSource \<Rightarrow> string \<Rightarrow> 'w RW \<Rightarrow> 'w RW \<times> Cooldown result" where
  "recoverCooldown d src kind s =
     (let hours = (if ss_CooldownHours src \<le> 0 then (if kind = kindChat then 0 else defaultCooldownHours)
                   else ss_CooldownHours src) in
      if hours = 0 then (s, Inr (NewCooldownFrom 0 []))
      else (case on_world (\<lambda>w. sst_GetCooldown (d_Signals d) w (om_Name (ss_Meta src))) s of
          (s, Inl e) \<Rightarrow> (s, Inl e)
        | (s, Inr window) \<Rightarrow> (s, Inr (NewCooldownFrom (wrap64 (hours * hour))
            (map (\<lambda>e. \<lparr>en_InitiationID = ce_InitiationID e, en_At = ce_At e\<rparr>) window)))))"

definition recordCooldown :: "'w Deps \<Rightarrow> string \<Rightarrow> Cooldown \<Rightarrow> 'w RW \<Rightarrow> 'w RW" where
  "recordCooldown d source cd s =
     (if cd_ttl cd \<le> 0 then s
      else fst (on_world (\<lambda>w. sst_PutCooldown (d_Signals d) w source
             (map (\<lambda>e. \<lparr>ce_InitiationID = en_InitiationID e, ce_At = en_At e\<rparr>) (Entries cd (d_Now d w 1)))) s))"

text \<open>The second component is the rollback: the source and the id it gives back.\<close>

definition spendCooldown :: "'w Deps \<Rightarrow> SignalSource \<Rightarrow> SignalRecord \<Rightarrow> 'w RW
    \<Rightarrow> 'w RW \<times> (bool \<times> (string \<times> string) option) result" where
  "spendCooldown d src sig s =
     (if \<not> d_HasCooldowns d then (s, Inr (True, None))
      else let name = om_Name (ss_Meta src) in
        (case (case For_lookup (rt_book s) name of
                 Some cd \<Rightarrow> (s, Inr cd)
               | None \<Rightarrow>
                   (case recoverCooldown d src (sr_Kind sig) s of
                      (s, Inl e) \<Rightarrow> (s, Inl e)
                    | (s, Inr built) \<Rightarrow>
                        (case For_store (rt_book s) name (Some built) of
                           (book, Some cd) \<Rightarrow> (s\<lparr>rt_book := book\<rparr>, Inr cd)
                         | (book, None) \<Rightarrow> (s, Inr built)))) of
           (s, Inl e) \<Rightarrow> (s, Inl (Wrapped (''recover the cooldown window of source '' @ name) e))
         | (s, Inr cd) \<Rightarrow>
             (case Fresh cd (d_Now d (rt_world s) 0) [sr_InitiationID sig] of
                (cd, out) \<Rightarrow>
                  (let s = s\<lparr>rt_book := (rt_book s)(name \<mapsto> cd)\<rparr> in
                   if out = [] then (s, Inr (False, None))
                   else (recordCooldown d name cd s, Inr (True, Some (name, sr_InitiationID sig)))))))"

text \<open>The rollback closure. The book never drops a source, so the pointer it captured is the entry.\<close>

definition rollback :: "'w Deps \<Rightarrow> (string \<times> string) option \<Rightarrow> 'w RW \<Rightarrow> 'w RW" where
  "rollback d r s =
     (case r of
        None \<Rightarrow> s
      | Some (name, i) \<Rightarrow>
          (case rt_book s name of
             None \<Rightarrow> s
           | Some cd \<Rightarrow> (let cd = Release cd i in
               recordCooldown d name cd (s\<lparr>rt_book := (rt_book s)(name \<mapsto> cd)\<rparr>))))"

definition RecordReceived :: "'w Deps \<Rightarrow> string \<Rightarrow> 'w RW \<Rightarrow> 'w RW \<times> unit result" where
  "RecordReceived d sourceName s =
     on_world (\<lambda>w. sst_RecordReceived (d_Signals d) w sourceName (d_Now d w 0)) s"

section \<open>Admission\<close>

definition AnswersInPlace :: "Command \<Rightarrow> bool" where
  "AnswersInPlace cmd \<longleftrightarrow> isListCommand (cmd_Pipeline cmd) \<or> cmd_Pipeline cmd = CloseCommand
     \<or> cmd_Pipeline cmd = ExitCommand \<or> cmd_Rest cmd = []"

definition AddressedTarget :: "SignalRecord \<Rightarrow> (string \<times> string) option" where
  "AddressedTarget sig =
     (if sr_Kind sig \<noteq> kindChat then None
      else (case Parse (trim_space (sr_Payload sig)) of
         None \<Rightarrow> None
       | Some cmd \<Rightarrow> if AnswersInPlace cmd then None else Some (cmd_Pipeline cmd, cmd_Rest cmd)))"

definition BacklogFull :: "'w Deps \<Rightarrow> 'w RW \<Rightarrow> 'w RW \<times> bool result" where
  "BacklogFull d s =
     (case on_world (\<lambda>w. st_List (d_Store d) w ByPhase (no_key\<lparr>lk_Phase := PhasePending\<rparr>)) s of
        (s, Inl e) \<Rightarrow> (s, Inl e)
      | (s, Inr pending) \<Rightarrow> (s, Inr (int (length pending) \<ge> d_MaxQueued d)))"

abbreviation KindSignalDropped :: string where "KindSignalDropped \<equiv> ''signal.dropped''"
abbreviation KindSignalFailed :: string where "KindSignalFailed \<equiv> ''signal.failed''"
abbreviation StatusError :: string where "StatusError \<equiv> ''error''"

definition Loud :: "'w Deps \<Rightarrow> SignalRecord \<Rightarrow> string \<Rightarrow> string \<Rightarrow> string \<Rightarrow> 'w RW \<Rightarrow> 'w RW" where
  "Loud d sig kind evcode detail s =
     emit d (zero_event\<lparr>ev_Kind := kind, ev_From := Node ''signal-source'' (sr_SourceRef sig),
        ev_Status := StatusError, ev_Code := evcode,
        ev_Detail := detail @ '' ('' @ sr_InitiationID sig @ '')''\<rparr>) s"

definition drop_signal :: "'w Deps \<Rightarrow> SignalRecord \<Rightarrow> string \<Rightarrow> string \<Rightarrow> string \<Rightarrow> 'w RW \<Rightarrow> 'w RW \<times> SignalRecord" where
  "drop_signal d sig reason evcode detail s =
     (let sig = sig\<lparr>sr_Phase := SignalDropped, sr_Reason := reason\<rparr>
      in (Loud d sig KindSignalDropped evcode detail s, sig))"

text \<open>What \<open>admit\<close> returns beside an error: the claimants to snapshot, or None for a drop.\<close>

type_synonym admission = "(Claimant list option \<times> (string \<times> string) option) result"

definition admit_capacity :: "'w Deps \<Rightarrow> string option \<Rightarrow> Claimant list \<Rightarrow> (string \<times> string) option
    \<Rightarrow> SignalRecord \<Rightarrow> 'w RW \<Rightarrow> 'w RW \<times> SignalRecord \<times> admission" where
  "admit_capacity d ch claimants rb sig s =
     (if sr_Kind sig \<noteq> kindChat then (s, sig, Inr (Some claimants, rb))
      else (case BacklogFull d s of
         (s, Inl e) \<Rightarrow> (rollback d rb s, sig, Inl e)
       | (s, Inr False) \<Rightarrow> (s, sig, Inr (Some claimants, rb))
       | (s, Inr True) \<Rightarrow>
           (case drop_signal d sig ''capacity'' ''at-capacity''
                   (''pending conversation backlog is full '' @ em_dash @ '' signal dropped'')
                   (tell d ch sig capacityNotice (rollback d rb s)) of
              (s, sig) \<Rightarrow> (s, sig, Inr (None, None)))))"

definition admit_addressed :: "'w Deps \<Rightarrow> string option \<Rightarrow> string \<Rightarrow> SignalRecord \<Rightarrow> 'w RW
    \<Rightarrow> 'w RW \<times> SignalRecord \<times> admission" where
  "admit_addressed d ch name sig s =
     (case ResolveClaimant (d_Reader d) (rt_world s) name of
        Inl e \<Rightarrow> (s, sig, Inl (Wrapped (''resolve addressed '' @ name) e))
      | Inr None \<Rightarrow>
          (case drop_signal d sig ''unclaimed'' ''unclaimed''
                  (''addressed pipeline or coordinator '' @ name @ '' does not exist'')
                  (tell d ch sig (unknownTargetNotice name) s) of
             (s, sig) \<Rightarrow> (s, sig, Inr (None, None)))
      | Inr (Some target) \<Rightarrow> admit_capacity d ch [target] None sig s)"

definition admit_wired :: "'w Deps \<Rightarrow> string option \<Rightarrow> SignalSource \<Rightarrow> SignalRecord \<Rightarrow> 'w RW
    \<Rightarrow> 'w RW \<times> SignalRecord \<times> admission" where
  "admit_wired d ch src sig s =
     (let source = om_Name (ss_Meta src);
          claimants = PipelinesForSource (d_Reader d) (rt_world s) source in
      if claimants = [] then
        (case drop_signal d sig ''unclaimed'' ''unclaimed''
                (''source not served by any Ready pipeline or Coordinator (Wired=False) '' @ em_dash @ '' signal dropped'')
                (tell d ch sig (unwiredNotice source) s) of
           (s, sig) \<Rightarrow> (s, sig, Inr (None, None)))
      else if sr_Kind sig = kindChat \<and> length claimants > 1 then
        (case drop_signal d sig ''ambiguous'' ''ambiguous''
                (''several Ready pipelines or coordinators serve this chat source '' @ em_dash
                   @ '' the message names none of them'')
                (tell d ch sig (ambiguousNotice claimants) s) of
           (s, sig) \<Rightarrow> (s, sig, Inr (None, None)))
      else
        (case spendCooldown d src sig s of
           (s, Inl e) \<Rightarrow> (s, sig, Inl e)
         | (s, Inr (False, _)) \<Rightarrow>
             (s, sig\<lparr>sr_Phase := SignalDropped, sr_Reason := ''cooldown''\<rparr>, Inr (None, None))
         | (s, Inr (True, rb)) \<Rightarrow> admit_capacity d ch claimants rb sig s))"

definition admit :: "'w Deps \<Rightarrow> SignalRecord \<Rightarrow> SignalSource \<Rightarrow> 'w RW \<Rightarrow> 'w RW \<times> SignalRecord \<times> admission" where
  "admit d sig src s =
     (let ch = (if sr_Kind sig = kindChat then channelOf d sig (rt_world s) else None) in
      if sr_Kind sig = kindChat \<and> ch = None then
        (case drop_signal d sig ''unaddressable'' ''unaddressable''
                (''chat signal names no existing Channel '' @ em_dash @ '' nowhere to answer'') s of
           (s, sig) \<Rightarrow> (s, sig, Inr (None, None)))
      else (case AddressedTarget sig of
          Some (name, _) \<Rightarrow> admit_addressed d ch name sig s
        | None \<Rightarrow> admit_wired d ch src sig s))"

definition claimantOf :: "Claimant \<Rightarrow> SignalClaimant" where
  "claimantOf c = \<lparr>sc_Kind = (if claimant_kind c = ClaimantCoordinator then ClaimantKindCoordinator else ClaimantKindPipeline),
     sc_Name = GetName c, sc_State = ClaimantRouting, sc_ConversationRef = [], sc_Reason = []\<rparr>"

definition node_kind :: "Claimant \<Rightarrow> string" where
  "node_kind c = (if claimant_kind c = ClaimantCoordinator then ''coordinator'' else ''pipeline'')"

definition snapshot :: "'w Deps \<Rightarrow> SignalRecord \<Rightarrow> Claimant list \<Rightarrow> 'w RW \<Rightarrow> 'w RW \<times> SignalRecord" where
  "snapshot d sig claimants s =
     (fold (\<lambda>c. emit d (zero_event\<lparr>ev_Kind := ''signal.claimed'', ev_From := Node ''signal-source'' (sr_SourceRef sig),
          ev_To := Node (node_kind c) (GetName c), ev_Pipeline := GetName c, ev_Detail := ''1 signal(s)''\<rparr>)) claimants s,
      sig\<lparr>sr_Claimants := map claimantOf claimants\<rparr>)"

definition Admit :: "'w Deps \<Rightarrow> SignalRecord \<Rightarrow> SignalSource \<Rightarrow> 'w RW
    \<Rightarrow> 'w RW \<times> SignalRecord \<times> Result \<times> err option" where
  "Admit d sig src s =
     (case admit d sig src s of
        (s, sig, Inl e) \<Rightarrow> (s, sig, zero_Result, Some e)
      | (s, sig, Inr (None, rb)) \<Rightarrow> (s, sig, zero_Result\<lparr>rs_Rollback := rb, rs_Dropped := True\<rparr>, None)
      | (s, sig, Inr (Some claimants, rb)) \<Rightarrow>
          (case snapshot d sig claimants s of
             (s, sig) \<Rightarrow> (s, sig, zero_Result\<lparr>rs_Rollback := rb\<rparr>, None)))"

section \<open>The conversation of a claimant\<close>

definition oneShot :: "string \<Rightarrow> bool" where
  "oneShot kind \<longleftrightarrow> kind = kindChat \<or> kind = kindTask"

definition messageOf :: "SignalRecord \<Rightarrow> string \<times> bool" where
  "messageOf sig = (case AddressedTarget sig of Some (_, task) \<Rightarrow> (task, True) | None \<Rightarrow> (sr_Payload sig, False))"

definition reusableBy :: "ConversationRecord \<Rightarrow> Claimant \<Rightarrow> bool" where
  "reusableBy c claimant =
     (if cr_PipelineRef c \<noteq> [] then claimant_kind claimant = ClaimantPipeline \<and> cr_PipelineRef c = GetName claimant
      else if cr_CoordinatorRef c \<noteq> [] then
        claimant_kind claimant = ClaimantCoordinator \<and> cr_CoordinatorRef c = GetName claimant
      else False)"

definition findReusableConversation :: "'w Deps \<Rightarrow> Claimant \<Rightarrow> string \<Rightarrow> 'w RW
    \<Rightarrow> 'w RW \<times> ConversationRecord option result" where
  "findReusableConversation d claimant initiationID s =
     (case on_world (\<lambda>w. st_List (d_Store d) w ByConversationID (no_key\<lparr>lk_ConversationID := initiationID\<rparr>)) s of
        (s, Inl e) \<Rightarrow> (s, Inl e)
      | (s, Inr items) \<Rightarrow>
          (s, Inr (List.find (\<lambda>c. cr_Phase c \<noteq> PhaseClosed \<and> reusableBy c claimant) items)))"

definition inputTypeForKind :: "string \<Rightarrow> string" where
  "inputTypeForKind kind =
     (if kind = kindJob then InputJob else if kind = kindChat \<or> kind = kindTask then InputTask else InputAlert)"

definition nameKindForSignal :: "string \<Rightarrow> string" where
  "nameKindForSignal kind =
     (if kind = kindJob then ''job'' else if kind = kindChat then ''chat''
      else if kind = kindTask then ''task'' else ''alert'')"

definition titleFromText :: "string \<Rightarrow> string \<Rightarrow> string" where
  "titleFromText icon txt =
     (let fs = GoStrings.fields txt in
      if fs = [] then [] else BoundConversationTitle (icon @ '' '' @ join '' '' fs))"

definition titleForSignal :: "string \<Rightarrow> SignalRecord \<Rightarrow> string" where
  "titleForSignal sourceName sig =
     (if sr_Title sig \<noteq> [] then sr_Title sig
      else let icon = runes_string [if sr_Kind sig = kindTask then 128736 else 128172];
               title = (if oneShot (sr_Kind sig) then titleFromText icon (fst (messageOf sig)) else [])
           in if title \<noteq> [] then title else runes_string [128269] @ '' '' @ sourceName)"

definition wordsForSignal :: "string \<Rightarrow> string \<Rightarrow> string" where
  "wordsForSignal sourceName title = (if Words title \<noteq> [] then Words title else Words sourceName)"

definition withChannel :: "ref list \<Rightarrow> string \<Rightarrow> ref list" where
  "withChannel refs name = (if name = [] then refs else add_once name refs)"

text \<open>The record to create: the composite literal and the assignments that follow it.\<close>

definition conversation_for :: "'w Deps \<Rightarrow> Claimant \<Rightarrow> SignalRecord \<Rightarrow> AgentCapabilitySpec \<Rightarrow> 'w \<Rightarrow> ConversationRecord" where
  "conversation_for d claimant sig capability w =
     (let sourceName = sr_SourceRef sig;
          snap = SnapshotFor (d_Reader d) w (GetName claimant) capability (d_Runtime d);
          ch = label (sr_Labels sig) LabelChatChannel;
          conv = zero_record\<lparr>
            cr_ProfileRef := ProfileName capability,
            cr_ChannelRefs := BoundChannelRefs claimant,
            cr_Toolsets := ToolsetBindingOf (ac_Toolsets capability),
            cr_MCPConfigs := ToolingBindingOf (ac_MCPConfigs capability),
            cr_RuntimeRef := sn_RuntimeRef snap,
            cr_ServiceAccountName := sn_ServiceAccountName snap,
            cr_ContextClaimName := sn_ContextClaimName snap,
            cr_WorkspaceClaimName := sn_WorkspaceClaimName snap,
            cr_Signal := Some \<lparr>sp_SourceRef = sourceName, sp_Labels = sr_Labels sig, sp_Severity = sr_Severity sig\<rparr>,
            cr_Title := titleForSignal sourceName sig,
            cr_ConversationID := sr_InitiationID sig\<rparr>;
          conv = (if snd (messageOf sig) then conv\<lparr>cr_ChannelRefs := withChannel (cr_ChannelRefs conv) ch\<rparr> else conv);
          conv = (if claimant_kind claimant = ClaimantCoordinator
                  then conv\<lparr>cr_CoordinatorRef := GetName claimant,
                            cr_EscalationChannelRefs := EscalationChannelRefs claimant\<rparr>
                  else conv\<lparr>cr_PipelineRef := GetName claimant\<rparr>);
          conv = (if sr_Kind sig = kindChat \<and> sr_Reader sig \<noteq> [] \<and> ch \<noteq> []
                  then conv\<lparr>cr_OriginReader := Some \<lparr>or_Channel = ch, or_Key = sr_Reader sig\<rparr>\<rparr> else conv)
      in case SnapshotBudget claimant (d_Now d w 0) of
           Some budget \<Rightarrow> conv\<lparr>cr_Budget := Some budget\<rparr>
         | None \<Rightarrow> conv)"

definition createConversation :: "'w Deps \<Rightarrow> Claimant \<Rightarrow> SignalRecord \<Rightarrow> 'w RW
    \<Rightarrow> 'w RW \<times> ConversationRecord result" where
  "createConversation d claimant sig s =
     (case ResolveCapability (d_Reader d) (rt_world s) claimant of
        Inl e \<Rightarrow> (s, Inl (Wrapped (GetName claimant @ '': resolve capability'') e))
      | Inr capability \<Rightarrow>
          (let title = titleForSignal (sr_SourceRef sig) sig;
               conv = conversation_for d claimant sig capability (rt_world s) in
           case on_world (AllocateName (d_Store d) (d_Sleep d) (nameKindForSignal (sr_Kind sig))
                  (wordsForSignal (sr_SourceRef sig) title) conv) s of
             (s, _, Inl e) \<Rightarrow> (s, Inl e)
           | (s, conv, Inr _) \<Rightarrow>
               (emit d (zero_event\<lparr>ev_Kind := ''conversation.created'', ev_From := Node (node_kind claimant) (GetName claimant),
                    ev_To := Node ''conversation'' (cr_Name conv), ev_Pipeline := GetName claimant,
                    ev_Conversation := cr_Name conv, ev_Detail := cr_Title conv\<rparr>) s, Inr conv)))"

section \<open>The input of a conversation\<close>

definition InputName :: "string \<Rightarrow> SignalClaimant \<Rightarrow> string" where
  "InputName sigName r =
     sigName @ ''-'' @ (if sc_Kind r = ClaimantKindCoordinator then ''c'' else ''p'') @ ''-'' @ sc_Name r"

definition queuedInput :: "ConversationRecord \<Rightarrow> string \<Rightarrow> bool" where
  "queuedInput conv blobKey = list_ex (\<lambda>i. in_PayloadRef i = blobKey) (cr_Inputs conv)"

definition inputDelivered :: "'w Deps \<Rightarrow> ConversationRecord \<Rightarrow> string \<Rightarrow> 'w RW \<Rightarrow> 'w RW \<times> bool result" where
  "inputDelivered d conv blobKey s =
     (if queuedInput conv blobKey then (s, Inr True)
      else (case on_world (\<lambda>w. st_ListRuns (d_Store d) w (cr_Name conv)) s of
         (s, Inl e) \<Rightarrow> (s, Inl e)
       | (s, Inr runs) \<Rightarrow> (s, Inr (list_ex (\<lambda>r. list_ex (\<lambda>i. ri_PayloadRef i = blobKey) (run_Inputs r)) runs))))"

definition orDefault :: "string \<Rightarrow> string \<Rightarrow> string" where
  "orDefault s fallback = (if s = [] then fallback else s)"

definition unix_epoch :: go_time where
  "unix_epoch = 62135596800 * 1000000000"

definition format_int :: "int \<Rightarrow> int \<Rightarrow> string" where
  "format_int b n = (if n < 0 then CHR ''-'' # format_base b (- n) else format_base b n)"

definition input_id :: "go_time \<Rightarrow> string" where
  "input_id t = ''in-'' @ format_int 36 (wrap64 (t - unix_epoch))"

definition signal_input :: "string \<Rightarrow> string \<Rightarrow> string \<Rightarrow> SignalRecord \<Rightarrow> go_time \<Rightarrow> InputItem" where
  "signal_input inputID inputType ciName sig at =
     \<lparr>in_ID = inputID, in_Type = inputType, in_Agent = [], in_Payload = [], in_PayloadRef = ciName,
      in_Origin = Some \<lparr>io_Kind = OriginSignal, io_Name = sr_SourceRef sig, io_Entry = [],
        io_SignalKind = orDefault (sr_Kind sig) kindAlert, io_Sender = []\<rparr>,
      in_ReceivedAt = at\<rparr>"

text \<open>The closure handed to \<open>Mutate\<close>: its state is \<open>queued\<close> and how often the clock was read.\<close>

definition append_closure :: "string \<Rightarrow> string \<Rightarrow> string \<Rightarrow> SignalRecord \<Rightarrow> (nat \<Rightarrow> go_time) \<Rightarrow> (bool \<times> nat) closure" where
  "append_closure inputID inputType ciName sig clock c rec =
     (case c of (_, n) \<Rightarrow>
        if queuedInput rec ciName then ((False, n), Inr rec)
        else ((True, n + 1),
          Inr (rec\<lparr>cr_Inputs := cr_Inputs rec @ [signal_input inputID inputType ciName sig (clock n)]\<rparr>)))"

definition appendInput :: "'w Deps \<Rightarrow> Claimant \<Rightarrow> ConversationRecord \<Rightarrow> SignalRecord \<Rightarrow> string \<Rightarrow> 'w RW
    \<Rightarrow> 'w RW \<times> unit result" where
  "appendInput d claimant conv sig inputType s =
     (let ciName = InputName (sr_Name sig) (claimantOf claimant); name = cr_Name conv in
      case on_world (\<lambda>w. st_Get (d_Store d) w name) s of
        (s, Inl e) \<Rightarrow> (s, Inl e)
      | (s, Inr (fresh, _)) \<Rightarrow>
         (case inputDelivered d fresh ciName s of
            (s, Inl e) \<Rightarrow> (s, Inl e)
          | (s, Inr True) \<Rightarrow> (s, Inr ())
          | (s, Inr False) \<Rightarrow>
             (case on_world (\<lambda>w. st_PutBlob (d_Store d) w ciName
                    \<lparr>bl_ConversationName = name, bl_Type = inputType, bl_Payload = fst (messageOf sig),
                     bl_Labels = sr_Labels sig, bl_Severity = sr_Severity sig\<rparr>) s of
                (s, Inl e) \<Rightarrow> (s, Inl e)
              | (s, Inr _) \<Rightarrow>
                 (let inputID = input_id (d_Now d (rt_world s) 0) in
                  case Mutate (d_Store d) name
                         (append_closure inputID inputType ciName sig (d_Now d (rt_world s))) (False, 1) (rt_world s) of
                    (w, _, Inl e) \<Rightarrow> (s\<lparr>rt_world := w\<rparr>, Inl (Wrapped (''append input to '' @ name) e))
                  | (w, (queued, _), Inr _) \<Rightarrow>
                      (let s = s\<lparr>rt_world := w\<rparr> in
                       if \<not> queued then (s, Inr ())
                       else (emit d (zero_event\<lparr>ev_Kind := ''input.queued'',
                              ev_From := Node ''signal-source'' (sr_SourceRef sig), ev_To := Node ''conversation'' name,
                              ev_Pipeline := GetName claimant, ev_Conversation := name, ev_InputID := inputID,
                              ev_Code := inputType, ev_Detail := sr_SourceRef sig\<rparr>) s, Inr ()))))))"

section \<open>Routing\<close>

text \<open>The success value: the conversation, or None to wait for the backlog.\<close>

definition routeOneClaimant :: "'w Deps \<Rightarrow> Claimant \<Rightarrow> SignalRecord \<Rightarrow> 'w RW \<Rightarrow> 'w RW \<times> string option result" where
  "routeOneClaimant d claimant sig s =
     (case findReusableConversation d claimant (sr_InitiationID sig) s of
        (s, Inl e) \<Rightarrow> (s, Inl e)
      | (s, Inr (Some conv)) \<Rightarrow>
          (case appendInput d claimant conv sig
                  (if ContextID conv \<noteq> [] then InputRecurrence else inputTypeForKind (sr_Kind sig)) s of
             (s, Inl e) \<Rightarrow> (s, Inl e)
           | (s, Inr _) \<Rightarrow> (s, Inr (Some (cr_Name conv))))
      | (s, Inr None) \<Rightarrow>
          (case BacklogFull d s of
             (s, Inl e) \<Rightarrow> (s, Inl e)
           | (s, Inr True) \<Rightarrow> (s, Inr None)
           | (s, Inr False) \<Rightarrow>
               (case createConversation d claimant sig s of
                  (s, Inl e) \<Rightarrow> (s, Inl e)
                | (s, Inr conv) \<Rightarrow>
                    (case appendInput d claimant conv sig (inputTypeForKind (sr_Kind sig)) s of
                       (s, Inl e) \<Rightarrow> (s, Inl e)
                     | (s, Inr _) \<Rightarrow> (s, Inr (Some (cr_Name conv)))))))"

definition chatKind :: "string \<Rightarrow> ClaimantKind" where
  "chatKind k = (if k = ClaimantKindCoordinator then ClaimantCoordinator else ClaimantPipeline)"

text \<open>The loop body for one claimant, and the loop, which stops at the first error.\<close>

definition route_claimant :: "'w Deps \<Rightarrow> SignalRecord \<Rightarrow> SignalClaimant \<Rightarrow> 'w RW \<Rightarrow> 'w RW \<times> SignalClaimant \<times> err option" where
  "route_claimant d sig c s =
     (if sc_State c \<noteq> ClaimantRouting then (s, c, None)
      else (case ClaimantByKind (d_Reader d) (rt_world s) (chatKind (sc_Kind c)) (sc_Name c) of
         Inl e \<Rightarrow> (s, c, Some (Wrapped (''read claimant '' @ sc_Kind c @ ''/'' @ sc_Name c) e))
       | Inr None \<Rightarrow> (s, c\<lparr>sc_State := ClaimantSkipped, sc_Reason := ''claimant no longer exists''\<rparr>, None)
       | Inr (Some claimant) \<Rightarrow>
           (case routeOneClaimant d claimant sig s of
              (s, Inl e) \<Rightarrow> (s, c, Some (Wrapped (''route claimant '' @ sc_Kind c @ ''/'' @ sc_Name c) e))
            | (s, Inr None) \<Rightarrow> (s, c, None)
            | (s, Inr (Some convRef)) \<Rightarrow> (s, c\<lparr>sc_State := ClaimantRouted, sc_ConversationRef := convRef\<rparr>, None))))"

fun routeClaimants :: "'w Deps \<Rightarrow> SignalRecord \<Rightarrow> SignalClaimant list \<Rightarrow> 'w RW
    \<Rightarrow> 'w RW \<times> SignalClaimant list \<times> err option" where
  "routeClaimants d sig [] s = (s, [], None)"
| "routeClaimants d sig (c # cs) s =
     (case route_claimant d sig c s of
        (s, c, Some e) \<Rightarrow> (s, c # cs, Some e)
      | (s, c, None) \<Rightarrow> (case routeClaimants d sig cs s of (s, cs, e) \<Rightarrow> (s, c # cs, e)))"

definition hasState :: "SignalRecord \<Rightarrow> string \<Rightarrow> bool" where
  "hasState sig want = list_ex (\<lambda>c. sc_State c = want) (sr_Claimants sig)"

definition Route :: "'w Deps \<Rightarrow> SignalRecord \<Rightarrow> 'w RW \<Rightarrow> 'w RW \<times> SignalRecord \<times> Result \<times> err option" where
  "Route d sig s =
     (let hadRouted = hasState sig ClaimantRouted in
      case routeClaimants d sig (sr_Claimants sig) s of
        (s, cs, e) \<Rightarrow>
          (let sig = sig\<lparr>sr_Claimants := cs, sr_Phase := SignalRollupPhase cs\<rparr> in
           (s, sig, zero_Result\<lparr>rs_Wait := hasState sig ClaimantRouting,
              rs_FirstRouted := \<not> hadRouted \<and> hasState sig ClaimantRouted\<rparr>, e)))"

end
