(* ===== verification/RouteFacts.thy ===== *)
theory RouteFacts
  imports SignalRoute
begin

text \<open>
  What the routing of \<^theory_text>\<open>SignalRoute\<close> guarantees for one signal: which claimants a pass may
  touch, how an admission may end, what a declined message costs, and what a created
  conversation carries.
\<close>

section \<open>Lemmas and properties\<close>

definition settled_as :: "SignalClaimant \<Rightarrow> SignalClaimant \<Rightarrow> bool" where
  "settled_as c c' \<longleftrightarrow> c' = c \<or> (sc_State c = ClaimantRouting \<and>
     (c' = c\<lparr>sc_State := ClaimantSkipped, sc_Reason := ''claimant no longer exists''\<rparr>
      \<or> (\<exists>conv. c' = c\<lparr>sc_State := ClaimantRouted, sc_ConversationRef := conv\<rparr>)))"

lemma settled_as_refl [simp]: "settled_as c c"
  by (simp add: settled_as_def)

lemma list_all2_settled_refl [simp]: "list_all2 settled_as cs cs"
  by (simp add: list.rel_refl)

lemma route_claimant_settles: "route_claimant d sig c s = (s', c', e) \<Longrightarrow> settled_as c c'"
  by (auto simp: route_claimant_def settled_as_def split: if_splits sum.splits option.splits prod.splits)

lemma routeClaimants_settles:
  "routeClaimants d sig cs s = (s', cs', e) \<Longrightarrow> list_all2 settled_as cs cs'"
  by (induction cs arbitrary: s s' cs' e)
    (auto split: prod.splits option.splits dest: route_claimant_settles)

text \<open>
  \<open>Route\<close> touches only claimants that were still routing, and moves them only to Skipped or
  to Routed with a conversation; names, kinds and order stay. Whatever happens, an error half way
  included, the phase it leaves is the roll-up of the claimants it leaves, and nothing else of the
  record changes; it asks for another pass exactly when a claimant is still routing.
\<close>

theorem Route_settles_only_routing:
  "case Route d sig s of (s', sig', res, e) \<Rightarrow>
     list_all2 settled_as (sr_Claimants sig) (sr_Claimants sig')
   \<and> sig' = sig\<lparr>sr_Claimants := sr_Claimants sig', sr_Phase := SignalRollupPhase (sr_Claimants sig')\<rparr>
   \<and> (rs_Wait res \<longleftrightarrow> (\<exists>c \<in> set (sr_Claimants sig'). sc_State c = ClaimantRouting))
   \<and> (rs_FirstRouted res \<longleftrightarrow> (\<exists>c \<in> set (sr_Claimants sig'). sc_State c = ClaimantRouted)
        \<and> \<not> (\<exists>c \<in> set (sr_Claimants sig). sc_State c = ClaimantRouted))
   \<and> \<not> rs_Dropped res"
  by (auto simp: Route_def Let_def zero_Result_def hasState_def list_ex_iff
      split: prod.splits dest!: routeClaimants_settles)

lemma PipelinesForSource_routing: "claimantOf c = \<lparr>sc_Kind = sc_Kind (claimantOf c), sc_Name = GetName c,
   sc_State = ClaimantRouting, sc_ConversationRef = [], sc_Reason = []\<rparr>"
  by (simp add: claimantOf_def)

lemma drop_signal_snd: "drop_signal d sig reason evcode detail s = (s', sig') \<Longrightarrow>
    sig' = sig\<lparr>sr_Phase := SignalDropped, sr_Reason := reason\<rparr>"
  by (simp add: drop_signal_def Let_def)

definition admitted_as :: "SignalRecord \<Rightarrow> Claimant list \<Rightarrow> SignalRecord \<Rightarrow> admission \<Rightarrow> bool" where
  "admitted_as sig wired sig' x \<longleftrightarrow>
     (case x of
        Inl e \<Rightarrow> sig' = sig
      | Inr (None, rb) \<Rightarrow> rb = None \<and> (\<exists>reason \<in> {''unaddressable'', ''unclaimed'', ''ambiguous'', ''cooldown'', ''capacity''}.
           sig' = sig\<lparr>sr_Phase := SignalDropped, sr_Reason := reason\<rparr>)
      | Inr (Some cs, rb) \<Rightarrow> sig' = sig \<and> cs \<noteq> [] \<and> (if sr_Kind sig = kindChat then length cs = 1 else cs = wired))"

lemma admit_capacity_as:
  assumes "admit_capacity d ch cs rb sig s = (s', sig', x)" "cs \<noteq> []"
    "if sr_Kind sig = kindChat then length cs = 1 else cs = wired"
  shows "admitted_as sig wired sig' x"
  using assms unfolding admit_capacity_def admitted_as_def
  by (auto split: if_splits prod.splits sum.splits bool.splits dest!: drop_signal_snd)

lemma admit_addressed_as:
  assumes "admit_addressed d ch name sig s = (s', sig', x)" "sr_Kind sig = kindChat"
  shows "admitted_as sig wired sig' x"
proof (cases "ResolveClaimant (d_Reader d) (rt_world s) name")
  case (Inl e)
  with assms show ?thesis by (auto simp: admit_addressed_def admitted_as_def)
next
  case (Inr t)
  show ?thesis
  proof (cases t)
    case None
    with assms Inr show ?thesis
      by (auto simp: admit_addressed_def admitted_as_def split: prod.splits dest!: drop_signal_snd)
  next
    case (Some target)
    with assms Inr have "admit_capacity d ch [target] None sig s = (s', sig', x)"
      by (simp add: admit_addressed_def)
    then show ?thesis by (rule admit_capacity_as) (simp_all add: assms(2))
  qed
qed

lemma admit_wired_as:
  assumes "admit_wired d ch src sig s = (s', sig', x)"
  shows "admitted_as sig (PipelinesForSource (d_Reader d) (rt_world s) (om_Name (ss_Meta src))) sig' x"
proof -
  let ?cs = "PipelinesForSource (d_Reader d) (rt_world s) (om_Name (ss_Meta src))"
  consider (none) "?cs = []" | (many) "?cs \<noteq> []" "sr_Kind sig = kindChat" "length ?cs > 1"
    | (one) "?cs \<noteq> []" "\<not> (sr_Kind sig = kindChat \<and> length ?cs > 1)" by blast
  then show ?thesis
  proof cases
    case none
    with assms show ?thesis
      by (auto simp: admit_wired_def admitted_as_def split: prod.splits dest!: drop_signal_snd)
  next
    case many
    with assms show ?thesis
      by (auto simp: admit_wired_def admitted_as_def split: prod.splits dest!: drop_signal_snd)
  next
    case one
    obtain s1 y where y: "spendCooldown d src sig s = (s1, y)" by fastforce
    have c: "if sr_Kind sig = kindChat then length ?cs = 1 else ?cs = ?cs"
      using one by (cases ?cs) auto
    show ?thesis
    proof (cases y)
      case (Inl e)
      with assms one y show ?thesis by (auto simp: admit_wired_def Let_def admitted_as_def)
    next
      case (Inr p)
      obtain b rb where p: "p = (b, rb)" by fastforce
      show ?thesis
      proof (cases b)
        case True
        with assms one y Inr p have "admit_capacity d ch ?cs rb sig s1 = (s', sig', x)"
          by (auto simp: admit_wired_def Let_def)
        then show ?thesis by (rule admit_capacity_as [OF _ one(1) c])
      next
        case False
        with assms one y Inr p show ?thesis by (auto simp: admit_wired_def Let_def admitted_as_def)
      qed
    qed
  qed
qed

lemma AddressedTarget_chat: "AddressedTarget sig = Some t \<Longrightarrow> sr_Kind sig = kindChat"
  by (auto simp: AddressedTarget_def split: if_splits)

lemma admit_as:
  assumes "admit d sig src s = (s', sig', x)"
  shows "admitted_as sig (PipelinesForSource (d_Reader d) (rt_world s) (om_Name (ss_Meta src))) sig' x"
proof -
  let ?ch = "if sr_Kind sig = kindChat then channelOf d sig (rt_world s) else None"
  show ?thesis
  proof (cases "sr_Kind sig = kindChat \<and> ?ch = None")
    case True
    with assms show ?thesis
      by (auto simp: admit_def admitted_as_def split: prod.splits dest!: drop_signal_snd)
  next
    case False
    show ?thesis
    proof (cases "AddressedTarget sig")
      case None
      with assms False have "admit_wired d ?ch src sig s = (s', sig', x)" unfolding admit_def Let_def by (simp split: if_splits)
      then show ?thesis by (rule admit_wired_as)
    next
      case (Some t)
      obtain name task where t: "t = (name, task)" by fastforce
      with assms False Some have "admit_addressed d ?ch name sig s = (s', sig', x)" unfolding admit_def Let_def by (simp split: if_splits)
      then show ?thesis by (rule admit_addressed_as) (rule AddressedTarget_chat [OF Some])
    qed
  qed
qed

lemma Admit_result:
  assumes "Admit d sig src s = (s', sig', res, e)"
  shows "if e \<noteq> None then sig' = sig \<and> res = zero_Result
      else if rs_Dropped res then rs_Rollback res = None
        \<and> (\<exists>reason \<in> {''unaddressable'', ''unclaimed'', ''ambiguous'', ''cooldown'', ''capacity''}.
             sig' = sig\<lparr>sr_Phase := SignalDropped, sr_Reason := reason\<rparr>)
      else (\<exists>cs. sig' = sig\<lparr>sr_Claimants := map claimantOf cs\<rparr> \<and> cs \<noteq> []
        \<and> (if sr_Kind sig = kindChat then length cs = 1
           else cs = PipelinesForSource (d_Reader d) (rt_world s) (om_Name (ss_Meta src))))"
proof -
  obtain s1 sig1 x where a: "admit d sig src s = (s1, sig1, x)" by (metis prod_cases3)
  note A = admit_as [OF a]
  consider (failed) x0 where "x = Inl x0" | (dropped) rb where "x = Inr (None, rb)"
    | (admitted) cs rb where "x = Inr (Some cs, rb)"
    by (metis old.prod.exhaust option.exhaust sum.exhaust_sel)
  then show ?thesis
  proof cases
    case failed
    with assms a have "sig' = sig1" "res = zero_Result" "e \<noteq> None" by (auto simp: Admit_def)
    with A failed show ?thesis by (simp add: admitted_as_def)
  next
    case dropped
    with assms a have "sig' = sig1" "res = zero_Result\<lparr>rs_Rollback := rb, rs_Dropped := True\<rparr>" "e = None"
      by (auto simp: Admit_def)
    with A dropped show ?thesis by (simp add: admitted_as_def)
  next
    case admitted
    with assms a have "sig' = sig1\<lparr>sr_Claimants := map claimantOf cs\<rparr>" "\<not> rs_Dropped res" "e = None"
      by (auto simp: Admit_def snapshot_def zero_Result_def)
    with A admitted show ?thesis by (auto simp: admitted_as_def)
  qed
qed

text \<open>
  \<open>Admit\<close> ends in exactly one of three ways. It fails and leaves the record as it was; it
  drops the signal with one of its five reasons, before any claimant was recorded; or it snapshots
  a claimant set that is never empty, every claimant still routing: for a machine signal all
  Ready claimants of its source in their order, for a chat message exactly one.
\<close>

theorem Admit_drops_or_snapshots:
  "case Admit d sig src s of (s', sig', res, e) \<Rightarrow>
     (if e \<noteq> None then sig' = sig \<and> res = zero_Result
      else if rs_Dropped res then rs_Rollback res = None
        \<and> (\<exists>reason \<in> {''unaddressable'', ''unclaimed'', ''ambiguous'', ''cooldown'', ''capacity''}.
             sig' = sig\<lparr>sr_Phase := SignalDropped, sr_Reason := reason\<rparr>)
      else (\<exists>cs. sig' = sig\<lparr>sr_Claimants := map claimantOf cs\<rparr> \<and> cs \<noteq> []
        \<and> (if sr_Kind sig = kindChat then length cs = 1
           else cs = PipelinesForSource (d_Reader d) (rt_world s) (om_Name (ss_Meta src)))))"
proof -
  obtain s' sig' res e where a: "Admit d sig src s = (s', sig', res, e)" by (metis prod_cases4)
  from Admit_result [OF a] show ?thesis unfolding a prod.case .
qed

lemma rt_book_simps [simp]:
  "rt_book (emit d e s) = rt_book s" "rt_book (tell d ch sig m s) = rt_book s"
  "rt_book (Loud d sig k c t s) = rt_book s" "rt_book (fst (on_world f s)) = rt_book s"
  "rt_book (recordCooldown d n cd s) = rt_book s"
  by (simp_all add: emit_def tell_def Loud_def on_world_def recordCooldown_def split: option.split prod.split)

lemma on_world_book: "on_world f s = (s', x) \<Longrightarrow> rt_book s' = rt_book s"
  by (auto simp: on_world_def split: prod.splits)

lemma BacklogFull_book: "BacklogFull d s = (s', x) \<Longrightarrow> rt_book s' = rt_book s"
  by (auto simp: BacklogFull_def split: prod.splits sum.splits dest: on_world_book)

lemma rollback_book:
  "rt_book (rollback d rb s) = (case rb of None \<Rightarrow> rt_book s
     | Some (n, i) \<Rightarrow> (case rt_book s n of None \<Rightarrow> rt_book s | Some cd \<Rightarrow> (rt_book s)(n \<mapsto> Release cd i)))"
  by (simp add: rollback_def Let_def split: option.split prod.split)

lemma spendCooldown_rollback:
  "spendCooldown d src sig s = (s', Inr (True, rb)) \<Longrightarrow>
     rb = None \<and> rt_book s' = rt_book s \<and> \<not> d_HasCooldowns d
     \<or> rb = Some (om_Name (ss_Meta src), sr_InitiationID sig) \<and> rt_book s' (om_Name (ss_Meta src)) \<noteq> None"
  by (auto simp: spendCooldown_def Let_def split: if_splits option.splits sum.splits prod.splits)

text \<open>The source's window does not hold the id: asking again would admit it.\<close>

definition not_spent :: "(string \<rightharpoonup> Cooldown) \<Rightarrow> string \<Rightarrow> string \<Rightarrow> bool" where
  "not_spent book source i =
     (case book source of None \<Rightarrow> True | Some cd \<Rightarrow> map_of (cd_seen cd) i = None)"

lemma Release_not_spent: "not_spent (book(n \<mapsto> Release cd i)) n i"
  by (simp add: not_spent_def Release_def delete_conv')

lemma drop_signal_book: "drop_signal d sig reason evcode detail s = (s', sig') \<Longrightarrow> rt_book s' = rt_book s"
  by (auto simp: drop_signal_def Let_def)

lemma admit_capacity_book:
  assumes "admit_capacity d ch cs rb sig s = (s', sig', x)" "x = Inl e \<or> x = Inr (None, rb')"
  shows "rt_book s' = rt_book (rollback d rb s)"
  using assms unfolding admit_capacity_def
  by (auto simp: rollback_book split: if_splits prod.splits sum.splits bool.splits option.splits
      dest!: drop_signal_book BacklogFull_book)

definition declined :: "SignalRecord \<Rightarrow> admission \<Rightarrow> bool" where
  "declined sig' x \<longleftrightarrow> (\<exists>e. x = Inl e) \<or> x = Inr (None, None) \<and> sr_Reason sig' = ''capacity''"

lemma declined_reason:
  "drop_signal d sig reason evcode detail s = (s', sig') \<Longrightarrow> reason \<noteq> ''capacity'' \<Longrightarrow> \<not> declined sig' (Inr (None, None))"
  by (auto simp: declined_def dest: drop_signal_snd)

lemma declined_book:
  assumes "admit_capacity d ch cs rb sig s = (s', sig', x)" "declined sig' x"
  shows "rt_book s' = rt_book (rollback d rb s)"
  using admit_capacity_book [OF assms(1), of _ None] assms(2) by (auto simp: declined_def)

lemma admit_addressed_declined:
  assumes "admit_addressed d ch name sig s = (s', sig', x)" "declined sig' x"
  shows "rt_book s' = rt_book s"
proof (cases "ResolveClaimant (d_Reader d) (rt_world s) name")
  case (Inl e)
  with assms show ?thesis by (simp add: admit_addressed_def)
next
  case (Inr t)
  show ?thesis
  proof (cases t)
    case None
    with assms Inr show ?thesis
      by (auto simp: admit_addressed_def split: prod.splits dest: declined_reason)
  next
    case (Some target)
    with assms Inr have "admit_capacity d ch [target] None sig s = (s', sig', x)"
      by (simp add: admit_addressed_def)
    from declined_book [OF this assms(2)] show ?thesis by (simp add: rollback_def)
  qed
qed

lemma spendCooldown_failed: "spendCooldown d src sig s = (s', Inl e) \<Longrightarrow> rt_book s' = rt_book s"
  by (auto simp: spendCooldown_def recoverCooldown_def Let_def For_store_def
      split: if_splits option.splits sum.splits prod.splits dest: on_world_book)

lemma admit_wired_declined:
  assumes "admit_wired d ch src sig s = (s', sig', x)" "declined sig' x"
  shows "rt_book s' = rt_book s \<or> not_spent (rt_book s') (om_Name (ss_Meta src)) (sr_InitiationID sig)"
proof -
  let ?cs = "PipelinesForSource (d_Reader d) (rt_world s) (om_Name (ss_Meta src))"
  consider (none) "?cs = []" | (many) "?cs \<noteq> []" "sr_Kind sig = kindChat" "length ?cs > 1"
    | (one) "?cs \<noteq> []" "\<not> (sr_Kind sig = kindChat \<and> length ?cs > 1)" by blast
  then show ?thesis
  proof cases
    case none
    with assms show ?thesis by (auto simp: admit_wired_def split: prod.splits dest: declined_reason)
  next
    case many
    with assms show ?thesis by (auto simp: admit_wired_def split: prod.splits dest: declined_reason)
  next
    case one
    obtain s1 y where y: "spendCooldown d src sig s = (s1, y)" by fastforce
    show ?thesis
    proof (cases y)
      case (Inl e)
      with assms one y show ?thesis by (auto simp: admit_wired_def Let_def dest: spendCooldown_failed)
    next
      case (Inr p)
      obtain b rb where p: "p = (b, rb)" by fastforce
      with assms one y Inr have b: "b" "admit_capacity d ch ?cs rb sig s1 = (s', sig', x)"
        by (cases b; auto simp: admit_wired_def Let_def declined_def)+
      from declined_book [OF b(2) assms(2)] spendCooldown_rollback [of d src sig s s1 rb] y Inr p b(1)
      show ?thesis by (auto simp: rollback_book Release_not_spent split: option.splits)
    qed
  qed
qed

text \<open>Samples to evaluate the routing on: a source nobody knows, one pipeline, an empty process memory.\<close>

definition no_signals :: "'w SignalStore" where
  "no_signals = \<lparr>sst_Get = (\<lambda>w k. (w, Inl ErrNotFound)), sst_Create = (\<lambda>w k r. (w, Inl ErrNotFound)),
     sst_Update = (\<lambda>w k v r. (w, Inl ErrNotFound)), sst_Delete = (\<lambda>w k. (w, Inr ())),
     sst_List = (\<lambda>w i k. (w, Inr [])), sst_GetCooldown = (\<lambda>w n. (w, Inr [])),
     sst_PutCooldown = (\<lambda>w n es. (w, Inr ())), sst_RecordReceived = (\<lambda>w n t. (w, Inr ())),
     sst_GetReceived = (\<lambda>w n. (w, Inl ErrNotFound)), sst_ReleaseSource = (\<lambda>w n i. (w, Inr ()))\<rparr>"

definition no_reader :: "'w Reader" where
  "no_reader = \<lparr>rd_ListPipelines = (\<lambda>w. Inr []), rd_ListCoordinators = (\<lambda>w. Inr []),
     rd_GetPipeline = (\<lambda>w n. Inr None), rd_GetCoordinator = (\<lambda>w n. Inr None),
     rd_GetCapability = (\<lambda>w n. Inr None), rd_ProfileRuntime = (\<lambda>w n. Inr None),
     rd_RuntimeExists = (\<lambda>w n. Inr False), rd_ChannelExists = (\<lambda>w n. Inr False)\<rparr>"

definition sample_deps :: "'w Store \<Rightarrow> 'w Deps" where
  "sample_deps s = \<lparr>d_Signals = no_signals, d_Store = s, d_Reader = no_reader, d_HasOps = True,
     d_HasCooldowns = True, d_Runtime = \<lparr>df_ContextPVC = [], df_WorkspacePVC = []\<rparr>, d_MaxQueued = 2,
     d_Now = (\<lambda>w n. 5), d_Sleep = (\<lambda>w n. (w, None))\<rparr>"

definition sample_capability :: AgentCapabilitySpec where
  "sample_capability = \<lparr>ac_ProfileRef = None, ac_RuntimeRef = None, ac_ServiceAccountName = [],
     ac_Toolsets = None, ac_MCPConfigs = None, ac_Persistence = None\<rparr>"

definition sample_pipeline :: Claimant where
  "sample_pipeline = pipelineClaimant \<lparr>pl_Name = ''p'', pl_CreationTimestamp = 0, pl_Icon = [],
     pl_SignalSourceRefs = [], pl_ChannelRefs = [], pl_Capability = sample_capability, pl_AgentRef = None,
     pl_Conditions = []\<rparr>"

definition sample_state :: "'w \<Rightarrow> 'w RW" where
  "sample_state w = \<lparr>rt_world = w, rt_book = Map.empty, rt_log = None, rt_told = []\<rparr>"

text \<open>
  A chat message declined because the backlog is full leaves its id unspent: the person who tries
  again is not suppressed by the attempt that was declined. The same holds when the backlog could not be
  read. For an addressed message the cooldown was never consulted and the book is untouched.
\<close>

theorem declined_message_is_not_spent:
  assumes "admit d sig src s = (s', sig', x)"
    and "(\<exists>e. x = Inl e) \<or> x = Inr (None, None) \<and> sr_Reason sig' = ''capacity''"
  shows "rt_book s' = rt_book s \<or> not_spent (rt_book s') (om_Name (ss_Meta src)) (sr_InitiationID sig)"
proof -
  let ?ch = "if sr_Kind sig = kindChat then channelOf d sig (rt_world s) else None"
  have dec: "declined sig' x" using assms(2) by (simp add: declined_def)
  show ?thesis
  proof (cases "sr_Kind sig = kindChat \<and> ?ch = None")
    case True
    with assms(1) dec show ?thesis by (auto simp: admit_def split: prod.splits dest: declined_reason)
  next
    case False
    show ?thesis
    proof (cases "AddressedTarget sig")
      case None
      with assms(1) False have "admit_wired d ?ch src sig s = (s', sig', x)"
        unfolding admit_def Let_def by (simp split: if_splits)
      from admit_wired_declined [OF this dec] show ?thesis .
    next
      case (Some t)
      obtain name task where t: "t = (name, task)" by fastforce
      with assms(1) False Some have "admit_addressed d ?ch name sig s = (s', sig', x)"
        unfolding admit_def Let_def by (simp split: if_splits)
      from admit_addressed_declined [OF this dec] show ?thesis by blast
    qed
  qed
qed

definition chat_sample :: SignalRecord where
  "chat_sample = (sample_signal ''s'' 1)\<lparr>sr_Kind := kindChat, sr_Payload := ''hello'', sr_InitiationID := ''i'',
     sr_Labels := [LabelChatChannel \<mapsto> ''ch'']\<rparr>"

definition source_sample :: SignalSource where
  "source_sample = \<lparr>ss_Meta = zero_meta\<lparr>om_Name := ''src''\<rparr>, ss_CooldownHours = 1,
     ss_Status = \<lparr>sst_LastReceived = None, sst_ReceivedTotal = 0, sst_Cooldown = []\<rparr>\<rparr>"

definition ready_reader :: "'w Reader" where
  "ready_reader = no_reader\<lparr>rd_ChannelExists := (\<lambda>w n. Inr True),
     rd_ListPipelines := (\<lambda>w. Inr [\<lparr>pl_Name = ''p'', pl_CreationTimestamp = 0, pl_Icon = [],
       pl_SignalSourceRefs = [\<lparr>obj_Name = ''src''\<rparr>], pl_ChannelRefs = [], pl_Capability = sample_capability,
       pl_AgentRef = None, pl_Conditions = [\<lparr>mc_Type = ''Ready'', mc_Status = ''True'', mc_Reason = [],
         mc_Message = [], mc_ObservedGeneration = 0, mc_LastTransitionTime = 0\<rparr>]\<rparr>])\<rparr>"

lemma chat_sample_unaddressed: "AddressedTarget chat_sample = None"
proof -
  have "Parse (trim_space ''hello'') = None" by code_simp
  then show ?thesis by (simp add: AddressedTarget_def chat_sample_def)
qed

lemma chat_sample_fields: "sr_Kind chat_sample = kindChat" "sr_InitiationID chat_sample = ''i''"
  "sr_Labels chat_sample = [LabelChatChannel \<mapsto> ''ch'']"
  by (simp_all add: chat_sample_def sample_signal_def)

text \<open>Two pending conversations fill the backlog: the message is declined and its id given back.\<close>

theorem declined_message_is_not_spent_witness:
  "\<exists>s' sig' x. admit (sample_deps names_store \<lparr>d_Reader := ready_reader\<rparr>) chat_sample source_sample
      (sample_state [zero_record, zero_record]) = (s', sig', x) \<and> sr_Reason sig' = ''capacity''
    \<and> rt_book s' ''src'' \<noteq> None
    \<and> (rt_book s' = Map.empty \<or> not_spent (rt_book s') ''src'' ''i'')"
proof -
  let ?d = "sample_deps names_store \<lparr>d_Reader := ready_reader\<rparr>"
  let ?s = "sample_state [zero_record, zero_record]"
  obtain s' sig' x where a: "admit ?d chat_sample source_sample ?s = (s', sig', x)" by (metis prod_cases3)
  then have x: "x = Inr (None, None) \<and> sr_Reason sig' = ''capacity'' \<and> rt_book s' ''src'' \<noteq> None"
    by (auto simp: admit_def chat_sample_unaddressed chat_sample_fields channelOf_def sample_deps_def
        ready_reader_def no_reader_def admit_wired_def PipelinesForSource_def readyPipelines_def readyCoordinators_def
        IsStatusConditionTrue_def source_sample_def zero_meta_def spendCooldown_def recoverCooldown_def For_lookup_def
        For_store_def sample_state_def on_world_def no_signals_def NewCooldownFrom_def NewCooldown_def Fresh_def
        admit_capacity_def BacklogFull_def names_store_def drop_signal_def Let_def Loud_def rollback_book
        recordCooldown_def rollback_def tell_def emit_def wrap64_def hour_def)
  have n: "om_Name (ss_Meta source_sample) = ''src''" "rt_book ?s = Map.empty"
    by (simp_all add: source_sample_def sample_state_def)
  from x have "(\<exists>e. x = Inl e) \<or> x = Inr (None, None) \<and> sr_Reason sig' = ''capacity''" by simp
  from declined_message_is_not_spent [OF a this] a x show ?thesis
    unfolding n chat_sample_fields by blast
qed

text \<open>
  A conversation \<open>Route\<close> creates is one a repeated pass of the same signal finds again: it carries the
  signal's id, it is not closed, it belongs to the claimant that created it and to no other kind, and, for an
  addressed message, the channel it was typed on is bound.
\<close>

theorem created_conversation_is_reusable:
  assumes "GetName claimant \<noteq> []"
  shows "let conv = conversation_for d claimant sig capability w in
      cr_ConversationID conv = sr_InitiationID sig \<and> cr_Phase conv \<noteq> PhaseClosed
    \<and> (reusableBy conv other \<longleftrightarrow> claimant_kind other = claimant_kind claimant \<and> GetName other = GetName claimant)
    \<and> (snd (messageOf sig) \<longrightarrow> label (sr_Labels sig) LabelChatChannel = []
          \<or> label (sr_Labels sig) LabelChatChannel \<in> set (cr_ChannelRefs conv))
    \<and> set (BoundChannelRefs claimant) \<subseteq> set (cr_ChannelRefs conv)"
  using assms
  by (cases claimant; cases other)
    (auto simp: conversation_for_def Let_def reusableBy_def zero_record_def withChannel_def split: option.splits)

theorem created_conversation_is_reusable_witness:
  "let conv = conversation_for (sample_deps names_store) sample_pipeline chat_sample sample_capability [] in
      cr_ConversationID conv = ''i'' \<and> cr_Phase conv \<noteq> PhaseClosed \<and> reusableBy conv sample_pipeline"
proof -
  have "GetName sample_pipeline \<noteq> []" by (simp add: sample_pipeline_def)
  from created_conversation_is_reusable [OF this, of "sample_deps names_store" chat_sample sample_capability "[]" sample_pipeline]
  show ?thesis by (simp add: Let_def chat_sample_def sample_signal_def)
qed

end
