(* ===== verification/RouteLaws.thy ===== *)
theory RouteLaws
  imports RouteFacts KubeServer
begin

text \<open>
  Delivery through the store: the contract \<open>appendInput\<close> relies on, its lemma proved once over
  that contract, and the interpretation by the kube backend, for which the API server's laws
  are extended by one: writing a ConversationInput leaves the conversations.
\<close>

section \<open>The contract\<close>





lemma rt_world_emit [simp]: "rt_world (emit d e s) = rt_world s"
  by (simp add: emit_def)



section \<open>The kube backend provides it\<close>





section \<open>Property\<close>





end
