(* ===== verification/SignalConsumer.thy ===== *)
theory SignalConsumer
  imports RouteFacts
begin

text \<open>
  The Signal consumer and its housekeeping, \<open>internal/controller/signal_controller.go\<close>: one pass of
  \<open>Reconcile\<close> over one Signal. Beside the routing state the leader keeps the set of keys its passes
  hold and the channel that kicks other passes (64 places). Every write of a pass carries the
  revision of the one before. \<open>Reconcile\<close> runs under the work queue, one pass per Signal; what other
  workers and replicas do meanwhile is in the world the operations act on.
\<close>

section \<open>Durations as text\<close>

text \<open>\<open>Duration.String\<close> and \<open>Duration.Round\<close>.\<close>

definition frac_digits :: "nat \<Rightarrow> int \<Rightarrow> string" where
  "frac_digits prec r =
     (if r = 0 then [] else CHR ''.'' # rev (dropWhile (\<lambda>c. c = CHR ''0'') (rev (pad prec r))))"

definition duration_string :: "duration \<Rightarrow> string" where
  "duration_string d =
     (if d = 0 then ''0s''
      else let u = \<bar>d\<bar>; sign = (if d < 0 then ''-'' else []) in
        if u < 1000 then sign @ itoa u @ ''ns''
        else if u < 1000000 then sign @ itoa (u div 1000) @ frac_digits 3 (u mod 1000) @ runes_string [181] @ ''s''
        else if u < 1000000000 then sign @ itoa (u div 1000000) @ frac_digits 6 (u mod 1000000) @ ''ms''
        else let secs = u div 1000000000; mins = secs div 60; hours = mins div 60;
                 s = itoa (secs mod 60) @ frac_digits 9 (u mod 1000000000) @ ''s'';
                 m = (if mins > 0 then itoa (mins mod 60) @ ''m'' @ s else s);
                 h = (if hours > 0 then itoa hours @ ''h'' @ m else m)
             in sign @ h)"

definition duration_round :: "duration \<Rightarrow> duration \<Rightarrow> duration" where
  "duration_round d m =
     (let r = \<bar>d\<bar> mod m; a = (if r + r < m then \<bar>d\<bar> - r else \<bar>d\<bar> + m - r)
      in if m \<le> 0 then d else if d < 0 then max min_duration (- a) else min max_duration a)"

section \<open>The reconciler\<close>

definition DefaultSignalTTLRouted :: duration where "DefaultSignalTTLRouted = 8 * hour"
definition DefaultSignalTTLDropped :: duration where "DefaultSignalTTLDropped = 4 * hour"
definition DefaultSignalTTLFailed :: duration where "DefaultSignalTTLFailed = 72 * hour"
definition DefaultSignalRetryDeadline :: duration where "DefaultSignalRetryDeadline = hour"
definition DefaultMaxSignalsPerSource :: int where "DefaultMaxSignalsPerSource = 200"
definition DefaultSignalRetryInterval :: duration where "DefaultSignalRetryInterval = 30 * second"
definition defaultOrderRetry :: duration where "defaultOrderRetry = second"

record 'w SignalReconciler =
  r_Deps :: "'w Deps"
  r_GetSource :: "'w \<Rightarrow> string \<Rightarrow> SignalSource option result"
  r_LeaseHolder :: "'w \<Rightarrow> string option"
  r_Identity :: string
  r_RetryDeadline :: duration
  r_MaxPerSource :: int
  r_TTLRouted :: duration
  r_TTLDropped :: duration
  r_TTLFailed :: duration
  r_RetryInterval :: duration
  r_OrderRetry :: duration
  r_Now :: "'w \<Rightarrow> go_time"
  r_HasKick :: bool

record 'w RS =
  rq_rw :: "'w RW"
  rq_held :: "string set"
  rq_kicks :: "string list"

text \<open>What a reconcile returns to the work queue.\<close>

datatype outcome = Done | RequeueAfter duration | Failed err

definition orDuration :: "duration \<Rightarrow> duration \<Rightarrow> duration" where
  "orDuration v d = (if v > 0 then v else d)"

definition retryDeadline :: "'w SignalReconciler \<Rightarrow> duration" where
  "retryDeadline r = orDuration (r_RetryDeadline r) DefaultSignalRetryDeadline"

definition retryInterval :: "'w SignalReconciler \<Rightarrow> duration" where
  "retryInterval r = orDuration (r_RetryInterval r) DefaultSignalRetryInterval"

definition orderRetry :: "'w SignalReconciler \<Rightarrow> duration" where
  "orderRetry r = orDuration (r_OrderRetry r) defaultOrderRetry"

definition maxPerSource :: "'w SignalReconciler \<Rightarrow> int" where
  "maxPerSource r = (if r_MaxPerSource r > 0 then r_MaxPerSource r else DefaultMaxSignalsPerSource)"

definition ttlFor :: "'w SignalReconciler \<Rightarrow> string \<Rightarrow> duration" where
  "ttlFor r phase =
     (if phase = SignalDropped then orDuration (r_TTLDropped r) DefaultSignalTTLDropped
      else if phase = SignalFailed then orDuration (r_TTLFailed r) DefaultSignalTTLFailed
      else orDuration (r_TTLRouted r) DefaultSignalTTLRouted)"

record signalPass =
  sp_key :: key
  sp_rec :: SignalRecord
  sp_rev :: revision

text \<open>An operation of the routing state, inside the reconciler's.\<close>

definition on_rw :: "('w RW \<Rightarrow> 'w RW \<times> 'a) \<Rightarrow> 'w RS \<Rightarrow> 'w RS \<times> 'a" where
  "on_rw f s = (case f (rq_rw s) of (rw, x) \<Rightarrow> (s\<lparr>rq_rw := rw\<rparr>, x))"

abbreviation world_of :: "'w RS \<Rightarrow> 'w" where
  "world_of s \<equiv> rt_world (rq_rw s)"

definition write_pass :: "'w SignalReconciler \<Rightarrow> signalPass \<Rightarrow> 'w RS \<Rightarrow> 'w RS \<times> signalPass \<times> err option" where
  "write_pass r p s =
     (case on_rw (on_world (\<lambda>w. sst_Update (d_Signals (r_Deps r)) w (sp_key p) (sp_rev p) (sp_rec p))) s of
        (s, Inl e) \<Rightarrow> (s, p, Some e)
      | (s, Inr v) \<Rightarrow> (s, p\<lparr>sp_rev := v\<rparr>, None))"

definition outcome_of :: "err option \<Rightarrow> outcome" where
  "outcome_of e = (case e of None \<Rightarrow> Done | Some x \<Rightarrow> Failed x)"

section \<open>Stamps\<close>

definition truncate_second :: "go_time \<Rightarrow> go_time" where
  "truncate_second t = t - t mod second"

definition stampAttempt :: "'w SignalReconciler \<Rightarrow> 'w \<Rightarrow> SignalRecord \<Rightarrow> SignalRecord" where
  "stampAttempt r w sig =
     (let sig = sig\<lparr>sr_Attempts := sr_Attempts sig + 1\<rparr> in
      if sr_FirstAttemptAt sig = None then sig\<lparr>sr_FirstAttemptAt := Some (truncate_second (r_Now r w))\<rparr> else sig)"

definition consumer :: "'w SignalReconciler \<Rightarrow> 'w \<Rightarrow> string" where
  "consumer r w =
     (case r_LeaseHolder r w of Some h \<Rightarrow> if h \<noteq> [] then h else r_Identity r | None \<Rightarrow> r_Identity r)"

definition finishIfTerminal :: "'w SignalReconciler \<Rightarrow> 'w \<Rightarrow> SignalRecord \<Rightarrow> SignalRecord" where
  "finishIfTerminal r w sig =
     (if \<not> sr_Terminal sig \<or> sr_CompletedAt sig \<noteq> None then sig
      else let now = truncate_second (r_Now r w) in
        sig\<lparr>sr_CompletedAt := Some now, sr_ConsumedAt := Some now, sr_ConsumedBy := consumer r w,
            sr_ExpiresAt := Some (now + ttlFor r (sr_Phase sig))\<rparr>)"

definition failRouting :: "SignalRecord \<Rightarrow> string \<Rightarrow> SignalRecord" where
  "failRouting sig reason =
     (let cs = map (\<lambda>c. if sc_State c = ClaimantRouting then c\<lparr>sc_State := ClaimantFailed, sc_Reason := reason\<rparr> else c)
                 (sr_Claimants sig)
      in sig\<lparr>sr_Claimants := cs, sr_Phase := SignalRollupPhase cs\<rparr>)"

definition surface :: "'w SignalReconciler \<Rightarrow> SignalRecord \<Rightarrow> string \<Rightarrow> string \<Rightarrow> string \<Rightarrow> 'w RS \<Rightarrow> 'w RS" where
  "surface r sig failCode dropCode detail s =
     (if sr_Phase sig = SignalDropped
      then s\<lparr>rq_rw := Loud (r_Deps r) sig KindSignalDropped dropCode detail (rq_rw s)\<rparr>
      else if sr_Phase sig = SignalFailed
      then s\<lparr>rq_rw := Loud (r_Deps r) sig KindSignalFailed failCode detail (rq_rw s)\<rparr>
      else s)"

text \<open>The end housekeeping puts to a live signal: a drop before fan-out, failed claimants after it.\<close>

definition terminate_as :: "SignalRecord \<Rightarrow> string \<Rightarrow> string \<Rightarrow> SignalRecord" where
  "terminate_as sig dropReason failReason =
     (if sr_Claimants sig = [] then sig\<lparr>sr_Phase := SignalDropped, sr_Reason := dropReason\<rparr>
      else failRouting sig failReason)"

section \<open>Housekeeping\<close>

definition reconcileTerminal :: "'w SignalReconciler \<Rightarrow> signalPass \<Rightarrow> 'w RS \<Rightarrow> 'w RS \<times> outcome" where
  "reconcileTerminal r p s =
     (let sig = sp_rec p;
          (sig, stamped) = (case sr_CompletedAt sig of
              Some _ \<Rightarrow> (sig, False)
            | None \<Rightarrow> (sig\<lparr>sr_CompletedAt := Some (case sr_FirstAttemptAt sig of Some t \<Rightarrow> t | None \<Rightarrow> sr_CreatedAt sig)\<rparr>, True));
          (sig, stamped) = (case (sr_ExpiresAt sig, sr_CompletedAt sig) of
              (None, Some at) \<Rightarrow> (sig\<lparr>sr_ExpiresAt := Some (at + ttlFor r (sr_Phase sig))\<rparr>, True)
            | _ \<Rightarrow> (sig, stamped))
      in if \<not> stamped then (s, Done)
         else (case write_pass r (p\<lparr>sp_rec := sig\<rparr>) s of (s, _, e) \<Rightarrow> (s, outcome_of (IgnoreNotFound e))))"

definition exhaust_reason :: "'w SignalReconciler \<Rightarrow> duration \<Rightarrow> string" where
  "exhaust_reason r elapsed = ''retry deadline exceeded after '' @ duration_string (duration_round elapsed second)
     @ '' (limit '' @ duration_string (retryDeadline r) @ '')''"

definition exhaust :: "'w SignalReconciler \<Rightarrow> signalPass \<Rightarrow> duration \<Rightarrow> 'w RS \<Rightarrow> 'w RS \<times> outcome" where
  "exhaust r p elapsed s =
     (let reason = exhaust_reason r elapsed;
          sig = finishIfTerminal r (world_of s) (terminate_as (sp_rec p) ''exhausted'' reason) in
      case write_pass r (p\<lparr>sp_rec := sig\<rparr>) s of
        (s, _, Some e) \<Rightarrow> (s, Failed e)
      | (s, _, None) \<Rightarrow> (surface r sig ''retry-exhausted'' ''exhausted'' reason s, Done))"

definition kickSignal :: "'w SignalReconciler \<Rightarrow> SignalRecord \<Rightarrow> 'w RS \<Rightarrow> 'w RS" where
  "kickSignal r victim s =
     (if \<not> r_HasKick r then s
      else if length (rq_kicks s) < 64 then s\<lparr>rq_kicks := rq_kicks s @ [sr_Name victim]\<rparr> else s)"

definition evict_reason :: string where
  "evict_reason = ''evicted: per-source signal cap exceeded (overflow)''"

definition evict :: "'w SignalReconciler \<Rightarrow> signalPass \<Rightarrow> 'w RS \<Rightarrow> 'w RS \<times> signalPass \<times> err option" where
  "evict r p s =
     (let sig = finishIfTerminal r (world_of s) (terminate_as (sp_rec p) ''overflow'' evict_reason) in
      case write_pass r (p\<lparr>sp_rec := sig\<rparr>) s of
        (s, p, Some e) \<Rightarrow> (s, p, Some e)
      | (s, p, None) \<Rightarrow> (surface r sig ''overflow'' ''overflow'' evict_reason s, p, None))"

text \<open>The loop over the oldest signals; its value says whether this pass evicted its own.\<close>

fun evict_oldest :: "'w SignalReconciler \<Rightarrow> signalPass \<Rightarrow> SignalRecord list \<Rightarrow> bool \<Rightarrow> 'w RS
    \<Rightarrow> 'w RS \<times> bool result" where
  "evict_oldest r p [] evicted s = (s, Inr evicted)"
| "evict_oldest r p (victim # rest) evicted s =
     (if sr_Name victim \<noteq> sr_Name (sp_rec p) then evict_oldest r p rest evicted (kickSignal r victim s)
      else (case evict r p s of
         (s, p, Some e) \<Rightarrow> (s, Inl e)
       | (s, p, None) \<Rightarrow> evict_oldest r p rest True s))"

definition enforceSourceCap :: "'w SignalReconciler \<Rightarrow> signalPass \<Rightarrow> 'w RS \<Rightarrow> 'w RS \<times> bool result" where
  "enforceSourceCap r p s =
     (let sig = sp_rec p in
      case on_rw (on_world (\<lambda>w. sst_List (d_Signals (r_Deps r)) w SignalNonTerminalBySource
             \<lparr>slk_Source = sr_SourceRef sig, slk_InitiationID = []\<rparr>)) s of
        (s, Inl e) \<Rightarrow> (s, Inl e)
      | (s, Inr others) \<Rightarrow>
          (let live = sig # filter (\<lambda>o'. sr_Name o' \<noteq> sr_Name sig) others;
               over = int (length live) - maxPerSource r in
           if over \<le> 0 then (s, Inr False)
           else evict_oldest r p (take (nat over) (sort_key arrival_of live)) False s))"

section \<open>The consumer\<close>

definition acquire :: "string \<Rightarrow> 'w RS \<Rightarrow> 'w RS \<times> bool" where
  "acquire key s = (if key \<in> rq_held s then (s, False) else (s\<lparr>rq_held := insert key (rq_held s)\<rparr>, True))"

definition release :: "string \<Rightarrow> 'w RS \<Rightarrow> 'w RS" where
  "release key s = s\<lparr>rq_held := rq_held s - {key}\<rparr>"

definition isHead :: "'w SignalReconciler \<Rightarrow> SignalRecord \<Rightarrow> 'w RS \<Rightarrow> 'w RS \<times> bool result" where
  "isHead r sig s =
     (case on_rw (on_world (\<lambda>w. sst_List (d_Signals (r_Deps r)) w SignalNonTerminalByInitiation
             \<lparr>slk_Source = sr_SourceRef sig, slk_InitiationID = sr_InitiationID sig\<rparr>)) s of
        (s, Inl e) \<Rightarrow> (s, Inl (Wrapped (''list signals of '' @ sr_InitiationID sig) e))
      | (s, Inr live) \<Rightarrow>
          (s, Inr (list_all (\<lambda>l. \<not> (sr_Name l \<noteq> sr_Name sig \<and> SignalArrivesBefore l sig)) live)))"

text \<open>The second half of \<open>consume\<close>: the claimants are recorded; route them.\<close>

definition consume_route :: "'w SignalReconciler \<Rightarrow> signalPass \<Rightarrow> SignalSource \<Rightarrow> 'w RS \<Rightarrow> 'w RS \<times> outcome" where
  "consume_route r p src s =
     (case on_rw (Route (r_Deps r) (sp_rec p)) s of
        (s, sig, res, procErr) \<Rightarrow>
          (let sig = finishIfTerminal r (world_of s) sig in
           case write_pass r (p\<lparr>sp_rec := sig\<rparr>) s of
             (s, _, Some e) \<Rightarrow> (s, Failed e)
           | (s, _, None) \<Rightarrow>
              (case procErr of
                 Some e \<Rightarrow> (s, Failed e)
               | None \<Rightarrow>
                  (let s = (if rs_FirstRouted res
                            then fst (on_rw (RecordReceived (r_Deps r) (om_Name (ss_Meta src))) s) else s);
                       s = (if sr_Phase sig = SignalFailed
                            then s\<lparr>rq_rw := Loud (r_Deps r) sig KindSignalFailed ''skipped''
                                    ''every claimant resolved without routing the signal'' (rq_rw s)\<rparr> else s)
                   in (s, if rs_Wait res \<and> \<not> sr_Terminal sig then RequeueAfter (retryInterval r) else Done)))))"

definition consume :: "'w SignalReconciler \<Rightarrow> signalPass \<Rightarrow> SignalSource \<Rightarrow> 'w RS \<Rightarrow> 'w RS \<times> outcome" where
  "consume r p src s =
     (let sig = stampAttempt r (world_of s) (sp_rec p) in
      if sr_Claimants sig \<noteq> [] then consume_route r (p\<lparr>sp_rec := sig\<rparr>) src s
      else (case on_rw (Admit (r_Deps r) sig src) s of
         (s, sig, res, Some e) \<Rightarrow>
           (case write_pass r (p\<lparr>sp_rec := sig\<rparr>) s of (s, _, _) \<Rightarrow>
              (s\<lparr>rq_rw := rollback (r_Deps r) (rs_Rollback res) (rq_rw s)\<rparr>, Failed e))
       | (s, sig, res, None) \<Rightarrow>
           (let sig = finishIfTerminal r (world_of s) sig in
            case write_pass r (p\<lparr>sp_rec := sig\<rparr>) s of
              (s, p, Some e) \<Rightarrow> (s\<lparr>rq_rw := rollback (r_Deps r) (rs_Rollback res) (rq_rw s)\<rparr>, Failed e)
            | (s, p, None) \<Rightarrow> if rs_Dropped res then (s, Done) else consume_route r p src s)))"

definition releaseOrphans :: "'w SignalReconciler \<Rightarrow> string \<Rightarrow> string \<Rightarrow> 'w RS \<Rightarrow> 'w RS \<times> outcome" where
  "releaseOrphans r source sourceID s =
     (case on_rw (on_world (\<lambda>w. sst_ReleaseSource (d_Signals (r_Deps r)) w source sourceID)) s of
        (s, Inl e) \<Rightarrow> (s, Failed e) | (s, Inr _) \<Rightarrow> (s, Done))"

definition order_key :: "SignalRecord \<Rightarrow> string" where
  "order_key sig = sr_SourceRef sig @ [char_of (0::int)] @ sr_InitiationID sig"

text \<open>The pass under its key: the head of its conversation consumes, any other waits its turn.\<close>

definition take_turn :: "'w SignalReconciler \<Rightarrow> signalPass \<Rightarrow> SignalSource \<Rightarrow> 'w RS \<Rightarrow> 'w RS \<times> outcome" where
  "take_turn r p src s =
     (case acquire (order_key (sp_rec p)) s of
        (s, False) \<Rightarrow> (s, RequeueAfter (orderRetry r))
      | (s, True) \<Rightarrow>
          (case (case isHead r (sp_rec p) s of
                   (s, Inl e) \<Rightarrow> (s, Failed e)
                 | (s, Inr False) \<Rightarrow> (s, RequeueAfter (orderRetry r))
                 | (s, Inr True) \<Rightarrow> consume r p src s) of
             (s, out) \<Rightarrow> (release (order_key (sp_rec p)) s, out)))"

definition reconcileLive :: "'w SignalReconciler \<Rightarrow> signalPass \<Rightarrow> 'w RS \<Rightarrow> 'w RS \<times> outcome" where
  "reconcileLive r p s =
     (case r_GetSource r (world_of s) (sr_SourceRef (sp_rec p)) of
        Inl e \<Rightarrow> (s, Failed e)
      | Inr None \<Rightarrow> releaseOrphans r (sr_SourceRef (sp_rec p)) (sr_SourceID (sp_rec p)) s
      | Inr (Some src) \<Rightarrow>
         (case enforceSourceCap r p s of
            (s, Inl e) \<Rightarrow> (s, Failed e)
          | (s, Inr True) \<Rightarrow> (s, Done)
          | (s, Inr False) \<Rightarrow>
             (case sr_FirstAttemptAt (sp_rec p) of
                None \<Rightarrow> take_turn r p src s
              | Some first \<Rightarrow>
                  (let elapsed = time_sub (r_Now r (world_of s)) first in
                   if elapsed \<ge> retryDeadline r then exhaust r p elapsed s else take_turn r p src s))))"

definition Reconcile :: "'w SignalReconciler \<Rightarrow> key \<Rightarrow> 'w RS \<Rightarrow> 'w RS \<times> outcome" where
  "Reconcile r key s =
     (case on_rw (on_world (\<lambda>w. sst_Get (d_Signals (r_Deps r)) w key)) s of
        (s, Inl e) \<Rightarrow> (s, outcome_of (IgnoreNotFound (Some e)))
      | (s, Inr (rec, v)) \<Rightarrow>
          (let p = \<lparr>sp_key = key, sp_rec = rec, sp_rev = v\<rparr> in
           if sr_Terminal rec then reconcileTerminal r p s else reconcileLive r p s))"

end
