(* ===== verification/RouteFrames.thy ===== *)
theory RouteFrames
  imports RouteFacts
begin

text \<open>
  What the routing leaves alone: a property of the world that every operation it calls keeps is kept
  by a whole admission and a whole routing pass. The consumer's invariants rest on it.
\<close>

definition keeps :: "('w \<Rightarrow> bool) \<Rightarrow> ('w \<Rightarrow> 'w \<times> 'a) \<Rightarrow> bool" where
  "keeps I f \<longleftrightarrow> (\<forall>w w' x. I w \<longrightarrow> f w = (w', x) \<longrightarrow> I w')"

lemma keepsD [frame_rules]: "keeps I f \<Longrightarrow> I w \<Longrightarrow> f w = (w', x) \<Longrightarrow> I w'"
  by (auto simp: keeps_def)

text \<open>Every operation the routing uses, the compare-and-swap of a signal excepted.\<close>

definition deps_keep :: "('w \<Rightarrow> bool) \<Rightarrow> 'w Deps \<Rightarrow> bool" where
  "deps_keep I d \<longleftrightarrow>
     (\<forall>k. keeps I (\<lambda>w. st_Get (d_Store d) w k)) \<and> (\<forall>k r. keeps I (\<lambda>w. st_Create (d_Store d) w k r))
   \<and> (\<forall>k v r. keeps I (\<lambda>w. st_Update (d_Store d) w k v r)) \<and> (\<forall>i k. keeps I (\<lambda>w. st_List (d_Store d) w i k))
   \<and> (\<forall>k. keeps I (\<lambda>w. st_ListRuns (d_Store d) w k)) \<and> (\<forall>k b. keeps I (\<lambda>w. st_PutBlob (d_Store d) w k b))
   \<and> (\<forall>n. keeps I (\<lambda>w. sst_GetCooldown (d_Signals d) w n))
   \<and> (\<forall>n es. keeps I (\<lambda>w. sst_PutCooldown (d_Signals d) w n es))
   \<and> (\<forall>n t. keeps I (\<lambda>w. sst_RecordReceived (d_Signals d) w n t))
   \<and> (\<forall>n. keeps I (\<lambda>w. d_Sleep d w n))"

lemma on_world_keeps: "keeps I f \<Longrightarrow> I (rt_world s) \<Longrightarrow> on_world f s = (s', x) \<Longrightarrow> I (rt_world s')"
  by (auto simp: on_world_def split: prod.splits dest: keepsD)

lemma fst_on_world_keeps: "keeps I f \<Longrightarrow> I (rt_world s) \<Longrightarrow> I (rt_world (fst (on_world f s)))"
  by (auto simp: on_world_def split: prod.splits dest: keepsD)

lemma deps_keepD:
  assumes "deps_keep I d"
  shows "keeps I (\<lambda>w. st_Get (d_Store d) w k)" "keeps I (\<lambda>w. st_Create (d_Store d) w k r)"
    "keeps I (\<lambda>w. st_Update (d_Store d) w k v r)" "keeps I (\<lambda>w. st_List (d_Store d) w i lk)"
    "keeps I (\<lambda>w. st_ListRuns (d_Store d) w k)" "keeps I (\<lambda>w. st_PutBlob (d_Store d) w k b)"
    "keeps I (\<lambda>w. sst_GetCooldown (d_Signals d) w n)" "keeps I (\<lambda>w. sst_RecordReceived (d_Signals d) w n (t w))"
    "keeps I (\<lambda>w. sst_PutCooldown (d_Signals d) w n (es w))" "keeps I (\<lambda>w. d_Sleep d w m)"
proof -
  from assms have r: "\<And>n t. keeps I (\<lambda>w. sst_RecordReceived (d_Signals d) w n t)"
    and p: "\<And>n es. keeps I (\<lambda>w. sst_PutCooldown (d_Signals d) w n es)" by (simp_all add: deps_keep_def)
  show "keeps I (\<lambda>w. sst_RecordReceived (d_Signals d) w n (t w))"
    using keepsD [OF r] unfolding keeps_def by blast
  show "keeps I (\<lambda>w. sst_PutCooldown (d_Signals d) w n (es w))"
    using keepsD [OF p] unfolding keeps_def by blast
qed (use assms in \<open>simp_all add: deps_keep_def\<close>)

lemma rt_world_simps [simp]:
  "rt_world (emit d e s) = rt_world s" "rt_world (tell d ch sig m s) = rt_world s"
  "rt_world (Loud d sig k c t s) = rt_world s" "rt_world (fold (\<lambda>c. emit d (g c)) cs s) = rt_world s"
proof -
  show a: "rt_world (emit d e s) = rt_world s" for e s by (simp add: emit_def)
  show "rt_world (tell d ch sig m s) = rt_world s" by (simp add: tell_def split: option.split)
  show "rt_world (Loud d sig k c t s) = rt_world s" by (simp add: Loud_def a)
  show "rt_world (fold (\<lambda>c. emit d (g c)) cs s) = rt_world s" by (induction cs arbitrary: s) (simp_all add: a)
qed

lemma drop_signal_world: "drop_signal d sig reason evcode detail s = (s', sig') \<Longrightarrow> rt_world s' = rt_world s"
  by (auto simp: drop_signal_def Let_def)

lemma recordCooldown_keeps:
  assumes "deps_keep I d" "I (rt_world s)"
  shows "I (rt_world (recordCooldown d n cd s))"
  using assms(2) fst_on_world_keeps [OF deps_keepD(9) [OF assms(1)] assms(2)]
  by (simp add: recordCooldown_def)

lemma rollback_keeps:
  assumes "deps_keep I d" "I (rt_world s)"
  shows "I (rt_world (rollback d rb s))"
proof -
  have "I (rt_world (recordCooldown d n cd (s\<lparr>rt_book := b\<rparr>)))" for n cd b
    by (rule recordCooldown_keeps [OF assms(1)]) (simp add: assms(2))
  with assms(2) show ?thesis by (auto simp: rollback_def Let_def split: option.split)
qed

lemma recoverCooldown_keeps:
  "deps_keep I d \<Longrightarrow> I (rt_world s) \<Longrightarrow> recoverCooldown d src kind s = (s', x) \<Longrightarrow> I (rt_world s')"
  by (auto simp: recoverCooldown_def Let_def split: if_splits prod.splits sum.splits
      dest: on_world_keeps [OF deps_keepD(7)])

lemma spendCooldown_keeps:
  assumes "deps_keep I d" "I (rt_world s)" "spendCooldown d src sig s = (s', x)"
  shows "I (rt_world s')"
  using assms(2,3) unfolding spendCooldown_def
  by (auto simp: Let_def intro!: recordCooldown_keeps [OF assms(1)] split: if_splits prod.splits sum.splits option.splits
      dest: recoverCooldown_keeps [OF assms(1)])

lemma BacklogFull_keeps:
  assumes "deps_keep I d" "I (rt_world s)" "BacklogFull d s = (s', x)"
  shows "I (rt_world s')"
  using assms(2,3) by (auto simp: BacklogFull_def split: prod.splits sum.splits
      dest: on_world_keeps [OF deps_keepD(4) [OF assms(1)]])

lemma admit_capacity_keeps:
  assumes "deps_keep I d" "I (rt_world s)" "admit_capacity d ch cs rb sig s = (s', sig', x)"
  shows "I (rt_world s')"
proof (cases "sr_Kind sig = kindChat")
  case False
  with assms show ?thesis by (simp add: admit_capacity_def)
next
  case True
  obtain s1 y where b: "BacklogFull d s = (s1, y)" by fastforce
  note K = rollback_keeps [OF assms(1) BacklogFull_keeps [OF assms(1,2) b], of rb]
    BacklogFull_keeps [OF assms(1,2) b]
  from assms(3) True b K show ?thesis
    by (auto simp: admit_capacity_def drop_signal_def Let_def split: sum.splits bool.splits)
qed

lemma admit_addressed_keeps:
  assumes "deps_keep I d" "I (rt_world s)" "admit_addressed d ch name sig s = (s', sig', x)"
  shows "I (rt_world s')"
  using assms(2,3) by (auto simp: admit_addressed_def
      split: prod.splits sum.splits option.splits dest: admit_capacity_keeps [OF assms(1)] dest!: drop_signal_world)

lemma admit_wired_keeps:
  assumes "deps_keep I d" "I (rt_world s)" "admit_wired d ch src sig s = (s', sig', x)"
  shows "I (rt_world s')"
  using assms(2,3) unfolding admit_wired_def Let_def
  by (auto split: if_splits prod.splits sum.splits bool.splits dest!: drop_signal_world
      dest: admit_capacity_keeps [OF assms(1)] spendCooldown_keeps [OF assms(1)])

lemma admit_keeps:
  assumes "deps_keep I d" "I (rt_world s)" "admit d sig src s = (s', sig', x)"
  shows "I (rt_world s')"
  using assms(2,3) unfolding admit_def Let_def
  by (auto split: if_splits prod.splits option.splits dest!: drop_signal_world
      dest: admit_addressed_keeps [OF assms(1)] admit_wired_keeps [OF assms(1)])

lemma Admit_keeps:
  assumes "deps_keep I d" "I (rt_world s)" "Admit d sig src s = (s', sig', res, e)"
  shows "I (rt_world s')"
  using assms(2,3) unfolding Admit_def snapshot_def
  by (auto split: prod.splits sum.splits option.splits dest: admit_keeps [OF assms(1)])

section \<open>A routing pass\<close>

lemma findReusable_keeps:
  assumes "deps_keep I d" "I (rt_world s)" "findReusableConversation d c i s = (s', x)"
  shows "I (rt_world s')"
  using assms(2,3) by (auto simp: findReusableConversation_def split: prod.splits sum.splits
      dest: on_world_keeps [OF deps_keepD(4) [OF assms(1)]])

lemma Allocate_loop_keeps:
  assumes "deps_keep I d"
  shows "I w \<Longrightarrow> Allocate_loop (d_Store d) (d_Sleep d) base n le r w = (w', x) \<Longrightarrow> I w'"
proof (induction n arbitrary: le r w)
  case 0
  then show ?case by simp
next
  case (Suc n)
  obtain w1 e where sl: "(if Suc n < MaxAllocateAttempts then d_Sleep d w (MaxAllocateAttempts - Suc n) else (w, None)) = (w1, e)"
    by fastforce
  have I1: "I w1" using sl Suc.prems(1) keepsD [OF deps_keepD(10) [OF assms] Suc.prems(1)] by (auto split: if_splits)
  obtain w2 l where l: "st_List (d_Store d) w1 ByNameBase (no_key\<lparr>lk_NameBase := base\<rparr>) = (w2, l)" by fastforce
  have I2: "I w2" by (rule keepsD [OF deps_keepD(4) [OF assms] I1 l])
  show ?case
  proof (cases "e = None \<and> (\<exists>items. l = Inr items)")
    case False
    with Suc.prems(2) sl l I1 I2 show ?thesis by (cases e; cases l) auto
  next
    case True
    then obtain items where e: "e = None" "l = Inr items" by blast
    define name where "name = nameForSuffix base (nextSuffix base items)"
    obtain w3 c where c: "st_Create (d_Store d) w2 name (r\<lparr>cr_Name := name, cr_NameBase := base\<rparr>) = (w3, c)" by fastforce
    have I3: "I w3" by (rule keepsD [OF deps_keepD(2) [OF assms] I2 c])
    show ?thesis
      using Suc.prems(2) sl l e c I3 Suc.IH [OF I3]
      by (cases c) (auto simp: Let_def name_def [symmetric] split: if_splits)
  qed
qed

lemma createConversation_keeps:
  assumes "deps_keep I d" "I (rt_world s)" "createConversation d c sig s = (s', x)"
  shows "I (rt_world s')"
proof (cases "ResolveCapability (d_Reader d) (rt_world s) c")
  case (Inl e)
  with assms(2,3) show ?thesis by (simp add: createConversation_def)
next
  case (Inr capability)
  let ?f = "AllocateName (d_Store d) (d_Sleep d) (nameKindForSignal (sr_Kind sig))
    (wordsForSignal (sr_SourceRef sig) (titleForSignal (sr_SourceRef sig) sig))
    (conversation_for d c sig capability (rt_world s))"
  have "keeps I ?f" unfolding keeps_def AllocateName_def using Allocate_loop_keeps [OF assms(1)] by blast
  moreover obtain s1 y where y: "on_world ?f s = (s1, y)" by (metis surj_pair)
  ultimately have "I (rt_world s1)" using on_world_keeps [of I ?f s s1 y] assms(2) by blast
  with assms(3) Inr y show ?thesis
    by (auto simp: createConversation_def Let_def split: prod.splits sum.splits)
qed

lemma Mutate_keeps:
  assumes "deps_keep I d"
  shows "I w \<Longrightarrow> Mutate_loop (d_Store d) k fn n le c w = (w', x) \<Longrightarrow> I w'"
proof (induction n arbitrary: le c w)
  case 0
  then show ?case by simp
next
  case (Suc n)
  obtain w1 g where g: "st_Get (d_Store d) w k = (w1, g)" by fastforce
  have I1: "I w1" by (rule keepsD [OF deps_keepD(1) [OF assms] Suc.prems(1) g])
  show ?case
  proof (cases g)
    case (Inl e)
    with Suc.prems g I1 show ?thesis by auto
  next
    case (Inr p)
    obtain before v where p: "p = (before, v)" by fastforce
    obtain c1 y where f: "fn c before = (c1, y)" by fastforce
    show ?thesis
    proof (cases "(\<exists>after. y = Inr after \<and> after \<noteq> before)")
      case False
      with Suc.prems g I1 Inr p f show ?thesis by (cases y) auto
    next
      case True
      then obtain after where a: "y = Inr after" "after \<noteq> before" by blast
      obtain w2 u where u: "st_Update (d_Store d) w1 k v after = (w2, u)" by fastforce
      have "I w2" by (rule keepsD [OF deps_keepD(3) [OF assms] I1 u])
      with Suc.prems(2) g Inr p f a u Suc.IH show ?thesis by (cases u) (auto split: if_splits)
    qed
  qed
qed

lemma inputDelivered_keeps:
  assumes "deps_keep I d" "I (rt_world s)" "inputDelivered d conv b s = (s', x)"
  shows "I (rt_world s')"
  using assms(2,3) by (auto simp: inputDelivered_def split: prod.splits sum.splits if_splits
      dest: on_world_keeps [OF deps_keepD(5) [OF assms(1)]])

lemma appendInput_keeps:
  assumes "deps_keep I d" "I (rt_world s)" "appendInput d c conv sig ty s = (s', x)"
  shows "I (rt_world s')"
proof -
  let ?ci = "InputName (sr_Name sig) (claimantOf c)" and ?k = "cr_Name conv"
  obtain s1 g where g: "on_world (\<lambda>w. st_Get (d_Store d) w ?k) s = (s1, g)" by fastforce
  have I1: "I (rt_world s1)" by (rule on_world_keeps [OF deps_keepD(1) [OF assms(1)] assms(2) g])
  show ?thesis
  proof (cases g)
    case (Inl e)
    with assms(3) g I1 show ?thesis by (simp add: appendInput_def Let_def)
  next
    case (Inr p)
    obtain fresh v where p: "p = (fresh, v)" by fastforce
    obtain s2 b where b: "inputDelivered d fresh ?ci s1 = (s2, b)" by fastforce
    have I2: "I (rt_world s2)" by (rule inputDelivered_keeps [OF assms(1) I1 b])
    show ?thesis
    proof (cases "b = Inr False")
      case False
      with assms(3) g Inr p b I2 show ?thesis
        by (cases b) (auto simp: appendInput_def Let_def split: bool.splits)
    next
      case True
      let ?blob = "\<lparr>bl_ConversationName = ?k, bl_Type = ty, bl_Payload = fst (messageOf sig),
                     bl_Labels = sr_Labels sig, bl_Severity = sr_Severity sig\<rparr>"
      obtain s3 z where z: "on_world (\<lambda>w. st_PutBlob (d_Store d) w ?ci ?blob) s2 = (s3, z)" by fastforce
      have I3: "I (rt_world s3)" by (rule on_world_keeps [OF deps_keepD(6) [OF assms(1)] I2 z])
      let ?cl = "append_closure (input_id (d_Now d (rt_world s3) 0)) ty ?ci sig (d_Now d (rt_world s3))"
      obtain w4 q n m where mu: "Mutate (d_Store d) ?k ?cl (False, 1) (rt_world s3) = (w4, (q, n), m)"
        by (metis prod_cases3 surj_pair)
      have "I w4" by (rule Mutate_keeps [OF assms(1) I3 mu [unfolded Mutate_def]])
      with assms(3) g Inr p b True z mu I3 show ?thesis
        by (cases z; cases m) (auto simp: appendInput_def Let_def split: if_splits)
    qed
  qed
qed

lemma routeOneClaimant_keeps:
  assumes "deps_keep I d" "I (rt_world s)" "routeOneClaimant d c sig s = (s', x)"
  shows "I (rt_world s')"
proof -
  obtain s1 f where f: "findReusableConversation d c (sr_InitiationID sig) s = (s1, f)" by fastforce
  have I1: "I (rt_world s1)" by (rule findReusable_keeps [OF assms(1,2) f])
  show ?thesis
  proof (cases "f = Inr None")
    case False
    with assms(3) f I1 show ?thesis
      by (auto simp: routeOneClaimant_def split: prod.splits sum.splits option.splits
          dest: appendInput_keeps [OF assms(1) I1])
  next
    case True
    obtain s2 b where b: "BacklogFull d s1 = (s2, b)" by fastforce
    have I2: "I (rt_world s2)" by (rule BacklogFull_keeps [OF assms(1) I1 b])
    obtain s3 y where y: "createConversation d c sig s2 = (s3, y)" by fastforce
    have I3: "I (rt_world s3)" by (rule createConversation_keeps [OF assms(1) I2 y])
    from assms(3) f True b y I2 I3 show ?thesis
      by (auto simp: routeOneClaimant_def split: prod.splits sum.splits bool.splits
          dest: appendInput_keeps [OF assms(1) I3])
  qed
qed

lemma route_claimant_keeps:
  assumes "deps_keep I d" "I (rt_world s)" "route_claimant d sig c s = (s', x)"
  shows "I (rt_world s')"
  using assms(2,3) unfolding route_claimant_def
  by (auto split: if_splits prod.splits sum.splits option.splits dest: routeOneClaimant_keeps [OF assms(1)])

lemma routeClaimants_keeps:
  assumes "deps_keep I d"
  shows "I (rt_world s) \<Longrightarrow> routeClaimants d sig cs s = (s', x) \<Longrightarrow> I (rt_world s')"
  by (induction cs arbitrary: s x)
    (auto split: prod.splits option.splits dest: route_claimant_keeps [OF assms])

lemma Route_keeps:
  assumes "deps_keep I d" "I (rt_world s)" "Route d sig s = (s', x)"
  shows "I (rt_world s')"
  using assms(2,3) unfolding Route_def Let_def
  by (auto split: prod.splits dest: routeClaimants_keeps [OF assms(1)])

lemma RecordReceived_keeps:
  assumes "deps_keep I d" "I (rt_world s)" "RecordReceived d n s = (s', x)"
  shows "I (rt_world s')"
  by (rule on_world_keeps [OF deps_keepD(8) [OF assms(1)] assms(2) assms(3) [unfolded RecordReceived_def]])

end
