(* ===== verification/ConsumerLaws.thy ===== *)
theory ConsumerLaws
  imports SignalConsumer RouteFrames
begin

text \<open>
  The life of a signal under the consumer of \<^theory_text>\<open>SignalConsumer\<close>: what a pass may write, that the
  retry deadline and the source cap end a signal, that one signal per conversation is the head, and
  what a failed write gives back.
\<close>

section \<open>What a pass may write\<close>

text \<open>The message itself is never rewritten; only the outcome fields are.\<close>

definition message_of :: "SignalRecord \<Rightarrow> SignalRecord" where
  "message_of sig = sig\<lparr>sr_Phase := [], sr_Reason := [], sr_Attempts := 0, sr_FirstAttemptAt := None,
     sr_CompletedAt := None, sr_ConsumedBy := [], sr_ConsumedAt := None, sr_Claimants := [], sr_ExpiresAt := None\<rparr>"

definition same_message :: "SignalRecord \<Rightarrow> SignalRecord \<Rightarrow> bool" where
  "same_message old new \<longleftrightarrow> message_of new = message_of old"

definition claimant_step :: "SignalClaimant \<Rightarrow> SignalClaimant \<Rightarrow> bool" where
  "claimant_step c c' \<longleftrightarrow> c' = c \<or> (sc_State c = ClaimantRouting \<and> sc_Kind c' = sc_Kind c \<and> sc_Name c' = sc_Name c
     \<and> sc_State c' \<in> {ClaimantRouted, ClaimantSkipped, ClaimantFailed})"

definition none_routing :: "SignalRecord \<Rightarrow> bool" where
  "none_routing sig \<longleftrightarrow> \<not> (\<exists>c \<in> set (sr_Claimants sig). sc_State c = ClaimantRouting)"

text \<open>The record mid-pass, before its end is stamped, and as it is written.\<close>

definition alive :: "SignalRecord \<Rightarrow> SignalRecord \<Rightarrow> bool" where
  "alive old sig \<longleftrightarrow> same_message old sig \<and> sr_Attempts old \<le> sr_Attempts sig
     \<and> (sr_FirstAttemptAt old = None \<or> sr_FirstAttemptAt sig = sr_FirstAttemptAt old)
     \<and> (sr_Claimants old = [] \<or> list_all2 claimant_step (sr_Claimants old) (sr_Claimants sig))
     \<and> (sr_Phase sig = SignalDropped \<longrightarrow> sr_Claimants sig = [])
     \<and> (sr_Terminal sig \<longrightarrow> none_routing sig) \<and> sr_CompletedAt sig = None"

definition signal_advances :: "'w SignalReconciler \<Rightarrow> SignalRecord \<Rightarrow> SignalRecord \<Rightarrow> bool" where
  "signal_advances r old new \<longleftrightarrow> same_message old new \<and> sr_Attempts old \<le> sr_Attempts new
     \<and> (sr_FirstAttemptAt old = None \<or> sr_FirstAttemptAt new = sr_FirstAttemptAt old)
     \<and> (sr_Claimants old = [] \<or> list_all2 claimant_step (sr_Claimants old) (sr_Claimants new))
     \<and> (sr_Phase new = SignalDropped \<longrightarrow> sr_Claimants new = [])
     \<and> (if sr_Terminal new
        then none_routing new \<and> (\<exists>t. sr_CompletedAt new = Some t \<and> sr_ExpiresAt new = Some (t + ttlFor r (sr_Phase new)))
        else sr_CompletedAt new = None)"

definition live :: "SignalRecord \<Rightarrow> bool" where
  "live sig \<longleftrightarrow> \<not> sr_Terminal sig \<and> sr_CompletedAt sig = None"

lemma claimant_step_refl [simp]: "claimant_step c c"
  by (simp add: claimant_step_def)

lemma claimant_steps_refl [simp]: "list_all2 claimant_step cs cs"
  by (simp add: list.rel_refl)

lemma claimant_step_trans: "claimant_step a b \<Longrightarrow> claimant_step b c \<Longrightarrow> claimant_step a c"
  by (auto simp: claimant_step_def)

lemma claimant_steps_trans:
  "list_all2 claimant_step as bs \<Longrightarrow> list_all2 claimant_step bs cs \<Longrightarrow> list_all2 claimant_step as cs"
  by (rule list_all2_trans [OF claimant_step_trans])

lemma settled_claimant_step: "settled_as c c' \<Longrightarrow> claimant_step c c'"
  by (auto simp: settled_as_def claimant_step_def)

lemma settled_claimant_steps: "list_all2 settled_as cs cs' \<Longrightarrow> list_all2 claimant_step cs cs'"
  by (erule list_all2_mono) (rule settled_claimant_step)

lemma rollup_facts:
  "SignalRollupPhase cs \<noteq> SignalDropped"
  "TerminalSignalPhase (SignalRollupPhase cs) \<Longrightarrow> \<not> (\<exists>c \<in> set cs. sc_State c = ClaimantRouting)"
  by (auto simp: SignalRollupPhase_def Let_def list_ex_iff TerminalSignalPhase_def split: if_splits)

lemma live_not_dropped: "live sig \<Longrightarrow> sr_Phase sig \<noteq> SignalDropped"
  by (auto simp: live_def sr_Terminal_def TerminalSignalPhase_def)

lemma alive_refl: "live old \<Longrightarrow> alive old old"
  using live_not_dropped [of old] by (auto simp: alive_def same_message_def message_of_def live_def)

lemma alive_stamp: "live old \<Longrightarrow> alive old (stampAttempt r w old) \<and> live (stampAttempt r w old)
    \<and> sr_Claimants (stampAttempt r w old) = sr_Claimants old"
  using live_not_dropped [of old]
  by (auto simp: alive_def same_message_def message_of_def live_def stampAttempt_def Let_def sr_Terminal_def)

lemma alive_claimants:
  assumes "alive old sig" "list_all2 claimant_step (sr_Claimants sig) cs" "sr_Claimants sig \<noteq> [] \<or> sr_Claimants old = []"
  shows "alive old (sig\<lparr>sr_Claimants := cs, sr_Phase := SignalRollupPhase cs\<rparr>)"
proof -
  have "sr_Claimants old = [] \<or> list_all2 claimant_step (sr_Claimants old) cs"
    using assms claimant_steps_trans by (auto simp: alive_def)
  then show ?thesis
    using assms(1) rollup_facts [of cs]
    by (auto simp: alive_def same_message_def message_of_def sr_Terminal_def none_routing_def)
qed

lemma alive_dropped: "alive old sig \<Longrightarrow> sr_Claimants sig = [] \<Longrightarrow> sr_Claimants old = [] \<Longrightarrow>
    alive old (sig\<lparr>sr_Phase := SignalDropped, sr_Reason := reason\<rparr>)"
  by (auto simp: alive_def same_message_def message_of_def none_routing_def)

lemma finish_advances: "alive old sig \<Longrightarrow> signal_advances r old (finishIfTerminal r w sig)"
  by (auto simp: alive_def signal_advances_def finishIfTerminal_def same_message_def message_of_def sr_Terminal_def
      none_routing_def Let_def)

lemma alive_advances: "alive old sig \<Longrightarrow> live sig \<Longrightarrow> signal_advances r old sig"
  by (auto simp: alive_def signal_advances_def live_def)

lemma alive_terminate:
  assumes "live old"
  shows "alive old (terminate_as old dropReason failReason)"
proof (cases "sr_Claimants old = []")
  case True
  with assms show ?thesis by (simp add: terminate_as_def alive_dropped alive_refl)
next
  case False
  let ?cs = "map (\<lambda>c. if sc_State c = ClaimantRouting then c\<lparr>sc_State := ClaimantFailed, sc_Reason := failReason\<rparr> else c)
      (sr_Claimants old)"
  have "list_all2 claimant_step (sr_Claimants old) ?cs"
    by (auto simp: list_all2_conv_all_nth claimant_step_def)
  from alive_claimants [OF alive_refl [OF assms] this] False show ?thesis
    by (simp add: terminate_as_def failRouting_def Let_def)
qed

lemma Admit_alive:
  assumes "Admit d sig src s = (s', sig', res, e)" "alive old sig" "live sig" "sr_Claimants sig = []" "sr_Claimants old = []"
  shows "alive old sig' \<and> (e \<noteq> None \<longrightarrow> sig' = sig) \<and> (\<not> rs_Dropped res \<longrightarrow> live sig')"
proof -
  note A = Admit_result [OF assms(1)]
  consider (failed) "e \<noteq> None" | (dropped) "e = None" "rs_Dropped res" | (snap) "e = None" "\<not> rs_Dropped res" by blast
  then show ?thesis
  proof cases
    case failed
    with A assms show ?thesis by auto
  next
    case dropped
    with A assms show ?thesis by (auto simp: alive_dropped)
  next
    case snap
    with A obtain cs where "sig' = sig\<lparr>sr_Claimants := map claimantOf cs\<rparr>" by auto
    with assms live_not_dropped [OF assms(3)] snap show ?thesis
      by (auto simp: alive_def same_message_def message_of_def live_def sr_Terminal_def)
  qed
qed

lemma Route_alive:
  assumes "Route d sig s = (s', sig', res, e)" "alive old sig" "sr_Claimants sig \<noteq> [] \<or> sr_Claimants old = []"
  shows "alive old sig'"
proof -
  obtain cs where "routeClaimants d sig (sr_Claimants sig) s = (s', cs, e)"
    "sig' = sig\<lparr>sr_Claimants := cs, sr_Phase := SignalRollupPhase cs\<rparr>"
    using assms(1) by (auto simp: Route_def Let_def split: prod.splits)
  with alive_claimants [OF assms(2) settled_claimant_steps assms(3)] routeClaimants_settles show ?thesis by blast
qed

section \<open>A whole pass\<close>

text \<open>
  \<open>guarded I r key P\<close>: a compare-and-swap of the pass's signal keeps \<open>I\<close> when the record it carries
  satisfies \<open>P\<close>. \<open>pass_keep\<close>: every other operation of the pass keeps \<open>I\<close>, and a list of signals names
  each once. What holds for every such \<open>I\<close> says that a pass hands only records with \<open>P\<close> to the store.
\<close>

definition guarded :: "('w \<Rightarrow> bool) \<Rightarrow> 'w SignalReconciler \<Rightarrow> key \<Rightarrow> (SignalRecord \<Rightarrow> bool) \<Rightarrow> bool" where
  "guarded I r key P \<longleftrightarrow> (\<forall>v rec. P rec \<longrightarrow>
     keeps I (\<lambda>w. sst_Update (d_Signals (r_Deps r)) w key v rec))"

definition pass_keep :: "('w \<Rightarrow> bool) \<Rightarrow> 'w SignalReconciler \<Rightarrow> bool" where
  "pass_keep I r \<longleftrightarrow> deps_keep I (r_Deps r)
     \<and> (\<forall>i k. keeps I (\<lambda>w. sst_List (d_Signals (r_Deps r)) w i k))
     \<and> (\<forall>w w' i k xs. sst_List (d_Signals (r_Deps r)) w i k = (w', Inr xs) \<longrightarrow> distinct (map sr_Name xs))
     \<and> (\<forall>n u. keeps I (\<lambda>w. sst_ReleaseSource (d_Signals (r_Deps r)) w n u))"

lemma pass_keepD:
  assumes "pass_keep I r"
  shows "deps_keep I (r_Deps r)" "keeps I (\<lambda>w. sst_List (d_Signals (r_Deps r)) w i k)"
    "keeps I (\<lambda>w. sst_ReleaseSource (d_Signals (r_Deps r)) w n u)"
    "sst_List (d_Signals (r_Deps r)) w i k = (w', Inr xs) \<Longrightarrow> distinct (map sr_Name xs)"
  using assms unfolding pass_keep_def by blast+

lemma on_rw_keeps:
  assumes "keeps I f" "I (world_of s)" "on_rw (on_world f) s = (s', x)"
  shows "I (world_of s')"
  using assms by (auto simp: on_rw_def on_world_def split: prod.splits dest: keepsD)

lemma world_of_simps [simp]:
  "world_of (surface r sig f dc detail s) = world_of s" "world_of (kickSignal r v s) = world_of s"
  "world_of (release key s) = world_of s"
  by (simp_all add: surface_def kickSignal_def release_def)

lemma write_pass_keeps:
  assumes "guarded I r key P" "sp_key p = key" "P (sp_rec p)" "I (world_of s)"
    and "write_pass r p s = (s', p', e)"
  shows "I (world_of s') \<and> sp_key p' = key \<and> sp_rec p' = sp_rec p"
proof -
  obtain s1 x where w: "on_rw (on_world (\<lambda>w. sst_Update (d_Signals (r_Deps r)) w (sp_key p) (sp_rev p) (sp_rec p))) s = (s1, x)"
    by fastforce
  have "keeps I (\<lambda>w. sst_Update (d_Signals (r_Deps r)) w (sp_key p) (sp_rev p) (sp_rec p))"
    using assms(1,2,3) by (simp add: guarded_def)
  from on_rw_keeps [OF this assms(4) w] assms(2,5) w show ?thesis
    by (cases x) (auto simp: write_pass_def)
qed

lemma exhaust_keeps:
  assumes "guarded I r (sp_key p) (signal_advances r (sp_rec p))" "live (sp_rec p)" "I (world_of s)" "exhaust r p elapsed s = (s', out)"
  shows "I (world_of s')"
proof -
  define reason where "reason = exhaust_reason r elapsed"
  let ?sig = "finishIfTerminal r (world_of s) (terminate_as (sp_rec p) ''exhausted'' reason)"
  obtain s1 p1 e where w: "write_pass r (p\<lparr>sp_rec := ?sig\<rparr>) s = (s1, p1, e)" by (metis prod_cases3)
  have "signal_advances r (sp_rec p) (sp_rec (p\<lparr>sp_rec := ?sig\<rparr>))"
    by (simp add: finish_advances alive_terminate assms(2))
  from write_pass_keeps [OF assms(1) _ this assms(3) w] assms(4) w show ?thesis
    by (cases e) (auto simp: exhaust_def Let_def reason_def)
qed

lemma evict_keeps:
  assumes "guarded I r (sp_key p) (signal_advances r (sp_rec p))" "live (sp_rec p)" "I (world_of s)" "evict r p s = (s', p', e)"
  shows "I (world_of s')" "sp_key p' = sp_key p"
    "sp_rec p' = finishIfTerminal r (world_of s) (terminate_as (sp_rec p) ''overflow'' evict_reason)"
proof -
  let ?sig = "finishIfTerminal r (world_of s) (terminate_as (sp_rec p) ''overflow'' evict_reason)"
  obtain s1 p1 e1 where w: "write_pass r (p\<lparr>sp_rec := ?sig\<rparr>) s = (s1, p1, e1)" by (metis prod_cases3)
  have "signal_advances r (sp_rec p) (sp_rec (p\<lparr>sp_rec := ?sig\<rparr>))"
    by (simp add: finish_advances alive_terminate assms(2))
  from write_pass_keeps [OF assms(1) _ this assms(3) w] assms(4) w
  show "I (world_of s')" "sp_key p' = sp_key p" "sp_rec p' = ?sig"
    by (cases e1; auto simp: evict_def Let_def)+
qed

lemma kicks_only:
  "\<forall>v \<in> set vs. sr_Name v \<noteq> sr_Name (sp_rec p) \<Longrightarrow> evict_oldest r p vs b s = (s', x) \<Longrightarrow>
     world_of s' = world_of s \<and> x = Inr b"
  by (induction vs arbitrary: s) auto

lemma evict_oldest_keeps:
  assumes "guarded I r (sp_key p) (signal_advances r (sp_rec p))" "live (sp_rec p)" "distinct (map sr_Name vs)"
    and "I (world_of s)" "evict_oldest r p vs b s = (s', x)"
  shows "I (world_of s') \<and> (\<forall>b'. x = Inr b' \<longrightarrow> b' = (b \<or> sr_Name (sp_rec p) \<in> sr_Name ` set vs))"
  using assms(3,4,5)
proof (induction vs arbitrary: s b)
  case Nil
  then show ?case by auto
next
  case (Cons v vs)
  show ?case
  proof (cases "sr_Name v = sr_Name (sp_rec p)")
    case False
    with Cons.prems(3) have "evict_oldest r p vs b (kickSignal r v s) = (s', x)" by simp
    from Cons.IH [OF _ _ this] Cons.prems(1,2) False show ?thesis by auto
  next
    case True
    obtain s1 p1 e where ev: "evict r p s = (s1, p1, e)" by (metis prod_cases3)
    note E = evict_keeps [OF assms(1,2) Cons.prems(2) ev]
    have nm: "sr_Name (sp_rec p1) = sr_Name (sp_rec p)"
      by (simp add: E(3) finishIfTerminal_def terminate_as_def failRouting_def Let_def)
    show ?thesis
    proof (cases e)
      case (Some err)
      with Cons.prems(3) True ev E(1) show ?thesis by auto
    next
      case None
      with Cons.prems(3) True ev have "evict_oldest r p1 vs True s1 = (s', x)" by simp
      moreover have "\<forall>u \<in> set vs. sr_Name u \<noteq> sr_Name (sp_rec p1)"
        using Cons.prems(1) True nm by (auto simp: image_iff)
      ultimately have "world_of s' = world_of s1 \<and> x = Inr True" by (metis kicks_only)
      with E(1) True show ?thesis by auto
    qed
  qed
qed

lemma evict_oldest_evicts:
  assumes "live (sp_rec p)" "distinct (map sr_Name vs)" "evict_oldest r p vs b s = (s', Inr b')"
  shows "b' \<longleftrightarrow> b \<or> sr_Name (sp_rec p) \<in> sr_Name ` set vs"
proof -
  have "guarded (\<lambda>_. True) r (sp_key p) (signal_advances r (sp_rec p))" by (simp add: guarded_def keeps_def)
  from evict_oldest_keeps [OF this assms(1,2) _ assms(3)] show ?thesis by simp
qed

lemma list_distinct_on_rw:
  assumes "pass_keep I r" "on_rw (on_world (\<lambda>w. sst_List (d_Signals (r_Deps r)) w i k)) s = (s', Inr xs)"
  shows "distinct (map sr_Name xs)"
  using assms(2) pass_keepD(4) [OF assms(1)] by (auto simp: on_rw_def on_world_def split: prod.splits)

text \<open>The live signals of the source the cap counts, this one first, and the oldest over the limit.\<close>

definition live_of_source :: "SignalRecord \<Rightarrow> SignalRecord list \<Rightarrow> SignalRecord list" where
  "live_of_source sig others = sig # filter (\<lambda>x. sr_Name x \<noteq> sr_Name sig) others"

definition overdue :: "'w SignalReconciler \<Rightarrow> SignalRecord \<Rightarrow> SignalRecord list \<Rightarrow> SignalRecord list" where
  "overdue r sig others = take (nat (int (length (live_of_source sig others)) - maxPerSource r))
     (sort_key arrival_of (live_of_source sig others))"

lemma enforceSourceCap_eq:
  "enforceSourceCap r p s =
     (case on_rw (on_world (\<lambda>w. sst_List (d_Signals (r_Deps r)) w SignalNonTerminalBySource
             \<lparr>slk_Source = sr_SourceRef (sp_rec p), slk_InitiationID = []\<rparr>)) s of
        (s, Inl e) \<Rightarrow> (s, Inl e)
      | (s, Inr others) \<Rightarrow> evict_oldest r p (overdue r (sp_rec p) others) False s)"
  by (auto simp: enforceSourceCap_def overdue_def live_of_source_def Let_def split: prod.splits sum.splits)

text \<open>The first \<open>n\<close> of a sorted list are the elements of rank below \<open>n\<close>.\<close>

lemma take_rank:
  fixes f :: "'a \<Rightarrow> 'b::linorder"
  assumes "sorted (map f ys)" "distinct (map f ys)" "x \<in> set ys"
  shows "x \<in> set (take n ys) \<longleftrightarrow> card {y \<in> set ys. f y < f x} < n"
proof -
  have inj: "f (ys ! i) = f (ys ! j) \<Longrightarrow> i = j" if "i < length ys" "j < length ys" for i j
    using assms(2) that by (metis distinct_conv_nth length_map nth_map)
  have le: "f (ys ! i) \<le> f (ys ! j)" if "i \<le> j" "j < length ys" for i j
    using sorted_nth_mono [OF assms(1) that(1)] that by simp
  obtain k where k: "k < length ys" "ys ! k = x" using assms(3) by (auto simp: in_set_conv_nth)
  have "{y \<in> set ys. f y < f x} = (!) ys ` {..<k}"
  proof (intro equalityI subsetI)
    fix y assume "y \<in> {y \<in> set ys. f y < f x}"
    then obtain i where i: "i < length ys" "ys ! i = y" "f y < f x" by (auto simp: in_set_conv_nth)
    then have "i < k" using le [of k i] k by (metis not_less)
    with i show "y \<in> (!) ys ` {..<k}" by auto
  next
    fix y assume "y \<in> (!) ys ` {..<k}"
    then obtain i where i: "i < k" "y = ys ! i" by auto
    then have "f y \<le> f x" "f y \<noteq> f x" using le [of i k] inj [of i k] k by auto
    then show "y \<in> {y \<in> set ys. f y < f x}" using i k by auto
  qed
  moreover have "inj_on ((!) ys) {..<k}" using inj k by (intro inj_onI) (metis lessThan_iff less_trans)
  ultimately have "card {y \<in> set ys. f y < f x} = k" by (simp add: card_image)
  moreover have "x \<in> set (take n ys) \<longleftrightarrow> k < n"
  proof
    assume "x \<in> set (take n ys)"
    then obtain i where i: "i < n" "i < length ys" "ys ! i = x" by (auto simp: in_set_conv_nth)
    then show "k < n" using inj [of i k] k by simp
  next
    assume "k < n"
    then show "x \<in> set (take n ys)" using k by (auto simp: in_set_conv_nth intro!: exI [of _ k])
  qed
  ultimately show ?thesis by simp
qed

lemma distinct_live_of_source:
  "distinct (map sr_Name others) \<Longrightarrow> distinct (map sr_Name (live_of_source sig others))"
  by (auto simp: live_of_source_def distinct_map intro: inj_on_subset)

lemma distinct_overdue: "distinct (map sr_Name others) \<Longrightarrow> distinct (map sr_Name (overdue r sig others))"
proof -
  assume d: "distinct (map sr_Name others)"
  have "distinct (map sr_Name (live_of_source sig others))" by (rule distinct_live_of_source [OF d])
  then have "distinct (map sr_Name (sort_key arrival_of (live_of_source sig others)))"
    by (simp add: distinct_map)
  then show ?thesis by (simp add: overdue_def take_map [symmetric])
qed

lemma enforceSourceCap_keeps:
  assumes "pass_keep I r" "guarded I r (sp_key p) (signal_advances r (sp_rec p))" "live (sp_rec p)"
    and "I (world_of s)" "enforceSourceCap r p s = (s', x)"
  shows "I (world_of s')"
proof -
  let ?q = "\<lparr>slk_Source = sr_SourceRef (sp_rec p), slk_InitiationID = []\<rparr>"
  obtain s1 y where l: "on_rw (on_world (\<lambda>w. sst_List (d_Signals (r_Deps r)) w SignalNonTerminalBySource ?q)) s = (s1, y)"
    by fastforce
  have I1: "I (world_of s1)" by (rule on_rw_keeps [OF pass_keepD(2) [OF assms(1)] assms(4) l])
  show ?thesis
  proof (cases y)
    case (Inl e)
    with assms(5) l I1 show ?thesis by (simp add: enforceSourceCap_eq)
  next
    case (Inr others)
    have "distinct (map sr_Name (overdue r (sp_rec p) others))"
      by (rule distinct_overdue [OF list_distinct_on_rw [OF assms(1) l [unfolded Inr]]])
    moreover have "evict_oldest r p (overdue r (sp_rec p) others) False s1 = (s', x)"
      using assms(5) l Inr by (simp add: enforceSourceCap_eq)
    ultimately show ?thesis using evict_oldest_keeps [OF assms(2,3) _ I1] by blast
  qed
qed

lemma on_rw_run: "on_rw f s = (s', x) \<Longrightarrow> f (rq_rw s) = (rq_rw s', x)"
  by (auto simp: on_rw_def split: prod.splits)

lemma consume_route_keeps:
  assumes "pass_keep I r" "guarded I r (sp_key p) (signal_advances r old)" "alive old (sp_rec p)"
    and "sr_Claimants (sp_rec p) \<noteq> [] \<or> sr_Claimants old = []"
    and "I (world_of s)" "consume_route r p src s = (s', out)"
  shows "I (world_of s')"
proof -
  note D = pass_keepD(1) [OF assms(1)]
  obtain s1 sig res e where ro: "on_rw (Route (r_Deps r) (sp_rec p)) s = (s1, sig, res, e)" by (metis prod_cases4)
  have I1: "I (world_of s1)" by (rule Route_keeps [OF D assms(5) on_rw_run [OF ro]])
  let ?sig = "finishIfTerminal r (world_of s1) sig"
  have adv: "signal_advances r old ?sig"
    by (rule finish_advances [OF Route_alive [OF on_rw_run [OF ro] assms(3,4)]])
  obtain s2 p2 we where w: "write_pass r (p\<lparr>sp_rec := ?sig\<rparr>) s1 = (s2, p2, we)" by (metis prod_cases3)
  have I2: "I (world_of s2)"
    using write_pass_keeps [OF assms(2) _ _ I1 w] adv by simp
  have I3: "I (world_of (fst (on_rw (RecordReceived (r_Deps r) n) s2)))" for n
  proof -
    obtain s3 y where y: "on_rw (RecordReceived (r_Deps r) n) s2 = (s3, y)" by fastforce
    from RecordReceived_keeps [OF D I2 on_rw_run [OF y]] y show ?thesis by simp
  qed
  from assms(6) ro w I2 I3 show ?thesis
    by (auto simp: consume_route_def Let_def split: option.splits if_splits)
qed

lemma consume_keeps:
  assumes "pass_keep I r" "guarded I r (sp_key p) (signal_advances r (sp_rec p))" "live (sp_rec p)"
    and "I (world_of s)" "consume r p src s = (s', out)"
  shows "I (world_of s')"
proof -
  note D = pass_keepD(1) [OF assms(1)]
  let ?old = "sp_rec p"
  let ?st = "stampAttempt r (world_of s) ?old"
  note S = alive_stamp [OF assms(3), of r "world_of s"]
  show ?thesis
  proof (cases "sr_Claimants ?old = []")
    case False
    with assms(5) S have "consume_route r (p\<lparr>sp_rec := ?st\<rparr>) src s = (s', out)" by (simp add: consume_def Let_def)
    from consume_route_keeps [OF assms(1) _ _ _ assms(4) this, of ?old] assms(2) S show ?thesis by simp
  next
    case True
    obtain s1 sig res e where ad: "on_rw (Admit (r_Deps r) ?st src) s = (s1, sig, res, e)" by (metis prod_cases4)
    have I1: "I (world_of s1)" by (rule Admit_keeps [OF D assms(4) on_rw_run [OF ad]])
    note A = Admit_alive [OF on_rw_run [OF ad], of ?old]
    have adv: "signal_advances r ?old (if e = None then finishIfTerminal r (world_of s1) sig else sig)"
      using A S True finish_advances [of ?old sig r "world_of s1"] alive_advances by (auto split: if_splits)
    obtain s2 p2 we where w: "write_pass r (p\<lparr>sp_rec := (if e = None then finishIfTerminal r (world_of s1) sig else sig)\<rparr>) s1
        = (s2, p2, we)" by (metis prod_cases3)
    note W = write_pass_keeps [OF assms(2) _ _ I1 w, simplified, OF adv]
    have IR: "I (rt_world (rollback (r_Deps r) rb (rq_rw s2)))" for rb
      by (rule rollback_keeps [OF D]) (simp add: W)
    show ?thesis
    proof (cases "e = None \<and> we = None \<and> \<not> rs_Dropped res")
      case False
      with assms(5) True S ad w W IR show ?thesis
        by (cases e; cases we) (auto simp: consume_def Let_def)
    next
      case go: True
      with assms(5) True S ad w have c: "consume_route r p2 src s2 = (s', out)" by (simp add: consume_def Let_def)
      have "live sig" "alive ?old sig" using A S True go by auto
      then have "alive ?old (sp_rec p2)" using W go by (simp add: finishIfTerminal_def live_def)
      from consume_route_keeps [OF assms(1) _ this _ _ c] W assms(2) True show ?thesis by simp
    qed
  qed
qed

lemma acquire_world: "acquire key s = (s', b) \<Longrightarrow> world_of s' = world_of s"
  by (auto simp: acquire_def split: if_splits)

lemma isHead_keeps:
  assumes "pass_keep I r" "I (world_of s)" "isHead r sig s = (s', x)"
  shows "I (world_of s')"
proof -
  let ?q = "\<lparr>slk_Source = sr_SourceRef sig, slk_InitiationID = sr_InitiationID sig\<rparr>"
  obtain s1 y where l: "on_rw (on_world (\<lambda>w. sst_List (d_Signals (r_Deps r)) w SignalNonTerminalByInitiation ?q)) s = (s1, y)"
    by fastforce
  have "I (world_of s1)" by (rule on_rw_keeps [OF pass_keepD(2) [OF assms(1)] assms(2) l])
  with assms(3) l show ?thesis by (cases y) (auto simp: isHead_def)
qed

lemma take_turn_keeps:
  assumes "pass_keep I r" "guarded I r (sp_key p) (signal_advances r (sp_rec p))" "live (sp_rec p)"
    and "I (world_of s)" "take_turn r p src s = (s', out)"
  shows "I (world_of s')"
proof -
  obtain s1 b where a: "acquire (order_key (sp_rec p)) s = (s1, b)" by fastforce
  have I1: "I (world_of s1)" using acquire_world [OF a] assms(4) by simp
  obtain s2 y where h: "isHead r (sp_rec p) s1 = (s2, y)" by fastforce
  have I2: "I (world_of s2)" by (rule isHead_keeps [OF assms(1) I1 h])
  obtain s3 o3 where c: "consume r p src s2 = (s3, o3)" by fastforce
  have I3: "I (world_of s3)" by (rule consume_keeps [OF assms(1,2,3) I2 c])
  from assms(5) a h c I1 I2 I3 show ?thesis
    by (auto simp: take_turn_def split: bool.splits sum.splits)
qed

lemma reconcileLive_keeps:
  assumes "pass_keep I r" "guarded I r (sp_key p) (signal_advances r (sp_rec p))" "live (sp_rec p)"
    and "I (world_of s)" "reconcileLive r p s = (s', out)"
  shows "I (world_of s')"
proof (cases "r_GetSource r (world_of s) (sr_SourceRef (sp_rec p))")
  case (Inl e)
  with assms(4,5) show ?thesis by (simp add: reconcileLive_def)
next
  case (Inr g)
  show ?thesis
  proof (cases g)
    case None
    obtain s1 y where o: "on_rw (on_world (\<lambda>w. sst_ReleaseSource (d_Signals (r_Deps r)) w
        (sr_SourceRef (sp_rec p)) (sr_SourceID (sp_rec p)))) s = (s1, y)" by fastforce
    have "I (world_of s1)" by (rule on_rw_keeps [OF pass_keepD(3) [OF assms(1)] assms(4) o])
    with assms(5) Inr None o show ?thesis
      by (auto simp: reconcileLive_def releaseOrphans_def split: sum.splits)
  next
    case (Some src)
    obtain s1 y where c: "enforceSourceCap r p s = (s1, y)" by fastforce
    have I1: "I (world_of s1)" by (rule enforceSourceCap_keeps [OF assms(1,2,3,4) c])
    obtain s2 o2 where t: "take_turn r p src s1 = (s2, o2)" by fastforce
    have I2: "I (world_of s2)" by (rule take_turn_keeps [OF assms(1,2,3) I1 t])
    have I3: "I (world_of s3)" if "exhaust r p el s1 = (s3, o3)" for el s3 o3
      by (rule exhaust_keeps [OF assms(2,3) I1 that])
    from assms(5) Inr Some c t I1 I2 I3 show ?thesis
      by (auto simp: reconcileLive_def Let_def split: sum.splits bool.splits option.splits if_splits)
  qed
qed

text \<open>A terminal record only receives the instants it lacks.\<close>

definition only_stamped :: "SignalRecord \<Rightarrow> SignalRecord \<Rightarrow> bool" where
  "only_stamped old new \<longleftrightarrow>
     new\<lparr>sr_CompletedAt := None, sr_ExpiresAt := None\<rparr> = old\<lparr>sr_CompletedAt := None, sr_ExpiresAt := None\<rparr>
     \<and> sr_CompletedAt new \<noteq> None \<and> sr_ExpiresAt new \<noteq> None
     \<and> sr_CompletedAt old \<in> {None, sr_CompletedAt new} \<and> sr_ExpiresAt old \<in> {None, sr_ExpiresAt new}"

lemma reconcileTerminal_keeps:
  assumes "guarded I r (sp_key p) (only_stamped (sp_rec p))" "I (world_of s)" "reconcileTerminal r p s = (s', out)"
  shows "I (world_of s')"
proof -
  let ?old = "sp_rec p"
  define sig1 where "sig1 = (case sr_CompletedAt ?old of Some _ \<Rightarrow> ?old
    | None \<Rightarrow> ?old\<lparr>sr_CompletedAt := Some (case sr_FirstAttemptAt ?old of Some t \<Rightarrow> t | None \<Rightarrow> sr_CreatedAt ?old)\<rparr>)"
  obtain at where at: "sr_CompletedAt sig1 = Some at" "sr_CompletedAt ?old = None \<or> sr_CompletedAt ?old = Some at"
    "sig1 = ?old\<lparr>sr_CompletedAt := Some at\<rparr>"
    by (cases "sr_CompletedAt ?old") (auto simp: sig1_def)
  define sig2 where "sig2 = (case sr_ExpiresAt sig1 of Some _ \<Rightarrow> sig1
    | None \<Rightarrow> sig1\<lparr>sr_ExpiresAt := Some (at + ttlFor r (sr_Phase sig1))\<rparr>)"
  have os: "only_stamped ?old sig2"
    using at(2) by (auto simp: only_stamped_def sig2_def at(3) split: option.splits)
  obtain s1 p1 e where w: "write_pass r (p\<lparr>sp_rec := sig2\<rparr>) s = (s1, p1, e)" by (metis prod_cases3)
  have "I (world_of s1)" using write_pass_keeps [OF assms(1) _ _ assms(2) w] os by simp
  moreover have "s' = s \<or> s' = s1"
    using assms(3) w at by (cases "sr_CompletedAt ?old"; cases "sr_ExpiresAt sig1")
      (auto simp: reconcileTerminal_def Let_def sig1_def sig2_def split: if_splits option.splits)
  ultimately show ?thesis using assms(2) by auto
qed

section \<open>Properties\<close>

text \<open>
  C2. What the consumer writes. Take any property of the world that every other operation of a pass
  keeps, and that a compare-and-swap of the pass's signal keeps when its record advances the one the pass
  read: the message unchanged, attempts never falling, the first attempt never moved, a claimant leaving
  Routing at most once and never changing again, Dropped only before fan-out, and a terminal phase only
  with no claimant left routing, its completion time and its expiry one time-to-live later. Then a whole
  \<open>Reconcile\<close> keeps it, whatever the stores answer. A terminal signal only receives instants it lacks.
\<close>

theorem Reconcile_writes_only_progress:
  assumes "pass_keep I r" and "keeps I (\<lambda>w. sst_Get (d_Signals (r_Deps r)) w key)"
    and "\<And>w w' old v. sst_Get (d_Signals (r_Deps r)) w key = (w', Inr (old, v)) \<Longrightarrow>
        if sr_Terminal old then guarded I r key (only_stamped old)
        else sr_CompletedAt old = None \<and> guarded I r key (signal_advances r old)"
    and "I (world_of s)" and "Reconcile r key s = (s', out)"
  shows "I (world_of s')"
proof -
  obtain s1 y where g: "on_rw (on_world (\<lambda>w. sst_Get (d_Signals (r_Deps r)) w key)) s = (s1, y)" by fastforce
  have I1: "I (world_of s1)" by (rule on_rw_keeps [OF assms(2,4) g])
  show ?thesis
  proof (cases y)
    case (Inl e)
    with assms(5) g I1 show ?thesis by (simp add: Reconcile_def)
  next
    case (Inr q)
    obtain old v where q: "q = (old, v)" by fastforce
    let ?p = "\<lparr>sp_key = key, sp_rec = old, sp_rev = v\<rparr>"
    have "sst_Get (d_Signals (r_Deps r)) (world_of s) key = (world_of s1, Inr (old, v))"
      using g Inr q by (auto simp: on_rw_def on_world_def split: prod.splits)
    from assms(3) [OF this] assms(5) g Inr q I1 show ?thesis
      using reconcileTerminal_keeps [of I r ?p s1 s' out] reconcileLive_keeps [OF assms(1), of ?p s1 s' out]
      by (auto simp: Reconcile_def live_def split: if_splits)
  qed
qed

text \<open>A store that holds nothing, and a signal store that keeps the records it is handed.\<close>

definition no_store :: "'w Store" where
  "no_store = \<lparr>
     st_Get = (\<lambda>w k. (w, Inl ErrNotFound)), st_Create = (\<lambda>w k r. (w, Inl ErrAlreadyExists)),
     st_Update = (\<lambda>w k v r. (w, Inl ErrNotFound)), st_Delete = (\<lambda>w k. (w, Inr ())),
     st_List = (\<lambda>w i k. (w, Inr [])), st_AppendRun = (\<lambda>w k r. (w, Inl ErrNotFound)),
     st_UpdateRun = (\<lambda>w k i u. (w, Inl ErrNotFound)), st_ListRuns = (\<lambda>w k. (w, Inl ErrNotFound)),
     st_GetWithRuns = (\<lambda>w k. (w, Inl ErrNotFound)), st_PutBlob = (\<lambda>w k b. (w, Inr ())),
     st_GetBlob = (\<lambda>w k. (w, Inl ErrNotFound)), st_DeleteBlob = (\<lambda>w k. (w, Inr ()))\<rparr>"

definition tracing_signals :: "SignalRecord \<Rightarrow> SignalRecord list SignalStore" where
  "tracing_signals old = no_signals\<lparr>sst_Get := (\<lambda>w k. (w, Inr (old, ''1''))),
     sst_Update := (\<lambda>w k v rec. (w @ [rec], Inr ''2''))\<rparr>"

definition sample_reconciler :: "'w Deps \<Rightarrow> 'w SignalReconciler" where
  "sample_reconciler d = \<lparr>r_Deps = d, r_GetSource = (\<lambda>w n. Inr (Some source_sample)), r_LeaseHolder = (\<lambda>w. None),
     r_Identity = ''me'', r_RetryDeadline = 0, r_MaxPerSource = 0, r_TTLRouted = 0, r_TTLDropped = 0, r_TTLFailed = 0,
     r_RetryInterval = 0, r_OrderRetry = 0, r_Now = (\<lambda>w. 7), r_HasKick = True\<rparr>"

definition sample_queue :: "'w \<Rightarrow> 'w RS" where
  "sample_queue w = \<lparr>rq_rw = sample_state w, rq_held = {}, rq_kicks = []\<rparr>"

definition tracing_reconciler :: "SignalRecord list SignalReconciler" where
  "tracing_reconciler = sample_reconciler ((sample_deps no_store)\<lparr>d_Signals := tracing_signals (sample_signal ''s'' 1)\<rparr>)"

text \<open>One pass over a machine signal nobody serves: the record handed over drops it.\<close>

theorem Reconcile_writes_only_progress_witness:
  "\<exists>rec. world_of (fst (Reconcile tracing_reconciler ''s'' (sample_queue []))) = [rec]
     \<and> signal_advances tracing_reconciler (sample_signal ''s'' 1) rec \<and> sr_Phase rec = SignalDropped"
proof -
  let ?r = tracing_reconciler
  define I where "I w \<longleftrightarrow> (\<forall>rec \<in> set w. signal_advances ?r (sample_signal ''s'' 1) rec)" for w
  obtain s' out where r: "Reconcile ?r ''s'' (sample_queue []) = (s', out)" by fastforce
  have eqs: "d_Store (r_Deps ?r) = no_store" "d_Signals (r_Deps ?r) = tracing_signals (sample_signal ''s'' 1)"
    "d_Sleep (r_Deps ?r) = (\<lambda>w n. (w, None))"
    by (simp_all add: tracing_reconciler_def sample_reconciler_def sample_deps_def)
  have fields: "r_GetSource ?r = (\<lambda>w n. Inr (Some source_sample))" "r_MaxPerSource ?r = 0"
    "d_Reader (r_Deps ?r) = no_reader" by (simp_all add: tracing_reconciler_def sample_reconciler_def sample_deps_def)
  have kind: "kindChat \<noteq> []" by simp
  have 1: "pass_keep I ?r"
    by (simp add: pass_keep_def deps_keep_def keeps_def eqs no_store_def tracing_signals_def no_signals_def)
  have 2: "keeps I (\<lambda>w. sst_Get (d_Signals (r_Deps ?r)) w ''s'')"
    by (simp add: keeps_def eqs tracing_signals_def)
  have 3: "if sr_Terminal old then guarded I ?r ''s'' (only_stamped old)
      else sr_CompletedAt old = None \<and> guarded I ?r ''s'' (signal_advances ?r old)"
    if "sst_Get (d_Signals (r_Deps ?r)) w ''s'' = (w', Inr (old, v))" for w w' old v
  proof -
    from that have old: "old = sample_signal ''s'' 1" by (simp add: eqs tracing_signals_def)
    have "guarded I ?r ''s'' (signal_advances ?r old)"
      by (auto simp: guarded_def keeps_def I_def old eqs tracing_signals_def)
    then show ?thesis by (simp add: old sample_signal_def sr_Terminal_def TerminalSignalPhase_def)
  qed
  have 4: "I (world_of (sample_queue []))" by (simp add: I_def sample_queue_def sample_state_def)
  have "I (world_of s')" using Reconcile_writes_only_progress [OF 1 2 3 4 r] .
  moreover have "\<exists>rec. world_of s' = [rec] \<and> sr_Phase rec = SignalDropped"
    using r by (auto simp: Reconcile_def reconcileLive_def take_turn_def acquire_def isHead_def consume_def Let_def
        enforceSourceCap_def on_rw_def on_world_def eqs tracing_signals_def no_signals_def sample_queue_def
        sample_state_def sample_signal_def sr_Terminal_def TerminalSignalPhase_def fields maxPerSource_def
        DefaultMaxSignalsPerSource_def stampAttempt_def Admit_def admit_def admit_wired_def AddressedTarget_def
        PipelinesForSource_def readyPipelines_def readyCoordinators_def no_reader_def drop_signal_def
        finishIfTerminal_def write_pass_def release_def Loud_def tell_def emit_def kind)
  ultimately show ?thesis by (auto simp: r I_def)
qed

lemma terminate_as_ends:
  "sr_Terminal (terminate_as sig dropReason failReason)"
  "sr_CompletedAt (terminate_as sig dropReason failReason) = sr_CompletedAt sig"
  "if sr_Claimants sig = []
   then sr_Phase (terminate_as sig dropReason failReason) = SignalDropped
     \<and> sr_Reason (terminate_as sig dropReason failReason) = dropReason
   else (sr_Phase (terminate_as sig dropReason failReason) = SignalRouted
       \<longleftrightarrow> (\<exists>c \<in> set (sr_Claimants sig). sc_State c = ClaimantRouted))
     \<and> (\<forall>c \<in> set (sr_Claimants (terminate_as sig dropReason failReason)). sc_State c \<noteq> ClaimantRouting)"
proof -
  define cs where "cs = map (\<lambda>c. if sc_State c = ClaimantRouting then c\<lparr>sc_State := ClaimantFailed, sc_Reason := failReason\<rparr>
    else c) (sr_Claimants sig)"
  have cs: "\<forall>c \<in> set cs. sc_State c \<noteq> ClaimantRouting"
    "(\<exists>c \<in> set cs. sc_State c = ClaimantRouted) \<longleftrightarrow> (\<exists>c \<in> set (sr_Claimants sig). sc_State c = ClaimantRouted)"
    "cs = [] \<longleftrightarrow> sr_Claimants sig = []"
    by (auto simp: cs_def)
  have e: "terminate_as sig dropReason failReason = (if sr_Claimants sig = []
      then sig\<lparr>sr_Phase := SignalDropped, sr_Reason := dropReason\<rparr>
      else sig\<lparr>sr_Claimants := cs, sr_Phase := SignalRollupPhase cs\<rparr>)"
    by (simp add: terminate_as_def failRouting_def cs_def Let_def)
  have t: "cs \<noteq> [] \<Longrightarrow> TerminalSignalPhase (SignalRollupPhase cs)" using cs(1) SignalRollupPhase_terminal by blast
  show "sr_Terminal (terminate_as sig dropReason failReason)"
    using t cs(3) by (simp add: e sr_Terminal_def TerminalSignalPhase_def)
  show "sr_CompletedAt (terminate_as sig dropReason failReason) = sr_CompletedAt sig" by (simp add: e)
  have "cs \<noteq> [] \<Longrightarrow> SignalRollupPhase cs = SignalRouted \<longleftrightarrow> (\<exists>c \<in> set cs. sc_State c = ClaimantRouted)"
    using cs(1) by (auto simp: SignalRollupPhase_def Let_def list_ex_iff)
  then show "if sr_Claimants sig = []
   then sr_Phase (terminate_as sig dropReason failReason) = SignalDropped
     \<and> sr_Reason (terminate_as sig dropReason failReason) = dropReason
   else (sr_Phase (terminate_as sig dropReason failReason) = SignalRouted
       \<longleftrightarrow> (\<exists>c \<in> set (sr_Claimants sig). sc_State c = ClaimantRouted))
     \<and> (\<forall>c \<in> set (sr_Claimants (terminate_as sig dropReason failReason)). sc_State c \<noteq> ClaimantRouting)"
    using cs by (simp add: e)
qed

text \<open>
  C14. The retry deadline always ends a signal. A pass over a live signal whose deadline has passed, when its
  source exists and the cap leaves it alone, either fails its write or hands the store a terminal record,
  completed now and expiring; before fan-out it is Dropped as exhausted, after it every claimant still
  routing has failed and a partially routed signal counts as Routed.
\<close>

theorem deadline_ends_a_signal:
  assumes "\<not> sr_Terminal (sp_rec p)" "sr_CompletedAt (sp_rec p) = None" "sr_FirstAttemptAt (sp_rec p) = Some first"
    and "r_GetSource r (world_of s) (sr_SourceRef (sp_rec p)) = Inr (Some src)"
    and "enforceSourceCap r p s = (s1, Inr False)"
    and "retryDeadline r \<le> time_sub (r_Now r (world_of s1)) first"
    and "reconcileLive r p s = (s', out)"
  shows "\<exists>sig p2 s2 e. write_pass r (p\<lparr>sp_rec := sig\<rparr>) s1 = (s2, p2, e)
    \<and> out = outcome_of e \<and> world_of s' = world_of s2
    \<and> sr_Terminal sig \<and> sr_CompletedAt sig = Some (truncate_second (r_Now r (world_of s1)))
    \<and> sr_ExpiresAt sig = Some (truncate_second (r_Now r (world_of s1)) + ttlFor r (sr_Phase sig))
    \<and> (if sr_Claimants (sp_rec p) = [] then sr_Phase sig = SignalDropped \<and> sr_Reason sig = ''exhausted''
       else (sr_Phase sig = SignalRouted \<longleftrightarrow> (\<exists>c \<in> set (sr_Claimants (sp_rec p)). sc_State c = ClaimantRouted))
          \<and> (\<forall>c \<in> set (sr_Claimants sig). sc_State c \<noteq> ClaimantRouting))"
proof -
  let ?old = "sp_rec p"
  define reason where "reason = exhaust_reason r (time_sub (r_Now r (world_of s1)) first)"
  have ex: "reconcileLive r p s = exhaust r p (time_sub (r_Now r (world_of s1)) first) s1"
    using assms(3-6) by (simp add: reconcileLive_def Let_def)
  let ?fin = "terminate_as ?old ''exhausted'' reason"
  let ?sig = "finishIfTerminal r (world_of s1) ?fin"
  obtain s2 p2 e where w: "write_pass r (p\<lparr>sp_rec := ?sig\<rparr>) s1 = (s2, p2, e)" by (metis prod_cases3)
  have run: "exhaust r p (time_sub (r_Now r (world_of s1)) first) s1 = (case e of Some x \<Rightarrow> (s2, Failed x)
      | None \<Rightarrow> (surface r ?sig ''retry-exhausted'' ''exhausted'' reason s2, Done))"
    by (simp add: exhaust_def Let_def w flip: reason_def)
  have res: "out = outcome_of e \<and> world_of s' = world_of s2"
  proof (cases e)
    case None
    have "(s', out) = (surface r ?sig ''retry-exhausted'' ''exhausted'' reason s2, Done)"
      by (simp only: assms(7) [symmetric] ex run None option.case)
    then have "s' = surface r ?sig ''retry-exhausted'' ''exhausted'' reason s2" "out = Done" by (simp_all only: prod.inject)
    with None show ?thesis by (simp only: world_of_simps outcome_of_def option.case simp_thms)
  next
    case (Some x)
    have "(s', out) = (s2, Failed x)"
      by (simp only: assms(7) [symmetric] ex run Some option.case)
    with Some show ?thesis by (simp add: outcome_of_def)
  qed
  have T: "sr_Terminal ?fin" "sr_CompletedAt ?fin = None"
    using assms(2) by (simp_all only: terminate_as_ends)
  then have sig: "?sig = ?fin\<lparr>sr_CompletedAt := Some (truncate_second (r_Now r (world_of s1))),
      sr_ConsumedAt := Some (truncate_second (r_Now r (world_of s1))), sr_ConsumedBy := consumer r (world_of s1),
      sr_ExpiresAt := Some (truncate_second (r_Now r (world_of s1)) + ttlFor r (sr_Phase ?fin))\<rparr>"
    by (simp add: finishIfTerminal_def Let_def)
  have ends: "if sr_Claimants ?old = [] then sr_Phase ?fin = SignalDropped \<and> sr_Reason ?fin = ''exhausted''
       else (sr_Phase ?fin = SignalRouted \<longleftrightarrow> (\<exists>c \<in> set (sr_Claimants ?old). sc_State c = ClaimantRouted))
          \<and> (\<forall>c \<in> set (sr_Claimants ?fin). sc_State c \<noteq> ClaimantRouting)"
    by (rule terminate_as_ends(3))
  have F: "sr_Phase ?sig = sr_Phase ?fin" "sr_Reason ?sig = sr_Reason ?fin" "sr_Claimants ?sig = sr_Claimants ?fin"
    "sr_CompletedAt ?sig = Some (truncate_second (r_Now r (world_of s1)))"
    "sr_ExpiresAt ?sig = Some (truncate_second (r_Now r (world_of s1)) + ttlFor r (sr_Phase ?fin))"
    by (simp_all add: sig)
  from T(1) have "sr_Terminal ?sig" by (simp only: sr_Terminal_def F)
  with w res ends show ?thesis
    by (intro exI [of _ ?sig] exI [of _ p2] exI [of _ s2] exI [of _ e]) (simp only: F simp_thms)
qed

text \<open>Two claimants, one routed, one still waiting two hours after the first attempt.\<close>

definition stale_signal :: SignalRecord where
  "stale_signal = (sample_signal ''s'' 1)\<lparr>sr_Phase := SignalPartiallyRouted, sr_FirstAttemptAt := Some 0,
     sr_Claimants := [\<lparr>sc_Kind = ''Pipeline'', sc_Name = ''p'', sc_State = ClaimantRouted, sc_ConversationRef = ''c'', sc_Reason = []\<rparr>,
       \<lparr>sc_Kind = ''Pipeline'', sc_Name = ''q'', sc_State = ClaimantRouting, sc_ConversationRef = [], sc_Reason = []\<rparr>]\<rparr>"

definition late_reconciler :: "SignalRecord list SignalReconciler" where
  "late_reconciler = tracing_reconciler\<lparr>r_Now := (\<lambda>w. 7200000000000)\<rparr>"

theorem deadline_ends_a_signal_witness:
  "\<exists>s' sig p2 s2 e. write_pass late_reconciler \<lparr>sp_key = ''s'', sp_rec = sig, sp_rev = ''1''\<rparr> (sample_queue []) = (s2, p2, e)
    \<and> reconcileLive late_reconciler \<lparr>sp_key = ''s'', sp_rec = stale_signal, sp_rev = ''1''\<rparr> (sample_queue []) = (s', outcome_of e)
    \<and> sr_Terminal sig \<and> sr_Phase sig = SignalRouted"
proof -
  let ?p = "\<lparr>sp_key = ''s'', sp_rec = stale_signal, sp_rev = ''1''\<rparr>" and ?s = "sample_queue [] :: SignalRecord list RS"
  have a: "\<not> sr_Terminal (sp_rec ?p)" "sr_CompletedAt (sp_rec ?p) = None" "sr_FirstAttemptAt (sp_rec ?p) = Some 0"
    by (simp_all add: stale_signal_def sample_signal_def sr_Terminal_def TerminalSignalPhase_def)
  have g: "r_GetSource late_reconciler (world_of ?s) (sr_SourceRef (sp_rec ?p)) = Inr (Some source_sample)"
    by (simp add: late_reconciler_def tracing_reconciler_def sample_reconciler_def)
  have c: "enforceSourceCap late_reconciler ?p ?s = (?s, Inr False)"
    by (simp add: enforceSourceCap_def Let_def on_rw_def on_world_def late_reconciler_def tracing_reconciler_def
        sample_reconciler_def sample_deps_def tracing_signals_def no_signals_def maxPerSource_def
        DefaultMaxSignalsPerSource_def sample_queue_def sample_state_def)
  have d: "retryDeadline late_reconciler \<le> time_sub (r_Now late_reconciler (world_of ?s)) 0"
    by (simp add: retryDeadline_def orDuration_def late_reconciler_def tracing_reconciler_def sample_reconciler_def
        DefaultSignalRetryDeadline_def hour_def time_sub_def max_duration_def min_duration_def)
  obtain s' out where r: "reconcileLive late_reconciler ?p ?s = (s', out)" by fastforce
  have cl: "sr_Claimants stale_signal \<noteq> []" "\<exists>c \<in> set (sr_Claimants stale_signal). sc_State c = ClaimantRouted"
    by (simp_all add: stale_signal_def)
  from deadline_ends_a_signal [OF a g c d r] cl r show ?thesis by (simp, blast)
qed

text \<open>
  The source cap evicts the oldest: a pass evicts its own signal exactly when, among the live signals of the
  source counted with it, it is one of the as many as the limit is exceeded by that arrived first; in
  particular a source within its limit loses nothing.
\<close>

theorem cap_evicts_the_oldest:
  assumes "on_rw (on_world (\<lambda>w. sst_List (d_Signals (r_Deps r)) w SignalNonTerminalBySource
             \<lparr>slk_Source = sr_SourceRef (sp_rec p), slk_InitiationID = []\<rparr>)) s = (s1, Inr others)"
    and "distinct (map sr_Name others)" and "live (sp_rec p)"
    and "enforceSourceCap r p s = (s', Inr evicted)"
  shows "evicted \<longleftrightarrow> int (card {x \<in> set (live_of_source (sp_rec p) others). SignalArrivesBefore x (sp_rec p)})
      < int (length (live_of_source (sp_rec p) others)) - maxPerSource r"
proof -
  let ?sig = "sp_rec p" and ?live = "live_of_source (sp_rec p) others"
  let ?ys = "sort_key arrival_of ?live"
  let ?n = "nat (int (length ?live) - maxPerSource r)"
  have dl: "distinct (map sr_Name ?live)" by (rule distinct_live_of_source [OF assms(2)])
  then have da: "distinct (map arrival_of ?ys)"
    by (auto simp: distinct_map arrival_of_def inj_on_def)
  have "evict_oldest r p (overdue r ?sig others) False s1 = (s', Inr evicted)"
    using assms(1,4) by (simp add: enforceSourceCap_eq)
  from evict_oldest_evicts [OF assms(3) distinct_overdue [OF assms(2)] this]
  have "evicted \<longleftrightarrow> sr_Name ?sig \<in> sr_Name ` set (take ?n ?ys)" by (simp add: overdue_def)
  also have "\<dots> \<longleftrightarrow> ?sig \<in> set (take ?n ?ys)"
  proof -
    have "set (take ?n ?ys) \<subseteq> set ?live" using set_take_subset [of ?n ?ys] by simp
    moreover have "?sig \<in> set ?live" by (simp add: live_of_source_def)
    ultimately show ?thesis using dl by (auto simp: distinct_map dest: inj_onD)
  qed
  also have "\<dots> \<longleftrightarrow> card {x \<in> set ?ys. arrival_of x < arrival_of ?sig} < ?n"
  proof (rule take_rank [OF sorted_sort_key da])
    have "?sig \<in> set ?live" by (simp add: live_of_source_def)
    then show "?sig \<in> set ?ys" by (simp only: set_sort)
  qed
  finally show ?thesis by (simp add: SignalArrivesBefore_iff zless_nat_conj zless_nat_eq_int_zless)
qed

text \<open>Two live signals on a source limited to one: the older one, this pass's, goes.\<close>

definition crowded_reconciler :: "unit SignalReconciler" where
  "crowded_reconciler = (sample_reconciler ((sample_deps no_store)\<lparr>d_Signals :=
     no_signals\<lparr>sst_List := (\<lambda>w i k. (w, Inr [sample_signal ''b'' 2, sample_signal ''a'' 1])),
                sst_Update := (\<lambda>w k v rec. (w, Inr v))\<rparr>\<rparr>))\<lparr>r_MaxPerSource := 1\<rparr>"

theorem cap_evicts_the_oldest_witness:
  "\<exists>s'. enforceSourceCap crowded_reconciler \<lparr>sp_key = ''a'', sp_rec = sample_signal ''a'' 1, sp_rev = ''1''\<rparr> (sample_queue ())
     = (s', Inr True)
   \<and> int (card {x \<in> {sample_signal ''a'' 1, sample_signal ''b'' 2}. SignalArrivesBefore x (sample_signal ''a'' 1)}) < 2 - 1"
proof -
  let ?p = "\<lparr>sp_key = ''a'', sp_rec = sample_signal ''a'' 1, sp_rev = ''1''\<rparr>"
  let ?s = "sample_queue () :: unit RS" and ?others = "[sample_signal ''b'' 2, sample_signal ''a'' 1]"
  have D: "d_Signals (r_Deps crowded_reconciler) = no_signals\<lparr>sst_List := (\<lambda>w i k. (w, Inr ?others)),
      sst_Update := (\<lambda>w k v rec. (w, Inr v))\<rparr>" "maxPerSource crowded_reconciler = 1"
    by (simp_all add: crowded_reconciler_def sample_reconciler_def maxPerSource_def)
  have l: "on_rw (on_world (\<lambda>w. sst_List (d_Signals (r_Deps crowded_reconciler)) w SignalNonTerminalBySource
      \<lparr>slk_Source = sr_SourceRef (sp_rec ?p), slk_InitiationID = []\<rparr>)) ?s = (?s, Inr ?others)"
    by (simp add: D on_rw_def on_world_def)
  have n: "sr_Name (sample_signal a t) = a" "sr_CreatedAt (sample_signal a t) = t" for a t
    by (simp_all add: sample_signal_def)
  have d: "distinct (map sr_Name ?others)" "live (sp_rec ?p)"
    by (simp_all add: n) (simp add: live_def sample_signal_def sr_Terminal_def TerminalSignalPhase_def)
  obtain s' x where e: "enforceSourceCap crowded_reconciler ?p ?s = (s', x)" by fastforce
  have lv: "live_of_source (sp_rec ?p) ?others = [sample_signal ''a'' 1, sample_signal ''b'' 2]"
    by (simp add: live_of_source_def n)
  have "\<exists>b. x = Inr b"
  proof -
    have "overdue crowded_reconciler (sample_signal ''a'' 1) ?others = [sample_signal ''a'' 1]"
      by (simp add: overdue_def lv [simplified] D n arrival_of_def less_eq_arrival_def less_arrival_def)
    then have "enforceSourceCap crowded_reconciler ?p ?s = evict_oldest crowded_reconciler ?p [sample_signal ''a'' 1] False ?s"
      using l by (simp add: enforceSourceCap_eq)
    then show ?thesis using e by (auto simp: evict_def write_pass_def D on_rw_def on_world_def Let_def)
  qed
  then obtain b where x: "x = Inr b" ..
  have c: "{y \<in> {sample_signal ''a'' 1, sample_signal ''b'' 2}. SignalArrivesBefore y (sample_signal ''a'' 1)} = {}"
    by (auto simp: SignalArrivesBefore_def n)
  from cap_evicts_the_oldest [OF l d e [unfolded x]] have b
    using c by (simp add: lv [simplified] D)
  with e x c show ?thesis by simp
qed

text \<open>
  C18. Turns: whatever live signals one conversation has, exactly one of them is its head, so exactly one pass
  may consume, and it is the one that arrived first.
\<close>

theorem one_head_per_conversation:
  assumes "on_rw (on_world (\<lambda>w. sst_List (d_Signals (r_Deps r)) w SignalNonTerminalByInitiation
             \<lparr>slk_Source = source, slk_InitiationID = initiation\<rparr>)) s = (s1, Inr xs)"
    and "xs \<noteq> []" and "distinct (map sr_Name xs)"
    and "\<forall>x \<in> set xs. sr_SourceRef x = source \<and> sr_InitiationID x = initiation"
  shows "\<exists>!sig. sig \<in> set xs \<and> isHead r sig s = (s1, Inr True)"
proof -
  have head: "isHead r sig s = (s1, Inr True) \<longleftrightarrow> (\<forall>x \<in> set xs. arrival_of sig \<le> arrival_of x)"
    if "sig \<in> set xs" for sig
  proof -
    have "isHead r sig s = (s1, Inr (list_all (\<lambda>l. \<not> (sr_Name l \<noteq> sr_Name sig \<and> SignalArrivesBefore l sig)) xs))"
      using assms(1,4) that by (simp add: isHead_def)
    moreover have "\<not> (sr_Name x \<noteq> sr_Name sig \<and> SignalArrivesBefore x sig) \<longleftrightarrow> arrival_of sig \<le> arrival_of x"
      if "x \<in> set xs" for x
      using assms(3) that \<open>sig \<in> set xs\<close>
      by (auto simp: SignalArrivesBefore_iff not_less distinct_map dest: inj_onD)
    ultimately show ?thesis by (simp add: list_all_iff)
  qed
  have inj: "x = y" if "x \<in> set xs" "y \<in> set xs" "arrival_of x = arrival_of y" for x y
    using assms(3) that by (auto simp: arrival_of_def distinct_map dest: inj_onD)
  have fin: "finite (arrival_of ` set xs)" "arrival_of ` set xs \<noteq> {}" using assms(2) by auto
  obtain h where h: "h \<in> set xs" "arrival_of h = Min (arrival_of ` set xs)" using Min_in [OF fin] by (metis imageE)
  have "\<forall>x \<in> set xs. arrival_of h \<le> arrival_of x" using h(2) Min_le [OF fin(1)] by simp
  then show ?thesis
  proof (intro ex1I [of _ h] conjI)
    fix sig assume g: "sig \<in> set xs \<and> isHead r sig s = (s1, Inr True)"
    then have "arrival_of sig \<le> arrival_of h" using h(1) head by blast
    moreover have "arrival_of h \<le> arrival_of sig" using g \<open>\<forall>x \<in> set xs. arrival_of h \<le> arrival_of x\<close> by blast
    ultimately show "sig = h" using inj [OF _ h(1)] g by simp
  qed (use h(1) head in blast)+
qed

theorem one_head_per_conversation_witness:
  "\<exists>!sig. sig \<in> {sample_signal ''b'' 2, sample_signal ''a'' 1}
     \<and> isHead crowded_reconciler sig (sample_queue ()) = (sample_queue (), Inr True)"
proof -
  let ?xs = "[sample_signal ''b'' 2, sample_signal ''a'' 1]"
  have "on_rw (on_world (\<lambda>w. sst_List (d_Signals (r_Deps crowded_reconciler)) w SignalNonTerminalByInitiation
      \<lparr>slk_Source = [], slk_InitiationID = []\<rparr>)) (sample_queue ()) = (sample_queue (), Inr ?xs)"
    by (simp add: crowded_reconciler_def sample_reconciler_def on_rw_def on_world_def)
  moreover have "?xs \<noteq> []" "distinct (map sr_Name ?xs)" "\<forall>x \<in> set ?xs. sr_SourceRef x = [] \<and> sr_InitiationID x = []"
    by (simp_all add: sample_signal_def)
  ultimately have "\<exists>!sig. sig \<in> set ?xs \<and> isHead crowded_reconciler sig (sample_queue ()) = (sample_queue (), Inr True)"
    by (rule one_head_per_conversation)
  then show ?thesis by (simp only: list.set)
qed

text \<open>
  C39. A receipt can be lost. When a pass routed the first claimant of a signal and then met an error on a
  later one, it records the claimant but leaves before it counts the signal on its source, and no later pass
  counts it: the claimant stays Routed, so none of them is the first to route. \<open>receivedTotal\<close> stays
  one short, although the field is documented to move once per routed signal.
\<close>

theorem partial_route_is_never_counted:
  assumes "on_rw (Route (r_Deps r) (sp_rec p)) s = (s1, sig, res, Some e)" and "rs_FirstRouted res"
    and "list_all2 claimant_step (sr_Claimants sig) (sr_Claimants later)"
  shows "(\<exists>s2 p2 we. write_pass r (p\<lparr>sp_rec := finishIfTerminal r (world_of s1) sig\<rparr>) s1 = (s2, p2, we)
      \<and> consume_route r p src s = (s2, Failed (case we of Some x \<Rightarrow> x | None \<Rightarrow> e)))
    \<and> \<not> rs_FirstRouted (fst (snd (snd (Route d later rw))))"
proof
  obtain s2 p2 we where w: "write_pass r (p\<lparr>sp_rec := finishIfTerminal r (world_of s1) sig\<rparr>) s1 = (s2, p2, we)"
    by (metis prod_cases3)
  then show "\<exists>s2 p2 we. write_pass r (p\<lparr>sp_rec := finishIfTerminal r (world_of s1) sig\<rparr>) s1 = (s2, p2, we)
      \<and> consume_route r p src s = (s2, Failed (case we of Some x \<Rightarrow> x | None \<Rightarrow> e))"
    using assms(1) by (cases we) (simp_all add: consume_route_def Let_def)
  have "hasState sig ClaimantRouted"
    using on_rw_run [OF assms(1)] assms(2) by (auto simp: Route_def Let_def split: prod.splits)
  then obtain i where i: "i < length (sr_Claimants sig)" "sc_State (sr_Claimants sig ! i) = ClaimantRouted"
    by (auto simp: hasState_def list_ex_iff in_set_conv_nth)
  then have "sr_Claimants later ! i = sr_Claimants sig ! i" "i < length (sr_Claimants later)"
    using assms(3) by (auto simp: list_all2_conv_all_nth claimant_step_def)
  then have "hasState later ClaimantRouted"
    using i by (auto simp: hasState_def list_ex_iff in_set_conv_nth intro!: exI [of _ i])
  then show "\<not> rs_FirstRouted (fst (snd (snd (Route d later rw))))"
    by (simp add: Route_def Let_def split: prod.splits)
qed

text \<open>Two pipelines served; the first has its input already, the second cannot be read.\<close>

definition halting_reader :: "'w Reader" where
  "halting_reader = no_reader\<lparr>rd_GetPipeline := (\<lambda>w n. if n = ''p'' then Inr (Some \<lparr>pl_Name = ''p'',
     pl_CreationTimestamp = 0, pl_Icon = [], pl_SignalSourceRefs = [], pl_ChannelRefs = [],
     pl_Capability = sample_capability, pl_AgentRef = None, pl_Conditions = []\<rparr>) else Inl ErrNotFound)\<rparr>"

definition served_record :: ConversationRecord where
  "served_record = zero_record\<lparr>cr_Name := ''c'', cr_PipelineRef := ''p'',
     cr_Inputs := [signal_input ''in'' InputAlert ''s-p-p'' (sample_signal ''s'' 1) 0]\<rparr>"

definition halting_reconciler :: "SignalRecord list SignalReconciler" where
  "halting_reconciler = sample_reconciler ((sample_deps (no_store\<lparr>
      st_List := (\<lambda>w i k. (w, Inr [served_record])), st_Get := (\<lambda>w k. (w, Inr (served_record, ''1'')))\<rparr>))
    \<lparr>d_Reader := halting_reader, d_Signals := tracing_signals (sample_signal ''s'' 1)\<rparr>)"

definition halting_signal :: SignalRecord where
  "halting_signal = (sample_signal ''s'' 1)\<lparr>sr_Claimants :=
     [\<lparr>sc_Kind = ''Pipeline'', sc_Name = ''p'', sc_State = ClaimantRouting, sc_ConversationRef = [], sc_Reason = []\<rparr>,
      \<lparr>sc_Kind = ''Pipeline'', sc_Name = ''q'', sc_State = ClaimantRouting, sc_ConversationRef = [], sc_Reason = []\<rparr>]\<rparr>"

theorem partial_route_is_never_counted_witness:
  "\<exists>s1 sig res e. Route (r_Deps halting_reconciler) halting_signal (sample_state []) = (s1, sig, res, Some e)
    \<and> rs_FirstRouted res
    \<and> \<not> rs_FirstRouted (fst (snd (snd (Route (r_Deps halting_reconciler) sig (sample_state [])))))"
proof -
  let ?r = halting_reconciler and ?p = "\<lparr>sp_key = ''s'', sp_rec = halting_signal, sp_rev = ''1''\<rparr>"
  obtain s1 sig res e where r: "on_rw (Route (r_Deps ?r) (sp_rec ?p)) (sample_queue []) = (s1, sig, res, e)" by (metis prod_cases4)
  have f: "\<exists>x. e = Some x" "rs_FirstRouted res"
    using r by (auto simp: on_rw_def sample_queue_def Route_def Let_def halting_signal_def sample_signal_def route_claimant_def
        halting_reconciler_def sample_reconciler_def sample_deps_def ClaimantByKind_def chatKind_def halting_reader_def
        no_reader_def routeOneClaimant_def findReusableConversation_def on_world_def sample_state_def no_store_def
        served_record_def zero_record_def reusableBy_def appendInput_def InputName_def claimantOf_def inputDelivered_def
        queuedInput_def signal_input_def hasState_def zero_Result_def)
  then obtain x where x: "e = Some x" by blast
  have "list_all2 claimant_step (sr_Claimants sig) (sr_Claimants sig)" by simp
  from partial_route_is_never_counted [OF r [unfolded x] f(2) this, of source_sample "r_Deps ?r" "sample_state []"]
  show ?thesis using on_rw_run [OF r] x f(2) by (auto simp: sample_queue_def)
qed

end
