(* ===== verification/OpQueue.thy ===== *)
theory OpQueue
  imports Messages Activity StateStore
begin

text \<open>
  The queue of outbound channel operations, \<open>internal/chat/ops.go\<close> and \<open>provider.go\<close>: topics to
  create, messages to post, threads to archive, deletions to report. Operations are enqueued under
  an id, claimed by the adapter that polls, and completed; a completion of a derived operation is
  remembered in a window of 512 and recorded on the conversation.

  A section the source runs under the queue's mutex is one function on the queue. Where a method
  takes the mutex twice, or calls the store in between, the whole method is the composition of its
  sections. Go visits a map in no particular order: \<open>Claim\<close> takes the order as an argument. The
  clock is read from the world, as in the routing.
\<close>

section \<open>Operations\<close>

datatype OpKind = OpEnsureTopic | OpSend | OpCloseTopic | OpDeleteConversation

fun kind_text :: "OpKind \<Rightarrow> string" where
  "kind_text OpEnsureTopic = ''ensure-topic''"
| "kind_text OpSend = ''send''"
| "kind_text OpCloseTopic = ''close-topic''"
| "kind_text OpDeleteConversation = ''delete-conversation''"

abbreviation ConditionTopicReady :: string where "ConditionTopicReady \<equiv> ''TopicReady''"

record TopicDescriptor =
  tp_Conversation :: string
  tp_Pipeline :: string
  tp_Source :: string
  tp_Title :: string
  tp_Labels :: labels
  tp_Kind :: string
  tp_PreviousThreadID :: string

record Channel =
  chn_Name :: string
  chn_Adapter :: string

record Op =
  op_ID :: string
  op_Channel :: string
  op_Conversation :: string
  op_ConversationID :: string
  op_Kind :: OpKind
  op_ThreadID :: "string option"
  op_Topic :: "TopicDescriptor option"
  op_Message :: "Message option"
  op_channelType :: string
  op_enqueuedAt :: go_time
  op_claimedAt :: go_time
  op_stable :: bool

text \<open>The composite literal \<open>Op{...}\<close>: what a constructor does not set is the zero value.\<close>

definition zero_Op :: Op where
  "zero_Op = \<lparr>op_ID = [], op_Channel = [], op_Conversation = [], op_ConversationID = [], op_Kind = OpSend,
     op_ThreadID = None, op_Topic = None, op_Message = None, op_channelType = [], op_enqueuedAt = 0,
     op_claimedAt = 0, op_stable = False\<rparr>"

definition Age :: "Op \<Rightarrow> go_time \<Rightarrow> duration" where
  "Age o' now = time_sub now (op_enqueuedAt o')"

record OpResult =
  res_ThreadID :: string
  res_Error :: string

definition ReclaimAfter :: duration where
  "ReclaimAfter = 5 * minute"

definition recent_window :: nat where
  "recent_window = 512"

section \<open>Operation ids\<close>

definition topic_id :: "string \<Rightarrow> ConversationRecord \<Rightarrow> string" where
  "topic_id channel conv =
     ''topic:'' @ cr_Name conv @ '':'' @ cr_ID conv @ '':'' @ channel
     @ (if cr_Reopens conv > 0 then '':r'' @ itoa (cr_Reopens conv) else [])"

definition CloseTopicOpID :: "string \<Rightarrow> string \<Rightarrow> string" where
  "CloseTopicOpID conversation channel = ''close:'' @ conversation @ '':'' @ channel"

definition DeleteConversationOpID :: "string \<Rightarrow> string \<Rightarrow> string" where
  "DeleteConversationOpID conversation channel = ''gone:'' @ conversation @ '':'' @ channel"

definition InputOpID :: "string \<Rightarrow> string \<Rightarrow> string \<Rightarrow> string" where
  "InputOpID conversation inputID channel = ''input:'' @ conversation @ '':'' @ inputID @ '':'' @ channel"

definition RunReplyOpID :: "string \<Rightarrow> string \<Rightarrow> string \<Rightarrow> string" where
  "RunReplyOpID conversation channel runID = ''send:'' @ conversation @ '':'' @ channel @ '':'' @ runID"

definition reopen_keyed :: "string \<Rightarrow> ConversationRecord \<Rightarrow> string \<Rightarrow> string" where
  "reopen_keyed verb conv channel =
     verb @ '':'' @ cr_Name conv @ '':'' @ channel @ '':'' @ itoa (cr_Reopens conv)"

definition ParseCloseTopicOpID :: "string \<Rightarrow> (string \<times> string) option" where
  "ParseCloseTopicOpID i =
     (case split_byte CHR '':'' i of
        [verb, conversation, channel] \<Rightarrow> if verb = ''close'' then Some (conversation, channel) else None
      | _ \<Rightarrow> None)"

definition ParseRunReplyOpID :: "string \<Rightarrow> (string \<times> string \<times> string) option" where
  "ParseRunReplyOpID i =
     (case split_byte CHR '':'' i of
        verb # conversation # channel # r # rest \<Rightarrow>
          if verb = ''send'' then Some (conversation, channel, join '':'' (r # rest)) else None
      | _ \<Rightarrow> None)"

definition isRunReply :: "string \<Rightarrow> bool" where
  "isRunReply i \<longleftrightarrow> ParseRunReplyOpID i \<noteq> None"

section \<open>The queue\<close>

text \<open>\<open>q_sendSeq\<close> is the package's counter; \<open>q_spawned\<close> the goroutines started and not yet run.\<close>

record OpQueue =
  q_ops :: "string \<rightharpoonup> Op"
  q_order :: "string \<Rightarrow> string list"
  q_recent :: "string set"
  q_ring :: "string list"
  q_log :: "Log option"
  q_sendSeq :: int
  q_spawned :: "string list"

definition NewQueue :: "Log option \<Rightarrow> OpQueue" where
  "NewQueue l = \<lparr>q_ops = Map.empty, q_order = (\<lambda>_. []), q_recent = {}, q_ring = [], q_log = l,
     q_sendSeq = 0, q_spawned = []\<rparr>"

definition Settled :: "OpQueue \<Rightarrow> string \<Rightarrow> bool" where
  "Settled q i \<longleftrightarrow> i \<in> q_recent q"

definition Pending :: "OpQueue \<Rightarrow> string \<Rightarrow> bool" where
  "Pending q i \<longleftrightarrow> q_ops q i \<noteq> None"

definition opOriginNode :: "Op \<Rightarrow> NodeRef option" where
  "opOriginNode o' = (if op_Conversation o' \<noteq> [] then Node ''conversation'' (op_Conversation o')
     else Node ''manager'' ''manager'')"

definition q_emit :: "go_time \<Rightarrow> Event \<Rightarrow> OpQueue \<Rightarrow> OpQueue" where
  "q_emit now e q = q\<lparr>q_log := map_option (Emit now e) (q_log q)\<rparr>"

text \<open>The guarded insertion: the section of \<open>enqueue\<close> under the mutex.\<close>

definition suppressed :: "Op \<Rightarrow> OpQueue \<Rightarrow> bool" where
  "suppressed o' q \<longleftrightarrow> q_ops q (op_ID o') \<noteq> None \<or> (op_stable o' \<and> op_ID o' \<in> q_recent q)"

definition insert_op :: "go_time \<Rightarrow> Op \<Rightarrow> OpQueue \<Rightarrow> OpQueue" where
  "insert_op now o' q =
     q\<lparr>q_ops := (q_ops q)(op_ID o' \<mapsto> o'\<lparr>op_enqueuedAt := now\<rparr>),
       q_order := (q_order q)(op_channelType o' := q_order q (op_channelType o') @ [op_ID o'])\<rparr>"

text \<open>\<open>inProcess\<close> tells the channel types registered with an in-process provider.\<close>

definition enqueue :: "(string \<Rightarrow> bool) \<Rightarrow> go_time \<Rightarrow> Op \<Rightarrow> OpQueue \<Rightarrow> OpQueue" where
  "enqueue inProcess now o' q =
     (if suppressed o' q then q
      else let q = q_emit now (zero_event\<lparr>ev_Kind := ''channel.op.enqueued'', ev_From := opOriginNode o',
                     ev_To := Node ''channel'' (op_Channel o'), ev_Conversation := op_Conversation o',
                     ev_OpID := op_ID o', ev_Code := kind_text (op_Kind o'), ev_Detail := op_Channel o'\<rparr>)
                   (insert_op now o' q)
           in if inProcess (op_channelType o') then q\<lparr>q_spawned := q_spawned q @ [op_channelType o']\<rparr> else q)"

definition enqueueMessage :: "(string \<Rightarrow> bool) \<Rightarrow> go_time \<Rightarrow> string \<Rightarrow> Channel \<Rightarrow> string \<Rightarrow> string
    \<Rightarrow> string option \<Rightarrow> Message \<Rightarrow> bool \<Rightarrow> OpQueue \<Rightarrow> OpQueue" where
  "enqueueMessage inProcess now i ch conversation conversationID threadID msg durable q =
     enqueue inProcess now (zero_Op\<lparr>op_ID := i, op_Channel := chn_Name ch, op_Conversation := conversation,
       op_ConversationID := conversationID, op_Kind := OpSend, op_ThreadID := threadID, op_Message := Some msg,
       op_channelType := chn_Adapter ch, op_stable := durable\<rparr>) q"

definition titled :: "TopicDescriptor \<Rightarrow> ConversationRecord \<Rightarrow> TopicDescriptor" where
  "titled topic conv =
     (let topic = topic\<lparr>tp_Conversation := cr_Name conv\<rparr>;
          topic = (if tp_Title topic = [] then topic\<lparr>tp_Title := cr_Title conv\<rparr> else topic)
      in if tp_Title topic = [] then topic\<lparr>tp_Title := cr_Name conv\<rparr> else topic)"

definition EnqueueEnsureTopic :: "(string \<Rightarrow> bool) \<Rightarrow> go_time \<Rightarrow> Channel \<Rightarrow> ConversationRecord \<Rightarrow> TopicDescriptor
    \<Rightarrow> OpQueue \<Rightarrow> OpQueue" where
  "EnqueueEnsureTopic inProcess now ch conv topic q =
     enqueue inProcess now (zero_Op\<lparr>op_ID := topic_id (chn_Name ch) conv, op_Channel := chn_Name ch,
       op_Conversation := cr_Name conv, op_ConversationID := cr_ConversationID conv, op_Kind := OpEnsureTopic,
       op_Topic := Some (titled topic conv), op_channelType := chn_Adapter ch, op_stable := True\<rparr>) q"

definition EnqueueCloseTopic :: "(string \<Rightarrow> bool) \<Rightarrow> go_time \<Rightarrow> Channel \<Rightarrow> string \<Rightarrow> ConversationRecord
    \<Rightarrow> OpQueue \<Rightarrow> OpQueue" where
  "EnqueueCloseTopic inProcess now ch threadID conv q =
     enqueue inProcess now (zero_Op\<lparr>op_ID := CloseTopicOpID (cr_Name conv) (chn_Name ch), op_Channel := chn_Name ch,
       op_Conversation := cr_Name conv, op_ConversationID := cr_ConversationID conv, op_Kind := OpCloseTopic,
       op_ThreadID := Some threadID, op_channelType := chn_Adapter ch, op_stable := True\<rparr>) q"

definition deleted_notice :: Message where
  "deleted_notice = Notice (runes_string [128465]
     @ '' This conversation has been deleted, along with everything it recorded. ''
     @ ''The thread stays here to read. A new message starts a NEW conversation '' @ runes_string [8212]
     @ '' it will not continue this one.'')"

definition EnqueueDeleteConversation :: "(string \<Rightarrow> bool) \<Rightarrow> go_time \<Rightarrow> Channel \<Rightarrow> string \<Rightarrow> ConversationRecord
    \<Rightarrow> OpQueue \<Rightarrow> OpQueue" where
  "EnqueueDeleteConversation inProcess now ch threadID conv q =
     enqueue inProcess now (zero_Op\<lparr>op_ID := DeleteConversationOpID (cr_Name conv) (chn_Name ch),
       op_Channel := chn_Name ch, op_Conversation := cr_Name conv, op_ConversationID := cr_ConversationID conv,
       op_Kind := OpDeleteConversation, op_ThreadID := Some threadID, op_Message := Some deleted_notice,
       op_channelType := chn_Adapter ch, op_stable := True\<rparr>) q"

text \<open>A fresh id for every call: \<open>sendEpoch\<close> is the process's start, the counter its own.\<close>

definition EnqueueMessage :: "(string \<Rightarrow> bool) \<Rightarrow> string \<Rightarrow> go_time \<Rightarrow> Channel \<Rightarrow> ConversationRecord option
    \<Rightarrow> string option \<Rightarrow> Message \<Rightarrow> OpQueue \<Rightarrow> OpQueue" where
  "EnqueueMessage inProcess sendEpoch now ch conv threadID msg q =
     (let (name, conversationID) = (case conv of None \<Rightarrow> ([], []) | Some c \<Rightarrow> (cr_Name c, cr_ConversationID c));
          n = q_sendSeq q + 1
      in enqueueMessage inProcess now (''send:'' @ sendEpoch @ '':'' @ format_base 36 n) ch name conversationID
           threadID msg False (q\<lparr>q_sendSeq := n\<rparr>))"

definition EnqueueKeyed :: "string \<Rightarrow> (string \<Rightarrow> bool) \<Rightarrow> go_time \<Rightarrow> Channel \<Rightarrow> ConversationRecord
    \<Rightarrow> string option \<Rightarrow> Message \<Rightarrow> OpQueue \<Rightarrow> OpQueue" where
  "EnqueueKeyed verb inProcess now ch conv threadID msg q =
     enqueueMessage inProcess now (reopen_keyed verb conv (chn_Name ch)) ch (cr_Name conv) (cr_ConversationID conv)
       threadID msg True q"

abbreviation EnqueueFarewell where "EnqueueFarewell \<equiv> EnqueueKeyed ''farewell''"
abbreviation EnqueueReopenNotice where "EnqueueReopenNotice \<equiv> EnqueueKeyed ''reopened''"
abbreviation EnqueueEscalationMessage where "EnqueueEscalationMessage \<equiv> EnqueueKeyed ''escalate''"

definition EnqueueInputDelivery :: "(string \<Rightarrow> bool) \<Rightarrow> go_time \<Rightarrow> Channel \<Rightarrow> ConversationRecord \<Rightarrow> string
    \<Rightarrow> string option \<Rightarrow> Message \<Rightarrow> OpQueue \<Rightarrow> OpQueue" where
  "EnqueueInputDelivery inProcess now ch conv inputID threadID msg q =
     enqueueMessage inProcess now (InputOpID (cr_Name conv) inputID (chn_Name ch)) ch (cr_Name conv)
       (cr_ConversationID conv) threadID msg True q"

definition EnqueueRunReply :: "(string \<Rightarrow> bool) \<Rightarrow> go_time \<Rightarrow> Channel \<Rightarrow> ConversationRecord \<Rightarrow> string
    \<Rightarrow> string option \<Rightarrow> Message \<Rightarrow> OpQueue \<Rightarrow> OpQueue" where
  "EnqueueRunReply inProcess now ch conv runID threadID msg q =
     enqueueMessage inProcess now (RunReplyOpID (cr_Name conv) (chn_Name ch) runID) ch (cr_Name conv)
       (cr_ConversationID conv) threadID msg True q"

section \<open>Claiming\<close>

definition overdue_claim :: "go_time \<Rightarrow> string \<Rightarrow> Op \<Rightarrow> bool" where
  "overdue_claim now channelType o' \<longleftrightarrow>
     op_channelType o' = channelType \<and> \<not> IsZero (op_claimedAt o') \<and> time_sub now (op_claimedAt o') > ReclaimAfter"

definition reclaim_one :: "go_time \<Rightarrow> string \<Rightarrow> string \<Rightarrow> OpQueue \<Rightarrow> OpQueue" where
  "reclaim_one now channelType i q =
     (case q_ops q i of
        Some o' \<Rightarrow>
          if overdue_claim now channelType o'
          then q\<lparr>q_ops := (q_ops q)(i \<mapsto> o'\<lparr>op_claimedAt := 0\<rparr>),
                 q_order := (q_order q)(channelType := i # q_order q channelType)\<rparr>
          else q
      | None \<Rightarrow> q)"

definition reclaim :: "go_time \<Rightarrow> string \<Rightarrow> string list \<Rightarrow> OpQueue \<Rightarrow> OpQueue" where
  "reclaim now channelType ids q = fold (reclaim_one now channelType) ids q"

fun claim_first :: "go_time \<Rightarrow> string \<Rightarrow> string list \<Rightarrow> OpQueue \<Rightarrow> OpQueue \<times> Op option" where
  "claim_first now channelType [] q = (q\<lparr>q_order := (q_order q)(channelType := [])\<rparr>, None)"
| "claim_first now channelType (i # queue) q =
     (case q_ops q i of
        Some o' \<Rightarrow>
          if IsZero (op_claimedAt o')
          then let o' = o'\<lparr>op_claimedAt := now\<rparr> in
            (q\<lparr>q_ops := (q_ops q)(i \<mapsto> o'), q_order := (q_order q)(channelType := queue)\<rparr>, Some o')
          else claim_first now channelType queue q
      | None \<Rightarrow> claim_first now channelType queue q)"

definition Claim :: "string list \<Rightarrow> go_time \<Rightarrow> string \<Rightarrow> OpQueue \<Rightarrow> OpQueue \<times> Op option" where
  "Claim ids now channelType q =
     (let q = reclaim now channelType ids q in claim_first now channelType (q_order q channelType) q)"

section \<open>Completing\<close>

definition take_op :: "string \<Rightarrow> OpQueue \<Rightarrow> OpQueue \<times> Op option" where
  "take_op i q =
     (case q_ops q i of
        None \<Rightarrow> (q, None)
      | Some o' \<Rightarrow>
          (let recent = insert i (q_recent q); ring = q_ring q @ [i] in
           (if length ring > recent_window
            then q\<lparr>q_ops := (q_ops q)(i := None), q_recent := recent - {hd ring}, q_ring := tl ring\<rparr>
            else q\<lparr>q_ops := (q_ops q)(i := None), q_recent := recent, q_ring := ring\<rparr>, Some o')))"

definition release_id :: "string \<Rightarrow> OpQueue \<Rightarrow> OpQueue" where
  "release_id i q = q\<lparr>q_recent := q_recent q - {i}\<rparr>"

text \<open>Marks on the conversation. A queue with no store marks nothing.\<close>

definition markThreadArchived :: "'w Store option \<Rightarrow> Op \<Rightarrow> 'w \<Rightarrow> 'w \<times> err option" where
  "markThreadArchived store o' w =
     (case (ParseCloseTopicOpID (op_ID o'), store) of
        (Some (_, channel), Some s) \<Rightarrow>
          (case Mutate s (op_Conversation o') (\<lambda>u rec. (u, Inr (if \<not> ThreadArchived rec channel
                 then rec\<lparr>cr_ThreadsArchived := cr_ThreadsArchived rec @ [channel]\<rparr> else rec))) () w of
             (w, _, Inl e) \<Rightarrow> (w, IgnoreNotFound (Some e))
           | (w, _, Inr _) \<Rightarrow> (w, None))
      | _ \<Rightarrow> (w, None))"

definition clear_note :: "string \<Rightarrow> string \<Rightarrow> ConversationRecord \<Rightarrow> ConversationRecord" where
  "clear_note channel runID rec = rec\<lparr>cr_Threads := update_first (\<lambda>t. th_Channel t = channel)
     (\<lambda>t. if th_UndeliveredReply t = runID then t\<lparr>th_UndeliveredReply := []\<rparr> else t) (cr_Threads rec)\<rparr>"

definition clearUndeliveredNote :: "'w Store \<Rightarrow> key \<Rightarrow> string \<Rightarrow> string \<Rightarrow> 'w \<Rightarrow> 'w \<times> err option" where
  "clearUndeliveredNote s key channel runID w =
     (case Mutate s key (\<lambda>u rec. (u, Inr (clear_note channel runID rec))) () w of
        (w, _, Inl e) \<Rightarrow> (w, IgnoreNotFound (Some e))
      | (w, _, Inr _) \<Rightarrow> (w, None))"

definition no_update :: RunUpdate where
  "no_update = \<lparr>ru_MarkDeliveryTracked = False, ru_MarkDelivered = [], ru_MarkRoutedToParent = False\<rparr>"

definition markDelivered :: "'w Store option \<Rightarrow> Op \<Rightarrow> 'w \<Rightarrow> 'w \<times> err option" where
  "markDelivered store o' w =
     (case (ParseRunReplyOpID (op_ID o'), store) of
        (Some (_, channel, runID), Some s) \<Rightarrow>
          (let key = op_Conversation o' in
           case st_ListRuns s w key of
             (w, Inl e) \<Rightarrow> (w, IgnoreNotFound (Some e))
           | (w, Inr runs) \<Rightarrow>
               (case List.find (\<lambda>r. run_RunID r = runID) runs of
                  None \<Rightarrow> (w, None)
                | Some run \<Rightarrow>
                    if DeliveredTo run channel then (w, None)
                    else (case st_UpdateRun s w key runID (no_update\<lparr>ru_MarkDelivered := [channel]\<rparr>) of
                       (w, Inl e) \<Rightarrow> (w, IgnoreNotFound (Some e))
                     | (w, Inr _) \<Rightarrow> clearUndeliveredNote s key channel runID w)))
      | _ \<Rightarrow> (w, None))"

definition note_undelivered :: "string \<Rightarrow> string \<Rightarrow> ConversationRecord \<Rightarrow> ConversationRecord" where
  "note_undelivered channel runID rec = rec\<lparr>cr_Threads := update_first (\<lambda>t. th_Channel t = channel)
     (\<lambda>t. t\<lparr>th_UndeliveredReply := runID\<rparr>) (cr_Threads rec)\<rparr>"

definition markUndelivered :: "'w Store option \<Rightarrow> Op \<Rightarrow> 'w \<Rightarrow> 'w \<times> err option" where
  "markUndelivered store o' w =
     (case (ParseRunReplyOpID (op_ID o'), store) of
        (Some (_, channel, runID), Some s) \<Rightarrow>
          (case Mutate s (op_Conversation o') (\<lambda>u rec. (u, Inr (note_undelivered channel runID rec))) () w of
             (w, _, Inl e) \<Rightarrow> (w, map_option (Wrapped (''marking run '' @ runID @ '' undelivered on '' @ channel))
                                   (IgnoreNotFound (Some e)))
           | (w, _, Inr _) \<Rightarrow> (w, None))
      | _ \<Rightarrow> (w, None))"

section \<open>Threads\<close>

definition originReaders :: "ConversationRecord \<Rightarrow> string \<Rightarrow> go_time \<Rightarrow> ReaderMark list" where
  "originReaders rec channel now =
     (case cr_OriginReader rec of
        None \<Rightarrow> []
      | Some o' \<Rightarrow> if or_Key o' = [] \<or> or_Channel o' \<noteq> channel then []
          else [\<lparr>rm_Key = or_Key o', rm_ReadAt = Some (time_Format now)\<rparr>])"

definition bindThread :: "ConversationRecord \<Rightarrow> Op \<Rightarrow> OpResult \<Rightarrow> go_time \<Rightarrow> ConversationRecord" where
  "bindThread rec o' res now =
     (let here = (\<lambda>t. th_Channel t = op_Channel o'); readers = originReaders rec (op_Channel o') now in
      case Thread rec (op_Channel o') of
        Some b \<Rightarrow>
          if th_ThreadID b \<noteq> []
          then rec\<lparr>cr_Threads := update_first here (\<lambda>t. t\<lparr>th_ThreadID := res_ThreadID res, th_Claim := None\<rparr>) (cr_Threads rec)\<rparr>
          else rec\<lparr>cr_Threads := update_first here (\<lambda>t. t\<lparr>th_ThreadID := res_ThreadID res, th_ReadTracked := True,
                 th_Readers := readers, th_Claim := None\<rparr>) (cr_Threads rec)\<rparr>
      | None \<Rightarrow>
          rec\<lparr>cr_Threads := cr_Threads rec @ [\<lparr>th_Channel = op_Channel o', th_ThreadID = res_ThreadID res, th_ReadAt = None,
            th_ReadTracked = True, th_Readers = readers, th_UndeliveredReply = [], th_Claim = None\<rparr>]\<rparr>)"

definition recordThread :: "Op \<Rightarrow> OpResult \<Rightarrow> Condition \<Rightarrow> go_time \<Rightarrow> ConversationRecord \<Rightarrow> ConversationRecord" where
  "recordThread o' res cond now rec =
     (let ok = (co_Status cond = ''True'');
          rec = (if ok then bindThread rec o' res now else rec);
          rec = rec\<lparr>cr_Threads := update_first (\<lambda>t. th_Channel t = op_Channel o') (\<lambda>t. t\<lparr>th_Claim := None\<rparr>) (cr_Threads rec)\<rparr>;
          rec = (if ok then rec\<lparr>cr_ThreadsArchived := filter (\<lambda>c. c \<noteq> op_Channel o') (cr_ThreadsArchived rec)\<rparr> else rec)
      in fst (SetCondition now cond rec))"

definition topic_condition :: "Op \<Rightarrow> OpResult \<Rightarrow> Condition" where
  "topic_condition o' res =
     (let cond = \<lparr>co_Type = ConditionTopicReady, co_Status = ''True'', co_Reason = ''TopicCreated'',
            co_Message = ''channel '' @ op_Channel o', co_ObservedGeneration = 0, co_LastTransitionTime = 0\<rparr> in
      if res_Error res \<noteq> []
      then cond\<lparr>co_Status := ''False'', co_Reason := ''AdapterError'',
             co_Message := ''channel '' @ op_Channel o' @ '': '' @ res_Error res\<rparr>
      else if res_ThreadID res = []
      then cond\<lparr>co_Status := ''False'', co_Reason := ''AdapterError'',
             co_Message := ''channel '' @ op_Channel o' @ '': adapter completed ensure-topic without a thread id''\<rparr>
      else cond)"

definition finishEnsureTopic :: "'w Store \<Rightarrow> ('w \<Rightarrow> nat \<Rightarrow> go_time) \<Rightarrow> Op \<Rightarrow> OpResult \<Rightarrow> 'w \<Rightarrow> 'w \<times> err option" where
  "finishEnsureTopic s clock o' res w =
     (let cond = topic_condition o' res in
      case Mutate s (op_Conversation o')
             (\<lambda>n rec. (n + 1, Inr (recordThread o' res cond (clock w n) rec))) 0 w of
        (w, _, Inl e) \<Rightarrow> (w, IgnoreNotFound (Some e))
      | (w, _, Inr _) \<Rightarrow>
          (w, if co_Status cond = ''False''
              then Some (ErrOther (''ensure-topic for '' @ op_Conversation o' @ '': '' @ co_Message cond)) else None))"

section \<open>Complete\<close>

text \<open>What completing needs beside the queue, and the pair of both states it acts on.\<close>

record 'w OpsEnv =
  oe_Store :: "'w Store option"
  oe_Now :: "'w \<Rightarrow> nat \<Rightarrow> go_time"
  oe_InProcess :: "string \<Rightarrow> bool"

definition completed_event :: "Op \<Rightarrow> OpResult \<Rightarrow> go_time \<Rightarrow> Event" where
  "completed_event o' res now =
     (let e = zero_event\<lparr>ev_Kind := ''channel.op.completed'', ev_From := Node ''channel-adapter'' (op_channelType o'),
            ev_To := Node ''channel'' (op_Channel o'), ev_Conversation := op_Conversation o', ev_OpID := op_ID o',
            ev_Code := kind_text (op_Kind o'), ev_Detail := op_Channel o',
            ev_LatencyMs := Age o' now div 1000000\<rparr>
      in if res_Error res \<noteq> [] then e\<lparr>ev_Status := ''error'', ev_Detail := op_Channel o' @ '': '' @ res_Error res\<rparr> else e)"

text \<open>What a completed operation records on its conversation; true when its id must be released.\<close>

definition settle :: "'w OpsEnv \<Rightarrow> Op \<Rightarrow> OpResult \<Rightarrow> 'w \<Rightarrow> 'w \<times> bool" where
  "settle env o' res w =
     (case op_Kind o' of
        OpEnsureTopic \<Rightarrow>
          (case oe_Store env of
             None \<Rightarrow> (w, False)
           | Some s \<Rightarrow> (case finishEnsureTopic s (oe_Now env) o' res w of (w, e) \<Rightarrow> (w, e \<noteq> None)))
      | OpSend \<Rightarrow>
          if \<not> isRunReply (op_ID o') then (w, False)
          else if res_Error res = [] then (case markDelivered (oe_Store env) o' w of (w, e) \<Rightarrow> (w, e \<noteq> None))
          else (case markUndelivered (oe_Store env) o' w of (w, _) \<Rightarrow> (w, False))
      | OpDeleteConversation \<Rightarrow> (w, False)
      | OpCloseTopic \<Rightarrow>
          if res_Error res = [] then (case markThreadArchived (oe_Store env) o' w of (w, e) \<Rightarrow> (w, e \<noteq> None))
          else (w, False))"

definition Complete :: "'w OpsEnv \<Rightarrow> string \<Rightarrow> OpResult \<Rightarrow> 'w \<times> OpQueue \<Rightarrow> 'w \<times> OpQueue" where
  "Complete env i res st =
     (case st of (w, q) \<Rightarrow>
        (case take_op i q of
           (q, None) \<Rightarrow> (w, q)
         | (q, Some o') \<Rightarrow>
             (let now = oe_Now env w 0;
                  q = q_emit now (completed_event o' res now) q;
                  q = (if res_Error res \<noteq> [] \<and> op_Kind o' \<noteq> OpDeleteConversation then release_id i q else q)
              in case settle env o' res w of
                   (w, True) \<Rightarrow> (w, release_id i q)
                 | (w, False) \<Rightarrow> (w, q))))"

section \<open>In-process providers\<close>

text \<open>A provider acts on the world; the archiving half is optional.\<close>

record 'w Provider =
  pv_EnsureTopic :: "'w \<Rightarrow> TopicDescriptor \<Rightarrow> 'w \<times> string \<times> string option"
  pv_Send :: "'w \<Rightarrow> string option \<Rightarrow> Message \<Rightarrow> 'w \<times> string option"
  pv_CloseTopic :: "('w \<Rightarrow> string \<Rightarrow> 'w \<times> string option) option"

definition provide :: "'w Provider \<Rightarrow> Op \<Rightarrow> 'w \<Rightarrow> 'w \<times> OpResult" where
  "provide p o' w =
     (let none = \<lparr>res_ThreadID = [], res_Error = []\<rparr> in
      case op_Kind o' of
        OpEnsureTopic \<Rightarrow>
          (case op_Topic o' of
             Some t \<Rightarrow> (case pv_EnsureTopic p w t of
                (w, tid, e) \<Rightarrow> (w, \<lparr>res_ThreadID = tid, res_Error = (case e of None \<Rightarrow> [] | Some x \<Rightarrow> x)\<rparr>))
           | None \<Rightarrow> (w, none))
      | OpSend \<Rightarrow>
          (case op_Message o' of
             Some m \<Rightarrow> (case pv_Send p w (op_ThreadID o') m of
                (w, e) \<Rightarrow> (w, none\<lparr>res_Error := (case e of None \<Rightarrow> [] | Some x \<Rightarrow> x)\<rparr>))
           | None \<Rightarrow> (w, none))
      | OpCloseTopic \<Rightarrow>
          (case (pv_CloseTopic p, op_ThreadID o') of
             (Some close, Some tid) \<Rightarrow> (case close w tid of
                (w, e) \<Rightarrow> (w, none\<lparr>res_Error := (case e of None \<Rightarrow> [] | Some x \<Rightarrow> x)\<rparr>))
           | _ \<Rightarrow> (w, none))
      | OpDeleteConversation \<Rightarrow> (w, none))"

definition runInProcess :: "'w OpsEnv \<Rightarrow> ('w \<Rightarrow> string \<Rightarrow> ('w Provider) + string) \<Rightarrow> string list \<Rightarrow> string
    \<Rightarrow> 'w \<times> OpQueue \<Rightarrow> 'w \<times> OpQueue" where
  "runInProcess env factory ids channelType st =
     (case st of (w, q) \<Rightarrow>
        (case Claim ids (oe_Now env w 0) channelType q of
           (q, None) \<Rightarrow> (w, q)
         | (q, Some o') \<Rightarrow>
             (case factory w (op_Channel o') of
                Inr e \<Rightarrow> Complete env (op_ID o') \<lparr>res_ThreadID = [], res_Error = e\<rparr> (w, q)
              | Inl p \<Rightarrow> (case provide p o' w of (w, res) \<Rightarrow> Complete env (op_ID o') res (w, q)))))"

end
