(* ===== verification/OpQueueLaws.thy ===== *)
theory OpQueueLaws
  imports OpQueue
begin

text \<open>
  Laws of the operation queue of \<^theory_text>\<open>OpQueue\<close>: no interleaving of its sections loses an
  operation, a polling adapter is served every outstanding one in order, what a completion leaves
  behind, and that the ids of derived operations can be read back.
\<close>

section \<open>The invariant\<close>

text \<open>Every operation is filed under its id, and an unclaimed one waits in its adapter's queue.\<close>

definition queue_ok :: "OpQueue \<Rightarrow> bool" where
  "queue_ok q \<longleftrightarrow> (\<forall>i o'. q_ops q i = Some o' \<longrightarrow> op_ID o' = i
       \<and> (IsZero (op_claimedAt o') \<longrightarrow> i \<in> set (q_order q (op_channelType o'))))
     \<and> q_recent q \<subseteq> set (q_ring q) \<and> length (q_ring q) \<le> recent_window"

lemma queue_okD:
  assumes "queue_ok q" "q_ops q i = Some o'"
  shows "op_ID o' = i" "IsZero (op_claimedAt o') \<Longrightarrow> i \<in> set (q_order q (op_channelType o'))"
  using assms by (auto simp: queue_ok_def)

lemma queue_okI:
  assumes "\<And>i o'. q_ops q i = Some o' \<Longrightarrow> op_ID o' = i"
    and "\<And>i o'. q_ops q i = Some o' \<Longrightarrow> IsZero (op_claimedAt o') \<Longrightarrow> i \<in> set (q_order q (op_channelType o'))"
    and "q_recent q \<subseteq> set (q_ring q)" "length (q_ring q) \<le> recent_window"
  shows "queue_ok q"
  using assms by (auto simp: queue_ok_def)

lemma queue_ok_ring: "queue_ok q \<Longrightarrow> q_recent q \<subseteq> set (q_ring q)" "queue_ok q \<Longrightarrow> length (q_ring q) \<le> recent_window"
  by (auto simp: queue_ok_def)

lemma queue_ok_New: "queue_ok (NewQueue l)"
  by (simp add: queue_ok_def NewQueue_def)

lemma queue_ok_quiet [simp]:
  "queue_ok (q\<lparr>q_log := l\<rparr>) = queue_ok q" "queue_ok (q\<lparr>q_spawned := s\<rparr>) = queue_ok q"
  "queue_ok (q\<lparr>q_sendSeq := n\<rparr>) = queue_ok q" "queue_ok (q_emit now e q) = queue_ok q"
  by (simp_all add: queue_ok_def q_emit_def)

lemma insert_op_ok:
  assumes "queue_ok q"
  shows "queue_ok (insert_op now o' q)"
proof (rule queue_okI)
  fix i p assume p: "q_ops (insert_op now o' q) i = Some p"
  show "op_ID p = i"
    using p queue_okD(1) [OF assms] by (cases "i = op_ID o'") (auto simp: insert_op_def)
  assume "IsZero (op_claimedAt p)"
  with p queue_okD(2) [OF assms, of i p] show "i \<in> set (q_order (insert_op now o' q) (op_channelType p))"
    by (cases "i = op_ID o'") (auto simp: insert_op_def)
qed (use queue_ok_ring [OF assms] in \<open>simp_all add: insert_op_def\<close>)

lemma enqueue_ok: "queue_ok q \<Longrightarrow> queue_ok (enqueue ip now o' q)"
  by (simp add: enqueue_def insert_op_ok Let_def)

lemma reclaim_one_ops:
  "q_ops (reclaim_one now t i q) j =
     (case q_ops q j of None \<Rightarrow> None
      | Some o' \<Rightarrow> Some (if j = i \<and> overdue_claim now t o' then o'\<lparr>op_claimedAt := 0\<rparr> else o'))"
  by (auto simp: reclaim_one_def split: option.splits)

lemma reclaim_one_order:
  "set (q_order q t') \<subseteq> set (q_order (reclaim_one now t i q) t')"
  "q_ops q i = Some o' \<Longrightarrow> overdue_claim now t o' \<Longrightarrow> i \<in> set (q_order (reclaim_one now t i q) t)"
  by (auto simp: reclaim_one_def split: option.splits)

lemma reclaim_one_ok:
  assumes "queue_ok q"
  shows "queue_ok (reclaim_one now t i q)"
proof (rule queue_okI)
  fix j p assume p: "q_ops (reclaim_one now t i q) j = Some p"
  then obtain o' where o': "q_ops q j = Some o'"
    "p = (if j = i \<and> overdue_claim now t o' then o'\<lparr>op_claimedAt := 0\<rparr> else o')"
    by (auto simp: reclaim_one_ops split: option.splits)
  then show "op_ID p = j" using queue_okD(1) [OF assms o'(1)] by simp
  assume z: "IsZero (op_claimedAt p)"
  show "j \<in> set (q_order (reclaim_one now t i q) (op_channelType p))"
  proof (cases "j = i \<and> overdue_claim now t o'")
    case True
    with o' reclaim_one_order(2) [of q i o' now t] show ?thesis by (auto simp: overdue_claim_def)
  next
    case False
    with o' z queue_okD(2) [OF assms o'(1)] reclaim_one_order(1) [of q "op_channelType p" now t i] show ?thesis by auto
  qed
next
  show "q_recent (reclaim_one now t i q) \<subseteq> set (q_ring (reclaim_one now t i q))"
    "length (q_ring (reclaim_one now t i q)) \<le> recent_window"
    using queue_ok_ring [OF assms] by (auto simp: reclaim_one_def split: option.splits)
qed

lemma reclaim_ok: "queue_ok q \<Longrightarrow> queue_ok (reclaim now t ids q)"
  unfolding reclaim_def by (induction ids arbitrary: q) (simp_all add: reclaim_one_ok)

text \<open>Ids the scan has passed are claimed or gone; what it returns is unclaimed no more.\<close>

definition behind :: "OpQueue \<Rightarrow> string \<Rightarrow> string list \<Rightarrow> bool" where
  "behind q t queue \<longleftrightarrow>
     (\<forall>i o'. q_ops q i = Some o' \<longrightarrow> op_channelType o' = t \<longrightarrow> IsZero (op_claimedAt o') \<longrightarrow> i \<in> set queue)"

lemma claim_first_skip:
  assumes "\<not> (\<exists>p. q_ops q j = Some p \<and> IsZero (op_claimedAt p))"
  shows "claim_first now t (j # queue) q = claim_first now t queue q" "behind q t (j # queue) \<Longrightarrow> behind q t queue"
  using assms by (auto simp: behind_def split: option.splits)

lemma claim_first_None:
  assumes "claim_first now t queue q = (q', None)" "behind q t queue"
  shows "behind q t [] \<and> q' = q\<lparr>q_order := (q_order q)(t := [])\<rparr>"
  using assms
proof (induction queue)
  case (Cons j queue)
  from Cons.prems(1) have n: "\<not> (\<exists>p. q_ops q j = Some p \<and> IsZero (op_claimedAt p))" by (auto simp: Let_def)
  from Cons.prems(1) claim_first_skip(1) [OF n] have "claim_first now t queue q = (q', None)" by metis
  from Cons.IH [OF this claim_first_skip(2) [OF n Cons.prems(2)]] show ?case .
qed auto

lemma claim_first_Some:
  assumes "claim_first now t queue q = (q', Some o')" "behind q t queue"
  shows "\<exists>pre i rest o0. queue = pre @ i # rest
    \<and> (\<forall>j \<in> set pre. \<not> (\<exists>p. q_ops q j = Some p \<and> IsZero (op_claimedAt p)))
    \<and> q_ops q i = Some o0 \<and> IsZero (op_claimedAt o0) \<and> o' = o0\<lparr>op_claimedAt := now\<rparr>
    \<and> behind q t (i # rest)
    \<and> q' = q\<lparr>q_ops := (q_ops q)(i \<mapsto> o'), q_order := (q_order q)(t := rest)\<rparr>"
  using assms
proof (induction queue)
  case (Cons j queue)
  show ?case
  proof (cases "\<exists>p. q_ops q j = Some p \<and> IsZero (op_claimedAt p)")
    case True
    then obtain p where p: "q_ops q j = Some p" "IsZero (op_claimedAt p)" by blast
    with Cons.prems(1) have "o' = p\<lparr>op_claimedAt := now\<rparr>"
      "q' = q\<lparr>q_ops := (q_ops q)(j \<mapsto> o'), q_order := (q_order q)(t := queue)\<rparr>" by (auto simp: Let_def)
    with p Cons.prems(2) show ?thesis
      by (intro exI [of _ "[]"] exI [of _ j] exI [of _ queue] exI [of _ p]) (simp del: fun_upd_apply)
  next
    case False
    note s = claim_first_skip(1) [OF False]
    note b = claim_first_skip(2) [OF False Cons.prems(2)]
    from Cons.IH [OF Cons.prems(1) [unfolded s] b] obtain pre i rest o0 where
      i: "queue = pre @ i # rest" "\<forall>j \<in> set pre. \<not> (\<exists>p. q_ops q j = Some p \<and> IsZero (op_claimedAt p))"
        "q_ops q i = Some o0 \<and> IsZero (op_claimedAt o0) \<and> o' = o0\<lparr>op_claimedAt := now\<rparr>
        \<and> behind q t (i # rest) \<and> q' = q\<lparr>q_ops := (q_ops q)(i \<mapsto> o'), q_order := (q_order q)(t := rest)\<rparr>"
      by (elim exE conjE) blast
    with False show ?thesis
      by (intro exI [of _ "j # pre"] exI [of _ i] exI [of _ rest] exI [of _ o0]) (simp del: fun_upd_apply)
  qed
qed simp

lemma behind_ok: "queue_ok q \<Longrightarrow> behind q t (q_order q t)"
  by (auto simp: behind_def dest: queue_okD)

lemma Claim_ok:
  assumes "queue_ok q" "0 < now"
  shows "queue_ok (fst (Claim ids now t q))"
proof -
  let ?q = "reclaim now t ids q"
  have ok: "queue_ok ?q" by (rule reclaim_ok [OF assms(1)])
  obtain q' r where c: "claim_first now t (q_order ?q t) ?q = (q', r)" by fastforce
  show ?thesis
  proof (cases r)
    case None
    from claim_first_None [OF c [unfolded None] behind_ok [OF ok]]
    have q': "q' = ?q\<lparr>q_order := (q_order ?q)(t := [])\<rparr>" "behind ?q t []" by auto
    have "queue_ok q'"
    proof (rule queue_okI)
      fix j p assume "q_ops q' j = Some p"
      then have p: "q_ops ?q j = Some p" by (simp add: q')
      then show "op_ID p = j" by (rule queue_okD [OF ok])
      assume z: "IsZero (op_claimedAt p)"
      with p q'(2) have "op_channelType p \<noteq> t" by (auto simp: behind_def)
      with queue_okD(2) [OF ok p z] show "j \<in> set (q_order q' (op_channelType p))" by (simp add: q')
    qed (use queue_ok_ring [OF ok] in \<open>simp_all add: q'\<close>)
    then show ?thesis by (simp add: Claim_def c Let_def)
  next
    case (Some o')
    from claim_first_Some [OF c [unfolded Some] behind_ok [OF ok]] obtain i o0 rest where
      i: "q_ops ?q i = Some o0" "o' = o0\<lparr>op_claimedAt := now\<rparr>" "behind ?q t (i # rest)"
      "q' = ?q\<lparr>q_ops := (q_ops ?q)(i \<mapsto> o'), q_order := (q_order ?q)(t := rest)\<rparr>" by blast
    have "queue_ok q'"
    proof (rule queue_okI)
      fix j p assume p: "q_ops q' j = Some p"
      show "op_ID p = j"
        using p i queue_okD(1) [OF ok] by (cases "j = i") auto
      assume z: "IsZero (op_claimedAt p)"
      with p i assms(2) have "j \<noteq> i" by (auto simp: IsZero_def)
      with p i have pq: "q_ops ?q j = Some p" by simp
      from z pq i(3) \<open>j \<noteq> i\<close> queue_okD(2) [OF ok pq z] show "j \<in> set (q_order q' (op_channelType p))"
        by (auto simp: i(4) behind_def)
    qed (use queue_ok_ring [OF ok] in \<open>simp_all add: i(4)\<close>)
    then show ?thesis by (simp add: Claim_def c Let_def)
  qed
qed

lemma take_op_ok: "queue_ok q \<Longrightarrow> queue_ok (fst (take_op i q))"
proof (cases "q_ops q i")
  case (Some o')
  assume ok: "queue_ok q"
  let ?ring = "q_ring q @ [i]"
  have r: "insert i (q_recent q) \<subseteq> set ?ring" "length (q_ring q) \<le> recent_window" using ok by (auto simp: queue_ok_def)
  have "insert i (q_recent q) - {hd ?ring} \<subseteq> set (tl ?ring)"
    using r(1) by (cases "q_ring q") (auto simp: hd_append)
  with ok r Some show ?thesis
    by (auto simp: take_op_def Let_def queue_ok_def)
qed (simp add: take_op_def)

lemma release_id_ok: "queue_ok q \<Longrightarrow> queue_ok (release_id i q)"
  by (auto simp: queue_ok_def release_id_def)

section \<open>Interleavings\<close>

text \<open>The sections of the queue's methods, in any order and by any goroutine.\<close>

inductive queue_step :: "OpQueue \<Rightarrow> OpQueue \<Rightarrow> bool" where
  enqueued: "queue_step q (enqueue ip now o' q)"
| claimed: "0 < now \<Longrightarrow> queue_step q (fst (Claim ids now t q))"
| taken: "queue_step q (fst (take_op i q))"
| released: "queue_step q (release_id i q)"
| logged: "queue_step q (q_emit now e q)"
| counted: "queue_step q (q\<lparr>q_sendSeq := n\<rparr>)"
| ran: "queue_step q (q\<lparr>q_spawned := s\<rparr>)"

inductive_cases queue_stepE: "queue_step q q'"

lemma queue_step_ok: "queue_step q q' \<Longrightarrow> queue_ok q \<Longrightarrow> queue_ok q'"
  by (induction rule: queue_step.induct) (simp_all add: enqueue_ok Claim_ok take_op_ok release_id_ok)

lemma reachable_ok: "queue_step\<^sup>*\<^sup>* (NewQueue l) q \<Longrightarrow> queue_ok q"
  by (induction rule: rtranclp_induct) (auto simp: queue_ok_New queue_step_ok)

text \<open>An outstanding operation a poll can hand out.\<close>

definition due :: "OpQueue \<Rightarrow> go_time \<Rightarrow> string \<Rightarrow> string \<Rightarrow> bool" where
  "due q now t i \<longleftrightarrow> (\<exists>o'. q_ops q i = Some o' \<and> op_channelType o' = t
     \<and> (IsZero (op_claimedAt o') \<or> overdue_claim now t o'))"

lemma not_overdue_zero [simp]: "\<not> overdue_claim now t (o'\<lparr>op_claimedAt := 0\<rparr>)"
  by (simp add: overdue_claim_def IsZero_def)

lemma reclaim_ops:
  "q_ops (reclaim now t ids q) j =
     (case q_ops q j of None \<Rightarrow> None
      | Some o' \<Rightarrow> Some (if j \<in> set ids \<and> overdue_claim now t o' then o'\<lparr>op_claimedAt := 0\<rparr> else o'))"
  unfolding reclaim_def
  by (induction ids arbitrary: q) (auto simp: reclaim_one_ops split: option.splits)

lemma due_reclaimed:
  assumes "dom (q_ops q) \<subseteq> set ids"
  shows "due q now t i \<longleftrightarrow> (\<exists>o'. q_ops (reclaim now t ids q) i = Some o' \<and> op_channelType o' = t \<and> IsZero (op_claimedAt o'))"
proof (cases "q_ops q i")
  case (Some o')
  then have "i \<in> set ids" using assms by auto
  with Some show ?thesis by (auto simp: due_def reclaim_ops IsZero_def)
qed (simp add: due_def reclaim_ops)

text \<open>What a poll may hand out: an operation nobody holds, or held too long for this adapter.\<close>

definition free :: "OpQueue \<Rightarrow> go_time \<Rightarrow> string \<Rightarrow> string \<Rightarrow> bool" where
  "free q now t i \<longleftrightarrow> (\<exists>o'. q_ops q i = Some o' \<and> (IsZero (op_claimedAt o') \<or> overdue_claim now t o'))"

lemma free_reclaimed:
  assumes "dom (q_ops q) \<subseteq> set ids"
  shows "free q now t i \<longleftrightarrow> (\<exists>o'. q_ops (reclaim now t ids q) i = Some o' \<and> IsZero (op_claimedAt o'))"
proof (cases "q_ops q i")
  case (Some o')
  then have "i \<in> set ids" using assms by auto
  with Some show ?thesis by (auto simp: free_def reclaim_ops IsZero_def)
qed (simp add: free_def reclaim_ops)

lemma Claim_cases:
  assumes "queue_ok q" "dom (q_ops q) \<subseteq> set ids" "Claim ids now t q = (q', r)"
  shows "case r of
      None \<Rightarrow> \<not> (\<exists>i. due q now t i)
    | Some o' \<Rightarrow> free q now t (op_ID o') \<and> q_ops q' (op_ID o') = Some o' \<and> op_claimedAt o' = now
        \<and> (\<exists>pre rest. q_order (reclaim now t ids q) t = pre @ op_ID o' # rest \<and> (\<forall>j \<in> set pre. \<not> free q now t j))"
proof -
  let ?q = "reclaim now t ids q"
  have ok: "queue_ok ?q" by (rule reclaim_ok [OF assms(1)])
  have c: "claim_first now t (q_order ?q t) ?q = (q', r)" using assms(3) by (simp add: Claim_def Let_def)
  show ?thesis
  proof (cases r)
    case None
    from claim_first_None [OF c [unfolded None] behind_ok [OF ok]] None show ?thesis
      by (auto simp: due_reclaimed [OF assms(2)] behind_def)
  next
    case (Some o')
    note F = free_reclaimed [OF assms(2), of now t]
    from claim_first_Some [OF c [unfolded Some] behind_ok [OF ok]] obtain pre i rest o0 where
      i: "q_order ?q t = pre @ i # rest" "\<forall>j \<in> set pre. \<not> (\<exists>p. q_ops ?q j = Some p \<and> IsZero (op_claimedAt p))"
        "q_ops ?q i = Some o0" "IsZero (op_claimedAt o0)" "o' = o0\<lparr>op_claimedAt := now\<rparr>"
        "q' = ?q\<lparr>q_ops := (q_ops ?q)(i \<mapsto> o'), q_order := (q_order ?q)(t := rest)\<rparr>"
      by blast
    have id: "op_ID o' = i" using queue_okD(1) [OF ok i(3)] i(5) by simp
    have "\<forall>j \<in> set pre. \<not> free q now t j" using i(2) F by blast
    moreover have "free q now t i" using i(3,4) F by blast
    ultimately show ?thesis using i(1,5,6) id Some by auto
  qed
qed

section \<open>Properties\<close>


definition farewell_op :: Op where
  "farewell_op = zero_Op\<lparr>op_ID := ''farewell:c:ch:0'', op_channelType := ''telegram'', op_stable := True\<rparr>"

definition one_farewell :: OpQueue where
  "one_farewell = enqueue (\<lambda>_. False) 5 farewell_op (NewQueue None)"

lemma one_farewell_reachable: "queue_step\<^sup>*\<^sup>* (NewQueue None) one_farewell"
  unfolding one_farewell_def by (rule r_into_rtranclp, rule enqueued)

lemma one_farewell_ops: "q_ops one_farewell = [''farewell:c:ch:0'' \<mapsto> farewell_op\<lparr>op_enqueuedAt := 5\<rparr>]"
  by (simp add: one_farewell_def enqueue_def suppressed_def NewQueue_def insert_op_def q_emit_def Let_def farewell_op_def zero_Op_def)


text \<open>
  A polling adapter is served. A poll comes back empty only when nothing of the adapter's is waiting or
  held for more than five minutes; otherwise it hands out the first operation of its queue nobody holds, and
  that operation is then held: no poll within five minutes hands it out again.
\<close>

theorem poll_serves_what_is_due:
  assumes "queue_step\<^sup>*\<^sup>* (NewQueue l) q" and "dom (q_ops q) \<subseteq> set ids" and "0 < now"
  shows "case Claim ids now t q of
      (q', None) \<Rightarrow> \<not> (\<exists>i. due q now t i)
    | (q', Some o') \<Rightarrow> free q now t (op_ID o') \<and> q_ops q' (op_ID o') = Some o'
        \<and> (\<exists>pre rest. q_order (reclaim now t ids q) t = pre @ op_ID o' # rest \<and> (\<forall>j \<in> set pre. \<not> free q now t j))
        \<and> (\<forall>later t'. time_sub later now \<le> ReclaimAfter \<longrightarrow> \<not> free q' later t' (op_ID o'))"
proof -
  obtain q' r where c: "Claim ids now t q = (q', r)" by fastforce
  from Claim_cases [OF reachable_ok [OF assms(1)] assms(2) c] assms(3) show ?thesis
    by (cases r) (auto simp: c free_def IsZero_def overdue_claim_def)
qed

theorem poll_serves_what_is_due_witness:
  "\<exists>q' o'. Claim [''farewell:c:ch:0''] 9 ''telegram'' one_farewell = (q', Some o') \<and> op_ID o' = ''farewell:c:ch:0''
    \<and> \<not> free q' 10 ''telegram'' ''farewell:c:ch:0''"
proof -
  obtain q' r where c: "Claim [''farewell:c:ch:0''] 9 ''telegram'' one_farewell = (q', r)" by fastforce
  have d: "dom (q_ops one_farewell) \<subseteq> set [''farewell:c:ch:0'']" by (auto simp: one_farewell_ops split: if_splits)
  have "due one_farewell 9 ''telegram'' ''farewell:c:ch:0''"
    by (simp add: due_def one_farewell_ops farewell_op_def zero_Op_def IsZero_def)
  moreover have "time_sub 10 9 \<le> ReclaimAfter"
    by (simp add: time_sub_def ReclaimAfter_def minute_def max_duration_def min_duration_def)
  moreover note poll_serves_what_is_due [OF one_farewell_reachable d, of 9 "''telegram''"]
  ultimately show ?thesis
    by (cases r) (auto simp: c free_def one_farewell_ops split: if_splits)
qed

text \<open>
  The completed window records what succeeded. Completing an operation removes it, and its id suppresses a
  later derivation exactly when it is remembered: the adapter reported no error (or the operation was the
  report of a deletion, which has nothing left to derive it from), what it owed was recorded on the
  conversation, and the window did not drop the id in the same step. Otherwise deriving it again enqueues it.
\<close>

theorem completion_suppresses_only_success:
  assumes "queue_ok q" "q_ops q i = Some o'" "settle env o' res w = (w1, failed)"
    and "Complete env i res (w, q) = (w', q')" and "op_ID again = i" "op_stable again"
  shows "w' = w1 \<and> \<not> Pending q' i
    \<and> (Settled q' i \<longleftrightarrow> (res_Error res = [] \<or> op_Kind o' = OpDeleteConversation) \<and> \<not> failed
        \<and> \<not> (length (q_ring q) = recent_window \<and> hd (q_ring q) = i))
    \<and> (if Settled q' i then enqueue ip now again q' = q' else Pending (enqueue ip now again q') i)"
proof -
  have r: "length (q_ring q) \<le> recent_window" using queue_ok_ring(2) [OF assms(1)] .
  have h: "hd (q_ring q @ [i]) = hd (q_ring q)" if "length (q_ring q) = recent_window"
    using that by (cases "q_ring q") (auto simp: recent_window_def)
  obtain q1 where t: "take_op i q = (q1, Some o')" "q_ops q1 = (q_ops q)(i := None)"
    "i \<in> q_recent q1 \<longleftrightarrow> \<not> (length (q_ring q) = recent_window \<and> hd (q_ring q) = i)"
  proof (cases "length (q_ring q) = recent_window")
    case True
    with assms(2) h have "take_op i q = (q\<lparr>q_ops := (q_ops q)(i := None),
        q_recent := insert i (q_recent q) - {hd (q_ring q)}, q_ring := tl (q_ring q @ [i])\<rparr>, Some o')"
      by (simp add: take_op_def Let_def)
    with True show ?thesis by (intro that) auto
  next
    case False
    with assms(2) r have "take_op i q = (q\<lparr>q_ops := (q_ops q)(i := None),
        q_recent := insert i (q_recent q), q_ring := q_ring q @ [i]\<rparr>, Some o')"
      by (simp add: take_op_def Let_def)
    with False show ?thesis by (intro that) auto
  qed
  have e: "q_ops (q_emit n e q2) = q_ops q2" "q_recent (q_emit n e q2) = q_recent q2" for n e q2
    by (simp_all add: q_emit_def)
  have rel: "q_ops (release_id j q2) = q_ops q2" "q_recent (release_id j q2) = q_recent q2 - {j}" for j q2
    by (simp_all add: release_id_def)
  define q2 where "q2 = (let q2 = q_emit (oe_Now env w 0) (completed_event o' res (oe_Now env w 0)) q1 in
      if res_Error res \<noteq> [] \<and> op_Kind o' \<noteq> OpDeleteConversation then release_id i q2 else q2)"
  have "Complete env i res (w, q) = (w1, if failed then release_id i q2 else q2)"
    unfolding Complete_def prod.case t(1) option.case Let_def q2_def assms(3) by (cases failed) simp_all
  with assms(4) have w: "w' = w1" and q': "q' = (if failed then release_id i q2 else q2)" by simp_all
  have p: "q_ops q' i = None" using t(2) by (simp add: q' q2_def Let_def e rel)
  have s: "i \<in> q_recent q' \<longleftrightarrow> (res_Error res = [] \<or> op_Kind o' = OpDeleteConversation) \<and> \<not> failed \<and> i \<in> q_recent q1"
    by (simp add: q' q2_def Let_def e rel)
  have "if i \<in> q_recent q' then enqueue ip now again q' = q' else Pending (enqueue ip now again q') i"
    using assms(5,6) p by (auto simp: enqueue_def suppressed_def Pending_def insert_op_def q_emit_def Let_def)
  with w p s t(3) show ?thesis by (simp add: Settled_def Pending_def)
qed

definition no_env :: "unit OpsEnv" where
  "no_env = \<lparr>oe_Store = None, oe_Now = (\<lambda>w n. 7), oe_InProcess = (\<lambda>_. False)\<rparr>"

text \<open>A farewell the adapter could not post is enqueued again; one it posted is not.\<close>

theorem completion_suppresses_only_success_witness:
  "Pending (enqueue (\<lambda>_. False) 9 farewell_op
      (snd (Complete no_env ''farewell:c:ch:0'' \<lparr>res_ThreadID = [], res_Error = ''429''\<rparr> ((), one_farewell)))) ''farewell:c:ch:0''
   \<and> enqueue (\<lambda>_. False) 9 farewell_op
      (snd (Complete no_env ''farewell:c:ch:0'' \<lparr>res_ThreadID = [], res_Error = []\<rparr> ((), one_farewell)))
     = snd (Complete no_env ''farewell:c:ch:0'' \<lparr>res_ThreadID = [], res_Error = []\<rparr> ((), one_farewell))"
proof -
  let ?i = "''farewell:c:ch:0''" and ?o = "farewell_op\<lparr>op_enqueuedAt := 5\<rparr>"
  have ok: "queue_ok one_farewell" by (rule reachable_ok [OF one_farewell_reachable])
  have o': "q_ops one_farewell ?i = Some ?o" by (simp add: one_farewell_ops)
  have "ParseRunReplyOpID ?i = None" by code_simp
  then have "\<not> isRunReply (op_ID ?o)" by (simp add: farewell_op_def isRunReply_def)
  then have st: "settle no_env ?o res () = ((), False)" for res
    by (simp add: settle_def farewell_op_def zero_Op_def)
  have id: "op_ID farewell_op = ?i" "op_stable farewell_op" by (simp_all add: farewell_op_def)
  have k: "op_Kind ?o = OpSend" "q_ring one_farewell = []"
    by (simp_all add: farewell_op_def zero_Op_def one_farewell_def enqueue_def suppressed_def NewQueue_def insert_op_def q_emit_def Let_def)
  have P: "\<not> Settled (snd (Complete no_env ?i res ((), one_farewell))) ?i \<Longrightarrow>
      Pending (enqueue (\<lambda>_. False) 9 farewell_op (snd (Complete no_env ?i res ((), one_farewell)))) ?i"
    "Settled (snd (Complete no_env ?i res ((), one_farewell))) ?i \<longleftrightarrow> res_Error res = []"
    "Settled (snd (Complete no_env ?i res ((), one_farewell))) ?i \<Longrightarrow>
      enqueue (\<lambda>_. False) 9 farewell_op (snd (Complete no_env ?i res ((), one_farewell)))
        = snd (Complete no_env ?i res ((), one_farewell))" for res
    using completion_suppresses_only_success [OF ok o' st prod.collapse [symmetric] id, of res "\<lambda>_. False" 9] k
    by (simp_all add: recent_window_def)
  show ?thesis using P(1,2) [of "\<lparr>res_ThreadID = [], res_Error = ''429''\<rparr>"] P(2,3) [of "\<lparr>res_ThreadID = [], res_Error = []\<rparr>"]
    by simp
qed

section \<open>Reading ids back\<close>

lemma SetCondition_archived: "cr_ThreadsArchived (fst (SetCondition now c r)) = cr_ThreadsArchived r"
  by (auto simp: SetCondition_def split: option.splits prod.splits)

lemma split_byte_append: "c \<notin> set a \<Longrightarrow> split_byte c (a @ c # b) = a # split_byte c b"
  by (induction a) auto

lemma split_byte_free: "c \<notin> set a \<Longrightarrow> split_byte c a = [a]"
  by (induction a) auto

lemma join_split_byte: "join [c] (split_byte c s) = s"
proof (induction s)
  case (Cons d s)
  then show ?case by (cases "split_byte c s"; cases "tl (split_byte c s)") (auto simp: split_byte_nonempty)
qed simp

lemma colon_free_format: "2 \<le> b \<Longrightarrow> b \<le> 36 \<Longrightarrow> 0 \<le> n \<Longrightarrow> CHR '':'' \<notin> set (format_base b n)"
proof (induction b n rule: format_base.induct)
  case (1 b n)
  have d: "digit_char k \<noteq> CHR '':''" if "0 \<le> k" "k < 36" for k
  proof -
    have "code (digit_char k) \<noteq> code (CHR '':'')"
      using that by (auto simp: digit_char_def code_char_of)
    then show ?thesis by auto
  qed
  show ?case
  proof (cases "n < b \<or> b < 2")
    case True
    with 1(2-4) d [of n] show ?thesis by (subst format_base.simps) auto
  next
    case False
    then have "0 \<le> n mod b" "n mod b < b" "0 \<le> n div b"
      using 1(2-4) by (auto simp: pos_imp_zdiv_nonneg_iff)
    moreover from this 1(3) have "digit_char (n mod b) \<noteq> CHR '':''" by (intro d) auto
    ultimately show ?thesis using False 1(1) [OF False 1(2,3)]
      by (subst format_base.simps) auto
  qed
qed

text \<open>
  An id says what it delivers. Conversation and channel names hold no colon, so the id of a run's answer
  and of a thread's archiving give their parts back, whatever the run id holds; and the id of a message that
  is derived from nothing is never mistaken for a run's answer.
\<close>

theorem op_ids_round_trip:
  assumes "CHR '':'' \<notin> set conversation" "CHR '':'' \<notin> set channel" "CHR '':'' \<notin> set epoch" "0 \<le> n"
  shows "ParseRunReplyOpID (RunReplyOpID conversation channel runID) = Some (conversation, channel, runID)
    \<and> ParseCloseTopicOpID (CloseTopicOpID conversation channel) = Some (conversation, channel)
    \<and> \<not> isRunReply (''send:'' @ epoch @ '':'' @ format_base 36 n)"
proof -
  obtain w ws where r: "split_byte CHR '':'' runID = w # ws"
    by (cases "split_byte CHR '':'' runID") (auto simp: split_byte_nonempty)
  have "split_byte CHR '':'' (''send:'' @ conversation @ '':'' @ channel @ '':'' @ runID)
      = ''send'' # conversation # channel # w # ws"
    using split_byte_append [OF assms(1), of "channel @ '':'' @ runID"] split_byte_append [OF assms(2), of runID] r by simp
  moreover have "split_byte CHR '':'' (''close:'' @ conversation @ '':'' @ channel) = [''close'', conversation, channel]"
    using split_byte_append [OF assms(1), of channel] split_byte_free [OF assms(2)] by simp
  moreover have "split_byte CHR '':'' (''send:'' @ epoch @ '':'' @ format_base 36 n) = [''send'', epoch, format_base 36 n]"
    using split_byte_append [OF assms(3), of "format_base 36 n"] split_byte_free [OF colon_free_format [of 36 n]] assms(4) by simp
  moreover have "join '':'' (w # ws) = runID" using join_split_byte [of "CHR '':''" runID] r by simp
  ultimately show ?thesis
    by (simp only: RunReplyOpID_def CloseTopicOpID_def ParseRunReplyOpID_def ParseCloseTopicOpID_def isRunReply_def
        list.case if_True simp_thms refl option.simps)
qed

theorem op_ids_round_trip_witness:
  "ParseRunReplyOpID (RunReplyOpID ''c-1'' ''tg'' ''12:30'') = Some (''c-1'', ''tg'', ''12:30'')"
  using op_ids_round_trip [of "''c-1''" "''tg''" "''e''" 1 "''12:30''"] by simp

text \<open>
  A second close is never archived. Once the archiving of a thread succeeded, its id, which unlike those of
  the topic, the farewell and the reopen notice does not carry the reopen count, stays in the completed window.
  After a reopen brought the thread back the archive is owed again, but enqueueing it is suppressed for as long as
  the window holds the id: here, in the very queue the completion left.
\<close>

theorem second_close_is_suppressed:
  assumes "q_ops q (CloseTopicOpID (cr_Name conv) (chn_Name ch)) = Some o'" and "op_Kind o' = OpCloseTopic"
    and "queue_ok q" "length (q_ring q) < recent_window" and "res_Error res = []" "snd (settle env o' res w) = False"
    and "cr_Name again = cr_Name conv" and "co_Status cond = ''True''" "op_Channel reopened = chn_Name ch"
  shows "let q' = snd (Complete env (CloseTopicOpID (cr_Name conv) (chn_Name ch)) res (w, q)) in
      EnqueueCloseTopic ip now ch tid again q' = q' \<and> \<not> Pending q' (CloseTopicOpID (cr_Name conv) (chn_Name ch))
    \<and> \<not> ThreadArchived (recordThread reopened rtopic cond now again) (chn_Name ch)"
proof -
  let ?i = "CloseTopicOpID (cr_Name conv) (chn_Name ch)"
  obtain w1 where st: "settle env o' res w = (w1, False)" using assms(6) by (metis prod.collapse)
  obtain q1 where t: "take_op ?i q = (q1, Some o')" "q_ops q1 = (q_ops q)(?i := None)" "?i \<in> q_recent q1"
    using assms(1,4) by (auto simp: take_op_def Let_def)
  define q' where "q' = snd (Complete env ?i res (w, q))"
  have "q_ops q' ?i = None" "?i \<in> q_recent q'"
    using t st assms(5) by (simp_all add: q'_def Complete_def Let_def q_emit_def)
  then have "EnqueueCloseTopic ip now ch tid again q' = q'" "\<not> Pending q' ?i"
    using assms(7) by (simp_all add: EnqueueCloseTopic_def enqueue_def suppressed_def Pending_def)
  moreover have "\<not> ThreadArchived (recordThread reopened rtopic cond now again) (chn_Name ch)"
    using assms(8,9) by (simp add: recordThread_def Let_def ThreadArchived_def SetCondition_archived)
  ultimately show ?thesis by (simp add: q'_def [symmetric] Let_def)
qed

definition telegram_channel :: Channel where
  "telegram_channel = \<lparr>chn_Name = ''tg'', chn_Adapter = ''telegram''\<rparr>"

definition closed_conv :: ConversationRecord where
  "closed_conv = zero_record\<lparr>cr_Name := ''c'', cr_ThreadsArchived := [''tg'']\<rparr>"

definition closing_queue :: OpQueue where
  "closing_queue = EnqueueCloseTopic (\<lambda>_. False) 5 telegram_channel ''42'' closed_conv (NewQueue None)"

theorem second_close_is_suppressed_witness:
  "let q' = snd (Complete no_env ''close:c:tg'' \<lparr>res_ThreadID = [], res_Error = []\<rparr> ((), closing_queue)) in
    EnqueueCloseTopic (\<lambda>_. False) 99 telegram_channel ''42'' (closed_conv\<lparr>cr_Reopens := 1\<rparr>) q' = q'
    \<and> \<not> Pending q' ''close:c:tg''"
proof -
  let ?res = "\<lparr>res_ThreadID = [], res_Error = []\<rparr>"
  let ?o = "zero_Op\<lparr>op_ID := ''close:c:tg'', op_Channel := ''tg'', op_Conversation := ''c'', op_Kind := OpCloseTopic,
     op_ThreadID := Some ''42'', op_channelType := ''telegram'', op_stable := True, op_enqueuedAt := 5\<rparr>"
  have n: "CloseTopicOpID (cr_Name closed_conv) (chn_Name telegram_channel) = ''close:c:tg''"
    by (simp add: CloseTopicOpID_def closed_conv_def telegram_channel_def)
  have q: "q_ops closing_queue = [''close:c:tg'' \<mapsto> ?o]" "q_ring closing_queue = []"
    by (simp_all add: closing_queue_def EnqueueCloseTopic_def CloseTopicOpID_def closed_conv_def telegram_channel_def
        enqueue_def suppressed_def NewQueue_def insert_op_def q_emit_def Let_def zero_Op_def zero_record_def)
  have a: "q_ops closing_queue (CloseTopicOpID (cr_Name closed_conv) (chn_Name telegram_channel)) = Some ?o"
    by (simp add: n q)
  have ok: "queue_ok closing_queue"
    unfolding closing_queue_def EnqueueCloseTopic_def by (rule enqueue_ok [OF queue_ok_New])
  have st: "snd (settle no_env ?o ?res ()) = False"
    by (simp add: settle_def markThreadArchived_def no_env_def zero_Op_def split: option.split prod.split)
  have r: "length (q_ring closing_queue) < recent_window" by (simp add: q recent_window_def)
  show ?thesis
    using second_close_is_suppressed [OF a _ ok r _ st, of "closed_conv\<lparr>cr_Reopens := 1\<rparr>"
        "\<lparr>co_Type = [], co_Status = ''True'', co_Reason = [], co_Message = [], co_ObservedGeneration = 0,
          co_LastTransitionTime = 0\<rparr>" ?o "\<lambda>_. False" 99 "''42''" ?res]
    unfolding n by (simp add: zero_Op_def telegram_channel_def Let_def)
qed

end
