(* ===== verification/Dispatch.thy ===== *)
theory Dispatch
  imports StateStore GoStrings
begin

text \<open>
  The next work unit of a conversation, \<open>internal/dispatch/dispatch.go\<close>: which pending inputs a
  worker gets, the prompt they are rendered into, and the tools the wiring contributes. The prompt
  templates are embedded files and a parameter; the payload resolver reads the store and acts on
  the world. A variables map is an association list with distinct keys.
\<close>

section \<open>Inputs and results\<close>

abbreviation ToolsModeMerge :: string where "ToolsModeMerge \<equiv> ''merge''"
abbreviation OutputFormatBlocks :: string where "OutputFormatBlocks \<equiv> ''blocks''"

record AgentProfile =
  ap_Name :: string
  ap_Agent :: string
  ap_Prompt :: string
  ap_ReplyPrompt :: string
  ap_SystemPrompt :: string
  ap_OutputFormat :: string
  ap_MaxTurns :: int
  ap_RuntimeRef :: "string option"

record Templates =
  tm_task :: string
  tm_investigate :: string
  tm_reply :: string
  tm_coordinate :: string
  tm_format :: string

type_synonym vars = "(string \<times> string) list"

record WorkUnit =
  wu_RunID :: string
  wu_Convo :: string
  wu_ThreadID :: "string option"
  wu_RuntimeContextID :: string
  wu_ResumeSessionID :: string
  wu_PromptFile :: string
  wu_PromptText :: string
  wu_PromptVars :: vars
  wu_Agent :: string
  wu_SystemPrompt :: string
  wu_AllowedTools :: string
  wu_ToolsMode :: string
  wu_MaxTurns :: int

definition zero_WorkUnit :: WorkUnit where
  "zero_WorkUnit = \<lparr>wu_RunID = [], wu_Convo = [], wu_ThreadID = None, wu_RuntimeContextID = [], wu_ResumeSessionID = [],
     wu_PromptFile = [], wu_PromptText = [], wu_PromptVars = [], wu_Agent = [], wu_SystemPrompt = [],
     wu_AllowedTools = [], wu_ToolsMode = [], wu_MaxTurns = 0\<rparr>"

record Tooling =
  tg_AllowedTools :: string
  tg_Mode :: string

definition nl :: string where "nl = [char_of (10::int)]"

definition appendFormatSpec :: "Templates \<Rightarrow> WorkUnit \<Rightarrow> AgentProfile \<Rightarrow> WorkUnit" where
  "appendFormatSpec tm u profile =
     (if ap_OutputFormat profile \<noteq> OutputFormatBlocks then u
      else if wu_SystemPrompt u = [] then u\<lparr>wu_SystemPrompt := tm_format tm\<rparr>
      else u\<lparr>wu_SystemPrompt := wu_SystemPrompt u @ nl @ nl @ ''---'' @ nl @ nl @ tm_format tm\<rparr>)"

definition deliverySection :: string where
  "deliverySection = ''Your final printed answer IS the deliverable '' @ runes_string [8212]
     @ '' it is captured by the runtime's completion report and delivered to every bound channel by the operator ''
     @ ''(it also lands in the Conversation status and pod logs). Do not attempt to send chat messages yourself.''"

section \<open>Tools\<close>

text \<open>The loop's state is what was seen and what goes out; \<open>seen\<close> is the set of \<open>out\<close>.\<close>

definition EffectiveAllowedTools :: "string list list \<Rightarrow> string" where
  "EffectiveAllowedTools byRef =
     join '','' (fold (\<lambda>tools out. fold (\<lambda>t out.
         let t = trim_space t in if t = [] \<or> t \<in> set out then out else out @ [t]) tools out) byRef [])"

definition ToolsModeOfRecord :: "ToolsetBinding option \<Rightarrow> string" where
  "ToolsModeOfRecord b = (case b of None \<Rightarrow> ToolsModeMerge | Some t \<Rightarrow> if ts_Mode t = [] then ToolsModeMerge else ts_Mode t)"

section \<open>Prompts\<close>

definition singleThread :: "ConversationRecord \<Rightarrow> string option" where
  "singleThread c = (case cr_ChannelRefs c of [ref] \<Rightarrow> ThreadFor c ref | _ \<Rightarrow> None)"

definition placeholder :: "string \<Rightarrow> string" where
  "placeholder k = ''{{'' @ k @ ''}}''"

text \<open>One pass over the template: at each position the first variable whose placeholder starts there.\<close>

function render :: "string \<Rightarrow> vars \<Rightarrow> string" where
  "render s vars =
     (case s of
        [] \<Rightarrow> []
      | c # cs \<Rightarrow>
          (case List.find (\<lambda>(k, v). has_prefix s (placeholder k)) vars of
             Some (k, v) \<Rightarrow> v @ render (drop (length (placeholder k)) s) vars
           | None \<Rightarrow> c # render cs vars))"
  by pat_completeness auto

termination
  by (relation "measure (\<lambda>(s, vars). length s)") (auto simp: placeholder_def)

declare render.simps [simp del]

definition isRoot :: "ConversationRecord \<Rightarrow> bool" where
  "isRoot c \<longleftrightarrow> cr_CoordinatorRef c \<noteq> []"

definition quoted :: "string \<Rightarrow> string" where
  "quoted s = CHR 0x22 # s @ [CHR 0x22]"

definition originPhrase :: "InputOrigin option \<Rightarrow> string" where
  "originPhrase o' =
     (case o' of
        None \<Rightarrow> ''an input with no recorded origin''
      | Some x \<Rightarrow>
          if io_Kind x = OriginSignal then ''a signal on source '' @ io_Name x
          else if io_Kind x = OriginChannel then
            (if io_Sender x \<noteq> [] then ''a person on channel '' @ io_Name x @ '' ('' @ io_Sender x @ '')''
             else ''a person on channel '' @ io_Name x)
          else if io_Kind x = OriginMember then
            ''the member invoked as '' @ io_Entry x @ '' (conversation '' @ io_Name x @ '')''
          else if io_Kind x = OriginManager then ''the manager, under its rule '' @ io_Name x
          else ''an input of unrecognized origin kind '' @ quoted (io_Kind x))"

definition fromLine :: "InputItem list \<Rightarrow> string" where
  "fromLine inputs = join ''; then '' (map (\<lambda>i. originPhrase (in_Origin i)) inputs)"

definition quoteBlock :: "string \<Rightarrow> string" where
  "quoteBlock s = join nl (map (\<lambda>l. ''> '' @ l) (split_byte (char_of (10::int)) s))"

definition jsonFence :: "string \<Rightarrow> string" where
  "jsonFence payload = ''```json'' @ nl @ payload @ nl @ ''```''"

record framed =
  fr_promptFile :: string
  fr_template :: string
  fr_vars :: vars
  fr_inputs :: "InputItem list"
  fr_inputBlock :: string

definition into :: "Templates \<Rightarrow> framed \<Rightarrow> WorkUnit \<Rightarrow> bool \<Rightarrow> WorkUnit" where
  "into tm f u root =
     (let vars = (if root then fr_vars f @ [(''FROM'', fromLine (fr_inputs f))] else fr_vars f) in
      if fr_promptFile f \<noteq> [] then u\<lparr>wu_PromptFile := fr_promptFile f, wu_PromptVars := vars\<rparr>
      else if root then u\<lparr>wu_PromptText := render (tm_coordinate tm) (vars @ [(''INPUT'', fr_inputBlock f)])\<rparr>
      else u\<lparr>wu_PromptText := render (fr_template f) vars\<rparr>)"

section \<open>Pending inputs\<close>

definition PendingInputs :: "ConversationRecord \<Rightarrow> InputItem list" where
  "PendingInputs c =
     (let done = set (cr_ProcessedInputIDs c) \<union> (case cr_Inflight c of Some f \<Rightarrow> set (if_InputIDs f) | None \<Rightarrow> {})
      in filter (\<lambda>i. in_ID i \<notin> done) (cr_Inputs c))"

definition NeedsWorker :: "ConversationRecord \<Rightarrow> bool" where
  "NeedsWorker c \<longleftrightarrow> PendingInputs c \<noteq> [] \<or> cr_Inflight c \<noteq> None"

type_synonym 'w resolver = "'w \<Rightarrow> InputItem \<Rightarrow> 'w \<times> string result"

text \<open>The loop over the inputs after the first.\<close>

fun batch_rest :: "'w resolver \<Rightarrow> string \<Rightarrow> InputItem list \<Rightarrow> 'w \<Rightarrow> 'w \<times> InputItem list \<times> string list" where
  "batch_rest resolve ty [] w = (w, [], [])"
| "batch_rest resolve ty (i # is) w =
     (if in_Type i \<noteq> ty then (w, [], [])
      else (case resolve w i of
         (w, Inl e) \<Rightarrow> (w, [], [])
       | (w, Inr p) \<Rightarrow> (case batch_rest resolve ty is w of (w, b, ts) \<Rightarrow> (w, i # b, p # ts))))"

fun batchSameType :: "'w resolver \<Rightarrow> InputItem list \<Rightarrow> 'w \<Rightarrow> 'w \<times> (InputItem list \<times> string list) result" where
  "batchSameType resolve [] w = (w, Inr ([], []))"
| "batchSameType resolve (first # rest) w =
     (case resolve w first of
        (w, Inl e) \<Rightarrow> (w, Inl e)
      | (w, Inr p) \<Rightarrow> (case batch_rest resolve (in_Type first) rest w of (w, b, ts) \<Rightarrow> (w, Inr (first # b, p # ts))))"

section \<open>The next unit\<close>

text \<open>The layout's last digits are literal text: the id names the second.\<close>

definition run_id :: "go_time \<Rightarrow> string" where
  "run_id t =
     (let secs = t div 1000000000; sod = secs mod 86400; (y, m, d) = civil_from_days (secs div 86400)
      in pad_int 4 y @ ''-'' @ pad 2 m @ ''-'' @ pad 2 d @ ''T'' @ pad 2 (sod div 3600) @ ''-''
         @ pad 2 (sod mod 3600 div 60) @ ''-'' @ pad 2 (sod mod 60) @ ''-000Z'')"

definition base_unit :: "Templates \<Rightarrow> ConversationRecord \<Rightarrow> AgentProfile \<Rightarrow> Tooling \<Rightarrow> string \<Rightarrow> WorkUnit" where
  "base_unit tm c profile tools agentName =
     (appendFormatSpec tm (zero_WorkUnit\<lparr>wu_Convo := cr_Name c, wu_ThreadID := singleThread c,
        wu_AllowedTools := tg_AllowedTools tools, wu_ToolsMode := tg_Mode tools, wu_MaxTurns := ap_MaxTurns profile,
        wu_SystemPrompt := ap_SystemPrompt profile\<rparr>) profile)\<lparr>wu_Agent := agentName\<rparr>"

definition task_vars :: "string \<Rightarrow> string \<Rightarrow> vars" where
  "task_vars agentName payload =
     [(''AGENT_NAME'', agentName), (''USER_TASK'', payload), (''DELIVERY_INSTRUCTIONS'', deliverySection)]"

definition recurrence_text :: "string \<Rightarrow> string" where
  "recurrence_text joined = ''[automatic notification '' @ runes_string [8212]
     @ '' this signal fired AGAIN; this is not a user reply]'' @ nl @ ''```json'' @ nl @ joined @ nl @ ''```'' @ nl
     @ ''Re-assess with your previous context: has anything changed? Update the diagnosis or proposed fix if needed; ''
     @ ''keep it short if nothing changed.''"

text \<open>One input in a unit of its own.\<close>

definition single_unit :: "Templates \<Rightarrow> 'w resolver \<Rightarrow> ConversationRecord \<Rightarrow> WorkUnit \<Rightarrow> InputItem
    \<Rightarrow> (string \<Rightarrow> framed) \<Rightarrow> 'w \<Rightarrow> 'w \<times> (WorkUnit \<times> string list) option result" where
  "single_unit tm resolve c u first frame w =
     (case resolve w first of
        (w, Inl e) \<Rightarrow> (w, Inl e)
      | (w, Inr payload) \<Rightarrow> (w, Inr (Some (into tm (frame payload) u (isRoot c), [in_ID first]))))"

definition resume_unit :: "Templates \<Rightarrow> 'w resolver \<Rightarrow> ConversationRecord \<Rightarrow> AgentProfile \<Rightarrow> string \<Rightarrow> WorkUnit
    \<Rightarrow> InputItem list \<Rightarrow> string \<Rightarrow> 'w \<Rightarrow> 'w \<times> (WorkUnit \<times> string list) option result" where
  "resume_unit tm resolve c profile agentName u pending contextID w =
     (case batchSameType resolve pending w of
        (w, Inl e) \<Rightarrow> (w, Inl e)
      | (w, Inr (batch, texts)) \<Rightarrow>
          (let joined = join (nl @ ''---'' @ nl) texts;
               joined = (if in_Type (hd pending) = InputRecurrence then recurrence_text joined else joined);
               u = u\<lparr>wu_RunID := wu_RunID u @ ''-resume'', wu_RuntimeContextID := contextID, wu_ResumeSessionID := contextID\<rparr>
           in (w, Inr (Some (into tm \<lparr>fr_promptFile = ap_ReplyPrompt profile, fr_template = tm_reply tm,
                 fr_vars = [(''USER_REPLY'', joined), (''AGENT_NAME'', agentName), (''DELIVERY_INSTRUCTIONS'', deliverySection)],
                 fr_inputs = batch, fr_inputBlock = quoteBlock joined\<rparr> u (isRoot c), map in_ID batch)))))"

definition Next :: "Templates \<Rightarrow> ConversationRecord \<Rightarrow> AgentProfile \<Rightarrow> Tooling \<Rightarrow> 'w resolver \<Rightarrow> go_time \<Rightarrow> string
    \<Rightarrow> 'w \<Rightarrow> 'w \<times> (WorkUnit \<times> string list) option result" where
  "Next tm c profile tools resolve now contextID w =
     (if cr_Inflight c \<noteq> None then (w, Inr None)
      else (case PendingInputs c of
         [] \<Rightarrow> (w, Inr None)
       | first # rest \<Rightarrow>
          (let agentName = (if in_Agent first \<noteq> [] then in_Agent first else ap_Agent profile);
               u = (base_unit tm c profile tools agentName)\<lparr>wu_RunID := run_id now\<rparr>
           in if in_Type first = InputTask \<or> in_Type first = InputJob
              then single_unit tm resolve c u first (\<lambda>payload. \<lparr>fr_promptFile = ap_Prompt profile, fr_template = tm_task tm,
                     fr_vars = task_vars agentName payload, fr_inputs = [first], fr_inputBlock = quoteBlock payload\<rparr>) w
              else if in_Type first = InputAlert
              then single_unit tm resolve c u first (\<lambda>payload. \<lparr>fr_promptFile = ap_Prompt profile, fr_template = tm_investigate tm,
                     fr_vars = [(''AGENT_NAME'', agentName), (''SIGNAL_JSON'', payload), (''ALERTS_JSON'', payload),
                                (''DELIVERY_INSTRUCTIONS'', deliverySection)],
                     fr_inputs = [first], fr_inputBlock = jsonFence payload\<rparr>) w
              else if in_Type first = InputReply \<or> in_Type first = InputRecurrence
              then (if contextID = []
                    then single_unit tm resolve c u first (\<lambda>payload. \<lparr>fr_promptFile = [], fr_template = tm_task tm,
                           fr_vars = task_vars agentName payload, fr_inputs = [first], fr_inputBlock = quoteBlock payload\<rparr>) w
                    else resume_unit tm resolve c profile agentName u (first # rest) contextID w)
              else (w, Inl (ErrOther (''unknown input type '' @ quoted (in_Type first)))))))"

section \<open>What a unit takes\<close>

lemma batch_rest_prefix:
  assumes "batch_rest resolve ty pending w = (w', b, ts)"
  shows "(\<exists>rest. pending = b @ rest) \<and> (\<forall>i \<in> set b. in_Type i = ty) \<and> length ts = length b"
  using assms
proof (induction pending arbitrary: w w' b ts)
  case (Cons i pending)
  obtain w1 p where r: "resolve w i = (w1, p)" by fastforce
  obtain w2 b2 ts2 where t: "batch_rest resolve ty pending w1 = (w2, b2, ts2)" by (metis prod_cases3)
  show ?case
  proof (cases "in_Type i = ty \<and> (\<exists>x. p = Inr x)")
    case True
    with Cons.prems r t have "b = i # b2" "\<exists>x. ts = x # ts2" by auto
    with Cons.IH [OF t] True show ?thesis by auto
  next
    case False
    with Cons.prems r have "b = []" "ts = []" by (auto split: if_splits sum.splits)
    then show ?thesis by simp
  qed
qed simp

text \<open>
  When there is something to dispatch; and the inputs of a unit: a prefix of the pending ones, of one type, one at
  a time unless it resumes.
\<close>

definition dispatchable :: "ConversationRecord \<Rightarrow> bool" where
  "dispatchable c \<longleftrightarrow> cr_Inflight c = None \<and> PendingInputs c \<noteq> []"

definition unit_takes :: "ConversationRecord \<Rightarrow> WorkUnit \<Rightarrow> string list \<Rightarrow> bool" where
  "unit_takes c u ids \<longleftrightarrow>
     (\<exists>batch rest ty. PendingInputs c = batch @ rest \<and> batch \<noteq> [] \<and> ids = map in_ID batch
       \<and> (\<forall>i \<in> set batch. in_Type i = ty)
       \<and> (length batch > 1 \<longrightarrow> (ty = InputReply \<or> ty = InputRecurrence) \<and> wu_RuntimeContextID u \<noteq> []))"

lemma into_fields:
  "wu_RuntimeContextID (into tm f u root) = wu_RuntimeContextID u" "wu_Convo (into tm f u root) = wu_Convo u"
  "wu_RunID (into tm f u root) = wu_RunID u" "wu_AllowedTools (into tm f u root) = wu_AllowedTools u"
  "wu_ToolsMode (into tm f u root) = wu_ToolsMode u"
  by (simp_all add: into_def Let_def)

lemma base_unit_fields:
  "wu_Convo (base_unit tm c profile tools a) = cr_Name c" "wu_RuntimeContextID (base_unit tm c profile tools a) = []"
  "wu_AllowedTools (base_unit tm c profile tools a) = tg_AllowedTools tools"
  "wu_ToolsMode (base_unit tm c profile tools a) = tg_Mode tools"
  by (simp_all add: base_unit_def appendFormatSpec_def zero_WorkUnit_def)

lemma single_unit_takes:
  assumes "single_unit tm resolve c u first frame w = (w', Inr (Some (u', ids)))" "PendingInputs c = first # rest"
  shows "unit_takes c u' ids \<and> wu_Convo u' = wu_Convo u \<and> wu_RuntimeContextID u' = wu_RuntimeContextID u
    \<and> wu_AllowedTools u' = wu_AllowedTools u \<and> wu_ToolsMode u' = wu_ToolsMode u"
proof -
  from assms(1) have u: "ids = [in_ID first]" "\<exists>p. u' = into tm (frame p) u (isRoot c)"
    by (auto simp: single_unit_def split: prod.splits sum.splits)
  have "PendingInputs c = [first] @ rest" using assms(2) by simp
  then have "unit_takes c u' ids" unfolding unit_takes_def u(1)
    by (intro exI [of _ "[first]"] exI [of _ rest] exI [of _ "in_Type first"]) simp
  then show ?thesis using u(2) by (auto simp: into_fields)
qed

lemma resume_unit_takes:
  assumes "resume_unit tm resolve c profile a u pending contextID w = (w', Inr (Some (u', ids)))"
    and "PendingInputs c = pending" "pending \<noteq> []" "contextID \<noteq> []"
    and "in_Type (hd pending) = InputReply \<or> in_Type (hd pending) = InputRecurrence"
  shows "unit_takes c u' ids \<and> wu_Convo u' = wu_Convo u \<and> wu_RuntimeContextID u' = contextID
    \<and> wu_AllowedTools u' = wu_AllowedTools u \<and> wu_ToolsMode u' = wu_ToolsMode u"
proof -
  obtain first rest where p: "pending = first # rest" using assms(3) by (cases pending) auto
  obtain w1 x where r: "resolve w first = (w1, x)" by fastforce
  with assms(1) p obtain t where x: "x = Inr t" by (cases x) (auto simp: resume_unit_def)
  obtain w2 b ts where b: "batch_rest resolve (in_Type first) rest w1 = (w2, b, ts)" by (metis prod_cases3)
  from batch_rest_prefix [OF b] obtain later where l: "rest = b @ later" "\<forall>i \<in> set b. in_Type i = in_Type first" by blast
  from assms(1) have "ids = map in_ID (first # b)" "wu_RuntimeContextID u' = contextID" "wu_Convo u' = wu_Convo u"
    "wu_AllowedTools u' = wu_AllowedTools u" "wu_ToolsMode u' = wu_ToolsMode u"
    by (auto simp: resume_unit_def p r x b Let_def into_fields)
  moreover from this have "unit_takes c u' ids" unfolding unit_takes_def assms(2)
    using l assms(4,5) p by (intro exI [of _ "first # b"] exI [of _ later] exI [of _ "in_Type first"]) auto
  ultimately show ?thesis by simp
qed

lemma Next_takes:
  assumes "Next tm c profile tools resolve now contextID w = (w', Inr (Some (u, ids)))"
  shows "cr_Inflight c = None \<and> unit_takes c u ids \<and> wu_Convo u = cr_Name c
    \<and> wu_RuntimeContextID u \<in> {[], contextID} \<and> wu_AllowedTools u = tg_AllowedTools tools \<and> wu_ToolsMode u = tg_Mode tools"
proof -
  from assms have n: "cr_Inflight c = None" "PendingInputs c \<noteq> []"
    by (auto simp: Next_def split: if_splits list.splits)
  then obtain first rest where p: "PendingInputs c = first # rest" by (cases "PendingInputs c") auto
  let ?a = "if in_Agent first \<noteq> [] then in_Agent first else ap_Agent profile"
  let ?u = "(base_unit tm c profile tools ?a)\<lparr>wu_RunID := run_id now\<rparr>"
  have fields: "wu_Convo ?u = cr_Name c" "wu_RuntimeContextID ?u = []" "wu_AllowedTools ?u = tg_AllowedTools tools"
    "wu_ToolsMode ?u = tg_Mode tools" by (simp_all add: base_unit_fields)
  consider (single) frame where "single_unit tm resolve c ?u first frame w = (w', Inr (Some (u, ids)))"
    | (resume) "resume_unit tm resolve c profile ?a ?u (first # rest) contextID w = (w', Inr (Some (u, ids)))"
        "contextID \<noteq> []" "in_Type first = InputReply \<or> in_Type first = InputRecurrence"
    using assms n(1) unfolding Next_def p Let_def by (simp split: if_splits)
  then show ?thesis
  proof cases
    case single
    from single_unit_takes [OF single p] fields n(1) show ?thesis by simp
  next
    case resume
    from resume_unit_takes [OF resume(1) p _ resume(2)] resume(3) fields n(1) show ?thesis by simp
  qed
qed

lemma Next_idle: "cr_Inflight c \<noteq> None \<or> PendingInputs c = [] \<Longrightarrow> Next tm c profile tools resolve now contextID w = (w, Inr None)"
  by (auto simp: Next_def)

lemma single_unit_some: "snd (single_unit tm resolve c u first f w) \<noteq> Inr None"
  by (auto simp: single_unit_def split: prod.split sum.split)

lemma resume_unit_some: "snd (resume_unit tm resolve c profile ag u l ctx w) \<noteq> Inr None"
  by (auto simp: resume_unit_def Let_def split: prod.split sum.split list.split)

lemma Next_none:
  assumes "Next tm c profile tools resolve now contextID w = (w', Inr None)"
  shows "cr_Inflight c \<noteq> None \<or> PendingInputs c = []"
proof (rule ccontr)
  assume a: "\<not> ?thesis"
  then obtain first rest where p: "PendingInputs c = first # rest" by (cases "PendingInputs c") auto
  have s: "single_unit tm resolve c u first f w \<noteq> (w', Inr None)" for u f
    using single_unit_some [of tm resolve c u first f w] by auto
  have r: "resume_unit tm resolve c profile ag u l ctx w \<noteq> (w', Inr None)" for ag u l ctx
    using resume_unit_some [of tm resolve c profile ag u l ctx w] by auto
  show False using assms a s r unfolding Next_def p Let_def by (simp split: if_splits)
qed

text \<open>
  Dispatch is serial and in order. \<open>Next\<close> returns nothing exactly while a run is in flight or nothing is
  pending; a unit takes a non-empty prefix of the pending inputs, all of one type, more than one only when it is
  replies or recurrences resuming a context; and it carries the wiring's tools unchanged.
\<close>

theorem Next_takes_the_next_inputs:
  "case Next tm c profile tools resolve now contextID w of
      (w', Inr None) \<Rightarrow> \<not> dispatchable c
    | (w', Inr (Some (u, ids))) \<Rightarrow> dispatchable c \<and> unit_takes c u ids \<and> wu_Convo u = cr_Name c
        \<and> wu_RuntimeContextID u \<in> {[], contextID} \<and> wu_AllowedTools u = tg_AllowedTools tools
        \<and> wu_ToolsMode u = tg_Mode tools
    | (w', Inl e) \<Rightarrow> dispatchable c"
proof -
  obtain w' x where n: "Next tm c profile tools resolve now contextID w = (w', x)" by fastforce
  consider (none) "x = Inr None" | (unit) u ids where "x = Inr (Some (u, ids))" | (failed) e where "x = Inl e"
    by (metis old.prod.exhaust option.exhaust sum.exhaust)
  then show ?thesis
  proof cases
    case none
    from Next_none [OF n [unfolded none]] n none show ?thesis by (auto simp: dispatchable_def)
  next
    case unit
    from Next_takes [OF n [unfolded unit]] Next_idle [of c tm profile tools resolve now contextID w] n unit
    show ?thesis by (auto simp: dispatchable_def)
  next
    case failed
    with n Next_idle [of c tm profile tools resolve now contextID w]
    show ?thesis by (cases "dispatchable c") (auto simp: dispatchable_def)
  qed
qed

section \<open>Rendering\<close>

lemma render_Nil [simp]: "render [] vars = []"
  by (simp add: render.simps)

lemma render_skip: "(\<And>k v. (k, v) \<in> set vars \<Longrightarrow> \<not> has_prefix (c # s) (placeholder k)) \<Longrightarrow> render (c # s) vars = c # render s vars"
  by (subst render.simps) (auto simp: find_None_iff split: option.split dest!: find_Some_iff [THEN iffD1] nth_mem)

lemma render_plain: "CHR ''{'' \<notin> set a \<Longrightarrow> render (a @ s) vars = a @ render s vars"
proof (induction a)
  case (Cons c a)
  then have "render (c # (a @ s)) vars = c # render (a @ s) vars"
    by (intro render_skip) (auto simp: placeholder_def has_prefix_iff)
  with Cons show ?case by simp
qed simp

lemma placeholder_unique:
  assumes "CHR ''}'' \<notin> set k" "CHR ''}'' \<notin> set k'" "has_prefix (placeholder k @ s) (placeholder k')"
  shows "k' = k"
proof -
  from assms(3) obtain r where "k @ CHR ''}'' # CHR ''}'' # s = k' @ CHR ''}'' # CHR ''}'' # r"
    by (auto simp: placeholder_def has_prefix_iff)
  then have "takeWhile (\<lambda>c. c \<noteq> CHR ''}'') (k @ CHR ''}'' # CHR ''}'' # s)
      = takeWhile (\<lambda>c. c \<noteq> CHR ''}'') (k' @ CHR ''}'' # CHR ''}'' # r)" by simp
  moreover have "takeWhile (\<lambda>c. c \<noteq> CHR ''}'') (x @ CHR ''}'' # y) = x" if "CHR ''}'' \<notin> set x" for x y
    using that by (induction x) auto
  ultimately show ?thesis using assms(1,2) by simp
qed

lemma render_placeholder:
  assumes "map_of vars k = Some v" "CHR ''}'' \<notin> set k" "\<forall>(k', v') \<in> set vars. CHR ''}'' \<notin> set k'" "distinct (map fst vars)"
  shows "render (placeholder k @ s) vars = v @ render s vars"
proof -
  let ?P = "\<lambda>(k', v'). has_prefix (placeholder k @ s) (placeholder k')"
  have in_vars: "(k, v) \<in> set vars" using assms(1) by (rule map_of_SomeD)
  have "?P (k, v)" by (auto simp: has_prefix_iff)
  with in_vars obtain k' v' where f: "List.find ?P vars = Some (k', v')"
    by (cases "List.find ?P vars") (auto simp: find_None_iff)
  from f obtain i where i: "i < length vars" "?P (vars ! i)" "(k', v') = vars ! i" by (auto simp: find_Some_iff)
  then have kv: "(k', v') \<in> set vars" "has_prefix (placeholder k @ s) (placeholder k')"
    by (metis nth_mem) (use i(2) in \<open>simp flip: i(3)\<close>)
  from placeholder_unique [OF assms(2) _ kv(2)] kv(1) assms(3) have "k' = k" by auto
  with kv(1) in_vars assms(4) have "v' = v" by (metis eq_key_imp_eq_value)
  with f \<open>k' = k\<close> show ?thesis
    by (subst render.simps) (auto simp: placeholder_def)
qed

text \<open>A template cut into literal text and placeholders.\<close>

definition piece_text :: "string + string \<Rightarrow> string" where
  "piece_text p = (case p of Inl t \<Rightarrow> t | Inr k \<Rightarrow> placeholder k)"

definition piece_value :: "vars \<Rightarrow> string + string \<Rightarrow> string" where
  "piece_value vars p = (case p of Inl t \<Rightarrow> t | Inr k \<Rightarrow> the (map_of vars k))"

lemma piece_simps [simp]:
  "piece_text (Inl t) = t" "piece_text (Inr k) = placeholder k"
  "piece_value vs (Inl t) = t" "piece_value vs (Inr k) = the (map_of vs k)"
  by (simp_all add: piece_text_def piece_value_def)

definition well_cut :: "vars \<Rightarrow> (string + string) list \<Rightarrow> bool" where
  "well_cut vars ps \<longleftrightarrow> list_all (\<lambda>p. case p of Inl t \<Rightarrow> CHR ''{'' \<notin> set t
     | Inr k \<Rightarrow> CHR ''}'' \<notin> set k \<and> map_of vars k \<noteq> None) ps"

text \<open>
  A prompt is rendered in one pass. A template cut into text and placeholders renders to the text with each
  placeholder replaced by its value as it stands: a value that itself contains a placeholder is copied, never
  rendered again, and the order in which the variables are visited does not matter.
\<close>

theorem render_is_one_pass:
  assumes "well_cut vars ps" and "distinct (map fst vars)" and "\<forall>(k, v) \<in> set vars. CHR ''}'' \<notin> set k"
    and "mset vars' = mset vars"
  shows "render (concat (map piece_text ps)) vars = concat (map (piece_value vars) ps)
    \<and> render (concat (map piece_text ps)) vars' = render (concat (map piece_text ps)) vars"
proof -
  have one: "render (concat (map piece_text ps)) vs = concat (map (piece_value vs) ps)"
    if "well_cut vs ps" "distinct (map fst vs)" "\<forall>(k, v) \<in> set vs. CHR ''}'' \<notin> set k" for vs
    using that
  proof (induction ps)
    case (Cons p ps)
    then have "render (concat (map piece_text ps)) vs = concat (map (piece_value vs) ps)" by (simp add: well_cut_def)
    note rest = this
    show ?case
    proof (cases p)
      case (Inl t)
      with Cons.prems(1) have "CHR ''{'' \<notin> set t" by (simp add: well_cut_def)
      from render_plain [OF this, of "concat (map piece_text ps)" vs] rest Inl show ?thesis
        by simp
    next
      case (Inr k)
      with Cons.prems(1) obtain v where k: "CHR ''}'' \<notin> set k" "map_of vs k = Some v" by (auto simp: well_cut_def)
      from render_placeholder [OF k(2,1) Cons.prems(3,2), of "concat (map piece_text ps)"] rest Inr k(2) show ?thesis
        by simp
    qed
  qed simp
  have d: "distinct (map fst vars')" using assms(2,4) by (metis mset_eq_imp_distinct_iff mset_map)
  have m: "map_of vars' = map_of vars"
    using assms(2,4) d map_of_eqI by (metis map_of_inject_set mset_eq_setD)
  have "well_cut vars' ps" "piece_value vars' = piece_value vars"
    using assms(1) by (auto simp only: well_cut_def piece_value_def fun_eq_iff m)
  moreover have "set vars' = set vars" using assms(4) by (rule mset_eq_setD)
  ultimately show ?thesis using one [OF assms(1,2,3)] one [of vars'] d assms(3) by simp
qed

theorem render_is_one_pass_witness:
  "render ''> {{USER_REPLY}}.'' [(''FROM'', ''x''), (''USER_REPLY'', ''see {{FROM}}'')] = ''> see {{FROM}}.''"
  using render_is_one_pass [of "[(''FROM'', ''x''), (''USER_REPLY'', ''see {{FROM}}'')]"
      "[Inl ''> '', Inr ''USER_REPLY'', Inl ''.'']" "[(''FROM'', ''x''), (''USER_REPLY'', ''see {{FROM}}'')]"]
  by (simp add: well_cut_def piece_text_def piece_value_def placeholder_def)

section \<open>Run ids\<close>

text \<open>
  A run id names a second, not an instant. The layout asks for milliseconds in a form the formatter copies as
  text, so any two units composed within one second get the same id, and no id ever says which millisecond.
\<close>

theorem run_ids_of_one_second_collide:
  assumes "t div 1000000000 = t' div 1000000000"
  shows "run_id t = run_id t' \<and> has_suffix (run_id t) ''-000Z''"
  using assms by (simp add: run_id_def Let_def has_suffix_def split: prod.split)

theorem run_ids_of_one_second_collide_witness:
  "run_id (12 * 1000000000 + 1) = run_id (12 * 1000000000 + 999000000)"
  using run_ids_of_one_second_collide [of "12 * 1000000000 + 1" "12 * 1000000000 + 999000000"] by simp

end
