(* ===== verification/Coordinate.thy ===== *)
theory Coordinate
  imports OpQueue Dispatch SignalRoute
begin

text \<open>
  Coordination, \<open>internal/chat/coordinate.go\<close> and \<open>moves.go\<close>, with the closing and the reopening of
  \<open>router.go\<close>: a Coordinator's conversation invoking members, a member's result going back to its
  parent, the closing cascade, escalation.

  The state is the world the store acts on and the queue of channel operations, whose activity log
  the router shares. \<open>closeWithCascade\<close> recurses along \<open>causedBy\<close>; its first argument is the depth of
  calls it may still make, and None means the depth was not enough, which in the source is a
  deeper stack. Error texts that quote a name are kept without the quoting of \<open>%q\<close>.
\<close>

section \<open>The router\<close>

record 'w Router =
  ro_Store :: "'w Store"
  ro_Reader :: "'w Reader"
  ro_Channel :: "'w \<Rightarrow> string \<Rightarrow> Channel option"
  ro_Runtime :: RuntimeDefaults
  ro_InProcess :: "string \<Rightarrow> bool"
  ro_Epoch :: string
  ro_Now :: "'w \<Rightarrow> nat \<Rightarrow> go_time"
  ro_Sleep :: "'w \<Rightarrow> nat \<Rightarrow> 'w \<times> err option"

type_synonym 'w chat = "'w \<times> OpQueue"

text \<open>The result of a recursive call: not enough depth, an error, or the next step.\<close>

type_synonym 's attempt = "('s \<times> err option) option"

definition and_then :: "'s attempt \<Rightarrow> ('s \<Rightarrow> 's attempt) \<Rightarrow> 's attempt" where
  "and_then x f = (case x of
     None \<Rightarrow> None | Some (s, Some e) \<Rightarrow> Some (s, Some e) | Some (s, None) \<Rightarrow> f s)"

definition MaxCloseReason :: nat where
  "MaxCloseReason = 256"

definition boundedString :: "string \<Rightarrow> nat \<Rightarrow> string" where
  "boundedString s limit = (if length s > limit then take limit s else s)"

section \<open>Threads\<close>

definition eachBoundThread :: "'w Router \<Rightarrow> ConversationRecord \<Rightarrow> string
    \<Rightarrow> (Channel \<Rightarrow> string \<Rightarrow> 'w chat \<Rightarrow> 'w chat) \<Rightarrow> 'w chat \<Rightarrow> 'w chat" where
  "eachBoundThread r conv omit fn st =
     fold (\<lambda>ref st. if ref = omit then st
        else (case ThreadFor conv ref of
           None \<Rightarrow> st
         | Some tid \<Rightarrow> (case ro_Channel r (fst st) ref of None \<Rightarrow> st | Some ch \<Rightarrow> fn ch tid st))) (cr_ChannelRefs conv) st"

definition FanOutSend :: "'w Router \<Rightarrow> ConversationRecord \<Rightarrow> Message \<Rightarrow> 'w chat \<Rightarrow> 'w chat" where
  "FanOutSend r conv msg = eachBoundThread r conv [] (\<lambda>ch tid (w, q).
     (w, EnqueueMessage (ro_InProcess r) (ro_Epoch r) (ro_Now r w 0) ch (Some conv) (Some tid) msg q))"

definition SettleDeliveredNote :: "'w Store \<Rightarrow> ConversationRecord \<Rightarrow> string \<Rightarrow> string \<Rightarrow> 'w \<Rightarrow> 'w" where
  "SettleDeliveredNote s conv channel runID w =
     (case Thread conv channel of
        None \<Rightarrow> w
      | Some b \<Rightarrow> if th_UndeliveredReply b \<noteq> runID then w
          else fst (clearUndeliveredNote s (cr_Name conv) channel runID w))"

definition FanOutRunReply :: "'w Router \<Rightarrow> ConversationRecord \<Rightarrow> string \<Rightarrow> Message \<Rightarrow> 'w chat \<Rightarrow> 'w chat" where
  "FanOutRunReply r conv runID msg st =
     (case st of (w, q) \<Rightarrow>
        (case st_ListRuns (ro_Store r) w (cr_Name conv) of
           (w, x) \<Rightarrow>
             (let run = (case x of Inl _ \<Rightarrow> None | Inr runs \<Rightarrow> List.find (\<lambda>u. run_RunID u = runID) runs) in
              eachBoundThread r conv [] (\<lambda>ch tid (w, q).
                if (case run of None \<Rightarrow> False | Some u \<Rightarrow> DeliveredTo u (chn_Name ch))
                then (SettleDeliveredNote (ro_Store r) conv (chn_Name ch) runID w, q)
                else (w, EnqueueRunReply (ro_InProcess r) (ro_Now r w 0) ch conv runID (Some tid) msg q)) (w, q))))"

definition farewell_to :: "'w Router \<Rightarrow> ConversationRecord \<Rightarrow> string \<Rightarrow> 'w chat \<Rightarrow> 'w chat" where
  "farewell_to r conv farewell = eachBoundThread r conv [] (\<lambda>ch tid (w, q).
     (w, EnqueueFarewell (ro_InProcess r) (ro_Now r w 0) ch conv (Some tid) (Notice farewell) q))"

section \<open>Inputs\<close>

definition idempotent_append :: "InputItem \<Rightarrow> ConversationRecord \<Rightarrow> ConversationRecord" where
  "idempotent_append item rec =
     (if cr_Phase rec = PhaseClosed then rec
      else if list_ex (\<lambda>i. in_ID i = in_ID item) (cr_Inputs rec) then rec
      else rec\<lparr>cr_Inputs := cr_Inputs rec @ [item]\<rparr>)"

definition appendInputIdempotent :: "'w Router \<Rightarrow> string \<Rightarrow> InputItem \<Rightarrow> 'w chat \<Rightarrow> 'w chat \<times> err option" where
  "appendInputIdempotent r convName item st =
     (case st of (w, q) \<Rightarrow>
        (case Mutate (ro_Store r) convName (\<lambda>u rec. (u, Inr (idempotent_append item rec))) () w of
           (w, _, Inl e) \<Rightarrow> ((w, q), IgnoreNotFound (Some e))
         | (w, _, Inr _) \<Rightarrow> ((w, q), None)))"

definition member_input :: "string \<Rightarrow> string \<Rightarrow> string \<Rightarrow> string \<Rightarrow> go_time \<Rightarrow> InputItem" where
  "member_input inputID payload name entry at =
     \<lparr>in_ID = inputID, in_Type = InputTask, in_Agent = [], in_Payload = payload, in_PayloadRef = [],
      in_Origin = Some \<lparr>io_Kind = OriginMember, io_Name = name, io_Entry = entry, io_SignalKind = [], io_Sender = []\<rparr>,
      in_ReceivedAt = at\<rparr>"

definition AppendMemberResult :: "'w Router \<Rightarrow> Provenance option \<Rightarrow> string \<Rightarrow> string \<Rightarrow> string \<Rightarrow> 'w chat
    \<Rightarrow> 'w chat \<times> err option" where
  "AppendMemberResult r causedBy memberName dedupID res st =
     (case causedBy of
        None \<Rightarrow> (st, None)
      | Some c \<Rightarrow> if pv_Parent c = memberName then (st, None)
          else appendInputIdempotent r (pv_Parent c)
                 (member_input dedupID res memberName (pv_Entry c) (ro_Now r (fst st) 0)) st)"

abbreviation MoveRuleName :: string where "MoveRuleName \<equiv> ''move-per-turn''"

definition MoveInputID :: "string \<Rightarrow> string \<Rightarrow> string" where
  "MoveInputID conversation runID = MoveRuleName @ '':'' @ conversation @ '':'' @ runID"

definition AppendManagerInput :: "'w Router \<Rightarrow> string \<Rightarrow> string \<Rightarrow> string \<Rightarrow> 'w chat \<Rightarrow> 'w chat \<times> err option" where
  "AppendManagerInput r convName inputID payload st =
     appendInputIdempotent r convName
       \<lparr>in_ID = inputID, in_Type = InputReply, in_Agent = [], in_Payload = payload, in_PayloadRef = [],
        in_Origin = Some \<lparr>io_Kind = OriginManager, io_Name = MoveRuleName, io_Entry = [], io_SignalKind = [], io_Sender = []\<rparr>,
        in_ReceivedAt = ro_Now r (fst st) 0\<rparr> st"

section \<open>Closing\<close>

definition waving_hand :: string where "waving_hand = runes_string [128075]"

definition reason_farewell :: "string \<Rightarrow> string" where
  "reason_farewell reason = waving_hand @ '' Conversation closed ('' @ reason @ ''). This thread is archived ''
     @ em_dash @ '' reply here and I will start a fresh conversation, or reopen this one from the console to continue ''
     @ ''with its history.''"

definition close_with_reason :: "go_time \<Rightarrow> string \<Rightarrow> ConversationRecord \<Rightarrow> ConversationRecord" where
  "close_with_reason now reason rec =
     rec\<lparr>cr_Phase := PhaseClosed, cr_ClosedAt := Some now, cr_CloseReason := boundedString reason MaxCloseReason\<rparr>"

definition closeConversationReason :: "'w Router \<Rightarrow> ConversationRecord \<Rightarrow> string \<Rightarrow> 'w chat \<Rightarrow> 'w chat \<times> err option" where
  "closeConversationReason r conv reason st =
     (if cr_Phase conv = PhaseClosed then (st, None)
      else (case farewell_to r conv (reason_farewell reason) st of (w, q) \<Rightarrow>
        (case Patch (ro_Store r) conv (close_with_reason (ro_Now r w 1) reason) w of
           (w, _, e) \<Rightarrow> ((w, q), IgnoreNotFound e))))"

definition caused_by :: "string \<Rightarrow> ConversationRecord \<Rightarrow> bool" where
  "caused_by parent rec = (case cr_CausedBy rec of None \<Rightarrow> False | Some p \<Rightarrow> pv_Parent p = parent)"

fun close_members :: "(ConversationRecord \<Rightarrow> 'w chat \<Rightarrow> 'w chat attempt) \<Rightarrow> string \<Rightarrow> ConversationRecord list
    \<Rightarrow> 'w chat \<Rightarrow> 'w chat attempt" where
  "close_members close parent [] st = Some (st, None)"
| "close_members close parent (m # ms) st =
     (if cr_Phase m = PhaseClosed then close_members close parent ms st
      else if \<not> caused_by parent m then close_members close parent ms st
      else and_then (close m st) (close_members close parent ms))"

definition cascade :: "'w Router \<Rightarrow> (ConversationRecord \<Rightarrow> 'w chat \<Rightarrow> 'w chat attempt) \<Rightarrow> string \<Rightarrow> 'w chat
    \<Rightarrow> 'w chat attempt" where
  "cascade r close parent st =
     (case st of (w, q) \<Rightarrow>
        (case st_List (ro_Store r) w ByCausedBy (no_key\<lparr>lk_CausedBy := parent\<rparr>) of
           (w, Inl e) \<Rightarrow> Some ((w, q), Some e)
         | (w, Inr ms) \<Rightarrow> close_members close parent ms (w, q)))"

fun closeWithCascade :: "nat \<Rightarrow> 'w Router \<Rightarrow> string \<Rightarrow> ConversationRecord \<Rightarrow> 'w chat \<Rightarrow> 'w chat attempt" where
  "closeWithCascade 0 r reason conv st = None"
| "closeWithCascade (Suc n) r reason conv st =
     and_then (cascade r (closeWithCascade n r reason) (cr_Name conv) st)
       (\<lambda>st. and_then (Some (closeConversationReason r conv reason st))
          (\<lambda>st. cascade r (closeWithCascade n r reason) (cr_Name conv) st))"

definition cascadeCloseMembers :: "nat \<Rightarrow> 'w Router \<Rightarrow> string \<Rightarrow> string \<Rightarrow> 'w chat \<Rightarrow> 'w chat attempt" where
  "cascadeCloseMembers n r parent reason = cascade r (closeWithCascade n r reason) parent"

definition closeConversation :: "nat \<Rightarrow> 'w Router \<Rightarrow> ConversationRecord \<Rightarrow> string \<Rightarrow> 'w chat \<Rightarrow> 'w chat attempt" where
  "closeConversation n r conv farewell st =
     (if cr_Phase conv \<noteq> PhaseClosed
      then (case farewell_to r conv farewell st of (w, q) \<Rightarrow>
        (case Patch (ro_Store r) conv (\<lambda>rec. rec\<lparr>cr_Phase := PhaseClosed, cr_ClosedAt := Some (ro_Now r w 1)\<rparr>) w of
           (w, _, e) \<Rightarrow> and_then (Some ((w, q), IgnoreNotFound e)) (cascadeCloseMembers n r (cr_Name conv) [])))
      else cascadeCloseMembers n r (cr_Name conv) [] st)"

definition CloseConversation :: "nat \<Rightarrow> 'w Router \<Rightarrow> ConversationRecord \<Rightarrow> 'w chat \<Rightarrow> 'w chat attempt" where
  "CloseConversation n r conv =
     closeConversation n r conv (case cr_Inflight conv of
        None \<Rightarrow> waving_hand @ '' Conversation closed. This thread is archived '' @ em_dash @ '' reply here and I ''
          @ ''will start a fresh conversation, or reopen this one from the console to continue with its history.''
      | Some f \<Rightarrow> waving_hand @ '' Conversation closed while a run was in progress '' @ em_dash @ '' '' @ if_RunID f
          @ '' was abandoned. This thread is archived, and the conversation can be reopened from the console.'')"

text \<open>\<open>idle\<close> is the window rounded to a minute, as the source prints it.\<close>

definition AutoCloseConversation :: "nat \<Rightarrow> 'w Router \<Rightarrow> ConversationRecord \<Rightarrow> string \<Rightarrow> 'w chat \<Rightarrow> 'w chat attempt" where
  "AutoCloseConversation n r conv idle =
     closeConversation n r conv (waving_hand @ '' Closed automatically after '' @ idle
       @ '' with no activity. This thread is archived and nothing was lost '' @ em_dash
       @ '' the conversation and its answers are still readable, and it can be reopened from the console to continue ''
       @ ''with its history.'')"

section \<open>Escalation\<close>

definition Escalate :: "nat \<Rightarrow> 'w Router \<Rightarrow> ConversationRecord \<Rightarrow> string \<Rightarrow> 'w chat \<Rightarrow> 'w chat attempt" where
  "Escalate n r conv message st =
     (case cr_CausedBy conv of
        Some c \<Rightarrow> and_then (closeWithCascade n r message conv st)
          (\<lambda>st. Some (AppendMemberResult r (Some c) (cr_Name conv)
             (''escalate:'' @ cr_Name conv @ '':'' @ format_int 36 (wrap64 (ro_Now r (fst st) 0 - unix_epoch))) message st))
      | None \<Rightarrow>
          if cr_EscalatedAt conv \<noteq> None then Some (st, None)
          else (case st of (w, q) \<Rightarrow>
            (case Patch (ro_Store r) conv (\<lambda>rec. rec\<lparr>cr_EscalatedAt := Some (ro_Now r w 0),
                    cr_EscalationMessage := boundedString message 2000\<rparr>) w of
               (w, _, e) \<Rightarrow> Some ((w, q), e))))"

definition CloseBudgetExceeded :: "nat \<Rightarrow> 'w Router \<Rightarrow> ConversationRecord \<Rightarrow> string \<Rightarrow> 'w chat \<Rightarrow> 'w chat attempt" where
  "CloseBudgetExceeded n r conv digest st =
     and_then (cascadeCloseMembers n r (cr_Name conv) ''budget-exceeded'' st) (Escalate n r conv digest)"

section \<open>Reopening\<close>

definition reopened :: "go_time \<Rightarrow> ConversationRecord \<Rightarrow> ConversationRecord" where
  "reopened now rec = rec\<lparr>cr_Phase := PhaseIdle, cr_ClosedAt := None, cr_Reopens := cr_Reopens rec + 1,
     cr_LastActivity := Some now\<rparr>"

definition open_successor :: "ConversationRecord \<Rightarrow> ConversationRecord \<Rightarrow> bool" where
  "open_successor conv s \<longleftrightarrow> \<not> (cr_Name s = cr_Name conv \<or> cr_Phase s = PhaseClosed) \<and> SameOrigin conv s"

definition refuseReopenBehindOpenSuccessor :: "'w Router \<Rightarrow> ConversationRecord \<Rightarrow> 'w \<Rightarrow> 'w \<times> err option" where
  "refuseReopenBehindOpenSuccessor r conv w =
     (if cr_ConversationID conv = [] then (w, None)
      else (case st_List (ro_Store r) w ByConversationID (no_key\<lparr>lk_ConversationID := cr_ConversationID conv\<rparr>) of
         (w, Inl e) \<Rightarrow> (w, Some e)
       | (w, Inr l) \<Rightarrow> (w, case List.find (open_successor conv) l of
             None \<Rightarrow> None
           | Some s \<Rightarrow> Some (ErrOther (''cannot reopen '' @ cr_Name conv @ '': '' @ cr_Name s
                @ '' already carries the same conversationId and is open'')))))"

fun validate_channels :: "'w Router \<Rightarrow> ConversationRecord \<Rightarrow> 'w \<Rightarrow> ref list \<Rightarrow> err option" where
  "validate_channels r conv w [] = None"
| "validate_channels r conv w (ref # refs) =
     (case rd_ChannelExists (ro_Reader r) w ref of
        Inl e \<Rightarrow> Some e
      | Inr b \<Rightarrow> if b then validate_channels r conv w refs
          else Some (ErrOther (''cannot reopen '' @ cr_Name conv @ '': Channel '' @ quoted ref @ '' no longer exists'')))"

definition validateRefs :: "'w Router \<Rightarrow> ConversationRecord \<Rightarrow> 'w \<Rightarrow> err option" where
  "validateRefs r conv w =
     (if cr_ProfileRef conv = [] then Some (ErrOther (''conversation '' @ cr_Name conv @ '' names no profile''))
      else (case rd_ProfileRuntime (ro_Reader r) w (cr_ProfileRef conv) of
         Inl e \<Rightarrow> Some e
       | Inr None \<Rightarrow> Some (ErrOther (''cannot reopen '' @ cr_Name conv @ '': AgentProfile '' @ quoted (cr_ProfileRef conv)
            @ '' no longer exists''))
       | Inr (Some _) \<Rightarrow> validate_channels r conv w (cr_ChannelRefs conv)))"

definition ReopenConversation :: "'w Router \<Rightarrow> ConversationRecord \<Rightarrow> 'w \<Rightarrow> 'w \<times> ConversationRecord \<times> err option" where
  "ReopenConversation r conv w =
     (if cr_Phase conv \<noteq> PhaseClosed then (w, conv, Some (ErrOther (''conversation '' @ cr_Name conv @ '' is not closed'')))
      else (case refuseReopenBehindOpenSuccessor r conv w of
         (w, Some e) \<Rightarrow> (w, conv, Some e)
       | (w, None) \<Rightarrow> (case validateRefs r conv w of
            Some e \<Rightarrow> (w, conv, Some e)
          | None \<Rightarrow> Patch (ro_Store r) conv (reopened (ro_Now r w 0)) w)))"

definition FanOutReopenNotice :: "'w Router \<Rightarrow> ConversationRecord \<Rightarrow> 'w chat \<Rightarrow> 'w chat" where
  "FanOutReopenNotice r conv = eachBoundThread r conv [] (\<lambda>ch tid (w, q).
     (w, EnqueueReopenNotice (ro_InProcess r) (ro_Now r w 0) ch conv (Some tid) (Notice (runes_string [8617, 65039]
        @ '' Conversation reopened '' @ em_dash @ '' this thread is live again, with everything above it intact. ''
        @ ''Reply here to continue.'')) q))"

end
