(* ===== verification/Invoke.thy ===== *)
theory Invoke
  imports Coordinate
begin

text \<open>
  The verbs a coordinating agent calls, \<open>internal/chat/coordinate.go\<close>: which Coordinator a caller acts
  for, what it may see and close, and the invocation of a member. The walks are bounded at 1000 as
  in the source; the depth argument is that of the closing cascade.
\<close>

section \<open>Refusals\<close>

abbreviation ErrNotCoordinatorRoot :: err where
  "ErrNotCoordinatorRoot \<equiv> ErrOther ''caller is not a Coordinator's own conversation''"
abbreviation ErrUnknownAgent :: err where "ErrUnknownAgent \<equiv> ErrOther ''no such agents[] entry''"
abbreviation ErrCoordinatorCycle :: err where
  "ErrCoordinatorCycle \<equiv> ErrOther ''would repeat a Coordinator already in this coordination''"
abbreviation ErrMaxAgents :: err where "ErrMaxAgents \<equiv> ErrOther ''maxAgents reached''"
abbreviation ErrOutOfScope :: err where
  "ErrOutOfScope \<equiv> ErrOther ''out of scope: not the caller itself, a direct member, or an open root of the caller's own Coordinator''"
abbreviation ErrCannotCloseHumanRoot :: err where
  "ErrCannotCloseHumanRoot \<equiv> ErrOther ''out of scope: a conversation a person started is closed only by that person, never by the Coordinator''"
abbreviation ErrNoCoordinatorScope :: err where
  "ErrNoCoordinatorScope \<equiv> ErrOther ''caller does not act for any Coordinator''"
abbreviation ErrCallerClosed :: err where
  "ErrCallerClosed \<equiv> ErrOther ''refused: the calling conversation is closed''"

section \<open>Ancestry\<close>

definition walk_limit :: nat where
  "walk_limit = 1000"

text \<open>From the conversation to its uncaused root: the chain so far, and the record it ends in.\<close>

fun ancestry_walk :: "'w Store \<Rightarrow> string \<Rightarrow> nat \<Rightarrow> ConversationRecord list \<Rightarrow> ConversationRecord \<Rightarrow> 'w
    \<Rightarrow> 'w \<times> ConversationRecord list result" where
  "ancestry_walk s name 0 chain cur w =
     (w, Inl (ErrOther (''causedBy chain from '' @ name @ '' did not terminate'')))"
| "ancestry_walk s name (Suc n) chain cur w =
     (case cr_CausedBy cur of
        None \<Rightarrow> (w, Inr chain)
      | Some p \<Rightarrow> (case st_Get s w (pv_Parent p) of
           (w, Inl e) \<Rightarrow> (w, Inl e)
         | (w, Inr (parent, _)) \<Rightarrow> ancestry_walk s name n (chain @ [parent]) parent w))"

definition causedByAncestry :: "'w Router \<Rightarrow> ConversationRecord \<Rightarrow> 'w \<Rightarrow> 'w \<times> ConversationRecord list result" where
  "causedByAncestry r conv w = ancestry_walk (ro_Store r) (cr_Name conv) walk_limit [conv] conv w"

definition coordinatorChain :: "'w Router \<Rightarrow> ConversationRecord \<Rightarrow> 'w \<Rightarrow> 'w \<times> string set result" where
  "coordinatorChain r conv w =
     (case causedByAncestry r conv w of
        (w, Inl e) \<Rightarrow> (w, Inl e)
      | (w, Inr chain) \<Rightarrow> (w, Inr (set (map cr_CoordinatorRef (filter (\<lambda>c. cr_CoordinatorRef c \<noteq> []) chain)))))"

record ActingCoordinator =
  act_Name :: string
  act_RootName :: string

definition acts_for_none :: ActingCoordinator where
  "acts_for_none = \<lparr>act_Name = [], act_RootName = []\<rparr>"

definition ResolveActingCoordinator :: "'w Router \<Rightarrow> ConversationRecord \<Rightarrow> 'w \<Rightarrow> 'w \<times> ActingCoordinator result" where
  "ResolveActingCoordinator r conv w =
     (case cr_CausedBy conv of
        None \<Rightarrow> (w, Inr (if cr_CoordinatorRef conv = [] then acts_for_none
                       else \<lparr>act_Name = cr_CoordinatorRef conv, act_RootName = cr_Name conv\<rparr>))
      | Some _ \<Rightarrow>
          (case causedByAncestry r conv w of
             (w, Inl e) \<Rightarrow> (w, Inl e)
           | (w, Inr chain) \<Rightarrow>
               (let root = last chain;
                    name = (if cr_CoordinatorRef conv \<noteq> [] then cr_CoordinatorRef conv else cr_CoordinatorRef root)
                in (w, Inr (if name = [] then acts_for_none else \<lparr>act_Name = name, act_RootName = cr_Name root\<rparr>)))))"

section \<open>What a caller sees\<close>

definition get_coordinator :: "'w Router \<Rightarrow> string \<Rightarrow> 'w \<Rightarrow> Coordinator result" where
  "get_coordinator r name w =
     (case rd_GetCoordinator (ro_Reader r) w name of
        Inl e \<Rightarrow> Inl e | Inr None \<Rightarrow> Inl (ErrOther ''not found'') | Inr (Some co) \<Rightarrow> Inr co)"

definition CoordinatorAgents :: "'w Router \<Rightarrow> ConversationRecord \<Rightarrow> 'w \<Rightarrow> CoordinatorAgentEntry list result" where
  "CoordinatorAgents r caller w =
     (if cr_CoordinatorRef caller = [] then Inl ErrNotCoordinatorRoot
      else (case get_coordinator r (cr_CoordinatorRef caller) w of Inl e \<Rightarrow> Inl e | Inr co \<Rightarrow> Inr (cor_Agents co)))"

text \<open>The three nested loops of \<open>Descendants\<close>: the members of one parent, one frontier, the rounds.\<close>

fun visit_members :: "string \<Rightarrow> ConversationRecord list \<Rightarrow> string set \<times> ConversationRecord list \<times> string list
    \<Rightarrow> string set \<times> ConversationRecord list \<times> string list" where
  "visit_members parent [] acc = acc"
| "visit_members parent (m # ms) (seen, out, nxt) =
     visit_members parent ms
       (if \<not> caused_by parent m \<or> cr_Name m \<in> seen then (seen, out, nxt)
        else (insert (cr_Name m) seen, out @ [m], nxt @ [cr_Name m]))"

fun visit_frontier :: "'w Store \<Rightarrow> string list \<Rightarrow> string set \<times> ConversationRecord list \<times> string list \<Rightarrow> 'w
    \<Rightarrow> 'w \<times> (string set \<times> ConversationRecord list \<times> string list) result" where
  "visit_frontier s [] acc w = (w, Inr acc)"
| "visit_frontier s (parent # rest) acc w =
     (case st_List s w ByCausedBy (no_key\<lparr>lk_CausedBy := parent\<rparr>) of
        (w, Inl e) \<Rightarrow> (w, Inl e)
      | (w, Inr ms) \<Rightarrow> visit_frontier s rest (visit_members parent ms acc) w)"

fun descend :: "'w Store \<Rightarrow> nat \<Rightarrow> string set \<Rightarrow> ConversationRecord list \<Rightarrow> string list \<Rightarrow> 'w
    \<Rightarrow> 'w \<times> ConversationRecord list result" where
  "descend s 0 seen out frontier w = (w, Inr out)"
| "descend s (Suc n) seen out frontier w =
     (if frontier = [] then (w, Inr out)
      else (case visit_frontier s frontier (seen, out, []) w of
         (w, Inl e) \<Rightarrow> (w, Inl e)
       | (w, Inr (seen, out, nxt)) \<Rightarrow> descend s n seen out nxt w))"

definition Descendants :: "'w Router \<Rightarrow> string \<Rightarrow> 'w \<Rightarrow> 'w \<times> ConversationRecord list result" where
  "Descendants r rootName w = descend (ro_Store r) walk_limit {rootName} [] [rootName] w"

record OpenRoot =
  opr_Name :: string
  opr_Title :: string
  opr_Brief :: string
  opr_Phase :: string
  opr_Members :: "string list"

definition isOpenSiblingRoot :: "ConversationRecord \<Rightarrow> ActingCoordinator \<Rightarrow> bool" where
  "isOpenSiblingRoot c scope =
     (if cr_CausedBy c \<noteq> None then False
      else if cr_CoordinatorRef c = [] \<or> cr_CoordinatorRef c \<noteq> act_Name scope then False
      else if cr_Name c = act_RootName scope then False
      else cr_Phase c \<noteq> PhaseClosed)"

definition member_entries :: "string \<Rightarrow> ConversationRecord list \<Rightarrow> string list" where
  "member_entries rootName ms =
     fold (\<lambda>m out. case cr_CausedBy m of
        None \<Rightarrow> out | Some p \<Rightarrow> if pv_Parent p \<noteq> rootName then out else add_once (pv_Entry p) out) ms []"

definition directMemberEntries :: "'w Router \<Rightarrow> string \<Rightarrow> 'w \<Rightarrow> 'w \<times> string list result" where
  "directMemberEntries r rootName w =
     (case st_List (ro_Store r) w ByCausedBy (no_key\<lparr>lk_CausedBy := rootName\<rparr>) of
        (w, Inl e) \<Rightarrow> (w, Inl e)
      | (w, Inr ms) \<Rightarrow> (w, Inr (member_entries rootName ms)))"

fun open_roots :: "'w Router \<Rightarrow> ActingCoordinator \<Rightarrow> ConversationRecord list \<Rightarrow> 'w \<Rightarrow> 'w \<times> OpenRoot list result" where
  "open_roots r scope [] w = (w, Inr [])"
| "open_roots r scope (c # cs) w =
     (if \<not> isOpenSiblingRoot c scope then open_roots r scope cs w
      else (case directMemberEntries r (cr_Name c) w of
         (w, Inl e) \<Rightarrow> (w, Inl e)
       | (w, Inr members) \<Rightarrow>
           if cr_Phase c = PhaseIdle \<and> members = [] then open_roots r scope cs w
           else (case open_roots r scope cs w of
              (w, Inl e) \<Rightarrow> (w, Inl e)
            | (w, Inr out) \<Rightarrow> (w, Inr (\<lparr>opr_Name = cr_Name c, opr_Title = cr_Title c, opr_Brief = cr_Brief c,
                                      opr_Phase = cr_Phase c, opr_Members = members\<rparr> # out)))))"

definition ListOpenRoots :: "'w Router \<Rightarrow> ConversationRecord \<Rightarrow> 'w \<Rightarrow> 'w \<times> OpenRoot list result" where
  "ListOpenRoots r caller w =
     (case ResolveActingCoordinator r caller w of
        (w, Inl e) \<Rightarrow> (w, Inl e)
      | (w, Inr scope) \<Rightarrow>
          if act_Name scope = [] then (w, Inl ErrNoCoordinatorScope)
          else (case st_List (ro_Store r) w ByAll no_key of
             (w, Inl e) \<Rightarrow> (w, Inl e)
           | (w, Inr cs) \<Rightarrow> open_roots r scope cs w))"

section \<open>What a caller may close\<close>

definition isOwnCoordinatorSiblingRoot :: "'w Router \<Rightarrow> ConversationRecord \<Rightarrow> ConversationRecord \<Rightarrow> 'w \<Rightarrow> 'w \<times> bool result" where
  "isOwnCoordinatorSiblingRoot r caller target w =
     (if cr_CausedBy target \<noteq> None then (w, Inr False)
      else if cr_CoordinatorRef target = [] then (w, Inr False)
      else (case ResolveActingCoordinator r caller w of
         (w, Inl e) \<Rightarrow> (w, Inl e)
       | (w, Inr scope) \<Rightarrow>
           if act_Name scope = [] \<or> cr_CoordinatorRef target \<noteq> act_Name scope then (w, Inr False)
           else if cr_Name target = act_RootName scope then (w, Inr False)
           else (w, Inr True)))"

definition isHumanInitiated :: "ConversationRecord \<Rightarrow> bool" where
  "isHumanInitiated c = (case cr_Signal c of None \<Rightarrow> True | Some p \<Rightarrow> sp_Labels p LabelChatChannel \<noteq> None)"

definition CloseCoordinated :: "nat \<Rightarrow> 'w Router \<Rightarrow> ConversationRecord \<Rightarrow> string \<Rightarrow> string \<Rightarrow> 'w chat \<Rightarrow> 'w chat attempt" where
  "CloseCoordinated n r caller targetName reason st =
     (if reason = [] then Some (st, Some (ErrOther ''a coordinator's close requires a reason''))
      else if targetName = cr_Name caller
      then (if cr_CausedBy caller = None \<and> isHumanInitiated caller then Some (st, Some ErrCannotCloseHumanRoot)
            else closeWithCascade n r reason caller st)
      else (case st of (w, q) \<Rightarrow>
        (case st_Get (ro_Store r) w targetName of
           (w, Inl e) \<Rightarrow> Some ((w, q), IgnoreNotFound (Some e))
         | (w, Inr (target, _)) \<Rightarrow>
             if caused_by (cr_Name caller) target then closeWithCascade n r reason target (w, q)
             else (case isOwnCoordinatorSiblingRoot r caller target w of
                (w, Inl e) \<Rightarrow> Some ((w, q), Some e)
              | (w, Inr ok) \<Rightarrow>
                  if \<not> ok then Some ((w, q), Some ErrOutOfScope)
                  else if isHumanInitiated target then Some ((w, q), Some ErrCannotCloseHumanRoot)
                  else closeWithCascade n r reason target (w, q)))))"

section \<open>Invoking a member\<close>

record InvokeResult =
  ir_Member :: string
  ir_Created :: bool

definition findAgentEntry :: "Coordinator \<Rightarrow> string \<Rightarrow> CoordinatorAgentEntry option" where
  "findAgentEntry co name = List.find (\<lambda>e. cae_Name e = name) (cor_Agents co)"

definition refuseCycle :: "'w Router \<Rightarrow> ConversationRecord \<Rightarrow> CoordinatorAgentEntry \<Rightarrow> 'w \<Rightarrow> 'w \<times> err option" where
  "refuseCycle r caller entry w =
     (case cae_CoordinatorRef entry of
        None \<Rightarrow> (w, None)
      | Some ref \<Rightarrow> (case coordinatorChain r caller w of
           (w, Inl e) \<Rightarrow> (w, Some e)
         | (w, Inr chain) \<Rightarrow> (w, if obj_Name ref \<in> chain then Some ErrCoordinatorCycle else None)))"

definition budget_spent :: "ConversationRecord \<Rightarrow> bool" where
  "budget_spent c = (case cr_Budget c of None \<Rightarrow> False
     | Some b \<Rightarrow> bd_MaxAgents b > 0 \<and> bd_AgentsInvoked b \<ge> bd_MaxAgents b)"

definition refuseCycleOrSpentBudget :: "nat \<Rightarrow> 'w Router \<Rightarrow> ConversationRecord \<Rightarrow> CoordinatorAgentEntry
    \<Rightarrow> 'w chat \<Rightarrow> 'w chat attempt" where
  "refuseCycleOrSpentBudget n r caller entry st =
     (case st of (w, q) \<Rightarrow>
        (case refuseCycle r caller entry w of
           (w, Some e) \<Rightarrow> Some ((w, q), Some e)
         | (w, None) \<Rightarrow>
             if \<not> budget_spent caller then Some ((w, q), None)
             else (case CloseBudgetExceeded n r caller (''budget-exceeded: maxAgents (''
                        @ itoa (bd_MaxAgents (the (cr_Budget caller))) @ '') reached'') (w, q) of
                None \<Rightarrow> None
              | Some (st, None) \<Rightarrow> Some (st, Some ErrMaxAgents)
              | Some (st, Some e) \<Rightarrow> Some (st, Some (Wrapped ''closing on a spent budget failed'' ErrMaxAgents)))))"

definition findReusableMember :: "'w Router \<Rightarrow> string \<Rightarrow> string \<Rightarrow> string \<Rightarrow> 'w
    \<Rightarrow> 'w \<times> ConversationRecord option result" where
  "findReusableMember r parentName entryName initiationID w =
     (case st_List (ro_Store r) w ByConversationID (no_key\<lparr>lk_ConversationID := initiationID\<rparr>) of
        (w, Inl e) \<Rightarrow> (w, Inl e)
      | (w, Inr cs) \<Rightarrow> (w, Inr (List.find (\<lambda>c. cr_Phase c \<noteq> PhaseClosed
            \<and> (case cr_CausedBy c of None \<Rightarrow> False | Some p \<Rightarrow> pv_Parent p = parentName \<and> pv_Entry p = entryName)) cs)))"

definition memberTitle :: "string \<Rightarrow> string \<Rightarrow> string" where
  "memberTitle entryName task =
     (let hands = runes_string [129309] in
      if GoStrings.fields task = [] then BoundConversationTitle (hands @ '' '' @ entryName)
      else BoundConversationTitle (hands @ '' '' @ entryName @ '': '' @ join '' '' (GoStrings.fields task)))"

text \<open>The capability of an entry, the name its volumes go by, and the Coordinator it nests.\<close>

definition entry_capability :: "'w Router \<Rightarrow> CoordinatorAgentEntry \<Rightarrow> 'w
    \<Rightarrow> (AgentCapabilitySpec \<times> string \<times> Coordinator option) result" where
  "entry_capability r entry w =
     (case (cae_CapabilityRef entry, cae_CoordinatorRef entry) of
        (Some ref, _) \<Rightarrow>
          (case rd_GetCapability (ro_Reader r) w (obj_Name ref) of
             Inl e \<Rightarrow> Inl (Wrapped (''agentcapability/'' @ obj_Name ref) e)
           | Inr None \<Rightarrow> Inl (Wrapped (''agentcapability/'' @ obj_Name ref) (ErrOther ''not found''))
           | Inr (Some spec) \<Rightarrow> Inr (spec, obj_Name ref, None))
      | (None, Some ref) \<Rightarrow>
          (case get_coordinator r (obj_Name ref) w of
             Inl e \<Rightarrow> Inl (Wrapped (''coordinator/'' @ obj_Name ref) e)
           | Inr nested \<Rightarrow>
               (case ResolveCapability (ro_Reader r) w (coordinatorClaimant nested) of
                  Inl e \<Rightarrow> Inl (Wrapped (''coordinator/'' @ obj_Name ref @ '': resolve capability'') e)
                | Inr spec \<Rightarrow> Inr (spec, obj_Name ref, Some nested)))
      | (None, None) \<Rightarrow> Inl (ErrOther (''agents['' @ cae_Name entry @ ''] names neither capabilityRef nor coordinatorRef'')))"

definition member_record :: "'w Router \<Rightarrow> ConversationRecord \<Rightarrow> CoordinatorAgentEntry \<Rightarrow> string \<Rightarrow> string
    \<Rightarrow> AgentCapabilitySpec \<Rightarrow> string \<Rightarrow> Coordinator option \<Rightarrow> 'w \<Rightarrow> ConversationRecord" where
  "member_record r caller entry task initiationID capability persistenceName nested w =
     (let snap = SnapshotFor (ro_Reader r) w persistenceName capability (ro_Runtime r);
          m = zero_record\<lparr>cr_ProfileRef := ProfileName capability,
                cr_Toolsets := ToolsetBindingOf (ac_Toolsets capability),
                cr_MCPConfigs := ToolingBindingOf (ac_MCPConfigs capability),
                cr_RuntimeRef := sn_RuntimeRef snap, cr_ServiceAccountName := sn_ServiceAccountName snap,
                cr_ContextClaimName := sn_ContextClaimName snap, cr_WorkspaceClaimName := sn_WorkspaceClaimName snap,
                cr_CausedBy := Some \<lparr>pv_Parent = cr_Name caller, pv_Entry = cae_Name entry\<rparr>,
                cr_Title := memberTitle (cae_Name entry) task, cr_ConversationID := initiationID\<rparr>
      in case nested of
           None \<Rightarrow> m
         | Some co \<Rightarrow> m\<lparr>cr_CoordinatorRef := obj_Name (the (cae_CoordinatorRef entry)),
             cr_EscalationChannelRefs := EscalationChannelRefs (coordinatorClaimant co),
             cr_Budget := SnapshotBudget (coordinatorClaimant co) (ro_Now r w 0)\<rparr>)"

definition createMember :: "'w Router \<Rightarrow> ConversationRecord \<Rightarrow> CoordinatorAgentEntry \<Rightarrow> string \<Rightarrow> string
    \<Rightarrow> 'w chat \<Rightarrow> 'w chat \<times> ConversationRecord result" where
  "createMember r caller entry task initiationID st =
     (case st of (w, q) \<Rightarrow>
        (case entry_capability r entry w of
           Inl e \<Rightarrow> ((w, q), Inl e)
         | Inr (capability, persistenceName, nested) \<Rightarrow>
             (case AllocateName (ro_Store r) (ro_Sleep r) ''member'' (Words (cae_Name entry))
                     (member_record r caller entry task initiationID capability persistenceName nested w) w of
                (w, member, Inl e) \<Rightarrow> ((w, q), Inl e)
              | (w, member, Inr _) \<Rightarrow>
                  (case appendInputIdempotent r (cr_Name member)
                          (member_input (input_id (ro_Now r w 0)) task (cr_Name caller) (cae_Name entry) (ro_Now r w 0)) (w, q) of
                     (st, Some e) \<Rightarrow> (st, Inl e)
                   | ((w, q), None) \<Rightarrow>
                       ((w, q_emit (ro_Now r w 0) (zero_event\<lparr>ev_Kind := ''conversation.created'',
                           ev_From := Node ''conversation'' (cr_Name caller), ev_To := Node ''conversation'' (cr_Name member),
                           ev_Conversation := cr_Name member, ev_Detail := ''invoked as '' @ cae_Name entry\<rparr>) q), Inr member)))))"

definition bump_agents :: "ConversationRecord \<Rightarrow> ConversationRecord" where
  "bump_agents rec = rec\<lparr>cr_Budget := map_option (\<lambda>b. b\<lparr>bd_AgentsInvoked := bd_AgentsInvoked b + 1\<rparr>) (cr_Budget rec)\<rparr>"

definition bumpAgentsInvoked :: "'w Router \<Rightarrow> string \<Rightarrow> 'w chat \<Rightarrow> 'w chat \<times> err option" where
  "bumpAgentsInvoked r convName st =
     (case st of (w, q) \<Rightarrow>
        (case Mutate (ro_Store r) convName (\<lambda>u rec. (u, Inr (bump_agents rec))) () w of
           (w, _, Inl e) \<Rightarrow> ((w, q), Some e)
         | (w, _, Inr _) \<Rightarrow> ((w, q), None)))"

definition closeMemberIfCallerClosed :: "'w Router \<Rightarrow> string \<Rightarrow> ConversationRecord \<Rightarrow> 'w chat \<Rightarrow> 'w chat \<times> err option" where
  "closeMemberIfCallerClosed r callerName member st =
     (case st of (w, q) \<Rightarrow>
        (case st_Get (ro_Store r) w callerName of
           (w, Inl e) \<Rightarrow> ((w, q), IgnoreNotFound (Some e))
         | (w, Inr (fresh, _)) \<Rightarrow>
             if cr_Phase fresh \<noteq> PhaseClosed then ((w, q), None)
             else (let reason = (if cr_CloseReason fresh = [] then ''the calling conversation closed'' else cr_CloseReason fresh) in
               case closeConversationReason r member reason (w, q) of
                 (st, Some e) \<Rightarrow> (st, Some e)
               | (st, None) \<Rightarrow> (st, Some ErrCallerClosed))))"

definition InvokeMember :: "nat \<Rightarrow> 'w Router \<Rightarrow> ConversationRecord \<Rightarrow> string \<Rightarrow> string \<Rightarrow> 'w chat
    \<Rightarrow> ('w chat \<times> InvokeResult result) option" where
  "InvokeMember n r caller agentName task st =
     (if cr_Phase caller = PhaseClosed then Some (st, Inl ErrCallerClosed)
      else (case st of (w, q) \<Rightarrow>
       (case ResolveActingCoordinator r caller w of
          (w, Inl e) \<Rightarrow> Some ((w, q), Inl e)
        | (w, Inr scope) \<Rightarrow>
            if act_Name scope = [] then Some ((w, q), Inl ErrNotCoordinatorRoot)
            else (case get_coordinator r (act_Name scope) w of
               Inl e \<Rightarrow> Some ((w, q), Inl e)
             | Inr co \<Rightarrow>
                 (case findAgentEntry co agentName of
                    None \<Rightarrow> Some ((w, q), Inl ErrUnknownAgent)
                  | Some entry \<Rightarrow>
                      (case refuseCycleOrSpentBudget n r caller entry (w, q) of
                         None \<Rightarrow> None
                       | Some (st, Some e) \<Rightarrow> Some (st, Inl e)
                       | Some ((w, q), None) \<Rightarrow>
                           (case findReusableMember r (cr_Name caller) (cae_Name entry) (''invoke:'' @ cae_Name entry) w of
                              (w, Inl e) \<Rightarrow> Some ((w, q), Inl e)
                            | (w, Inr (Some member)) \<Rightarrow>
                                (case appendInputIdempotent r (cr_Name member)
                                        (member_input (input_id (ro_Now r w 0)) task (cr_Name caller) (cae_Name entry) (ro_Now r w 0)) (w, q) of
                                   (st, Some e) \<Rightarrow> Some (st, Inl e)
                                 | (st, None) \<Rightarrow> Some (st, Inr \<lparr>ir_Member = cr_Name member, ir_Created = False\<rparr>))
                            | (w, Inr None) \<Rightarrow>
                                (case createMember r caller entry task (''invoke:'' @ cae_Name entry) (w, q) of
                                   (st, Inl e) \<Rightarrow> Some (st, Inl e)
                                 | (st, Inr created) \<Rightarrow>
                                     (case bumpAgentsInvoked r (cr_Name caller) st of
                                        (st, Some e) \<Rightarrow> Some (st, Inl e)
                                      | (st, None) \<Rightarrow>
                                          (case closeMemberIfCallerClosed r (cr_Name caller) created st of
                                             (st, Some e) \<Rightarrow> Some (st, Inl e)
                                           | (st, None) \<Rightarrow> Some (st, Inr \<lparr>ir_Member = cr_Name created, ir_Created = True\<rparr>)))))))))))"

end
