(* ===== verification/MemStore.thy ===== *)
theory MemStore
  imports StateStore GoStrings "HOL-Library.AList"
begin

text \<open>
  The in-memory backend of the Store contract, \<open>internal/state/conformance/memstore_test.go\<close>: the
  store the contract's conformance suite is written against. A mutex makes every operation one
  step, so each is one function. The maps are association lists; the change feed (\<open>Watch\<close> and the
  log it reads) is left out, as in the contract. Instants carry no zone, so \<open>utcRecord\<close> is the
  identity.

  The backend never fails but by its own rules. \<open>flaky s\<close> is the store \<open>s\<close> whose calls fail from
  the \<open>n\<close>-th on, the caller's view of a connection that breaks.
\<close>

section \<open>The backend\<close>

record memStore =
  mem_records :: "(key \<times> ConversationRecord \<times> int) list"
  mem_runs :: "(key \<times> Run list) list"
  mem_blobs :: "(key \<times> Blob) list"
  mem_seq :: int
  mem_ids :: int
  mem_now :: go_time

definition newMemStore :: "go_time \<Rightarrow> memStore" where
  "newMemStore now = \<lparr>mem_records = [], mem_runs = [], mem_blobs = [], mem_seq = 0, mem_ids = 0, mem_now = now\<rparr>"

definition revisionOf :: "int \<Rightarrow> revision" where
  "revisionOf n = itoa n"

definition expired :: "go_time \<Rightarrow> ConversationRecord \<Rightarrow> bool" where
  "expired now r = (case cr_ExpiresAt r of None \<Rightarrow> False | Some t \<Rightarrow> \<not> t > now)"

text \<open>Every removal mints a revision for its event.\<close>

definition sweepExpiredLocked :: "memStore \<Rightarrow> memStore" where
  "sweepExpiredLocked m =
     (let gone = filter (\<lambda>(k, r, v). expired (mem_now m) r) (mem_records m) in
      m\<lparr>mem_records := filter (\<lambda>(k, r, v). \<not> expired (mem_now m) r) (mem_records m),
        mem_seq := mem_seq m + int (length gone)\<rparr>)"

definition mintLocked :: "memStore \<Rightarrow> memStore" where
  "mintLocked m = m\<lparr>mem_seq := mem_seq m + 1\<rparr>"

definition mem_put :: "key \<Rightarrow> ConversationRecord \<Rightarrow> memStore \<Rightarrow> memStore \<times> revision result" where
  "mem_put key rec m =
     (let m = mintLocked m in
      (m\<lparr>mem_records := AList.update key (rec, mem_seq m) (mem_records m)\<rparr>, Inr (revisionOf (mem_seq m))))"

definition mem_drop :: "key \<Rightarrow> memStore \<Rightarrow> memStore \<times> revision result" where
  "mem_drop key m =
     (let m = mintLocked m in
      (m\<lparr>mem_records := AList.delete key (mem_records m)\<rparr>, Inr (revisionOf (mem_seq m))))"

definition mem_Get :: "memStore \<Rightarrow> key \<Rightarrow> memStore \<times> (ConversationRecord \<times> revision) result" where
  "mem_Get m key =
     (let m = sweepExpiredLocked m in
      (m, case map_of (mem_records m) key of
            None \<Rightarrow> Inl ErrNotFound
          | Some (r, v) \<Rightarrow> Inr (r, revisionOf v)))"

definition mintIdentity :: "ConversationRecord \<Rightarrow> memStore \<Rightarrow> memStore \<times> ConversationRecord" where
  "mintIdentity rec m =
     (let m = m\<lparr>mem_ids := mem_ids m + 1\<rparr> in
      (m, rec\<lparr>cr_ID := ''mem-'' @ itoa (mem_ids m), cr_CreatedAt := mem_now m, cr_DeletionRequestedAt := None\<rparr>))"

definition mem_Create :: "memStore \<Rightarrow> key \<Rightarrow> ConversationRecord \<Rightarrow> memStore \<times> revision result" where
  "mem_Create m key rec =
     (let m = sweepExpiredLocked m in
      case map_of (mem_records m) key of
        Some _ \<Rightarrow> (m, Inl ErrAlreadyExists)
      | None \<Rightarrow> (case mintIdentity rec m of (m, rec) \<Rightarrow> mem_put key rec m))"

definition mem_Update :: "memStore \<Rightarrow> key \<Rightarrow> revision \<Rightarrow> ConversationRecord \<Rightarrow> memStore \<times> revision result" where
  "mem_Update m key rv rec =
     (let m = sweepExpiredLocked m in
      case map_of (mem_records m) key of
        None \<Rightarrow> (m, Inl ErrNotFound)
      | Some (old, v) \<Rightarrow>
          if revisionOf v \<noteq> rv then (m, Inl ErrConflict)
          else (let rec = rec\<lparr>cr_ID := cr_ID old, cr_CreatedAt := cr_CreatedAt old,
                       cr_DeletionRequestedAt := cr_DeletionRequestedAt old\<rparr> in
            if cr_DeletionRequestedAt rec \<noteq> None \<and> list_ex (\<lambda>f. \<not> List.member (cr_Finalizers old) f) (cr_Finalizers rec)
            then (m, Inl ErrDeleting)
            else if cr_DeletionRequestedAt rec \<noteq> None \<and> cr_Finalizers rec = [] then mem_drop key m
            else mem_put key rec m))"

definition mem_Delete :: "memStore \<Rightarrow> key \<Rightarrow> memStore \<times> unit result" where
  "mem_Delete m key =
     (let m = sweepExpiredLocked m in
      case map_of (mem_records m) key of
        None \<Rightarrow> (m, Inr ())
      | Some (r, v) \<Rightarrow>
          if cr_Finalizers r \<noteq> []
          then (if cr_DeletionRequestedAt r = None
                then (fst (mem_put key (r\<lparr>cr_DeletionRequestedAt := Some (mem_now m)\<rparr>) m), Inr ())
                else (m, Inr ()))
          else (fst (mem_drop key m), Inr ()))"

fun mem_match :: "Index \<Rightarrow> ListKey \<Rightarrow> ConversationRecord \<Rightarrow> bool" where
  "mem_match ByConversationID key r = (cr_ConversationID r = lk_ConversationID key)"
| "mem_match ByPipelineAndPhase key r = (cr_PipelineRef r = lk_PipelineRef key \<and> cr_Phase r = lk_Phase key)"
| "mem_match ByPhase key r = (cr_Phase r = lk_Phase key)"
| "mem_match ByCausedBy key r = (case cr_CausedBy r of None \<Rightarrow> False | Some p \<Rightarrow> pv_Parent p = lk_CausedBy key)"
| "mem_match ByNameBase key r = (cr_NameBase r = lk_NameBase key)"
| "mem_match ByAll key r = True"

definition mem_List :: "memStore \<Rightarrow> Index \<Rightarrow> ListKey \<Rightarrow> memStore \<times> ConversationRecord list result" where
  "mem_List m index key =
     (let m = sweepExpiredLocked m in
      (m, Inr (filter (mem_match index key) (map (\<lambda>(k, r, v). r) (mem_records m)))))"

definition runs_of :: "memStore \<Rightarrow> key \<Rightarrow> Run list" where
  "runs_of m key = (case map_of (mem_runs m) key of None \<Rightarrow> [] | Some rs \<Rightarrow> rs)"

definition mem_AppendRun :: "memStore \<Rightarrow> key \<Rightarrow> Run \<Rightarrow> memStore \<times> unit result" where
  "mem_AppendRun m key run = (m\<lparr>mem_runs := AList.update key (runs_of m key @ [run]) (mem_runs m)\<rparr>, Inr ())"

definition mem_run_updated :: "RunUpdate \<Rightarrow> Run \<Rightarrow> Run" where
  "mem_run_updated upd run = run\<lparr>
     run_DeliveryTracked := run_DeliveryTracked run \<or> ru_MarkDeliveryTracked upd,
     run_RoutedToParent := run_RoutedToParent run \<or> ru_MarkRoutedToParent upd,
     run_Delivered := fold add_once (ru_MarkDelivered upd) (run_Delivered run)\<rparr>"

definition mem_UpdateRun :: "memStore \<Rightarrow> key \<Rightarrow> string \<Rightarrow> RunUpdate \<Rightarrow> memStore \<times> unit result" where
  "mem_UpdateRun m key runID upd =
     (if map_of (mem_records m) key = None then (m, Inl ErrNotFound)
      else if \<not> list_ex (\<lambda>r. run_RunID r = runID) (runs_of m key) then (m, Inl ErrNotFound)
      else (m\<lparr>mem_runs := AList.update key
              (update_first (\<lambda>r. run_RunID r = runID) (mem_run_updated upd) (runs_of m key)) (mem_runs m)\<rparr>, Inr ()))"

definition mem_ListRuns :: "memStore \<Rightarrow> key \<Rightarrow> memStore \<times> Run list result" where
  "mem_ListRuns m key = (m, Inr (runs_of m key))"

definition mem_GetWithRuns :: "memStore \<Rightarrow> key \<Rightarrow> memStore \<times> (ConversationRecord \<times> revision \<times> Run list) result" where
  "mem_GetWithRuns m key =
     (case mem_Get m key of
        (m, Inl e) \<Rightarrow> (m, Inl e)
      | (m, Inr (r, v)) \<Rightarrow> (m, Inr (r, v, runs_of m key)))"

definition mem_PutBlob :: "memStore \<Rightarrow> key \<Rightarrow> Blob \<Rightarrow> memStore \<times> unit result" where
  "mem_PutBlob m key blob = (m\<lparr>mem_blobs := AList.update key blob (mem_blobs m)\<rparr>, Inr ())"

definition mem_GetBlob :: "memStore \<Rightarrow> key \<Rightarrow> memStore \<times> Blob result" where
  "mem_GetBlob m key = (m, case map_of (mem_blobs m) key of None \<Rightarrow> Inl ErrNotFound | Some b \<Rightarrow> Inr b)"

definition mem_DeleteBlob :: "memStore \<Rightarrow> key \<Rightarrow> memStore \<times> unit result" where
  "mem_DeleteBlob m key = (m\<lparr>mem_blobs := AList.delete key (mem_blobs m)\<rparr>, Inr ())"

definition mem_Store :: "memStore Store" where
  "mem_Store = \<lparr>st_Get = mem_Get, st_Create = mem_Create, st_Update = mem_Update, st_Delete = mem_Delete,
     st_List = mem_List, st_AppendRun = mem_AppendRun, st_UpdateRun = mem_UpdateRun, st_ListRuns = mem_ListRuns,
     st_GetWithRuns = mem_GetWithRuns, st_PutBlob = mem_PutBlob, st_GetBlob = mem_GetBlob,
     st_DeleteBlob = mem_DeleteBlob\<rparr>"

section \<open>A connection that breaks\<close>

text \<open>The calls left before every call fails.\<close>

definition broken :: err where
  "broken = ErrOther ''connection refused''"

definition flaky_op :: "('w \<Rightarrow> 'w \<times> 'a result) \<Rightarrow> 'w \<times> nat \<Rightarrow> ('w \<times> nat) \<times> 'a result" where
  "flaky_op f s = (case s of
     (w, 0) \<Rightarrow> ((w, 0), Inl broken)
   | (w, Suc n) \<Rightarrow> (case f w of (w, x) \<Rightarrow> ((w, n), x)))"

definition flaky :: "'w Store \<Rightarrow> ('w \<times> nat) Store" where
  "flaky s = \<lparr>
     st_Get = (\<lambda>w k. flaky_op (\<lambda>w. st_Get s w k) w),
     st_Create = (\<lambda>w k r. flaky_op (\<lambda>w. st_Create s w k r) w),
     st_Update = (\<lambda>w k v r. flaky_op (\<lambda>w. st_Update s w k v r) w),
     st_Delete = (\<lambda>w k. flaky_op (\<lambda>w. st_Delete s w k) w),
     st_List = (\<lambda>w i k. flaky_op (\<lambda>w. st_List s w i k) w),
     st_AppendRun = (\<lambda>w k r. flaky_op (\<lambda>w. st_AppendRun s w k r) w),
     st_UpdateRun = (\<lambda>w k i u. flaky_op (\<lambda>w. st_UpdateRun s w k i u) w),
     st_ListRuns = (\<lambda>w k. flaky_op (\<lambda>w. st_ListRuns s w k) w),
     st_GetWithRuns = (\<lambda>w k. flaky_op (\<lambda>w. st_GetWithRuns s w k) w),
     st_PutBlob = (\<lambda>w k b. flaky_op (\<lambda>w. st_PutBlob s w k b) w),
     st_GetBlob = (\<lambda>w k. flaky_op (\<lambda>w. st_GetBlob s w k) w),
     st_DeleteBlob = (\<lambda>w k. flaky_op (\<lambda>w. st_DeleteBlob s w k) w)\<rparr>"

section \<open>A store nobody else writes\<close>

text \<open>
  What a caller may rely on between its own calls: \<open>cur w\<close> is what is stored; a read leaves it, a
  list returns exactly the records its index matches, a write under the revision just read stores
  the record or, for a record being deleted, removes it. A call that fails changed nothing.
\<close>

definition same_identity :: "ConversationRecord \<Rightarrow> ConversationRecord \<Rightarrow> bool" where
  "same_identity old new \<longleftrightarrow> cr_Name new = cr_Name old \<and> cr_ID new = cr_ID old \<and> cr_CreatedAt new = cr_CreatedAt old
     \<and> cr_DeletionRequestedAt new = cr_DeletionRequestedAt old \<and> cr_Finalizers new = cr_Finalizers old
     \<and> cr_ExpiresAt new = cr_ExpiresAt old"

lemma errors_conflict_not_found: "errors_Is e ErrConflict \<Longrightarrow> \<not> errors_Is e ErrNotFound"
  by (induction e) auto

locale quiet_store =
  fixes s :: "'w Store" and cur :: "'w \<Rightarrow> key \<Rightarrow> ConversationRecord option" and ok :: "'w \<Rightarrow> bool"
  assumes named: "ok w \<Longrightarrow> cur w k = Some r \<Longrightarrow> cr_Name r = k"
    and get_keeps: "ok w \<Longrightarrow> st_Get s w k = (w', x) \<Longrightarrow> ok w' \<and> cur w' = cur w"
    and get_hit: "ok w \<Longrightarrow> st_Get s w k = (w', Inr (r, v)) \<Longrightarrow> cur w k = Some r"
    and get_miss: "ok w \<Longrightarrow> st_Get s w k = (w', Inl e) \<Longrightarrow> errors_Is e ErrNotFound \<Longrightarrow> cur w k = None"
    and list_keeps: "ok w \<Longrightarrow> st_List s w i key = (w', y) \<Longrightarrow> ok w' \<and> cur w' = cur w"
    and list_matches: "ok w \<Longrightarrow> st_List s w i key = (w', Inr rs) \<Longrightarrow>
        r \<in> set rs \<longleftrightarrow> (\<exists>k. cur w k = Some r \<and> mem_match i key r)"
    and update_ok: "ok w \<Longrightarrow> st_Get s w k = (w1, Inr (old, v)) \<Longrightarrow> same_identity old new
        \<Longrightarrow> st_Update s w1 k v new = (w', z) \<Longrightarrow> ok w'"
    and update_hit: "ok w \<Longrightarrow> st_Get s w k = (w1, Inr (old, v)) \<Longrightarrow> same_identity old new
        \<Longrightarrow> st_Update s w1 k v new = (w', Inr v') \<Longrightarrow> cur w' = (cur w)(k \<mapsto> new) \<or> cur w' = (cur w)(k := None)"
    and update_fail: "ok w \<Longrightarrow> st_Get s w k = (w1, Inr (old, v)) \<Longrightarrow> same_identity old new
        \<Longrightarrow> st_Update s w1 k v new = (w', Inl e) \<Longrightarrow> cur w' = cur w \<and> \<not> errors_Is e ErrNotFound"
begin

text \<open>\<open>Mutate\<close> with a pure closure that keeps the identity: one step, or nothing and an error.\<close>

lemma Mutate_loop_quiet:
  assumes "Mutate_loop s k (\<lambda>u r. (u, Inr (f r))) n le u w = (w', u', x)" and "ok w"
    and "\<And>r. same_identity r (f r)" and "\<And>e. le = Some e \<Longrightarrow> \<not> errors_Is e ErrNotFound"
  shows "ok w' \<and> (case x of
      Inr r \<Rightarrow> \<exists>old. cur w k = Some old \<and> r = f old \<and> (cur w' = (cur w)(k \<mapsto> r) \<or> cur w' = (cur w)(k := None))
    | Inl e \<Rightarrow> cur w' = cur w \<and> (errors_Is e ErrNotFound \<longrightarrow> cur w k = None))"
  using assms
proof (induction n arbitrary: le w)
  case 0
  then show ?case by (auto split: option.splits)
next
  case (Suc n)
  obtain w1 y where g: "st_Get s w k = (w1, y)" by fastforce
  note keep = get_keeps [OF Suc.prems(2) g]
  show ?case
  proof (cases y)
    case (Inl e)
    with Suc.prems(1) g keep get_miss [OF Suc.prems(2), of k w1 e] show ?thesis by auto
  next
    case (Inr p)
    obtain old v where p: "p = (old, v)" by fastforce
    note hit = get_hit [OF Suc.prems(2) g [unfolded Inr p]]
    show ?thesis
    proof (cases "f old = old")
      case True
      with Suc.prems(1) g Inr p keep hit show ?thesis by (auto simp: map_upd_triv)
    next
      case False
      obtain w2 z where u: "st_Update s w1 k v (f old) = (w2, z)" by fastforce
      note id = Suc.prems(3) [of old]
      note ok2 = update_ok [OF Suc.prems(2) g [unfolded Inr p] id u]
      show ?thesis
      proof (cases z)
        case (Inr v')
        from update_hit [OF Suc.prems(2) g [unfolded \<open>y = Inr p\<close> p] id u [unfolded Inr]]
        show ?thesis using Suc.prems(1) g \<open>y = Inr p\<close> p False u Inr ok2 hit by auto
      next
        case (Inl e)
        from update_fail [OF Suc.prems(2) g [unfolded \<open>y = Inr p\<close> p] id u [unfolded Inl]]
        have same: "cur w2 = cur w" "\<not> errors_Is e ErrNotFound" by auto
        show ?thesis
        proof (cases "errors_Is e ErrConflict")
          case True
          with Suc.prems(1) g \<open>y = Inr p\<close> p False u Inl
          have "Mutate_loop s k (\<lambda>u r. (u, Inr (f r))) n (Some e) u w2 = (w', u', x)" by simp
          from Suc.IH [OF this ok2 Suc.prems(3)] same(2) show ?thesis unfolding same(1) by simp
        next
          case nc: False
          with Suc.prems(1) g \<open>y = Inr p\<close> p False u Inl same ok2 show ?thesis by auto
        qed
      qed
    qed
  qed
qed

lemmas Mutate_quiet = Mutate_loop_quiet [where n = MutateMaxAttempts and le = None, folded Mutate_def, simplified]

end

section \<open>The in-memory backend is one\<close>

definition mem_cur :: "memStore \<Rightarrow> key \<Rightarrow> ConversationRecord option" where
  "mem_cur m k = map_option fst (map_of (mem_records m) k)"

text \<open>Names are keys, no key twice, nothing due to be swept.\<close>

definition mem_ok :: "memStore \<Rightarrow> bool" where
  "mem_ok m \<longleftrightarrow> distinct (map fst (mem_records m))
     \<and> (\<forall>(k, r, v) \<in> set (mem_records m). cr_Name r = k \<and> \<not> expired (mem_now m) r)"

lemma sweep_ok [simp]: "mem_ok m \<Longrightarrow> sweepExpiredLocked m = m"
proof -
  assume "mem_ok m"
  then have "filter (\<lambda>(k, r, v). \<not> expired (mem_now m) r) (mem_records m) = mem_records m"
    "filter (\<lambda>(k, r, v). expired (mem_now m) r) (mem_records m) = []"
    by (auto simp: mem_ok_def filter_id_conv filter_empty_conv)
  then show ?thesis by (simp add: sweepExpiredLocked_def)
qed

lemma mem_cur_update: "mem_cur (m\<lparr>mem_seq := n, mem_records := AList.update k (r, v) (mem_records m)\<rparr>) = (mem_cur m)(k \<mapsto> r)"
  by (auto simp: mem_cur_def update_conv')

lemma mem_cur_delete: "mem_cur (m\<lparr>mem_seq := n, mem_records := AList.delete k (mem_records m)\<rparr>) = (mem_cur m)(k := None)"
  by (auto simp: mem_cur_def delete_conv')

lemma mem_ok_iff: "mem_ok m \<longleftrightarrow> distinct (map fst (mem_records m))
    \<and> (\<forall>k r. mem_cur m k = Some r \<longrightarrow> cr_Name r = k \<and> \<not> expired (mem_now m) r)"
  by (fastforce simp: mem_ok_def mem_cur_def dest: map_of_SomeD)

lemma mem_put_ok:
  assumes "mem_ok m" "cr_Name r = k" "\<not> expired (mem_now m) r" "mem_put k r m = (m', x)"
  shows "mem_ok m' \<and> mem_cur m' = (mem_cur m)(k \<mapsto> r)"
  using assms by (auto simp: mem_put_def mintLocked_def mem_ok_iff mem_cur_update distinct_update Let_def split: if_splits)

lemma mem_drop_ok:
  assumes "mem_ok m" "mem_drop k m = (m', x)"
  shows "mem_ok m' \<and> mem_cur m' = (mem_cur m)(k := None)"
  using assms by (auto simp: mem_drop_def mintLocked_def mem_ok_iff mem_cur_delete distinct_delete Let_def split: if_splits)

lemma mem_Update_quiet:
  assumes "mem_ok m" "mem_Get m k = (m1, Inr (old, v))" "same_identity old new" "mem_Update m1 k v new = (m', x)"
  shows "mem_ok m' \<and> (case x of Inr _ \<Rightarrow> mem_cur m' = (mem_cur m)(k \<mapsto> new) \<or> mem_cur m' = (mem_cur m)(k := None)
    | Inl e \<Rightarrow> mem_cur m' = mem_cur m \<and> \<not> errors_Is e ErrNotFound)"
proof -
  have "\<exists>n. map_of (mem_records m) k = Some (old, n) \<and> v = revisionOf n \<and> m1 = m"
    using assms(2) unfolding mem_Get_def sweep_ok [OF assms(1)] Let_def by (cases "map_of (mem_records m) k") auto
  then obtain n where n: "map_of (mem_records m) k = Some (old, n)" "v = revisionOf n" "m1 = m" by blast
  have "cr_ID old = cr_ID new" "cr_CreatedAt old = cr_CreatedAt new" "cr_DeletionRequestedAt old = cr_DeletionRequestedAt new"
    using assms(3) by (simp_all only: same_identity_def)
  then have same: "new\<lparr>cr_ID := cr_ID old, cr_CreatedAt := cr_CreatedAt old, cr_DeletionRequestedAt := cr_DeletionRequestedAt old\<rparr> = new"
    by simp
  have c: "mem_cur m k = Some old" using n by (simp add: mem_cur_def)
  with assms(1,3) have new: "cr_Name new = k" "\<not> expired (mem_now m) new"
    by (auto simp: mem_ok_iff same_identity_def expired_def)
  from assms(4) n have "(if cr_DeletionRequestedAt new \<noteq> None \<and> list_ex (\<lambda>f. \<not> List.member (cr_Finalizers old) f) (cr_Finalizers new)
      then (m, Inl ErrDeleting)
      else if cr_DeletionRequestedAt new \<noteq> None \<and> cr_Finalizers new = [] then mem_drop k m else mem_put k new m) = (m', x)"
    by (simp add: mem_Update_def assms(1) same Let_def)
  then show ?thesis
    using assms(1) mem_put_ok [OF assms(1) new] mem_drop_ok [OF assms(1), of k]
    by (auto split: if_splits sum.split simp: mem_put_def mem_drop_def Let_def)
qed

interpretation mem: quiet_store mem_Store mem_cur mem_ok
proof unfold_locales
  fix m m' m1 :: memStore and k i key x y z rs r v v' old new e
  show "cr_Name r = k" if "mem_ok m" "mem_cur m k = Some r" using that by (simp add: mem_ok_iff)
  show "mem_ok m' \<and> mem_cur m' = mem_cur m" if "mem_ok m" "st_Get mem_Store m k = (m', x)"
    using that by (simp add: mem_Store_def mem_Get_def Let_def)
  show "mem_cur m k = Some r" if "mem_ok m" "st_Get mem_Store m k = (m', Inr (r, v))"
    using that by (auto simp: mem_Store_def mem_Get_def mem_cur_def Let_def split: option.splits)
  show "mem_cur m k = None" if "mem_ok m" "st_Get mem_Store m k = (m', Inl e)" "errors_Is e ErrNotFound"
    using that by (auto simp: mem_Store_def mem_Get_def mem_cur_def Let_def split: option.splits)
  show "mem_ok m' \<and> mem_cur m' = mem_cur m" if "mem_ok m" "st_List mem_Store m i key = (m', y)"
    using that by (simp add: mem_Store_def mem_List_def Let_def)
  show "r \<in> set rs \<longleftrightarrow> (\<exists>k. mem_cur m k = Some r \<and> mem_match i key r)"
    if "mem_ok m" "st_List mem_Store m i key = (m', Inr rs)"
  proof -
    have "r \<in> (\<lambda>(k, r, v). r) ` set (mem_records m) \<longleftrightarrow> (\<exists>k. mem_cur m k = Some r)"
      using that(1) by (force simp: mem_cur_def mem_ok_def dest: map_of_SomeD intro: map_of_is_SomeI)
    moreover from that have rs: "rs = filter (mem_match i key) (map (\<lambda>(k, r, v). r) (mem_records m))"
      by (auto simp: mem_Store_def mem_List_def Let_def)
    ultimately show ?thesis unfolding rs set_filter set_map by simp
  qed
  show "mem_ok m'" if "mem_ok m" "st_Get mem_Store m k = (m1, Inr (old, v))" "same_identity old new"
    "st_Update mem_Store m1 k v new = (m', z)"
    using mem_Update_quiet [of m k m1 old v new m' z] that by (simp add: mem_Store_def)
  show "mem_cur m' = (mem_cur m)(k \<mapsto> new) \<or> mem_cur m' = (mem_cur m)(k := None)"
    if "mem_ok m" "st_Get mem_Store m k = (m1, Inr (old, v))" "same_identity old new"
    "st_Update mem_Store m1 k v new = (m', Inr v')"
    using mem_Update_quiet [of m k m1 old v new m' "Inr v'"] that by (simp add: mem_Store_def)
  show "mem_cur m' = mem_cur m \<and> \<not> errors_Is e ErrNotFound"
    if "mem_ok m" "st_Get mem_Store m k = (m1, Inr (old, v))" "same_identity old new"
    "st_Update mem_Store m1 k v new = (m', Inl e)"
    using mem_Update_quiet [of m k m1 old v new m' "Inl e"] that by (simp add: mem_Store_def)
qed

lemma flaky_opE:
  assumes "flaky_op f st = (st', x)"
  obtains "snd st = 0" "st' = st" "x = Inl broken"
  | n where "snd st = Suc n" "f (fst st) = (fst st', x)" "snd st' = n"
  using assms by (cases st; cases "snd st") (auto simp: flaky_op_def split: prod.splits)

text \<open>A store whose connection breaks still changes nothing when a call fails.\<close>

lemma flaky_quiet:
  assumes "quiet_store s cur ok"
  shows "quiet_store (flaky s) (cur \<circ> fst) (ok \<circ> fst)"
proof -
  note laws = quiet_store.named [OF assms] quiet_store.get_keeps [OF assms] quiet_store.get_hit [OF assms]
    quiet_store.get_miss [OF assms] quiet_store.list_keeps [OF assms] quiet_store.list_matches [OF assms]
  show ?thesis
  proof unfold_locales
    fix w w' w1 :: "'a \<times> nat" and k i key x y z rs r v v' old new e
    show "cr_Name r = k" if "(ok \<circ> fst) w" "(cur \<circ> fst) w k = Some r" using that laws(1) by simp
    show "(ok \<circ> fst) w' \<and> (cur \<circ> fst) w' = (cur \<circ> fst) w" if "(ok \<circ> fst) w" "st_Get (flaky s) w k = (w', x)"
      using that laws(2) by (auto simp: flaky_def elim!: flaky_opE)
    show "(cur \<circ> fst) w k = Some r" if "(ok \<circ> fst) w" "st_Get (flaky s) w k = (w', Inr (r, v))"
      using that laws(3) by (auto simp: flaky_def elim!: flaky_opE)
    show "(cur \<circ> fst) w k = None" if "(ok \<circ> fst) w" "st_Get (flaky s) w k = (w', Inl e)" "errors_Is e ErrNotFound"
      using that laws(4) by (auto simp: flaky_def broken_def elim!: flaky_opE)
    show "(ok \<circ> fst) w' \<and> (cur \<circ> fst) w' = (cur \<circ> fst) w" if "(ok \<circ> fst) w" "st_List (flaky s) w i key = (w', y)"
      using that laws(5) by (auto simp: flaky_def elim!: flaky_opE)
    show "r \<in> set rs \<longleftrightarrow> (\<exists>k. (cur \<circ> fst) w k = Some r \<and> mem_match i key r)"
      if "(ok \<circ> fst) w" "st_List (flaky s) w i key = (w', Inr rs)"
      using that laws(6) by (auto simp: flaky_def elim!: flaky_opE)
    have up: "(ok \<circ> fst) w' \<and> (case z of Inr _ \<Rightarrow> (cur \<circ> fst) w' = ((cur \<circ> fst) w)(k \<mapsto> new) \<or> (cur \<circ> fst) w' = ((cur \<circ> fst) w)(k := None)
        | Inl e \<Rightarrow> (cur \<circ> fst) w' = (cur \<circ> fst) w \<and> \<not> errors_Is e ErrNotFound)"
      if "(ok \<circ> fst) w" "st_Get (flaky s) w k = (w1, Inr (old, v))" "same_identity old new"
        "st_Update (flaky s) w1 k v new = (w', z)" for z
    proof -
      from that(2) have g: "st_Get s (fst w) k = (fst w1, Inr (old, v))" by (auto simp: flaky_def elim!: flaky_opE)
      with laws(2) that(1) have o1: "ok (fst w1)" "cur (fst w1) = cur (fst w)" by auto
      from that(4) have "flaky_op (\<lambda>w. st_Update s w k v new) w1 = (w', z)" by (simp add: flaky_def)
      then show ?thesis
      proof (cases rule: flaky_opE)
        case 1
        with o1 show ?thesis by (simp add: broken_def)
      next
        case (2 n)
        note u = quiet_store.update_ok [OF assms _ g that(3)] quiet_store.update_hit [OF assms _ g that(3)]
          quiet_store.update_fail [OF assms _ g that(3)]
        from 2 u that(1) show ?thesis by (cases z) auto
      qed
    qed
    show "(ok \<circ> fst) w'" if "(ok \<circ> fst) w" "st_Get (flaky s) w k = (w1, Inr (old, v))" "same_identity old new"
      "st_Update (flaky s) w1 k v new = (w', z)" using up [OF that] by blast
    show "(cur \<circ> fst) w' = ((cur \<circ> fst) w)(k \<mapsto> new) \<or> (cur \<circ> fst) w' = ((cur \<circ> fst) w)(k := None)"
      if "(ok \<circ> fst) w" "st_Get (flaky s) w k = (w1, Inr (old, v))" "same_identity old new"
      "st_Update (flaky s) w1 k v new = (w', Inr v')" using up [OF that] by simp
    show "(cur \<circ> fst) w' = (cur \<circ> fst) w \<and> \<not> errors_Is e ErrNotFound"
      if "(ok \<circ> fst) w" "st_Get (flaky s) w k = (w1, Inr (old, v))" "same_identity old new"
      "st_Update (flaky s) w1 k v new = (w', Inl e)" using up [OF that] by simp
  qed
qed

interpretation flaky_mem: quiet_store "flaky mem_Store" "mem_cur \<circ> fst" "mem_ok \<circ> fst"
  by (rule flaky_quiet) (rule mem.quiet_store_axioms)

end
