(* ===== verification/CascadeLaws.thy ===== *)
theory CascadeLaws
  imports Invoke MemStore
begin

text \<open>
  What closing does to the tree of conversations, over the contract of a store nobody else writes
  (\<^theory_text>\<open>quiet_store\<close>): which conversations it touches, in which order they close, when it returns, and
  what a budget edge does to a root.
\<close>

section \<open>The tree\<close>

definition open_at :: "('w \<Rightarrow> key \<Rightarrow> ConversationRecord option) \<Rightarrow> 'w \<Rightarrow> key \<Rightarrow> bool" where
  "open_at cur w k \<longleftrightarrow> (\<exists>r. cur w k = Some r \<and> cr_Phase r \<noteq> PhaseClosed)"

definition kid_of :: "('w \<Rightarrow> key \<Rightarrow> ConversationRecord option) \<Rightarrow> 'w \<Rightarrow> key \<Rightarrow> key \<Rightarrow> bool" where
  "kid_of cur w p k \<longleftrightarrow> (\<exists>r. cur w k = Some r \<and> caused_by p r)"

inductive live_below :: "('w \<Rightarrow> key \<Rightarrow> ConversationRecord option) \<Rightarrow> 'w \<Rightarrow> key \<Rightarrow> key \<Rightarrow> bool"
  for cur w p where
  member: "kid_of cur w p k \<Longrightarrow> open_at cur w k \<Longrightarrow> live_below cur w p k"
| deeper: "live_below cur w p j \<Longrightarrow> kid_of cur w j k \<Longrightarrow> open_at cur w k \<Longrightarrow> live_below cur w p k"

inductive_cases live_belowE: "live_below cur w p k"

text \<open>A step that only closes: no conversation appears, changes its parent, or reopens.\<close>

definition only_closes :: "('w \<Rightarrow> key \<Rightarrow> ConversationRecord option) \<Rightarrow> 'w \<Rightarrow> 'w \<Rightarrow> bool" where
  "only_closes cur w w' \<longleftrightarrow> (\<forall>k r'. cur w' k = Some r' \<longrightarrow> (\<exists>r. cur w k = Some r \<and> cr_CausedBy r' = cr_CausedBy r
     \<and> (cr_Phase r = PhaseClosed \<longrightarrow> cr_Phase r' = PhaseClosed)))"

text \<open>What a step closed has no open member left.\<close>

definition strands_nobody :: "('w \<Rightarrow> key \<Rightarrow> ConversationRecord option) \<Rightarrow> 'w \<Rightarrow> 'w \<Rightarrow> bool" where
  "strands_nobody cur w w' \<longleftrightarrow> (\<forall>p k. open_at cur w p \<and> \<not> open_at cur w' p \<longrightarrow> \<not> (kid_of cur w' p k \<and> open_at cur w' k))"

lemma only_closes_refl [simp]: "only_closes cur w w"
  by (auto simp: only_closes_def)

lemma only_closes_trans: "only_closes cur w w1 \<Longrightarrow> only_closes cur w1 w2 \<Longrightarrow> only_closes cur w w2"
  unfolding only_closes_def by metis

lemma only_closes_back:
  assumes "only_closes cur w w'"
  shows "open_at cur w' k \<Longrightarrow> open_at cur w k" "kid_of cur w' p k \<Longrightarrow> kid_of cur w p k"
  using assms unfolding only_closes_def open_at_def kid_of_def caused_by_def by fastforce+

lemma live_below_back:
  assumes "live_below cur w' p k" "only_closes cur w w'" shows "live_below cur w p k"
  using assms by (induction rule: live_below.induct) (auto intro: live_below.intros dest: only_closes_back)

lemma live_below_trans: "live_below cur w j k \<Longrightarrow> live_below cur w p j \<Longrightarrow> live_below cur w p k"
  by (induction rule: live_below.induct) (auto intro: live_below.intros)

lemma strands_nobody_trans:
  assumes "strands_nobody cur w w1" "strands_nobody cur w1 w2" "only_closes cur w1 w2"
  shows "strands_nobody cur w w2"
  using assms only_closes_back [OF assms(3)] unfolding strands_nobody_def by blast

text \<open>All of it together: \<open>top\<close> is the conversation asked to close.\<close>

definition touches_only :: "('w \<Rightarrow> key \<Rightarrow> ConversationRecord option) \<Rightarrow> 'w \<Rightarrow> 'w \<Rightarrow> key set \<Rightarrow> bool" where
  "touches_only cur w w' A \<longleftrightarrow> (\<forall>k. cur w' k \<noteq> cur w k \<longrightarrow> k \<in> A)"

definition close_step :: "('w \<Rightarrow> key \<Rightarrow> ConversationRecord option) \<Rightarrow> 'w \<Rightarrow> 'w \<Rightarrow> bool" where
  "close_step cur w w' \<longleftrightarrow> only_closes cur w w' \<and> strands_nobody cur w w'"

lemma close_step_trans: "close_step cur w w1 \<Longrightarrow> close_step cur w1 w2 \<Longrightarrow> close_step cur w w2"
  unfolding close_step_def by (meson only_closes_trans strands_nobody_trans)

lemma close_step_same: "cur w' = cur w \<Longrightarrow> close_step cur w w'"
  by (auto simp: close_step_def only_closes_def strands_nobody_def open_at_def)

lemma touches_only_trans:
  "touches_only cur w w1 A \<Longrightarrow> touches_only cur w1 w2 B \<Longrightarrow> A \<subseteq> C \<Longrightarrow> B \<subseteq> C \<Longrightarrow> touches_only cur w w2 C"
  unfolding touches_only_def by (metis subsetD)

lemma fst_eachBoundThread [simp]:
  assumes "\<And>ch tid st. fst (fn ch tid st) = fst st"
  shows "fst (eachBoundThread r conv omit fn st) = fst st"
proof -
  have "fst (fold (\<lambda>ref st. if ref = omit then st
        else (case ThreadFor conv ref of
           None \<Rightarrow> st
         | Some tid \<Rightarrow> (case ro_Channel r (fst st) ref of None \<Rightarrow> st | Some ch \<Rightarrow> fn ch tid st))) refs st) = fst st" for refs
    using assms by (induction refs arbitrary: st) (auto split: option.split)
  then show ?thesis by (simp add: eachBoundThread_def)
qed

lemma fst_farewell [simp]: "fst (farewell_to r conv t st) = fst st"
  by (simp add: farewell_to_def split: prod.split)

lemma and_then_Some:
  "and_then x f = Some (st', e) \<longleftrightarrow>
     (\<exists>st. x = Some (st, None) \<and> f st = Some (st', e)) \<or> (\<exists>er. x = Some (st', Some er) \<and> e = Some er)"
  by (auto simp: and_then_def split: option.splits)

lemma and_thenE:
  assumes "and_then x f = Some (st', e)"
  obtains (stop) er where "x = Some (st', Some er)" "e = Some er"
  | (go) st where "x = Some (st, None)" "f st = Some (st', e)"
  using assms by (auto simp: and_then_Some)

lemma and_then_None: "and_then x f = None \<longleftrightarrow> x = None \<or> (\<exists>st. x = Some (st, None) \<and> f st = None)"
  by (auto simp: and_then_def split: option.splits)

section \<open>Closing over a quiet store\<close>

context quiet_store begin

lemma Patch_quiet:
  assumes "Patch s conv f w = (w', conv', e)" and "ok w" and "\<And>r. same_identity r (f r)"
  shows "ok w' \<and> (case e of
      None \<Rightarrow> \<exists>old. cur w (cr_Name conv) = Some old
        \<and> (cur w' = (cur w)(cr_Name conv \<mapsto> f old) \<or> cur w' = (cur w)(cr_Name conv := None))
    | Some x \<Rightarrow> cur w' = cur w \<and> (errors_Is x ErrNotFound \<longrightarrow> cur w (cr_Name conv) = None))"
proof -
  obtain w1 u x where m: "Mutate s (cr_Name conv) (\<lambda>u r. (u, Inr (f r))) () w = (w1, u, x)"
    by (metis prod_cases3)
  from Mutate_quiet [OF m assms(2,3)] assms(1) m show ?thesis
    by (cases x) (auto simp: Patch_def)
qed

lemma close_with_reason_keeps:
  "same_identity r (close_with_reason now reason r)"
  by (simp add: same_identity_def close_with_reason_def)

text \<open>One conversation closed, when no member of it is open.\<close>

lemma closed_one:
  assumes "cur w' = (cur w)(k \<mapsto> r') \<or> cur w' = (cur w)(k := None)" and "cur w k = Some r"
    and "cr_Phase r' = PhaseClosed" "cr_CausedBy r' = cr_CausedBy r"
    and "\<And>j. \<not> (kid_of cur w k j \<and> open_at cur w j)"
  shows "close_step cur w w' \<and> \<not> open_at cur w' k"
proof -
  have o: "only_closes cur w w'" using assms(1-4) by (auto simp: only_closes_def split: if_splits)
  have n: "\<not> open_at cur w' k" using assms(1,3) by (auto simp: open_at_def)
  have "strands_nobody cur w w'" unfolding strands_nobody_def
  proof (intro allI impI)
    fix p j assume "open_at cur w p \<and> \<not> open_at cur w' p"
    then have "p = k" using assms(1) by (auto simp: open_at_def split: if_splits)
    with assms(5) [of j] only_closes_back [OF o] show "\<not> (kid_of cur w' p j \<and> open_at cur w' j)" by blast
  qed
  with o n show ?thesis by (simp add: close_step_def)
qed

lemma closeConversationReason_quiet:
  assumes "closeConversationReason r conv reason (w, q) = ((w', q'), e)" and "ro_Store r = s" "ok w"
    and "\<And>j. \<not> (kid_of cur w (cr_Name conv) j \<and> open_at cur w j)"
  shows "ok w' \<and> close_step cur w w' \<and> touches_only cur w w' {cr_Name conv}
    \<and> (e = None \<and> cr_Phase conv \<noteq> PhaseClosed \<longrightarrow> \<not> open_at cur w' (cr_Name conv))"
proof (cases "cr_Phase conv = PhaseClosed")
  case True
  with assms show ?thesis by (simp add: closeConversationReason_def close_step_same touches_only_def)
next
  case False
  obtain w1 q1 where f: "farewell_to r conv (reason_farewell reason) (w, q) = (w1, q1)" by fastforce
  have w1: "w1 = w" using fst_farewell [of r conv "reason_farewell reason" "(w, q)"] f by simp
  let ?f = "close_with_reason (ro_Now r w 1) reason"
  obtain w2 c x where p: "Patch s conv ?f w = (w2, c, x)" by (metis prod_cases3)
  from assms(1,2) False f w1 p have eqs: "w' = w2" "e = IgnoreNotFound x"
    by (auto simp: closeConversationReason_def)
  note q = Patch_quiet [OF p assms(3) close_with_reason_keeps]
  show ?thesis
  proof (cases x)
    case None
    with q obtain old where old: "cur w (cr_Name conv) = Some old"
      "cur w' = (cur w)(cr_Name conv \<mapsto> ?f old) \<or> cur w' = (cur w)(cr_Name conv := None)" "ok w'"
      using eqs by auto
    have ph: "cr_Phase (?f old) = PhaseClosed" "cr_CausedBy (?f old) = cr_CausedBy old"
      by (simp_all add: close_with_reason_def)
    have "touches_only cur w w' {cr_Name conv}" using old(2) by (auto simp: touches_only_def split: if_splits)
    with closed_one [OF old(2,1) ph assms(4)] old(3) show ?thesis by simp
  next
    case (Some y)
    with q eqs have "cur w' = cur w" "ok w'" "errors_Is y ErrNotFound \<longrightarrow> cur w (cr_Name conv) = None" by auto
    with Some eqs show ?thesis
      by (auto simp: close_step_same touches_only_def IgnoreNotFound_def open_at_def split: if_splits)
  qed
qed

text \<open>What one call of the cascade does.\<close>

definition closes :: "(ConversationRecord \<Rightarrow> 'w chat \<Rightarrow> 'w chat attempt) \<Rightarrow> bool" where
  "closes close \<longleftrightarrow> (\<forall>conv w q w' q' e. ok w \<longrightarrow> close conv (w, q) = Some ((w', q'), e) \<longrightarrow>
     ok w' \<and> close_step cur w w'
     \<and> touches_only cur w w' (insert (cr_Name conv) {k. live_below cur w (cr_Name conv) k})
     \<and> (e = None \<longrightarrow> (cr_Phase conv \<noteq> PhaseClosed \<longrightarrow> \<not> open_at cur w' (cr_Name conv))
          \<and> (\<forall>k. \<not> (kid_of cur w' (cr_Name conv) k \<and> open_at cur w' k))))"

lemma close_members_quiet:
  assumes "closes close" "ok w" "close_members close p ms (w, q) = Some ((w', q'), e)"
    and "\<And>m. m \<in> set ms \<Longrightarrow> cr_Phase m \<noteq> PhaseClosed \<Longrightarrow> caused_by p m \<Longrightarrow> live_below cur w0 p (cr_Name m)"
    and "only_closes cur w0 w"
  shows "ok w' \<and> close_step cur w w' \<and> touches_only cur w w' {k. live_below cur w0 p k}
    \<and> (e = None \<longrightarrow> (\<forall>m \<in> set ms. cr_Phase m \<noteq> PhaseClosed \<and> caused_by p m \<longrightarrow> \<not> open_at cur w' (cr_Name m)))"
  using assms(2-5)
proof (induction ms arbitrary: w q)
  case Nil
  then show ?case by (auto simp: close_step_same touches_only_def)
next
  case (Cons m ms)
  show ?case
  proof (cases "cr_Phase m = PhaseClosed \<or> \<not> caused_by p m")
    case True
    with Cons.prems(2) have "close_members close p ms (w, q) = Some ((w', q'), e)" by (auto split: if_splits)
    from Cons.IH [OF Cons.prems(1) this Cons.prems(3,4)] True show ?thesis by auto
  next
    case False
    then have step: "and_then (close m (w, q)) (close_members close p ms) = Some ((w', q'), e)"
      using Cons.prems(2) by simp
    have below: "live_below cur w0 p (cr_Name m)" using Cons.prems(3) [of m] False by auto
    have sub: "insert (cr_Name m) {k. live_below cur w (cr_Name m) k} \<subseteq> {k. live_below cur w0 p k}"
      using below live_below_back [OF _ Cons.prems(4)] live_below_trans [of cur w0 "cr_Name m" _ p] by blast
    have one: "ok w1 \<and> close_step cur w w1
      \<and> touches_only cur w w1 (insert (cr_Name m) {k. live_below cur w (cr_Name m) k})
      \<and> (e1 = None \<longrightarrow> \<not> open_at cur w1 (cr_Name m))" if "close m (w, q) = Some ((w1, q1), e1)" for w1 q1 e1
      using assms(1) Cons.prems(1) that False unfolding closes_def by blast
    from step show ?thesis
    proof (cases rule: and_thenE)
      case (stop er)
      from one [OF stop(1)] stop(2) sub show ?thesis by (auto simp: touches_only_def)
    next
      case (go st)
      obtain w1 q1 where st: "st = (w1, q1)" by fastforce
      note one = one [OF go(1) [unfolded st]]
      have oc: "only_closes cur w0 w1"
        using only_closes_trans [OF Cons.prems(4)] one by (simp add: close_step_def)
      have IH: "ok w' \<and> close_step cur w1 w' \<and> touches_only cur w1 w' {k. live_below cur w0 p k}
        \<and> (e = None \<longrightarrow> (\<forall>m \<in> set ms. cr_Phase m \<noteq> PhaseClosed \<and> caused_by p m \<longrightarrow> \<not> open_at cur w' (cr_Name m)))"
        by (rule Cons.IH [OF conjunct1 [OF one] go(2) [unfolded st] _ oc]) (rule Cons.prems(3), simp)
      then have "only_closes cur w1 w'" by (simp add: close_step_def)
      from only_closes_back(1) [OF this] one have "\<not> open_at cur w' (cr_Name m)" by blast
      moreover have "close_step cur w w'" by (rule close_step_trans [of cur w w1]) (use one IH in \<open>simp_all\<close>)
      moreover have "touches_only cur w w' {k. live_below cur w0 p k}"
        by (rule touches_only_trans [of cur w w1, OF _ _ sub order_refl]) (use one IH in \<open>simp_all\<close>)
      ultimately show ?thesis using IH by auto
    qed
  qed
qed

lemma cascade_quiet:
  assumes "closes close" "ro_Store r = s" "ok w" "cascade r close p (w, q) = Some ((w', q'), e)"
  shows "ok w' \<and> close_step cur w w' \<and> touches_only cur w w' {k. live_below cur w p k}
    \<and> (e = None \<longrightarrow> (\<forall>k. \<not> (kid_of cur w' p k \<and> open_at cur w' k)))"
proof -
  obtain w1 y where l: "st_List s w ByCausedBy (no_key\<lparr>lk_CausedBy := p\<rparr>) = (w1, y)" by fastforce
  note keep = list_keeps [OF assms(3) l]
  show ?thesis
  proof (cases y)
    case (Inl er)
    with assms(2,4) l keep show ?thesis by (auto simp: cascade_def close_step_same touches_only_def)
  next
    case (Inr ms)
    with assms(2,4) l have c: "close_members close p ms (w1, q) = Some ((w', q'), e)" by (simp add: cascade_def)
    have mem: "r \<in> set ms \<longleftrightarrow> (\<exists>k. cur w k = Some r \<and> caused_by p r)" for r
      using list_matches [OF assms(3) l [unfolded Inr], of r]
      by (auto simp: caused_by_def no_key_def split: option.splits)
    have oc: "only_closes cur w w1" using keep by (simp add: only_closes_def)
    have "live_below cur w p (cr_Name m)" if "m \<in> set ms" "cr_Phase m \<noteq> PhaseClosed" for m
    proof -
      from that(1) mem obtain k where k: "cur w k = Some m" "caused_by p m" by blast
      with named [OF assms(3) k(1)] that(2) show ?thesis
        by (intro live_below.member) (auto simp: kid_of_def open_at_def)
    qed
    then have m: "ok w' \<and> close_step cur w1 w' \<and> touches_only cur w1 w' {k. live_below cur w p k}
      \<and> (e = None \<longrightarrow> (\<forall>m \<in> set ms. cr_Phase m \<noteq> PhaseClosed \<and> caused_by p m \<longrightarrow> \<not> open_at cur w' (cr_Name m)))"
      using close_members_quiet [OF assms(1) conjunct1 [OF keep] c _ oc] by blast
    have step: "close_step cur w w'"
      by (rule close_step_trans [OF close_step_same [of cur w1 w]]) (use m keep in \<open>simp_all\<close>)
    have "\<not> (kid_of cur w' p k \<and> open_at cur w' k)" if "e = None" for k
    proof
      assume k: "kid_of cur w' p k \<and> open_at cur w' k"
      from step have oc: "only_closes cur w w'" by (simp add: close_step_def)
      from k only_closes_back [OF oc] have "kid_of cur w p k" "open_at cur w k" by blast+
      then obtain r0 where r0: "cur w k = Some r0" "caused_by p r0" "cr_Phase r0 \<noteq> PhaseClosed"
        by (auto simp: kid_of_def open_at_def)
      with mem have "r0 \<in> set ms" by blast
      with m that r0 named [OF assms(3) r0(1)] k show False by blast
    qed
    with m step keep show ?thesis by (simp add: touches_only_def)
  qed
qed

lemma closeWithCascade_closes: "ro_Store r = s \<Longrightarrow> closes (closeWithCascade n r reason)"
proof (induction n)
  case 0
  then show ?case by (simp add: closes_def)
next
  case (Suc n)
  note cl = Suc.IH [OF Suc.prems]
  show ?case unfolding closes_def
  proof (intro allI impI)
    fix conv w q w' q' e
    assume okw: "ok w" and run: "closeWithCascade (Suc n) r reason conv (w, q) = Some ((w', q'), e)"
    let ?k = "cr_Name conv" and ?A = "insert (cr_Name conv) {k. live_below cur w (cr_Name conv) k}"
    let ?thesis = "ok w' \<and> close_step cur w w' \<and> touches_only cur w w' ?A
      \<and> (e = None \<longrightarrow> (cr_Phase conv \<noteq> PhaseClosed \<longrightarrow> \<not> open_at cur w' ?k)
          \<and> (\<forall>k. \<not> (kid_of cur w' ?k k \<and> open_at cur w' k)))"
    from run [unfolded closeWithCascade.simps] show ?thesis
    proof (cases rule: and_thenE)
      case (stop er)
      from cascade_quiet [OF cl Suc.prems okw stop(1)] stop(2) show ?thesis by (auto simp: touches_only_def)
    next
      case (go st)
      obtain w1 q1 where st: "st = (w1, q1)" by fastforce
      note a = cascade_quiet [OF cl Suc.prems okw go(1) [unfolded st]] and run1 = go(2) [unfolded st]
      obtain w2 q2 e2 where c2: "closeConversationReason r conv reason (w1, q1) = ((w2, q2), e2)" by (metis surj_pair)
      from a have kids: "\<not> (kid_of cur w1 ?k j \<and> open_at cur w1 j)" for j by blast
      note b = closeConversationReason_quiet [OF c2 Suc.prems conjunct1 [OF a] kids]
      from a b have "close_step cur w w1" "close_step cur w1 w2" by blast+
      then have ab: "close_step cur w w2" by (rule close_step_trans)
      from a b have "touches_only cur w w1 {k. live_below cur w ?k k}" "touches_only cur w1 w2 {?k}" by blast+
      then have ab2: "touches_only cur w w2 ?A" by (rule touches_only_trans) auto
      show ?thesis
      proof (cases e2)
        case (Some x)
        with run1 c2 have "w' = w2" "e = Some x" by (simp_all add: and_then_def)
        with b ab ab2 show ?thesis by simp
      next
        case n2: None
        with run1 c2 have c3: "cascade r (closeWithCascade n r reason) ?k (w2, q2) = Some ((w', q'), e)"
          by (simp add: and_then_def)
        note c = cascade_quiet [OF cl Suc.prems conjunct1 [OF b] c3]
        from c have cs: "close_step cur w2 w'" "touches_only cur w2 w' {k. live_below cur w2 ?k k}" by blast+
        note step = close_step_trans [OF ab cs(1)]
        from ab have oc: "only_closes cur w w2" by (simp add: close_step_def)
        have "touches_only cur w w' ?A"
          by (rule touches_only_trans [OF ab2 cs(2)]) (use live_below_back [OF _ oc] in auto)
        moreover from cs(1) have oc2: "only_closes cur w2 w'" by (simp add: close_step_def)
        have "\<not> open_at cur w' ?k" if "cr_Phase conv \<noteq> PhaseClosed"
          using b n2 that only_closes_back(1) [OF oc2] by blast
        ultimately show ?thesis using c step by blast
      qed
    qed
  qed
qed

lemma cascadeCloseMembers_quiet:
  assumes "cascadeCloseMembers n r p reason (w, q) = Some ((w', q'), e)" and "ro_Store r = s" "ok w"
  shows "ok w' \<and> close_step cur w w' \<and> touches_only cur w w' {k. live_below cur w p k}
    \<and> (e = None \<longrightarrow> (\<forall>k. \<not> (kid_of cur w' p k \<and> open_at cur w' k)))"
  by (rule cascade_quiet [OF closeWithCascade_closes [OF assms(2)] assms(2,3) assms(1) [unfolded cascadeCloseMembers_def]])

text \<open>Everything open below what closed is closed too.\<close>

lemma subtree_closed:
  assumes "close_step cur w w'" "\<And>k. \<not> (kid_of cur w' p k \<and> open_at cur w' k)" "live_below cur w p k"
    and "\<And>j j'. kid_of cur w j j' \<Longrightarrow> cur w' j' \<noteq> None \<Longrightarrow> kid_of cur w' j j'"
  shows "\<not> open_at cur w' k"
  using assms(3)
proof (induction rule: live_below.induct)
  case (member k)
  then show ?case using assms(2,4) by (auto simp: open_at_def)
next
  case (deeper j k)
  have "open_at cur w j" using deeper.hyps(1) by (cases rule: live_below.cases) auto
  with deeper.IH assms(1) have "\<not> (kid_of cur w' j k \<and> open_at cur w' k)"
    by (auto simp: close_step_def strands_nobody_def)
  with assms(4) [OF deeper.hyps(2)] show ?case by (auto simp: open_at_def)
qed

lemma kid_kept: "only_closes cur w w' \<Longrightarrow> kid_of cur w j k \<Longrightarrow> cur w' k \<noteq> None \<Longrightarrow> kid_of cur w' j k"
  unfolding only_closes_def kid_of_def caused_by_def by fastforce

text \<open>Along a rank that falls from parent to member the cascade returns.\<close>

definition falls :: "(key \<Rightarrow> nat) \<Rightarrow> 'w \<Rightarrow> bool" where
  "falls rank w \<longleftrightarrow> (\<forall>k r p. cur w k = Some r \<longrightarrow> caused_by p r \<longrightarrow> rank k < rank p)"

lemma falls_kept: "falls rank w \<Longrightarrow> only_closes cur w w' \<Longrightarrow> falls rank w'"
  unfolding falls_def only_closes_def caused_by_def by metis

lemma close_members_returns:
  assumes "closes close" "\<And>conv w q. ok w \<Longrightarrow> falls rank w \<Longrightarrow> rank (cr_Name conv) < n \<Longrightarrow> close conv (w, q) \<noteq> None"
    and "\<And>m. m \<in> set ms \<Longrightarrow> caused_by p m \<Longrightarrow> rank (cr_Name m) < n" "ok w" "falls rank w"
  shows "close_members close p ms (w, q) \<noteq> None"
  using assms(3-5)
proof (induction ms arbitrary: w q)
  case (Cons m ms)
  show ?case
  proof (cases "cr_Phase m = PhaseClosed \<or> \<not> caused_by p m")
    case True
    with Cons.IH [OF _ Cons.prems(2,3)] Cons.prems(1) show ?thesis by auto
  next
    case False
    then have "close m (w, q) \<noteq> None" using assms(2) Cons.prems by simp
    then obtain w1 q1 e1 where c: "close m (w, q) = Some ((w1, q1), e1)" by (metis not_Some_eq surj_pair)
    with assms(1) Cons.prems(2) have "ok w1" "only_closes cur w w1"
      unfolding closes_def close_step_def by blast+
    with Cons.IH [OF _ _ falls_kept [OF Cons.prems(3)]] Cons.prems(1) False c show ?thesis
      by (cases e1) (auto simp: and_then_def)
  qed
qed simp

lemma cascade_returns:
  assumes "closes close" "\<And>conv w q. ok w \<Longrightarrow> falls rank w \<Longrightarrow> rank (cr_Name conv) < n \<Longrightarrow> close conv (w, q) \<noteq> None"
    and "ro_Store r = s" "ok w" "falls rank w" "rank p \<le> n"
  shows "cascade r close p (w, q) \<noteq> None"
proof -
  obtain w1 y where l: "st_List s w ByCausedBy (no_key\<lparr>lk_CausedBy := p\<rparr>) = (w1, y)" by fastforce
  note keep = list_keeps [OF assms(4) l]
  show ?thesis
  proof (cases y)
    case (Inr ms)
    have f1: "falls rank w1" using assms(5) keep by (simp add: falls_def)
    have "rank (cr_Name m) < n" if "m \<in> set ms" "caused_by p m" for m
    proof -
      from that(1) list_matches [OF assms(4) l [unfolded Inr]] obtain k where "cur w k = Some m" by blast
      with assms(5,6) that(2) named [OF assms(4)] show ?thesis unfolding falls_def by (metis order_less_le_trans)
    qed
    from close_members_returns [OF assms(1,2) this conjunct1 [OF keep] f1] show ?thesis
      using l Inr assms(3) by (simp add: cascade_def)
  qed (use l assms(3) in \<open>simp add: cascade_def\<close>)
qed

lemma closeWithCascade_returns:
  "ro_Store r = s \<Longrightarrow> ok w \<Longrightarrow> falls rank w \<Longrightarrow> rank (cr_Name conv) < n \<Longrightarrow> closeWithCascade n r reason conv (w, q) \<noteq> None"
proof (induction n arbitrary: conv w q)
  case (Suc n)
  note cl = closeWithCascade_closes [OF Suc.prems(1), of n reason]
  have ret: "cascade r (closeWithCascade n r reason) (cr_Name conv) (w, q) \<noteq> None" if "ok w" "falls rank w" for w q
    using cascade_returns [OF cl Suc.IH [OF Suc.prems(1)] Suc.prems(1) that] Suc.prems(4) by simp
  obtain w1 q1 e1 where c: "cascade r (closeWithCascade n r reason) (cr_Name conv) (w, q) = Some ((w1, q1), e1)"
    using ret [OF Suc.prems(2,3)] by (metis not_Some_eq surj_pair)
  show ?case
  proof (cases e1)
    case None
    from cascade_quiet [OF cl Suc.prems(1,2) c] None have a: "ok w1" "only_closes cur w w1"
      "\<And>j. \<not> (kid_of cur w1 (cr_Name conv) j \<and> open_at cur w1 j)" by (auto simp: close_step_def)
    obtain w2 q2 e2 where c2: "closeConversationReason r conv reason (w1, q1) = ((w2, q2), e2)" by (metis surj_pair)
    from closeConversationReason_quiet [OF c2 Suc.prems(1) a(1,3)] have b: "ok w2" "only_closes cur w1 w2"
      by (auto simp: close_step_def)
    from ret [OF b(1) falls_kept [OF falls_kept [OF Suc.prems(3) a(2)] b(2)]] show ?thesis
      using c c2 None by (cases e2) (auto simp: and_then_def)
  qed (use c in \<open>simp add: and_then_def\<close>)
qed simp

end

end
