(* ===== verification/CloseLaws.thy ===== *)
theory CloseLaws
  imports CascadeLaws
begin

text \<open>
  The properties of closing, escalation and the scope of the coordinating verbs, with the in-memory
  backend, whole or with a connection that breaks, as their instances.
\<close>

section \<open>Sample trees\<close>

definition no_api :: "'w Reader" where
  "no_api = \<lparr>rd_ListPipelines = (\<lambda>w. Inr []), rd_ListCoordinators = (\<lambda>w. Inr []), rd_GetPipeline = (\<lambda>w n. Inr None),
     rd_GetCoordinator = (\<lambda>w n. Inr None), rd_GetCapability = (\<lambda>w n. Inr None), rd_ProfileRuntime = (\<lambda>w n. Inr None),
     rd_RuntimeExists = (\<lambda>w n. Inr False), rd_ChannelExists = (\<lambda>w n. Inr False)\<rparr>"

definition router_over :: "'w Store \<Rightarrow> 'w Router" where
  "router_over s = \<lparr>ro_Store = s, ro_Reader = no_api, ro_Channel = (\<lambda>w n. None),
     ro_Runtime = \<lparr>df_ContextPVC = [], df_WorkspacePVC = []\<rparr>, ro_InProcess = (\<lambda>t. False), ro_Epoch = ''e'',
     ro_Now = (\<lambda>w n. 7), ro_Sleep = (\<lambda>w n. (w, None))\<rparr>"

lemma router_over_Store [simp]: "ro_Store (router_over s) = s"
  by (simp add: router_over_def)

definition tree_conv :: "string \<Rightarrow> string option \<Rightarrow> ConversationRecord" where
  "tree_conv name parent = zero_record\<lparr>cr_Name := name, cr_Phase := PhaseIdle,
     cr_CausedBy := map_option (\<lambda>p. \<lparr>pv_Parent = p, pv_Entry = ''e''\<rparr>) parent\<rparr>"

definition mem_of :: "ConversationRecord list \<Rightarrow> memStore" where
  "mem_of rs = (newMemStore 5)\<lparr>mem_records := map (\<lambda>r. (cr_Name r, r, 1)) rs, mem_seq := 1\<rparr>"

text \<open>A root, its member, and that member's member.\<close>

definition family :: memStore where
  "family = mem_of [tree_conv ''r'' None, tree_conv ''a'' (Some ''r''), tree_conv ''c'' (Some ''a'')]"

definition cycle :: memStore where
  "cycle = mem_of [tree_conv ''a'' (Some ''c''), tree_conv ''c'' (Some ''a'')]"

lemma family_ok [simp]: "mem_ok family"
  by (simp add: mem_ok_def family_def mem_of_def newMemStore_def tree_conv_def expired_def zero_record_def)

lemma cycle_ok [simp]: "mem_ok cycle"
  by (simp add: mem_ok_def cycle_def mem_of_def newMemStore_def tree_conv_def expired_def zero_record_def)

lemmas tree_eval = family_def mem_of_def newMemStore_def tree_conv_def zero_record_def no_key_def
lemmas mem_eval = mem_Store_def mem_Get_def mem_List_def mem_Update_def mem_put_def mem_drop_def mintLocked_def
  sweepExpiredLocked_def expired_def revisionOf_def
lemmas close_eval = and_then_def cascade_def closeConversationReason_def farewell_to_def eachBoundThread_def
  close_with_reason_def caused_by_def Patch_def Mutate_def MutateMaxAttempts_def boundedString_def
  MaxCloseReason_def IgnoreNotFound_def

section \<open>Closing a subtree\<close>

text \<open>
  C5. Closing is a cascade that strands nobody. Over a store nobody else writes, whether the call ends in an error
  or not: only the conversation and the open conversations below it are touched, none reopens, and whatever the
  call closed has no open member left, so a cascade that fails half-way leaves its ancestors open. When it
  returns without an error, the conversation and everything open below it are closed.
\<close>

theorem closing_strands_nobody:
  assumes "quiet_store s cur ok" and "ro_Store r = s" and "ok w"
    and "closeWithCascade n r reason conv (w, q) = Some ((w', q'), e)" and "cr_Phase conv \<noteq> PhaseClosed"
  shows "touches_only cur w w' (insert (cr_Name conv) {k. live_below cur w (cr_Name conv) k})
    \<and> only_closes cur w w' \<and> strands_nobody cur w w'
    \<and> (e = None \<longrightarrow> \<not> open_at cur w' (cr_Name conv) \<and> (\<forall>k. live_below cur w (cr_Name conv) k \<longrightarrow> \<not> open_at cur w' k))"
proof -
  note cl = quiet_store.closeWithCascade_closes [OF assms(1,2), of n reason, unfolded quiet_store.closes_def [OF assms(1)]]
  have all: "ok w' \<and> close_step cur w w' \<and> touches_only cur w w' (insert (cr_Name conv) {k. live_below cur w (cr_Name conv) k})
    \<and> (e = None \<longrightarrow> (cr_Phase conv \<noteq> PhaseClosed \<longrightarrow> \<not> open_at cur w' (cr_Name conv))
        \<and> (\<forall>k. \<not> (kid_of cur w' (cr_Name conv) k \<and> open_at cur w' k)))"
    by (rule cl [rule_format]) (rule assms(3), rule assms(4))
  then have step: "close_step cur w w'" "only_closes cur w w'" by (simp_all add: close_step_def)
  have "\<not> open_at cur w' k" if "e = None" "live_below cur w (cr_Name conv) k" for k
    by (rule quiet_store.subtree_closed [OF assms(1) step(1) _ that(2)])
      (use all that(1) quiet_store.kid_kept [OF assms(1) step(2)] in blast)+
  with all assms(5) show ?thesis by (simp add: close_step_def)
qed

definition broken_close :: "(memStore \<times> nat) chat attempt" where
  "broken_close = closeWithCascade 3 (router_over (flaky mem_Store)) ''done'' (tree_conv ''r'' None) ((family, 6), NewQueue None)"

lemma broken_close_eval: "\<exists>w'. broken_close = Some ((w', NewQueue None), Some broken) \<and> open_at mem_cur (fst w') ''r''
    \<and> open_at mem_cur (fst w') ''a'' \<and> \<not> open_at mem_cur (fst w') ''c''"
  by (simp add: broken_close_def numeral_eq_Suc router_over_def close_eval mem_eval flaky_def flaky_op_def tree_eval
      open_at_def mem_cur_def)

theorem closing_strands_nobody_witness:
  "\<exists>w' q'. broken_close = Some ((w', q'), Some broken) \<and> strands_nobody (mem_cur \<circ> fst) (family, 6) w'"
proof -
  obtain w' where w: "broken_close = Some ((w', NewQueue None), Some broken)" using broken_close_eval by blast
  have ph: "cr_Phase (tree_conv ''r'' None) \<noteq> PhaseClosed" by (simp add: tree_conv_def)
  have "strands_nobody (mem_cur \<circ> fst) (family, 6) w'"
    using closing_strands_nobody [OF flaky_mem.quiet_store_axioms router_over_Store _ w [unfolded broken_close_def] ph] by simp
  with w show ?thesis by blast
qed

section \<open>When closing returns\<close>

text \<open>
  C29. Closing returns on every tree: where a rank falls from each conversation to its members, a depth above the
  rank of the conversation asked to close is enough, whatever the store answers.
\<close>

theorem closing_returns:
  assumes "quiet_store s cur ok" and "ro_Store r = s" and "ok w"
    and "\<forall>k m p. cur w k = Some m \<and> caused_by p m \<longrightarrow> rank k < (rank p :: nat)"
    and "rank (cr_Name conv) < n"
  shows "closeWithCascade n r reason conv (w, q) \<noteq> None"
  by (rule quiet_store.closeWithCascade_returns [where rank = rank, OF assms(1,2,3) _ assms(5)])
    (use assms(4) in \<open>auto simp: quiet_store.falls_def [OF assms(1)]\<close>)

definition generation :: "key \<Rightarrow> nat" where
  "generation k = (if k = ''r'' then 2 else if k = ''a'' then 1 else 0)"

theorem closing_returns_witness:
  "closeWithCascade 3 (router_over (flaky mem_Store)) ''done'' (tree_conv ''r'' None) ((family, 6), NewQueue None) \<noteq> None"
proof (rule closing_returns [OF flaky_mem.quiet_store_axioms router_over_Store, of _ generation])
  show "\<forall>k m p. (mem_cur \<circ> fst) (family, 6) k = Some m \<and> caused_by p m \<longrightarrow> generation k < generation p"
    by (auto simp: mem_cur_def tree_eval caused_by_def generation_def split: if_splits)
  show "generation (cr_Name (tree_conv ''r'' None)) < 3" by (simp add: generation_def tree_conv_def)
qed simp

text \<open>Two conversations that cause each other are closed by no depth: the stack grows until it is spent.\<close>

lemma closing_a_cycle_never_returns:
  "closeWithCascade n (router_over mem_Store) reason (tree_conv ''a'' (Some ''c'')) (cycle, q) = None
   \<and> closeWithCascade n (router_over mem_Store) reason (tree_conv ''c'' (Some ''a'')) (cycle, q) = None"
proof (induction n)
  case (Suc n)
  then show ?case
    by (simp add: close_eval mem_eval cycle_def tree_eval)
qed simp

end
