(* ===== verification/ScopeLaws.thy ===== *)
theory ScopeLaws
  imports CloseLaws
begin

text \<open>
  What a budget edge does to a root, and what a coordinating agent may close: the scope of its
  \<open>close\<close> verb over a store nobody else writes.
\<close>

section \<open>Reads keep the store\<close>

context quiet_store begin

lemma ancestry_walk_quiet:
  assumes "ancestry_walk s name n chain c w = (w', x)" and "ok w"
  shows "ok w' \<and> cur w' = cur w"
  using assms
proof (induction n arbitrary: chain c w)
  case (Suc n)
  show ?case
  proof (cases "cr_CausedBy c")
    case (Some p)
    obtain w1 y where g: "st_Get s w (pv_Parent p) = (w1, y)" by fastforce
    note keep = get_keeps [OF Suc.prems(2) g]
    show ?thesis
    proof (cases y)
      case (Inr z)
      obtain parent v where z: "z = (parent, v)" by fastforce
      from Suc.prems(1) Some g Inr z have "ancestry_walk s name n (chain @ [parent]) parent w1 = (w', x)" by simp
      from Suc.IH [OF this] keep show ?thesis by simp
    qed (use Suc.prems(1) Some g keep in simp)
  qed (use Suc.prems in simp)
qed simp

lemma ResolveActingCoordinator_quiet:
  assumes "ResolveActingCoordinator r c w = (w', x)" and "ro_Store r = s" "ok w"
  shows "ok w' \<and> cur w' = cur w"
proof (cases "cr_CausedBy c")
  case None
  with assms show ?thesis by (simp add: ResolveActingCoordinator_def)
next
  case (Some p)
  obtain w1 y where a: "causedByAncestry r c w = (w1, y)" by fastforce
  from ancestry_walk_quiet [OF a [unfolded causedByAncestry_def assms(2)] assms(3)]
  show ?thesis using assms(1) Some a by (auto simp: ResolveActingCoordinator_def Let_def split: sum.splits)
qed

lemma closeWithCascade_quiet:
  assumes "closeWithCascade n r reason conv (w, q) = Some ((w', q'), e)" and "ro_Store r = s" "ok w"
  shows "ok w' \<and> close_step cur w w' \<and> touches_only cur w w' (insert (cr_Name conv) {k. live_below cur w (cr_Name conv) k})"
  using closeWithCascade_closes [OF assms(2), of n reason] assms(1,3) unfolding closes_def by blast

end

section \<open>A spent budget\<close>

text \<open>
  A budget edge closes the members and leaves the root. When \<open>CloseBudgetExceeded\<close> returns without an error
  for an uncaused root, everything open below it is closed, and the root is in the phase it was in: it keeps
  taking input and running turns, the escalation being only a stamp.
\<close>

theorem spent_budget_leaves_the_root_open:
  assumes "quiet_store s cur ok" and "ro_Store r = s" and "ok w"
    and "cur w (cr_Name conv) = Some conv" and "cr_CausedBy conv = None"
    and "CloseBudgetExceeded n r conv digest (w, q) = Some ((w', q'), None)"
  shows "(\<forall>r'. cur w' (cr_Name conv) = Some r' \<longrightarrow> cr_Phase r' = cr_Phase conv)
    \<and> (\<forall>k. live_below cur w (cr_Name conv) k \<longrightarrow> \<not> open_at cur w' k)"
proof -
  let ?k = "cr_Name conv"
  from assms(6) obtain w1 q1 where c: "cascadeCloseMembers n r ?k ''budget-exceeded'' (w, q) = Some ((w1, q1), None)"
    and esc: "Escalate n r conv digest (w1, q1) = Some ((w', q'), None)"
    unfolding CloseBudgetExceeded_def by (auto elim!: and_thenE)
  note a = quiet_store.cascadeCloseMembers_quiet [OF assms(1) c assms(2,3)]
  from a have step: "close_step cur w w1" "only_closes cur w w1" by (simp_all add: close_step_def)
  have self: "\<not> live_below cur w ?k ?k"
  proof
    assume "live_below cur w ?k ?k"
    then show False by (cases rule: live_below.cases) (use assms(4,5) in \<open>auto simp: kid_of_def caused_by_def\<close>)
  qed
  from a have "touches_only cur w w1 {k. live_below cur w ?k k}" by blast
  with self have "cur w1 ?k = cur w ?k" unfolding touches_only_def by blast
  with assms(4) have root: "cur w1 ?k = Some conv" by simp
  have below: "\<not> open_at cur w1 k" if "live_below cur w ?k k" for k
    by (rule quiet_store.subtree_closed [OF assms(1) step(1) _ that])
      (use a quiet_store.kid_kept [OF assms(1) step(2)] in blast)+
  show ?thesis
  proof (cases "cr_EscalatedAt conv")
    case (Some t)
    with esc assms(5) have "w' = w1" by (simp add: Escalate_def)
    with root below show ?thesis by simp
  next
    case None
    let ?f = "\<lambda>rec. rec\<lparr>cr_EscalatedAt := Some (ro_Now r w1 0), cr_EscalationMessage := boundedString digest 2000\<rparr>"
    obtain w2 c2 x where p: "Patch s conv ?f w1 = (w2, c2, x)" by (metis prod_cases3)
    from esc None assms(2,5) p have x: "w' = w2" "x = None" by (auto simp: Escalate_def)
    have id: "same_identity rec (?f rec)" for rec by (simp add: same_identity_def)
    from quiet_store.Patch_quiet [OF assms(1) p conjunct1 [OF a] id] x root
    have "cur w' = (cur w1)(?k \<mapsto> ?f conv) \<or> cur w' = (cur w1)(?k := None)" by auto
    with below self show ?thesis by (auto simp: open_at_def split: if_splits)
  qed
qed

definition spent_root :: "(memStore chat) attempt" where
  "spent_root = CloseBudgetExceeded 3 (router_over mem_Store) (tree_conv ''r'' None) ''budget-exceeded'' (family, NewQueue None)"

lemma spent_root_eval: "\<exists>w'. spent_root = Some ((w', NewQueue None), None) \<and> open_at mem_cur w' ''r''"
  by (simp add: spent_root_def CloseBudgetExceeded_def cascadeCloseMembers_def Escalate_def numeral_eq_Suc router_over_def
      close_eval mem_eval tree_eval open_at_def mem_cur_def)

theorem spent_budget_leaves_the_root_open_witness:
  "\<exists>w' q'. spent_root = Some ((w', q'), None) \<and> open_at mem_cur w' ''r'' \<and> \<not> open_at mem_cur w' ''a''"
proof -
  obtain w' where w: "spent_root = Some ((w', NewQueue None), None)" "open_at mem_cur w' ''r''"
    using spent_root_eval by blast
  have r: "mem_cur family (cr_Name (tree_conv ''r'' None)) = Some (tree_conv ''r'' None)"
    by (simp add: mem_cur_def tree_eval)
  have a: "live_below mem_cur family (cr_Name (tree_conv ''r'' None)) ''a''"
    by (intro live_below.member) (simp_all add: kid_of_def open_at_def mem_cur_def tree_eval caused_by_def)
  have u: "cr_CausedBy (tree_conv ''r'' None) = None" by (simp add: tree_conv_def)
  from spent_budget_leaves_the_root_open [OF mem.quiet_store_axioms router_over_Store family_ok r u w(1) [unfolded spent_root_def]] a w
  show ?thesis by blast
qed

section \<open>The scope of close\<close>





end
