(* ===== verification/Backend.thy ===== *)
theory Backend
  imports Invoke
begin

text \<open>
  Which backend a conversation runs on: \<open>ResolveFor\<close> and what it reads
  (\<open>internal/runtimepod/podspec.go\<close>, \<open>actingcoordinator.go\<close>), the AgentRuntime resource and the validation of
  its context declaration (\<open>api/v1alpha1/agentruntime_types.go\<close>, \<open>contextsync_validate.go\<close>). Kubernetes values
  the code only passes on (the source of an environment variable, quantities) are strings. The release's
  claims are those of \<^theory_text>\<open>Claimants\<close>, which a configuration extends.
\<close>

section \<open>The runtime resource\<close>

record EnvVar =
  env_Name :: string
  env_Value :: string
  env_ValueFrom :: "string option"

definition env_value :: "string \<Rightarrow> string \<Rightarrow> EnvVar" where
  "env_value n v = \<lparr>env_Name = n, env_Value = v, env_ValueFrom = None\<rparr>"

definition env_from :: "string \<Rightarrow> string \<Rightarrow> EnvVar" where
  "env_from n src = \<lparr>env_Name = n, env_Value = [], env_ValueFrom = Some src\<rparr>"

record Resources =
  res_Requests :: "(string \<times> string) list"
  res_Limits :: "(string \<times> string) list"

record ContextSync =
  sy_Paths :: "string list"
  sy_Exclude :: "string list"
  sy_Interval :: "duration option"
  sy_Retain :: int

record EgressMediation =
  eg_Port :: int
  eg_ExcludePorts :: "int list"
  eg_Resources :: "Resources option"

abbreviation ContextOnVolume :: string where "ContextOnVolume \<equiv> ''volume''"
abbreviation ContextExternal :: string where "ContextExternal \<equiv> ''external''"
abbreviation ContextNone :: string where "ContextNone \<equiv> ''none''"

record AgentRuntimeSpec =
  rt_Image :: string
  rt_Command :: "string list"
  rt_Args :: "string list"
  rt_Env :: "EnvVar list"
  rt_ServiceAccountName :: string
  rt_NodeSelector :: "(string \<times> string) list"
  rt_IdleTTLMinutes :: int
  rt_ContextStorage :: string
  rt_ContextSync :: "ContextSync option"
  rt_EgressMediation :: "EgressMediation option"
  rt_Resources :: "Resources option"

definition SyncInterval :: "ContextSync option \<Rightarrow> duration \<times> bool" where
  "SyncInterval c = (case c of None \<Rightarrow> (0, False)
     | Some c \<Rightarrow> (case sy_Interval c of None \<Rightarrow> (0, False) | Some d \<Rightarrow> (d, d > 0)))"

definition DefaultEgressMediationPort :: int where
  "DefaultEgressMediationPort = 15001"

definition MediationPort :: "EgressMediation option \<Rightarrow> int" where
  "MediationPort e = (case e of None \<Rightarrow> DefaultEgressMediationPort
     | Some e \<Rightarrow> if eg_Port e = 0 then DefaultEgressMediationPort else eg_Port e)"

section \<open>Validation of a context declaration\<close>

definition validateContextPath :: "string \<Rightarrow> string \<Rightarrow> err option" where
  "validateContextPath field p =
     (if trim_space p = [] then Some (ErrOther (''contextSync.'' @ field @ '' contains an empty path''))
      else if has_prefix p ''/''
      then Some (ErrOther (''contextSync.'' @ field @ '' '' @ quoted p @ '' must be relative to the runtime's home, not absolute''))
      else if p = ''..'' \<or> has_prefix p ''../'' \<or> contains_sub p ''/../'' \<or> has_suffix p ''/..''
      then Some (ErrOther (''contextSync.'' @ field @ '' '' @ quoted p @ '' must not escape the runtime's home''))
      else None)"

fun validate_paths :: "string \<Rightarrow> string list \<Rightarrow> err option" where
  "validate_paths field [] = None"
| "validate_paths field (p # ps) = (case validateContextPath field p of Some e \<Rightarrow> Some e | None \<Rightarrow> validate_paths field ps)"

definition ContextSync_Validate :: "ContextSync option \<Rightarrow> err option" where
  "ContextSync_Validate c =
     (case c of
        None \<Rightarrow> None
      | Some c \<Rightarrow>
          if sy_Paths c = [] then Some (ErrOther (''contextSync.paths must name at least one path; ''
            @ ''an empty include list would persist nothing while appearing configured''))
          else (case validate_paths ''paths'' (sy_Paths c) of
             Some e \<Rightarrow> Some e
           | None \<Rightarrow> (case validate_paths ''exclude'' (sy_Exclude c) of
               Some e \<Rightarrow> Some e
             | None \<Rightarrow>
                 if (case sy_Interval c of None \<Rightarrow> False | Some d \<Rightarrow> d < 0)
                 then Some (ErrOther ''contextSync.interval must not be negative (0 means work-boundary checkpoints only)'')
                 else if sy_Retain c < 0 then Some (ErrOther ''contextSync.retain must not be negative'')
                 else None)))"

section \<open>The configuration of a worker\<close>

record Config = RuntimeDefaults +
  cf_Image :: string
  cf_ServiceAccount :: string
  cf_ControlURL :: string
  cf_IdleTTLMinutes :: int
  cf_NodeSelector :: "(string \<times> string) list"
  cf_Command :: "string list"
  cf_Args :: "string list"
  cf_Env :: "EnvVar list"
  cf_DefaultResources :: "Resources option"
  cf_ContextSyncImage :: string
  cf_EgressProxyImage :: string
  cf_EgressInitImage :: string
  cf_ContextLiveSizeLimit :: string

definition FromRuntime :: "AgentRuntimeSpec option \<Rightarrow> Config \<Rightarrow> Config" where
  "FromRuntime rt fallback =
     (case rt of
        None \<Rightarrow> fallback
      | Some rt \<Rightarrow>
          (let cfg = fallback\<lparr>cf_Image := rt_Image rt, cf_Command := rt_Command rt, cf_Args := rt_Args rt, cf_Env := rt_Env rt\<rparr>;
               cfg = (if rt_ServiceAccountName rt \<noteq> [] then cfg\<lparr>cf_ServiceAccount := rt_ServiceAccountName rt\<rparr> else cfg);
               cfg = (if rt_NodeSelector rt \<noteq> [] then cfg\<lparr>cf_NodeSelector := rt_NodeSelector rt\<rparr> else cfg);
               cfg = (if rt_IdleTTLMinutes rt > 0 then cfg\<lparr>cf_IdleTTLMinutes := rt_IdleTTLMinutes rt\<rparr> else cfg)
           in cfg\<lparr>cf_DefaultResources := rt_Resources rt\<rparr>))"

definition PodName :: "string \<Rightarrow> string" where
  "PodName convName = ''agentops-conv-'' @ convName"

section \<open>The Coordinator a conversation acts for\<close>

fun acting_walk :: "'w Store \<Rightarrow> string \<Rightarrow> nat \<Rightarrow> ConversationRecord \<Rightarrow> 'w \<Rightarrow> 'w \<times> string result" where
  "acting_walk s name 0 cur w = (w, Inl (ErrOther (''causedBy chain from '' @ name @ '' did not terminate'')))"
| "acting_walk s name (Suc n) cur w =
     (case cr_CausedBy cur of
        None \<Rightarrow> (w, Inr (cr_CoordinatorRef cur))
      | Some p \<Rightarrow> (case st_Get s w (pv_Parent p) of
           (w, Inl e) \<Rightarrow> (w, Inl e)
         | (w, Inr (parent, _)) \<Rightarrow> acting_walk s name n parent w))"

definition pod_ActingCoordinator :: "'w Store \<Rightarrow> ConversationRecord \<Rightarrow> 'w \<Rightarrow> 'w \<times> string result" where
  "pod_ActingCoordinator s conv w =
     (if cr_CoordinatorRef conv \<noteq> [] then (w, Inr (cr_CoordinatorRef conv))
      else acting_walk s (cr_Name conv) walk_limit conv w)"

definition resolveActingCoordinatorBestEffort :: "'w Store \<Rightarrow> ConversationRecord \<Rightarrow> 'w \<Rightarrow> 'w \<times> string" where
  "resolveActingCoordinatorBestEffort s conv w =
     (case pod_ActingCoordinator s conv w of (w, Inl e) \<Rightarrow> (w, []) | (w, Inr name) \<Rightarrow> (w, name))"

section \<open>Resolution\<close>

record Resolved =
  rs_Config :: Config
  rs_ContextStorage :: string
  rs_ContextSync :: "ContextSync option"
  rs_EgressMediation :: "EgressMediation option"
  rs_ActingCoordinator :: string

definition deprecatedProfileRuntime :: "'w Reader \<Rightarrow> ConversationRecord \<Rightarrow> 'w \<Rightarrow> string" where
  "deprecatedProfileRuntime rd conv w =
     (if cr_ProfileRef conv = [] then []
      else (case rd_ProfileRuntime rd w (cr_ProfileRef conv) of
         Inr (Some (Some r)) \<Rightarrow> obj_Name r
       | _ \<Rightarrow> []))"

definition runtimeNameFor :: "'w Reader \<Rightarrow> ConversationRecord option \<Rightarrow> 'w \<Rightarrow> string \<times> bool" where
  "runtimeNameFor rd conv w =
     (case conv of
        None \<Rightarrow> (''default'', False)
      | Some conv \<Rightarrow>
          if cr_RuntimeRef conv \<noteq> [] then (cr_RuntimeRef conv, True)
          else if deprecatedProfileRuntime rd conv w \<noteq> [] then (deprecatedProfileRuntime rd conv w, True)
          else (''default'', False))"

definition apply_storage :: "string \<Rightarrow> string \<Rightarrow> Config \<Rightarrow> Config" where
  "apply_storage ctxClaim wsClaim cfg =
     (let cfg = (if ctxClaim \<noteq> [] then cfg\<lparr>df_ContextPVC := ctxClaim\<rparr> else cfg)
      in if wsClaim \<noteq> [] then cfg\<lparr>df_WorkspacePVC := wsClaim\<rparr> else cfg)"

definition with_account :: "string \<Rightarrow> Config \<Rightarrow> Config" where
  "with_account sa cfg = (if sa \<noteq> [] then cfg\<lparr>cf_ServiceAccount := sa\<rparr> else cfg)"

text \<open>\<open>getRuntime\<close> is the read of the named AgentRuntime, whose error may say it was not found.\<close>

definition ResolveFor :: "'w Reader \<Rightarrow> ('w \<Rightarrow> string \<Rightarrow> AgentRuntimeSpec result) \<Rightarrow> 'w Store \<Rightarrow> ConversationRecord option
    \<Rightarrow> Config \<Rightarrow> 'w \<Rightarrow> 'w \<times> Resolved result" where
  "ResolveFor rd getRuntime store conv fallback w =
     (let (name, explicit) = runtimeNameFor rd conv w;
          (sa, ctxClaim, wsClaim) = (case conv of None \<Rightarrow> ([], [], [])
             | Some c \<Rightarrow> (cr_ServiceAccountName c, cr_ContextClaimName c, cr_WorkspaceClaimName c));
          (w, acting) = (case conv of None \<Rightarrow> (w, []) | Some c \<Rightarrow> resolveActingCoordinatorBestEffort store c w)
      in case getRuntime w name of
           Inl e \<Rightarrow>
             if explicit then (w, Inl e)
             else (w, Inr \<lparr>rs_Config = with_account sa (apply_storage ctxClaim wsClaim fallback), rs_ContextStorage = [],
                     rs_ContextSync = None, rs_EgressMediation = None, rs_ActingCoordinator = acting\<rparr>)
         | Inr rt \<Rightarrow>
             (case ContextSync_Validate (rt_ContextSync rt) of
                Some e \<Rightarrow> (w, Inl (Wrapped (''runtime '' @ quoted name) e))
              | None \<Rightarrow> (w, Inr \<lparr>rs_Config = with_account sa (apply_storage ctxClaim wsClaim (FromRuntime (Some rt) fallback)),
                     rs_ContextStorage = rt_ContextStorage rt, rs_ContextSync = rt_ContextSync rt,
                     rs_EgressMediation = rt_EgressMediation rt, rs_ActingCoordinator = acting\<rparr>)))"

definition ContinuityPossible :: "Resolved \<Rightarrow> bool" where
  "ContinuityPossible r =
     (if rs_ContextStorage r = ContextNone then False
      else if rs_ContextStorage r = ContextExternal then True
      else df_ContextPVC (rs_Config r) \<noteq> [])"

end
