(* ===== verification/BackendLaws.thy ===== *)
theory BackendLaws
  imports Backend CloseLaws
begin

text \<open>
  What the resolution of a backend promises: that a context declaration stays at home, that the pod builder and the
  router agree on the Coordinator a conversation acts for, and the precedence of a conversation's own wiring.
\<close>

section \<open>Paths that stay at home\<close>

lemma split_byte_cut: "split_byte sep (a @ sep # b) = split_byte sep a @ split_byte sep b"
proof (induction a)
  case (Cons c a)
  then show ?case using split_byte_nonempty [of sep a] by (cases "split_byte sep a") auto
qed simp

lemma split_byte_one: "sep \<notin> set w \<Longrightarrow> split_byte sep w = [w]"
  by (induction w) auto

lemma split_byte_member:
  assumes "sep \<notin> set w"
  shows "w \<in> set (split_byte sep s) \<longleftrightarrow>
    s = w \<or> (\<exists>b. s = w @ sep # b) \<or> (\<exists>a. s = a @ sep # w) \<or> (\<exists>a b. s = a @ sep # w @ sep # b)"
    (is "?l \<longleftrightarrow> ?r")
proof
  show ?l if ?r
    using that by (auto simp: split_byte_cut split_byte_one [OF assms])
  have "?r" if "?l"
    using that
  proof (induction s rule: length_induct)
    case (1 s)
    show ?case
    proof (cases "sep \<in> set s")
      case False
      with 1(2) show ?thesis by (simp add: split_byte_one)
    next
      case True
      then obtain a b where s: "s = a @ sep # b" "sep \<notin> set a" by (meson split_list_first)
      with 1(2) have "w = a \<or> w \<in> set (split_byte sep b)" by (auto simp: split_byte_cut split_byte_one)
      then show ?thesis
      proof
        assume "w \<in> set (split_byte sep b)"
        with 1(1) s have "b = w \<or> (\<exists>d. b = w @ sep # d) \<or> (\<exists>c. b = c @ sep # w) \<or> (\<exists>c d. b = c @ sep # w @ sep # d)"
          by simp
        then show ?thesis unfolding s(1)
          by (metis append.assoc append_Cons)
      qed (use s in auto)
    qed
  qed
  then show "?l \<Longrightarrow> ?r" .
qed

lemma has_suffix_iff: "has_suffix s p \<longleftrightarrow> (\<exists>a. s = a @ p)"
proof -
  have "(\<exists>r. rev s = rev p @ r) \<longleftrightarrow> (\<exists>a. s = a @ p)"
    by (metis rev_append rev_rev_ident)
  then show ?thesis by (simp add: has_suffix_def has_prefix_iff)
qed

lemma contains_sub_iff: "contains_sub s p \<longleftrightarrow> (\<exists>a b. s = a @ p @ b)"
proof (induction s)
  case (Cons c s)
  have "(\<exists>a b. c # s = a @ p @ b) \<longleftrightarrow> (\<exists>b. c # s = p @ b) \<or> (\<exists>a b. s = a @ p @ b)"
    by (metis append_Cons append_Nil list.exhaust list.inject)
  with Cons show ?case by (simp add: has_prefix_iff)
qed simp

definition stays_home :: "string \<Rightarrow> bool" where
  "stays_home p \<longleftrightarrow> trim_space p \<noteq> [] \<and> hd p \<noteq> CHR ''/'' \<and> ''..'' \<notin> set (split_byte CHR ''/'' p)"

lemma validateContextPath_iff: "validateContextPath field p = None \<longleftrightarrow> stays_home p"
proof (cases "trim_space p = []")
  case False
  then have "p \<noteq> []" by (auto simp: trim_space_def)
  then have "has_prefix p ''/'' \<longleftrightarrow> hd p = CHR ''/''" by (cases p) auto
  moreover have "''..'' \<in> set (split_byte CHR ''/'' p) \<longleftrightarrow>
      p = ''..'' \<or> has_prefix p ''../'' \<or> contains_sub p ''/../'' \<or> has_suffix p ''/..''"
    by (subst split_byte_member) (auto simp: has_prefix_iff has_suffix_iff contains_sub_iff)
  ultimately show ?thesis using False by (auto simp: validateContextPath_def stays_home_def)
qed (simp add: validateContextPath_def stays_home_def)

lemma validate_paths_iff: "validate_paths field ps = None \<longleftrightarrow> list_all stays_home ps"
  by (induction ps) (auto simp: validateContextPath_iff [of field, symmetric] split: option.splits)

text \<open>
  A context declaration names only what is the agent's own: it is accepted exactly when it names a path, every
  path it includes or excludes is not blank, not absolute, and has no component between slashes that is the
  parent directory, and neither its interval nor its retention is negative.
\<close>

theorem context_paths_stay_home:
  "ContextSync_Validate (Some c) = None \<longleftrightarrow>
     sy_Paths c \<noteq> [] \<and> list_all stays_home (sy_Paths c @ sy_Exclude c)
     \<and> sy_Interval c \<notin> Some ` {..<0} \<and> 0 \<le> sy_Retain c"
  using validate_paths_iff [of "''paths''" "sy_Paths c"] validate_paths_iff [of "''exclude''" "sy_Exclude c"]
  by (auto simp: ContextSync_Validate_def split: option.splits if_splits)

section \<open>One answer to who a conversation acts for\<close>

lemma ancestry_walk_last:
  assumes "ancestry_walk s name n chain cur w = (w', Inr chain')" "chain \<noteq> []" "last chain = cur"
  shows "acting_walk s name n cur w = (w', Inr (cr_CoordinatorRef (last chain')))"
  using assms
proof (induction n arbitrary: chain cur w)
  case (Suc n)
  show ?case
  proof (cases "cr_CausedBy cur")
    case (Some p)
    obtain w1 x where g: "st_Get s w (pv_Parent p) = (w1, x)" by fastforce
    with Suc.prems(1) Some obtain parent rev where x: "x = Inr (parent, rev)" by (cases x) auto
    show ?thesis using Suc.IH [of "chain @ [parent]" parent w1] Suc.prems(1) Some g x by simp
  qed (use Suc.prems in auto)
qed simp

text \<open>
  The manager's two answers to which Coordinator a conversation acts for agree. Whenever the router resolves a
  scope, the walk of the pod builder over the same store finds the same Coordinator, so the token the pod
  gets is one for the scope the router checks.
\<close>

theorem acting_coordinators_agree:
  assumes "ResolveActingCoordinator r conv w = (w', Inr scope)"
  shows "snd (pod_ActingCoordinator (ro_Store r) conv w) = Inr (act_Name scope)
    \<and> snd (resolveActingCoordinatorBestEffort (ro_Store r) conv w) = act_Name scope"
proof -
  have "snd (pod_ActingCoordinator (ro_Store r) conv w) = Inr (act_Name scope)"
  proof (cases "cr_CausedBy conv")
    case None
    with assms have "act_Name scope = cr_CoordinatorRef conv"
      by (auto simp: ResolveActingCoordinator_def acts_for_none_def split: if_splits)
    with None show ?thesis by (simp add: pod_ActingCoordinator_def walk_limit_def numeral_eq_Suc)
  next
    case (Some p)
    with assms obtain chain where c: "ancestry_walk (ro_Store r) (cr_Name conv) walk_limit [conv] conv w = (w', Inr chain)"
      by (auto simp: ResolveActingCoordinator_def causedByAncestry_def Let_def split: prod.splits sum.splits)
    from ancestry_walk_last [OF c] have walk:
      "acting_walk (ro_Store r) (cr_Name conv) walk_limit conv w = (w', Inr (cr_CoordinatorRef (last chain)))" by simp
    from assms Some c have "act_Name scope
        = (if cr_CoordinatorRef conv \<noteq> [] then cr_CoordinatorRef conv else cr_CoordinatorRef (last chain))"
      by (auto simp: ResolveActingCoordinator_def causedByAncestry_def acts_for_none_def Let_def split: if_splits)
    with walk show ?thesis by (simp add: pod_ActingCoordinator_def)
  qed
  then show ?thesis
    by (auto simp: resolveActingCoordinatorBestEffort_def split: prod.splits sum.splits)
qed

definition led_family :: memStore where
  "led_family = mem_of [(tree_conv ''r'' None)\<lparr>cr_CoordinatorRef := ''ops''\<rparr>, tree_conv ''a'' (Some ''r'')]"

theorem acting_coordinators_agree_witness:
  "snd (resolveActingCoordinatorBestEffort mem_Store (tree_conv ''a'' (Some ''r'')) led_family) = ''ops''"
proof -
  have "\<exists>w'. ResolveActingCoordinator (router_over mem_Store) (tree_conv ''a'' (Some ''r'')) led_family
      = (w', Inr \<lparr>act_Name = ''ops'', act_RootName = ''r''\<rparr>)"
    by (simp add: ResolveActingCoordinator_def causedByAncestry_def walk_limit_def numeral_eq_Suc router_over_def
        mem_eval tree_eval led_family_def Let_def)
  then obtain w' where w: "ResolveActingCoordinator (router_over mem_Store) (tree_conv ''a'' (Some ''r'')) led_family
      = (w', Inr \<lparr>act_Name = ''ops'', act_RootName = ''r''\<rparr>)" ..
  from acting_coordinators_agree [OF w] show ?thesis by simp
qed

section \<open>What a resolution rests on\<close>

lemma FromRuntime_fields [simp]:
  "df_ContextPVC (FromRuntime rt cfg) = df_ContextPVC cfg" "df_WorkspacePVC (FromRuntime rt cfg) = df_WorkspacePVC cfg"
  "cf_Image (FromRuntime (Some r) cfg) = rt_Image r"
  "cf_ServiceAccount (FromRuntime (Some r) cfg)
    = (if rt_ServiceAccountName r \<noteq> [] then rt_ServiceAccountName r else cf_ServiceAccount cfg)"
  by (simp_all add: FromRuntime_def Let_def split: option.split)

lemma apply_storage_fields [simp]:
  "df_ContextPVC (apply_storage c v cfg) = (if c \<noteq> [] then c else df_ContextPVC cfg)"
  "df_WorkspacePVC (apply_storage c v cfg) = (if v \<noteq> [] then v else df_WorkspacePVC cfg)"
  "cf_Image (apply_storage c v cfg) = cf_Image cfg" "cf_ServiceAccount (apply_storage c v cfg) = cf_ServiceAccount cfg"
  by (simp_all add: apply_storage_def Let_def)

lemma with_account_fields [simp]:
  "df_ContextPVC (with_account sa cfg) = df_ContextPVC cfg" "df_WorkspacePVC (with_account sa cfg) = df_WorkspacePVC cfg"
  "cf_Image (with_account sa cfg) = cf_Image cfg"
  "cf_ServiceAccount (with_account sa cfg) = (if sa \<noteq> [] then sa else cf_ServiceAccount cfg)"
  by (simp_all add: with_account_def)

text \<open>
  What a conversation froze is what it runs on. When a backend is resolved, its claims are the conversation's own
  and otherwise the release's, whatever runtime answers; its account is the conversation's own, otherwise the
  runtime's, otherwise the release's; its image is the runtime's that answered, and only a runtime nobody named
  may be missing.
\<close>

theorem resolution_precedence:
  assumes "ResolveFor rd getRuntime store (Some conv) fallback w = (w', Inr res)"
  shows "df_ContextPVC (rs_Config res) = (if cr_ContextClaimName conv \<noteq> [] then cr_ContextClaimName conv else df_ContextPVC fallback)
    \<and> df_WorkspacePVC (rs_Config res)
        = (if cr_WorkspaceClaimName conv \<noteq> [] then cr_WorkspaceClaimName conv else df_WorkspacePVC fallback)
    \<and> (case runtimeNameFor rd (Some conv) w of (name, explicit) \<Rightarrow>
         (\<exists>w1 rt. getRuntime w1 name = Inr rt \<and> cf_Image (rs_Config res) = rt_Image rt
            \<and> cf_ServiceAccount (rs_Config res)
                = (if cr_ServiceAccountName conv \<noteq> [] then cr_ServiceAccountName conv
                   else if rt_ServiceAccountName rt \<noteq> [] then rt_ServiceAccountName rt else cf_ServiceAccount fallback))
       \<or> \<not> explicit \<and> cf_Image (rs_Config res) = cf_Image fallback
            \<and> cf_ServiceAccount (rs_Config res)
                = (if cr_ServiceAccountName conv \<noteq> [] then cr_ServiceAccountName conv else cf_ServiceAccount fallback))"
proof -
  obtain name explicit where n: "runtimeNameFor rd (Some conv) w = (name, explicit)" by fastforce
  obtain w1 acting where a: "resolveActingCoordinatorBestEffort store conv w = (w1, acting)" by fastforce
  show ?thesis
  proof (cases "getRuntime w1 name")
    case (Inl e)
    with assms n a have "\<not> explicit" "rs_Config res
        = with_account (cr_ServiceAccountName conv) (apply_storage (cr_ContextClaimName conv) (cr_WorkspaceClaimName conv) fallback)"
      by (auto simp: ResolveFor_def split: if_splits)
    with n show ?thesis by simp
  next
    case (Inr rt)
    with assms n a have c: "rs_Config res = with_account (cr_ServiceAccountName conv)
        (apply_storage (cr_ContextClaimName conv) (cr_WorkspaceClaimName conv) (FromRuntime (Some rt) fallback))"
      by (auto simp: ResolveFor_def split: option.splits)
    show ?thesis unfolding n prod.case
      by (intro conjI disjI1 exI [of _ w1] exI [of _ rt]) (simp_all add: c Inr)
  qed
qed

definition bare_config :: Config where
  "bare_config = \<lparr>df_ContextPVC = ''release'', df_WorkspacePVC = [], cf_Image = ''boot'', cf_ServiceAccount = ''runner'',
     cf_ControlURL = ''http://manager'', cf_IdleTTLMinutes = 10, cf_NodeSelector = [], cf_Command = [], cf_Args = [],
     cf_Env = [], cf_DefaultResources = None, cf_ContextSyncImage = [], cf_EgressProxyImage = [],
     cf_EgressInitImage = [], cf_ContextLiveSizeLimit = []\<rparr>"

definition no_runtime :: "'w \<Rightarrow> string \<Rightarrow> AgentRuntimeSpec result" where
  "no_runtime w n = Inl (ErrOther ''not found'')"

definition claimed :: ConversationRecord where
  "claimed = (tree_conv ''r'' None)\<lparr>cr_ContextClaimName := ''own''\<rparr>"

theorem resolution_precedence_witness:
  "\<exists>w' res. ResolveFor no_api no_runtime mem_Store (Some claimed) bare_config family = (w', Inr res)
     \<and> df_ContextPVC (rs_Config res) = ''own'' \<and> cf_Image (rs_Config res) = ''boot''"
proof -
  have "\<exists>w' res. ResolveFor no_api no_runtime mem_Store (Some claimed) bare_config family = (w', Inr res)"
    by (simp add: ResolveFor_def runtimeNameFor_def deprecatedProfileRuntime_def no_runtime_def claimed_def tree_conv_def
        zero_record_def split: prod.split)
  then obtain w' res where r: "ResolveFor no_api no_runtime mem_Store (Some claimed) bare_config family = (w', Inr res)"
    by blast
  have "cr_ContextClaimName claimed = ''own''" "cr_ServiceAccountName claimed = []"
    "runtimeNameFor no_api (Some claimed) family = (''default'', False)" "cf_Image bare_config = ''boot''"
    by (simp_all add: claimed_def tree_conv_def zero_record_def runtimeNameFor_def deprecatedProfileRuntime_def bare_config_def)
  with resolution_precedence [OF r] r show ?thesis by (auto simp: no_runtime_def)
qed

end
