(* ===== verification/WorkLoop.thy ===== *)
theory WorkLoop
  imports Backend Breaker
begin

text \<open>
  The work protocol between the manager and a runtime: \<open>GET /work\<close>, which dispatches the next unit of a conversation,
  and \<open>POST /work/done\<close>, which completes a run (\<open>internal/httpapi/server.go\<close>, \<open>workreport.go\<close>, \<open>moveperturn.go\<close>).

  The state is that of the router, the world and the queue of channel operations with the activity log, and the
  storage breaker. A request is already decoded. The order in which the source ranges over a literal map, which
  only chooses the field a refusal names, is that of the literal. The depth argument is that of the closing
  cascade.
\<close>

section \<open>The server\<close>

record 'w Server =
  sv_Store :: "'w Store"
  sv_Client :: "'w Reader"
  sv_Reader :: "'w Reader"
  sv_Channel :: "'w \<Rightarrow> string \<Rightarrow> Channel option"
  sv_Profile :: "'w \<Rightarrow> string \<Rightarrow> AgentProfile result"
  sv_Toolset :: "'w \<Rightarrow> string \<Rightarrow> string list result"
  sv_AgentRuntime :: "'w \<Rightarrow> string \<Rightarrow> AgentRuntimeSpec result"
  sv_Templates :: Templates
  sv_Runtime :: Config
  sv_Router :: "'w Router option"
  sv_Now :: "'w \<Rightarrow> nat \<Rightarrow> go_time"

type_synonym 'w serving = "'w chat \<times> Breaker"

section \<open>The report of a run\<close>

definition MaxReportedTurns :: nat where "MaxReportedTurns = 200"
definition MaxReportedToolCalls :: nat where "MaxReportedToolCalls = 200"
definition MaxReportedField :: nat where "MaxReportedField = MaxDataValue"

record Turn =
  tn_Model :: string
  tn_TokensIn :: "int option"
  tn_TokensOut :: "int option"
  tn_CacheReadTokens :: "int option"
  tn_CacheCreationTokens :: "int option"
  tn_StopReason :: string

record ToolCall =
  tc_Tool :: string
  tc_Server :: string
  tc_DurationMs :: "int option"
  tc_ResultBytes :: "int option"

record workDone =
  wd_Convo :: string
  wd_RunID :: string
  wd_Status :: string
  wd_ExitCode :: "int option"
  wd_RuntimeContextID :: string
  wd_SessionID :: string
  wd_Continuity :: string
  wd_ContinuityReason :: string
  wd_Result :: string
  wd_Brief :: string
  wd_Turns :: "Turn list"
  wd_ToolCalls :: "ToolCall list"

abbreviation ContinuityContinued :: string where "ContinuityContinued \<equiv> ''continued''"
abbreviation ContinuityNew :: string where "ContinuityNew \<equiv> ''new''"
abbreviation ContinuityUnavailable :: string where "ContinuityUnavailable \<equiv> ''unavailable''"

fun fieldsWithin :: "string \<Rightarrow> (string \<times> string) list \<Rightarrow> err option" where
  "fieldsWithin at [] = None"
| "fieldsWithin at ((name, v) # fs) =
     (if length v > MaxReportedField
      then Some (ErrOther (at @ ''.'' @ name @ '': '' @ itoa (int (length v)) @ '' bytes, at most ''
             @ itoa (int MaxReportedField) @ '' allowed''))
      else fieldsWithin at fs)"

fun nonNegative :: "string \<Rightarrow> (string \<times> int option) list \<Rightarrow> err option" where
  "nonNegative at [] = None"
| "nonNegative at ((name, v) # fs) =
     (if (case v of None \<Rightarrow> False | Some i \<Rightarrow> i < 0)
      then Some (ErrOther (at @ ''.'' @ name @ '': must not be negative''))
      else nonNegative at fs)"

definition turn_counts :: "Turn \<Rightarrow> (string \<times> int option) list" where
  "turn_counts t = [(''tokensIn'', tn_TokensIn t), (''tokensOut'', tn_TokensOut t),
     (''cacheReadTokens'', tn_CacheReadTokens t), (''cacheCreationTokens'', tn_CacheCreationTokens t)]"

fun validate_turns :: "nat \<Rightarrow> Turn list \<Rightarrow> err option" where
  "validate_turns i [] = None"
| "validate_turns i (t # ts) =
     (let at = ''turns['' @ itoa (int i) @ '']'' in
      case fieldsWithin at [(''model'', tn_Model t), (''stopReason'', tn_StopReason t)] of
        Some e \<Rightarrow> Some e
      | None \<Rightarrow> (case nonNegative at (turn_counts t) of Some e \<Rightarrow> Some e | None \<Rightarrow> validate_turns (Suc i) ts))"

fun validate_calls :: "nat \<Rightarrow> ToolCall list \<Rightarrow> err option" where
  "validate_calls i [] = None"
| "validate_calls i (c # cs) =
     (let at = ''toolCalls['' @ itoa (int i) @ '']'' in
      case fieldsWithin at [(''tool'', tc_Tool c), (''server'', tc_Server c)] of
        Some e \<Rightarrow> Some e
      | None \<Rightarrow> (case nonNegative at [(''durationMs'', tc_DurationMs c), (''resultBytes'', tc_ResultBytes c)] of
          Some e \<Rightarrow> Some e | None \<Rightarrow> validate_calls (Suc i) cs))"

definition validateReport :: "workDone \<Rightarrow> err option" where
  "validateReport d =
     (if length (wd_Turns d) > MaxReportedTurns
      then Some (ErrOther (''turns: '' @ itoa (int (length (wd_Turns d))) @ '' reported, at most ''
             @ itoa (int MaxReportedTurns) @ '' allowed''))
      else if length (wd_ToolCalls d) > MaxReportedToolCalls
      then Some (ErrOther (''toolCalls: '' @ itoa (int (length (wd_ToolCalls d))) @ '' reported, at most ''
             @ itoa (int MaxReportedToolCalls) @ '' allowed''))
      else (case validate_turns 0 (wd_Turns d) of Some e \<Rightarrow> Some e | None \<Rightarrow> validate_calls 0 (wd_ToolCalls d)))"

section \<open>Attribution\<close>

definition pipelineName :: "'w Server \<Rightarrow> ConversationRecord \<Rightarrow> 'w \<Rightarrow> string" where
  "pipelineName s conv w =
     (case PipelineForConversation (sv_Client s) w (Some conv) of None \<Rightarrow> [] | Some p \<Rightarrow> pl_Name p)"

definition originNode :: "string \<Rightarrow> string \<Rightarrow> NodeRef option" where
  "originNode pipeline conversation =
     (if pipeline \<noteq> [] then Node ''pipeline'' pipeline else Node ''conversation'' conversation)"

definition runtimeName :: "'w Server \<Rightarrow> ConversationRecord \<Rightarrow> 'w \<Rightarrow> string" where
  "runtimeName s conv w =
     (if cr_RuntimeRef conv \<noteq> [] then cr_RuntimeRef conv
      else if cr_ProfileRef conv = [] then ''default''
      else (case rd_ProfileRuntime (sv_Client s) w (cr_ProfileRef conv) of
         Inr (Some (Some r)) \<Rightarrow> if obj_Name r \<noteq> [] then obj_Name r else ''default''
       | _ \<Rightarrow> ''default''))"

definition resolve_backend :: "'w Server \<Rightarrow> ConversationRecord \<Rightarrow> 'w \<Rightarrow> 'w \<times> Resolved result" where
  "resolve_backend s conv = ResolveFor (sv_Reader s) (sv_AgentRuntime s) (sv_Store s) (Some conv) (sv_Runtime s)"

definition runtimeImageNode :: "'w Server \<Rightarrow> ConversationRecord \<Rightarrow> 'w \<Rightarrow> 'w \<times> NodeRef option" where
  "runtimeImageNode s conv w =
     (case resolve_backend s conv w of
        (w, Inl e) \<Rightarrow> (w, Node ''runtime'' (runtimeName s conv w))
      | (w, Inr res) \<Rightarrow> (w, if cf_Image (rs_Config res) \<noteq> [] then Node ''runtime-image'' (cf_Image (rs_Config res))
                          else Node ''runtime'' (runtimeName s conv w)))"

definition withCounts :: "(string \<times> string) list \<Rightarrow> (string \<times> int option) list \<Rightarrow> (string \<times> string) list" where
  "withCounts strs counts =
     filter (\<lambda>(k, v). v \<noteq> []) strs @ List.map_filter (\<lambda>(k, v). map_option (\<lambda>i. (k, itoa i)) v) counts"

definition turn_event :: "NodeRef option \<Rightarrow> string \<Rightarrow> string \<Rightarrow> string \<Rightarrow> Turn \<Rightarrow> Event" where
  "turn_event from pipeline conv runID t =
     zero_event\<lparr>ev_Kind := ''model.call'', ev_From := from, ev_Pipeline := pipeline, ev_Conversation := conv, ev_RunID := runID,
       ev_Detail := tn_Model t,
       ev_Data := withCounts [(''model'', tn_Model t), (''stopReason'', tn_StopReason t)] (turn_counts t),
       ev_To := (if tn_Model t \<noteq> [] then Node ''model'' (tn_Model t) else None)\<rparr>"

definition call_event :: "NodeRef option \<Rightarrow> string \<Rightarrow> string \<Rightarrow> string \<Rightarrow> ToolCall \<Rightarrow> Event" where
  "call_event from pipeline conv runID c =
     zero_event\<lparr>ev_Kind := ''tool.call'', ev_From := from, ev_Pipeline := pipeline, ev_Conversation := conv, ev_RunID := runID,
       ev_Detail := tc_Tool c,
       ev_Data := withCounts [(''tool'', tc_Tool c), (''server'', tc_Server c)] [(''resultBytes'', tc_ResultBytes c)],
       ev_To := (if tc_Server c \<noteq> [] then Node ''mcp-server'' (tc_Server c) else None),
       ev_LatencyMs := (case tc_DurationMs c of None \<Rightarrow> 0 | Some ms \<Rightarrow> ms)\<rparr>"

definition emitRunCalls :: "'w Server \<Rightarrow> ConversationRecord \<Rightarrow> string \<Rightarrow> workDone \<Rightarrow> 'w chat \<Rightarrow> 'w chat" where
  "emitRunCalls s conv pipeline d st =
     (case st of (w, q) \<Rightarrow>
        if wd_Turns d = [] \<and> wd_ToolCalls d = [] then (w, q)
        else (case runtimeImageNode s conv w of
          (w, from) \<Rightarrow> (w, fold (q_emit (sv_Now s w 0))
             (map (turn_event from pipeline (cr_Name conv) (wd_RunID d)) (wd_Turns d)
              @ map (call_event from pipeline (cr_Name conv) (wd_RunID d)) (wd_ToolCalls d)) q)))"

section \<open>Dispatch\<close>

definition resolvePayload :: "'w Server \<Rightarrow> 'w resolver" where
  "resolvePayload s w item =
     (if in_PayloadRef item = [] then (w, Inr (in_Payload item))
      else (case st_GetBlob (sv_Store s) w (in_PayloadRef item) of
         (w, Inl e) \<Rightarrow> (w, Inl e)
       | (w, Inr b) \<Rightarrow> (w, Inr (bl_Payload b))))"

abbreviation ConditionToolingResolved :: string where "ConditionToolingResolved \<equiv> ''ToolingResolved''"
abbreviation ConditionContextContinuity :: string where "ConditionContextContinuity \<equiv> ''ContextContinuity''"

definition cond :: "string \<Rightarrow> string \<Rightarrow> string \<Rightarrow> string \<Rightarrow> Condition" where
  "cond t status reason message = \<lparr>co_Type = t, co_Status = status, co_Reason = reason, co_Message = message,
     co_ObservedGeneration = 0, co_LastTransitionTime = 0\<rparr>"

fun err_text :: "err \<Rightarrow> string" where
  "err_text ErrNotFound = ''state: record not found''"
| "err_text ErrConflict = ''state: conflicting write''"
| "err_text ErrAlreadyExists = ''state: record already exists''"
| "err_text ErrDeleting = ''state: record is being deleted''"
| "err_text ErrUnknownIndex = ''state: unknown index''"
| "err_text (ErrOther m) = m"
| "err_text (Wrapped m e) = m @ '': '' @ err_text e"

definition setToolingCondition :: "'w Server \<Rightarrow> ConversationRecord \<Rightarrow> string \<Rightarrow> string \<Rightarrow> 'w \<Rightarrow> 'w \<times> ConversationRecord" where
  "setToolingCondition s conv reason message w =
     (case Patch (sv_Store s) conv (\<lambda>r. fst (SetCondition (sv_Now s w 0)
             (cond ConditionToolingResolved ''False'' reason message) r)) w of
        (w, conv, e) \<Rightarrow> (w, conv))"

text \<open>The loop over the refs; an unresolved one is recorded on the conversation and fails the dispatch.\<close>

fun toolsets_of :: "'w Server \<Rightarrow> ConversationRecord \<Rightarrow> ref list \<Rightarrow> 'w \<Rightarrow> 'w \<times> ConversationRecord \<times> string list list result" where
  "toolsets_of s conv [] w = (w, conv, Inr [])"
| "toolsets_of s conv (ref # refs) w =
     (case sv_Toolset s w ref of
        Inl e \<Rightarrow>
          (let e = Wrapped (''bound MCPToolset '' @ quoted ref) e in
           case setToolingCondition s conv ''ToolsetUnresolved'' (err_text e) w of (w, conv) \<Rightarrow> (w, conv, Inl e))
      | Inr tools \<Rightarrow> (case toolsets_of s conv refs w of
           (w, conv, Inl e) \<Rightarrow> (w, conv, Inl e)
         | (w, conv, Inr byRef) \<Rightarrow> (w, conv, Inr (tools # byRef))))"

definition resolveToolsets :: "'w Server \<Rightarrow> ConversationRecord \<Rightarrow> ToolsetBinding option \<Rightarrow> 'w
    \<Rightarrow> 'w \<times> ConversationRecord \<times> string list list result" where
  "resolveToolsets s conv binding w =
     (case binding of None \<Rightarrow> (w, conv, Inr []) | Some b \<Rightarrow> toolsets_of s conv (ts_Refs b) w)"

definition effectiveTooling :: "'w Server \<Rightarrow> ConversationRecord \<Rightarrow> 'w \<Rightarrow> 'w \<times> ConversationRecord \<times> Tooling result" where
  "effectiveTooling s conv w =
     (case resolveToolsets s conv (cr_Toolsets conv) w of
        (w, conv, Inl e) \<Rightarrow> (w, conv, Inl e)
      | (w, conv, Inr byRef) \<Rightarrow> (w, conv, Inr \<lparr>tg_AllowedTools = EffectiveAllowedTools byRef,
                                        tg_Mode = ToolsModeOfRecord (cr_Toolsets conv)\<rparr>))"

definition chat_bound :: "'w Server \<Rightarrow> ConversationRecord \<Rightarrow> 'w \<Rightarrow> bool" where
  "chat_bound s conv w \<longleftrightarrow> list_ex (\<lambda>ref. case sv_Channel s w ref of
     None \<Rightarrow> False | Some ch \<Rightarrow> chn_Adapter ch \<noteq> []) (cr_ChannelRefs conv)"

definition dispatched :: "go_time \<Rightarrow> string \<Rightarrow> WorkUnit \<Rightarrow> string list \<Rightarrow> ConversationRecord \<Rightarrow> ConversationRecord" where
  "dispatched now podName u ids conv =
     (let conv = conv\<lparr>cr_Inflight := Some \<lparr>if_RunID = wu_RunID u, if_InputIDs = ids, if_DispatchedAt = now, if_Moved = False\<rparr>,
            cr_Phase := PhaseWorking, cr_LastActivity := Some now\<rparr>
      in if podName \<noteq> [] then conv\<lparr>cr_RuntimePod := podName\<rparr> else conv)"

text \<open>The unit handed out, or none this time.\<close>

definition dispatch_unit :: "'w Server \<Rightarrow> string \<Rightarrow> revision \<Rightarrow> ConversationRecord \<Rightarrow> AgentProfile \<Rightarrow> Tooling \<Rightarrow> string \<Rightarrow> 'w chat
    \<Rightarrow> 'w chat \<times> WorkUnit option result" where
  "dispatch_unit s podName rv conv profile tools contextID st =
     (case st of (w, q) \<Rightarrow>
        (case Next (sv_Templates s) conv profile tools (resolvePayload s) (sv_Now s w 0) contextID w of
           (w, Inl e) \<Rightarrow> ((w, q), Inl e)
         | (w, Inr None) \<Rightarrow> ((w, q), Inr None)
         | (w, Inr (Some (u, ids))) \<Rightarrow>
             (let conv = dispatched (sv_Now s w 1) podName u ids conv in
              case st_Update (sv_Store s) w (cr_Name conv) rv conv of
                (w, Inl e) \<Rightarrow> ((w, q), if errors_Is e ErrConflict then Inr None else Inl e)
              | (w, Inr _) \<Rightarrow>
                  (let pipeline = pipelineName s conv w in
                   ((w, q_emit (sv_Now s w 2) (zero_event\<lparr>ev_Kind := ''run.dispatched'',
                        ev_From := originNode pipeline (cr_Name conv), ev_To := Node ''runtime'' (runtimeName s conv w),
                        ev_Pipeline := pipeline, ev_Conversation := cr_Name conv, ev_RunID := wu_RunID u,
                        ev_Detail := itoa (int (length ids)) @ '' input(s) to '' @ ap_Name profile\<rparr>) q), Inr (Some u))))))"

definition tryDispatch :: "'w Server \<Rightarrow> string \<Rightarrow> string \<Rightarrow> 'w serving \<Rightarrow> 'w serving \<times> WorkUnit option result" where
  "tryDispatch s convoName podName st =
     (case st of ((w, q), b) \<Rightarrow>
       (case st_Get (sv_Store s) w convoName of
          (w, Inl e) \<Rightarrow> (((w, q), b), Inl e)
        | (w, Inr (conv, rv)) \<Rightarrow>
            if cr_ChannelRefs conv \<noteq> [] \<and> chat_bound s conv w \<and> cr_Threads conv = [] then (((w, q), b), Inr None)
            else (case sv_Profile s w (cr_ProfileRef conv) of
               Inl e \<Rightarrow> (((w, q), b), Inl e)
             | Inr profile \<Rightarrow> (case effectiveTooling s conv w of
                  (w, conv, Inl e) \<Rightarrow> (((w, q), b), Inl e)
                | (w, conv, Inr tools) \<Rightarrow> (case resolve_backend s conv w of
                     (w, Inl e) \<Rightarrow> (((w, q), b), Inl e)
                   | (w, Inr res) \<Rightarrow>
                       (let contextID = (if ContinuityPossible res then ContextID conv else []) in
                        if contextID \<noteq> [] \<and> fst (Breaker_Open b) then (((w, q), b), Inr None)
                        else (case dispatch_unit s podName rv conv profile tools contextID (w, q) of
                          (st, x) \<Rightarrow> ((st, b), x))))))))"

text \<open>
  The long poll: \<open>sleep\<close> is the two seconds in which the rest of the world goes on, or the client gone (None); the
  first argument bounds the rounds.
\<close>

datatype work_answer = Served WorkUnit | NoContent | Refused int err | ClientGone

fun poll_work :: "nat \<Rightarrow> 'w Server \<Rightarrow> ('w serving \<Rightarrow> 'w serving option) \<Rightarrow> string \<Rightarrow> string \<Rightarrow> go_time \<Rightarrow> 'w serving
    \<Rightarrow> ('w serving \<times> work_answer) option" where
  "poll_work 0 s sleep convo pod deadline st = None"
| "poll_work (Suc n) s sleep convo pod deadline st =
     (case tryDispatch s convo pod st of
        (st, Inl e) \<Rightarrow> Some (st, Refused 500 e)
      | (st, Inr (Some u)) \<Rightarrow> Some (st, Served u)
      | (st, Inr None) \<Rightarrow>
          if sv_Now s (fst (fst st)) 0 > deadline then Some (st, NoContent)
          else (case sleep st of None \<Rightarrow> Some (st, ClientGone) | Some st \<Rightarrow> poll_work n s sleep convo pod deadline st))"

definition handleWork :: "nat \<Rightarrow> 'w Server \<Rightarrow> ('w serving \<Rightarrow> 'w serving option) \<Rightarrow> string \<Rightarrow> string \<Rightarrow> int \<Rightarrow> 'w serving
    \<Rightarrow> ('w serving \<times> work_answer) option" where
  "handleWork n s sleep convo pod wait st =
     (if convo = [] then Some (st, Refused 400 (ErrOther ''missing convo''))
      else poll_work n s sleep convo pod (sv_Now s (fst (fst st)) 0 + (if wait > 30 then 30 else wait) * second) st)"

section \<open>The move of a root turn\<close>

record turnEvidence =
  te_Dispatched :: bool
  te_Moved :: bool

datatype rootTurnVerdict = turnEnded | turnFirstMiss | turnSecondMiss

definition maxRosterNames :: nat where "maxRosterNames = 12"
definition maxDigestResultRunes :: nat where "maxDigestResultRunes = 500"

definition answeredAPerson :: "RecordedInput list \<Rightarrow> bool" where
  "answeredAPerson recs \<longleftrightarrow> list_ex (\<lambda>i. ri_Origin i = OriginChannel \<or> ri_Surface i \<noteq> []) recs"

definition consumedOnlyTheCorrectiveInput :: "RecordedInput list \<Rightarrow> bool" where
  "consumedOnlyTheCorrectiveInput recs \<longleftrightarrow> length recs = 1 \<and> ri_Origin (hd recs) = OriginManager"

definition judgeRootTurn :: "ConversationRecord \<Rightarrow> string \<Rightarrow> turnEvidence \<Rightarrow> RecordedInput list \<Rightarrow> rootTurnVerdict" where
  "judgeRootTurn conv status ev recs =
     (if cr_CoordinatorRef conv = [] \<or> \<not> te_Dispatched ev \<or> te_Moved ev \<or> status \<noteq> ''succeeded''
           \<or> cr_Phase conv = PhaseClosed \<or> answeredAPerson recs
      then turnEnded
      else if cr_EscalatedAt conv \<noteq> None then turnEnded
      else if consumedOnlyTheCorrectiveInput recs then turnSecondMiss
      else turnFirstMiss)"

definition coordinatorRoster :: "'w Server \<Rightarrow> ConversationRecord \<Rightarrow> 'w \<Rightarrow> string list" where
  "coordinatorRoster s conv w =
     (if cr_CoordinatorRef conv = [] then []
      else (case rd_GetCoordinator (sv_Reader s) w (cr_CoordinatorRef conv) of
         Inr (Some co) \<Rightarrow> map cae_Name (take maxRosterNames (cor_Agents co))
       | _ \<Rightarrow> []))"

definition rosterPhrase :: "string list \<Rightarrow> string" where
  "rosterPhrase roster = (if roster = [] then ''the roster'' else join '', '' roster)"

definition correctiveInputText :: "string list \<Rightarrow> string" where
  "correctiveInputText roster =
     ''Your last turn ended without a move. Every turn ends in invoke, escalate, close, ''
     @ ''or an answer to the person who asked. Nobody asked this time. Read the roster and decide: ''
     @ ''invoke one of '' @ rosterPhrase roster @ '', escalate to a person, or close with a reason.''"

definition truncateRunes :: "string \<Rightarrow> nat \<Rightarrow> string" where
  "truncateRunes t n = (if length (runes t) \<le> n then t else runes_string (take n (runes t)) @ runes_string [8230])"

definition secondMissDigest :: "string list \<Rightarrow> string \<Rightarrow> string" where
  "secondMissDigest roster res =
     (let digest = ''The coordinating agent ended two turns in a row without invoking, escalating or closing (''
            @ MoveRuleName @ ''). Roster: '' @ rosterPhrase roster @ ''.'';
          lst = trim_space res
      in if lst \<noteq> [] then digest @ '' Its last result: '' @ truncateRunes lst maxDigestResultRunes else digest)"

definition appendCorrectiveInput :: "'w Server \<Rightarrow> 'w Router \<Rightarrow> ConversationRecord \<Rightarrow> string \<Rightarrow> 'w chat \<Rightarrow> 'w chat \<times> bool" where
  "appendCorrectiveInput s r conv runID st =
     (case AppendManagerInput r (cr_Name conv) (MoveInputID (cr_Name conv) runID)
             (correctiveInputText (coordinatorRoster s conv (fst st))) st of
        (st, Some e) \<Rightarrow> (st, False)
      | (st, None) \<Rightarrow> (st, True))"

definition escalateSecondMiss :: "nat \<Rightarrow> 'w Server \<Rightarrow> 'w Router \<Rightarrow> ConversationRecord \<Rightarrow> string \<Rightarrow> 'w chat \<Rightarrow> 'w chat option" where
  "escalateSecondMiss n s r conv res st =
     (if cr_EscalatedAt conv \<noteq> None then Some st
      else map_option fst (Escalate n r conv (secondMissDigest (coordinatorRoster s conv (fst st)) res) st))"

definition actOnMiss :: "nat \<Rightarrow> 'w Server \<Rightarrow> 'w Router \<Rightarrow> ConversationRecord \<Rightarrow> string \<Rightarrow> string \<Rightarrow> rootTurnVerdict \<Rightarrow> 'w chat
    \<Rightarrow> ('w chat \<times> bool) option" where
  "actOnMiss n s r conv runID res verdict st =
     (case verdict of
        turnFirstMiss \<Rightarrow> Some (appendCorrectiveInput s r conv runID st)
      | turnSecondMiss \<Rightarrow> map_option (\<lambda>st. (st, False)) (escalateSecondMiss n s r conv res st)
      | turnEnded \<Rightarrow> Some (st, False))"

section \<open>Completing a run\<close>

definition maxRecordedResult :: nat where "maxRecordedResult = 2000"
definition MaxBrief :: nat where "MaxBrief = 512"
definition max_processed_ids :: nat where "max_processed_ids = 50"

definition turnsReachMax :: "ConversationRecord \<Rightarrow> bool" where
  "turnsReachMax c = (case cr_Budget c of None \<Rightarrow> False | Some b \<Rightarrow> bd_MaxTurns b > 0 \<and> bd_Turns b + 1 \<ge> bd_MaxTurns b)"

definition milliseconds :: "duration \<Rightarrow> int" where
  "milliseconds d = (if d < 0 then - (- d div 1000000) else d div 1000000)"

fun record_items :: "'w Server \<Rightarrow> string list \<Rightarrow> InputItem list \<Rightarrow> 'w \<Rightarrow> 'w \<times> RecordedInput list" where
  "record_items s ids [] w = (w, [])"
| "record_items s ids (i # is) w =
     (if in_ID i \<notin> set ids then record_items s ids is w
      else if in_PayloadRef i = []
      then (case record_items s ids is w of (w, rs) \<Rightarrow> (w, Record i (in_Payload i) Map.empty # rs))
      else (case st_GetBlob (sv_Store s) w (in_PayloadRef i) of
         (w, x) \<Rightarrow> (case record_items s ids is w of (w, rs) \<Rightarrow>
            (w, (case x of Inl e \<Rightarrow> Record i (in_Payload i) Map.empty
                 | Inr b \<Rightarrow> Record i (bl_Payload b) (bl_Labels b)) # rs))))"

definition recordInputs :: "'w Server \<Rightarrow> ConversationRecord \<Rightarrow> string list \<Rightarrow> 'w \<Rightarrow> 'w \<times> RecordedInput list" where
  "recordInputs s conv ids w = (if ids = [] then (w, []) else record_items s ids (cr_Inputs conv) w)"

definition recordRun :: "'w Server \<Rightarrow> key \<Rightarrow> Run \<Rightarrow> 'w \<Rightarrow> 'w \<times> err option" where
  "recordRun s k run w =
     (case st_ListRuns (sv_Store s) w k of
        (w, Inl e) \<Rightarrow> (w, Some e)
      | (w, Inr runs) \<Rightarrow>
          if list_ex (\<lambda>u. run_RunID u = run_RunID run) runs then (w, None)
          else (case st_AppendRun (sv_Store s) w k run of
             (w, Inl e) \<Rightarrow> (w, Some e)
           | (w, Inr _) \<Rightarrow> (w, None)))"

definition continuity_condition :: "workDone \<Rightarrow> bool \<Rightarrow> Condition option" where
  "continuity_condition d hold =
     (if wd_Continuity d = ContinuityUnavailable
      then (let reason = (if wd_ContinuityReason d = [] then ''the runtime could not reach the context it was given''
                          else wd_ContinuityReason d)
            in Some (if hold
              then cond ConditionContextContinuity ''False'' ''ContextStoreUnavailable''
                (''held: contexts are unreachable across this install, so this ''
                 @ ''message waits rather than being answered without its history '' @ runes_string [8212] @ '' '' @ reason)
              else cond ConditionContextContinuity ''False'' ''ContextUnavailable'' reason))
      else if wd_Continuity d = ContinuityContinued
      then Some (cond ConditionContextContinuity ''True'' ''Continued'' ''the run continued this conversation's context'')
      else None)"

definition applyReport :: "go_time \<Rightarrow> workDone \<Rightarrow> string \<Rightarrow> bool \<Rightarrow> ConversationRecord \<Rightarrow> ConversationRecord" where
  "applyReport now d reported hold c =
     (let c = (if reported \<noteq> [] then SetContextID reported c else c);
          c = (if wd_Brief d \<noteq> [] then c\<lparr>cr_Brief := take MaxBrief (wd_Brief d)\<rparr> else c)
      in case continuity_condition d hold of None \<Rightarrow> c | Some k \<Rightarrow> fst (SetCondition now k c))"

text \<open>The first write of a completion: the record it leaves, and the two variables it decides for the caller.\<close>

definition is_inflight :: "string \<Rightarrow> ConversationRecord \<Rightarrow> bool" where
  "is_inflight runID c = (case cr_Inflight c of None \<Rightarrow> False | Some f \<Rightarrow> if_RunID f = runID)"

definition reported_on :: "go_time \<Rightarrow> workDone \<Rightarrow> string \<Rightarrow> bool \<Rightarrow> ConversationRecord \<Rightarrow> ConversationRecord" where
  "reported_on stamp d reported hold c =
     (let mine = is_inflight (wd_RunID d) c;
          c = (if mine \<and> \<not> hold
               then c\<lparr>cr_ProcessedInputIDs := last_n max_processed_ids (cr_ProcessedInputIDs c @ if_InputIDs (the (cr_Inflight c)))\<rparr>
               else c);
          c = (if mine then c\<lparr>cr_Inflight := None\<rparr> else c)
      in applyReport stamp d reported hold c)"

definition completed :: "go_time \<Rightarrow> go_time \<Rightarrow> workDone \<Rightarrow> string \<Rightarrow> bool \<Rightarrow> ConversationRecord \<Rightarrow> ConversationRecord" where
  "completed now stamp d reported hold c =
     (let c = reported_on stamp d reported hold c
      in c\<lparr>cr_Budget := map_option (\<lambda>b. b\<lparr>bd_Turns := bd_Turns b + 1\<rparr>) (cr_Budget c), cr_LastActivity := Some now\<rparr>)"

definition decided :: "go_time \<Rightarrow> go_time \<Rightarrow> workDone \<Rightarrow> string \<Rightarrow> bool \<Rightarrow> bool \<Rightarrow> ConversationRecord \<Rightarrow> bool \<times> string" where
  "decided now stamp d reported hold missed c =
     (let c = completed now stamp d reported hold c in
      ((case cr_Budget c of None \<Rightarrow> False | Some b \<Rightarrow> bd_MaxTurns b > 0 \<and> bd_Turns b \<ge> bd_MaxTurns b),
       if missed \<or> PendingInputs c \<noteq> [] then PhaseQueued else PhaseIdle))"

definition complete_closure :: "go_time \<Rightarrow> go_time \<Rightarrow> workDone \<Rightarrow> string \<Rightarrow> bool \<Rightarrow> bool \<Rightarrow> (bool \<times> string) closure" where
  "complete_closure now stamp d reported hold missed st c =
     (decided now stamp d reported hold missed c, Inr (completed now stamp d reported hold c))"

definition phase_unless_closed :: "string \<Rightarrow> ConversationRecord \<Rightarrow> ConversationRecord" where
  "phase_unless_closed desired c = (if cr_Phase c \<noteq> PhaseClosed then c\<lparr>cr_Phase := desired\<rparr> else c)"

definition setPhaseUnlessClosed :: "'w Server \<Rightarrow> string \<Rightarrow> string \<Rightarrow> 'w \<Rightarrow> 'w \<times> err option" where
  "setPhaseUnlessClosed s name desired w =
     (case Mutate (sv_Store s) name (\<lambda>u c. (u, Inr (phase_unless_closed desired c))) () w of
        (w, _, Inl e) \<Rightarrow> (w, map_option (Wrapped (''setting phase on '' @ quoted name)) (IgnoreNotFound (Some e)))
      | (w, _, Inr _) \<Rightarrow> (w, None))"

text \<open>What is read off the inflight entry before it is cleared.\<close>

definition read_turn :: "'w Server \<Rightarrow> ConversationRecord \<Rightarrow> workDone \<Rightarrow> bool \<Rightarrow> go_time \<Rightarrow> 'w
    \<Rightarrow> 'w \<times> RecordedInput list \<times> go_time option \<times> int \<times> turnEvidence" where
  "read_turn s conv d hold now w =
     (case cr_Inflight conv of
        None \<Rightarrow> (w, [], None, 0, \<lparr>te_Dispatched = False, te_Moved = False\<rparr>)
      | Some f \<Rightarrow>
          if if_RunID f \<noteq> wd_RunID d then (w, [], None, 0, \<lparr>te_Dispatched = False, te_Moved = False\<rparr>)
          else (case (if hold then (w, []) else recordInputs s conv (if_InputIDs f) w) of
            (w, recs) \<Rightarrow> (w, recs, Some (if_DispatchedAt f), milliseconds (time_sub now (if_DispatchedAt f)),
               \<lparr>te_Dispatched = (\<not> hold \<and> wd_Continuity d \<noteq> ContinuityUnavailable), te_Moved = if_Moved f\<rparr>)))"

definition done_run :: "workDone \<Rightarrow> go_time option \<Rightarrow> go_time \<Rightarrow> RecordedInput list \<Rightarrow> Run" where
  "done_run d startedAt now recs =
     \<lparr>run_RunID = wd_RunID d, run_JobKind = [], run_Status = wd_Status d, run_ExitCode = wd_ExitCode d,
      run_Result = take maxRecordedResult (wd_Result d), run_StartedAt = startedAt, run_FinishedAt = Some now,
      run_InputIDs = [], run_DeliveryTracked = True, run_Delivered = [], run_RoutedToParent = False, run_Inputs = recs\<rparr>"

definition done_event :: "'w Server \<Rightarrow> ConversationRecord \<Rightarrow> string \<Rightarrow> workDone \<Rightarrow> int \<Rightarrow> 'w \<Rightarrow> Event" where
  "done_event s conv pipeline d latency w =
     zero_event\<lparr>ev_Kind := ''run.completed'', ev_From := Node ''runtime'' (runtimeName s conv w),
       ev_To := originNode pipeline (cr_Name conv), ev_Pipeline := pipeline, ev_Conversation := cr_Name conv,
       ev_RunID := wd_RunID d, ev_LatencyMs := latency,
       ev_Detail := (case wd_ExitCode d of None \<Rightarrow> wd_Status d | Some c \<Rightarrow> wd_Status d @ '' (exit '' @ itoa c @ '')''),
       ev_Status := (if wd_Status d \<noteq> ''succeeded'' then ''error'' else [])\<rparr>"

text \<open>The fast path to a member's parent: the append, then the mark on the run.\<close>

definition route_to_parent :: "'w Server \<Rightarrow> 'w Router \<Rightarrow> ConversationRecord \<Rightarrow> Run \<Rightarrow> key \<Rightarrow> 'w chat \<Rightarrow> 'w chat" where
  "route_to_parent s r conv run k st =
     (case AppendMemberResult r (cr_CausedBy conv) (cr_Name conv)
             (''member:'' @ cr_Name conv @ '':'' @ run_RunID run) (run_Result run) st of
        (st, Some e) \<Rightarrow> st
      | ((w, q), None) \<Rightarrow> (fst (st_UpdateRun (sv_Store s) w k (run_RunID run)
           \<lparr>ru_MarkDeliveryTracked = False, ru_MarkDelivered = [], ru_MarkRoutedToParent = True\<rparr>), q))"

text \<open>What follows once the conversation is written: telemetry, delivery, the parent, the budget.\<close>

definition after_done :: "nat \<Rightarrow> 'w Server \<Rightarrow> workDone \<Rightarrow> Run \<Rightarrow> int \<Rightarrow> bool \<Rightarrow> ConversationRecord \<Rightarrow> 'w chat \<Rightarrow> 'w chat option" where
  "after_done n s d run latency exceeded conv st =
     (let pipeline = pipelineName s conv (fst st);
          (w, q) = emitRunCalls s conv pipeline d st;
          st = (w, q_emit (sv_Now s w 3) (done_event s conv pipeline d latency w) q)
      in case sv_Router s of
           None \<Rightarrow> Some st
         | Some r \<Rightarrow>
             (let st = (if cr_ChannelRefs conv \<noteq> [] then FanOutRunReply r conv (wd_RunID d) (RunReplyMessage run) st else st);
                  st = (if cr_CausedBy conv \<noteq> None then route_to_parent s r conv run (wd_Convo d) st else st)
              in if exceeded
                 then map_option fst (CloseBudgetExceeded n r conv (''budget-exceeded: maxTurns (''
                        @ itoa (bd_MaxTurns (the (cr_Budget conv))) @ '') reached'') st)
                 else Some st))"

datatype done_answer = Done | Rejected int err

definition judge :: "nat \<Rightarrow> 'w Server \<Rightarrow> ConversationRecord \<Rightarrow> workDone \<Rightarrow> string \<Rightarrow> turnEvidence \<Rightarrow> RecordedInput list \<Rightarrow> 'w chat
    \<Rightarrow> ('w chat \<times> bool) option" where
  "judge n s conv d res ev recs st =
     (case sv_Router s of
        None \<Rightarrow> Some (st, False)
      | Some r \<Rightarrow> if turnsReachMax conv then Some (st, False)
          else actOnMiss n s r conv (wd_RunID d) res (judgeRootTurn conv (wd_Status d) ev recs) st)"

text \<open>From the record of the run on: the run, the conversation, its phase, and what follows.\<close>

definition write_done :: "nat \<Rightarrow> 'w Server \<Rightarrow> workDone \<Rightarrow> bool \<Rightarrow> go_time \<Rightarrow> Run \<Rightarrow> int \<Rightarrow> bool \<Rightarrow> 'w serving
    \<Rightarrow> ('w serving \<times> done_answer) option" where
  "write_done n s d hold now run latency missed st =
     (case st of ((w, q), b) \<Rightarrow>
       (case recordRun s (wd_Convo d) run w of
          (w, Some e) \<Rightarrow> Some (((w, q), b), Rejected 500 e)
        | (w, None) \<Rightarrow>
            (let reported = (if wd_RuntimeContextID d = [] then wd_SessionID d else wd_RuntimeContextID d);
                 b = (if wd_Continuity d = ContinuityContinued then Continued b else b)
             in case Mutate (sv_Store s) (wd_Convo d)
                       (complete_closure now (sv_Now s w 1) d reported hold missed) (False, PhaseIdle) w of
                  (w, _, Inl e) \<Rightarrow> Some (((w, q), b), Rejected 500 e)
                | (w, (exceeded, desired), Inr conv) \<Rightarrow>
                    (case setPhaseUnlessClosed s (wd_Convo d) desired w of
                       (w, Some e) \<Rightarrow> Some (((w, q), b), Rejected 500 e)
                     | (w, None) \<Rightarrow>
                         map_option (\<lambda>st. ((st, b), Done)) (after_done n s d run latency exceeded conv (w, q))))))"

definition complete_run :: "nat \<Rightarrow> 'w Server \<Rightarrow> workDone \<Rightarrow> ConversationRecord \<Rightarrow> bool \<Rightarrow> go_time \<Rightarrow> 'w serving
    \<Rightarrow> ('w serving \<times> done_answer) option" where
  "complete_run n s d conv hold now st =
     (case st of ((w, q), b) \<Rightarrow>
       (case read_turn s conv d hold now w of (w, recs, startedAt, latency, ev) \<Rightarrow>
         (let run = done_run d startedAt now recs in
          case judge n s conv d (run_Result run) ev recs (w, q) of
            None \<Rightarrow> None
          | Some (st, missed) \<Rightarrow> write_done n s d hold now run latency missed (st, b))))"

definition handleWorkDone :: "nat \<Rightarrow> 'w Server \<Rightarrow> workDone \<Rightarrow> 'w serving \<Rightarrow> ('w serving \<times> done_answer) option" where
  "handleWorkDone n s d st =
     (case validateReport d of
        Some e \<Rightarrow> Some (st, Rejected 400 e)
      | None \<Rightarrow>
          (case st of ((w, q), b) \<Rightarrow>
            (case st_Get (sv_Store s) w (wd_Convo d) of
               (w, Inl e) \<Rightarrow> Some (((w, q), b), Rejected (if errors_Is e ErrNotFound then 404 else 500) e)
             | (w, Inr (conv, _)) \<Rightarrow>
                 (let now = sv_Now s w 0;
                      (b, hold) = (if wd_Continuity d = ContinuityUnavailable then Report b now else (b, False))
                  in complete_run n s d conv hold now ((w, q), b)))))"

end
