(* ===== verification/WorkFrames.thy ===== *)
theory WorkFrames
  imports WorkLoop CloseLaws ScopeLaws
begin

text \<open>
  What the work protocol leaves alone, over a store nobody else writes: \<^theory_text>\<open>reading_store\<close> adds that the reads beside the
  records and the marks on a run keep them, \<^theory_text>\<open>run_store\<close> the history of run ids. Every step of a completion
  only closes: it never reopens a conversation, creates one, or moves one to another parent.
\<close>

locale reading_store = quiet_store +
  assumes blob_keeps: "ok w \<Longrightarrow> st_GetBlob s w k = (w', b) \<Longrightarrow> ok w' \<and> cur w' = cur w"
    and runs_keep: "ok w \<Longrightarrow> st_ListRuns s w k = (w', us) \<Longrightarrow> ok w' \<and> cur w' = cur w"
    and mark_keeps: "ok w \<Longrightarrow> st_UpdateRun s w k i u = (w', z) \<Longrightarrow> ok w' \<and> cur w' = cur w"

locale run_store = reading_store +
  fixes ids :: "'a \<Rightarrow> key \<Rightarrow> string list"
  assumes get_ids: "ok w \<Longrightarrow> st_Get s w k = (w', x) \<Longrightarrow> ids w' = ids w"
    and list_ids: "ok w \<Longrightarrow> st_List s w i key = (w', y) \<Longrightarrow> ids w' = ids w"
    and update_ids: "ok w \<Longrightarrow> st_Get s w k = (w1, Inr (old, v)) \<Longrightarrow> same_identity old new
        \<Longrightarrow> st_Update s w1 k v new = (w', z) \<Longrightarrow> ids w' = ids w"
    and blob_ids: "ok w \<Longrightarrow> st_GetBlob s w k = (w', b) \<Longrightarrow> ids w' = ids w"
    and runs_ids: "ok w \<Longrightarrow> st_ListRuns s w k = (w', us) \<Longrightarrow> ids w' = ids w"
    and mark_ids: "ok w \<Longrightarrow> st_UpdateRun s w k j u = (w', z') \<Longrightarrow> ids w' = ids w"
    and runs_are: "ok w \<Longrightarrow> st_ListRuns s w k = (w', Inr rs) \<Longrightarrow> map run_RunID rs = ids w k"
    and append_run: "ok w \<Longrightarrow> st_AppendRun s w k run = (w', z'') \<Longrightarrow> ok w' \<and> cur w' = cur w
        \<and> (case z'' of Inl _ \<Rightarrow> ids w' = ids w | Inr _ \<Rightarrow> ids w' = (ids w)(k := ids w k @ [run_RunID run]))"
begin

text \<open>A step that keeps the store keeps the history: the history is one more thing that holds.\<close>

lemma with_history: "reading_store s cur (\<lambda>w. ok w \<and> ids w = R)"
  by unfold_locales
    (auto dest: named get_keeps get_hit get_miss list_keeps list_matches update_ok update_hit update_fail blob_keeps
      runs_keep mark_keeps get_ids list_ids update_ids blob_ids runs_ids mark_ids)

end

text \<open>
  A store whose revisions are compared: \<open>rv w k\<close> is the revision of the record at \<open>k\<close>. A read returns it and leaves
  it, a write under it lands, a write under another one changes nothing.
\<close>

locale revision_store = run_store +
  fixes rv :: "'a \<Rightarrow> key \<Rightarrow> revision"
  assumes get_rv: "ok w \<Longrightarrow> st_Get s w k = (w', Inr (r, v)) \<Longrightarrow> v = rv w k"
    and get_keeps_rv: "ok w \<Longrightarrow> st_Get s w k = (w', x) \<Longrightarrow> rv w' = rv w"
    and blob_keeps_rv: "ok w \<Longrightarrow> st_GetBlob s w k = (w', b) \<Longrightarrow> rv w' = rv w"
    and update_at: "ok w \<Longrightarrow> cur w k = Some old \<Longrightarrow> same_identity old new \<Longrightarrow> st_Update s w k (rv w k) new = (w', z) \<Longrightarrow> ok w'
        \<and> (case z of Inl e \<Rightarrow> cur w' = cur w | Inr _ \<Rightarrow> cur w' = (cur w)(k \<mapsto> new) \<or> cur w' = (cur w)(k := None))"

section \<open>What only reads\<close>

text \<open>A property that every read keeps, the walk to the Coordinator, the backend and the next unit keep.\<close>

lemma acting_walk_reads:
  assumes "\<And>w k w' y. P w \<Longrightarrow> st_Get s w k = (w', y) \<Longrightarrow> P w'" and "acting_walk s name n c w = (w', x)" and "P w"
  shows "P w'"
  using assms(2,3)
proof (induction n arbitrary: c w)
  case (Suc n)
  show ?case
  proof (cases "cr_CausedBy c")
    case (Some p)
    obtain w1 y where g: "st_Get s w (pv_Parent p) = (w1, y)" by fastforce
    note keep = assms(1) [OF Suc.prems(2) g]
    show ?thesis using Suc.IH [of _ w1] Suc.prems(1) Some g keep by (auto split: sum.splits prod.splits)
  qed (use Suc.prems in simp)
qed simp

lemma ResolveFor_reads:
  assumes "\<And>w k w' y. P w \<Longrightarrow> st_Get s w k = (w', y) \<Longrightarrow> P w'"
    and "ResolveFor rd gr s (Some conv) cfg w = (w', x)" and "P w"
  shows "P w'"
proof -
  obtain w1 a where a: "resolveActingCoordinatorBestEffort s conv w = (w1, a)" by fastforce
  have "P w1"
  proof (cases "cr_CoordinatorRef conv \<noteq> []")
    case True
    with a assms(3) show ?thesis by (simp add: resolveActingCoordinatorBestEffort_def pod_ActingCoordinator_def)
  next
    case False
    obtain w2 y where walk: "acting_walk s (cr_Name conv) walk_limit conv w = (w2, y)" by fastforce
    from False a walk have "w1 = w2"
      by (auto simp: resolveActingCoordinatorBestEffort_def pod_ActingCoordinator_def split: sum.splits)
    with acting_walk_reads [where P = P, OF assms(1) walk assms(3)] show ?thesis by simp
  qed
  moreover have "w' = w1"
    using assms(2) a by (auto simp: ResolveFor_def split: prod.splits sum.splits if_splits option.splits)
  ultimately show ?thesis by simp
qed

lemma batch_rest_reads:
  assumes "\<And>w i w' y. P w \<Longrightarrow> resolve w i = (w', y) \<Longrightarrow> P w'" and "batch_rest resolve ty is w = (w', x)" and "P w"
  shows "P w'"
  using assms(2,3)
proof (induction "is" arbitrary: w x)
  case (Cons i "is")
  obtain w1 y where g: "resolve w i = (w1, y)" by fastforce
  note keep = assms(1) [OF Cons.prems(2) g]
  show ?case using Cons.IH [of w1] Cons.prems g keep by (auto split: if_splits sum.splits prod.splits)
qed simp

lemma Next_reads:
  assumes "\<And>w i w' y. P w \<Longrightarrow> resolve w i = (w', y) \<Longrightarrow> P w'" and "Next tm c profile tools resolve now ctx w = (w', x)" and "P w"
  shows "P w'"
proof -
  have single: "P w1" if "single_unit tm resolve c u first f w = (w1, y)" for u first f w1 y
    using that assms(1) [OF assms(3)] by (auto simp: single_unit_def split: prod.splits sum.splits)
  have resume: "P w1" if "resume_unit tm resolve c profile a u (first # rest) ctx w = (w1, y)" for a u first rest w1 y
  proof -
    obtain w2 p where r: "resolve w first = (w2, p)" by fastforce
    obtain w3 b where b: "batch_rest resolve (in_Type first) rest w2 = (w3, b)" by (metis surj_pair)
    note p2 = assms(1) [OF assms(3) r]
    note p3 = batch_rest_reads [where P = P, OF assms(1) b p2]
    from that r b p2 p3 show ?thesis by (auto simp: resume_unit_def Let_def split: sum.splits prod.splits)
  qed
  show ?thesis
  proof (cases "cr_Inflight c \<noteq> None \<or> PendingInputs c = []")
    case True
    from Next_idle [OF True, of tm profile tools resolve now ctx w] assms(2,3) show ?thesis by simp
  next
    case False
    then obtain first rest where p: "PendingInputs c = first # rest" by (cases "PendingInputs c") auto
    from assms(2) False single resume assms(3) show ?thesis unfolding Next_def p Let_def by (auto split: if_splits)
  qed
qed

section \<open>Steps that only close\<close>

definition stays :: "('w \<Rightarrow> key \<Rightarrow> ConversationRecord option) \<Rightarrow> ('w \<Rightarrow> bool) \<Rightarrow> 'w \<Rightarrow> 'w \<Rightarrow> bool" where
  "stays cur ok w w' \<longleftrightarrow> ok w' \<and> only_closes cur w w'"

lemma stays_trans: "stays cur ok w w1 \<Longrightarrow> stays cur ok w1 w2 \<Longrightarrow> stays cur ok w w2"
  by (auto simp: stays_def intro: only_closes_trans)

lemma stays_same: "ok w' \<Longrightarrow> cur w' = cur w \<Longrightarrow> stays cur ok w w'"
  by (auto simp: stays_def only_closes_def)

lemma stays_ok: "stays cur ok w w' \<Longrightarrow> ok w'"
  by (simp add: stays_def)

text \<open>What one write may do to stay within a step that only closes.\<close>

definition closes_or_keeps :: "(ConversationRecord \<Rightarrow> ConversationRecord) \<Rightarrow> bool" where
  "closes_or_keeps f \<longleftrightarrow> (\<forall>r. same_identity r (f r) \<and> cr_CausedBy (f r) = cr_CausedBy r
     \<and> (cr_Phase r = PhaseClosed \<longrightarrow> cr_Phase (f r) = PhaseClosed))"

lemma stays_write:
  assumes "closes_or_keeps f" "ok w'" "cur w k = Some old"
    and "cur w' = (cur w)(k \<mapsto> f old) \<or> cur w' = (cur w)(k := None)"
  shows "stays cur ok w w'"
  using assms by (auto simp: stays_def only_closes_def closes_or_keeps_def split: if_splits)

context reading_store begin

lemma Mutate_loop_closure:
  assumes "Mutate_loop s k (\<lambda>c r. (h r, Inr (f r))) n le c w = (w', c', x)" and "ok w" and "\<And>r. same_identity r (f r)"
  shows "\<exists>u. Mutate_loop s k (\<lambda>u r. (u, Inr (f r))) n le () w = (w', u, x)
    \<and> (\<forall>r. x = Inr r \<longrightarrow> (\<exists>old. cur w k = Some old \<and> c' = h old))"
  using assms(1,2)
proof (induction n arbitrary: le c w)
  case (Suc n)
  obtain w1 y where g: "st_Get s w k = (w1, y)" by fastforce
  note keep = get_keeps [OF Suc.prems(2) g]
  show ?case
  proof (cases y)
    case (Inr p)
    obtain old v where p: "p = (old, v)" by fastforce
    note hit = get_hit [OF Suc.prems(2) g [unfolded Inr p]]
    show ?thesis
    proof (cases "f old = old")
      case False
      obtain w2 z where u: "st_Update s w1 k v (f old) = (w2, z)" by fastforce
      note ok2 = update_ok [OF Suc.prems(2) g [unfolded Inr p] assms(3) u]
      show ?thesis
      proof (cases z)
        case (Inl e)
        from update_fail [OF Suc.prems(2) g [unfolded \<open>y = Inr p\<close> p] assms(3) u [unfolded Inl]]
        have same: "cur w2 = cur w" by auto
        show ?thesis
        proof (cases "errors_Is e ErrConflict")
          case True
          with Suc.prems(1) g \<open>y = Inr p\<close> p False u Inl
          have "Mutate_loop s k (\<lambda>c r. (h r, Inr (f r))) n (Some e) (h old) w2 = (w', c', x)" by simp
          from Suc.IH [OF this ok2] same True g \<open>y = Inr p\<close> p False u Inl show ?thesis by simp
        qed (use Suc.prems(1) g \<open>y = Inr p\<close> p False u Inl in auto)
      qed (use Suc.prems(1) g \<open>y = Inr p\<close> p False u hit in auto)
    qed (use Suc.prems(1) g Inr p hit in auto)
  qed (use Suc.prems(1) g in auto)
qed auto

lemma Mutate_closure:
  assumes "Mutate s k (\<lambda>c r. (h r, Inr (f r))) c w = (w', c', x)" and "ok w" and "\<And>r. same_identity r (f r)"
  shows "ok w' \<and> (case x of
      Inr r \<Rightarrow> \<exists>old. cur w k = Some old \<and> r = f old \<and> c' = h old \<and> (cur w' = (cur w)(k \<mapsto> r) \<or> cur w' = (cur w)(k := None))
    | Inl e \<Rightarrow> cur w' = cur w)"
proof -
  from Mutate_loop_closure [OF assms(1) [unfolded Mutate_def] assms(2,3)]
  obtain u where u: "Mutate s k (\<lambda>u r. (u, Inr (f r))) () w = (w', u, x)"
    "\<And>r. x = Inr r \<Longrightarrow> \<exists>old. cur w k = Some old \<and> c' = h old" unfolding Mutate_def by blast
  from Mutate_quiet [OF u(1) assms(2,3)] u(2) show ?thesis by (cases x) auto
qed

lemma Mutate_stays:
  assumes "Mutate s k (\<lambda>c r. (h r, Inr (f r))) c w = (w', c', x)" and "ok w" and "closes_or_keeps f"
  shows "stays cur ok w w'"
proof -
  have id: "same_identity r (f r)" for r using assms(3) by (simp add: closes_or_keeps_def)
  from Mutate_closure [OF assms(1,2) id] show ?thesis
    by (cases x) (auto intro: stays_same stays_write [OF assms(3)])
qed

lemma Mutate_unit_stays:
  assumes "Mutate s k (\<lambda>u r. (u, Inr (f r))) () w = (w', u, x)" and "ok w" and "closes_or_keeps f"
  shows "stays cur ok w w'"
  by (rule Mutate_stays [where h = "\<lambda>_. ()", OF _ assms(2,3)]) (use assms(1) in simp)

lemma Patch_stays:
  assumes "Patch s conv f w = (w', conv', e)" and "ok w" and "closes_or_keeps f"
  shows "stays cur ok w w'"
proof -
  obtain w1 u x where m: "Mutate s (cr_Name conv) (\<lambda>u r. (u, Inr (f r))) () w = (w1, u, x)" by (metis prod_cases3)
  with assms(1) have "w' = w1" by (auto simp: Patch_def split: sum.splits)
  with Mutate_unit_stays [OF m assms(2,3)] show ?thesis by simp
qed

section \<open>The router's steps\<close>

lemma appendInputIdempotent_stays:
  assumes "appendInputIdempotent r k item (w, q) = ((w', q'), e)" and "ok w" "ro_Store r = s"
  shows "stays cur ok w w'"
proof -
  obtain w1 u x where m: "Mutate s k (\<lambda>u rec. (u, Inr (idempotent_append item rec))) () w = (w1, u, x)" by (metis prod_cases3)
  have "closes_or_keeps (idempotent_append item)"
    by (auto simp: closes_or_keeps_def idempotent_append_def same_identity_def)
  from Mutate_unit_stays [OF m assms(2) this] assms(1,3) m show ?thesis
    by (auto simp: appendInputIdempotent_def split: sum.splits)
qed

lemma AppendMemberResult_stays:
  assumes "AppendMemberResult r c n i t (w, q) = ((w', q'), e)" and "ok w" "ro_Store r = s"
  shows "stays cur ok w w'"
  using assms appendInputIdempotent_stays [OF _ assms(2,3)]
  by (auto simp: AppendMemberResult_def intro: stays_same split: option.splits if_splits)

lemma AppendManagerInput_stays:
  assumes "AppendManagerInput r k i t (w, q) = ((w', q'), e)" and "ok w" "ro_Store r = s"
  shows "stays cur ok w w'"
  using assms appendInputIdempotent_stays [OF _ assms(2,3)] by (simp add: AppendManagerInput_def)

lemma close_step_stays: "ok w' \<Longrightarrow> close_step cur w w' \<Longrightarrow> stays cur ok w w'"
  by (simp add: stays_def close_step_def)

lemma Escalate_stays:
  assumes "Escalate n r conv message (w, q) = Some ((w', q'), e)" and "ok w" "ro_Store r = s"
  shows "stays cur ok w w'"
proof (cases "cr_CausedBy conv")
  case (Some c)
  let ?id = "\<lambda>w. ''escalate:'' @ cr_Name conv @ '':'' @ format_int 36 (wrap64 (ro_Now r w 0 - unix_epoch))"
  from assms(1) Some have "and_then (closeWithCascade n r message conv (w, q))
      (\<lambda>st. Some (AppendMemberResult r (Some c) (cr_Name conv) (?id (fst st)) message st)) = Some ((w', q'), e)"
    by (simp add: Escalate_def)
  then show ?thesis
  proof (cases rule: and_thenE)
    case (stop er)
    from closeWithCascade_quiet [OF this(1) assms(3,2)] show ?thesis by (blast intro: close_step_stays)
  next
    case (go st)
    obtain w1 q1 where st: "st = (w1, q1)" by fastforce
    from closeWithCascade_quiet [OF go(1) [unfolded st] assms(3,2)] have "stays cur ok w w1" by (blast intro: close_step_stays)
    moreover from go(2) st have "AppendMemberResult r (Some c) (cr_Name conv) (?id w1) message (w1, q1) = ((w', q'), e)" by simp
    note AppendMemberResult_stays [OF this stays_ok [OF calculation] assms(3)]
    ultimately show ?thesis by (rule stays_trans)
  qed
next
  case None
  show ?thesis
  proof (cases "cr_EscalatedAt conv")
    case None': None
    obtain w1 c1 x where p: "Patch s conv (\<lambda>rec. rec\<lparr>cr_EscalatedAt := Some (ro_Now r w 0),
        cr_EscalationMessage := boundedString message 2000\<rparr>) w = (w1, c1, x)" by (metis prod_cases3)
    have "closes_or_keeps (\<lambda>rec. rec\<lparr>cr_EscalatedAt := Some (ro_Now r w 0), cr_EscalationMessage := boundedString message 2000\<rparr>)"
      by (simp add: closes_or_keeps_def same_identity_def)
    from Patch_stays [OF p assms(2) this] assms(1,3) None None' p show ?thesis by (simp add: Escalate_def)
  qed (use assms None in \<open>auto simp: Escalate_def intro: stays_same\<close>)
qed

lemma CloseBudgetExceeded_stays:
  assumes "CloseBudgetExceeded n r conv digest (w, q) = Some ((w', q'), e)" and "ok w" "ro_Store r = s"
  shows "stays cur ok w w'"
  using assms(1) unfolding CloseBudgetExceeded_def
proof (cases rule: and_thenE)
  case (stop er)
  from cascadeCloseMembers_quiet [OF this(1) assms(3,2)] show ?thesis by (blast intro: close_step_stays)
next
  case (go st)
  obtain w1 q1 where st: "st = (w1, q1)" by fastforce
  from cascadeCloseMembers_quiet [OF go(1) [unfolded st] assms(3,2)] have "stays cur ok w w1" by (blast intro: close_step_stays)
  moreover note Escalate_stays [OF go(2) [unfolded st] stays_ok [OF calculation] assms(3)]
  ultimately show ?thesis by (rule stays_trans)
qed

lemma SettleDeliveredNote_stays:
  assumes "ok w" shows "stays cur ok w (SettleDeliveredNote s conv channel runID w)"
proof -
  have same: "stays cur ok w w" using assms by (simp add: stays_same)
  have clear: "closes_or_keeps (clear_note channel runID)"
    by (auto simp: closes_or_keeps_def clear_note_def same_identity_def)
  have "stays cur ok w (fst (clearUndeliveredNote s (cr_Name conv) channel runID w))"
  proof -
    obtain w1 u x where m: "Mutate s (cr_Name conv) (\<lambda>u r. (u, Inr (clear_note channel runID r))) () w = (w1, u, x)"
      by (metis prod_cases3)
    from Mutate_unit_stays [OF m assms clear] m show ?thesis by (auto simp: clearUndeliveredNote_def split: sum.split)
  qed
  with same show ?thesis by (auto simp: SettleDeliveredNote_def split: option.split)
qed

lemma eachBoundThread_stays:
  assumes "\<And>ch tid w q. ok w \<Longrightarrow> stays cur ok w (fst (fn ch tid (w, q)))" and "ok (fst st)"
  shows "stays cur ok (fst st) (fst (eachBoundThread r conv omit fn st))"
proof -
  have "stays cur ok (fst st) (fst (fold (\<lambda>ref st. if ref = omit then st
        else (case ThreadFor conv ref of
           None \<Rightarrow> st
         | Some tid \<Rightarrow> (case ro_Channel r (fst st) ref of None \<Rightarrow> st | Some ch \<Rightarrow> fn ch tid st))) refs st))" for refs
    using assms(2)
  proof (induction refs arbitrary: st)
    case (Cons ref refs)
    let ?st = "if ref = omit then st else (case ThreadFor conv ref of
           None \<Rightarrow> st | Some tid \<Rightarrow> (case ro_Channel r (fst st) ref of None \<Rightarrow> st | Some ch \<Rightarrow> fn ch tid st))"
    have "stays cur ok (fst st) (fst st)" using Cons.prems by (simp add: stays_same)
    then have one: "stays cur ok (fst st) (fst ?st)"
      using assms(1) [of "fst st" _ _ "snd st"] Cons.prems by (auto split: option.split)
    from stays_trans [OF one Cons.IH [OF stays_ok [OF one]]] show ?case by simp
  qed (simp add: stays_same)
  then show ?thesis by (simp add: eachBoundThread_def)
qed

lemma FanOutRunReply_stays:
  assumes "ok w" "ro_Store r = s"
  shows "stays cur ok w (fst (FanOutRunReply r conv runID msg (w, q)))"
proof -
  obtain w1 x where l: "st_ListRuns s w (cr_Name conv) = (w1, x)" by fastforce
  from runs_keep [OF assms(1) l] have one: "stays cur ok w w1" by (simp add: stays_same)
  let ?run = "case x of Inl _ \<Rightarrow> None | Inr runs \<Rightarrow> List.find (\<lambda>u. run_RunID u = runID) runs"
  let ?fn = "\<lambda>ch tid (w, q).
        if (case ?run of None \<Rightarrow> False | Some u \<Rightarrow> DeliveredTo u (chn_Name ch))
        then (SettleDeliveredNote s conv (chn_Name ch) runID w, q)
        else (w, EnqueueRunReply (ro_InProcess r) (ro_Now r w 0) ch conv runID (Some tid) msg q)"
  have "stays cur ok (fst (w1, q)) (fst (eachBoundThread r conv [] ?fn (w1, q)))"
    by (rule eachBoundThread_stays)
      (use stays_ok [OF one] SettleDeliveredNote_stays in \<open>auto simp: stays_same split: if_splits\<close>)
  from stays_trans [OF one this [unfolded fst_conv]] show ?thesis
    unfolding FanOutRunReply_def assms(2) by (simp add: l Let_def)
qed

section \<open>The server's steps\<close>

lemma ResolveFor_keeps:
  assumes "ResolveFor rd gr s (Some conv) cfg w = (w', x)" and "ok w"
  shows "ok w' \<and> cur w' = cur w"
  by (rule ResolveFor_reads [OF _ assms(1)]) (use get_keeps assms(2) in auto)

lemma emitRunCalls_keeps:
  assumes "emitRunCalls sv conv pipeline d (w, q) = (w', q')" and "ok w" "sv_Store sv = s"
  shows "ok w' \<and> cur w' = cur w"
proof -
  obtain w1 x where r: "resolve_backend sv conv w = (w1, x)" by fastforce
  from ResolveFor_keeps [OF r [unfolded resolve_backend_def assms(3)] assms(2)] assms(1,2) r show ?thesis
    by (auto simp: emitRunCalls_def runtimeImageNode_def split: if_splits sum.splits)
qed

lemma record_items_keeps:
  assumes "record_items sv ids items w = (w', rs)" and "ok w" "sv_Store sv = s"
  shows "ok w' \<and> cur w' = cur w"
  using assms(1,2)
proof (induction items arbitrary: w rs)
  case (Cons i items)
  show ?case
  proof (cases "in_ID i \<notin> set ids \<or> in_PayloadRef i = []")
    case True
    with Cons show ?thesis by (auto split: if_splits prod.splits)
  next
    case False
    obtain w1 b where g: "st_GetBlob s w (in_PayloadRef i) = (w1, b)" by fastforce
    note keep = blob_keeps [OF Cons.prems(2) g]
    from False Cons.prems(1) g assms(3) obtain rs1 where "record_items sv ids items w1 = (w', rs1)"
      by (auto split: prod.splits)
    from Cons.IH [OF this] keep show ?thesis by simp
  qed
qed simp

lemma read_turn_keeps:
  assumes "read_turn sv conv d hold now w = (w', recs, t, l, ev)" and "ok w" "sv_Store sv = s"
  shows "ok w' \<and> cur w' = cur w"
  using assms record_items_keeps [OF _ assms(2,3)]
  by (auto simp: read_turn_def recordInputs_def split: option.splits if_splits prod.splits)

lemma applyReport_keeps:
  "same_identity c (applyReport now d reported hold c)" "cr_CausedBy (applyReport now d reported hold c) = cr_CausedBy c"
  "cr_Phase (applyReport now d reported hold c) = cr_Phase c"
  by (auto simp: applyReport_def Let_def same_identity_def SetContextID_def SetCondition_def split: option.split)

lemma completed_closes_or_keeps: "closes_or_keeps (completed now stamp d reported hold)"
  using applyReport_keeps
  by (auto simp: closes_or_keeps_def completed_def reported_on_def Let_def same_identity_def)

lemma phase_unless_closed_keeps: "closes_or_keeps (phase_unless_closed desired)"
  by (auto simp: closes_or_keeps_def phase_unless_closed_def same_identity_def)

lemma setPhaseUnlessClosed_stays:
  assumes "setPhaseUnlessClosed sv k desired w = (w', e)" and "ok w" "sv_Store sv = s"
  shows "stays cur ok w w'"
proof -
  obtain w1 u x where m: "Mutate s k (\<lambda>u c. (u, Inr (phase_unless_closed desired c))) () w = (w1, u, x)" by (metis prod_cases3)
  from Mutate_unit_stays [OF m assms(2) phase_unless_closed_keeps] assms(1,3) m show ?thesis
    by (auto simp: setPhaseUnlessClosed_def split: sum.splits)
qed

lemma judge_stays:
  assumes "judge n sv conv d res ev recs (w, q) = Some ((w', q'), missed)" and "ok w"
    and "sv_Store sv = s" "\<And>r. sv_Router sv = Some r \<Longrightarrow> ro_Store r = s"
  shows "stays cur ok w w'"
proof -
  have same: "stays cur ok w w" using assms(2) by (simp add: stays_same)
  show ?thesis
  proof (cases "sv_Router sv = None \<or> turnsReachMax conv")
    case True
    with assms(1) have "w' = w" by (auto simp: judge_def split: option.splits)
    with same show ?thesis by simp
  next
    case False
    then obtain r where r: "sv_Router sv = Some r" "\<not> turnsReachMax conv" by auto
    note rs = assms(4) [OF r(1)]
    from assms(1) r have act: "actOnMiss n sv r conv (wd_RunID d) res (judgeRootTurn conv (wd_Status d) ev recs) (w, q)
        = Some ((w', q'), missed)" by (simp add: judge_def)
    show ?thesis
    proof (cases "judgeRootTurn conv (wd_Status d) ev recs")
      case turnEnded
      with act have "w' = w" by (simp add: actOnMiss_def)
      with same show ?thesis by simp
    next
      case turnFirstMiss
      obtain w1 q1 e where a: "AppendManagerInput r (cr_Name conv) (MoveInputID (cr_Name conv) (wd_RunID d))
          (correctiveInputText (coordinatorRoster sv conv w)) (w, q) = ((w1, q1), e)" by (metis surj_pair)
      from act turnFirstMiss a have "w' = w1"
        by (auto simp: actOnMiss_def appendCorrectiveInput_def split: option.splits)
      with AppendManagerInput_stays [OF a assms(2) rs] show ?thesis by simp
    next
      case turnSecondMiss
      with act have esc: "escalateSecondMiss n sv r conv res (w, q) = Some (w', q')" by (auto simp: actOnMiss_def)
      show ?thesis
      proof (cases "cr_EscalatedAt conv")
        case (Some t)
        with esc same show ?thesis by (simp add: escalateSecondMiss_def)
      next
        case None
        with esc obtain e where "Escalate n r conv (secondMissDigest (coordinatorRoster sv conv w) res) (w, q) = Some ((w', q'), e)"
          by (auto simp: escalateSecondMiss_def)
        from Escalate_stays [OF this assms(2) rs] show ?thesis .
      qed
    qed
  qed
qed

lemma route_to_parent_stays:
  assumes "route_to_parent sv r conv run k (w, q) = (w', q')" and "ok w" "sv_Store sv = s" "ro_Store r = s"
  shows "stays cur ok w w'"
proof -
  obtain w1 q1 e where a: "AppendMemberResult r (cr_CausedBy conv) (cr_Name conv)
      (''member:'' @ cr_Name conv @ '':'' @ run_RunID run) (run_Result run) (w, q) = ((w1, q1), e)" by (metis surj_pair)
  note one = AppendMemberResult_stays [OF a assms(2,4)]
  obtain w2 z where u: "st_UpdateRun s w1 k (run_RunID run)
      \<lparr>ru_MarkDeliveryTracked = False, ru_MarkDelivered = [], ru_MarkRoutedToParent = True\<rparr> = (w2, z)" by fastforce
  from mark_keeps [OF stays_ok [OF one] u] have "stays cur ok w1 w2" by (simp add: stays_same)
  from stays_trans [OF one this] have two: "stays cur ok w w2" .
  show ?thesis
  proof (cases e)
    case None
    with assms(1) have "w' = w2" unfolding route_to_parent_def a assms(3) by (simp add: u)
    with two show ?thesis by simp
  next
    case (Some x)
    with assms(1) have "w' = w1" unfolding route_to_parent_def a by simp
    with one show ?thesis by simp
  qed
qed

lemma after_done_stays:
  assumes "after_done n sv d run latency exceeded conv (w, q) = Some (w', q')" and "ok w"
    and "sv_Store sv = s" "\<And>r. sv_Router sv = Some r \<Longrightarrow> ro_Store r = s"
  shows "stays cur ok w w'"
proof -
  obtain w1 q1 where e: "emitRunCalls sv conv (pipelineName sv conv w) d (w, q) = (w1, q1)" by fastforce
  from emitRunCalls_keeps [OF e assms(2,3)] have one: "stays cur ok w w1" by (simp add: stays_same)
  show ?thesis
  proof (cases "sv_Router sv")
    case None
    with assms(1) e one show ?thesis by (auto simp: after_done_def)
  next
    case (Some r)
    note rs = assms(4) [OF Some]
    define st1 where "st1 = (w1, q_emit (sv_Now sv w1 3) (done_event sv conv (pipelineName sv conv w) d latency w1) q1)"
    define st2 where "st2 = (if cr_ChannelRefs conv \<noteq> [] then FanOutRunReply r conv (wd_RunID d) (RunReplyMessage run) st1 else st1)"
    define st3 where "st3 = (if cr_CausedBy conv \<noteq> None then route_to_parent sv r conv run (wd_Convo d) st2 else st2)"
    have two: "stays cur ok w1 (fst st2)"
    proof -
      have "stays cur ok w1 w1" using stays_ok [OF one] by (simp add: stays_same)
      with FanOutRunReply_stays [OF stays_ok [OF one] rs] show ?thesis by (simp add: st2_def st1_def)
    qed
    obtain w2 q2 where s2: "st2 = (w2, q2)" by fastforce
    obtain w3 q3 where s3: "st3 = (w3, q3)" by fastforce
    have three: "stays cur ok w2 w3"
    proof (cases "cr_CausedBy conv")
      case None
      with s2 s3 stays_ok [OF two] show ?thesis by (simp add: st3_def stays_same)
    next
      case (Some p)
      with s2 s3 have "route_to_parent sv r conv run (wd_Convo d) (w2, q2) = (w3, q3)" by (simp add: st3_def)
      from route_to_parent_stays [OF this _ assms(3) rs] stays_ok [OF two] s2 show ?thesis by simp
    qed
    have all: "stays cur ok w w3" using stays_trans [OF one stays_trans [OF two]] three s2 by simp
    have run: "(if exceeded then map_option fst (CloseBudgetExceeded n r conv (''budget-exceeded: maxTurns (''
                        @ itoa (bd_MaxTurns (the (cr_Budget conv))) @ '') reached'') (w3, q3)) else Some (w3, q3)) = Some (w', q')"
      using assms(1) unfolding after_done_def Let_def fst_conv e Some option.case prod.case
        s3 [unfolded st3_def st2_def st1_def] .
    show ?thesis
    proof (cases exceeded)
      case True
      with run obtain er where "CloseBudgetExceeded n r conv (''budget-exceeded: maxTurns (''
            @ itoa (bd_MaxTurns (the (cr_Budget conv))) @ '') reached'') (w3, q3) = Some ((w', q'), er)" by auto
      from stays_trans [OF all CloseBudgetExceeded_stays [OF this stays_ok [OF all] rs]] show ?thesis .
    qed (use run all in simp)
  qed
qed

end

section \<open>The in-memory backend is one\<close>

definition mem_run_ids :: "memStore \<Rightarrow> key \<Rightarrow> string list" where
  "mem_run_ids m k = map run_RunID (runs_of m k)"

definition mem_rv :: "memStore \<Rightarrow> key \<Rightarrow> revision" where
  "mem_rv m k = (case map_of (mem_records m) k of None \<Rightarrow> [] | Some (r, v) \<Rightarrow> revisionOf v)"

lemma mem_run_ids_records: "mem_runs m' = mem_runs m \<Longrightarrow> mem_run_ids m' = mem_run_ids m"
  by (simp add: mem_run_ids_def runs_of_def fun_eq_iff)

lemma mem_runs_kept:
  "mem_runs (fst (mem_Get m k)) = mem_runs m" "mem_runs (fst (mem_List m i key)) = mem_runs m"
  "mem_runs (fst (mem_Update m k v r)) = mem_runs m" "mem_runs (fst (mem_GetBlob m k)) = mem_runs m"
  "mem_runs (fst (mem_ListRuns m k)) = mem_runs m"
  by (auto simp: mem_Get_def mem_List_def mem_Update_def mem_GetBlob_def mem_ListRuns_def mem_put_def mem_drop_def
      mintLocked_def sweepExpiredLocked_def Let_def split: option.split)

lemma mem_run_ids_marked: "mem_run_ids (fst (mem_UpdateRun m k j u)) = mem_run_ids m"
proof -
  have "map run_RunID (update_first p (mem_run_updated u) rs) = map run_RunID rs" for p rs
    by (induction rs) (auto simp: mem_run_updated_def)
  then show ?thesis by (auto simp: mem_run_ids_def mem_UpdateRun_def runs_of_def update_conv' fun_eq_iff split: option.split)
qed

lemma mem_run_ids_appended: "mem_run_ids (fst (mem_AppendRun m k run)) = (mem_run_ids m)(k := mem_run_ids m k @ [run_RunID run])"
  by (auto simp: mem_run_ids_def mem_AppendRun_def runs_of_def update_conv' fun_eq_iff split: option.split)

lemma mem_runs_only: "mem_ok (m\<lparr>mem_runs := rs\<rparr>) = mem_ok m" "mem_cur (m\<lparr>mem_runs := rs\<rparr>) = mem_cur m"
  by (simp_all add: mem_ok_def mem_cur_def fun_eq_iff)

interpretation mem_runs: revision_store mem_Store mem_cur mem_ok mem_run_ids mem_rv
proof unfold_locales
  fix m m' :: memStore and k i key j u x y b us rs r v run old new
  have get: "m' = m" if "mem_ok m" "st_Get mem_Store m k = (m', x)" for x
    using that by (simp add: mem_Store_def mem_Get_def Let_def)
  have blob: "m' = m" if "st_GetBlob mem_Store m k = (m', b)"
    using that by (simp add: mem_Store_def mem_GetBlob_def)
  have runs: "m' = m" if "st_ListRuns mem_Store m k = (m', us)" for us
    using that by (simp add: mem_Store_def mem_ListRuns_def)
  show "mem_ok m' \<and> mem_cur m' = mem_cur m" if "mem_ok m" "st_GetBlob mem_Store m k = (m', b)" using blob that by simp
  show "mem_ok m' \<and> mem_cur m' = mem_cur m" if "mem_ok m" "st_ListRuns mem_Store m k = (m', us)" using runs that by simp
  show "mem_ok m' \<and> mem_cur m' = mem_cur m" if "mem_ok m" "st_UpdateRun mem_Store m k j u = (m', z)" for z
    using that by (auto simp: mem_Store_def mem_UpdateRun_def mem_runs_only split: if_splits)
  show "mem_run_ids m' = mem_run_ids m" if "mem_ok m" "st_Get mem_Store m k = (m', x)" using get that by simp
  show "mem_run_ids m' = mem_run_ids m" if "mem_ok m" "st_List mem_Store m i key = (m', y)"
    using that by (simp add: mem_Store_def mem_List_def Let_def)
  show "mem_run_ids m' = mem_run_ids m" if "mem_ok m" "st_Get mem_Store m k = (m1, Inr (old, v))" "same_identity old new"
    "st_Update mem_Store m1 k v new = (m', z)" for m1 z
    using that mem_run_ids_records [OF mem_runs_kept(3), of m1 k v new] mem_run_ids_records [OF mem_runs_kept(1), of m k]
    by (simp add: mem_Store_def)
  show "mem_run_ids m' = mem_run_ids m" if "mem_ok m" "st_GetBlob mem_Store m k = (m', b)" using blob that by simp
  show "mem_run_ids m' = mem_run_ids m" if "mem_ok m" "st_ListRuns mem_Store m k = (m', us)" using runs that by simp
  show "mem_run_ids m' = mem_run_ids m" if "mem_ok m" "st_UpdateRun mem_Store m k j u = (m', z)" for z
    using that mem_run_ids_marked [of m k j u] by (simp add: mem_Store_def)
  show "map run_RunID rs = mem_run_ids m k" if "mem_ok m" "st_ListRuns mem_Store m k = (m', Inr rs)"
    using that by (auto simp: mem_Store_def mem_ListRuns_def mem_run_ids_def)
  show "mem_ok m' \<and> mem_cur m' = mem_cur m \<and> (case z of Inl _ \<Rightarrow> mem_run_ids m' = mem_run_ids m
      | Inr _ \<Rightarrow> mem_run_ids m' = (mem_run_ids m)(k := mem_run_ids m k @ [run_RunID run]))"
    if "mem_ok m" "st_AppendRun mem_Store m k run = (m', z)" for z
    using that mem_run_ids_appended [of m k run] by (auto simp: mem_Store_def mem_AppendRun_def mem_runs_only)
  show "v = mem_rv m k" if "mem_ok m" "st_Get mem_Store m k = (m', Inr (r, v))"
    using that by (auto simp: mem_Store_def mem_Get_def mem_rv_def Let_def split: option.splits)
  show "mem_rv m' = mem_rv m" if "mem_ok m" "st_Get mem_Store m k = (m', x)" using get that by simp
  show "mem_rv m' = mem_rv m" if "mem_ok m" "st_GetBlob mem_Store m k = (m', b)" using blob that by simp
  show "mem_ok m' \<and> (case z of Inl e \<Rightarrow> mem_cur m' = mem_cur m
      | Inr _ \<Rightarrow> mem_cur m' = (mem_cur m)(k \<mapsto> new) \<or> mem_cur m' = (mem_cur m)(k := None))"
    if "mem_ok m" "mem_cur m k = Some old" "same_identity old new" "st_Update mem_Store m k (mem_rv m k) new = (m', z)" for z
  proof -
    from that(2) obtain n where "map_of (mem_records m) k = Some (old, n)" by (auto simp: mem_cur_def)
    with that(1) have "mem_Get m k = (m, Inr (old, mem_rv m k))" by (simp add: mem_Get_def mem_rv_def)
    from mem_Update_quiet [OF that(1) this that(3)] that(4) show ?thesis by (auto simp: mem_Store_def split: sum.splits)
  qed
qed

text \<open>A store whose connection breaks keeps the laws.\<close>

lemma flaky_revisions:
  assumes "revision_store s cur ok ids rv"
  shows "revision_store (flaky s) (cur \<circ> fst) (ok \<circ> fst) (ids \<circ> fst) (rv \<circ> fst)"
proof -
  note st = revision_store.axioms(1) [OF assms]
  note rd = run_store.axioms(1) [OF st]
  note laws = reading_store.blob_keeps [OF rd] reading_store.runs_keep [OF rd] reading_store.mark_keeps [OF rd]
    run_store.get_ids [OF st] run_store.list_ids [OF st] run_store.update_ids [OF st] run_store.blob_ids [OF st]
    run_store.runs_ids [OF st] run_store.mark_ids [OF st] run_store.runs_are [OF st] run_store.append_run [OF st]
    revision_store.get_rv [OF assms] revision_store.get_keeps_rv [OF assms] revision_store.blob_keeps_rv [OF assms] revision_store.update_at [OF assms]
  note step = laws flaky_quiet [OF reading_store.axioms(1) [OF rd]]
  show ?thesis
    by (intro revision_store.intro run_store.intro reading_store.intro reading_store_axioms.intro run_store_axioms.intro
        revision_store_axioms.intro flaky_quiet reading_store.axioms(1) [OF rd])
      (auto simp: flaky_def o_def split: sum.splits elim!: flaky_opE dest: laws)
qed

interpretation flaky_runs: revision_store "flaky mem_Store" "mem_cur \<circ> fst" "mem_ok \<circ> fst" "mem_run_ids \<circ> fst" "mem_rv \<circ> fst"
  by (rule flaky_revisions) (rule mem_runs.revision_store_axioms)

end
