(* ===== verification/WorkLaws.thy ===== *)
theory WorkLaws
  imports WorkFrames BackendLaws
begin

text \<open>
  The properties of the work protocol: what a report may hold, what a completion consumes, what it writes, and what
  a poll hands out.
\<close>

section \<open>Reports\<close>

definition count_ok :: "int option \<Rightarrow> bool" where
  "count_ok v = (case v of None \<Rightarrow> True | Some i \<Rightarrow> 0 \<le> i)"

definition turn_bounded :: "Turn \<Rightarrow> bool" where
  "turn_bounded t \<longleftrightarrow> length (tn_Model t) \<le> 200 \<and> length (tn_StopReason t) \<le> 200 \<and> count_ok (tn_TokensIn t)
     \<and> count_ok (tn_TokensOut t) \<and> count_ok (tn_CacheReadTokens t) \<and> count_ok (tn_CacheCreationTokens t)"

definition call_bounded :: "ToolCall \<Rightarrow> bool" where
  "call_bounded c \<longleftrightarrow> length (tc_Tool c) \<le> 200 \<and> length (tc_Server c) \<le> 200 \<and> count_ok (tc_DurationMs c)
     \<and> count_ok (tc_ResultBytes c)"

lemma fieldsWithin_None: "fieldsWithin at fs = None \<longleftrightarrow> list_all (\<lambda>(n, v). length v \<le> MaxReportedField) fs"
proof (induction fs)
  case (Cons p fs)
  then show ?case by (cases p) simp
qed simp

lemma nonNegative_None: "nonNegative at fs = None \<longleftrightarrow> list_all (\<lambda>(n, v). count_ok v) fs"
proof (induction fs)
  case (Cons p fs)
  then show ?case by (cases p) (cases "snd p"; simp add: count_ok_def)
qed simp

text \<open>A chain of checks passes when each of them does.\<close>

lemma chain_None: "(case x of None \<Rightarrow> y | Some e \<Rightarrow> Some e) = None \<longleftrightarrow> x = None \<and> y = None"
  by (cases x) auto

lemma validate_turns_None: "validate_turns i ts = None \<longleftrightarrow> list_all turn_bounded ts"
  by (induction ts arbitrary: i)
    (simp_all add: Let_def chain_None turn_bounded_def fieldsWithin_None nonNegative_None turn_counts_def
      MaxReportedField_def MaxDataValue_def conj_ac del: fieldsWithin.simps nonNegative.simps)

lemma validate_calls_None: "validate_calls i cs = None \<longleftrightarrow> list_all call_bounded cs"
  by (induction cs arbitrary: i)
    (simp_all add: Let_def chain_None call_bounded_def fieldsWithin_None nonNegative_None
      MaxReportedField_def MaxDataValue_def conj_ac del: fieldsWithin.simps nonNegative.simps)

text \<open>
  A report is accepted exactly within its bounds: at most 200 model calls and 200 tool calls, every text of them
  at most 200 bytes, no count negative. So a completion adds at most 400 hops to the activity log.
\<close>

theorem reports_are_bounded:
  "validateReport d = None \<longleftrightarrow> length (wd_Turns d) \<le> 200 \<and> length (wd_ToolCalls d) \<le> 200
     \<and> list_all turn_bounded (wd_Turns d) \<and> list_all call_bounded (wd_ToolCalls d)"
  by (simp add: validateReport_def chain_None validate_turns_None validate_calls_None MaxReportedTurns_def
      MaxReportedToolCalls_def not_less)

section \<open>What a completion consumes\<close>

lemma applyReport_queue:
  "cr_Inputs (applyReport now d reported hold c) = cr_Inputs c"
  "cr_ProcessedInputIDs (applyReport now d reported hold c) = cr_ProcessedInputIDs c"
  "cr_Inflight (applyReport now d reported hold c) = cr_Inflight c"
  "cr_Budget (applyReport now d reported hold c) = cr_Budget c"
  by (auto simp: applyReport_def Let_def SetContextID_def SetCondition_def split: option.split)

lemma applyReport_root:
  "cr_ChannelRefs (applyReport now d reported hold c) = cr_ChannelRefs c"
  "cr_CausedBy (applyReport now d reported hold c) = cr_CausedBy c"
  by (auto simp: applyReport_def Let_def SetContextID_def SetCondition_def split: option.split)

lemma completed_queue:
  assumes "cr_Inflight c = Some f" and "if_RunID f = wd_RunID d"
  shows "cr_Inputs (completed now stamp d reported hold c) = cr_Inputs c"
    and "cr_Inflight (completed now stamp d reported hold c) = None"
    and "cr_ProcessedInputIDs (completed now stamp d reported hold c)
      = (if hold then cr_ProcessedInputIDs c else last_n max_processed_ids (cr_ProcessedInputIDs c @ if_InputIDs f))"
  using assms by (auto simp: completed_def reported_on_def Let_def applyReport_queue is_inflight_def)


text \<open>
  The fifty ids kept are not enough for a long batch: when a run took more than fifty inputs, its first one is
  pending again once the run completed, although its answer is recorded, and is dispatched a second time.
\<close>

theorem a_long_batch_is_answered_twice:
  assumes "cr_Inflight c = Some f" and "if_RunID f = wd_RunID d"
    and "length (if_InputIDs f) > 50" "distinct (if_InputIDs f)" and "i \<in> set (cr_Inputs c)" "in_ID i = hd (if_InputIDs f)"
  shows "i \<notin> set (PendingInputs c) \<and> i \<in> set (PendingInputs (completed now stamp d reported False c))"
proof -
  obtain x xs where f: "if_InputIDs f = x # xs" using assms(3) by (cases "if_InputIDs f") auto
  have "last_n 50 (cr_ProcessedInputIDs c @ if_InputIDs f) = drop (length xs - 49) (x # xs)"
    using assms(3) by (simp add: last_n_def f drop_append)
  moreover have "x \<notin> set (drop (length xs - 49) (x # xs))"
    using assms(3,4) f by (auto simp: drop_Cons' dest: in_set_dropD)
  ultimately show ?thesis
    using assms(1,5,6) by (simp add: PendingInputs_def completed_queue [OF assms(1,2)] f max_processed_ids_def)
qed

section \<open>What a completion writes\<close>

definition records_once :: "('w \<Rightarrow> key \<Rightarrow> string list) \<Rightarrow> key \<Rightarrow> string \<Rightarrow> 'w \<Rightarrow> 'w \<Rightarrow> bool" where
  "records_once ids k i w w' \<longleftrightarrow> ids w' = ids w \<or> (i \<notin> set (ids w k) \<and> ids w' = (ids w)(k := ids w k @ [i]))"

lemma complete_closure_alt: "complete_closure now stamp d reported hold missed
    = (\<lambda>u c. (decided now stamp d reported hold missed c, Inr (completed now stamp d reported hold c)))"
  by (simp add: complete_closure_def fun_eq_iff)

context run_store begin

lemma recordRun_step:
  assumes "recordRun sv k run w = (w', e)" and "ok w" "sv_Store sv = s"
  shows "ok w' \<and> cur w' = cur w \<and> records_once ids k (run_RunID run) w w' \<and> (e = None \<longrightarrow> run_RunID run \<in> set (ids w' k))"
proof -
  obtain w1 x where l: "st_ListRuns s w k = (w1, x)" by fastforce
  note keep = runs_keep [OF assms(2) l] runs_ids [OF assms(2) l]
  show ?thesis
  proof (cases x)
    case (Inl er)
    with assms(1,3) l keep show ?thesis by (auto simp: recordRun_def records_once_def)
  next
    case (Inr rs)
    have rs: "map run_RunID rs = ids w k" by (rule runs_are [OF assms(2) l [unfolded Inr]])
    then have hit: "list_ex (\<lambda>u. run_RunID u = run_RunID run) rs \<longleftrightarrow> run_RunID run \<in> set (ids w k)"
      unfolding rs [symmetric] list_ex_iff set_map image_iff by (auto intro: sym)
    show ?thesis
    proof (cases "run_RunID run \<in> set (ids w k)")
      case True
      with assms(1,3) l Inr hit keep show ?thesis by (auto simp: recordRun_def records_once_def)
    next
      case False
      obtain w2 z where a: "st_AppendRun s w1 k run = (w2, z)" by fastforce
      have "ok w1" using keep(1) by simp
      from append_run [OF this a] have step: "ok w2 \<and> cur w2 = cur w \<and> (case z of Inl _ \<Rightarrow> ids w2 = ids w
          | Inr _ \<Rightarrow> ids w2 = (ids w)(k := ids w k @ [run_RunID run]))"
        unfolding keep(2) by (simp add: keep(1))
      from assms(1,3) l Inr hit False a have "w' = w2" "e = (case z of Inl e \<Rightarrow> Some e | Inr _ \<Rightarrow> None)"
        by (auto simp: recordRun_def split: sum.splits)
      with step False show ?thesis by (cases z) (auto simp: records_once_def)
    qed
  qed
qed

text \<open>The write of a completion, and what follows it.\<close>

lemma complete_write_stays:
  assumes "Mutate s k (complete_closure now stamp d reported hold missed) c w = (w', c', x)" and "ok w"
  shows "stays cur (\<lambda>v. ok v \<and> ids v = ids w) w w'"
proof -
  note h = with_history [of "ids w"]
  show ?thesis
    by (rule reading_store.Mutate_stays [OF h assms(1) [unfolded complete_closure_alt] _ completed_closes_or_keeps])
      (use assms(2) in simp)
qed

text \<open>An accepted completion went through each of its writes.\<close>

lemma write_done_Done:
  assumes "write_done n sv d hold now u latency missed ((w, q), b) = Some (((w', q'), b'), Done)" and "sv_Store sv = s"
  obtains w3 reported w4 exceeded desired r w5 where "recordRun sv (wd_Convo d) u w = (w3, None)"
    "Mutate s (wd_Convo d) (complete_closure now (sv_Now sv w3 1) d reported hold missed) (False, PhaseIdle) w3
       = (w4, (exceeded, desired), Inr r)"
    "setPhaseUnlessClosed sv (wd_Convo d) desired w4 = (w5, None)"
    "after_done n sv d u latency exceeded r (w5, q) = Some (w', q')"
  using assms unfolding write_done_def Let_def by (auto split: prod.splits option.splits sum.splits)

lemma write_done_step:
  assumes run: "write_done n sv d hold now u latency missed ((w, q), b) = Some (((w', q'), b'), ans)" and ok: "ok w"
    and sv: "sv_Store sv = s" and rs: "\<And>r. sv_Router sv = Some r \<Longrightarrow> ro_Store r = s"
  shows "stays cur ok w w' \<and> records_once ids (wd_Convo d) (run_RunID u) w w' \<and> (ans = Done \<longrightarrow> run_RunID u \<in> set (ids w' (wd_Convo d)))"
proof -
  let ?k = "wd_Convo d"
  let ?R = "\<lambda>R v. ok v \<and> ids v = R"
  obtain w3 e3 where rr: "recordRun sv ?k u w = (w3, e3)" by fastforce
  from recordRun_step [OF rr ok sv]
  have three: "stays cur ok w w3" "records_once ids ?k (run_RunID u) w w3" "e3 = None \<Longrightarrow> run_RunID u \<in> set (ids w3 ?k)"
    by (simp_all add: stays_same)
  have later: ?thesis if "stays cur (?R (ids w3)) w3 w'" "e3 = None"
  proof -
    from that(1) have "stays cur ok w3 w'" "ids w' = ids w3" by (simp_all add: stays_def)
    with three that(2) stays_trans [OF three(1)] show ?thesis by (simp add: records_once_def)
  qed
  show ?thesis
  proof (cases e3)
    case (Some e)
    with run rr have "w' = w3" "ans \<noteq> Done" by (auto simp: write_done_def)
    with three show ?thesis by simp
  next
    case None
    let ?rep = "if wd_RuntimeContextID d = [] then wd_SessionID d else wd_RuntimeContextID d"
    obtain w4 dec x where m: "Mutate s ?k (complete_closure now (sv_Now sv w3 1) d ?rep hold missed) (False, PhaseIdle) w3
        = (w4, dec, x)" by (metis prod_cases3)
    have four: "stays cur (?R (ids w3)) w3 w4" by (rule complete_write_stays [OF m stays_ok [OF three(1)]])
    show ?thesis
    proof (cases x)
      case (Inl e)
      with run rr None m sv have "w' = w4" by (auto simp: write_done_def Let_def split: prod.splits)
      with later four None show ?thesis by simp
    next
      case (Inr conv')
      obtain exceeded desired where dec: "dec = (exceeded, desired)" by fastforce
      obtain w5 e5 where sp: "setPhaseUnlessClosed sv ?k desired w4 = (w5, e5)" by fastforce
      have "stays cur (?R (ids w3)) w4 w5"
        by (rule reading_store.setPhaseUnlessClosed_stays [OF with_history sp stays_ok [OF four] sv])
      note five = stays_trans [OF four this]
      show ?thesis
      proof (cases e5)
        case (Some e)
        with run rr None m sv Inr dec sp have "w' = w5" by (auto simp: write_done_def Let_def)
        with later five None show ?thesis by simp
      next
        case N: None
        from run rr None m sv Inr dec sp N have "after_done n sv d u latency exceeded conv' (w5, q) = Some (w', q')"
          by (auto simp: write_done_def Let_def)
        from reading_store.after_done_stays [OF with_history this stays_ok [OF five] sv rs]
        have "stays cur (?R (ids w3)) w5 w'" .
        with later stays_trans [OF five] None show ?thesis by simp
      qed
    qed
  qed
qed

lemma complete_run_step:
  assumes run: "complete_run n sv d conv hold now ((w, q), b) = Some (((w', q'), b'), ans)" and ok: "ok w"
    and sv: "sv_Store sv = s" and rs: "\<And>r. sv_Router sv = Some r \<Longrightarrow> ro_Store r = s"
  shows "stays cur ok w w' \<and> records_once ids (wd_Convo d) (wd_RunID d) w w' \<and> (ans = Done \<longrightarrow> wd_RunID d \<in> set (ids w' (wd_Convo d)))"
proof -
  let ?R = "\<lambda>R v. ok v \<and> ids v = R"
  obtain w1 recs startedAt latency ev where rt: "read_turn sv conv d hold now w = (w1, recs, startedAt, latency, ev)"
    by (metis surj_pair)
  define u where "u = done_run d startedAt now recs"
  have uid: "run_RunID u = wd_RunID d" by (simp add: u_def done_run_def)
  have "?R (ids w) w1 \<and> cur w1 = cur w"
    by (rule reading_store.read_turn_keeps [OF with_history rt]) (simp_all add: ok sv)
  then have one: "stays cur ok w w1" "ids w1 = ids w" by (simp_all add: stays_same)
  from run rt u_def obtain w2 q2 missed where j: "judge n sv conv d (run_Result u) ev recs (w1, q) = Some ((w2, q2), missed)"
    and rest: "write_done n sv d hold now u latency missed ((w2, q2), b) = Some (((w', q'), b'), ans)"
    by (auto simp: complete_run_def Let_def split: option.splits)
  have "stays cur (?R (ids w)) w1 w2"
    by (rule reading_store.judge_stays [OF with_history j]) (use one stays_ok sv rs in auto)
  then have two: "stays cur ok w w2" "ids w2 = ids w" using stays_trans [OF one(1)] by (auto simp: stays_def)
  from write_done_step [OF rest stays_ok [OF two(1)] sv rs] stays_trans [OF two(1)] two(2) uid
  show ?thesis by (simp add: records_once_def)
qed

lemma handleWorkDone_step:
  assumes "handleWorkDone n sv d ((w, q), b) = Some (((w', q'), b'), ans)" and "ok w"
    and "sv_Store sv = s" "\<And>r. sv_Router sv = Some r \<Longrightarrow> ro_Store r = s"
  shows "stays cur ok w w' \<and> records_once ids (wd_Convo d) (wd_RunID d) w w' \<and> (ans = Done \<longrightarrow> wd_RunID d \<in> set (ids w' (wd_Convo d)))"
proof (cases "validateReport d")
  case (Some e)
  with assms(1,2) show ?thesis by (auto simp: handleWorkDone_def records_once_def intro: stays_same)
next
  case None
  obtain w1 x where g: "st_Get s w (wd_Convo d) = (w1, x)" by fastforce
  note keep = get_keeps [OF assms(2) g] get_ids [OF assms(2) g]
  have one: "stays cur ok w w1" using keep by (simp add: stays_same)
  show ?thesis
  proof (cases x)
    case (Inl e)
    with None assms(1,3) g have "w' = w1" "ans \<noteq> Done" by (auto simp: handleWorkDone_def)
    with one keep show ?thesis by (simp add: records_once_def)
  next
    case (Inr p)
    obtain conv v where p: "p = (conv, v)" by fastforce
    from None assms(1,3) g Inr p obtain hold b1
      where "complete_run n sv d conv hold (sv_Now sv w1 0) ((w1, q), b1) = Some (((w', q'), b'), ans)"
      by (auto simp: handleWorkDone_def Let_def split: prod.splits if_splits)
    from complete_run_step [OF this stays_ok [OF one] assms(3,4)] stays_trans [OF one] keep(2)
    show ?thesis by (auto simp: records_once_def)
  qed
qed

text \<open>A report on a run that is not in flight, on a root bound to no channel: the turn is counted.\<close>

lemma write_done_counts:
  assumes run: "write_done n sv d hold now u latency missed ((w, q), b) = Some (((w', q'), b'), Done)" and ok: "ok w"
    and sv: "sv_Store sv = s" and c: "cur w (wd_Convo d) = Some c"
    and root: "cr_ChannelRefs c = []" "cr_CausedBy c = None" and bd: "cr_Budget c = Some bd"
    and below: "bd_MaxTurns bd \<le> 0 \<or> bd_Turns bd + 1 < bd_MaxTurns bd"
  shows "cur w' (wd_Convo d) = None
    \<or> (\<exists>c'. cur w' (wd_Convo d) = Some c' \<and> cr_Budget c' = Some (bd\<lparr>bd_Turns := bd_Turns bd + 1\<rparr>))"
proof -
  let ?k = "wd_Convo d"
  from write_done_Done [OF run sv] obtain w3 rep w4 exceeded desired r w5 where rr: "recordRun sv ?k u w = (w3, None)"
    and m: "Mutate s ?k (complete_closure now (sv_Now sv w3 1) d rep hold missed) (False, PhaseIdle) w3
       = (w4, (exceeded, desired), Inr r)"
    and sp: "setPhaseUnlessClosed sv ?k desired w4 = (w5, None)" and ad: "after_done n sv d u latency exceeded r (w5, q) = Some (w', q')"
    by blast
  note three = recordRun_step [OF rr ok sv]
  have id: "same_identity a (completed now (sv_Now sv w3 1) d rep hold a)" for a
    using completed_closes_or_keeps [of now "sv_Now sv w3 1" d rep hold] by (simp add: closes_or_keeps_def)
  from Mutate_closure [OF m [unfolded complete_closure_alt] _ id] three c
  have four: "ok w4" "r = completed now (sv_Now sv w3 1) d rep hold c" "decided now (sv_Now sv w3 1) d rep hold missed c = (exceeded, desired)"
    "cur w4 ?k = Some r \<or> cur w4 ?k = None" by auto
  have bud: "cr_Budget r = Some (bd\<lparr>bd_Turns := bd_Turns bd + 1\<rparr>)" "cr_ChannelRefs r = []" "cr_CausedBy r = None"
    using bd root four(2) by (simp_all add: completed_def reported_on_def Let_def applyReport_queue applyReport_root)
  with four(2,3) below have ex: "\<not> exceeded" by (auto simp: decided_def Let_def)
  have "ok w5" using stays_ok [OF setPhaseUnlessClosed_stays [OF sp four(1) sv]] .
  moreover obtain w6 q6 where e: "emitRunCalls sv r (pipelineName sv r w5) d (w5, q) = (w6, q6)" by fastforce
  moreover have "w' = w6" using ad e bud(2,3) ex by (auto simp: after_done_def Let_def split: option.splits)
  ultimately have w: "cur w' = cur w5" using emitRunCalls_keeps [OF e _ sv] by simp
  obtain y where ph: "Mutate s ?k (\<lambda>u c. (u, Inr (phase_unless_closed desired c))) () w4 = (w5, (), y)"
    using sp sv by (auto simp: setPhaseUnlessClosed_def split: prod.splits sum.splits)
  have "same_identity a (phase_unless_closed desired a)" for a by (simp add: phase_unless_closed_def same_identity_def)
  from Mutate_quiet [OF ph four(1) this] four(4) bud(1) show ?thesis
    by (cases y) (auto simp: w phase_unless_closed_def)
qed

lemma stale_report_counts:
  assumes run: "handleWorkDone n sv d ((w, q), b) = Some (((w', q'), b'), Done)" and ok: "ok w"
    and sv: "sv_Store sv = s" and c: "cur w (wd_Convo d) = Some c" "\<not> is_inflight (wd_RunID d) c"
    and root: "cr_ChannelRefs c = []" "cr_CausedBy c = None" and bd: "cr_Budget c = Some bd"
    and below: "bd_MaxTurns bd \<le> 0 \<or> bd_Turns bd + 1 < bd_MaxTurns bd"
  shows "cur w' (wd_Convo d) = None
    \<or> (\<exists>c'. cur w' (wd_Convo d) = Some c' \<and> cr_Budget c' = Some (bd\<lparr>bd_Turns := bd_Turns bd + 1\<rparr>))"
proof -
  obtain w1 x where g: "st_Get s w (wd_Convo d) = (w1, x)" by fastforce
  note keep = get_keeps [OF ok g]
  from run sv g obtain v conv hold b1 where x: "x = Inr (conv, v)"
    and cr: "complete_run n sv d conv hold (sv_Now sv w1 0) ((w1, q), b1) = Some (((w', q'), b'), Done)"
    by (auto simp: handleWorkDone_def Let_def split: option.splits sum.splits prod.splits)
  from get_hit [OF ok g [unfolded x]] c(1) have conv: "conv = c" by simp
  let ?ev = "\<lparr>te_Dispatched = False, te_Moved = False\<rparr>"
  have rt: "read_turn sv c d hold now w = (w, [], None, 0, ?ev)" for now w
    using c(2) by (auto simp: read_turn_def is_inflight_def split: option.split)
  have j: "judge n sv c d res ?ev [] st = Some (st, False)" for res st
    by (auto simp: judge_def judgeRootTurn_def actOnMiss_def split: option.split)
  from cr conv rt j obtain u where "write_done n sv d hold (sv_Now sv w1 0) u 0 False ((w1, q), b1) = Some (((w', q'), b'), Done)"
    by (auto simp: complete_run_def Let_def)
  from write_done_counts [OF this _ sv _ root bd below] keep c(1) show ?thesis by simp
qed

end

section \<open>What a poll hands out\<close>

lemma toolsets_of_done: "toolsets_of sv c refs w = (w', c', Inr x) \<Longrightarrow> w' = w \<and> c' = c"
  by (induction refs arbitrary: x) (auto simp: Let_def split: sum.splits prod.splits)

lemma effectiveTooling_done: "effectiveTooling sv c w = (w', c', Inr x) \<Longrightarrow> w' = w \<and> c' = c"
  by (auto simp: effectiveTooling_def resolveToolsets_def dest: toolsets_of_done split: prod.splits sum.splits option.splits)

lemma dispatched_keeps: "same_identity c (dispatched now pod u ids c)"
  by (simp add: same_identity_def dispatched_def Let_def)

lemma dispatched_fields:
  "cr_Phase (dispatched now pod u ids c) = PhaseWorking" "cr_ClosedAt (dispatched now pod u ids c) = cr_ClosedAt c"
  "cr_Inputs (dispatched now pod u ids c) = cr_Inputs c"
  "cr_Inflight (dispatched now pod u ids c)
     = Some \<lparr>if_RunID = wu_RunID u, if_InputIDs = ids, if_DispatchedAt = now, if_Moved = False\<rparr>"
  by (simp_all add: dispatched_def Let_def)

context revision_store begin

lemma dispatch_unit_served:
  assumes "dispatch_unit sv pod (rv w (cr_Name c)) c profile tools ctx (w, q) = ((w', q'), Inr (Some u))" and "ok w"
    and "sv_Store sv = s" and "cur w (cr_Name c) = Some c"
  shows "\<exists>ids now. dispatchable c \<and> unit_takes c u ids \<and> wu_Convo u = cr_Name c
    \<and> (cur w' = (cur w)(cr_Name c \<mapsto> dispatched now pod u ids c) \<or> cur w' = (cur w)(cr_Name c := None))"
proof -
  obtain w1 x where n: "Next (sv_Templates sv) c profile tools (resolvePayload sv) (sv_Now sv w 0) ctx w = (w1, x)" by fastforce
  let ?P = "\<lambda>v. ok v \<and> cur v = cur w \<and> rv v = rv w"
  have keep: "?P w1"
  proof (rule Next_reads [OF _ n])
    fix v i v' y assume "?P v" "resolvePayload sv v i = (v', y)"
    then show "?P v'" using assms(3) blob_keeps [of v "in_PayloadRef i"] blob_keeps_rv [of v "in_PayloadRef i"]
      by (auto simp: resolvePayload_def split: if_splits prod.splits sum.splits)
  qed (use assms(2) in simp)
  from assms(1) n obtain ids where x: "x = Inr (Some (u, ids))"
    by (auto simp: dispatch_unit_def Let_def split: sum.splits option.splits prod.splits if_splits)
  define c' where "c' = dispatched (sv_Now sv w1 1) pod u ids c"
  have name: "cr_Name c' = cr_Name c" using dispatched_keeps by (simp add: c'_def same_identity_def)
  obtain w2 z where up: "st_Update s w1 (cr_Name c) (rv w (cr_Name c)) c' = (w2, z)" by fastforce
  from assms(1,3) n x up [unfolded c'_def] name [unfolded c'_def] obtain v' where z: "z = Inr v'" "w' = w2"
    by (auto simp: dispatch_unit_def Let_def split: sum.splits if_splits)
  have "same_identity c c'" by (simp add: c'_def dispatched_keeps)
  from update_at [of w1 "cr_Name c" c c' w2 z] this keep up assms(4) z
  have "cur w2 = (cur w)(cr_Name c \<mapsto> c') \<or> cur w2 = (cur w)(cr_Name c := None)" by auto
  with Next_takes [OF n [unfolded x]] Next_idle [of c "sv_Templates sv" profile tools "resolvePayload sv" "sv_Now sv w 0" ctx w] n x z
  show ?thesis unfolding dispatchable_def c'_def by (cases "cr_Inflight c \<noteq> None \<or> PendingInputs c = []") auto
qed

lemma tryDispatch_served:
  assumes "tryDispatch sv k pod ((w, q), b) = (((w', q'), b'), Inr (Some u))" and "ok w" and "sv_Store sv = s"
  shows "\<exists>c ids now. cur w k = Some c \<and> dispatchable c \<and> unit_takes c u ids \<and> wu_Convo u = k
    \<and> (cur w' = (cur w)(k \<mapsto> dispatched now pod u ids c) \<or> cur w' = (cur w)(k := None))"
proof -
  obtain w1 x where g: "st_Get s w k = (w1, x)" by fastforce
  note keep = get_keeps [OF assms(2) g] get_keeps_rv [OF assms(2) g]
  from assms(1,3) g obtain c v where x: "x = Inr (c, v)" by (auto simp: tryDispatch_def split: sum.splits)
  note hit = get_hit [OF assms(2) g [unfolded x]] get_rv [OF assms(2) g [unfolded x]]
  from named [OF assms(2) hit(1)] have k: "cr_Name c = k" .
  obtain w2 c2 t where e: "effectiveTooling sv c w1 = (w2, c2, t)" by (metis prod_cases3)
  from assms(1,3) g x e obtain profile tools where t: "t = Inr tools" "sv_Profile sv w1 (cr_ProfileRef c) = Inr profile"
    by (auto simp: tryDispatch_def split: sum.splits if_splits)
  from effectiveTooling_done [OF e [unfolded t]] have same: "w2 = w1" "c2 = c" by simp_all
  obtain w3 y where r: "resolve_backend sv c w1 = (w3, y)" by fastforce
  from assms(1,3) g x e t same r obtain res where y: "y = Inr res"
    by (auto simp: tryDispatch_def split: sum.splits if_splits)
  have p: "ok w3 \<and> cur w3 = cur w \<and> rv w3 = rv w"
    by (rule ResolveFor_reads [where P = "\<lambda>v. ok v \<and> cur v = cur w \<and> rv v = rv w", OF _ r [unfolded resolve_backend_def assms(3)]])
      (use keep get_keeps get_keeps_rv in auto)
  from assms(1,3) g x e t same r y obtain ctx where d: "dispatch_unit sv pod v c profile tools ctx (w3, q) = ((w', q'), Inr (Some u))"
    by (auto simp: tryDispatch_def Let_def split: prod.splits if_splits)
  from dispatch_unit_served [of sv pod w3 c profile tools ctx q w' q' u] d hit p k assms(3)
  show ?thesis by auto
qed

end

section \<open>A sample server\<close>

definition sample_profile :: AgentProfile where
  "sample_profile = \<lparr>ap_Name = ''p'', ap_Agent = ''a'', ap_Prompt = [], ap_ReplyPrompt = [], ap_SystemPrompt = [],
     ap_OutputFormat = [], ap_MaxTurns = 0, ap_RuntimeRef = None\<rparr>"

definition sample_server :: "memStore Router option \<Rightarrow> memStore Server" where
  "sample_server r = \<lparr>sv_Store = mem_Store, sv_Client = no_api, sv_Reader = no_api, sv_Channel = (\<lambda>w n. None),
     sv_Profile = (\<lambda>w n. Inr sample_profile), sv_Toolset = (\<lambda>w n. Inl ErrNotFound), sv_AgentRuntime = (\<lambda>w n. Inl ErrNotFound),
     sv_Templates = \<lparr>tm_task = [], tm_investigate = [], tm_reply = [], tm_coordinate = [], tm_format = []\<rparr>,
     sv_Runtime = bare_config, sv_Router = r, sv_Now = (\<lambda>w n. 9)\<rparr>"

definition a_task :: InputItem where
  "a_task = \<lparr>in_ID = ''t'', in_Type = InputTask, in_Agent = [], in_Payload = ''go'', in_PayloadRef = [], in_Origin = None,
     in_ReceivedAt = 5\<rparr>"

text \<open>A closed conversation with a task left in its queue; and a closed root that counts its turns.\<close>

definition closed_with_task :: ConversationRecord where
  "closed_with_task = (tree_conv ''k'' None)\<lparr>cr_Phase := PhaseClosed, cr_ClosedAt := Some 5, cr_Inputs := [a_task], cr_ProfileRef := ''p''\<rparr>"

definition counted_root :: ConversationRecord where
  "counted_root = (tree_conv ''k'' None)\<lparr>cr_Phase := PhaseClosed, cr_Budget := Some \<lparr>bd_MaxAgents = 9, bd_MaxTurns = 9, bd_Deadline = None,
     bd_AgentsInvoked = 0, bd_Turns = 1\<rparr>\<rparr>"

definition a_report :: workDone where
  "a_report = \<lparr>wd_Convo = ''k'', wd_RunID = ''1'', wd_Status = ''succeeded'', wd_ExitCode = None, wd_RuntimeContextID = [],
     wd_SessionID = [], wd_Continuity = [], wd_ContinuityReason = [], wd_Result = ''ok'', wd_Brief = [], wd_Turns = [],
     wd_ToolCalls = []\<rparr>"

lemma closed_with_task_ok: "mem_ok (mem_of [closed_with_task])" "mem_cur (mem_of [closed_with_task]) ''k'' = Some closed_with_task"
  by (simp_all add: mem_ok_def mem_cur_def closed_with_task_def tree_eval expired_def)

lemma sample_server_fields [simp]:
  "sv_Store (sample_server r) = mem_Store" "sv_Router (sample_server r) = r" "sv_Now (sample_server r) w i = 9"
  "sv_Profile (sample_server r) w n = Inr sample_profile" "sv_Client (sample_server r) = no_api"
  by (simp_all add: sample_server_def)

lemma acting_root: "cr_CausedBy c = None \<Longrightarrow> resolveActingCoordinatorBestEffort s c w = (w, cr_CoordinatorRef c)"
  by (simp add: resolveActingCoordinatorBestEffort_def pod_ActingCoordinator_def walk_limit_def numeral_eq_Suc)

lemma sample_backend: "cr_CausedBy c = None \<Longrightarrow> cr_RuntimeRef c = [] \<Longrightarrow> cr_ProfileRef c = ''p''
    \<Longrightarrow> \<exists>res. resolve_backend (sample_server r) c w = (w, Inr res)"
  by (simp add: resolve_backend_def sample_server_def ResolveFor_def runtimeNameFor_def deprecatedProfileRuntime_def
      no_api_def acting_root Let_def)

lemma sample_poll: "\<exists>w' q' b' u. tryDispatch (sample_server None) ''k'' ''pod'' ((mem_of [closed_with_task], NewQueue None), b)
    = (((w', q'), b'), Inr (Some u)) \<and> mem_cur w' ''k'' \<noteq> None"
proof -
  let ?sv = "sample_server None"
  have c: "cr_CausedBy closed_with_task = None" "cr_RuntimeRef closed_with_task = []" "cr_ProfileRef closed_with_task = ''p''"
    "cr_ChannelRefs closed_with_task = []" "cr_Toolsets closed_with_task = None" "cr_RuntimeContextID closed_with_task = []"
    "cr_Inflight closed_with_task = None" "PendingInputs closed_with_task = [a_task]"
    by (simp_all add: closed_with_task_def tree_eval PendingInputs_def)
  let ?w = "mem_of [closed_with_task]"
  have g: "mem_Get ?w ''k'' = (?w, Inr (closed_with_task, itoa 1))"
    by (simp add: mem_eval closed_with_task_def tree_eval)
  obtain res where r: "resolve_backend ?sv closed_with_task ?w = (?w, Inr res)" using sample_backend [OF c(1-3)] by blast
  have t: "effectiveTooling ?sv closed_with_task ?w = (?w, closed_with_task, Inr \<lparr>tg_AllowedTools = EffectiveAllowedTools [],
      tg_Mode = ToolsModeOfRecord None\<rparr>)" by (simp add: effectiveTooling_def resolveToolsets_def c)
  let ?tools = "\<lparr>tg_AllowedTools = EffectiveAllowedTools [], tg_Mode = ToolsModeOfRecord None\<rparr>"
  obtain u ids where n: "Next (sv_Templates ?sv) closed_with_task sample_profile ?tools (resolvePayload ?sv) 9 [] ?w = (?w, Inr (Some (u, ids)))"
    by (auto simp: Next_def c a_task_def single_unit_def resolvePayload_def Let_def)
  let ?c = "dispatched 9 ''pod'' u ids closed_with_task"
  obtain w' v where up: "mem_Update ?w (cr_Name ?c) (itoa 1) ?c = (w', Inr v)"
    by (simp add: mem_eval closed_with_task_def tree_eval dispatched_def Let_def)
  obtain q' where "dispatch_unit ?sv ''pod'' (itoa 1) closed_with_task sample_profile ?tools [] (?w, NewQueue None) = ((w', q'), Inr (Some u))"
    by (simp add: dispatch_unit_def n up Let_def mem_Store_def)
  moreover have "mem_cur w' ''k'' \<noteq> None"
    using up by (auto simp: mem_eval closed_with_task_def tree_eval dispatched_def Let_def mem_cur_def)
  moreover have "ContextID closed_with_task = []" by (simp add: ContextID_def closed_with_task_def tree_eval)
  ultimately show ?thesis
    by (simp add: tryDispatch_def mem_Store_def g r c t Let_def)
qed

section \<open>Dispatch\<close>

text \<open>
  A poll hands out a unit only for a conversation with no run in flight and something pending; the unit takes
  the next of it, and the record stored before it is handed out says so: the run in flight is the unit, with exactly
  the inputs it took, and nothing else in the store changed.
\<close>

theorem dispatch_is_recorded:
  assumes "revision_store s cur ok ids rv" and "sv_Store sv = s" and "ok w"
    and "tryDispatch sv k pod ((w, q), b) = (((w', q'), b'), Inr (Some u))"
  shows "\<exists>c taken. cur w k = Some c \<and> dispatchable c \<and> unit_takes c u taken \<and> wu_Convo u = k
    \<and> (cur w' = (cur w)(k := None) \<or> (\<exists>c' f. cur w' = (cur w)(k \<mapsto> c') \<and> cr_Inputs c' = cr_Inputs c \<and> cr_Inflight c' = Some f
         \<and> if_RunID f = wu_RunID u \<and> if_InputIDs f = taken \<and> \<not> if_Moved f \<and> cr_Phase c' = PhaseWorking))"
proof -
  from revision_store.tryDispatch_served [OF assms(1,4,3,2)] obtain c taken now where *: "cur w k = Some c" "dispatchable c"
    "unit_takes c u taken" "wu_Convo u = k"
    "cur w' = (cur w)(k \<mapsto> dispatched now pod u taken c) \<or> cur w' = (cur w)(k := None)" by blast
  show ?thesis
    by (rule exI [of _ c], rule exI [of _ taken], intro conjI)
      (use * dispatched_fields [of now pod u taken c] in fastforce)+
qed

theorem dispatch_is_recorded_witness:
  "\<exists>w' q' b' u. tryDispatch (sample_server None) ''k'' ''pod'' ((mem_of [closed_with_task], NewQueue None), Breaker_New)
     = (((w', q'), b'), Inr (Some u)) \<and> (\<exists>c f. mem_cur w' ''k'' = Some c \<and> cr_Inflight c = Some f
         \<and> if_RunID f = wu_RunID u)"
proof -
  obtain w' q' b' u where t: "tryDispatch (sample_server None) ''k'' ''pod'' ((mem_of [closed_with_task], NewQueue None), Breaker_New)
     = (((w', q'), b'), Inr (Some u))" and k: "mem_cur w' ''k'' \<noteq> None" using sample_poll [of Breaker_New] by blast
  with dispatch_is_recorded [OF mem_runs.revision_store_axioms sample_server_fields(1) closed_with_task_ok(1) t] k show ?thesis by fastforce
qed

text \<open>
  A poll does not ask whether the conversation is closed. When one still polls for it and an input is left, the
  input is dispatched and the conversation is Working again, with the instant of its closing still on the record.
\<close>

theorem a_poll_reopens_a_closed_conversation:
  assumes "revision_store s cur ok ids rv" and "sv_Store sv = s" and "ok w" and "cur w k = Some c" "cr_Phase c = PhaseClosed"
    and "tryDispatch sv k pod ((w, q), b) = (((w', q'), b'), Inr (Some u))" and "cur w' k \<noteq> None"
  shows "\<exists>c'. cur w' k = Some c' \<and> cr_Phase c' = PhaseWorking \<and> cr_ClosedAt c' = cr_ClosedAt c"
proof -
  from revision_store.tryDispatch_served [OF assms(1,6,3,2)] assms(4,7) obtain taken now
    where "cur w' = (cur w)(k \<mapsto> dispatched now pod u taken c)" by auto
  then show ?thesis by (simp add: dispatched_fields)
qed

section \<open>Completion\<close>

text \<open>
  A report closes and never reopens, however late it comes: over a store nobody else writes, whatever the
  handler answers, every conversation there afterwards was there before, under the same parent, and is closed when
  it was closed. A correction, an escalation, a delivery and a spent budget are all part of the step.
\<close>

theorem a_late_report_reopens_nothing:
  assumes "run_store s cur ok ids" and "sv_Store sv = s" and "\<forall>r. sv_Router sv = Some r \<longrightarrow> ro_Store r = s" and "ok w"
    and "handleWorkDone n sv d ((w, q), b) = Some (((w', q'), b'), ans)"
  shows "ok w' \<and> only_closes cur w w'"
proof -
  have "\<And>r. sv_Router sv = Some r \<Longrightarrow> ro_Store r = s" using assms(3) by blast
  from run_store.handleWorkDone_step [OF assms(1,5,4,2) this] show ?thesis by (simp add: stays_def)
qed


text \<open>
  What is recorded once is counted every time: an accepted report on a run that is already in the history of a
  root and no longer in flight adds another turn to its budget.
\<close>

theorem a_repeated_report_counts_another_turn:
  assumes "run_store s cur ok ids" and "sv_Store sv = s" and "\<forall>r. sv_Router sv = Some r \<longrightarrow> ro_Store r = s" and "ok w"
    and "handleWorkDone n sv d ((w, q), b) = Some (((w', q'), b'), Done)"
    and "cur w (wd_Convo d) = Some c" "\<not> is_inflight (wd_RunID d) c" "wd_RunID d \<in> set (ids w (wd_Convo d))"
    and "cr_ChannelRefs c = []" "cr_CausedBy c = None" and "cr_Budget c = Some bd"
    and "bd_MaxTurns bd \<le> 0 \<or> bd_Turns bd + 1 < bd_MaxTurns bd"
  shows "ids w' = ids w \<and> (cur w' (wd_Convo d) = None
    \<or> (\<exists>c'. cur w' (wd_Convo d) = Some c' \<and> cr_Budget c' = Some (bd\<lparr>bd_Turns := bd_Turns bd + 1\<rparr>)))"
proof -
  have "\<And>r. sv_Router sv = Some r \<Longrightarrow> ro_Store r = s" using assms(3) by blast
  from run_store.handleWorkDone_step [OF assms(1,5,4,2) this] assms(8) have "ids w' = ids w" by (auto simp: records_once_def)
  with run_store.stale_report_counts [OF assms(1,5,4,2,6,7) assms(9-12)] show ?thesis by simp
qed

text \<open>The sample report on a run the history of a closed root already holds.\<close>

definition reported_twice :: memStore where
  "reported_twice = (mem_of [counted_root])\<lparr>mem_runs := [(''k'', [done_run a_report None 3 []])]\<rparr>"

lemma reported_twice_ok: "mem_ok reported_twice" "mem_cur reported_twice ''k'' = Some counted_root"
  "''1'' \<in> set (mem_run_ids reported_twice ''k'')"
  by (simp_all add: mem_ok_def mem_cur_def mem_run_ids_def runs_of_def reported_twice_def counted_root_def tree_eval
      expired_def done_run_def a_report_def)

lemma sample_done: "\<exists>w' q' b'. handleWorkDone 0 (sample_server None) a_report ((reported_twice, NewQueue None), Breaker_New)
    = Some (((w', q'), b'), Done)"
proof -
  let ?sv = "sample_server None"
  let ?w = reported_twice
  have root: "cr_Inflight counted_root = None" "cr_CausedBy counted_root = None"
    by (simp_all add: counted_root_def tree_eval)
  have v: "validateReport a_report = None" by (simp add: reports_are_bounded a_report_def)
  have g: "mem_Get ?w ''k'' = (?w, Inr (counted_root, itoa 1))"
    by (simp add: mem_eval reported_twice_def counted_root_def tree_eval)
  let ?run = "done_run a_report None 9 []"
  have rr: "recordRun ?sv ''k'' ?run ?w = (?w, None)"
    by (simp add: recordRun_def mem_Store_def mem_ListRuns_def runs_of_def reported_twice_def done_run_def)
  define r where "r = completed 9 9 a_report [] False counted_root"
  define w1 where "w1 = reported_twice\<lparr>mem_records := [(''k'', r, 2)], mem_seq := 2\<rparr>"
  have r: "cr_Phase r = PhaseClosed" "cr_ExpiresAt r = None" "cr_DeletionRequestedAt r = None" "cr_ID r = []" "cr_CreatedAt r = 0"
    "r \<noteq> counted_root"
    by (simp_all add: r_def completed_def reported_on_def is_inflight_def applyReport_def continuity_condition_def a_report_def
        counted_root_def tree_eval Let_def)
  have up: "mem_Update ?w ''k'' (itoa 1) r = (w1, Inr (itoa 2))"
    using r by (simp add: mem_eval reported_twice_def w1_def tree_eval counted_root_def)
  obtain dec where m: "Mutate mem_Store ''k'' (complete_closure 9 9 a_report [] False False) (False, PhaseIdle) ?w = (w1, dec, Inr r)"
    using r(6) by (simp add: Mutate_def MutateMaxAttempts_def numeral_eq_Suc mem_Store_def g complete_closure_def
        r_def [symmetric] up)
  have g1: "mem_Get w1 ''k'' = (w1, Inr (r, itoa 2))"
    using r(2) by (simp add: mem_eval w1_def reported_twice_def tree_eval)
  obtain exceeded desired where dec: "dec = (exceeded, desired)" by fastforce
  have sp: "setPhaseUnlessClosed ?sv ''k'' desired w1 = (w1, None)"
    using g1 r(1) by (simp add: setPhaseUnlessClosed_def Mutate_def MutateMaxAttempts_def mem_Store_def phase_unless_closed_def numeral_eq_Suc)
  have "\<exists>q'. after_done 0 ?sv a_report ?run 0 exceeded r (w1, NewQueue None) = Some (w1, q')"
    by (simp add: after_done_def emitRunCalls_def a_report_def Let_def)
  then obtain q' where "write_done 0 ?sv a_report False 9 ?run 0 False ((?w, NewQueue None), Breaker_New) = Some (((w1, q'), Breaker_New), Done)"
    using rr m dec sp by (auto simp: write_done_def a_report_def Let_def)
  then show ?thesis
    using v g root by (simp add: handleWorkDone_def complete_run_def read_turn_def judge_def mem_Store_def a_report_def Let_def)
qed

theorem a_late_report_reopens_nothing_witness:
  "\<exists>w' q' b'. handleWorkDone 0 (sample_server None) a_report ((reported_twice, NewQueue None), Breaker_New)
    = Some (((w', q'), b'), Done) \<and> only_closes mem_cur reported_twice w'"
proof -
  obtain w' q' b' where t: "handleWorkDone 0 (sample_server None) a_report ((reported_twice, NewQueue None), Breaker_New)
    = Some (((w', q'), b'), Done)" using sample_done by blast
  from a_late_report_reopens_nothing [OF mem_runs.run_store_axioms sample_server_fields(1) _ reported_twice_ok(1) t] t
  show ?thesis by simp
qed


theorem a_repeated_report_counts_another_turn_witness:
  "\<exists>w' q' b'. handleWorkDone 0 (sample_server None) a_report ((reported_twice, NewQueue None), Breaker_New)
    = Some (((w', q'), b'), Done) \<and> mem_run_ids w' = mem_run_ids reported_twice
    \<and> (mem_cur w' ''k'' = None \<or> (\<exists>c bd. mem_cur w' ''k'' = Some c \<and> cr_Budget c = Some bd \<and> bd_Turns bd = 2))"
proof -
  obtain w' q' b' where t: "handleWorkDone 0 (sample_server None) a_report ((reported_twice, NewQueue None), Breaker_New)
    = Some (((w', q'), b'), Done)" using sample_done by blast
  have k: "wd_Convo a_report = ''k''" "wd_RunID a_report = ''1''" by (simp_all add: a_report_def)
  let ?bd = "\<lparr>bd_MaxAgents = 9, bd_MaxTurns = 9, bd_Deadline = None, bd_AgentsInvoked = 0, bd_Turns = 1\<rparr>"
  have c: "\<not> is_inflight ''1'' counted_root" "cr_ChannelRefs counted_root = []" "cr_CausedBy counted_root = None"
    "cr_Budget counted_root = Some ?bd" by (simp_all add: counted_root_def tree_eval is_inflight_def)
  have "mem_run_ids w' = mem_run_ids reported_twice \<and> (mem_cur w' ''k'' = None
      \<or> (\<exists>c'. mem_cur w' ''k'' = Some c' \<and> cr_Budget c' = Some (?bd\<lparr>bd_Turns := bd_Turns ?bd + 1\<rparr>)))"
    by (rule a_repeated_report_counts_another_turn [OF mem_runs.run_store_axioms sample_server_fields(1) _ reported_twice_ok(1) t,
          unfolded k, OF _ reported_twice_ok(2) c(1) reported_twice_ok(3) c(2-4)]) simp_all
  with t show ?thesis by fastforce
qed

theorem a_poll_reopens_a_closed_conversation_witness:
  "\<exists>w' q' b' u. tryDispatch (sample_server None) ''k'' ''pod'' ((mem_of [closed_with_task], NewQueue None), Breaker_New)
     = (((w', q'), b'), Inr (Some u)) \<and> cr_Phase closed_with_task = PhaseClosed
     \<and> (\<exists>c. mem_cur w' ''k'' = Some c \<and> cr_Phase c = PhaseWorking)"
proof -
  obtain w' q' b' u where t: "tryDispatch (sample_server None) ''k'' ''pod'' ((mem_of [closed_with_task], NewQueue None), Breaker_New)
     = (((w', q'), b'), Inr (Some u))" and k: "mem_cur w' ''k'' \<noteq> None" using sample_poll [of Breaker_New] by blast
  have c: "cr_Phase closed_with_task = PhaseClosed" by (simp add: closed_with_task_def)
  from a_poll_reopens_a_closed_conversation [OF mem_runs.revision_store_axioms sample_server_fields(1) closed_with_task_ok c t k] t c
  show ?thesis by blast
qed

section \<open>The long poll\<close>

text \<open>The instant at which the poll is, and that the deadline is met in time.\<close>

abbreviation at_now :: "'w Server \<Rightarrow> 'w serving \<Rightarrow> go_time" where
  "at_now sv st \<equiv> sv_Now sv (fst (fst st)) 0"

lemma poll_work_returns:
  assumes "\<And>st. at_now sv st \<le> at_now sv (fst (tryDispatch sv k pod st))"
    and "\<And>st st'. sleep st = Some st' \<Longrightarrow> at_now sv st + 2 * second \<le> at_now sv st'"
    and "deadline < at_now sv st + int n * (2 * second)"
  shows "poll_work (Suc n) sv sleep k pod deadline st \<noteq> None"
  using assms(3)
proof (induction n arbitrary: st)
  case 0
  obtain st1 x where t: "tryDispatch sv k pod st = (st1, x)" by fastforce
  with assms(1) [of st] 0 have "deadline < at_now sv st1" by simp
  with t show ?case by (simp del: not_None_eq split: sum.split option.split)
next
  case (Suc n)
  obtain st1 x where t: "tryDispatch sv k pod st = (st1, x)" by fastforce
  have le: "at_now sv st \<le> at_now sv st1" using assms(1) [of st] t by simp
  show ?case
  proof (cases "sleep st1")
    case None
    with t show ?thesis by (simp del: not_None_eq split: sum.split option.split)
  next
    case (Some st2)
    have "at_now sv st1 + 2 * second \<le> at_now sv st2" by (rule assms(2) [OF Some])
    with le Suc.prems have "deadline < at_now sv st2 + int n * (2 * second)" by (simp add: algebra_simps)
    note Suc.IH [OF this]
    with t Some show ?thesis by (simp del: not_None_eq poll_work.simps add: poll_work.simps(2) [of "Suc n"] split: sum.split option.split)
  qed
qed

text \<open>
  A long poll ends: where the clock never runs back and each pause takes its two seconds, seventeen rounds are
  enough for any wait asked for, because it is cut at thirty seconds.
\<close>

theorem a_long_poll_ends:
  assumes "\<forall>st. at_now sv st \<le> at_now sv (fst (tryDispatch sv k pod st))"
    and "\<forall>st st'. sleep st = Some st' \<longrightarrow> at_now sv st + 2 * second \<le> at_now sv st'"
  shows "handleWork 17 sv sleep k pod wait st \<noteq> None"
proof -
  have "poll_work (Suc 16) sv sleep k pod (at_now sv st + (if wait > 30 then 30 else wait) * second) st \<noteq> None"
    by (rule poll_work_returns [OF assms(1) [rule_format] assms(2) [rule_format]]) (simp_all add: second_def)
  then show ?thesis by (simp add: handleWork_def del: not_None_eq poll_work.simps)
qed

text \<open>A server whose clock is that of the store, polled for a conversation whose topic is not open yet.\<close>

definition waiting_server :: "memStore Server" where
  "waiting_server = (sample_server None)\<lparr>sv_Profile := \<lambda>w n. Inl ErrNotFound, sv_Now := \<lambda>w n. mem_now w,
     sv_Channel := \<lambda>w n. Some \<lparr>chn_Name = n, chn_Adapter = ''chat''\<rparr>\<rparr>"

definition two_seconds :: "memStore serving \<Rightarrow> memStore serving option" where
  "two_seconds st = (case st of ((m, q), b) \<Rightarrow> Some ((m\<lparr>mem_now := mem_now m + 2 * second\<rparr>, q), b))"

definition unopened :: ConversationRecord where
  "unopened = (tree_conv ''k'' None)\<lparr>cr_ChannelRefs := [''c''], cr_Inputs := [a_task]\<rparr>"

lemma waiting_clock: "at_now waiting_server (fst (tryDispatch waiting_server k pod st)) = at_now waiting_server st"
  by (auto simp: waiting_server_def tryDispatch_def mem_Store_def mem_Get_def sweepExpiredLocked_def Let_def
      split: prod.split sum.split option.split)

theorem a_long_poll_ends_witness:
  "\<exists>st' x. handleWork 17 waiting_server two_seconds ''k'' ''pod'' 60 ((mem_of [unopened], NewQueue None), Breaker_New) = Some (st', x)"
proof -
  have "handleWork 17 waiting_server two_seconds ''k'' ''pod'' 60 ((mem_of [unopened], NewQueue None), Breaker_New) \<noteq> None"
  proof (rule a_long_poll_ends)
    show "\<forall>st st'. two_seconds st = Some st' \<longrightarrow> at_now waiting_server st + 2 * second \<le> at_now waiting_server st'"
      by (auto simp: two_seconds_def waiting_server_def)
  qed (simp add: waiting_clock)
  then show ?thesis by simp
qed

section \<open>A long batch\<close>

definition long_batch :: "string list" where
  "long_batch = map (\<lambda>n. replicate n CHR ''x'') [0..<51]"

definition a_reply :: "string \<Rightarrow> InputItem" where
  "a_reply i = a_task\<lparr>in_ID := i, in_Type := InputReply\<rparr>"

definition batched :: ConversationRecord where
  "batched = (tree_conv ''k'' None)\<lparr>cr_Inputs := map a_reply long_batch,
     cr_Inflight := Some \<lparr>if_RunID = ''1'', if_InputIDs = long_batch, if_DispatchedAt = 5, if_Moved = False\<rparr>\<rparr>"

theorem a_long_batch_is_answered_twice_witness:
  "a_reply [] \<notin> set (PendingInputs batched) \<and> a_reply [] \<in> set (PendingInputs (completed 9 9 a_report [] False batched))"
proof (rule a_long_batch_is_answered_twice)
  show "distinct (if_InputIDs \<lparr>if_RunID = ''1'', if_InputIDs = long_batch, if_DispatchedAt = 5, if_Moved = False\<rparr>)"
    by (simp add: long_batch_def distinct_map inj_on_def)
  have "[] \<in> set long_batch" by (auto simp: long_batch_def image_iff)
  then show "a_reply [] \<in> set (cr_Inputs batched)" by (simp add: batched_def)
qed (simp_all add: batched_def a_report_def long_batch_def a_reply_def hd_map)


end
