(* ===== verification/Pods.thy ===== *)
theory Pods
  imports Backend
begin

text \<open>
  The Kubernetes objects a worker is made of, with the fields the code reads or writes: a pod's specification
  (\<open>corev1.PodSpec\<close>, \<open>Container\<close>, \<open>Volume\<close>), its status, and a node. A \<open>*bool\<close> or \<open>*int64\<close> is an option;
  resource quantities are strings; the source of an environment variable is the string \<^theory_text>\<open>Backend\<close> keeps it as.
\<close>

section \<open>The specification of a pod\<close>

datatype VolumeSource =
    EmptyDir "string option"
  | PersistentVolumeClaim string
  | SecretVolume string "int option"
  | ConfigMapVolume string

record Volume =
  vol_Name :: string
  vol_Source :: VolumeSource

record VolumeMount =
  vm_Name :: string
  vm_MountPath :: string
  vm_SubPath :: string
  vm_ReadOnly :: bool

record Capabilities =
  cap_Add :: "string list"
  cap_Drop :: "string list"

record SecurityContext =
  sc_RunAsUser :: "int option"
  sc_RunAsGroup :: "int option"
  sc_RunAsNonRoot :: "bool option"
  sc_AllowPrivilegeEscalation :: "bool option"
  sc_Capabilities :: "Capabilities option"

record Container =
  kc_Name :: string
  kc_Image :: string
  kc_Command :: "string list"
  kc_Args :: "string list"
  kc_Env :: "EnvVar list"
  kc_Resources :: Resources
  kc_VolumeMounts :: "VolumeMount list"
  kc_RestartPolicy :: "string option"
  kc_SecurityContext :: "SecurityContext option"

definition no_resources :: Resources where
  "no_resources = \<lparr>res_Requests = [], res_Limits = []\<rparr>"

definition zero_container :: Container where
  "zero_container = \<lparr>kc_Name = [], kc_Image = [], kc_Command = [], kc_Args = [], kc_Env = [], kc_Resources = no_resources,
     kc_VolumeMounts = [], kc_RestartPolicy = None, kc_SecurityContext = None\<rparr>"

record PodSecurityContext =
  psc_RunAsUser :: int
  psc_RunAsGroup :: int
  psc_FSGroup :: int

record PodSpec =
  ps_ServiceAccountName :: string
  ps_RestartPolicy :: string
  ps_NodeSelector :: "(string \<times> string) list"
  ps_NodeName :: string
  ps_InitContainers :: "Container list"
  ps_TerminationGracePeriodSeconds :: "int option"
  ps_SecurityContext :: "PodSecurityContext option"
  ps_Containers :: "Container list"
  ps_Volumes :: "Volume list"

section \<open>Its status\<close>

datatype ContainerState =
    StateUnset
  | Waiting string string
  | Running
  | Terminated int

record ContainerStatus =
  ks_Name :: string
  ks_State :: ContainerState

record PodCondition =
  pc_Type :: string
  pc_Status :: string
  pc_Reason :: string
  pc_Message :: string

record Pod =
  kp_Name :: string
  kp_Namespace :: string
  kp_Labels :: labels
  kp_CreationTimestamp :: go_time
  kp_Owners :: "OwnerReference list"
  kp_Spec :: PodSpec
  kp_Phase :: string
  kp_Conditions :: "PodCondition list"
  kp_InitStatuses :: "ContainerStatus list"
  kp_Statuses :: "ContainerStatus list"

abbreviation PodPending :: string where "PodPending \<equiv> ''Pending''"
abbreviation PodRunning :: string where "PodRunning \<equiv> ''Running''"
abbreviation PodSucceeded :: string where "PodSucceeded \<equiv> ''Succeeded''"
abbreviation PodFailed :: string where "PodFailed \<equiv> ''Failed''"

abbreviation ConditionFalse :: string where "ConditionFalse \<equiv> ''False''"
abbreviation ConditionTrue :: string where "ConditionTrue \<equiv> ''True''"

abbreviation LabelApp :: string where "LabelApp \<equiv> ''app.kubernetes.io/name''"
abbreviation LabelAppValue :: string where "LabelAppValue \<equiv> ''agentops-runtime''"
abbreviation LabelConversation :: string where "LabelConversation \<equiv> ''agentops.dev/conversation''"

section \<open>Nodes\<close>

record Taint =
  tn_Key :: string
  tn_Effect :: string

record kube_Node =
  nd_Name :: string
  nd_Unschedulable :: bool
  nd_Taints :: "Taint list"

section \<open>Slices and texts\<close>

text \<open>A loop over a slice that returns at the first element with a result.\<close>

fun first_some :: "('a \<Rightarrow> 'b option) \<Rightarrow> 'a list \<Rightarrow> 'b option" where
  "first_some f [] = None"
| "first_some f (x # xs) = (case f x of Some y \<Rightarrow> Some y | None \<Rightarrow> first_some f xs)"

lemma first_some_None: "first_some f xs = None \<longleftrightarrow> (\<forall>x \<in> set xs. f x = None)"
  by (induction xs) (auto split: option.splits)

lemma first_some_Some: "first_some f xs = Some y \<Longrightarrow> \<exists>x \<in> set xs. f x = Some y"
  by (induction xs) (auto split: option.splits)


text \<open>\<open>sort.Strings\<close> of the keys of a Go map: sorted, each once.\<close>

definition sorted_keys :: "string list \<Rightarrow> string list" where
  "sorted_keys ks = sort (remdups ks)"

lemma set_sorted_keys [simp]: "set (sorted_keys ks) = set ks"
  by (simp add: sorted_keys_def)

lemma distinct_sorted_keys [simp]: "distinct (sorted_keys ks)"
  by (simp add: sorted_keys_def)

lemma sorted_keys_Nil_iff [simp]: "sorted_keys ks = [] \<longleftrightarrow> ks = []"
  by (metis set_empty set_sorted_keys)

lemma sorted_keys_cong: "set ks = set ls \<Longrightarrow> sorted_keys ks = sorted_keys ls"
  by (simp add: sorted_keys_def sorted_list_of_set.idem_if_sorted_distinct sorted_list_of_set_sort_remdups [symmetric])

end
