(* ===== verification/McpCompile.thy ===== *)
theory McpCompile
  imports Pods "HOL-Library.AList"
begin

text \<open>
  The compilation of the bound MCPConfigs (\<open>internal/mcpcompile/compile.go\<close>) and the judgement of what egress
  mediation covers (\<open>internal/controller/mediation.go\<close>). A Go map of servers is an association list with distinct
  keys, in the order the loop ranges over it, which Go leaves open: the results that depend on it say so. The rendered
  document is kept as the value handed to \<open>json.MarshalIndent\<close>; its text is the library's.
\<close>

section \<open>Resources\<close>

text \<open>A \<open>NamedValue\<close> of a header has the three fields of an environment variable.\<close>

record MCPServer =
  ms_Type :: string
  ms_URL :: string
  ms_Headers :: "EnvVar list"
  ms_Command :: string
  ms_Args :: "string list"
  ms_Env :: "EnvVar list"

record MCPConfigSpec =
  mcs_Servers :: "(string \<times> MCPServer) list"
  mcs_ConfigMapRef :: "string option"
  mcs_SecretRef :: "string option"

definition IsRaw :: "MCPConfigSpec \<Rightarrow> bool" where
  "IsRaw s \<longleftrightarrow> mcs_ConfigMapRef s \<noteq> None \<or> mcs_SecretRef s \<noteq> None"

section \<open>Names of the variables\<close>

text \<open>
  \<open>strings.ToUpper\<close> followed by the replacement of every rune outside A-Z, 0-9 and the underscore: besides the ASCII
  letters only the dotless i (U+0131) and the long s (U+017F) have an ASCII letter as their upper case.
\<close>

definition env_char :: "int \<Rightarrow> char" where
  "env_char r =
     (if 97 \<le> r \<and> r \<le> 122 then char_of (r - 32)
      else if 65 \<le> r \<and> r \<le> 90 \<or> 48 \<le> r \<and> r \<le> 57 then char_of r
      else if r = 305 then CHR ''I''
      else if r = 383 then CHR ''S''
      else CHR ''_'')"

definition envName :: "string \<Rightarrow> string \<Rightarrow> string" where
  "envName server header = ''MCP_'' @ map env_char (runes (server @ ''_'' @ header))"

definition mcp_placeholder :: "string \<Rightarrow> string" where
  "mcp_placeholder en = CHR ''$'' # CHR ''{'' # en @ ''}''"

section \<open>Compile\<close>

record jsonServer =
  js_Type :: string
  js_URL :: string
  js_Command :: string
  js_Args :: "string list"
  js_Headers :: "(string \<times> string) list"
  js_Env :: "(string \<times> string) list"

record McpResult =
  mr_JSON :: "(string \<times> jsonServer) list option"
  mr_Env :: "EnvVar list"
  mr_RawConfigMap :: string
  mr_RawSecret :: string
  mr_Endpoints :: "(string \<times> string) list"

definition zero_result :: McpResult where
  "zero_result = \<lparr>mr_JSON = None, mr_Env = [], mr_RawConfigMap = [], mr_RawSecret = [], mr_Endpoints = []\<rparr>"

datatype compile_error = RawExclusive string nat

text \<open>One list of headers or variables: the last value of a name stays in the map, every secret adds a variable.\<close>

definition value_of :: "string \<Rightarrow> EnvVar \<Rightarrow> string" where
  "value_of server h = (case env_ValueFrom h of None \<Rightarrow> env_Value h | Some _ \<Rightarrow> mcp_placeholder (envName server (env_Name h)))"

definition values_of :: "string \<Rightarrow> EnvVar list \<Rightarrow> (string \<times> string) list" where
  "values_of server hs = fold (\<lambda>h m. AList.update (env_Name h) (value_of server h) m) hs []"

definition secrets_of :: "string \<Rightarrow> EnvVar list \<Rightarrow> EnvVar list" where
  "secrets_of server hs = concat (map (\<lambda>h. case env_ValueFrom h of None \<Rightarrow> []
     | Some src \<Rightarrow> [env_from (envName server (env_Name h)) src]) hs)"

definition json_server :: "string \<Rightarrow> MCPServer \<Rightarrow> jsonServer" where
  "json_server name srv = \<lparr>js_Type = ms_Type srv, js_URL = ms_URL srv, js_Command = ms_Command srv, js_Args = ms_Args srv,
     js_Headers = values_of name (ms_Headers srv), js_Env = values_of name (ms_Env srv)\<rparr>"

definition server_secrets :: "string \<Rightarrow> MCPServer \<Rightarrow> EnvVar list" where
  "server_secrets name srv = secrets_of name (ms_Headers srv) @ secrets_of name (ms_Env srv)"

definition mcp_render :: "(string \<times> MCPServer) list \<Rightarrow> McpResult" where
  "mcp_render merged = zero_result\<lparr>
     mr_JSON := Some (map (\<lambda>(name, srv). (name, json_server name srv)) merged),
     mr_Env := concat (map (\<lambda>(name, srv). server_secrets name srv) merged),
     mr_Endpoints := map (\<lambda>(name, srv). (name, ms_URL srv)) (filter (\<lambda>(name, srv). ms_URL srv \<noteq> []) merged)\<rparr>"

definition nameAt :: "string list \<Rightarrow> nat \<Rightarrow> string" where
  "nameAt names i = (if i < length names then names ! i else ''<unnamed>'')"

fun first_raw :: "nat \<Rightarrow> MCPConfigSpec list \<Rightarrow> (nat \<times> MCPConfigSpec) option" where
  "first_raw i [] = None"
| "first_raw i (c # cs) = (if IsRaw c then Some (i, c) else first_raw (Suc i) cs)"

definition overlay :: "MCPConfigSpec list \<Rightarrow> (string \<times> MCPServer) list" where
  "overlay configs = fold (\<lambda>c m. fold (\<lambda>(n, s) m. AList.update n s m) (mcs_Servers c) m) configs []"

text \<open>\<open>order\<close> is the order in which the ranging over the merged map visits it.\<close>

definition mcp_Compile :: "((string \<times> MCPServer) list \<Rightarrow> (string \<times> MCPServer) list) \<Rightarrow> MCPConfigSpec list \<Rightarrow> string list
    \<Rightarrow> compile_error + McpResult" where
  "mcp_Compile order configs names =
     (if configs = [] then Inr (zero_result\<lparr>mr_JSON := Some []\<rparr>)
      else (case first_raw 0 configs of
         Some (i, c) \<Rightarrow>
           if length configs > 1 then Inl (RawExclusive (nameAt names i) (length configs - 1))
           else (case mcs_ConfigMapRef c of
              Some n \<Rightarrow> Inr (zero_result\<lparr>mr_RawConfigMap := n\<rparr>)
            | None \<Rightarrow> Inr (zero_result\<lparr>mr_RawSecret := (case mcs_SecretRef c of Some n \<Rightarrow> n | None \<Rightarrow> [])\<rparr>))
       | None \<Rightarrow> Inr (mcp_render (order (overlay configs)))))"

section \<open>What mediation covers\<close>

abbreviation ConditionMediated :: string where "ConditionMediated \<equiv> ''EgressMediated''"
abbreviation ReasonAllEndpointsMediated :: string where "ReasonAllEndpointsMediated \<equiv> ''AllEndpointsMediated''"
abbreviation ReasonEndpointNotEnforceable :: string where "ReasonEndpointNotEnforceable \<equiv> ''EndpointNotEnforceable''"
abbreviation ReasonOpaqueConfig :: string where "ReasonOpaqueConfig \<equiv> ''OpaqueConfig''"

text \<open>\<open>strings.Index(s, p)\<close>.\<close>

fun index_sub :: "string \<Rightarrow> string \<Rightarrow> nat option" where
  "index_sub [] p = (if p = [] then Some 0 else None)"
| "index_sub (c # s) p = (if has_prefix (c # s) p then Some 0 else map_option Suc (index_sub s p))"

text \<open>\<open>strings.ToLower\<close>; \<open>lower\<close> is Unicode's table beyond ASCII.\<close>

definition ToLower :: "(int \<Rightarrow> int) \<Rightarrow> string \<Rightarrow> string" where
  "ToLower lower s = (if list_all (\<lambda>c. code c < 128) s then map ascii_lower s
     else runes_string (map (\<lambda>r. if r < 128 then of_char (ascii_lower (char_of r)) else lower r) (runes s)))"

definition schemeOf :: "(int \<Rightarrow> int) \<Rightarrow> string \<Rightarrow> string" where
  "schemeOf lower url = (case index_sub url ''://'' of Some i \<Rightarrow> ToLower lower (take i url) | None \<Rightarrow> [])"

definition enforceableEndpoint :: "(int \<Rightarrow> int) \<Rightarrow> string \<Rightarrow> bool" where
  "enforceableEndpoint lower url \<longleftrightarrow> schemeOf lower url = ''http''"

definition unenforceable :: "(int \<Rightarrow> int) \<Rightarrow> (string \<times> string) list \<Rightarrow> string list" where
  "unenforceable lower eps = map (\<lambda>(key, url). key @ '' ('' @ schemeOf lower url @ '')'')
     (filter (\<lambda>(key, url). \<not> enforceableEndpoint lower url) eps)"

definition mediation_condition :: "string \<Rightarrow> string \<Rightarrow> string \<Rightarrow> Condition" where
  "mediation_condition status reason message = \<lparr>co_Type = ConditionMediated, co_Status = status, co_Reason = reason,
     co_Message = message, co_ObservedGeneration = 0, co_LastTransitionTime = 0\<rparr>"

definition mediationCondition :: "(int \<Rightarrow> int) \<Rightarrow> McpResult \<Rightarrow> EgressMediation option \<Rightarrow> Condition option" where
  "mediationCondition lower mcp med =
     (case med of None \<Rightarrow> None
      | Some _ \<Rightarrow>
          if mr_RawConfigMap mcp \<noteq> [] \<or> mr_RawSecret mcp \<noteq> []
          then Some (mediation_condition ConditionFalse ReasonOpaqueConfig
            (''a raw mcp.json is bound, so its servers are opaque to the manager '' @ ''and cannot be confirmed mediated''))
          else if unenforceable lower (mr_Endpoints mcp) \<noteq> []
          then Some (mediation_condition ConditionFalse ReasonEndpointNotEnforceable
            (''tool calls to '' @ join '', '' (sort (unenforceable lower (mr_Endpoints mcp)))
              @ '' are forwarded WITHOUT enforcement: '' @ ''the proxy reads MCP over plain HTTP and does not terminate TLS''))
          else Some (mediation_condition ConditionTrue ReasonAllEndpointsMediated
            (itoa (int (length (mr_Endpoints mcp))) @ '' bound MCP server(s) enforced by the egress proxy'')))"

definition applyMediationCondition :: "go_time \<Rightarrow> Condition option \<Rightarrow> ConversationRecord \<Rightarrow> ConversationRecord \<times> bool" where
  "applyMediationCondition now cond conv =
     (case cond of None \<Rightarrow> RemoveCondition ConditionMediated conv | Some c \<Rightarrow> SetCondition now c conv)"

end
