(* ===== verification/PodSpec.thy ===== *)
theory PodSpec
  imports McpCompile
begin

text \<open>
  The worker's pod: \<open>Build\<close> and its parts (\<open>internal/runtimepod/podspec.go\<close>), the context sidecar
  (\<open>contextsync.go\<close>) and the egress containers (\<open>egress.go\<close>). Parameters stand for two library calls: \<open>quantity\<close> for
  \<open>resource.ParseQuantity\<close> (None when it refuses) and \<open>token\<close> for the HMAC of \<open>DeriveCoordinatorToken\<close>. The source
  of an environment variable is a string, \<open>fieldRef\<close> and \<open>secretKeyRef\<close> being written out as such.
\<close>

section \<open>The profile as the builder reads it\<close>

abbreviation RepoAuthSSH :: string where "RepoAuthSSH \<equiv> ''ssh''"
abbreviation RepoAuthHTTPS :: string where "RepoAuthHTTPS \<equiv> ''https''"

record RepoAuth =
  ra_Type :: string
  ra_SecretRef :: string

record WorkerProfile = AgentProfile +
  wp_RepoURL :: string
  wp_RepoRef :: string
  wp_RepoAuth :: "RepoAuth option"
  wp_Env :: "EnvVar list"
  wp_Resources :: "Resources option"

section \<open>Constants\<close>

definition runtimeUID :: int where "runtimeUID = 1000"
definition egressProxyUID :: int where "egressProxyUID = 1337"
definition contextSyncPort :: int where "contextSyncPort = 8099"
definition contextSyncGrace :: int where "contextSyncGrace = 120"

abbreviation aopsMCPServerKey :: string where "aopsMCPServerKey \<equiv> ''aops''"
abbreviation contextLiveMount :: string where "contextLiveMount \<equiv> ''/data/context''"
abbreviation contextStoreMount :: string where "contextStoreMount \<equiv> ''/data/context-store''"
abbreviation egressProxyContainer :: string where "egressProxyContainer \<equiv> ''egress-proxy''"
abbreviation egressInitContainer :: string where "egressInitContainer \<equiv> ''egress-init''"
abbreviation RestartAlways :: string where "RestartAlways \<equiv> ''Always''"
abbreviation RestartNever :: string where "RestartNever \<equiv> ''Never''"

section \<open>Numbers and durations as text\<close>

text \<open>The package's own \<open>itoa\<close>: 30 for a number that is not positive.\<close>

function pod_digits :: "int \<Rightarrow> string \<Rightarrow> string" where
  "pod_digits i s = (if i > 0 then pod_digits (i div 10) (char_of (48 + i mod 10) # s) else s)"
  by pat_completeness auto
termination by (relation "measure (\<lambda>(i, s). nat i)") auto

declare pod_digits.simps [simp del]

definition pod_itoa :: "int \<Rightarrow> string" where
  "pod_itoa i = (if i \<le> 0 then ''30'' else pod_digits i [])"

text \<open>\<open>Duration.String\<close>: hours, minutes and seconds with the fraction cut of its zeros; below a second in the unit
  that leaves an integer part.\<close>

definition dur_frac_digits :: "nat \<Rightarrow> int \<Rightarrow> string" where
  "dur_frac_digits n v = (let ds = format_base 10 v in replicate (n - length ds) CHR ''0'' @ ds)"

definition fmt_frac :: "nat \<Rightarrow> int \<Rightarrow> string" where
  "fmt_frac prec v =
     (let ds = rev (dropWhile (\<lambda>c. c = CHR ''0'') (rev (dur_frac_digits prec (v mod 10 ^ prec))))
      in if ds = [] then [] else CHR ''.'' # ds)"

definition duration_String :: "duration \<Rightarrow> string" where
  "duration_String d =
     (let u = \<bar>d\<bar>; sign = (if d < 0 then ''-'' else [])
      in sign @
        (if u = 0 then ''0s''
         else if u < 1000 then format_base 10 u @ ''ns''
         else if u < 1000000 then format_base 10 (u div 1000) @ fmt_frac 3 u @ [char_of (194::nat), char_of (181::nat)] @ ''s''
         else if u < 1000000000 then format_base 10 (u div 1000000) @ fmt_frac 6 u @ ''ms''
         else (let s = u div 1000000000; m = s div 60; h = m div 60
               in (if m > 0 then (if h > 0 then format_base 10 h @ ''h'' else []) @ format_base 10 (m mod 60) @ ''m'' else [])
                  @ format_base 10 (s mod 60) @ fmt_frac 9 u @ ''s'')))"

section \<open>Egress mediation\<close>

definition mediating :: "Resolved \<Rightarrow> bool" where
  "mediating r \<longleftrightarrow> rs_EgressMediation r \<noteq> None \<and> cf_EgressProxyImage (rs_Config r) \<noteq> []"

definition egressInitImage :: "Config \<Rightarrow> string" where
  "egressInitImage cfg = (if cf_EgressInitImage cfg \<noteq> [] then cf_EgressInitImage cfg else cf_EgressProxyImage cfg)"

definition excludePortList :: "int list \<Rightarrow> string" where
  "excludePortList ports = (if ports = [] then [] else join '','' (map itoa ports))"

definition drop_all :: Capabilities where
  "drop_all = \<lparr>cap_Add = [], cap_Drop = [''ALL'']\<rparr>"

definition egressInitContainerSpec :: "Config \<Rightarrow> EgressMediation \<Rightarrow> Container" where
  "egressInitContainerSpec cfg med = zero_container\<lparr>
     kc_Name := egressInitContainer, kc_Image := egressInitImage cfg,
     kc_Args := [''install-redirect'', ''--proxy-port'', itoa (MediationPort (Some med)), ''--proxy-uid'', itoa egressProxyUID,
        ''--exclude-ports'', excludePortList (eg_ExcludePorts med)],
     kc_SecurityContext := Some \<lparr>sc_RunAsUser = Some 0, sc_RunAsGroup = None, sc_RunAsNonRoot = Some False,
        sc_AllowPrivilegeEscalation = Some True,
        sc_Capabilities = Some \<lparr>cap_Add = [''NET_ADMIN'', ''NET_RAW''], cap_Drop = [''ALL'']\<rparr>\<rparr>\<rparr>"

definition egressProxyContainerSpec :: "Config \<Rightarrow> EgressMediation \<Rightarrow> string list \<Rightarrow> string \<Rightarrow> Container" where
  "egressProxyContainerSpec cfg med endpoints controlURL =
     (let c = zero_container\<lparr>
        kc_Name := egressProxyContainer, kc_Image := cf_EgressProxyImage cfg, kc_RestartPolicy := Some RestartAlways,
        kc_Args := [''proxy''],
        kc_Env := [env_value ''LISTEN_PORT'' (itoa (MediationPort (Some med))),
                   env_value ''MCP_ENDPOINTS'' (join '','' endpoints), env_value ''CONTROL_URL'' controlURL],
        kc_SecurityContext := Some \<lparr>sc_RunAsUser = Some egressProxyUID, sc_RunAsGroup = Some egressProxyUID,
           sc_RunAsNonRoot = Some True, sc_AllowPrivilegeEscalation = Some False, sc_Capabilities = Some drop_all\<rparr>\<rparr>
      in case eg_Resources med of None \<Rightarrow> c | Some r \<Rightarrow> c\<lparr>kc_Resources := r\<rparr>)"

definition hardenAgentContainer :: "Container \<Rightarrow> Container" where
  "hardenAgentContainer c = c\<lparr>kc_SecurityContext := Some \<lparr>sc_RunAsUser = Some runtimeUID, sc_RunAsGroup = Some runtimeUID,
     sc_RunAsNonRoot = Some True, sc_AllowPrivilegeEscalation = Some False, sc_Capabilities = Some drop_all\<rparr>\<rparr>"

text \<open>\<open>hostPort\<close>; \<open>any_index\<close> is \<open>strings.IndexAny\<close> with the cut already taken.\<close>

definition hostPort :: "string \<Rightarrow> string" where
  "hostPort raw =
     (let (scheme, rest) = (case index_sub raw ''://'' of Some i \<Rightarrow> (take i raw, drop (i + 3) raw) | None \<Rightarrow> ([], raw));
          rest = takeWhile (\<lambda>c. c \<notin> set ''/?#'') rest
      in if rest = [] then []
         else if CHR '':'' \<in> set rest then rest
         else if scheme = ''https'' then rest @ '':443''
         else rest @ '':80'')"

text \<open>The insertion sort of \<open>sortStrings\<close>: each element moves left while it is smaller. The prefix is kept reversed.\<close>

fun sift_left :: "string list \<Rightarrow> string \<Rightarrow> string list" where
  "sift_left [] x = [x]"
| "sift_left (y # ys) x = (if x < y then y # sift_left ys x else x # y # ys)"

definition sortStrings :: "string list \<Rightarrow> string list" where
  "sortStrings xs = rev (foldl sift_left [] xs)"

definition mcpEndpoints :: "(string \<times> string) list \<Rightarrow> string list" where
  "mcpEndpoints servers = sortStrings (map (\<lambda>(key, url). key @ ''='' @ hostPort url)
     (filter (\<lambda>(key, url). hostPort url \<noteq> []) servers))"

section \<open>The context sidecar\<close>

definition emptyDirWithLimit :: "(string \<Rightarrow> string option) \<Rightarrow> string \<Rightarrow> VolumeSource" where
  "emptyDirWithLimit quantity limit = EmptyDir (if limit = [] then None else quantity limit)"

definition retainOrDefault :: "ContextSync \<Rightarrow> int" where
  "retainOrDefault sy = (if sy_Retain sy > 0 then sy_Retain sy else 3)"

definition contextSyncMounts :: "ConversationRecord \<Rightarrow> VolumeMount list" where
  "contextSyncMounts conv =
     [\<lparr>vm_Name = ''context'', vm_MountPath = contextLiveMount, vm_SubPath = [], vm_ReadOnly = False\<rparr>,
      \<lparr>vm_Name = ''context-store'', vm_MountPath = contextStoreMount, vm_SubPath = cr_Name conv, vm_ReadOnly = False\<rparr>]"

definition contextSyncContainer :: "ConversationRecord \<Rightarrow> Config \<Rightarrow> ContextSync \<Rightarrow> VolumeMount list \<Rightarrow> Container" where
  "contextSyncContainer conv cfg sy mounts =
     (let (d, on) = SyncInterval (Some sy);
          env = [env_value ''LISTEN_ADDR'' ('':'' @ pod_itoa contextSyncPort),
            env_value ''CONTROL_URL_UPSTREAM'' (cf_ControlURL cfg),
            env_value ''CONVO_ID'' (cr_Name conv),
            env_value ''CONTEXT_LIVE_DIR'' contextLiveMount,
            env_value ''CONTEXT_STORE_DIR'' contextStoreMount,
            env_value ''CONTEXT_SYNC_PATHS'' (join [CHR 0x0A] (sy_Paths sy)),
            env_value ''CONTEXT_SYNC_INTERVAL'' (if on then duration_String d else ''0s''),
            env_value ''CONTEXT_SYNC_RETAIN'' (pod_itoa (retainOrDefault sy)),
            env_value ''CONTEXT_REPORT_URL'' (trim_suffix (cf_ControlURL cfg) ''/'' @ ''/work/context'')];
          env = (if sy_Exclude sy \<noteq> [] then env @ [env_value ''CONTEXT_SYNC_EXCLUDE'' (join [CHR 0x0A] (sy_Exclude sy))] else env)
      in zero_container\<lparr>kc_Name := ''context-sync'', kc_Image := cf_ContextSyncImage cfg, kc_RestartPolicy := Some RestartAlways,
           kc_Env := env, kc_VolumeMounts := mounts,
           kc_Resources := \<lparr>res_Requests = [(''cpu'', ''10m''), (''memory'', ''32Mi'')], res_Limits = []\<rparr>\<rparr>)"

section \<open>The parts of the pod\<close>

definition podResources :: "Config \<Rightarrow> WorkerProfile \<Rightarrow> Resources" where
  "podResources cfg profile =
     (case wp_Resources profile of Some r \<Rightarrow> r
      | None \<Rightarrow> (case cf_DefaultResources cfg of Some r \<Rightarrow> r
        | None \<Rightarrow> \<lparr>res_Requests = [(''cpu'', ''100m''), (''memory'', ''256Mi'')],
                    res_Limits = [(''cpu'', ''1''), (''memory'', ''1536Mi'')]\<rparr>))"

definition contextVolumes :: "(string \<Rightarrow> string option) \<Rightarrow> Config \<Rightarrow> bool \<Rightarrow> Volume list" where
  "contextVolumes quantity cfg sidecar =
     (if sidecar
      then [\<lparr>vol_Name = ''context'', vol_Source = emptyDirWithLimit quantity (cf_ContextLiveSizeLimit cfg)\<rparr>,
            \<lparr>vol_Name = ''context-store'', vol_Source = PersistentVolumeClaim (df_ContextPVC cfg)\<rparr>]
      else if df_ContextPVC cfg \<noteq> []
      then [\<lparr>vol_Name = ''context'', vol_Source = PersistentVolumeClaim (df_ContextPVC cfg)\<rparr>]
      else [\<lparr>vol_Name = ''context'', vol_Source = EmptyDir None\<rparr>])"

definition repoAuthParts :: "RepoAuth option \<Rightarrow> Volume list \<times> VolumeMount list \<times> EnvVar list" where
  "repoAuthParts a =
     (case a of None \<Rightarrow> ([], [], [])
      | Some a \<Rightarrow>
          if ra_Type a = RepoAuthSSH
          then ([\<lparr>vol_Name = ''repo-auth'', vol_Source = SecretVolume (ra_SecretRef a) (Some 256)\<rparr>],
                [\<lparr>vm_Name = ''repo-auth'', vm_MountPath = ''/repo-auth'', vm_SubPath = [], vm_ReadOnly = True\<rparr>],
                [env_value ''GIT_AUTH_TYPE'' ''ssh'', env_value ''GIT_SSH_KEY'' ''/repo-auth/sshKey''])
          else if ra_Type a = RepoAuthHTTPS
          then ([], [], [env_value ''GIT_AUTH_TYPE'' ''https'',
                  env_from ''GIT_TOKEN'' (''secretKeyRef:'' @ ra_SecretRef a @ '':token'')])
          else ([], [], []))"

definition base_env :: "ConversationRecord \<Rightarrow> WorkerProfile \<Rightarrow> Config \<Rightarrow> string \<Rightarrow> EnvVar list" where
  "base_env conv profile cfg agentControlURL =
     [env_value ''ROLE'' ''worker'', env_value ''CONVO_ID'' (cr_Name conv), env_value ''CONTROL_URL'' agentControlURL,
      env_value ''REPO_URL'' (wp_RepoURL profile), env_value ''REPO_REF'' (wp_RepoRef profile),
      env_value ''RUNTIME_IDLE_TTL_M'' (pod_itoa (cf_IdleTTLMinutes cfg)), env_value ''HOME'' contextLiveMount,
      env_value ''MCP_CONFIG'' ''/etc/agentops/mcp.json'', env_from ''POD_NAME'' ''fieldRef:metadata.name'']"

definition token_env :: "(string \<Rightarrow> string \<Rightarrow> string \<Rightarrow> string) \<Rightarrow> string \<Rightarrow> ConversationRecord \<Rightarrow> McpResult \<Rightarrow> Resolved \<Rightarrow> EnvVar list" where
  "token_env token masterToken conv mcp resolved =
     (let coordinatorName = (if cr_CoordinatorRef conv \<noteq> [] then cr_CoordinatorRef conv else rs_ActingCoordinator resolved)
      in if coordinatorName \<noteq> [] \<and> map_of (mr_Endpoints mcp) aopsMCPServerKey \<noteq> None
         then [env_value ''AOPS_MCP_TOKEN'' (token masterToken coordinatorName (cr_Name conv))] else [])"

definition workspace_parts :: "ConversationRecord \<Rightarrow> Config \<Rightarrow> Volume \<times> VolumeMount" where
  "workspace_parts conv cfg =
     (if df_WorkspacePVC cfg \<noteq> []
      then (\<lparr>vol_Name = ''workspace'', vol_Source = PersistentVolumeClaim (df_WorkspacePVC cfg)\<rparr>,
            \<lparr>vm_Name = ''workspace'', vm_MountPath = ''/data/workspace'', vm_SubPath = cr_Name conv, vm_ReadOnly = False\<rparr>)
      else (\<lparr>vol_Name = ''workspace'', vol_Source = EmptyDir None\<rparr>,
            \<lparr>vm_Name = ''workspace'', vm_MountPath = ''/data/workspace'', vm_SubPath = [], vm_ReadOnly = False\<rparr>))"

definition mcp_volumes :: "McpResult \<Rightarrow> string \<Rightarrow> Volume list" where
  "mcp_volumes mcp mcpCM =
     (let (raw, mcpCM) = (if mr_RawConfigMap mcp \<noteq> [] then ([], mr_RawConfigMap mcp)
            else if mr_RawSecret mcp \<noteq> [] then ([\<lparr>vol_Name = ''mcp'', vol_Source = SecretVolume (mr_RawSecret mcp) None\<rparr>], mcpCM)
            else ([], mcpCM))
      in raw @ (if mr_RawSecret mcp = [] then [\<lparr>vol_Name = ''mcp'', vol_Source = ConfigMapVolume mcpCM\<rparr>] else []))"

definition sidecar_mode :: "Resolved \<Rightarrow> bool" where
  "sidecar_mode r \<longleftrightarrow> rs_ContextSync r \<noteq> None \<and> cf_ContextSyncImage (rs_Config r) \<noteq> [] \<and> df_ContextPVC (rs_Config r) \<noteq> []"

definition init_containers :: "ConversationRecord \<Rightarrow> McpResult \<Rightarrow> Resolved \<Rightarrow> Container list" where
  "init_containers conv mcp r =
     (let cfg = rs_Config r
      in (if mediating r then [egressInitContainerSpec cfg (the (rs_EgressMediation r))] else [])
       @ (if sidecar_mode r then [contextSyncContainer conv cfg (the (rs_ContextSync r)) (contextSyncMounts conv)] else [])
       @ (if mediating r then [egressProxyContainerSpec cfg (the (rs_EgressMediation r)) (mcpEndpoints (mr_Endpoints mcp)) (cf_ControlURL cfg)]
          else []))"

section \<open>Build\<close>

definition worker_container :: "(string \<Rightarrow> string \<Rightarrow> string \<Rightarrow> string) \<Rightarrow> string \<Rightarrow> ConversationRecord \<Rightarrow> WorkerProfile \<Rightarrow> McpResult
    \<Rightarrow> Resolved \<Rightarrow> Container" where
  "worker_container token masterToken conv profile mcp r =
     (let cfg = rs_Config r;
          control = (if sidecar_mode r then ''http://127.0.0.1:'' @ pod_itoa contextSyncPort else cf_ControlURL cfg);
          (authVolumes, authMounts, authEnv) = repoAuthParts (wp_RepoAuth profile);
          c = zero_container\<lparr>kc_Name := ''worker'', kc_Image := cf_Image cfg, kc_Command := cf_Command cfg, kc_Args := cf_Args cfg,
            kc_Env := base_env conv profile cfg control @ token_env token masterToken conv mcp r @ authEnv
               @ cf_Env cfg @ mr_Env mcp @ wp_Env profile,
            kc_Resources := podResources cfg profile,
            kc_VolumeMounts := [snd (workspace_parts conv cfg),
                \<lparr>vm_Name = ''context'', vm_MountPath = contextLiveMount, vm_SubPath = [], vm_ReadOnly = False\<rparr>]
              @ authMounts @ [\<lparr>vm_Name = ''mcp'', vm_MountPath = ''/etc/agentops'', vm_SubPath = [], vm_ReadOnly = True\<rparr>]\<rparr>
      in if mediating r then hardenAgentContainer c else c)"

definition Build :: "(string \<Rightarrow> string option) \<Rightarrow> (string \<Rightarrow> string \<Rightarrow> string \<Rightarrow> string) \<Rightarrow> ConversationRecord \<Rightarrow> WorkerProfile
    \<Rightarrow> McpResult \<Rightarrow> string \<Rightarrow> Resolved \<Rightarrow> string \<Rightarrow> Pod" where
  "Build quantity token conv profile mcp mcpCM r masterToken =
     (let cfg = rs_Config r
      in \<lparr>kp_Name = PodName (cr_Name conv), kp_Namespace = [],
          kp_Labels = [LabelApp \<mapsto> LabelAppValue, LabelConversation \<mapsto> cr_Name conv],
          kp_CreationTimestamp = 0, kp_Owners = [],
          kp_Spec = \<lparr>ps_ServiceAccountName = cf_ServiceAccount cfg, ps_RestartPolicy = RestartNever,
             ps_NodeSelector = cf_NodeSelector cfg, ps_NodeName = [], ps_InitContainers = init_containers conv mcp r,
             ps_TerminationGracePeriodSeconds = (if sidecar_mode r then Some contextSyncGrace else None),
             ps_SecurityContext = Some \<lparr>psc_RunAsUser = runtimeUID, psc_RunAsGroup = runtimeUID, psc_FSGroup = runtimeUID\<rparr>,
             ps_Containers = [worker_container token masterToken conv profile mcp r],
             ps_Volumes = [fst (workspace_parts conv cfg)] @ contextVolumes quantity cfg (sidecar_mode r)
               @ fst (repoAuthParts (wp_RepoAuth profile)) @ mcp_volumes mcp mcpCM\<rparr>,
          kp_Phase = [], kp_Conditions = [], kp_InitStatuses = [], kp_Statuses = []\<rparr>)"

end
