(* ===== verification/Json.thy ===== *)
theory Json
  imports GoStrings "HOL-Library.AList"
begin

text \<open>
  How \<open>encoding/json\<close> decodes a value into the Go types the sources declare. The syntax of JSON text is a parameter of
  what uses this theory (\<open>parse\<close>, None for a text that is not JSON); a value is a tree, an object its keys and values
  in the order of the text, repetitions included.

  Decoding into a struct matches a key to a field by its name or, failing that, by its name with the case folded; a
  later key overwrites an earlier one, null leaves a field as it was, and a value of another type makes the whole call
  return an error while the other fields are still filled.
\<close>

datatype json =
    JNull
  | JBool bool
  | JNumber string
  | JStr string
  | JArr "json list"
  | JObj "(string \<times> json) list"

section \<open>Maps\<close>

text \<open>Into a \<open>map[string]json.RawMessage\<close>.\<close>

fun decode_map :: "json \<Rightarrow> (string \<times> json) list option" where
  "decode_map (JObj kvs) = Some (fold (\<lambda>(k, v) m. AList.update k v m) kvs [])"
| "decode_map JNull = Some []"
| "decode_map _ = None"

text \<open>Into a slice of such maps.\<close>

fun decode_maps :: "json \<Rightarrow> (string \<times> json) list list option" where
  "decode_maps (JArr vs) = those (map decode_map vs)"
| "decode_maps JNull = Some []"
| "decode_maps _ = None"

text \<open>Into a string variable: null leaves it empty.\<close>

fun decode_string :: "json \<Rightarrow> string option" where
  "decode_string (JStr s) = Some s"
| "decode_string JNull = Some []"
| "decode_string _ = None"

text \<open>\<open>json.Marshal\<close> of a map writes its keys in order.\<close>

definition marshal_map :: "(string \<times> json) list \<Rightarrow> json" where
  "marshal_map m = JObj (sort_key fst m)"

section \<open>Structs\<close>

text \<open>The case folding of a key: besides the ASCII letters only the long s (U+017F) and the Kelvin sign (U+212A) fold to
  an ASCII letter.\<close>

definition fold_rune :: "int \<Rightarrow> int" where
  "fold_rune r = (if 97 \<le> r \<and> r \<le> 122 then r - 32 else if r = 383 then 83 else if r = 8490 then 75 else r)"

definition names_field :: "string \<Rightarrow> string \<Rightarrow> bool" where
  "names_field field key \<longleftrightarrow> key = field \<or> map fold_rune (runes key) = map fold_rune (runes field)"

text \<open>A string field: its value, and whether a value of another type was met.\<close>

fun string_field :: "string \<Rightarrow> (string \<times> json) list \<Rightarrow> string \<times> bool \<Rightarrow> string \<times> bool" where
  "string_field f [] acc = acc"
| "string_field f ((k, v) # kvs) (s, bad) = string_field f kvs
     (if names_field f k then (case v of JStr t \<Rightarrow> (t, bad) | JNull \<Rightarrow> (s, bad) | _ \<Rightarrow> (s, True)) else (s, bad))"

text \<open>A field that keeps the raw text.\<close>

fun raw_field :: "string \<Rightarrow> (string \<times> json) list \<Rightarrow> json option \<Rightarrow> json option" where
  "raw_field f [] acc = acc"
| "raw_field f ((k, v) # kvs) acc = raw_field f kvs (if names_field f k then Some v else acc)"

lemma names_field_refl [simp]: "names_field f f"
  by (simp add: names_field_def)

lemma string_field_skip: "(\<And>k v. (k, v) \<in> set kvs \<Longrightarrow> \<not> names_field f k) \<Longrightarrow> string_field f kvs acc = acc"
proof (induction kvs arbitrary: acc)
  case (Cons kv kvs)
  obtain k v s b where "kv = (k, v)" "acc = (s, b)" by (metis surj_pair)
  with Cons show ?case by auto
qed simp

end
