(* ===== verification/EgressProxy.thy ===== *)
theory EgressProxy
  imports PodSpec Json
begin

text \<open>
  The enforcing proxy of a mediated pod (\<open>src/platform/egress-proxy\<close>): the rules that redirect the pod's traffic to it
  (\<open>redirect.go\<close>), what a redirected connection carries (\<open>endpoints.go\<close>, \<open>proxy.go\<close>), and the access decision
  (\<open>policy.go\<close>, \<open>control.go\<close>). Parameters: \<open>dns\<close> is \<open>net.LookupHost\<close> (None when it fails), \<open>lower\<close> Unicode's table
  beyond ASCII, \<open>parse\<close> the syntax of JSON text (see \<^theory_text>\<open>Json\<close>).
  Copying of bytes, sockets and the sockaddr returned by the kernel are not modelled.
\<close>

section \<open>Addresses\<close>

definition index_byte :: "char \<Rightarrow> string \<Rightarrow> nat option" where
  "index_byte c s = (let n = length (takeWhile (\<lambda>d. d \<noteq> c) s) in if n < length s then Some n else None)"

definition last_index_byte :: "char \<Rightarrow> string \<Rightarrow> nat option" where
  "last_index_byte c s = map_option (\<lambda>n. length s - 1 - n) (index_byte c (rev s))"

text \<open>\<open>net.SplitHostPort\<close> and \<open>net.JoinHostPort\<close>.\<close>

definition SplitHostPort :: "string \<Rightarrow> (string \<times> string) option" where
  "SplitHostPort s =
     (case last_index_byte CHR '':'' s of
        None \<Rightarrow> None
      | Some i \<Rightarrow>
          if hd s = CHR ''['' then
            (case index_byte CHR '']'' s of
               None \<Rightarrow> None
             | Some e \<Rightarrow>
                 if e + 1 \<noteq> i then None
                 else if CHR ''['' \<in> set (drop 1 s) \<or> CHR '']'' \<in> set (drop (e + 1) s) then None
                 else Some (take (e - 1) (drop 1 s), drop (i + 1) s))
          else if CHR '':'' \<in> set (take i s) then None
          else if CHR ''['' \<in> set s \<or> CHR '']'' \<in> set s then None
          else Some (take i s, drop (i + 1) s))"

definition JoinHostPort :: "string \<Rightarrow> string \<Rightarrow> string" where
  "JoinHostPort host port = (if CHR '':'' \<in> set host then ''['' @ host @ '']:'' @ port else host @ '':'' @ port)"

definition hostPortOf :: "string \<Rightarrow> string" where
  "hostPortOf raw =
     (let (scheme, rest) = (case index_sub raw ''://'' of Some i \<Rightarrow> (take i raw, drop (i + 3) raw) | None \<Rightarrow> ([], raw));
          rest = takeWhile (\<lambda>c. c \<notin> set ''/?#'') rest
      in if rest = [] then []
         else if CHR '':'' \<in> set rest then rest
         else if scheme = ''https'' then rest @ '':443'' else rest @ '':80'')"

section \<open>Endpoints\<close>

record entry =
  en_key :: string
  en_host :: string
  en_port :: string

record endpoints =
  ep_spec :: "entry list"
  ep_control :: entry
  ep_byAddr :: "(string \<times> string) list"
  ep_controlAddrs :: "string list"
  ep_ports :: "string list"
  ep_resolved :: go_time

fun parse_entries :: "string list \<Rightarrow> entry list" where
  "parse_entries [] = []"
| "parse_entries (raw # rest) =
     (let raw = trim_space raw in
      if raw = [] then parse_entries rest
      else (let (key, addr) = (case index_byte CHR ''='' raw of Some i \<Rightarrow> (take i raw, drop (i + 1) raw) | None \<Rightarrow> ([], raw)) in
        case SplitHostPort addr of
          None \<Rightarrow> parse_entries rest
        | Some (host, port) \<Rightarrow> \<lparr>en_key = key, en_host = host, en_port = port\<rparr> # parse_entries rest))"

definition parseEndpointSpec :: "string \<Rightarrow> entry list" where
  "parseEndpointSpec s = parse_entries (split_byte CHR '','' s)"

definition addrsFor :: "(string \<Rightarrow> string list option) \<Rightarrow> string \<Rightarrow> string \<Rightarrow> string list" where
  "addrsFor dns host port = JoinHostPort host port #
     (case dns host of None \<Rightarrow> [] | Some ips \<Rightarrow> map (\<lambda>ip. JoinHostPort ip port) ips)"

definition resolve :: "(string \<Rightarrow> string list option) \<Rightarrow> go_time \<Rightarrow> endpoints \<Rightarrow> endpoints" where
  "resolve dns now e =
     (let c = ep_control e
      in e\<lparr>ep_byAddr := fold (\<lambda>en m. fold (\<lambda>addr m. AList.update addr (en_key en) m) (addrsFor dns (en_host en) (en_port en)) m) (ep_spec e) [],
           ep_controlAddrs := (if en_host c \<noteq> [] then addrsFor dns (en_host c) (en_port c) else []),
           ep_ports := map en_port (ep_spec e) @ (if en_host c \<noteq> [] then [en_port c] else []),
           ep_resolved := now\<rparr>)"

definition no_entry :: entry where
  "no_entry = \<lparr>en_key = [], en_host = [], en_port = []\<rparr>"

definition newEndpoints :: "(string \<Rightarrow> string list option) \<Rightarrow> go_time \<Rightarrow> string \<Rightarrow> string \<Rightarrow> endpoints" where
  "newEndpoints dns now mcpSpec controlURL =
     resolve dns now \<lparr>ep_spec = parseEndpointSpec mcpSpec,
       ep_control = (case SplitHostPort (hostPortOf controlURL) of Some (h, p) \<Rightarrow> \<lparr>en_key = [], en_host = h, en_port = p\<rparr> | None \<Rightarrow> no_entry),
       ep_byAddr = [], ep_controlAddrs = [], ep_ports = [], ep_resolved = 0\<rparr>"

text \<open>What a connection is: a server's, with its key, the work contract's, or neither.\<close>

datatype carries = CarriesMCP string | CarriesControl | CarriesOther

definition sameHost :: "(int \<Rightarrow> int) \<Rightarrow> string \<Rightarrow> string \<Rightarrow> bool" where
  "sameHost lower a b =
     (let a = ToLower lower (trim_suffix a ''.''); b = ToLower lower (trim_suffix b ''.'')
      in a = b \<or> has_prefix a (b @ ''.'') \<or> has_prefix b (a @ ''.''))"

definition hostOnly :: "string \<Rightarrow> string" where
  "hostOnly hostport = (case SplitHostPort hostport of Some (h, p) \<Rightarrow> h | None \<Rightarrow> hostport)"

definition lookupHost :: "(int \<Rightarrow> int) \<Rightarrow> endpoints \<Rightarrow> string \<Rightarrow> carries" where
  "lookupHost lower e host =
     (let h = hostOnly host in
      case List.find (\<lambda>en. sameHost lower h (en_host en)) (ep_spec e) of
        Some en \<Rightarrow> CarriesMCP (en_key en)
      | None \<Rightarrow> if en_host (ep_control e) \<noteq> [] \<and> sameHost lower h (en_host (ep_control e)) then CarriesControl else CarriesOther)"

definition lookup_addr :: "endpoints \<Rightarrow> string \<Rightarrow> carries" where
  "lookup_addr e dst = (case map_of (ep_byAddr e) dst of
     Some k \<Rightarrow> CarriesMCP k
   | None \<Rightarrow> if dst \<in> set (ep_controlAddrs e) then CarriesControl else CarriesOther)"

definition classify :: "(string \<Rightarrow> string list option) \<Rightarrow> go_time \<Rightarrow> string \<Rightarrow> endpoints \<Rightarrow> endpoints \<times> carries" where
  "classify dns now dst e =
     (if lookup_addr e dst \<noteq> CarriesOther then (e, lookup_addr e dst)
      else (case SplitHostPort dst of
         None \<Rightarrow> (e, CarriesOther)
       | Some (_, port) \<Rightarrow>
           if port \<notin> set (ep_ports e) \<or> \<not> time_sub now (ep_resolved e) > 5 * second then (e, CarriesOther)
           else (let e = resolve dns now e in (e, lookup_addr e dst))))"

definition classifyBy :: "(int \<Rightarrow> int) \<Rightarrow> (string \<Rightarrow> string list option) \<Rightarrow> go_time \<Rightarrow> string \<Rightarrow> string \<Rightarrow> endpoints \<Rightarrow> endpoints \<times> carries" where
  "classifyBy lower dns now dst host e =
     (if host \<noteq> [] \<and> lookupHost lower e host \<noteq> CarriesOther then (e, lookupHost lower e host)
      else classify dns now dst e)"

section \<open>The Host of a request\<close>

fun split_crlf :: "string \<Rightarrow> string list" where
  "split_crlf [] = [[]]"
| "split_crlf [c] = [[c]]"
| "split_crlf (c # d # s) =
     (if c = CHR 0x0D \<and> d = CHR 0x0A then [] # split_crlf s
      else (case split_crlf (d # s) of l # ls \<Rightarrow> (c # l) # ls | [] \<Rightarrow> [[c]]))"

definition crlf :: string where "crlf = [CHR 0x0D, CHR 0x0A]"

text \<open>\<open>peekHost\<close> of the bytes the first read delivered.\<close>

definition peekHost :: "string \<Rightarrow> string" where
  "peekHost buf =
     (let head = (case index_sub buf (crlf @ crlf) of Some i \<Rightarrow> take i buf | None \<Rightarrow> buf)
      in case List.find (\<lambda>line. length line > 5 \<and> map ascii_lower (take 5 line) = ''host:'') (split_crlf head) of
           Some line \<Rightarrow> trim_space (drop 5 line)
         | None \<Rightarrow> [])"

definition isSelfConnection :: "string \<Rightarrow> string \<Rightarrow> bool" where
  "isSelfConnection dst self \<longleftrightarrow> dst = self"

section \<open>The access decision\<close>

record policy =
  po_known :: bool
  po_allowed :: "string list"

definition newPolicy :: policy where
  "newPolicy = \<lparr>po_known = False, po_allowed = []\<rparr>"

definition policy_set :: "string list \<Rightarrow> policy \<Rightarrow> policy" where
  "policy_set tools p = p\<lparr>po_known := True, po_allowed := tools\<rparr>"

definition matchTool :: "string \<Rightarrow> string \<Rightarrow> bool" where
  "matchTool pattern name =
     (if pattern = [] then False
      else if pattern = ''*'' then True
      else if has_suffix pattern ''*'' then has_prefix name (trim_suffix pattern ''*'')
      else pattern = name)"

definition permits :: "policy \<Rightarrow> string \<Rightarrow> bool" where
  "permits p qualified = (if \<not> po_known p then False else list_ex (\<lambda>pat. matchTool pat qualified) (po_allowed p))"

definition qualify :: "string \<Rightarrow> string \<Rightarrow> string" where
  "qualify serverKey tool = (if serverKey = [] then tool else ''mcp__'' @ serverKey @ ''__'' @ tool)"

section \<open>The work contract\<close>

definition splitTools :: "string \<Rightarrow> string list" where
  "splitTools s = filter (\<lambda>t. t \<noteq> []) (map trim_space (split_byte CHR '','' s))"

definition decode_unit :: "json \<Rightarrow> string option" where
  "decode_unit v = (case v of
     JObj kvs \<Rightarrow> (let (allowed, bad) = string_field ''allowedTools'' kvs ([], False); (mode, bad') = string_field ''toolsMode'' kvs ([], False)
        in if bad \<or> bad' then None else Some allowed)
   | JNull \<Rightarrow> Some []
   | _ \<Rightarrow> None)"

definition learn :: "(string \<Rightarrow> json option) \<Rightarrow> string \<Rightarrow> policy \<Rightarrow> policy" where
  "learn parse body p =
     (case Option.bind (parse (trim_space body)) decode_unit of None \<Rightarrow> p | Some allowed \<Rightarrow> policy_set (splitTools allowed) p)"

definition isWorkPath :: "string \<Rightarrow> bool" where
  "isWorkPath path \<longleftrightarrow> path = ''/work''"

definition maxMessage :: nat where "maxMessage = 1048576"

text \<open>\<open>readBounded\<close>: what was read of a body, and whether it overflowed.\<close>

definition readBounded :: "string \<Rightarrow> string \<times> bool" where
  "readBounded body = (let buf = take (maxMessage + 1) body in (buf, length buf > maxMessage))"

text \<open>One exchange of the contract that went through: the path asked for, the status and the body answered, and
  whether the connection stays open; the answer the client gets is what was read of it.\<close>

record exchange =
  xc_Path :: string
  xc_Status :: int
  xc_Body :: string
  xc_KeepAlive :: bool

fun serveControl :: "(string \<Rightarrow> json option) \<Rightarrow> exchange list \<Rightarrow> policy \<Rightarrow> policy \<times> string list" where
  "serveControl parse [] p = (p, [])"
| "serveControl parse (x # xs) p =
     (let (body, p) = (if isWorkPath (xc_Path x) \<and> xc_Status x = 200
            then (let (body, tooBig) = readBounded (xc_Body x) in (body, if tooBig then p else learn parse body p))
            else (xc_Body x, p))
      in if xc_KeepAlive x then (let (p, answers) = serveControl parse xs p in (p, body # answers)) else (p, [body]))"

section \<open>The redirect\<close>

record redirectOpts =
  ro_proxyPort :: int
  ro_proxyUID :: int
  ro_excludePorts :: "int list"

abbreviation chain :: string where "chain \<equiv> ''AGENTOPS_EGRESS''"

definition redirectRules :: "redirectOpts \<Rightarrow> string list list" where
  "redirectRules o' =
     [[''-t'', ''nat'', ''-N'', chain],
      [''-t'', ''nat'', ''-A'', ''OUTPUT'', ''-p'', ''tcp'', ''-j'', chain],
      [''-t'', ''nat'', ''-A'', chain, ''-m'', ''owner'', ''--uid-owner'', itoa (ro_proxyUID o'), ''-j'', ''RETURN''],
      [''-t'', ''nat'', ''-A'', chain, ''-o'', ''lo'', ''-j'', ''RETURN'']]
     @ map (\<lambda>p. [''-t'', ''nat'', ''-A'', chain, ''-p'', ''tcp'', ''--dport'', itoa p, ''-j'', ''RETURN'']) (ro_excludePorts o')
     @ [[''-t'', ''nat'', ''-A'', chain, ''-p'', ''tcp'', ''-j'', ''REDIRECT'', ''--to-ports'', itoa (ro_proxyPort o')]]"

fun parse_ports :: "string list \<Rightarrow> int list result" where
  "parse_ports [] = Inr []"
| "parse_ports (f # fs) =
     (let f = trim_space f in
      if f = [] then parse_ports fs
      else (case atoi f of
         None \<Rightarrow> Inl (ErrOther (''bad excluded port '' @ quoted f))
       | Some p \<Rightarrow> if p < 1 \<or> p > 65535 then Inl (ErrOther (''bad excluded port '' @ quoted f))
                  else (case parse_ports fs of Inl e \<Rightarrow> Inl e | Inr ps \<Rightarrow> Inr (p # ps))))"

definition parsePorts :: "string \<Rightarrow> int list result" where
  "parsePorts s = (if trim_space s = [] then Inr [] else parse_ports (split_byte CHR '','' s))"

type_synonym 'w runner = "'w \<Rightarrow> string \<Rightarrow> string list \<Rightarrow> 'w \<times> err option"

fun run_rules :: "'w runner \<Rightarrow> string \<Rightarrow> string list list \<Rightarrow> 'w \<Rightarrow> 'w \<times> err option" where
  "run_rules runner bin [] w = (w, None)"
| "run_rules runner bin (r # rs) w =
     (case runner w bin r of
        (w, Some e) \<Rightarrow> (w, Some (Wrapped (bin @ '' '' @ join '' '' r) e))
      | (w, None) \<Rightarrow> run_rules runner bin rs w)"

definition installFamily :: "'w runner \<Rightarrow> redirectOpts \<Rightarrow> string \<Rightarrow> 'w \<Rightarrow> 'w \<times> err option" where
  "installFamily runner o' bin w = run_rules runner bin (redirectRules o') w"

fun install_families :: "'w runner \<Rightarrow> (string \<Rightarrow> bool) \<Rightarrow> redirectOpts \<Rightarrow> (string \<times> string) list \<Rightarrow> 'w \<Rightarrow> 'w \<times> err option" where
  "install_families runner hasBinary o' [] w = (w, None)"
| "install_families runner hasBinary o' ((bin, name) # fams) w =
     (if \<not> hasBinary bin
      then (if bin = ''iptables'' then (w, Some (ErrOther ''no iptables binary: the redirect cannot be installed''))
            else install_families runner hasBinary o' fams w)
      else (case installFamily runner o' bin w of
         (w, Some e) \<Rightarrow> (w, Some (Wrapped (name @ '' redirect'') e))
       | (w, None) \<Rightarrow> install_families runner hasBinary o' fams w))"

definition installRedirect :: "'w runner \<Rightarrow> (string \<Rightarrow> bool) \<Rightarrow> redirectOpts \<Rightarrow> 'w \<Rightarrow> 'w \<times> err option" where
  "installRedirect runner hasBinary o' w =
     install_families runner hasBinary o' [(''iptables'', ''IPv4''), (''ip6tables'', ''IPv6'')] w"

text \<open>\<open>runInstallRedirect\<close> after the flags were read.\<close>

definition runInstallRedirect :: "'w runner \<Rightarrow> (string \<Rightarrow> bool) \<Rightarrow> int \<Rightarrow> int \<Rightarrow> string \<Rightarrow> 'w \<Rightarrow> 'w \<times> err option" where
  "runInstallRedirect runner hasBinary port uid exclude w =
     (case parsePorts exclude of
        Inl e \<Rightarrow> (w, Some e)
      | Inr ports \<Rightarrow> installRedirect runner hasBinary \<lparr>ro_proxyPort = port, ro_proxyUID = uid, ro_excludePorts = ports\<rparr> w)"

end
