(* ===== verification/EgressMcp.thy ===== *)
theory EgressMcp
  imports EgressProxy
begin

text \<open>
  The mediation of one MCP connection (\<open>src/platform/egress-proxy/mcp.go\<close>) and the repair of the tool schemas it
  advertises (\<open>schema.go\<close>). A request is its body and whether the connection stays open after it; the server is a step
  function of its own state. Bodies that are rewritten are kept as the value marshalled. Writes to the client do not
  fail here, and the policy a request is judged by is the one at its arrival.
\<close>

section \<open>The repair of schemas\<close>

definition drop_branches :: "(string \<times> json) list \<Rightarrow> string \<Rightarrow> json option" where
  "drop_branches prop key =
     (case Option.bind (map_of prop key) decode_maps of
        None \<Rightarrow> None
      | Some branches \<Rightarrow>
          (let kept = filter (\<lambda>b. b \<noteq> []) branches;
               rest = AList.delete key prop
           in if length kept = length branches \<or> kept = [] then None
              else if length kept = 1
              then Some (marshal_map (fold (\<lambda>(k, v) m. if map_of m k = None then AList.update k v m else m) (hd kept) rest))
              else Some (marshal_map (AList.update key (JArr (map marshal_map kept)) rest))))"

definition dropEmptyBranches :: "json \<Rightarrow> json option" where
  "dropEmptyBranches propRaw =
     (case decode_map propRaw of
        None \<Rightarrow> None
      | Some prop \<Rightarrow> first_some (drop_branches prop) [''anyOf'', ''oneOf''])"

definition repair_props :: "(string \<times> json) list \<Rightarrow> (string \<times> json) list option" where
  "repair_props props =
     (if list_ex (\<lambda>(n, p). dropEmptyBranches p \<noteq> None) props
      then Some (map (\<lambda>(n, p). (n, case dropEmptyBranches p of Some p' \<Rightarrow> p' | None \<Rightarrow> p)) props)
      else None)"

text \<open>One tool: its schema rewritten, or None when nothing of it changes.\<close>

definition repair_tool :: "(string \<times> json) list \<Rightarrow> (string \<times> json) list option" where
  "repair_tool t =
     (case Option.bind (map_of t ''inputSchema'') decode_map of
        None \<Rightarrow> None
      | Some schema \<Rightarrow>
          (case Option.bind (Option.bind (map_of schema ''properties'') decode_map) repair_props of
             None \<Rightarrow> None
           | Some props \<Rightarrow> Some (AList.update ''inputSchema'' (marshal_map (AList.update ''properties'' (marshal_map props) schema)) t)))"

definition repairSchemas :: "(string \<times> json) list list \<Rightarrow> (string \<times> json) list list \<times> bool" where
  "repairSchemas tools = (map (\<lambda>t. case repair_tool t of Some t' \<Rightarrow> t' | None \<Rightarrow> t) tools, list_ex (\<lambda>t. repair_tool t \<noteq> None) tools)"

section \<open>Calls\<close>

record rpc =
  rpc_Method :: string
  rpc_ID :: "json option"
  rpc_Name :: string

text \<open>The struct of a message; the keys of every \<open>params\<close> object are read into the same inner struct.\<close>

fun params_field :: "(string \<times> json) list \<Rightarrow> string \<times> bool \<Rightarrow> string \<times> bool" where
  "params_field [] acc = acc"
| "params_field ((k, v) # kvs) (s, bad) = params_field kvs
     (if names_field ''params'' k
      then (case v of JObj ps \<Rightarrow> string_field ''name'' ps (s, bad) | JNull \<Rightarrow> (s, bad) | _ \<Rightarrow> (s, True))
      else (s, bad))"

definition decode_rpc :: "json \<Rightarrow> rpc option" where
  "decode_rpc v =
     (case v of
        JObj kvs \<Rightarrow>
          (let (method, bad) = string_field ''method'' kvs ([], False);
               (name, bad') = params_field kvs ([], False)
           in if bad \<or> bad' then None
              else Some \<lparr>rpc_Method = method, rpc_ID = raw_field ''id'' kvs None, rpc_Name = name\<rparr>)
      | JNull \<Rightarrow> Some \<lparr>rpc_Method = [], rpc_ID = None, rpc_Name = []\<rparr>
      | _ \<Rightarrow> None)"

definition is_call :: "rpc \<Rightarrow> bool" where
  "is_call m \<longleftrightarrow> rpc_Method m = ''tools/call'' \<and> rpc_Name m \<noteq> []"

definition first_id :: "rpc list \<Rightarrow> json option" where
  "first_id calls = fold (\<lambda>m acc. case acc of None \<Rightarrow> rpc_ID m | Some i \<Rightarrow> Some i) calls None"

definition callTargets :: "(string \<Rightarrow> json option) \<Rightarrow> string \<Rightarrow> (string list \<times> json option) option" where
  "callTargets parse body =
     (let trimmed = trim_space body in
      if trimmed = [] then None
      else if hd trimmed = CHR ''['' then
        (case parse trimmed of
           Some (JArr vs) \<Rightarrow>
             (case those (map decode_rpc vs) of
                None \<Rightarrow> None
              | Some batch \<Rightarrow>
                  (let calls = filter is_call batch
                   in if calls = [] then None else Some (map rpc_Name calls, first_id calls)))
         | _ \<Rightarrow> None)
      else (case Option.bind (parse trimmed) decode_rpc of
         None \<Rightarrow> None
       | Some m \<Rightarrow> if is_call m then Some ([rpc_Name m], rpc_ID m) else None))"

definition firstDenied :: "string list \<Rightarrow> string \<Rightarrow> policy \<Rightarrow> string option" where
  "firstDenied names endpointKey p = List.find (\<lambda>q. \<not> permits p q) (map (qualify endpointKey) names)"

section \<open>Listings\<close>

definition listed_tools :: "json \<Rightarrow> ((string \<times> json) list \<times> (string \<times> json) list \<times> (string \<times> json) list list) option" where
  "listed_tools v =
     Option.bind (decode_map v) (\<lambda>msg. Option.bind (Option.bind (map_of msg ''result'') decode_map)
       (\<lambda>result. Option.bind (Option.bind (map_of result ''tools'') decode_maps) (\<lambda>tools. Some (msg, result, tools))))"

definition tool_granted :: "string \<Rightarrow> policy \<Rightarrow> (string \<times> json) list \<Rightarrow> bool" where
  "tool_granted endpointKey p t =
     (case Option.bind (map_of t ''name'') decode_string of None \<Rightarrow> False | Some name \<Rightarrow> permits p (qualify endpointKey name))"

text \<open>The rewritten listing, or None when the body is passed on as it is.\<close>

definition filterListing :: "(string \<Rightarrow> json option) \<Rightarrow> string \<Rightarrow> string \<Rightarrow> policy \<Rightarrow> json option" where
  "filterListing parse body endpointKey p =
     (let trimmed = trim_space body in
      if trimmed = [] \<or> hd trimmed \<noteq> CHR ''{'' then None
      else (case Option.bind (parse trimmed) listed_tools of
         None \<Rightarrow> None
       | Some (msg, result, tools) \<Rightarrow>
           (let kept = filter (tool_granted endpointKey p) tools;
                (repaired, changed) = repairSchemas kept
            in if length kept = length tools \<and> \<not> changed then None
               else Some (marshal_map (AList.update ''result''
                 (marshal_map (AList.update ''tools'' (JArr (map marshal_map repaired)) result)) msg)))))"

section \<open>Answers\<close>

datatype payload = AsRead string | Rewritten json

datatype answer =
    Refusal "json option" string bool
  | Whole payload
  | Lines "payload list"

definition refusal_text :: "string \<Rightarrow> bool \<Rightarrow> string" where
  "refusal_text qualified ready =
     (if \<not> ready then ''tool '' @ quoted qualified @ '' refused: no work unit has been dispatched yet, so nothing is granted''
      else ''tool '' @ quoted qualified @ '' is not granted by this conversation's wiring'')"

definition writeRefusal :: "json option \<Rightarrow> string \<Rightarrow> bool \<Rightarrow> json" where
  "writeRefusal rid qualified ready =
     marshal_map [(''jsonrpc'', JStr ''2.0''), (''id'', case rid of Some i \<Rightarrow> i | None \<Rightarrow> JNull),
       (''error'', marshal_map [(''code'', JNumber ''-32601''), (''message'', JStr (refusal_text qualified ready))])]"

record Response =
  rsp_ContentType :: string
  rsp_Body :: string

text \<open>A line of an event stream, with its line break.\<close>

fun split_lines :: "string \<Rightarrow> string list" where
  "split_lines [] = []"
| "split_lines (c # s) =
     (if c = CHR 0x0A then [c] # split_lines s
      else (case split_lines s of [] \<Rightarrow> [[c]] | l # ls \<Rightarrow> (c # l) # ls))"

definition filter_line :: "(string \<Rightarrow> json option) \<Rightarrow> string \<Rightarrow> policy \<Rightarrow> string \<Rightarrow> payload" where
  "filter_line parse endpointKey p line =
     (if has_prefix line ''data:''
      then (case filterListing parse (trim_space (drop 5 line)) endpointKey p of Some v \<Rightarrow> Rewritten v | None \<Rightarrow> AsRead line)
      else AsRead line)"

definition forwardResponse :: "(string \<Rightarrow> json option) \<Rightarrow> Response \<Rightarrow> string \<Rightarrow> policy \<Rightarrow> answer" where
  "forwardResponse parse resp endpointKey p =
     (if has_prefix (rsp_ContentType resp) ''text/event-stream''
      then Lines (map (filter_line parse endpointKey p) (split_lines (rsp_Body resp)))
      else (let (body, tooBig) = readBounded (rsp_Body resp)
            in if tooBig then Whole (AsRead body)
               else (case filterListing parse body endpointKey p of Some v \<Rightarrow> Whole (Rewritten v) | None \<Rightarrow> Whole (AsRead body))))"

section \<open>The connection\<close>

record Request =
  rq_Body :: string
  rq_KeepAlive :: bool

datatype verdict = RefuseCall "json option" string bool | ForwardBody string

definition mediate :: "(string \<Rightarrow> json option) \<Rightarrow> string \<Rightarrow> policy \<Rightarrow> string \<Rightarrow> verdict" where
  "mediate parse endpointKey p raw =
     (let (body, tooBig) = readBounded raw
      in if tooBig then ForwardBody body
         else (case callTargets parse body of
            None \<Rightarrow> ForwardBody body
          | Some (names, rid) \<Rightarrow>
              (case firstDenied names endpointKey p of
                 Some denied \<Rightarrow> RefuseCall rid denied (po_known p)
               | None \<Rightarrow> ForwardBody body)))"

text \<open>Each request with the policy at its arrival; the server answers a body or closes.\<close>

fun serveMCP :: "(string \<Rightarrow> json option) \<Rightarrow> string \<Rightarrow> ('u \<Rightarrow> string \<Rightarrow> 'u \<times> Response option) \<Rightarrow> (policy \<times> Request) list \<Rightarrow> 'u
    \<Rightarrow> 'u \<times> answer list" where
  "serveMCP parse key server [] u = (u, [])"
| "serveMCP parse key server ((p, req) # rest) u =
     (case mediate parse key p (rq_Body req) of
        RefuseCall rid denied ready \<Rightarrow>
          (if rq_KeepAlive req
           then (let (u, as) = serveMCP parse key server rest u in (u, Refusal rid denied ready # as))
           else (u, [Refusal rid denied ready]))
      | ForwardBody body \<Rightarrow>
          (case server u body of
             (u, None) \<Rightarrow> (u, [])
           | (u, Some resp) \<Rightarrow>
               if rq_KeepAlive req
               then (let (u, as) = serveMCP parse key server rest u in (u, forwardResponse parse resp key p # as))
               else (u, [forwardResponse parse resp key p])))"

end
