(* ===== verification/RuntimeStart.thy ===== *)
theory RuntimeStart
  imports Pods
begin

text \<open>
  Pods that do not start: \<open>internal/controller/runtimestart.go\<close>, which reads the evidence on the pod and derives the
  delay before the next attempt, and the reading of a node in \<open>drain.go\<close>. Container and condition texts are the
  kubelet's; a container that waits carries a reason and a message.
\<close>

section \<open>Deadlines and the classification of a stuck pod\<close>

definition DefaultRuntimeStartDeadline :: duration where "DefaultRuntimeStartDeadline = 10 * minute"
definition runtimeStartBackoffBase :: duration where "runtimeStartBackoffBase = 30 * second"
definition runtimeStartBackoffMax :: duration where "runtimeStartBackoffMax = 10 * minute"

abbreviation ReasonVolumeUnavailable :: string where "ReasonVolumeUnavailable \<equiv> ''VolumeUnavailable''"
abbreviation ReasonUnschedulable :: string where "ReasonUnschedulable \<equiv> ''Unschedulable''"
abbreviation ReasonImageUnavailable :: string where "ReasonImageUnavailable \<equiv> ''ImageUnavailable''"
abbreviation ReasonNotStarted :: string where "ReasonNotStarted \<equiv> ''NotStarted''"
abbreviation ReasonStarted :: string where "ReasonStarted \<equiv> ''Started''"

record startFailure =
  sf_Reason :: string
  sf_Message :: string
  sf_Storage :: bool

definition podStarted :: "Pod \<Rightarrow> bool" where
  "podStarted pod \<longleftrightarrow> kp_Phase pod \<in> {PodRunning, PodSucceeded, PodFailed}"

definition runtimeStartOverdue :: "Pod \<Rightarrow> duration \<Rightarrow> go_time \<Rightarrow> bool" where
  "runtimeStartOverdue pod deadline now =
     (if podStarted pod then False else time_sub now (kp_CreationTimestamp pod) > deadline)"

definition podCondition :: "Pod \<Rightarrow> string \<Rightarrow> PodCondition option" where
  "podCondition pod t = List.find (\<lambda>c. pc_Type c = t) (kp_Conditions pod)"

definition condEvidence :: "string \<Rightarrow> PodCondition \<Rightarrow> string" where
  "condEvidence lead c =
     lead @ (if pc_Reason c \<noteq> [] then '' ['' @ pc_Reason c @ '']'' else [])
          @ (let m = trim_space (pc_Message c) in if m \<noteq> [] then '': '' @ m else [])"

definition imagePullReasons :: "string list" where
  "imagePullReasons = [''ImagePullBackOff'', ''ErrImagePull'', ''InvalidImageName'', ''ImageInspectError'', ''RegistryUnavailable'']"

definition all_statuses :: "Pod \<Rightarrow> ContainerStatus list" where
  "all_statuses pod = kp_InitStatuses pod @ kp_Statuses pod"

fun image_waiting :: "ContainerState \<Rightarrow> (string \<times> string) option" where
  "image_waiting (Waiting r m) = (if r \<in> set imagePullReasons then Some (r, trim_space m) else None)"
| "image_waiting _ = None"

definition imageProblem :: "Pod \<Rightarrow> (string \<times> string) option" where
  "imageProblem pod = first_some (image_waiting \<circ> ks_State) (all_statuses pod)"

definition stuck :: "ContainerState \<Rightarrow> bool" where
  "stuck st = (case st of Waiting r m \<Rightarrow> True | Terminated n \<Rightarrow> n \<noteq> 0 | _ \<Rightarrow> False)"

definition mediationSuffix :: "Pod \<Rightarrow> string" where
  "mediationSuffix pod =
     (let names = map ks_Name (filter (\<lambda>cs. ks_Name cs \<in> {''egress-proxy'', ''egress-init''} \<and> stuck (ks_State cs)) (kp_InitStatuses pod))
      in if names = [] then []
         else '' (egress mediation: '' @ join '', '' (sort names)
              @ '' has not started, so the agent reaches nothing until it does)'')"

definition waiting_reasons :: "ContainerStatus list \<Rightarrow> string list" where
  "waiting_reasons css = concat (map (\<lambda>cs. case ks_State cs of Waiting r m \<Rightarrow> if r \<noteq> [] then [r] else [] | _ \<Rightarrow> []) css)"

definition waitingSuffix :: "Pod \<Rightarrow> string" where
  "waitingSuffix pod =
     (let reasons = sorted_keys (waiting_reasons (all_statuses pod))
      in if reasons = [] then [] else '' (containers waiting: '' @ join '', '' reasons @ '')'')"

definition condition_false :: "Pod \<Rightarrow> string \<Rightarrow> PodCondition option" where
  "condition_false pod t = (case podCondition pod t of
     Some c \<Rightarrow> if pc_Status c = ConditionFalse then Some c else None
   | None \<Rightarrow> None)"

definition classifyStuckPod :: "Pod \<Rightarrow> startFailure" where
  "classifyStuckPod pod =
     (case condition_false pod ''PodScheduled'' of
        Some c \<Rightarrow> \<lparr>sf_Reason = ReasonUnschedulable, sf_Message = condEvidence ''pod is not scheduled'' c, sf_Storage = False\<rparr>
      | None \<Rightarrow> (case imageProblem pod of
          Some (reason, msg) \<Rightarrow> \<lparr>sf_Reason = ReasonImageUnavailable,
             sf_Message = trim_space (''container image unavailable ('' @ reason @ ''): '' @ msg), sf_Storage = False\<rparr>
        | None \<Rightarrow> (case condition_false pod ''PodReadyToStartContainers'' of
            Some c \<Rightarrow> \<lparr>sf_Reason = ReasonVolumeUnavailable,
               sf_Message = condEvidence (''pod is not ready to start containers, ''
                   @ ''which is what an unattached or unmountable volume looks like'') c
                 @ waitingSuffix pod @ mediationSuffix pod, sf_Storage = True\<rparr>
          | None \<Rightarrow> \<lparr>sf_Reason = ReasonNotStarted,
               sf_Message = ''runtime pod did not reach Running before its start deadline''
                 @ waitingSuffix pod @ mediationSuffix pod, sf_Storage = False\<rparr>)))"

section \<open>The delay between attempts\<close>

text \<open>The loop doubles the delay for each failure after the first and stops at the cap; \<open>k\<close> counts what is left of it.\<close>

fun backoff_loop :: "nat \<Rightarrow> duration \<Rightarrow> duration" where
  "backoff_loop 0 d = d"
| "backoff_loop (Suc k) d = (let d = d * 2 in if d \<ge> runtimeStartBackoffMax then runtimeStartBackoffMax else backoff_loop k d)"

definition runtimeStartBackoff :: "int \<Rightarrow> duration" where
  "runtimeStartBackoff failures =
     (if failures \<le> 0 then 0 else backoff_loop (nat (failures - 1)) runtimeStartBackoffBase)"

section \<open>Nodes on their way down\<close>

definition conditionTaints :: "string list" where
  "conditionTaints = map (\<lambda>k. ''node.kubernetes.io/'' @ k)
     [''not-ready'', ''unreachable'', ''memory-pressure'', ''disk-pressure'', ''pid-pressure'', ''network-unavailable'', ''out-of-service'']"

definition nodeUnschedulable :: "kube_Node \<Rightarrow> bool" where
  "nodeUnschedulable node \<longleftrightarrow> nd_Unschedulable node
     \<or> list_ex (\<lambda>t. tn_Effect t \<in> {''NoSchedule'', ''NoExecute''} \<and> tn_Key t \<notin> set conditionTaints) (nd_Taints node)"

section \<open>What the evidence says\<close>

definition waits_for_image :: "ContainerStatus \<Rightarrow> bool" where
  "waits_for_image cs = (case ks_State cs of Waiting r m \<Rightarrow> r \<in> set imagePullReasons | _ \<Rightarrow> False)"

lemma image_waiting_None: "image_waiting (ks_State cs) = None \<longleftrightarrow> \<not> waits_for_image cs"
  by (cases "ks_State cs") (auto simp: waits_for_image_def)

text \<open>A stuck pod counts against context storage exactly when a node took it, none of its containers waits for an
  image, and its sandbox and volumes are not ready; it is then the only case with that reason.\<close>

theorem only_volumes_blame_storage:
  "(sf_Storage (classifyStuckPod pod) \<longleftrightarrow>
      condition_false pod ''PodScheduled'' = None
      \<and> \<not> list_ex waits_for_image (all_statuses pod)
      \<and> condition_false pod ''PodReadyToStartContainers'' \<noteq> None)
   \<and> (sf_Reason (classifyStuckPod pod) = ReasonVolumeUnavailable \<longleftrightarrow> sf_Storage (classifyStuckPod pod))"
proof -
  have "imageProblem pod = None \<longleftrightarrow> \<not> list_ex waits_for_image (all_statuses pod)"
    by (auto simp: imageProblem_def first_some_None image_waiting_None list_ex_iff)
  then show ?thesis
    by (auto simp: classifyStuckPod_def split: option.splits)
qed

lemma backoff_loop_capped: "d \<le> runtimeStartBackoffMax \<Longrightarrow> 0 \<le> d \<Longrightarrow> backoff_loop k d = min runtimeStartBackoffMax (d * 2 ^ k)"
proof (induction k arbitrary: d)
  case 0
  then show ?case by simp
next
  case (Suc k)
  show ?case
  proof (cases "d * 2 \<ge> runtimeStartBackoffMax")
    case True
    have "d * 2 \<le> d * 2 * 2 ^ k" using Suc.prems by (simp add: mult_le_cancel_left1)
    with True show ?thesis by (simp add: mult.assoc)
  next
    case False
    with Suc.prems Suc.IH [of "d * 2"] show ?thesis by (simp add: mult.assoc)
  qed
qed

text \<open>C30. The delay after the n-th failed start in a row is thirty seconds doubled n - 1 times, and never more than ten
  minutes; a conversation that has not failed waits for nothing. The multiplication never leaves the range of a
  duration.\<close>

theorem start_backoff_doubles:
  "runtimeStartBackoff n = (if n \<le> 0 then 0 else min (10 * minute) (30 * second * 2 ^ nat (n - 1)))
   \<and> 0 \<le> runtimeStartBackoff n \<and> runtimeStartBackoff n \<le> 10 * minute"
proof -
  have "runtimeStartBackoff n = (if n \<le> 0 then 0 else min (10 * minute) (30 * second * 2 ^ nat (n - 1)))"
    using backoff_loop_capped [of runtimeStartBackoffBase "nat (n - 1)"]
    by (simp add: runtimeStartBackoff_def runtimeStartBackoffBase_def runtimeStartBackoffMax_def duration_defs)
  then show ?thesis by (simp add: duration_defs)
qed

end
