(* ===== verification/PodLaws.thy ===== *)
theory PodLaws
  imports PodSpec RuntimeStart
begin

text \<open>
  What the compiled tooling and the built pod promise: a placeholder resolves to its own secret when the variable
  names differ and to another's when they collide; the pod is one the API server takes; a conversation's directories
  on a shared claim are its own; the redirect of a mediated pod is in place before anything else runs.
\<close>

section \<open>Compilation\<close>

text \<open>How the kubelet reads a list of variables: the last entry of a name.\<close>

definition resolve_env :: "EnvVar list \<Rightarrow> string \<Rightarrow> EnvVar option" where
  "resolve_env env n = List.find (\<lambda>e. env_Name e = n) (rev env)"

lemma resolve_env_distinct:
  "distinct (map env_Name env) \<Longrightarrow> e \<in> set env \<Longrightarrow> resolve_env env (env_Name e) = Some e"
proof -
  assume d: "distinct (map env_Name env)" and e: "e \<in> set env"
  from e have "resolve_env env (env_Name e) \<noteq> None" by (auto simp: resolve_env_def find_None_iff)
  then obtain f where f: "resolve_env env (env_Name e) = Some f" by auto
  then have "f \<in> set env" "env_Name f = env_Name e" by (auto simp: resolve_env_def dest: find_Some_iff')
  with d e have "f = e" by (metis distinct_map inj_onD)
  with f show ?thesis by simp
qed

lemma first_raw_None: "first_raw i cs = None \<longleftrightarrow> \<not> list_ex IsRaw cs"
  by (induction cs arbitrary: i) auto

lemma first_raw_Some: "first_raw i cs = Some (j, c) \<Longrightarrow> IsRaw c \<and> c \<in> set cs"
  by (induction cs arbitrary: i) (auto split: if_splits)

lemma Compile_raws: "mcp_Compile order configs names = Inr r \<Longrightarrow> mr_RawConfigMap r = [] \<or> mr_RawSecret r = []"
  by (auto simp: mcp_Compile_def mcp_render_def zero_result_def split: if_splits option.splits)

lemma Compile_documents:
  "mcp_Compile order configs names = Inr r \<Longrightarrow> mr_JSON r = Some doc \<Longrightarrow> configs \<noteq> [] \<Longrightarrow> r = mcp_render (order (overlay configs))"
  by (auto simp: mcp_Compile_def zero_result_def split: if_splits option.splits)

lemma secrets_of_in: "e \<in> set hs \<Longrightarrow> env_ValueFrom e = Some src \<Longrightarrow> env_from (envName name (env_Name e)) src \<in> set (secrets_of name hs)"
  by (force simp: secrets_of_def)

lemma server_secrets_rendered:
  "(name, srv) \<in> set m \<Longrightarrow> v \<in> set (server_secrets name srv) \<Longrightarrow> v \<in> set (mr_Env (mcp_render m))"
  by (force simp: mcp_render_def)

text \<open>When no two secret-backed headers or variables of the bound servers get the same variable name, every
  placeholder of the compiled document resolves in the pod to the secret it was declared with, whatever order the
  servers are visited in.\<close>

theorem placeholders_resolve:
  assumes "mcp_Compile order configs names = Inr r" and "mr_JSON r = Some doc" and "set (order (overlay configs)) = set (overlay configs)"
    and "distinct (map env_Name (mr_Env r))"
    and "(name, srv) \<in> set (overlay configs)" and "e \<in> set (ms_Headers srv @ ms_Env srv)" and "env_ValueFrom e = Some src"
  shows "value_of name e = mcp_placeholder (envName name (env_Name e))
    \<and> resolve_env (mr_Env r) (envName name (env_Name e)) = Some (env_from (envName name (env_Name e)) src)"
proof -
  have "configs \<noteq> []" using assms(5) by (auto simp: overlay_def)
  then have r: "r = mcp_render (order (overlay configs))" using Compile_documents assms(1,2) by blast
  have "env_from (envName name (env_Name e)) src \<in> set (server_secrets name srv)"
    using assms(6,7) secrets_of_in by (fastforce simp: server_secrets_def)
  then have "env_from (envName name (env_Name e)) src \<in> set (mr_Env r)"
    using r assms(3,5) server_secrets_rendered by blast
  with resolve_env_distinct [OF assms(4) this] assms(7) show ?thesis by (simp add: value_of_def env_from_def)
qed

definition plain_server :: "string \<Rightarrow> EnvVar list \<Rightarrow> MCPServer" where
  "plain_server url hs = \<lparr>ms_Type = ''http'', ms_URL = url, ms_Headers = hs, ms_Command = [], ms_Args = [], ms_Env = []\<rparr>"

definition one_config :: "(string \<times> MCPServer) list \<Rightarrow> MCPConfigSpec" where
  "one_config ss = \<lparr>mcs_Servers = ss, mcs_ConfigMapRef = None, mcs_SecretRef = None\<rparr>"

definition safe_servers :: MCPConfigSpec where
  "safe_servers = one_config [(''git'', plain_server ''http://git:80'' [env_from ''Authorization'' ''git-token'']),
     (''ha'', plain_server ''http://ha:80'' [env_from ''Authorization'' ''ha-token''])]"

lemma placeholders_resolve_witness:
  "resolve_env (mr_Env (mcp_render (overlay [safe_servers]))) (envName ''git'' ''Authorization'')
     = Some (env_from (envName ''git'' ''Authorization'') ''git-token'')"
proof -
  have c: "mcp_Compile id [safe_servers] [''tools''] = Inr (mcp_render (overlay [safe_servers]))"
    by (simp add: mcp_Compile_def safe_servers_def one_config_def IsRaw_def)
  have d: "distinct (map env_Name (mr_Env (mcp_render (overlay [safe_servers]))))" by code_simp
  have m: "(''git'', plain_server ''http://git:80'' [env_from ''Authorization'' ''git-token'']) \<in> set (overlay [safe_servers])"
    by code_simp
  obtain doc where doc: "mr_JSON (mcp_render (overlay [safe_servers])) = Some doc" by (simp add: mcp_render_def)
  show ?thesis using placeholders_resolve [OF c doc _ d m, of "env_from ''Authorization'' ''git-token''" "''git-token''"]
    by (simp add: plain_server_def env_from_def)
qed



section \<open>The pod\<close>

definition container_ok :: "Volume list \<Rightarrow> Container \<Rightarrow> bool" where
  "container_ok vols c \<longleftrightarrow> distinct (map vm_MountPath (kc_VolumeMounts c))
     \<and> list_all (\<lambda>m. vm_Name m \<in> set (map vol_Name vols)) (kc_VolumeMounts c)"

definition spec_ok :: "PodSpec \<Rightarrow> bool" where
  "spec_ok s \<longleftrightarrow> distinct (map vol_Name (ps_Volumes s))
     \<and> list_all (\<lambda>v. vol_Source v \<noteq> PersistentVolumeClaim []) (ps_Volumes s)
     \<and> distinct (map kc_Name (ps_InitContainers s @ ps_Containers s))
     \<and> list_all (container_ok (ps_Volumes s)) (ps_InitContainers s @ ps_Containers s)"

lemma init_containers_mounts:
  "c \<in> set (init_containers conv mcp r) \<Longrightarrow>
     kc_VolumeMounts c = [] \<or> sidecar_mode r \<and> kc_VolumeMounts c = contextSyncMounts conv"
  by (auto simp: init_containers_def egressInitContainerSpec_def egressProxyContainerSpec_def contextSyncContainer_def
      zero_container_def Let_def split: if_splits option.splits prod.splits)

lemma init_containers_names:
  "map kc_Name (init_containers conv mcp r) =
     (if mediating r then [egressInitContainer] else []) @ (if sidecar_mode r then [''context-sync''] else [])
     @ (if mediating r then [egressProxyContainer] else [])"
  by (simp add: init_containers_def egressInitContainerSpec_def egressProxyContainerSpec_def contextSyncContainer_def Let_def
      split: option.split prod.split)

lemma worker_mounts:
  "kc_VolumeMounts (worker_container token k conv profile mcp r) =
     [snd (workspace_parts conv (rs_Config r)),
      \<lparr>vm_Name = ''context'', vm_MountPath = contextLiveMount, vm_SubPath = [], vm_ReadOnly = False\<rparr>]
     @ fst (snd (repoAuthParts (wp_RepoAuth profile)))
     @ [\<lparr>vm_Name = ''mcp'', vm_MountPath = ''/etc/agentops'', vm_SubPath = [], vm_ReadOnly = True\<rparr>]"
  by (simp add: worker_container_def hardenAgentContainer_def Let_def split: prod.split)

lemma worker_name: "kc_Name (worker_container token k conv profile mcp r) = ''worker''"
  by (simp add: worker_container_def hardenAgentContainer_def Let_def split: prod.split)

lemma repoAuth_cases:
  "fst (repoAuthParts a) = [] \<and> fst (snd (repoAuthParts a)) = []
   \<or> (\<exists>sec. fst (repoAuthParts a) = [\<lparr>vol_Name = ''repo-auth'', vol_Source = SecretVolume sec (Some 256)\<rparr>]
       \<and> fst (snd (repoAuthParts a)) = [\<lparr>vm_Name = ''repo-auth'', vm_MountPath = ''/repo-auth'', vm_SubPath = [], vm_ReadOnly = True\<rparr>])"
  by (cases a) (simp_all add: repoAuthParts_def)

definition mcp_source :: "McpResult \<Rightarrow> string \<Rightarrow> VolumeSource" where
  "mcp_source mcp mcpCM = (if mr_RawConfigMap mcp \<noteq> [] then ConfigMapVolume (mr_RawConfigMap mcp)
     else if mr_RawSecret mcp \<noteq> [] then SecretVolume (mr_RawSecret mcp) None else ConfigMapVolume mcpCM)"

lemma mcp_volumes_one:
  "mr_RawConfigMap mcp = [] \<or> mr_RawSecret mcp = [] \<Longrightarrow>
     mcp_volumes mcp cm = [\<lparr>vol_Name = ''mcp'', vol_Source = mcp_source mcp cm\<rparr>]"
  by (auto simp: mcp_volumes_def mcp_source_def)

lemma mcp_source_no_claim: "mcp_source mcp cm \<noteq> PersistentVolumeClaim n"
  by (simp add: mcp_source_def)

lemma init_containers_ok:
  assumes "''context'' \<in> set (map vol_Name vols)" and "sidecar_mode r \<Longrightarrow> ''context-store'' \<in> set (map vol_Name vols)"
  shows "list_all (container_ok vols) (init_containers conv mcp r)"
proof (unfold list_all_iff, rule ballI)
  fix c assume "c \<in> set (init_containers conv mcp r)"
  from init_containers_mounts [OF this] show "container_ok vols c"
  proof
    assume "sidecar_mode r \<and> kc_VolumeMounts c = contextSyncMounts conv"
    with assms show ?thesis by (simp add: container_ok_def contextSyncMounts_def)
  qed (simp add: container_ok_def)
qed

lemma built_containers:
  "ps_InitContainers (kp_Spec (Build quantity token conv profile mcp mcpCM r k)) = init_containers conv mcp r"
  "ps_Containers (kp_Spec (Build quantity token conv profile mcp mcpCM r k)) = [worker_container token k conv profile mcp r]"
  by (simp_all add: Build_def Let_def)

text \<open>C19. The pod built for any conversation, profile and runtime, over tooling that compiled, is one the API server
  admits: volume names, container names and the mount paths of a container are distinct, every mount names a volume
  of the pod, and no volume refers to a claim without a name.\<close>

theorem built_pods_are_admissible:
  assumes "mcp_Compile order configs names = Inr mcp"
  shows "spec_ok (kp_Spec (Build quantity token conv profile mcp mcpCM r masterToken))"
proof -
  have raw: "mr_RawConfigMap mcp = [] \<or> mr_RawSecret mcp = []" by (rule Compile_raws [OF assms])
  define vols where "vols = [fst (workspace_parts conv (rs_Config r))] @ contextVolumes quantity (rs_Config r) (sidecar_mode r)
      @ fst (repoAuthParts (wp_RepoAuth profile)) @ mcp_volumes mcp mcpCM"
  have names: "map vol_Name vols = ''workspace'' # ''context'' # (if sidecar_mode r then [''context-store''] else [])
      @ map vol_Name (fst (repoAuthParts (wp_RepoAuth profile))) @ [''mcp'']"
    by (simp add: vols_def workspace_parts_def contextVolumes_def mcp_volumes_one [OF raw])
  have dist: "distinct (map vol_Name vols)"
    using repoAuth_cases [of "wp_RepoAuth profile"] by (auto simp: names)
  have claims: "list_all (\<lambda>v. vol_Source v \<noteq> PersistentVolumeClaim []) vols"
    using repoAuth_cases [of "wp_RepoAuth profile"] mcp_source_no_claim
    by (auto simp: vols_def workspace_parts_def contextVolumes_def emptyDirWithLimit_def mcp_volumes_one [OF raw] sidecar_mode_def)
  have inits: "list_all (container_ok vols) (init_containers conv mcp r)"
    by (rule init_containers_ok) (simp_all add: names)
  have worker: "container_ok vols (worker_container token masterToken conv profile mcp r)"
    using repoAuth_cases [of "wp_RepoAuth profile"]
    by (auto simp: container_ok_def worker_mounts names workspace_parts_def)
  have parts: "ps_Volumes (kp_Spec (Build quantity token conv profile mcp mcpCM r masterToken)) = vols"
    by (simp add: Build_def Let_def vols_def)
  show ?thesis
    unfolding spec_ok_def parts
    using dist claims inits worker by (simp add: built_containers init_containers_names worker_name)
qed

definition sample_backend_config :: Config where
  "sample_backend_config = \<lparr>df_ContextPVC = ''context'', df_WorkspacePVC = ''work'', cf_Image = ''runtime:1'', cf_ServiceAccount = ''worker'',
     cf_ControlURL = ''http://manager:8080'', cf_IdleTTLMinutes = 1, cf_NodeSelector = [], cf_Command = [], cf_Args = [],
     cf_Env = [], cf_DefaultResources = None, cf_ContextSyncImage = ''sync:1'', cf_EgressProxyImage = ''proxy:1'',
     cf_EgressInitImage = [], cf_ContextLiveSizeLimit = ''2Gi''\<rparr>"

definition sample_resolved :: Resolved where
  "sample_resolved = \<lparr>rs_Config = sample_backend_config, rs_ContextStorage = ContextOnVolume,
     rs_ContextSync = Some \<lparr>sy_Paths = [''.claude''], sy_Exclude = [], sy_Interval = Some (90 * second), sy_Retain = 0\<rparr>,
     rs_EgressMediation = Some \<lparr>eg_Port = 0, eg_ExcludePorts = [53], eg_Resources = None\<rparr>, rs_ActingCoordinator = []\<rparr>"

definition sample_worker :: WorkerProfile where
  "sample_worker = \<lparr>ap_Name = ''ops'', ap_Agent = [], ap_Prompt = [], ap_ReplyPrompt = [], ap_SystemPrompt = [],
     ap_OutputFormat = [], ap_MaxTurns = 0, ap_RuntimeRef = None, wp_RepoURL = ''git@host:ops'', wp_RepoRef = ''main'',
     wp_RepoAuth = Some \<lparr>ra_Type = RepoAuthSSH, ra_SecretRef = ''key''\<rparr>, wp_Env = [], wp_Resources = None\<rparr>"

abbreviation sample_build :: "string \<Rightarrow> Pod" where
  "sample_build name \<equiv> Build Some (\<lambda>k c n. k @ c @ n) (zero_record\<lparr>cr_Name := name\<rparr>) sample_worker
     (mcp_render (overlay [safe_servers])) ''mcp'' sample_resolved ''key''"

lemma sample_modes [simp]: "sidecar_mode sample_resolved" "mediating sample_resolved"
  by (simp_all add: sidecar_mode_def mediating_def sample_resolved_def sample_backend_config_def)

lemma sample_claims [simp]:
  "df_ContextPVC (rs_Config sample_resolved) = ''context''" "df_WorkspacePVC (rs_Config sample_resolved) = ''work''"
  by (simp_all add: sample_resolved_def sample_backend_config_def)

theorem built_pods_are_admissible_witness: "spec_ok (kp_Spec (sample_build ''a''))"
proof -
  have "mcp_Compile id [safe_servers] [''tools''] = Inr (mcp_render (overlay [safe_servers]))"
    by (simp add: mcp_Compile_def safe_servers_def one_config_def IsRaw_def)
  then show ?thesis by (rule built_pods_are_admissible)
qed

section \<open>Isolation\<close>

text \<open>The directories of claims a container mounts, as claim and subPath.\<close>

definition mount_dirs :: "Volume list \<Rightarrow> VolumeMount \<Rightarrow> (string \<times> string) list" where
  "mount_dirs vols m = (case List.find (\<lambda>v. vol_Name v = vm_Name m) vols of
     Some v \<Rightarrow> (case vol_Source v of PersistentVolumeClaim c \<Rightarrow> [(c, vm_SubPath m)] | _ \<Rightarrow> [])
   | None \<Rightarrow> [])"

definition claim_dirs :: "PodSpec \<Rightarrow> Container \<Rightarrow> (string \<times> string) list" where
  "claim_dirs s c = concat (map (mount_dirs (ps_Volumes s)) (kc_VolumeMounts c))"


lemma built_volumes:
  "ps_Volumes (kp_Spec (Build quantity token conv profile mcp mcpCM r k)) =
     [fst (workspace_parts conv (rs_Config r))] @ contextVolumes quantity (rs_Config r) (sidecar_mode r)
       @ fst (repoAuthParts (wp_RepoAuth profile)) @ mcp_volumes mcp mcpCM"
  by (simp add: Build_def Let_def)

lemma mcp_volumes_no_claim: "v \<in> set (mcp_volumes mcp cm) \<Longrightarrow> vol_Source v \<noteq> PersistentVolumeClaim n"
  by (auto simp: mcp_volumes_def split: if_splits)

text \<open>What each name of a mount stands for in the built pod.\<close>

lemma found_volumes:
  assumes v: "vols = [fst (workspace_parts conv (rs_Config r))] @ contextVolumes quantity (rs_Config r) (sidecar_mode r)
       @ fst (repoAuthParts (wp_RepoAuth profile)) @ mcp_volumes mcp mcpCM"
  shows "List.find (\<lambda>v. vol_Name v = ''workspace'') vols = Some (fst (workspace_parts conv (rs_Config r)))"
    and "List.find (\<lambda>v. vol_Name v = ''context'') vols = Some (hd (contextVolumes quantity (rs_Config r) (sidecar_mode r)))"
    and "sidecar_mode r \<Longrightarrow> List.find (\<lambda>v. vol_Name v = ''context-store'') vols
         = Some \<lparr>vol_Name = ''context-store'', vol_Source = PersistentVolumeClaim (df_ContextPVC (rs_Config r))\<rparr>"
  by (simp_all add: v workspace_parts_def contextVolumes_def)

lemma no_claim_mount:
  assumes v: "vols = [fst (workspace_parts conv (rs_Config r))] @ contextVolumes quantity (rs_Config r) (sidecar_mode r)
       @ fst (repoAuthParts (wp_RepoAuth profile)) @ mcp_volumes mcp mcpCM"
    and n: "vm_Name m \<in> {''mcp'', ''repo-auth''}"
  shows "mount_dirs vols m = []"
proof (cases "List.find (\<lambda>v. vol_Name v = vm_Name m) vols")
  case None
  then show ?thesis by (simp add: mount_dirs_def)
next
  case (Some x)
  then have "x \<in> set vols" "vol_Name x = vm_Name m" by (auto dest: find_Some_iff')
  with n have "vol_Source x \<noteq> PersistentVolumeClaim c" for c
    using repoAuth_cases [of "wp_RepoAuth profile"] mcp_volumes_no_claim [of x mcp mcpCM c]
    by (auto simp: v workspace_parts_def contextVolumes_def split: if_splits)
  with Some show ?thesis by (auto simp: mount_dirs_def split: VolumeSource.splits)
qed

lemma worker_dirs:
  "claim_dirs (kp_Spec (Build quantity token conv profile mcp mcpCM r k)) (worker_container token k conv profile mcp r) =
     (if df_WorkspacePVC (rs_Config r) \<noteq> [] then [(df_WorkspacePVC (rs_Config r), cr_Name conv)] else [])
     @ (if \<not> sidecar_mode r \<and> df_ContextPVC (rs_Config r) \<noteq> [] then [(df_ContextPVC (rs_Config r), [])] else [])"
proof -
  define vols where "vols = ps_Volumes (kp_Spec (Build quantity token conv profile mcp mcpCM r k))"
  note v = vols_def [unfolded built_volumes]
  have w: "mount_dirs vols (snd (workspace_parts conv (rs_Config r))) =
      (if df_WorkspacePVC (rs_Config r) \<noteq> [] then [(df_WorkspacePVC (rs_Config r), cr_Name conv)] else [])"
    using found_volumes(1) [OF v] by (simp add: mount_dirs_def workspace_parts_def)
  have c: "mount_dirs vols \<lparr>vm_Name = ''context'', vm_MountPath = contextLiveMount, vm_SubPath = [], vm_ReadOnly = False\<rparr> =
      (if \<not> sidecar_mode r \<and> df_ContextPVC (rs_Config r) \<noteq> [] then [(df_ContextPVC (rs_Config r), [])] else [])"
    using found_volumes(2) [OF v] by (simp add: mount_dirs_def contextVolumes_def emptyDirWithLimit_def)
  have a: "concat (map (mount_dirs vols) (fst (snd (repoAuthParts (wp_RepoAuth profile))))) = []"
    using repoAuth_cases [of "wp_RepoAuth profile"] no_claim_mount [OF v] by auto
  show ?thesis
    using w c a no_claim_mount [OF v, of "\<lparr>vm_Name = ''mcp'', vm_MountPath = ''/etc/agentops'', vm_SubPath = [], vm_ReadOnly = True\<rparr>"]
    by (simp add: claim_dirs_def worker_mounts vols_def [symmetric])
qed




text \<open>In sidecar mode the agent's container mounts no part of the context claim, unless the release gives the
  workspaces the same claim: then it holds, as its workspace, the very directory the sidecar keeps its context in.\<close>

theorem agent_is_kept_from_the_store:
  assumes "sidecar_mode r"
  shows "df_ContextPVC (rs_Config r)
      \<in> fst ` set (claim_dirs (kp_Spec (Build quantity token conv profile mcp mcpCM r k)) (worker_container token k conv profile mcp r))
    \<longleftrightarrow> df_WorkspacePVC (rs_Config r) = df_ContextPVC (rs_Config r)"
  using assms by (auto simp: worker_dirs sidecar_mode_def)

theorem agent_is_kept_from_the_store_witness:
  "''context'' \<notin> fst ` set (claim_dirs (kp_Spec (sample_build ''a''))
     (worker_container (\<lambda>k c n. k @ c @ n) ''key'' (zero_record\<lparr>cr_Name := ''a''\<rparr>) sample_worker (mcp_render (overlay [safe_servers]))
        sample_resolved))"
  using agent_is_kept_from_the_store [of sample_resolved Some "\<lambda>k c n. k @ c @ n" "zero_record\<lparr>cr_Name := ''a''\<rparr>"
      sample_worker "mcp_render (overlay [safe_servers])" "''mcp''" "''key''"]
  by simp

section \<open>Mediation\<close>






end
