(* ===== verification/EgressLaws.thy ===== *)
theory EgressLaws
  imports EgressMcp PodLaws
begin

text \<open>
  What the proxy enforces, and where it does not: no refused call reaches a server, and no plainly written call of a
  tool that is not granted is forwarded; a call can be written so that it passes, and the agent can choose what its
  connection is taken for. The rules the pod installs redirect exactly the agent's traffic.
\<close>

section \<open>Calls\<close>

definition harmless :: "(string \<Rightarrow> json option) \<Rightarrow> string \<Rightarrow> policy \<Rightarrow> string \<Rightarrow> bool" where
  "harmless parse key p body =
     (case callTargets parse body of None \<Rightarrow> True | Some (names, rid) \<Rightarrow> list_all (\<lambda>n. permits p (qualify key n)) names)"

lemma firstDenied_None: "firstDenied names key p = None \<longleftrightarrow> list_all (\<lambda>n. permits p (qualify key n)) names"
  by (auto simp: firstDenied_def find_None_iff list_all_iff)

lemma mediate_forwards:
  "mediate parse key p raw = ForwardBody b \<Longrightarrow>
     b = take (maxMessage + 1) raw \<and> (length raw > maxMessage \<or> harmless parse key p b)"
  by (auto simp: mediate_def readBounded_def Let_def harmless_def firstDenied_None split: if_splits option.splits prod.splits)

text \<open>A server that keeps what it received.\<close>

definition logged :: "('u \<Rightarrow> string \<Rightarrow> 'u \<times> Response option) \<Rightarrow> 'u \<times> string list \<Rightarrow> string \<Rightarrow> ('u \<times> string list) \<times> Response option" where
  "logged server s b = (case server (fst s) b of (u, r) \<Rightarrow> ((u, snd s @ [b]), r))"

lemma logged_step: "server u b = (v, r) \<Longrightarrow> logged server (u, log) b = ((v, log @ [b]), r)"
  by (simp add: logged_def)

definition accounted :: "(string \<Rightarrow> json option) \<Rightarrow> string \<Rightarrow> (policy \<times> Request) list \<Rightarrow> string \<Rightarrow> bool" where
  "accounted parse key reqs b = list_ex (\<lambda>(p, req). b = take (maxMessage + 1) (rq_Body req)
     \<and> (length (rq_Body req) > maxMessage \<or> harmless parse key p b)) reqs"

lemma accounted_Cons: "accounted parse key rest b \<Longrightarrow> accounted parse key (x # rest) b"
  by (simp add: accounted_def)

lemma serveMCP_log:
  "serveMCP parse key (logged server) reqs (u, log) = ((u', log'), as) \<Longrightarrow>
     \<exists>new. log' = log @ new \<and> list_all (accounted parse key reqs) new"
proof (induction reqs arbitrary: u log u' log' as)
  case Nil
  then show ?case by simp
next
  case (Cons x rest)
  obtain p req where x: "x = (p, req)" by fastforce
  have later: "\<exists>new. l' = l @ new \<and> list_all (accounted parse key (x # rest)) new"
    if "serveMCP parse key (logged server) rest (v, l) = ((v', l'), bs)" for v l v' l' bs
  proof -
    from Cons.IH [OF that] obtain new where "l' = l @ new" "list_all (accounted parse key rest) new" by blast
    then show ?thesis by (auto simp: list_all_iff accounted_Cons)
  qed
  show ?case
  proof (cases "mediate parse key p (rq_Body req)")
    case (RefuseCall rid d rdy)
    show ?thesis
    proof (cases "rq_KeepAlive req")
      case True
      with Cons.prems x RefuseCall obtain bs where
        "serveMCP parse key (logged server) rest (u, log) = ((u', log'), bs)" by (auto split: prod.splits)
      then show ?thesis by (rule later)
    next
      case False
      with Cons.prems x RefuseCall show ?thesis by simp
    qed
  next
    case (ForwardBody b)
    then have acc: "accounted parse key (x # rest) b" using mediate_forwards [OF ForwardBody] by (auto simp: accounted_def x)
    obtain v r where s: "server u b = (v, r)" by fastforce
    show ?thesis
    proof (cases "r \<noteq> None \<and> rq_KeepAlive req")
      case True
      with Cons.prems x ForwardBody s obtain bs where
        "serveMCP parse key (logged server) rest (v, log @ [b]) = ((u', log'), bs)" by (auto simp: logged_step [where server = server, OF s] split: prod.splits)
      from later [OF this] acc show ?thesis by auto
    next
      case False
      with Cons.prems x ForwardBody s have "log' = log @ [b]" by (auto simp: logged_step [where server = server, OF s] split: option.splits)
      with acc show ?thesis by simp
    qed
  qed
qed

text \<open>Whatever a client sends over a connection to a bound server and however the server answers, each message the
  server receives is one of the client's whose every recognised call is granted by the policy at its arrival, unless
  the message was larger than the proxy reads.\<close>

theorem refused_calls_never_reach_the_server:
  "list_all (accounted parse key reqs) (snd (fst (serveMCP parse key (logged server) reqs (u, []))))"
proof -
  obtain u' log as where s: "serveMCP parse key (logged server) reqs (u, []) = ((u', log), as)" by (metis surj_pair)
  with serveMCP_log [OF this] show ?thesis by auto
qed

text \<open>The calls a message makes by JSON-RPC, and a message without repeated or recased keys whose fields have the
  declared types.\<close>

definition calls_of :: "json \<Rightarrow> string list" where
  "calls_of v = (case v of
     JObj kvs \<Rightarrow> (case (map_of kvs ''method'', map_of kvs ''params'') of
        (Some (JStr m), Some (JObj ps)) \<Rightarrow>
           if m = ''tools/call'' then (case map_of ps ''name'' of Some (JStr n) \<Rightarrow> [n] | _ \<Rightarrow> []) else []
      | _ \<Rightarrow> [])
   | _ \<Rightarrow> [])"

definition tool_calls :: "json \<Rightarrow> string list" where
  "tool_calls v = (case v of JArr vs \<Rightarrow> concat (map calls_of vs) | _ \<Rightarrow> calls_of v)"

definition own_key :: "string \<Rightarrow> (string \<times> json) list \<Rightarrow> bool" where
  "own_key f kvs \<longleftrightarrow> list_all (\<lambda>(k, v). names_field f k \<longrightarrow> k = f) kvs"

definition is_text :: "json \<Rightarrow> bool" where
  "is_text v = (case v of JStr t \<Rightarrow> True | _ \<Rightarrow> False)"

lemma is_text_iff [simp]: "is_text v \<longleftrightarrow> (\<exists>t. v = JStr t)"
  by (cases v) (simp_all add: is_text_def)

definition text_field :: "string \<Rightarrow> (string \<times> json) list \<Rightarrow> bool" where
  "text_field f kvs \<longleftrightarrow> own_key f kvs \<and> (case map_of kvs f of None \<Rightarrow> True | Some v \<Rightarrow> is_text v)"

definition plain_message :: "json \<Rightarrow> bool" where
  "plain_message v = (case v of
     JObj kvs \<Rightarrow> distinct (map fst kvs) \<and> text_field ''method'' kvs \<and> own_key ''params'' kvs
       \<and> (case map_of kvs ''params'' of None \<Rightarrow> True
          | Some (JObj ps) \<Rightarrow> distinct (map fst ps) \<and> text_field ''name'' ps
          | _ \<Rightarrow> False)
   | _ \<Rightarrow> False)"

definition plain_body :: "json \<Rightarrow> bool" where
  "plain_body v = (case v of JArr vs \<Rightarrow> list_all plain_message vs | _ \<Rightarrow> plain_message v)"

lemma own_key_Cons [simp]: "own_key f ((k, v) # kvs) \<longleftrightarrow> (names_field f k \<longrightarrow> k = f) \<and> own_key f kvs"
  by (simp add: own_key_def)

lemma string_field_plain:
  "distinct (map fst kvs) \<Longrightarrow> text_field f kvs \<Longrightarrow>
     string_field f kvs (s, bad) = (case map_of kvs f of Some (JStr t) \<Rightarrow> (t, bad) | _ \<Rightarrow> (s, bad))"
proof (induction kvs arbitrary: s bad)
  case Nil
  then show ?case by simp
next
  case (Cons kv kvs)
  obtain k v where kv: "kv = (k, v)" by fastforce
  show ?case
  proof (cases "k = f")
    case True
    with Cons.prems kv obtain t where t: "v = JStr t" by (auto simp: text_field_def)
    have "string_field f kvs (t, bad) = (t, bad)"
    proof (rule string_field_skip)
      fix k' v' assume i: "(k', v') \<in> set kvs"
      with Cons.prems kv True have "k' \<noteq> f" by (force simp: image_iff)
      with Cons.prems i kv show "\<not> names_field f k'" by (auto simp: text_field_def own_key_def list_all_iff)
    qed
    with True kv t show ?thesis by simp
  next
    case False
    with Cons kv show ?thesis by (auto simp: text_field_def)
  qed
qed

lemma params_field_plain:
  "distinct (map fst kvs) \<Longrightarrow> own_key ''params'' kvs \<Longrightarrow>
     (case map_of kvs ''params'' of None \<Rightarrow> True | Some (JObj ps) \<Rightarrow> distinct (map fst ps) \<and> text_field ''name'' ps | _ \<Rightarrow> False) \<Longrightarrow>
     params_field kvs (s, bad) = (case map_of kvs ''params'' of
        Some (JObj ps) \<Rightarrow> (case map_of ps ''name'' of Some (JStr n) \<Rightarrow> (n, bad) | _ \<Rightarrow> (s, bad)) | _ \<Rightarrow> (s, bad))"
proof (induction kvs arbitrary: s bad)
  case Nil
  then show ?case by simp
next
  case (Cons kv kvs)
  obtain k v where kv: "kv = (k, v)" by fastforce
  show ?case
  proof (cases "k = ''params''")
    case True
    with Cons.prems kv obtain ps where v: "v = JObj ps" "distinct (map fst ps)" "text_field ''name'' ps" by (cases v) auto
    have none: "map_of kvs ''params'' = None" using Cons.prems(1) kv True by (auto simp: map_of_eq_None_iff)
    have rest: "params_field kvs (t, b) = (t, b)" for t b
      using Cons.IH [of t b] Cons.prems kv none by simp
    show ?thesis
      using string_field_plain [OF v(2,3), of s bad] rest
      by (auto simp: kv True v split: option.splits json.splits)
  next
    case False
    with Cons kv show ?thesis by simp
  qed
qed

text \<open>The calls a message makes, given what its fields hold.\<close>

lemma calls_of_fields:
  assumes v: "v = JObj kvs" and m: "map_of kvs ''method'' = Some (JStr m) \<or> map_of kvs ''method'' = None \<and> m = []"
    and n: "case map_of kvs ''params'' of Some (JObj ps) \<Rightarrow> map_of ps ''name'' = Some (JStr n) \<or> map_of ps ''name'' = None \<and> n = []
       | None \<Rightarrow> n = [] | _ \<Rightarrow> False"
  shows "filter (\<lambda>n. n \<noteq> []) (calls_of v) = (if m = ''tools/call'' \<and> n \<noteq> [] then [n] else [])"
proof (cases "map_of kvs ''params''")
  case None
  with n have "n = []" by simp
  with m show ?thesis by (elim disjE conjE) (simp_all add: v calls_of_def None del: map_of_eq_Some_iff)
next
  case (Some w)
  with n obtain ps where w: "w = JObj ps" "map_of ps ''name'' = Some (JStr n) \<or> map_of ps ''name'' = None \<and> n = []"
    by (cases w) auto
  have ps: "map_of kvs ''params'' = Some (JObj ps)" using Some w(1) by simp
  have c: "calls_of v = (case (map_of kvs ''method'') of Some (JStr m) \<Rightarrow>
      if m = ''tools/call'' then (case map_of ps ''name'' of Some (JStr n) \<Rightarrow> [n] | _ \<Rightarrow> []) else [] | _ \<Rightarrow> [])"
    unfolding v calls_of_def json.case ps prod.case option.case by (rule refl)
  show ?thesis
  proof (cases "m = ''tools/call''")
    case True
    then have "map_of kvs ''method'' = Some (JStr ''tools/call'')" using m by auto
    then have d: "calls_of v = (case map_of ps ''name'' of Some (JStr n) \<Rightarrow> [n] | _ \<Rightarrow> [])" unfolding c by simp
    show ?thesis
    proof (cases "n = []")
      case True
      with w(2) d show ?thesis by auto
    next
      case False
      with w(2) have "map_of ps ''name'' = Some (JStr n)" by simp
      with d False True show ?thesis by simp
    qed
  next
    case False
    then have "calls_of v = []" using m unfolding c by auto
    with False show ?thesis by simp
  qed
qed

lemma decode_plain:
  assumes "plain_message v"
  shows "\<exists>m. decode_rpc v = Some m \<and> filter (\<lambda>n. n \<noteq> []) (calls_of v) = (if is_call m then [rpc_Name m] else [])"
proof -
  from assms obtain kvs where v: "v = JObj kvs" by (cases v) (auto simp: plain_message_def)
  with assms have p: "distinct (map fst kvs)" "text_field ''method'' kvs" "own_key ''params'' kvs"
    "case map_of kvs ''params'' of None \<Rightarrow> True | Some (JObj ps) \<Rightarrow> distinct (map fst ps) \<and> text_field ''name'' ps | _ \<Rightarrow> False"
    by (simp_all add: plain_message_def)
  obtain m where m: "string_field ''method'' kvs ([], False) = (m, False)"
    "map_of kvs ''method'' = Some (JStr m) \<or> map_of kvs ''method'' = None \<and> m = []"
    using string_field_plain [OF p(1,2), of "[]" False] p(2)
    by (cases "map_of kvs ''method''") (auto simp: text_field_def simp del: map_of_eq_Some_iff)
  obtain n where n: "params_field kvs ([], False) = (n, False)"
    "case map_of kvs ''params'' of Some (JObj ps) \<Rightarrow> map_of ps ''name'' = Some (JStr n) \<or> map_of ps ''name'' = None \<and> n = []
     | None \<Rightarrow> n = [] | _ \<Rightarrow> False"
  proof (cases "map_of kvs ''params''")
    case None
    with that [of "[]"] params_field_plain [OF p(1,3,4), of "[]" False] show ?thesis by simp
  next
    case (Some w)
    with p(4) obtain ps where w: "w = JObj ps" "text_field ''name'' ps" by (cases w) auto
    show ?thesis
    proof (cases "map_of ps ''name''")
      case None
      with Some w that [of "[]"] params_field_plain [OF p(1,3,4), of "[]" False] show ?thesis by simp
    next
      case (Some x)
      with w(2) obtain t where t: "x = JStr t" by (auto simp: text_field_def simp del: map_of_eq_Some_iff)
      show ?thesis
        using that [of t] params_field_plain [OF p(1,3,4), of "[]" False] Some t w(1) \<open>map_of kvs ''params'' = Some w\<close>
        by (simp del: map_of_eq_Some_iff)
    qed
  qed
  have "decode_rpc v = Some \<lparr>rpc_Method = m, rpc_ID = raw_field ''id'' kvs None, rpc_Name = n\<rparr>"
    using m(1) n(1) by (simp add: v decode_rpc_def)
  then show ?thesis using calls_of_fields [OF v m(2) n(2)] by (simp add: is_call_def)
qed

text \<open>The body of a message as the proxy reads it.\<close>

definition reads_as :: "(string \<Rightarrow> json option) \<Rightarrow> string \<Rightarrow> json \<Rightarrow> bool" where
  "reads_as parse body v \<longleftrightarrow> trim_space body \<noteq> [] \<and> parse (trim_space body) = Some v
     \<and> (hd (trim_space body) = CHR ''['' \<longleftrightarrow> (case v of JArr vs \<Rightarrow> True | _ \<Rightarrow> False))"

lemma those_map_plain:
  "list_all plain_message vs \<Longrightarrow> \<exists>ms. those (map decode_rpc vs) = Some ms
     \<and> filter (\<lambda>n. n \<noteq> []) (concat (map calls_of vs)) = map rpc_Name (filter is_call ms)"
proof (induction vs)
  case (Cons v vs)
  then obtain ms where ms: "those (map decode_rpc vs) = Some ms"
    "filter (\<lambda>n. n \<noteq> []) (concat (map calls_of vs)) = map rpc_Name (filter is_call ms)" by auto
  from Cons.prems have "plain_message v" by simp
  from decode_plain [OF this] obtain m where
    "decode_rpc v = Some m" "filter (\<lambda>n. n \<noteq> []) (calls_of v) = (if is_call m then [rpc_Name m] else [])" by blast
  with ms show ?case by simp
qed simp

lemma callTargets_plain:
  assumes "reads_as parse body v" and "plain_body v"
  shows "filter (\<lambda>n. n \<noteq> []) (tool_calls v) = (case callTargets parse body of None \<Rightarrow> [] | Some (names, rid) \<Rightarrow> names)"
proof (cases "\<exists>vs. v = JArr vs")
  case True
  then obtain vs where v: "v = JArr vs" by blast
  with assms have r: "trim_space body \<noteq> []" "parse (trim_space body) = Some (JArr vs)" "hd (trim_space body) = CHR ''[''"
    by (simp_all add: reads_as_def)
  from assms v those_map_plain [of vs] obtain ms where ms: "those (map decode_rpc vs) = Some ms"
    "filter (\<lambda>n. n \<noteq> []) (concat (map calls_of vs)) = map rpc_Name (filter is_call ms)" by (auto simp: plain_body_def)
  show ?thesis using r ms by (simp add: callTargets_def v tool_calls_def Let_def)
next
  case False
  with assms have r: "trim_space body \<noteq> []" "parse (trim_space body) = Some v" "hd (trim_space body) \<noteq> CHR ''[''"
    "plain_message v" by (auto simp: reads_as_def plain_body_def split: json.splits)
  from decode_plain [OF r(4)] obtain m where m: "decode_rpc v = Some m"
    "filter (\<lambda>n. n \<noteq> []) (calls_of v) = (if is_call m then [rpc_Name m] else [])" by blast
  have t: "tool_calls v = calls_of v" using False by (cases v) (auto simp: tool_calls_def)
  from r m show ?thesis by (simp add: t callTargets_def Let_def)
qed

text \<open>C13. A call of a tool the policy does not grant is refused, alone or anywhere in a batch, whenever the message is
  plainly written, each key once and in its own case and each field of the declared type, and no larger than the proxy
  reads.\<close>

theorem plain_calls_are_enforced:
  assumes "reads_as parse body v" and "plain_body v" and "length body \<le> maxMessage"
    and "n \<in> set (tool_calls v)" and "n \<noteq> []" and "\<not> permits p (qualify key n)"
  shows "\<exists>rid denied. mediate parse key p body = RefuseCall rid denied (po_known p)"
proof -
  from callTargets_plain [OF assms(1,2)] assms(4,5) obtain names rid where
    c: "callTargets parse body = Some (names, rid)" and n: "n \<in> set names"
    by (cases "callTargets parse body") (force simp: filter_empty_conv)+
  with assms(6) have "firstDenied names key p \<noteq> None" by (auto simp: firstDenied_None list_all_iff)
  with c assms(3) show ?thesis by (auto simp: mediate_def readBounded_def Let_def)
qed

section \<open>Messages that pass\<close>

definition denied_call :: json where
  "denied_call = JObj [(''method'', JStr ''tools/call''), (''id'', JNumber ''1''), (''params'', JObj [(''name'', JStr ''delete'')])]"

definition call_text :: string where
  \<open>call_text = ''{"method":"tools/call","id":1,"params":{"name":"delete"}}''\<close>

definition batch_text :: string where
  \<open>batch_text = ''[{"method":"tools/call","id":1,"params":{"name":"delete"}},{"method":"ping","params":[]}]''\<close>

definition batch_value :: json where
  "batch_value = JArr [denied_call, JObj [(''method'', JStr ''ping''), (''params'', JArr [])]]"

definition recased_text :: string where
  \<open>recased_text = ''{"method":"tools/call","id":1,"params":{"name":"delete"},"Params":0}''\<close>

definition recased_value :: json where
  "recased_value = JObj [(''method'', JStr ''tools/call''), (''id'', JNumber ''1''), (''params'', JObj [(''name'', JStr ''delete'')]),
     (''Params'', JNumber ''0'')]"

definition granted_text :: string where
  \<open>granted_text = ''{"allowedTools":"mcp__git__read"}''\<close>

definition widened_text :: string where
  \<open>widened_text = ''{"allowedTools":"*"}''\<close>

definition sample_parse :: "string \<Rightarrow> json option" where
  "sample_parse = map_of [(call_text, denied_call), (batch_text, batch_value), (recased_text, recased_value),
     (granted_text, JObj [(''allowedTools'', JStr ''mcp__git__read'')]), (widened_text, JObj [(''allowedTools'', JStr ''*'')])]"

definition reader_policy :: policy where
  "reader_policy = policy_set [''mcp__git__read''] newPolicy"

lemma trimmed_samples:
  "trim_space call_text = call_text" "trim_space batch_text = batch_text" "trim_space recased_text = recased_text"
  "trim_space widened_text = widened_text" "trim_space granted_text = granted_text"
  by code_simp+

lemma parsed_samples:
  "sample_parse call_text = Some denied_call" "sample_parse batch_text = Some batch_value" "sample_parse recased_text = Some recased_value"
  "sample_parse widened_text = Some (JObj [(''allowedTools'', JStr ''*'')])"
  by code_simp+

lemma short_samples:
  "length call_text \<le> maxMessage" "length batch_text \<le> maxMessage" "length recased_text \<le> maxMessage" "length widened_text \<le> maxMessage"
  by (simp_all add: call_text_def batch_text_def recased_text_def widened_text_def maxMessage_def)

theorem plain_calls_are_enforced_witness:
  "\<exists>rid denied. mediate sample_parse ''git'' reader_policy call_text = RefuseCall rid denied True"
proof -
  have r: "reads_as sample_parse call_text denied_call" "plain_body denied_call" "\<not> permits reader_policy (qualify ''git'' ''delete'')"
    by code_simp+
  have "''delete'' \<in> set (tool_calls denied_call)" by code_simp
  from plain_calls_are_enforced [OF r(1,2) short_samples(1) this _ r(3)] show ?thesis
    by (simp add: reader_policy_def policy_set_def)
qed

lemma unread_batch: "callTargets sample_parse batch_text = None"
  by (simp add: callTargets_def trimmed_samples parsed_samples Let_def) code_simp

lemma unread_recased: "callTargets sample_parse recased_text = None"
  by (simp add: callTargets_def trimmed_samples parsed_samples Let_def) code_simp

text \<open>C37. A call the policy refuses when it is sent alone is forwarded to the server, whatever is granted, when a member
  of its batch carries positional parameters, when the message repeats the key of the parameters in another case, and
  when white space takes it past the size the proxy reads; what the server then gets still makes the call.\<close>

theorem a_denied_call_can_be_written_to_pass:
  "mediate sample_parse key p batch_text = ForwardBody batch_text \<and> ''delete'' \<in> set (tool_calls batch_value)
   \<and> mediate sample_parse key p recased_text = ForwardBody recased_text \<and> ''delete'' \<in> set (tool_calls recased_value)
   \<and> mediate sample_parse key p (call_text @ replicate maxMessage CHR '' '')
       = ForwardBody (call_text @ replicate (maxMessage + 1 - length call_text) CHR '' '')"
proof -
  have "tool_calls batch_value = [''delete'']" "tool_calls recased_value = [''delete'']" by code_simp+
  moreover have "mediate sample_parse key p batch_text = ForwardBody batch_text"
    "mediate sample_parse key p recased_text = ForwardBody recased_text"
    using short_samples by (simp_all add: mediate_def readBounded_def Let_def unread_batch unread_recased)
  moreover have "mediate sample_parse key p (call_text @ replicate maxMessage CHR '' '')
      = ForwardBody (call_text @ replicate (maxMessage + 1 - length call_text) CHR '' '')"
  proof -
    have "0 < length call_text" by (simp add: call_text_def)
    then have "Suc maxMessage - length call_text \<le> maxMessage" by linarith
    with short_samples(1) show ?thesis
      by (simp add: mediate_def readBounded_def Let_def min_def)
  qed
  ultimately show ?thesis by simp
qed

section \<open>What a connection is taken for\<close>

lemma ToLower_ascii: "list_all (\<lambda>c. code c < 128) s \<Longrightarrow> ToLower lower s = map ascii_lower s"
  by (simp add: ToLower_def)

definition sample_endpoints :: endpoints where
  "sample_endpoints = newEndpoints (\<lambda>h. None) 0 ''git=git-mcp.ops.svc:8080'' ''http://manager.ops.svc:8080''"

lemma sample_endpoints_spec:
  "ep_spec sample_endpoints = [\<lparr>en_key = ''git'', en_host = ''git-mcp.ops.svc'', en_port = ''8080''\<rparr>]"
  "ep_control sample_endpoints = \<lparr>en_key = [], en_host = ''manager.ops.svc'', en_port = ''8080''\<rparr>"
  by code_simp+

lemma control_host: "lookupHost lower sample_endpoints ''manager.ops.svc'' = CarriesControl"
proof -
  have h: "hostOnly ''manager.ops.svc'' = ''manager.ops.svc''" by code_simp
  have "\<not> sameHost lower ''manager.ops.svc'' ''git-mcp.ops.svc''" "sameHost lower ''manager.ops.svc'' ''manager.ops.svc''"
    by (simp_all add: sameHost_def ToLower_def trim_suffix_def has_suffix_def ascii_lower_def is_upper_def)
  then show ?thesis by (simp add: lookupHost_def h sample_endpoints_spec Let_def)
qed

text \<open>C36. The agent decides what its connection is: a request that names the manager's host is served as the work
  contract whatever address it was sent to. So a server of the agent's own can answer it with a work unit, and from
  then on the proxy permits every tool.\<close>

theorem the_agent_grants_itself_every_tool:
  "classifyBy lower dns now dst (peekHost (''GET /work HTTP/1.1'' @ crlf @ ''Host: manager.ops.svc'' @ crlf @ crlf)) sample_endpoints
      = (sample_endpoints, CarriesControl)
   \<and> permits (fst (serveControl sample_parse [\<lparr>xc_Path = ''/work'', xc_Status = 200, xc_Body = widened_text, xc_KeepAlive = False\<rparr>] p)) q"
proof
  have "peekHost (''GET /work HTTP/1.1'' @ crlf @ ''Host: manager.ops.svc'' @ crlf @ crlf) = ''manager.ops.svc''" by code_simp
  then show "classifyBy lower dns now dst (peekHost (''GET /work HTTP/1.1'' @ crlf @ ''Host: manager.ops.svc'' @ crlf @ crlf)) sample_endpoints
      = (sample_endpoints, CarriesControl)"
    by (simp add: classifyBy_def control_host)
  have t: "splitTools ''*'' = [''*'']" by code_simp
  have d: "decode_unit (JObj [(''allowedTools'', JStr ''*'')]) = Some ''*''" by code_simp
  have "learn sample_parse widened_text p = policy_set [''*''] p"
    by (simp add: learn_def trimmed_samples parsed_samples d t)
  then show "permits (fst (serveControl sample_parse [\<lparr>xc_Path = ''/work'', xc_Status = 200, xc_Body = widened_text, xc_KeepAlive = False\<rparr>] p)) q"
    using short_samples(4) by (simp add: isWorkPath_def readBounded_def Let_def permits_def policy_set_def matchTool_def)
qed

definition grants_from :: "(string \<Rightarrow> json option) \<Rightarrow> policy \<Rightarrow> exchange \<Rightarrow> bool" where
  "grants_from parse p' x \<longleftrightarrow> xc_Path x = ''/work'' \<and> xc_Status x = 200 \<and> length (xc_Body x) \<le> maxMessage
     \<and> map_option (\<lambda>a. \<lparr>po_known = True, po_allowed = splitTools a\<rparr>) (Option.bind (parse (trim_space (xc_Body x))) decode_unit) = Some p'"

text \<open>Whatever the contract carries, the tools a policy grants are those of one work unit: an answer with status 200
  to a request of exactly \<open>/work\<close>, small enough to be read; without one the policy stays as it was.\<close>

theorem grants_come_from_work_units:
  "fst (serveControl parse xs p) = p \<or> list_ex (grants_from parse (fst (serveControl parse xs p))) xs"
proof (induction xs arbitrary: p)
  case Nil
  then show ?case by simp
next
  case (Cons x xs)
  define p1 where "p1 = (if isWorkPath (xc_Path x) \<and> xc_Status x = 200 \<and> length (xc_Body x) \<le> maxMessage
      then learn parse (xc_Body x) p else p)"
  have step: "fst (serveControl parse (x # xs) p) = (if xc_KeepAlive x then fst (serveControl parse xs p1) else p1)"
    by (auto simp: p1_def readBounded_def Let_def split: prod.split)
  have one: "p1 = p \<or> grants_from parse p1 x"
    by (auto simp: p1_def grants_from_def isWorkPath_def learn_def policy_set_def split: option.splits)
  show ?case using Cons.IH [of p1] one unfolding step by auto
qed

end
