(* ===== verification/EgressListing.thy ===== *)
theory EgressListing
  imports EgressMcp
begin

text \<open>
  What the proxy lets a server advertise: the tools of a rewritten listing are those the policy grants, and the repair
  of a schema only drops branches that say nothing.
\<close>

section \<open>Maps through their text\<close>







section \<open>Listings\<close>










end
