(* ===== verification/EgressPod.thy ===== *)
theory EgressPod
  imports EgressProxy PodLaws
begin

text \<open>
  The manager's side of mediation against the proxy's: the rules that the pod's first container installs redirect its
  agent and let the proxy through, and the endpoints the manager compiled are the ones the proxy parses, except for
  addresses the manager reads as enforceable and the proxy drops.
\<close>

section \<open>What the rules do\<close>

text \<open>The evaluation of the nat table on an outgoing TCP packet, as far as the rules use it: in a chain the first
  matching rule decides, RETURN goes back, and a packet no rule takes leaves as it is.\<close>

record packet =
  pk_uid :: int
  pk_out :: string
  pk_dport :: int

datatype fate = Untouched | Redirected string

fun opt_val :: "string \<Rightarrow> string list \<Rightarrow> string option" where
  "opt_val f (a # b # rest) = (if a = f then Some b else opt_val f (b # rest))"
| "opt_val f _ = None"

definition takes :: "packet \<Rightarrow> string list \<Rightarrow> bool" where
  "takes pk r \<longleftrightarrow>
     (case opt_val ''--uid-owner'' r of None \<Rightarrow> True | Some u \<Rightarrow> u = itoa (pk_uid pk))
     \<and> (case opt_val ''-o'' r of None \<Rightarrow> True | Some d \<Rightarrow> d = pk_out pk)
     \<and> (case opt_val ''--dport'' r of None \<Rightarrow> True | Some d \<Rightarrow> d = itoa (pk_dport pk))"

definition in_chain :: "string \<Rightarrow> string list list \<Rightarrow> string list list" where
  "in_chain c rules = filter (\<lambda>r. opt_val ''-A'' r = Some c) rules"

definition chain_fate :: "packet \<Rightarrow> string list list \<Rightarrow> fate" where
  "chain_fate pk rules = (case List.find (takes pk) rules of
     None \<Rightarrow> Untouched
   | Some r \<Rightarrow> (case opt_val ''-j'' r of
        Some j \<Rightarrow> if j = ''REDIRECT'' then (case opt_val ''--to-ports'' r of Some p \<Rightarrow> Redirected p | None \<Rightarrow> Untouched) else Untouched
      | None \<Rightarrow> Untouched))"

definition output_fate :: "packet \<Rightarrow> string list list \<Rightarrow> fate" where
  "output_fate pk rules = (case List.find (takes pk) (in_chain ''OUTPUT'' rules) of
     None \<Rightarrow> Untouched
   | Some r \<Rightarrow> (case opt_val ''-j'' r of Some c \<Rightarrow> chain_fate pk (in_chain c rules) | None \<Rightarrow> Untouched))"

lemma itoa_eq: "0 \<le> a \<Longrightarrow> 0 \<le> b \<Longrightarrow> itoa a = itoa b \<longleftrightarrow> a = b"
  by (rule itoa_inject)

lemma itoa_flag: "0 \<le> n \<Longrightarrow> itoa n \<noteq> CHR ''-'' # s" "0 \<le> n \<Longrightarrow> CHR ''-'' # s \<noteq> itoa n"
proof -
  show "itoa n \<noteq> CHR ''-'' # s" if "0 \<le> n" for n s
    using itoa_digits [OF that] by (cases "itoa n") (auto simp: is_digit_def)
  from this [THEN not_sym] show "CHR ''-'' # s \<noteq> itoa n" if "0 \<le> n" for n s using that by blast
qed

definition port_rule :: "int \<Rightarrow> string list" where
  "port_rule p = [''-t'', ''nat'', ''-A'', chain, ''-p'', ''tcp'', ''--dport'', itoa p, ''-j'', ''RETURN'']"

lemma find_port_rules:
  "0 \<le> pk_dport pk \<Longrightarrow> list_all (\<lambda>p. 0 \<le> p) ports \<Longrightarrow>
     List.find (takes pk) (map port_rule ports @ rest) = (if pk_dport pk \<in> set ports then Some (port_rule (pk_dport pk)) else List.find (takes pk) rest)"
proof (induction ports)
  case (Cons p ps)
  have "takes pk (port_rule p) \<longleftrightarrow> pk_dport pk = p"
    using Cons.prems itoa_eq [of p "pk_dport pk"] by (auto simp: takes_def port_rule_def itoa_flag)
  with Cons show ?case by auto
qed simp

lemma chain_of_rules:
  "in_chain ''OUTPUT'' (redirectRules o') = [[''-t'', ''nat'', ''-A'', ''OUTPUT'', ''-p'', ''tcp'', ''-j'', chain]]"
  "in_chain chain (redirectRules o') =
     [[''-t'', ''nat'', ''-A'', chain, ''-m'', ''owner'', ''--uid-owner'', itoa (ro_proxyUID o'), ''-j'', ''RETURN''],
      [''-t'', ''nat'', ''-A'', chain, ''-o'', ''lo'', ''-j'', ''RETURN'']]
     @ map port_rule (ro_excludePorts o')
     @ [[''-t'', ''nat'', ''-A'', chain, ''-p'', ''tcp'', ''-j'', ''REDIRECT'', ''--to-ports'', itoa (ro_proxyPort o')]]"
proof -
  have "filter (\<lambda>r. opt_val ''-A'' r = Some c) (map port_rule ps) = (if c = chain then map port_rule ps else [])" for c ps
    by (induction ps) (simp_all add: port_rule_def)
  then show "in_chain ''OUTPUT'' (redirectRules o') = [[''-t'', ''nat'', ''-A'', ''OUTPUT'', ''-p'', ''tcp'', ''-j'', chain]]"
    "in_chain chain (redirectRules o') =
     [[''-t'', ''nat'', ''-A'', chain, ''-m'', ''owner'', ''--uid-owner'', itoa (ro_proxyUID o'), ''-j'', ''RETURN''],
      [''-t'', ''nat'', ''-A'', chain, ''-o'', ''lo'', ''-j'', ''RETURN'']]
     @ map port_rule (ro_excludePorts o')
     @ [[''-t'', ''nat'', ''-A'', chain, ''-p'', ''tcp'', ''-j'', ''REDIRECT'', ''--to-ports'', itoa (ro_proxyPort o')]]"
    by (simp_all add: in_chain_def redirectRules_def port_rule_def [abs_def] comp_def)
qed

lemma takes_rules:
  "0 \<le> u \<Longrightarrow> takes pk [''-t'', ''nat'', ''-A'', c, ''-m'', ''owner'', ''--uid-owner'', itoa u, ''-j'', ''RETURN''] \<longleftrightarrow> itoa u = itoa (pk_uid pk)"
  "takes pk [''-t'', ''nat'', ''-A'', chain, ''-o'', ''lo'', ''-j'', ''RETURN''] \<longleftrightarrow> pk_out pk = ''lo''"
  "takes pk [''-t'', ''nat'', ''-A'', chain, ''-p'', ''tcp'', ''-j'', ''REDIRECT'', ''--to-ports'', p]"
  "takes pk [''-t'', ''nat'', ''-A'', ''OUTPUT'', ''-p'', ''tcp'', ''-j'', chain]"
  if "c = chain" for c
  using that by (auto simp: takes_def itoa_flag)

lemma targets_of_rules:
  "0 \<le> u \<Longrightarrow> opt_val ''-j'' [''-t'', ''nat'', ''-A'', chain, ''-m'', ''owner'', ''--uid-owner'', itoa u, ''-j'', ''RETURN''] = Some ''RETURN''"
  "0 \<le> d \<Longrightarrow> opt_val ''-j'' (port_rule d) = Some ''RETURN''"
  by (simp_all add: port_rule_def itoa_flag)

lemma rules_fate:
  assumes "0 \<le> pk_uid pk" "0 \<le> pk_dport pk" "0 \<le> ro_proxyUID o'" "list_all (\<lambda>p. 0 \<le> p) (ro_excludePorts o')"
  shows "output_fate pk (redirectRules o') =
    (if pk_uid pk = ro_proxyUID o' \<or> pk_out pk = ''lo'' \<or> pk_dport pk \<in> set (ro_excludePorts o') then Untouched
     else Redirected (itoa (ro_proxyPort o')))"
proof -
  have u: "itoa (ro_proxyUID o') = itoa (pk_uid pk) \<longleftrightarrow> pk_uid pk = ro_proxyUID o'"
    using assms itoa_eq [of "ro_proxyUID o'" "pk_uid pk"] by auto
  have out: "output_fate pk (redirectRules o') = chain_fate pk (in_chain chain (redirectRules o'))"
    by (simp add: output_fate_def chain_of_rules(1) takes_rules(4))
  show ?thesis
    unfolding out chain_of_rules(2) chain_fate_def
    using find_port_rules [OF assms(2,4)] u assms(2,3)
    by (simp add: takes_rules targets_of_rules)
qed

section \<open>What the pod installs\<close>

lemma run_rules_log: "run_rules (\<lambda>l bin r. (l @ [(bin, r)], None)) bin rs l = (l @ map (Pair bin) rs, None)"
  by (induction rs arbitrary: l) simp_all

text \<open>The rules a container of the pod installs where both families are there: the arguments as the command reads them.\<close>

definition installed_by :: "Container \<Rightarrow> (string \<times> string list) list \<times> err option" where
  "installed_by c = (case kc_Args c of
     [_, _, port, _, uid, _, exclude] \<Rightarrow>
       (case (atoi port, atoi uid) of
          (Some port, Some uid) \<Rightarrow> runInstallRedirect (\<lambda>l bin r. (l @ [(bin, r)], None)) (\<lambda>b. True) port uid exclude []
        | _ \<Rightarrow> ([], Some (ErrOther ''bad arguments'')))
   | _ \<Rightarrow> ([], Some (ErrOther ''bad arguments'')))"

definition family_rules :: "string \<Rightarrow> (string \<times> string list) list \<Rightarrow> string list list" where
  "family_rules bin log = map snd (filter (\<lambda>e. fst e = bin) log)"

lemma digit_not_comma: "is_digit c \<Longrightarrow> c \<noteq> CHR '',''"
  by (auto simp: is_digit_def)

lemma itoa_no_comma: "0 \<le> n \<Longrightarrow> CHR '','' \<notin> set (itoa n)"
  using itoa_digits [of n] digit_not_comma by (auto simp: list_all_iff)

lemma runInstall_log:
  assumes "parsePorts exclude = Inr ports"
  shows "runInstallRedirect (\<lambda>l bin r. (l @ [(bin, r)], None)) (\<lambda>b. True) port uid exclude [] =
    (map (Pair ''iptables'') (redirectRules \<lparr>ro_proxyPort = port, ro_proxyUID = uid, ro_excludePorts = ports\<rparr>)
     @ map (Pair ''ip6tables'') (redirectRules \<lparr>ro_proxyPort = port, ro_proxyUID = uid, ro_excludePorts = ports\<rparr>), None)"
  by (simp add: runInstallRedirect_def assms installRedirect_def installFamily_def run_rules_log)

lemma segs_ascii_all: "list_all (\<lambda>c. code c < 128) s \<Longrightarrow> segs s = map (\<lambda>c. (code c, [c])) s"
  by (induction s) (simp_all add: segs_ascii)

lemma trim_space_visible:
  assumes "list_all (\<lambda>c. code c < 128 \<and> \<not> is_space (code c)) s"
  shows "trim_space s = s"
proof -
  have segs: "segs s = map (\<lambda>c. (code c, [c])) s" using assms by (intro segs_ascii_all) (simp add: list_all_iff)
  have keep: "dropWhile (\<lambda>p. is_space (fst p)) xs = xs" if "\<forall>p \<in> set xs. \<not> is_space (fst p)" for xs :: "(int \<times> string) list"
    using that by (cases xs) auto
  have "\<forall>p \<in> set (segs s). \<not> is_space (fst p)" using assms by (auto simp: segs list_all_iff)
  then have "trim_space s = concat (map snd (segs s))" using keep [of "segs s"] keep [of "rev (segs s)"] by (simp add: trim_space_def)
  then show ?thesis by (simp add: concat_segs)
qed

lemma digits_visible: "list_all is_digit s \<Longrightarrow> list_all (\<lambda>c. code c < 128 \<and> \<not> is_space (code c)) s"
  by (auto simp: list_all_iff is_digit_def is_space_def)

lemma trim_itoa: "0 \<le> n \<Longrightarrow> trim_space (itoa n) = itoa n"
  using itoa_digits [of n] by (intro trim_space_visible digits_visible) simp

lemma parse_ports_texts: "list_all (\<lambda>p. 1 \<le> p \<and> p \<le> 65535) ports \<Longrightarrow> parse_ports (map itoa ports) = Inr ports"
proof (induction ports)
  case (Cons p ps)
  then have p: "0 \<le> p" "p \<le> max_duration" "1 \<le> p" "p \<le> 65535" by (auto simp: max_duration_def)
  with Cons show ?case using itoa_digits [of p] by (simp add: trim_itoa atoi_itoa Let_def)
qed simp

lemma split_comma_append: "CHR '','' \<notin> set a \<Longrightarrow> split_byte CHR '','' (a @ CHR '','' # b) = a # split_byte CHR '','' b"
  by (induction a) auto

lemma split_comma_free: "CHR '','' \<notin> set a \<Longrightarrow> split_byte CHR '','' a = [a]"
  by (induction a) auto

lemma split_join_comma: "xs \<noteq> [] \<Longrightarrow> list_all (\<lambda>x. CHR '','' \<notin> set x) xs \<Longrightarrow> split_byte CHR '','' (join '','' xs) = xs"
  by (induction "'',''" xs rule: join.induct) (simp_all add: split_comma_append split_comma_free)

lemma parsePorts_exclude:
  assumes "list_all (\<lambda>p. 1 \<le> p \<and> p \<le> 65535) ports"
  shows "parsePorts (excludePortList ports) = Inr ports"
proof (cases ports)
  case Nil
  then show ?thesis by (simp add: parsePorts_def excludePortList_def trim_space_def)
next
  case (Cons p ps)
  have t: "trim_space (join '','' (map itoa ports)) = join '','' (map itoa ports)"
  proof (rule trim_space_visible)
    have "list_all (\<lambda>c. code c < 128 \<and> \<not> is_space (code c)) (join '','' xs)"
      if "list_all (list_all is_digit) xs" for xs
      using that
    proof (induction "'',''" xs rule: join.induct)
      case (2 w)
      then show ?case using digits_visible by simp
    next
      case (3 w v va)
      then show ?case using digits_visible [of w] by (simp add: is_space_def)
    qed simp
    moreover have "list_all (list_all is_digit) (map itoa ports)"
      using assms by (induction ports) (simp_all add: itoa_digits)
    ultimately show "list_all (\<lambda>c. code c < 128 \<and> \<not> is_space (code c)) (join '','' (map itoa ports))" by blast
  qed
  have ne: "join '','' (map itoa ports) \<noteq> []"
  proof -
    have "itoa p \<noteq> []" using assms Cons itoa_digits [of p] by simp
    then show ?thesis by (cases ps) (simp_all add: Cons)
  qed
  have "split_byte CHR '','' (join '','' (map itoa ports)) = map itoa ports"
    using assms Cons itoa_no_comma by (intro split_join_comma) (auto simp: list_all_iff)
  then show ?thesis using t ne Cons parse_ports_texts [OF assms] by (simp add: parsePorts_def excludePortList_def)
qed

text \<open>C12. The first container of a mediated pod installs, for both address families, rules under which every outgoing
  TCP packet of the pod goes to the port its proxy listens on, except the proxy's own, those that stay on the loopback
  and those to the ports the runtime declared as excluded.\<close>

theorem the_pod_redirects_its_agent:
  assumes "mediating r" and "rs_EgressMediation r = Some med" and "0 \<le> eg_Port med" and "eg_Port med \<le> 65535"
    and "list_all (\<lambda>p. 1 \<le> p \<and> p \<le> 65535) (eg_ExcludePorts med)"
    and "bin \<in> {''iptables'', ''ip6tables''}" and "0 \<le> pk_uid pk" and "0 \<le> pk_dport pk"
  shows "case ps_InitContainers (kp_Spec (Build quantity token conv profile mcp mcpCM r k)) of
      [] \<Rightarrow> False
    | e # rest \<Rightarrow> snd (installed_by e) = None
        \<and> output_fate pk (family_rules bin (fst (installed_by e))) =
           (if pk_uid pk = egressProxyUID \<or> pk_out pk = ''lo'' \<or> pk_dport pk \<in> set (eg_ExcludePorts med) then Untouched
            else Redirected (label (\<lambda>n. map_option env_Value (resolve_env (kc_Env (last rest)) n)) ''LISTEN_PORT''))"
proof -
  define e where "e = egressInitContainerSpec (rs_Config r) med"
  define p where "p = egressProxyContainerSpec (rs_Config r) med (mcpEndpoints (mr_Endpoints mcp)) (cf_ControlURL (rs_Config r))"
  obtain mid where inits: "ps_InitContainers (kp_Spec (Build quantity token conv profile mcp mcpCM r k)) = e # mid @ [p]"
    using assms(1,2) by (simp add: built_containers init_containers_def e_def p_def Let_def)
  define port where "port = MediationPort (Some med)"
  have port: "0 \<le> port" "port \<le> max_duration"
    using assms(3,4) by (simp_all add: port_def MediationPort_def DefaultEgressMediationPort_def max_duration_def)
  have listen: "label (\<lambda>n. map_option env_Value (resolve_env (kc_Env p) n)) ''LISTEN_PORT'' = itoa port"
    by (simp add: p_def egressProxyContainerSpec_def resolve_env_def label_def port_def env_value_def Let_def split: option.split)
  define opts where "opts = \<lparr>ro_proxyPort = port, ro_proxyUID = egressProxyUID, ro_excludePorts = eg_ExcludePorts med\<rparr>"
  have args: "kc_Args e = [''install-redirect'', ''--proxy-port'', itoa port, ''--proxy-uid'', itoa egressProxyUID,
      ''--exclude-ports'', excludePortList (eg_ExcludePorts med)]"
    by (simp add: e_def egressInitContainerSpec_def port_def)
  have inst: "installed_by e = (map (Pair ''iptables'') (redirectRules opts) @ map (Pair ''ip6tables'') (redirectRules opts), None)"
    using port parsePorts_exclude [OF assms(5)]
    by (simp add: installed_by_def args atoi_itoa runInstall_log opts_def egressProxyUID_def max_duration_def)
  have fam: "family_rules bin (fst (installed_by e)) = redirectRules opts"
    using assms(6) by (auto simp: inst family_rules_def filter_map comp_def)
  have "list_all (\<lambda>p. 0 \<le> p) (eg_ExcludePorts med)" using assms(5) by (auto simp: list_all_iff)
  then have "output_fate pk (redirectRules opts) =
      (if pk_uid pk = egressProxyUID \<or> pk_out pk = ''lo'' \<or> pk_dport pk \<in> set (eg_ExcludePorts med) then Untouched
       else Redirected (itoa port))"
    using rules_fate [OF assms(7,8), of opts] by (simp add: opts_def egressProxyUID_def)
  then show ?thesis unfolding inits list.case fam using listen by (simp add: inst)
qed

theorem the_pod_redirects_its_agent_witness:
  "\<exists>e rest. ps_InitContainers (kp_Spec (sample_build ''a'')) = e # rest
     \<and> output_fate \<lparr>pk_uid = 1000, pk_out = ''eth0'', pk_dport = 443\<rparr> (family_rules ''iptables'' (fst (installed_by e)))
        = Redirected (label (\<lambda>n. map_option env_Value (resolve_env (kc_Env (last rest)) n)) ''LISTEN_PORT'')"
proof -
  define med where "med = \<lparr>eg_Port = 0, eg_ExcludePorts = [53], eg_Resources = None\<rparr>"
  have m: "rs_EgressMediation sample_resolved = Some med" by (simp add: sample_resolved_def med_def)
  have "0 \<le> eg_Port med" "eg_Port med \<le> 65535" "list_all (\<lambda>p. 1 \<le> p \<and> p \<le> 65535) (eg_ExcludePorts med)" by (simp_all add: med_def)
  from the_pod_redirects_its_agent [OF _ m this, of "''iptables''" "\<lparr>pk_uid = 1000, pk_out = ''eth0'', pk_dport = 443\<rparr>" Some
      "\<lambda>k c n. k @ c @ n" "zero_record\<lparr>cr_Name := ''a''\<rparr>" sample_worker "mcp_render (overlay [safe_servers])" "''mcp''" "''key''"]
  show ?thesis by (auto simp: egressProxyUID_def med_def split: list.splits)
qed

section \<open>The endpoints both sides know\<close>
















text \<open>The manager claims mediation for addresses the proxy does not enforce: of a server at an IPv6 address without a
  port the proxy keeps no endpoint, and of one with credentials in its URL it takes the user for the host, while the
  condition says that every bound server is enforced.\<close>

theorem mediation_is_claimed_for_an_unread_endpoint:
  "map_option co_Status (mediationCondition lower (zero_result\<lparr>mr_Endpoints := [(''ha'', ''http://[fd00::1]/mcp'')]\<rparr>) (Some med))
     = Some ConditionTrue
   \<and> parseEndpointSpec (join '','' (mcpEndpoints [(''ha'', ''http://[fd00::1]/mcp'')])) = []
   \<and> map_option co_Status (mediationCondition lower (zero_result\<lparr>mr_Endpoints := [(''git'', ''http://bot:pw@git/mcp'')]\<rparr>) (Some med))
     = Some ConditionTrue
   \<and> map en_host (parseEndpointSpec (join '','' (mcpEndpoints [(''git'', ''http://bot:pw@git/mcp'')]))) = [''bot'']"
proof -
  have "schemeOf lower ''http://[fd00::1]/mcp'' = ''http''" "schemeOf lower ''http://bot:pw@git/mcp'' = ''http''"
    by (simp_all add: schemeOf_def ToLower_def ascii_lower_def is_upper_def)
  then have "map_option co_Status (mediationCondition lower (zero_result\<lparr>mr_Endpoints := [(''ha'', ''http://[fd00::1]/mcp'')]\<rparr>) (Some med)) = Some ConditionTrue"
    "map_option co_Status (mediationCondition lower (zero_result\<lparr>mr_Endpoints := [(''git'', ''http://bot:pw@git/mcp'')]\<rparr>) (Some med)) = Some ConditionTrue"
    by (simp_all add: mediationCondition_def zero_result_def unenforceable_def enforceableEndpoint_def mediation_condition_def)
  moreover have "parseEndpointSpec (join '','' (mcpEndpoints [(''ha'', ''http://[fd00::1]/mcp'')])) = []"
    "map en_host (parseEndpointSpec (join '','' (mcpEndpoints [(''git'', ''http://bot:pw@git/mcp'')]))) = [''bot'']"
    by code_simp+
  ultimately show ?thesis by blast
qed

end
