(* ===== verification/Reconciler.thy ===== *)
theory Reconciler
  imports RuntimeStart PodSpec WorkLoop
begin

text \<open>
  The frame of the conversation reconciler (\<open>internal/controller/conversation_controller.go\<close>): what it reads and writes
  in the cluster, its configuration, and the flow of a pass. A pass works on a copy of the record, the world, the queue
  of channel operations and the storage breaker, \<open>'w pass\<close>. A step of it either goes on with a value or returns from the
  whole pass with the delay of the next one and an error. Reads of the cluster are through the cache and do not change
  the world. \<open>cv_Now r w k\<close> is the \<open>k\<close>-th reading of the clock in the world \<open>w\<close>.
\<close>

section \<open>The cluster\<close>

text \<open>A grace period given to a deletion overrides the pod's own. An object that is not there is \<open>ErrNotFound\<close>, one that
  is already there \<open>ErrAlreadyExists\<close>.\<close>

record 'w Cluster =
  cl_GetPod :: "'w \<Rightarrow> string \<Rightarrow> Pod result"
  cl_ListPods :: "'w \<Rightarrow> Pod list result"
  cl_CreatePod :: "'w \<Rightarrow> Pod \<Rightarrow> 'w \<times> err option"
  cl_DeletePod :: "'w \<Rightarrow> string \<Rightarrow> int option \<Rightarrow> 'w \<times> err option"
  cl_GetNode :: "'w \<Rightarrow> string \<Rightarrow> kube_Node result"
  cl_PutConfigMap :: "'w \<Rightarrow> string \<Rightarrow> (string \<times> jsonServer) list \<Rightarrow> OwnerReference \<Rightarrow> 'w \<times> err option"
  cl_DeleteConfigMap :: "'w \<Rightarrow> string \<Rightarrow> 'w \<times> err option"
  cl_GetMCPConfig :: "'w \<Rightarrow> string \<Rightarrow> MCPConfigSpec result"
  cl_GetProfile :: "'w \<Rightarrow> string \<Rightarrow> WorkerProfile result"
  cl_GetChannel :: "'w \<Rightarrow> string \<Rightarrow> Channel result"
  cl_AdapterEchoes :: "'w \<Rightarrow> string \<Rightarrow> bool result"
  cl_Event :: "'w \<Rightarrow> string \<Rightarrow> string \<Rightarrow> string \<Rightarrow> string \<Rightarrow> 'w"

section \<open>The reconciler\<close>

text \<open>\<open>cv_Ops\<close>, \<open>cv_StorageBreaker\<close> and \<open>cv_Recorder\<close> tell whether the field is set. \<open>cv_Rand\<close> is the random source; the
  last three fields are the library calls of the pod builder and the order in which a map of servers is visited.\<close>

record 'w ConversationReconciler =
  cv_Client :: "'w Cluster"
  cv_Namespace :: string
  cv_Reader :: "'w Reader"
  cv_AgentRuntime :: "'w \<Rightarrow> string \<Rightarrow> AgentRuntimeSpec result"
  cv_Runtime :: Config
  cv_Store :: "'w Store"
  cv_MaxActiveConversations :: int
  cv_Ops :: bool
  cv_CloseTopicGrace :: duration
  cv_RuntimeStartDeadline :: duration
  cv_MasterToken :: string
  cv_StorageBreaker :: bool
  cv_DrainAware :: bool
  cv_Recorder :: bool
  cv_Router :: "'w Router option"
  cv_AutoCloseEnabled :: bool
  cv_AutoCloseIdleAge :: duration
  cv_AutoDeleteEnabled :: bool
  cv_AutoDeleteClosedAge :: duration
  cv_ReplicaIdentity :: string
  cv_ClaimStaleness :: duration
  cv_InProcess :: "string \<Rightarrow> bool"
  cv_Epoch :: string
  cv_Now :: "'w \<Rightarrow> nat \<Rightarrow> go_time"
  cv_Rand :: "'w \<Rightarrow> int"
  cv_Quantity :: "string \<Rightarrow> string option"
  cv_Token :: "string \<Rightarrow> string \<Rightarrow> string \<Rightarrow> string"
  cv_Order :: "(string \<times> MCPServer) list \<Rightarrow> (string \<times> MCPServer) list"

abbreviation ConditionDeliveryPending :: string where "ConditionDeliveryPending \<equiv> ''DeliveryPending''"
abbreviation ConditionRuntimeStarted :: string where "ConditionRuntimeStarted \<equiv> ''RuntimeStarted''"
abbreviation ReasonStorageUnavailable :: string where "ReasonStorageUnavailable \<equiv> ''StorageUnavailable''"
abbreviation FinalizerCloseTopics :: string where "FinalizerCloseTopics \<equiv> ''agentops.dev/close-topics''"
abbreviation conversationKind :: string where "conversationKind \<equiv> ''Conversation''"

definition DefaultClaimStalenessSeconds :: int where "DefaultClaimStalenessSeconds = 90"
definition DefaultCloseTopicGrace :: duration where "DefaultCloseTopicGrace = 2 * minute"
definition degradedStartAfter :: int where "degradedStartAfter = 5"

definition convMCPConfigMapName :: "string \<Rightarrow> string" where
  "convMCPConfigMapName conv = ''agentops-mcp-conv-'' @ conv"

definition claimStaleness :: "'w ConversationReconciler \<Rightarrow> duration" where
  "claimStaleness r = (if cv_ClaimStaleness r > 0 then cv_ClaimStaleness r else DefaultClaimStalenessSeconds * second)"

definition closeGrace :: "'w ConversationReconciler \<Rightarrow> duration" where
  "closeGrace r = (if cv_CloseTopicGrace r > 0 then cv_CloseTopicGrace r else DefaultCloseTopicGrace)"

definition startDeadline :: "'w ConversationReconciler \<Rightarrow> duration" where
  "startDeadline r = (if cv_RuntimeStartDeadline r > 0 then cv_RuntimeStartDeadline r else DefaultRuntimeStartDeadline)"

text \<open>\<open>rand.Int63n\<close> of a bound that is always positive here.\<close>

definition jitter :: "int \<Rightarrow> duration \<Rightarrow> duration" where
  "jitter rnd d = (if d \<le> 0 then second else d + rnd mod (d div 10 + 1))"

definition ownerOf :: "ConversationRecord \<Rightarrow> OwnerReference" where
  "ownerOf conv = \<lparr>ow_APIVersion = ''agentops.dev/v1alpha1'', ow_Kind = conversationKind, ow_Name = cr_Name conv,
     ow_UID = cr_ID conv, ow_Controller = Some True, ow_BlockOwnerDeletion = Some True\<rparr>"

text \<open>RFC 3339 without a fraction.\<close>

definition time_RFC3339 :: "go_time \<Rightarrow> string" where
  "time_RFC3339 t = time_Format (t - t mod second)"

section \<open>The flow of a pass\<close>

type_synonym 'w pass = "'w serving \<times> ConversationRecord"

datatype 'a flow = Return duration "err option" | Proceed 'a

definition then_do :: "'s \<times> 'a flow \<Rightarrow> ('a \<Rightarrow> 's \<Rightarrow> 's \<times> 'b flow) \<Rightarrow> 's \<times> 'b flow" where
  "then_do x f = (case x of (s, Return d e) \<Rightarrow> (s, Return d e) | (s, Proceed a) \<Rightarrow> f a s)"

definition check :: "'s \<times> err option \<Rightarrow> 's \<times> unit flow" where
  "check x = (case x of (s, None) \<Rightarrow> (s, Proceed ()) | (s, Some e) \<Rightarrow> (s, Return 0 (Some e)))"

definition patch :: "'w ConversationReconciler \<Rightarrow> (ConversationRecord \<Rightarrow> ConversationRecord) \<Rightarrow> 'w pass
    \<Rightarrow> 'w pass \<times> err option" where
  "patch r fn p = (case p of (((w, q), b), conv) \<Rightarrow>
     (case Patch (cv_Store r) conv fn w of (w, conv, e) \<Rightarrow> ((((w, q), b), conv), e)))"

definition setPhase :: "'w ConversationReconciler \<Rightarrow> string \<Rightarrow> 'w pass \<Rightarrow> 'w pass \<times> err option" where
  "setPhase r phase p = (if cr_Phase (snd p) = phase then (p, None) else patch r (\<lambda>c. c\<lparr>cr_Phase := phase\<rparr>) p)"

definition world :: "'w pass \<Rightarrow> 'w" where "world p = fst (fst (fst p))"

lemma world_pass [simp]: "world ((st, b), conv) = fst st" "fst (fst (fst (p :: 'w pass))) = world p"
  by (simp_all add: world_def)

definition on_chat :: "('w chat \<Rightarrow> 'w chat) \<Rightarrow> 'w pass \<Rightarrow> 'w pass" where
  "on_chat f p = (case p of ((st, b), conv) \<Rightarrow> ((f st, b), conv))"

text \<open>An error of a deletion other than that there is nothing to delete.\<close>

definition delete_pod :: "'w ConversationReconciler \<Rightarrow> string \<Rightarrow> int option \<Rightarrow> 'w pass \<Rightarrow> 'w pass \<times> err option" where
  "delete_pod r name grace p = (case p of (((w, q), b), conv) \<Rightarrow>
     (case cl_DeletePod (cv_Client r) w name grace of (w, e) \<Rightarrow> ((((w, q), b), conv), e)))"

definition record_event :: "'w ConversationReconciler \<Rightarrow> string \<Rightarrow> string \<Rightarrow> string \<Rightarrow> 'w pass \<Rightarrow> 'w pass" where
  "record_event r kind reason message p = (case p of (((w, q), b), conv) \<Rightarrow>
     if cv_Recorder r then (((cl_Event (cv_Client r) w (cr_Name conv) kind reason message, q), b), conv) else p)"

section \<open>Draining\<close>

definition conditionTaints :: "string list" where
  "conditionTaints = [''node.kubernetes.io/not-ready'', ''node.kubernetes.io/unreachable'', ''node.kubernetes.io/memory-pressure'',
     ''node.kubernetes.io/disk-pressure'', ''node.kubernetes.io/pid-pressure'', ''node.kubernetes.io/network-unavailable'',
     ''node.kubernetes.io/out-of-service'']"

definition nodeUnschedulable :: "kube_Node \<Rightarrow> bool" where
  "nodeUnschedulable node \<longleftrightarrow> nd_Unschedulable node \<or>
     list_ex (\<lambda>t. tn_Effect t \<in> {''NoSchedule'', ''NoExecute''} \<and> tn_Key t \<notin> set conditionTaints) (nd_Taints node)"

definition releaseIfNodeDraining :: "'w ConversationReconciler \<Rightarrow> Pod \<Rightarrow> 'w pass \<Rightarrow> 'w pass \<times> bool \<times> err option" where
  "releaseIfNodeDraining r pod p =
     (if \<not> cv_DrainAware r \<or> ps_NodeName (kp_Spec pod) = [] then (p, False, None)
      else if NeedsWorker (snd p) then (p, False, None)
      else (case cl_GetNode (cv_Client r) (world p) (ps_NodeName (kp_Spec pod)) of
         Inl e \<Rightarrow> (p, False, IgnoreNotFound (Some e))
       | Inr node \<Rightarrow>
           if \<not> nodeUnschedulable node then (p, False, None)
           else (case delete_pod r (kp_Name pod) (Some 0) p of
              (p, Some e) \<Rightarrow> (p, False, IgnoreNotFound (Some e))
            | (p, None) \<Rightarrow>
                (let p = record_event r ''Normal'' ''RuntimeReleasedForDrain''
                       (''released idle runtime pod '' @ kp_Name pod @ '' because node '' @ nd_Name node
                        @ '' is draining; the conversation and its context are untouched'') p
                 in if cr_RuntimePod (snd p) \<noteq> [] then (case patch r (\<lambda>c. c\<lparr>cr_RuntimePod := []\<rparr>) p of (p, e) \<Rightarrow> (p, True, e))
                    else (p, True, None)))))"

section \<open>Starting\<close>

definition runtimeStartCooldown :: "ConversationRecord \<Rightarrow> go_time \<Rightarrow> duration" where
  "runtimeStartCooldown conv now =
     (case cr_LastRuntimeStartFailure conv of
        None \<Rightarrow> 0
      | Some at \<Rightarrow>
          if cr_RuntimeStartFailures conv \<le> 0 then 0
          else (let wait = runtimeStartBackoff (cr_RuntimeStartFailures conv) - time_sub now at in if wait > 0 then wait else 0))"

definition start_failed :: "go_time \<Rightarrow> startFailure \<Rightarrow> ConversationRecord \<Rightarrow> ConversationRecord" where
  "start_failed now fail c =
     fst (SetCondition now (cond ConditionRuntimeStarted ''False'' (sf_Reason fail) (sf_Message fail))
       (c\<lparr>cr_RuntimePod := [], cr_RuntimeStartFailures := cr_RuntimeStartFailures c + 1, cr_LastRuntimeStartFailure := Some now\<rparr>))"

definition reapUnstartedPod :: "'w ConversationReconciler \<Rightarrow> Pod \<Rightarrow> 'w pass \<Rightarrow> 'w pass \<times> err option" where
  "reapUnstartedPod r pod p =
     (let fail = classifyStuckPod pod in
      case delete_pod r (kp_Name pod) (Some 0) p of
        (p, e) \<Rightarrow>
          (case IgnoreNotFound e of
             Some e \<Rightarrow> (p, Some e)
           | None \<Rightarrow>
               (let p = record_event r ''Warning'' (sf_Reason fail)
                      (''runtime pod '' @ kp_Name pod @ '' never started: '' @ sf_Message fail) p;
                    p = (if sf_Storage fail \<and> cv_StorageBreaker r
                         then ((fst (fst p), fst (Report (snd (fst p)) (cv_Now r (world p) 0))), snd p) else p)
                in patch r (start_failed (cv_Now r (world p) 1) fail) p)))"

definition start_cleared :: "go_time \<Rightarrow> ConversationRecord \<Rightarrow> ConversationRecord" where
  "start_cleared now c =
     (let c = c\<lparr>cr_RuntimeStartFailures := 0, cr_LastRuntimeStartFailure := None\<rparr>
      in if FindCondition c ConditionRuntimeStarted \<noteq> None
         then fst (SetCondition now (cond ConditionRuntimeStarted ''True'' ReasonStarted ''runtime pod is running'') c) else c)"

definition clearRuntimeStartFailure :: "'w ConversationReconciler \<Rightarrow> 'w pass \<Rightarrow> 'w pass \<times> err option" where
  "clearRuntimeStartFailure r p =
     (let conv = snd p in
      if cr_RuntimeStartFailures conv = 0 \<and> cr_LastRuntimeStartFailure conv = None
        \<and> (case FindCondition conv ConditionRuntimeStarted of None \<Rightarrow> False | Some c \<Rightarrow> co_Status c = ''True'')
      then (p, None)
      else patch r (start_cleared (cv_Now r (world p) 0)) p)"

definition contextLost :: "ConversationRecord \<Rightarrow> bool" where
  "contextLost conv \<longleftrightarrow> cr_RuntimeStartFailures conv \<ge> degradedStartAfter
     \<and> (case FindCondition conv ConditionRuntimeStarted of None \<Rightarrow> False | Some c \<Rightarrow> co_Reason c = ReasonVolumeUnavailable)"

end
