(* ===== verification/Delivery.thy ===== *)
theory Delivery
  imports Reconciler
begin

text \<open>
  What the reconciler owes to the chat channels: delivery of inputs (\<open>internal/chat/delivery.go\<close>), topics and their
  claims, the digest of an escalation, the answers of runs and the results of members
  (\<open>internal/controller/conversation_controller.go\<close>). Everything is enqueued under ids that are stable, on every pass.
\<close>

section \<open>Inputs\<close>

definition InputPayload :: "'w Store \<Rightarrow> InputItem \<Rightarrow> 'w \<Rightarrow> 'w \<times> Blob option" where
  "InputPayload s item w =
     (if in_PayloadRef item = [] then (w, None)
      else (case st_GetBlob s w (in_PayloadRef item) of (w, Inl e) \<Rightarrow> (w, None) | (w, Inr b) \<Rightarrow> (w, Some b)))"

definition SurfaceEchoes :: "'w Cluster \<Rightarrow> string \<Rightarrow> 'w \<Rightarrow> bool" where
  "SurfaceEchoes cl channel w =
     (case cl_GetChannel cl w channel of
        Inl e \<Rightarrow> True
      | Inr ch \<Rightarrow> if chn_Adapter ch = [] then True
          else (case cl_AdapterEchoes cl w (chn_Adapter ch) of Inl e \<Rightarrow> True | Inr b \<Rightarrow> b))"

text \<open>What one pass carries across inputs: the pipeline's name once it was looked up, and what each surface answered.\<close>

record deliveryPass =
  dp_pipeline :: "string option"
  dp_echoes :: "(string \<times> bool) list"

definition surfaceEchoes :: "'w Cluster \<Rightarrow> string \<Rightarrow> 'w \<Rightarrow> deliveryPass \<Rightarrow> deliveryPass \<times> bool" where
  "surfaceEchoes cl surface w dp =
     (if surface = [] then (dp, True)
      else (case map_of (dp_echoes dp) surface of
         Some b \<Rightarrow> (dp, b)
       | None \<Rightarrow> (let b = SurfaceEchoes cl surface w in (dp\<lparr>dp_echoes := (surface, b) # dp_echoes dp\<rparr>, b))))"

definition pass_pipelineName :: "'w Reader \<Rightarrow> ConversationRecord \<Rightarrow> 'w \<Rightarrow> deliveryPass \<Rightarrow> deliveryPass \<times> string" where
  "pass_pipelineName rd conv w dp =
     (case dp_pipeline dp of
        Some n \<Rightarrow> (dp, n)
      | None \<Rightarrow> (let n = (case PipelineForConversation rd w (Some conv) of None \<Rightarrow> [] | Some pl \<Rightarrow> pl_Name pl)
          in (dp\<lparr>dp_pipeline := Some n\<rparr>, n)))"

text \<open>The message of an input: somebody's words as a relay, anything else as a signal card.\<close>

definition input_message :: "'w ConversationReconciler \<Rightarrow> ConversationRecord \<Rightarrow> InputItem \<Rightarrow> Blob option \<Rightarrow> string \<Rightarrow> 'w
    \<Rightarrow> deliveryPass \<Rightarrow> deliveryPass \<times> Message" where
  "input_message r conv item blob surface w dp =
     (let (body, inputRef, labels, severity) = (case blob of
            None \<Rightarrow> (in_Payload item, [], Map.empty, [])
          | Some b \<Rightarrow> (bl_Payload b, in_PayloadRef item, bl_Labels b, bl_Severity b));
          orig = (case in_Origin item of None \<Rightarrow> \<lparr>io_Kind = [], io_Name = [], io_Entry = [], io_SignalKind = [], io_Sender = []\<rparr>
             | Some o' \<Rightarrow> o')
      in if TypedByAPerson item then (dp, RelayMessage surface (OriginSender item labels) body)
         else (case pass_pipelineName (cv_Reader r) conv w dp of (dp, pl) \<Rightarrow>
           (dp, WithSeverity (SignalMessage pl (io_Name orig) (cr_Title conv) inputRef labels body (io_Kind orig)) severity)))"

definition deliver_to :: "'w ConversationReconciler \<Rightarrow> ConversationRecord \<Rightarrow> InputItem \<Rightarrow> string \<Rightarrow> bool \<Rightarrow> Message \<Rightarrow> string
    \<Rightarrow> 'w chat \<Rightarrow> 'w chat" where
  "deliver_to r conv item surface echoes msg ref st =
     (case st of (w, q) \<Rightarrow>
        if \<not> DeliverTo item ref surface echoes then (w, q)
        else (case ThreadFor conv ref of
           None \<Rightarrow> (w, q)
         | Some tid \<Rightarrow> (case cl_GetChannel (cv_Client r) w ref of
              Inl e \<Rightarrow> (w, q)
            | Inr ch \<Rightarrow> if chn_Adapter ch = [] then (w, q)
                else (w, EnqueueInputDelivery (cv_InProcess r) (cv_Now r w 0) ch conv (in_ID item) (Some tid) msg q))))"

definition deliver :: "'w ConversationReconciler \<Rightarrow> ConversationRecord \<Rightarrow> InputItem \<Rightarrow> 'w chat \<times> deliveryPass
    \<Rightarrow> 'w chat \<times> deliveryPass" where
  "deliver r conv item s =
     (case s of ((w, q), dp) \<Rightarrow>
        (case InputPayload (cv_Store r) item w of (w, blob) \<Rightarrow>
          (let surface = OriginSurface item (case blob of None \<Rightarrow> Map.empty | Some b \<Rightarrow> bl_Labels b);
               (dp, echoes) = surfaceEchoes (cv_Client r) surface w dp;
               (dp, msg) = input_message r conv item blob surface w dp
           in (fold (deliver_to r conv item surface echoes msg) (cr_ChannelRefs conv) (w, q), dp))))"

definition DeliverInputs :: "'w ConversationReconciler \<Rightarrow> ConversationRecord \<Rightarrow> 'w chat \<Rightarrow> 'w chat" where
  "DeliverInputs r conv st =
     (if \<not> cv_Ops r \<or> cr_ChannelRefs conv = [] then st
      else fst (fold (deliver r conv) (filter (\<lambda>i. in_Origin i \<noteq> None) (cr_Inputs conv))
             (st, \<lparr>dp_pipeline = None, dp_echoes = []\<rparr>)))"

section \<open>Topics\<close>

definition servingChannel :: "'w ConversationReconciler \<Rightarrow> string \<Rightarrow> 'w \<Rightarrow> Channel option" where
  "servingChannel r name w = (case cl_GetChannel (cv_Client r) w name of
     Inl e \<Rightarrow> None | Inr ch \<Rightarrow> if chn_Adapter ch = [] then None else Some ch)"

definition holdsLiveClaim :: "'w ConversationReconciler \<Rightarrow> go_time \<Rightarrow> ConversationRecord \<Rightarrow> string \<Rightarrow> bool" where
  "holdsLiveClaim r now conv channel =
     (case Thread conv channel of
        None \<Rightarrow> False
      | Some t \<Rightarrow> (case th_Claim t of
           None \<Rightarrow> False
         | Some c \<Rightarrow> oc_Holder c = cv_ReplicaIdentity r \<and> time_sub now (oc_ClaimedAt c) \<le> claimStaleness r))"

definition setClaim :: "'w ConversationReconciler \<Rightarrow> go_time \<Rightarrow> ConversationRecord \<Rightarrow> string \<Rightarrow> ConversationRecord" where
  "setClaim r now conv channel =
     (let claim = \<lparr>oc_Holder = cv_ReplicaIdentity r, oc_ClaimedAt = now\<rparr>
      in case Thread conv channel of
           Some t \<Rightarrow> conv\<lparr>cr_Threads := update_first (\<lambda>t. th_Channel t = channel) (\<lambda>t. t\<lparr>th_Claim := Some claim\<rparr>) (cr_Threads conv)\<rparr>
         | None \<Rightarrow> conv\<lparr>cr_Threads := cr_Threads conv @ [\<lparr>th_Channel = channel, th_ThreadID = [], th_ReadAt = None,
             th_ReadTracked = False, th_Readers = [], th_UndeliveredReply = [], th_Claim = Some claim\<rparr>]\<rparr>)"

definition claim_closure :: "'w ConversationReconciler \<Rightarrow> string \<Rightarrow> 'w \<Rightarrow> (bool \<times> nat) closure" where
  "claim_closure r channel w cn conv =
     (case cn of (claimed, n) \<Rightarrow>
        if holdsLiveClaim r (cv_Now r w n) conv channel then ((False, n + 1), Inr conv)
        else ((True, n + 2), Inr (setClaim r (cv_Now r w (n + 1)) conv channel)))"

definition claimEnsureTopic :: "'w ConversationReconciler \<Rightarrow> string \<Rightarrow> string \<Rightarrow> 'w \<Rightarrow> 'w \<times> bool result" where
  "claimEnsureTopic r name channel w =
     (case Mutate (cv_Store r) name (claim_closure r channel w) (False, 0) w of
        (w, _, Inl e) \<Rightarrow>
          (w, if errors_Is e ErrConflict
              then Inl (Wrapped (''conflict claiming ensure-topic for '' @ channel @ '' on conversation '' @ name) e)
              else (case IgnoreNotFound (Some e) of None \<Rightarrow> Inr False | Some e \<Rightarrow> Inl e))
      | (w, (claimed, _), Inr _) \<Rightarrow> (w, Inr claimed))"

definition inferredPipeline :: "'w ConversationReconciler \<Rightarrow> ConversationRecord \<Rightarrow> 'w \<Rightarrow> string" where
  "inferredPipeline r conv w =
     (case PipelineForConversation (cv_Reader r) w (Some conv) of None \<Rightarrow> [] | Some pl \<Rightarrow> pl_Name pl)"

definition topicDescriptor :: "'w ConversationReconciler \<Rightarrow> ConversationRecord \<Rightarrow> 'w \<Rightarrow> 'w \<times> TopicDescriptor" where
  "topicDescriptor r conv w =
     (let d = \<lparr>tp_Conversation = cr_Name conv, tp_Pipeline = inferredPipeline r conv w, tp_Source = [], tp_Title = cr_Title conv,
            tp_Labels = Map.empty, tp_Kind = [], tp_PreviousThreadID = []\<rparr>
      in case List.find (\<lambda>i. in_Origin i \<noteq> None) (cr_Inputs conv) of
           None \<Rightarrow> (w, d)
         | Some i \<Rightarrow>
             (let d = (case in_Origin i of None \<Rightarrow> d | Some o' \<Rightarrow> d\<lparr>tp_Source := io_Name o', tp_Kind := io_SignalKind o'\<rparr>)
              in case InputPayload (cv_Store r) i w of
                   (w, None) \<Rightarrow> (w, d)
                 | (w, Some b) \<Rightarrow> (w, d\<lparr>tp_Labels := bl_Labels b\<rparr>)))"

definition first_err :: "err option \<Rightarrow> err \<Rightarrow> err option" where
  "first_err old e = (case old of None \<Rightarrow> Some e | Some x \<Rightarrow> Some x)"

definition ensureTopic :: "'w ConversationReconciler \<Rightarrow> ConversationRecord \<Rightarrow> string \<Rightarrow> 'w chat \<times> bool \<times> err option
    \<Rightarrow> 'w chat \<times> bool \<times> err option" where
  "ensureTopic r conv ref s =
     (case s of ((w, q), pending, firstErr) \<Rightarrow>
        if ThreadFor conv ref \<noteq> None \<and> \<not> ThreadArchived conv ref then s
        else (case cl_GetChannel (cv_Client r) w ref of
           Inl e \<Rightarrow> ((w, q), pending, first_err firstErr e)
         | Inr ch \<Rightarrow>
             if chn_Adapter ch = [] then s
             else (case claimEnsureTopic r (cr_Name conv) ref w of
                (w, Inl e) \<Rightarrow> ((w, q), True, first_err firstErr e)
              | (w, Inr False) \<Rightarrow> ((w, q), True, firstErr)
              | (w, Inr True) \<Rightarrow>
                  (case topicDescriptor r conv w of (w, d) \<Rightarrow>
                    (let d = (case ThreadFor conv ref of None \<Rightarrow> d | Some tid \<Rightarrow> d\<lparr>tp_PreviousThreadID := tid\<rparr>)
                     in ((w, EnqueueEnsureTopic (cv_InProcess r) (cv_Now r w 0) ch conv d q), True, firstErr))))))"

definition ensureTopics :: "'w ConversationReconciler \<Rightarrow> ConversationRecord \<Rightarrow> 'w chat \<Rightarrow> 'w chat \<times> bool \<times> err option" where
  "ensureTopics r conv st = fold (ensureTopic r conv) (cr_ChannelRefs conv) (st, False, None)"

section \<open>Notices\<close>

definition bound_thread :: "'w ConversationReconciler \<Rightarrow> ConversationRecord \<Rightarrow> string
    \<Rightarrow> (Channel \<Rightarrow> string \<Rightarrow> 'w chat \<Rightarrow> 'w chat) \<Rightarrow> string \<Rightarrow> 'w chat \<Rightarrow> 'w chat" where
  "bound_thread r conv omit fn ref st =
     (if ref = omit then st
      else (case ThreadFor conv ref of
         None \<Rightarrow> st
       | Some tid \<Rightarrow> (case cl_GetChannel (cv_Client r) (fst st) ref of Inl e \<Rightarrow> st | Inr ch \<Rightarrow> fn ch tid st)))"

definition cv_eachBoundThread :: "'w ConversationReconciler \<Rightarrow> ConversationRecord \<Rightarrow> string
    \<Rightarrow> (Channel \<Rightarrow> string \<Rightarrow> 'w chat \<Rightarrow> 'w chat) \<Rightarrow> 'w chat \<Rightarrow> 'w chat" where
  "cv_eachBoundThread r conv omit fn st = fold (bound_thread r conv omit fn) (cr_ChannelRefs conv) st"

definition deliverEscalation :: "'w ConversationReconciler \<Rightarrow> ConversationRecord \<Rightarrow> 'w chat \<Rightarrow> 'w chat" where
  "deliverEscalation r conv st =
     (if cr_EscalatedAt conv = None \<or> \<not> cv_Ops r then st
      else cv_eachBoundThread r conv [] (\<lambda>ch tid (w, q).
        (w, EnqueueEscalationMessage (cv_InProcess r) (cv_Now r w 0) ch conv (Some tid) (Notice (cr_EscalationMessage conv)) q)) st)"

definition notifyQueued :: "'w ConversationReconciler \<Rightarrow> ConversationRecord \<Rightarrow> 'w chat \<Rightarrow> 'w chat" where
  "notifyQueued r conv st =
     (case cr_ChannelRefs conv of
        [] \<Rightarrow> st
      | ref # _ \<Rightarrow>
          if \<not> cv_Ops r then st
          else (case st of (w, q) \<Rightarrow> (case servingChannel r ref w of
             None \<Rightarrow> (w, q)
           | Some ch \<Rightarrow> (w, EnqueueMessage (cv_InProcess r) (cv_Epoch r) (cv_Now r w 0) ch (Some conv) (ThreadFor conv ref)
               (Notice (runes_string [9203] @ '' Queued for capacity '' @ em_dash
                 @ '' every agent slot is busy. This starts as soon as one frees up.'')) q))))"

section \<open>Answers of runs\<close>

text \<open>One thread; the channels still owed an answer are collected.\<close>

definition reply_to :: "'w ConversationReconciler \<Rightarrow> ConversationRecord \<Rightarrow> Run \<Rightarrow> ThreadBinding \<Rightarrow> 'w chat \<times> string list
    \<Rightarrow> 'w chat \<times> string list" where
  "reply_to r conv run t s =
     (case s of ((w, q), owed) \<Rightarrow>
        if \<not> BoundTo conv (th_Channel t) then ((w, q), owed)
        else if DeliveredTo run (th_Channel t)
        then ((SettleDeliveredNote (cv_Store r) conv (th_Channel t) (run_RunID run) w, q), owed)
        else if th_ThreadID t = [] then ((w, q), th_Channel t # owed)
        else (case servingChannel r (th_Channel t) w of
           None \<Rightarrow> ((w, q), th_Channel t # owed)
         | Some ch \<Rightarrow> ((w, EnqueueRunReply (cv_InProcess r) (cv_Now r w 0) ch conv (run_RunID run) (Some (th_ThreadID t))
               (RunReplyMessage run) q), th_Channel t # owed)))"

definition enqueueRunReply :: "'w ConversationReconciler \<Rightarrow> ConversationRecord \<Rightarrow> Run \<Rightarrow> 'w chat \<times> string list
    \<Rightarrow> 'w chat \<times> string list" where
  "enqueueRunReply r conv run s = fold (reply_to r conv run) (cr_Threads conv) s"

definition delivery_condition :: "string list \<Rightarrow> Condition" where
  "delivery_condition owed =
     (if owed = [] then cond ConditionDeliveryPending ''False'' ''AllDelivered'' ''every recorded run has reached every bound thread''
      else cond ConditionDeliveryPending ''True'' ''Undelivered''
        (''answers recorded but not yet posted to: '' @ join '', '' (sorted_keys owed)))"

definition setDeliveryPendingCondition :: "'w ConversationReconciler \<Rightarrow> string list \<Rightarrow> 'w pass \<Rightarrow> 'w pass" where
  "setDeliveryPendingCondition r owed p =
     (let c = delivery_condition owed in
      if co_Status c = ''False'' \<and> FindCondition (snd p) ConditionDeliveryPending = None then p
      else fst (patch r (\<lambda>rec. fst (SetCondition (cv_Now r (world p) 0) c rec)) p))"

text \<open>Of runs with one id the last is looked up.\<close>

fun backfillDelivered :: "'w ConversationReconciler \<Rightarrow> ConversationRecord \<Rightarrow> Run list \<Rightarrow> string list \<Rightarrow> 'w \<Rightarrow> 'w \<times> err option" where
  "backfillDelivered r conv runs [] w = (w, None)"
| "backfillDelivered r conv runs (i # ids) w =
     (case List.find (\<lambda>u. run_RunID u = i) (rev runs) of
        None \<Rightarrow> backfillDelivered r conv runs ids w
      | Some run \<Rightarrow>
          if run_DeliveryTracked run then backfillDelivered r conv runs ids w
          else (case st_UpdateRun (cv_Store r) w (cr_Name conv) i
                  (no_update\<lparr>ru_MarkDeliveryTracked := True, ru_MarkDelivered := cr_ChannelRefs conv\<rparr>) of
             (w, Inr _) \<Rightarrow> backfillDelivered r conv runs ids w
           | (w, Inl e) \<Rightarrow>
               if errors_Is e ErrNotFound then backfillDelivered r conv runs ids w
               else (w, Some (Wrapped (''backfilling delivery markers on '' @ cr_Name conv) e))))"

definition deliverRunReplies :: "'w ConversationReconciler \<Rightarrow> Run list \<Rightarrow> 'w pass \<Rightarrow> 'w pass \<times> err option" where
  "deliverRunReplies r runs p =
     (case p of ((st, b), conv) \<Rightarrow>
        if cr_ChannelRefs conv = [] \<or> runs = [] then (p, None)
        else (case fold (enqueueRunReply r conv) (filter run_DeliveryTracked runs) (st, []) of (st, owed) \<Rightarrow>
          (case setDeliveryPendingCondition r owed ((st, b), conv) of
             (((w, q), b), conv) \<Rightarrow>
               (case backfillDelivered r conv runs (map run_RunID (filter (\<lambda>u. \<not> run_DeliveryTracked u) runs)) w of
                  (w, e) \<Rightarrow> ((((w, q), b), conv), e)))))"

section \<open>Results of members\<close>

definition member_dedup :: "ConversationRecord \<Rightarrow> Run \<Rightarrow> string" where
  "member_dedup conv run = ''member:'' @ cr_Name conv @ '':'' @ run_RunID run"

definition route_result :: "'w ConversationReconciler \<Rightarrow> 'w Router \<Rightarrow> ConversationRecord \<Rightarrow> Run \<Rightarrow> 'w chat \<times> err option
    \<Rightarrow> 'w chat \<times> err option" where
  "route_result r router conv run s =
     (case s of (st, firstErr) \<Rightarrow>
        if run_RoutedToParent run then s
        else (case AppendMemberResult router (cr_CausedBy conv) (cr_Name conv) (member_dedup conv run) (run_Result run) st of
           (st, Some e) \<Rightarrow> (st, first_err firstErr e)
         | ((w, q), None) \<Rightarrow>
             (case st_UpdateRun (cv_Store r) w (cr_Name conv) (run_RunID run) (no_update\<lparr>ru_MarkRoutedToParent := True\<rparr>) of
                (w, Inl e) \<Rightarrow> ((w, q), first_err firstErr e)
              | (w, Inr _) \<Rightarrow> ((w, q), firstErr))))"

definition deliverMemberResults :: "'w ConversationReconciler \<Rightarrow> 'w Router \<Rightarrow> Run list \<Rightarrow> 'w pass \<Rightarrow> 'w pass \<times> err option" where
  "deliverMemberResults r router runs p =
     (case p of ((st, b), conv) \<Rightarrow>
        if cr_CausedBy conv = None then (p, None)
        else (case fold (route_result r router conv) runs (st, None) of (st, e) \<Rightarrow> (((st, b), conv), e)))"

end
