(* ===== verification/Admission.thy ===== *)
theory Admission
  imports Delivery
begin

text \<open>
  Capacity (\<open>internal/controller/conversation_controller.go\<close>): which conversations wait for a worker, which of them
  may take a slot, the eviction of an idle worker and the creation of a pod. The waiting conversations are ordered by
  their creation and name. Of candidates for eviction idle equally long the first listed is taken, which \<open>sort.Slice\<close>
  leaves open.
\<close>

section \<open>Pods\<close>

definition conv_label :: "Pod \<Rightarrow> string" where
  "conv_label p = label (kp_Labels p) LabelConversation"

definition isRuntimePod :: "Pod \<Rightarrow> bool" where
  "isRuntimePod p \<longleftrightarrow> label (kp_Labels p) LabelApp = LabelAppValue"

definition live_pod :: "Pod \<Rightarrow> bool" where
  "live_pod p \<longleftrightarrow> isRuntimePod p \<and> kp_Phase p \<in> {PodRunning, PodPending}"

definition liveRuntimePods :: "'w ConversationReconciler \<Rightarrow> 'w \<Rightarrow> Pod list result" where
  "liveRuntimePods r w = (case cl_ListPods (cv_Client r) w of Inl e \<Rightarrow> Inl e | Inr ps \<Rightarrow> Inr (filter live_pod ps))"

section \<open>Admission\<close>

definition arrived :: "ConversationRecord \<Rightarrow> arrival" where
  "arrived c = Arrival (cr_CreatedAt c) (cr_Name c)"

definition fifo :: "ConversationRecord list \<Rightarrow> ConversationRecord list" where
  "fifo cs = sort_key arrived cs"

definition waits :: "go_time \<Rightarrow> string list \<Rightarrow> ConversationRecord \<Rightarrow> bool" where
  "waits now hasPod c \<longleftrightarrow> \<not> (cr_DeletionRequestedAt c \<noteq> None \<or> cr_Name c \<in> set hasPod \<or> \<not> NeedsWorker c)
     \<and> \<not> (cr_Phase c = PhaseClosed \<or> runtimeStartCooldown c now > 0)"

definition waitingFIFO :: "go_time \<Rightarrow> ConversationRecord list \<Rightarrow> string list \<Rightarrow> ConversationRecord list" where
  "waitingFIFO now all hasPod = fifo (filter (waits now hasPod) all)"

fun evictableCount :: "'w ConversationReconciler \<Rightarrow> Pod list \<Rightarrow> 'w \<Rightarrow> 'w \<times> int" where
  "evictableCount r [] w = (w, 0)"
| "evictableCount r (p # ps) w =
     (case st_Get (cv_Store r) w (conv_label p) of
        (w, Inl e) \<Rightarrow> evictableCount r ps w
      | (w, Inr (c, _)) \<Rightarrow> (case evictableCount r ps w of (w, n) \<Rightarrow> (w, if NeedsWorker c then n else n + 1)))"

fun position :: "string \<Rightarrow> ConversationRecord list \<Rightarrow> int option" where
  "position n [] = None"
| "position n (c # cs) = (if cr_Name c = n then Some 0 else map_option (\<lambda>i. i + 1) (position n cs))"

definition admit_waiting :: "int \<Rightarrow> ConversationRecord list \<Rightarrow> string \<Rightarrow> bool" where
  "admit_waiting free waiting name =
     (case position name waiting of Some i \<Rightarrow> i < free | None \<Rightarrow> int (length waiting) < free)"

definition cv_admit :: "'w ConversationReconciler \<Rightarrow> ConversationRecord \<Rightarrow> 'w \<Rightarrow> 'w \<times> bool result" where
  "cv_admit r conv w =
     (case liveRuntimePods r w of
        Inl e \<Rightarrow> (w, Inl e)
      | Inr live \<Rightarrow>
          (let hasPod = map conv_label live;
               free = cv_MaxActiveConversations r - int (length live);
               (w, free) = (if free \<le> 0 then evictableCount r live w else (w, free))
           in if free \<le> 0 then (w, Inr False)
              else (case st_List (cv_Store r) w ByAll no_key of
                 (w, Inl e) \<Rightarrow> (w, Inl e)
               | (w, Inr all) \<Rightarrow> (w, Inr (admit_waiting free (waitingFIFO (cv_Now r w 0) all hasPod) (cr_Name conv))))))"

definition enterPending :: "'w ConversationReconciler \<Rightarrow> 'w pass \<Rightarrow> 'w pass \<times> err option" where
  "enterPending r p =
     (if cr_Phase (snd p) = PhasePending then (p, None)
      else (case setPhase r PhasePending p of
         (p, Some e) \<Rightarrow> (p, Some e)
       | (p, None) \<Rightarrow> (on_chat (notifyQueued r (snd p)) p, None)))"

definition enterPendingFor :: "'w ConversationReconciler \<Rightarrow> string \<Rightarrow> string \<Rightarrow> 'w pass \<Rightarrow> 'w pass \<times> err option" where
  "enterPendingFor r reason message p =
     (case patch r (\<lambda>c. fst (SetCondition (cv_Now r (world p) 0) (cond ConditionRuntimeStarted ''False'' reason message) c)) p of
        (p, Some e) \<Rightarrow> (p, Some e)
      | (p, None) \<Rightarrow> enterPending r p)"

section \<open>Eviction\<close>

fun eviction_candidates :: "'w ConversationReconciler \<Rightarrow> Pod list \<Rightarrow> 'w \<Rightarrow> 'w \<times> (Pod \<times> go_time) list" where
  "eviction_candidates r [] w = (w, [])"
| "eviction_candidates r (p # ps) w =
     (case st_Get (cv_Store r) w (conv_label p) of
        (w, Inl e) \<Rightarrow> eviction_candidates r ps w
      | (w, Inr (c, _)) \<Rightarrow> (case eviction_candidates r ps w of (w, cands) \<Rightarrow>
          (w, if NeedsWorker c then cands
              else (p, case cr_LastActivity c of Some t \<Rightarrow> t | None \<Rightarrow> cr_CreatedAt c) # cands)))"

definition evictIdleWorker :: "'w ConversationReconciler \<Rightarrow> Pod list \<Rightarrow> 'w \<Rightarrow> 'w \<times> bool result" where
  "evictIdleWorker r live w =
     (case eviction_candidates r live w of
        (w, []) \<Rightarrow> (w, Inr False)
      | (w, cands) \<Rightarrow>
          (case cl_DeletePod (cv_Client r) w (kp_Name (fst (hd (sort_key snd cands)))) None of
             (w, e) \<Rightarrow> (w, case IgnoreNotFound e of Some e \<Rightarrow> Inl e | None \<Rightarrow> Inr True)))"

section \<open>Tooling\<close>

text \<open>The error of a resolution, and whether it is that of a raw config bound beside others.\<close>

definition raw_exclusive_text :: "compile_error \<Rightarrow> string" where
  "raw_exclusive_text x = (case x of RawExclusive name others \<Rightarrow>
     ''MCPConfig '' @ quoted name @ '' mounts a hand-written mcp.json, which is opaque to the operator ''
       @ ''and cannot be combined with the '' @ itoa (int others) @ '' other config(s) bound alongside it '' @ em_dash
       @ '' bind it alone, or move its servers into the inline `servers` form'')"

fun bound_configs :: "'w ConversationReconciler \<Rightarrow> ref list \<Rightarrow> 'w \<Rightarrow> MCPConfigSpec list result" where
  "bound_configs r [] w = Inr []"
| "bound_configs r (ref # refs) w =
     (case cl_GetMCPConfig (cv_Client r) w ref of
        Inl e \<Rightarrow> Inl (Wrapped (''bound MCPConfig '' @ quoted ref) e)
      | Inr mc \<Rightarrow> (case bound_configs r refs w of Inl e \<Rightarrow> Inl e | Inr mcs \<Rightarrow> Inr (mc # mcs)))"

definition binding_refs :: "ToolingBinding option \<Rightarrow> ref list" where
  "binding_refs b = (case b of None \<Rightarrow> [] | Some b \<Rightarrow> tl_Refs b)"

definition ensureMCPConfigMap :: "'w ConversationReconciler \<Rightarrow> ConversationRecord \<Rightarrow> 'w
    \<Rightarrow> 'w \<times> ((bool \<times> err) + (McpResult \<times> string))" where
  "ensureMCPConfigMap r conv w =
     (let refs = binding_refs (cr_MCPConfigs conv) in
      case bound_configs r refs w of
        Inl e \<Rightarrow> (w, Inl (False, e))
      | Inr configs \<Rightarrow>
          (case mcp_Compile (cv_Order r) configs refs of
             Inl x \<Rightarrow> (w, Inl (True, ErrOther (raw_exclusive_text x)))
           | Inr res \<Rightarrow>
               (case mr_JSON res of
                  None \<Rightarrow> (w, Inr (res, []))
                | Some doc \<Rightarrow>
                    (let name = convMCPConfigMapName (cr_Name conv)
                     in case cl_PutConfigMap (cv_Client r) w name doc (ownerOf conv) of
                          (w, Some e) \<Rightarrow> (w, Inl (False, e))
                        | (w, None) \<Rightarrow> (w, Inr (res, name))))))"

definition cv_setToolingCondition :: "'w ConversationReconciler \<Rightarrow> string \<Rightarrow> string \<Rightarrow> string \<Rightarrow> 'w pass \<Rightarrow> 'w pass" where
  "cv_setToolingCondition r status reason message p =
     (if cr_MCPConfigs (snd p) = None \<and> cr_Toolsets (snd p) = None then p
      else fst (patch r (\<lambda>c. fst (SetCondition (cv_Now r (world p) 0) (cond ConditionToolingResolved status reason message) c)) p))"

section \<open>Creating the pod\<close>

definition degradedSuffix :: "bool \<Rightarrow> string" where
  "degradedSuffix degraded = (if degraded then '' WITHOUT its context volume (repeated storage failures)'' else [])"

definition degrade :: "Resolved \<Rightarrow> Resolved" where
  "degrade res = res\<lparr>rs_Config := (rs_Config res)\<lparr>df_ContextPVC := []\<rparr>, rs_ContextSync := None\<rparr>"

definition pod_started_event :: "string \<Rightarrow> string \<Rightarrow> bool \<Rightarrow> Event" where
  "pod_started_event conv pod degraded = zero_event\<lparr>ev_Kind := ''runtime.starting'', ev_Status := ''ok'', ev_Conversation := conv,
     ev_From := Node ''conversation'' conv, ev_To := Node ''runtime'' pod,
     ev_Detail := ''runtime pod created'' @ degradedSuffix degraded\<rparr>"

definition pod_created :: "(int \<Rightarrow> int) \<Rightarrow> go_time \<Rightarrow> string \<Rightarrow> McpResult \<Rightarrow> EgressMediation option \<Rightarrow> bool \<Rightarrow> ConversationRecord
    \<Rightarrow> ConversationRecord" where
  "pod_created lower now pod mcp med degraded c =
     (let c = fst (applyMediationCondition now (mediationCondition lower mcp med) (c\<lparr>cr_RuntimePod := pod\<rparr>))
      in if degraded
         then fst (SetCondition now (cond ConditionContextContinuity ''False'' ''ContextVolumeUnusable''
                 (''the context volume could not be attached after repeated attempts; ''
                  @ ''this conversation is running without its previous memory''))
                (c\<lparr>cr_RuntimeContextID := [], cr_SessionID := []\<rparr>))
         else c)"

text \<open>The pod with its namespace and owner set; creating one that is there already is a success that records nothing.\<close>

definition create_pod :: "'w ConversationReconciler \<Rightarrow> (int \<Rightarrow> int) \<Rightarrow> WorkerProfile \<Rightarrow> McpResult \<Rightarrow> string \<Rightarrow> Resolved \<Rightarrow> 'w pass
    \<Rightarrow> 'w pass \<times> bool result" where
  "create_pod r lower profile mcp mcpCM res p =
     (case p of (((w, q), b), conv) \<Rightarrow>
        (let degraded = contextLost conv;
             res = (if degraded then degrade res else res);
             pod = (Build (cv_Quantity r) (cv_Token r) conv profile mcp mcpCM res (cv_MasterToken r))
               \<lparr>kp_Namespace := cv_Namespace r, kp_Owners := [ownerOf conv]\<rparr>
         in case cl_CreatePod (cv_Client r) w pod of
              (w, Some e) \<Rightarrow> ((((w, q), b), conv), if errors_Is e ErrAlreadyExists then Inr True else Inl e)
            | (w, None) \<Rightarrow>
                (let q = q_emit (cv_Now r w 0) (pod_started_event (cr_Name conv) (kp_Name pod) degraded) q
                 in case patch r (pod_created lower (cv_Now r w 1) (kp_Name pod) mcp (rs_EgressMediation res) degraded)
                           (((w, q), b), conv) of
                      (p, Some e) \<Rightarrow> (p, Inl e)
                    | (p, None) \<Rightarrow> (p, Inr True))))"

definition resolve_for :: "'w ConversationReconciler \<Rightarrow> 'w pass \<Rightarrow> 'w pass \<times> Resolved result" where
  "resolve_for r p = (case p of (((w, q), b), conv) \<Rightarrow>
     (case ResolveFor (cv_Reader r) (cv_AgentRuntime r) (cv_Store r) (Some conv) (cv_Runtime r) w of
        (w, x) \<Rightarrow> ((((w, q), b), conv), x)))"

definition provision :: "'w ConversationReconciler \<Rightarrow> (int \<Rightarrow> int) \<Rightarrow> 'w pass \<Rightarrow> 'w pass \<times> bool result" where
  "provision r lower p =
     (case p of (((w, q), b), conv) \<Rightarrow>
        (case cl_GetProfile (cv_Client r) w (cr_ProfileRef conv) of
           Inl e \<Rightarrow> (p, Inl e)
         | Inr profile \<Rightarrow>
             (case ensureMCPConfigMap r conv w of
                (w, Inl (exclusive, e)) \<Rightarrow>
                  (cv_setToolingCondition r ''False'' (if exclusive then ''RawConfigNotExclusive'' else ''MCPResolutionFailed'')
                     (err_text e) (((w, q), b), conv), Inl e)
              | (w, Inr (mcp, mcpCM)) \<Rightarrow>
                  (case resolve_for r (cv_setToolingCondition r ''True'' ''Resolved'' [] (((w, q), b), conv)) of
                     (p, Inl e) \<Rightarrow> (p, Inl e)
                   | (p, Inr res) \<Rightarrow> create_pod r lower profile mcp mcpCM res p))))"

definition createRuntimePod :: "'w ConversationReconciler \<Rightarrow> (int \<Rightarrow> int) \<Rightarrow> 'w pass \<Rightarrow> 'w pass \<times> bool result" where
  "createRuntimePod r lower p =
     (case p of (((w, q), b), conv) \<Rightarrow>
        (case liveRuntimePods r w of
           Inl e \<Rightarrow> (p, Inl e)
         | Inr live \<Rightarrow>
             if int (length live) \<ge> cv_MaxActiveConversations r
             then (case evictIdleWorker r live w of
                (w, Inl e) \<Rightarrow> ((((w, q), b), conv), Inl e)
              | (w, Inr False) \<Rightarrow> ((((w, q), b), conv), Inr False)
              | (w, Inr True) \<Rightarrow> provision r lower (((w, q), b), conv))
             else provision r lower p))"

section \<open>Wake-ups\<close>

definition MapRuntimePodToPending :: "'w ConversationReconciler \<Rightarrow> Pod option \<Rightarrow> 'w \<Rightarrow> 'w \<times> string list" where
  "MapRuntimePodToPending r obj w =
     (if (case obj of None \<Rightarrow> False | Some p \<Rightarrow> kp_Namespace p \<noteq> [] \<and> kp_Namespace p \<noteq> cv_Namespace r) then (w, [])
      else (case st_List (cv_Store r) w ByPhase (no_key\<lparr>lk_Phase := PhasePending\<rparr>) of
         (w, Inl e) \<Rightarrow> (w, [])
       | (w, Inr pending) \<Rightarrow>
           (let pending = fifo (filter (\<lambda>c. cr_DeletionRequestedAt c = None) pending);
                n = max 1 (cv_MaxActiveConversations r)
            in (w, map cr_Name (take (nat n) pending)))))"

text \<open>The namespace and name of the controlling conversation.\<close>

definition mapPodToOwner :: "Pod \<Rightarrow> (string \<times> string) list" where
  "mapPodToOwner p =
     (case List.find (\<lambda>o'. ow_Controller o' = Some True) (kp_Owners p) of
        None \<Rightarrow> []
      | Some o' \<Rightarrow>
          if ow_Kind o' \<noteq> conversationKind then []
          else (case split_byte CHR ''/'' (ow_APIVersion o') of
             [grp, version] \<Rightarrow> if grp = ''agentops.dev'' then [(kp_Namespace p, ow_Name o')] else []
           | _ \<Rightarrow> []))"

end
