(* ===== verification/Lifecycle.thy ===== *)
theory Lifecycle
  imports Admission
begin

text \<open>
  The reconciler of conversations: pruning, closing by idleness, the teardown of a closed or deleted conversation, and a
  whole pass (\<open>Reconcile\<close>). The first argument of what may close a conversation is the depth its cascade may reach (see
  \<^theory_text>\<open>Coordinate\<close>); \<open>lower\<close> is Unicode's table of lower case.
\<close>

section \<open>Pruning\<close>

fun delete_blobs :: "'w Store \<Rightarrow> InputItem list \<Rightarrow> 'w \<Rightarrow> 'w \<times> err option" where
  "delete_blobs s [] w = (w, None)"
| "delete_blobs s (i # is) w =
     (if in_PayloadRef i = [] then delete_blobs s is w
      else (case st_DeleteBlob s w (in_PayloadRef i) of
         (w, Inl e) \<Rightarrow> (w, Some e)
       | (w, Inr _) \<Rightarrow> delete_blobs s is w))"

definition without_inputs :: "string list \<Rightarrow> ConversationRecord \<Rightarrow> ConversationRecord" where
  "without_inputs ids c = c\<lparr>cr_Inputs := filter (\<lambda>i. in_ID i \<notin> set ids) (cr_Inputs c)\<rparr>"

definition pruneProcessed :: "'w ConversationReconciler \<Rightarrow> 'w pass \<Rightarrow> 'w pass \<times> err option" where
  "pruneProcessed r p =
     (let ids = cr_ProcessedInputIDs (snd p); prune = filter (\<lambda>i. in_ID i \<in> set ids) (cr_Inputs (snd p))
      in if ids = [] \<or> prune = [] then (p, None)
         else (case patch r (without_inputs ids) p of
            (p, Some e) \<Rightarrow> (p, Some e)
          | ((((w, q), b), conv), None) \<Rightarrow>
              (case delete_blobs (cv_Store r) prune w of (w, e) \<Rightarrow> ((((w, q), b), conv), e))))"

section \<open>Closing what is finished\<close>

definition allRunsDelivered :: "ConversationRecord \<Rightarrow> Run list \<Rightarrow> bool" where
  "allRunsDelivered conv runs \<longleftrightarrow> cr_ChannelRefs conv = []
     \<or> list_all (\<lambda>run. run_DeliveryTracked run \<longrightarrow> list_all (DeliveredTo run) (cr_ChannelRefs conv)) runs"

definition finished :: "ConversationRecord \<Rightarrow> Run list \<Rightarrow> bool \<Rightarrow> bool" where
  "finished conv runs podExists \<longleftrightarrow>
     cr_Phase conv = PhaseIdle \<and> \<not> (NeedsWorker conv \<or> podExists) \<and> allRunsDelivered conv runs"

definition lastActivity :: "ConversationRecord \<Rightarrow> Run list \<Rightarrow> go_time" where
  "lastActivity conv runs =
     (let instants = (case cr_LastActivity conv of None \<Rightarrow> [] | Some t \<Rightarrow> [t]) @ map in_ReceivedAt (cr_Inputs conv)
            @ List.map_filter run_FinishedAt runs;
          recent = fold max instants 0
      in if IsZero recent then cr_CreatedAt conv else recent)"

text \<open>\<open>idle.Round(time.Minute)\<close> in the farewell.\<close>

definition round_minutes :: "duration \<Rightarrow> duration" where
  "round_minutes d = (let r = d mod minute in if r + r < minute then d - r else d + (minute - r))"

definition autoClose :: "nat \<Rightarrow> 'w ConversationReconciler \<Rightarrow> Run list \<Rightarrow> bool \<Rightarrow> 'w pass \<Rightarrow> ('w pass \<times> duration \<times> err option) option" where
  "autoClose n r runs podExists p =
     (case (p, cv_Router r) of
        (((st, b), conv), Some router) \<Rightarrow>
          if \<not> cv_AutoCloseEnabled r \<or> cv_AutoCloseIdleAge r \<le> 0 then Some (p, 0, None)
          else if \<not> finished conv runs podExists then Some (p, 0, None)
          else (let idle = time_sub (cv_Now r (world p) 0) (lastActivity conv runs)
            in if idle < cv_AutoCloseIdleAge r
               then Some (p, jitter (cv_Rand r (world p)) (cv_AutoCloseIdleAge r - idle), None)
               else map_option (\<lambda>(st, e). (((st, b), conv), 0, e))
                 (AutoCloseConversation n router conv (duration_String (round_minutes idle)) st))
      | (_, None) \<Rightarrow> Some (p, 0, None))"

section \<open>Teardown\<close>

definition releaseWorkload :: "'w ConversationReconciler \<Rightarrow> 'w pass \<Rightarrow> 'w pass \<times> err option" where
  "releaseWorkload r p =
     (case delete_pod r (PodName (cr_Name (snd p))) (Some 0) p of
        (p, e) \<Rightarrow>
          (case IgnoreNotFound e of
             Some e \<Rightarrow> (p, Some e)
           | None \<Rightarrow> (case p of (((w, q), b), conv) \<Rightarrow>
               (case cl_DeleteConfigMap (cv_Client r) w (convMCPConfigMapName (cr_Name conv)) of
                  (w, e) \<Rightarrow> ((((w, q), b), conv), IgnoreNotFound e)))))"

definition autoDelete :: "'w ConversationReconciler \<Rightarrow> 'w pass \<Rightarrow> 'w pass \<times> duration \<times> err option" where
  "autoDelete r p =
     (case p of (((w, q), b), conv) \<Rightarrow>
        (case cr_ClosedAt conv of
           None \<Rightarrow> (p, 0, None)
         | Some closed \<Rightarrow>
             if \<not> cv_AutoDeleteEnabled r \<or> cv_AutoDeleteClosedAge r \<le> 0 then (p, 0, None)
             else (let elapsed = time_sub (cv_Now r w 0) closed
               in if elapsed < cv_AutoDeleteClosedAge r then (p, jitter (cv_Rand r w) (cv_AutoDeleteClosedAge r - elapsed), None)
                  else (case st_Delete (cv_Store r) w (cr_Name conv) of
                     (w, Inl e) \<Rightarrow> ((((w, q), b), conv), 0, Some e)
                   | (w, Inr _) \<Rightarrow> ((((w, q), b), conv), 0, None)))))"

definition archive_thread :: "'w ConversationReconciler \<Rightarrow> ConversationRecord \<Rightarrow> ThreadBinding \<Rightarrow> 'w chat \<Rightarrow> 'w chat" where
  "archive_thread r conv t st =
     (case st of (w, q) \<Rightarrow>
        if ThreadArchived conv (th_Channel t) \<or> th_ThreadID t = [] then (w, q)
        else (case servingChannel r (th_Channel t) w of
           None \<Rightarrow> (w, q)
         | Some ch \<Rightarrow> (w, EnqueueCloseTopic (cv_InProcess r) (cv_Now r w 0) ch (th_ThreadID t) conv q)))"

definition no_workload :: "ConversationRecord \<Rightarrow> ConversationRecord" where
  "no_workload c = c\<lparr>cr_Inflight := None, cr_RuntimePod := []\<rparr>"

definition forget_workload :: "'w ConversationReconciler \<Rightarrow> 'w pass \<Rightarrow> 'w pass \<times> err option" where
  "forget_workload r p =
     (if cr_Inflight (snd p) \<noteq> None \<or> cr_RuntimePod (snd p) \<noteq> [] then patch r no_workload p else (p, None))"

definition reconcileClosed :: "'w ConversationReconciler \<Rightarrow> 'w pass \<Rightarrow> 'w pass \<times> duration \<times> err option" where
  "reconcileClosed r p =
     (case releaseWorkload r p of
        (p, Some e) \<Rightarrow> (p, 0, Some e)
      | (p, None) \<Rightarrow>
          (case forget_workload r p of
             (p, Some e) \<Rightarrow> (p, 0, Some e)
           | (p, None) \<Rightarrow>
               (let conv = snd p;
                    p = (if cv_Ops r then on_chat (fold (archive_thread r conv) (cr_Threads conv)) p else p)
                in autoDelete r p)))"

text \<open>The delete notices; true while one of them has not been taken by its adapter.\<close>

definition delete_notice :: "'w ConversationReconciler \<Rightarrow> ConversationRecord \<Rightarrow> ThreadBinding \<Rightarrow> 'w chat \<times> bool \<Rightarrow> 'w chat \<times> bool" where
  "delete_notice r conv t s =
     (case s of ((w, q), outstanding) \<Rightarrow>
        (case servingChannel r (th_Channel t) w of
           None \<Rightarrow> s
         | Some ch \<Rightarrow>
             (let q = EnqueueDeleteConversation (cv_InProcess r) (cv_Now r w 0) ch (th_ThreadID t) conv q
              in ((w, q), outstanding \<or> Pending q (DeleteConversationOpID (cr_Name conv) (th_Channel t))))))"

definition enqueueDeleteConversations :: "'w ConversationReconciler \<Rightarrow> ConversationRecord \<Rightarrow> 'w chat \<Rightarrow> 'w chat \<times> bool" where
  "enqueueDeleteConversations r conv st = fold (delete_notice r conv) (cr_Threads conv) (st, False)"

definition without_finalizer :: "ConversationRecord \<Rightarrow> ConversationRecord" where
  "without_finalizer c = c\<lparr>cr_Finalizers := filter (\<lambda>f. f \<noteq> FinalizerCloseTopics) (cr_Finalizers c)\<rparr>"

definition finalizeClose :: "'w ConversationReconciler \<Rightarrow> go_time \<Rightarrow> 'w pass \<Rightarrow> 'w pass \<times> duration \<times> err option" where
  "finalizeClose r requested p =
     (if FinalizerCloseTopics \<notin> set (cr_Finalizers (snd p)) then (p, 0, None)
      else (case releaseWorkload r p of
         (p, Some e) \<Rightarrow> (p, 0, Some e)
       | (((st, b), conv), None) \<Rightarrow>
           (case (if cv_Ops r then enqueueDeleteConversations r conv st else (st, False)) of
              ((w, q), outstanding) \<Rightarrow>
                if outstanding \<and> time_sub (cv_Now r w 0) requested < closeGrace r
                then ((((w, q), b), conv), 10 * second, None)
                else (case patch r without_finalizer (((w, q), b), conv) of (p, e) \<Rightarrow> (p, 0, IgnoreNotFound e)))))"

section \<open>The stages of an open conversation\<close>

definition capRequeue :: "duration \<Rightarrow> duration \<Rightarrow> duration" where
  "capRequeue d extra = (if extra \<le> 0 then d else if d \<le> 0 \<or> extra < d then extra else d)"

text \<open>The pod of the conversation: one that exited, never started, or sits on a draining node is taken away.\<close>

definition pod_gone :: "'w ConversationReconciler \<Rightarrow> Pod \<Rightarrow> 'w pass \<Rightarrow> 'w pass \<times> Pod option flow" where
  "pod_gone r pod p =
     (if kp_Phase pod \<noteq> PodSucceeded \<and> kp_Phase pod \<noteq> PodFailed then (p, Proceed (Some pod))
      else (case delete_pod r (kp_Name pod) None p of
         (p, e) \<Rightarrow> then_do (check (p, IgnoreNotFound e)) (\<lambda>_ p.
           then_do (check (forget_workload r p)) (\<lambda>_ p. (p, Proceed None)))))"

definition pod_unstarted :: "'w ConversationReconciler \<Rightarrow> Pod option \<Rightarrow> 'w pass \<Rightarrow> 'w pass \<times> Pod option flow" where
  "pod_unstarted r pod p =
     (case pod of
        None \<Rightarrow> (p, Proceed None)
      | Some pd \<Rightarrow>
          if runtimeStartOverdue pd (startDeadline r) (cv_Now r (world p) 0)
          then then_do (check (reapUnstartedPod r pd p)) (\<lambda>_ p. (p, Proceed None))
          else if podStarted pd
          then then_do (check (clearRuntimeStartFailure r p)) (\<lambda>_ p. (p, Proceed (Some pd)))
          else (p, Proceed (Some pd)))"

definition pod_drained :: "'w ConversationReconciler \<Rightarrow> Pod option \<Rightarrow> 'w pass \<Rightarrow> 'w pass \<times> bool flow" where
  "pod_drained r pod p =
     (case pod of
        None \<Rightarrow> (p, Proceed False)
      | Some pd \<Rightarrow> (case releaseIfNodeDraining r pd p of
          (p, released, Some e) \<Rightarrow> (p, Return 0 (Some e))
        | (p, released, None) \<Rightarrow> (p, Proceed (\<not> released))))"

definition reconcile_pod :: "'w ConversationReconciler \<Rightarrow> 'w pass \<Rightarrow> 'w pass \<times> bool flow" where
  "reconcile_pod r p =
     (case cl_GetPod (cv_Client r) (world p) (PodName (cr_Name (snd p))) of
        Inl e \<Rightarrow> (p, Proceed False)
      | Inr pod \<Rightarrow> then_do (pod_gone r pod p) (\<lambda>pod p. then_do (pod_unstarted r pod p) (\<lambda>pod p. pod_drained r pod p)))"

text \<open>The gates before anything is provisioned: the backoff of a failed start, the storage breaker, capacity.\<close>

definition backoff_gate :: "'w ConversationReconciler \<Rightarrow> bool \<Rightarrow> 'w pass \<Rightarrow> 'w pass \<times> unit flow" where
  "backoff_gate r podExists p =
     (let wait = runtimeStartCooldown (snd p) (cv_Now r (world p) 0)
      in if \<not> podExists \<and> NeedsWorker (snd p) \<and> wait > 0 then (p, Return wait None) else (p, Proceed ()))"

definition storage_gate :: "'w ConversationReconciler \<Rightarrow> bool \<Rightarrow> 'w pass \<Rightarrow> 'w pass \<times> unit flow" where
  "storage_gate r wanted p =
     (case p of ((st, b), conv) \<Rightarrow>
        if \<not> wanted \<or> \<not> cv_StorageBreaker r \<or> \<not> fst (Breaker_Open b) then (p, Proceed ())
        else (case ProbeDue b (cv_Now r (fst st) 0) of
           (b, True) \<Rightarrow> (((st, b), conv), Proceed ())
         | (b, False) \<Rightarrow>
             (case enterPendingFor r ReasonStorageUnavailable
                (''context storage has been unreachable across this install since ''
                 @ time_RFC3339 (snd (Breaker_Open b)) @ ''; work is held, not failed'') ((st, b), conv) of
                (p, e) \<Rightarrow> (p, Return (30 * second) e))))"

definition capacity_gate :: "'w ConversationReconciler \<Rightarrow> bool \<Rightarrow> 'w pass \<Rightarrow> 'w pass \<times> unit flow" where
  "capacity_gate r wanted p =
     (if \<not> wanted then (p, Proceed ())
      else (case p of (((w, q), b), conv) \<Rightarrow>
        (case cv_admit r conv w of
           (w, Inl e) \<Rightarrow> ((((w, q), b), conv), Return 0 (Some e))
         | (w, Inr True) \<Rightarrow> ((((w, q), b), conv), Proceed ())
         | (w, Inr False) \<Rightarrow> (case enterPending r (((w, q), b), conv) of (p, e) \<Rightarrow> (p, Return (30 * second) e)))))"

text \<open>What the channels are owed; true while a topic is awaited. Errors here are logged.\<close>

definition chat_stage :: "'w ConversationReconciler \<Rightarrow> Run list \<Rightarrow> 'w pass \<Rightarrow> 'w pass \<times> bool" where
  "chat_stage r runs p =
     (if \<not> cv_Ops r then (p, False)
      else (case p of ((st, b), conv) \<Rightarrow>
        (case ensureTopics r conv st of (st, topicPending, e) \<Rightarrow>
          (let st = (case cv_Router r of
                 Some router \<Rightarrow> if cr_Reopens conv > 0 then FanOutReopenNotice router conv st else st
               | None \<Rightarrow> st);
               st = DeliverInputs r conv (deliverEscalation r conv st)
           in (fst (deliverRunReplies r runs ((st, b), conv)), topicPending)))))"

definition member_stage :: "'w ConversationReconciler \<Rightarrow> Run list \<Rightarrow> 'w pass \<Rightarrow> 'w pass" where
  "member_stage r runs p = (case cv_Router r of None \<Rightarrow> p | Some router \<Rightarrow> fst (deliverMemberResults r router runs p))"

definition provision_stage :: "'w ConversationReconciler \<Rightarrow> (int \<Rightarrow> int) \<Rightarrow> bool \<Rightarrow> 'w pass \<Rightarrow> 'w pass \<times> unit flow" where
  "provision_stage r lower wanted p =
     (if \<not> wanted then (p, Proceed ())
      else (case createRuntimePod r lower p of
         (p, Inl e) \<Rightarrow> (p, Return 0 (Some e))
       | (p, Inr True) \<Rightarrow> (p, Proceed ())
       | (p, Inr False) \<Rightarrow> (case enterPending r p of (p, e) \<Rightarrow> (p, Return (30 * second) e))))"

definition next_phase :: "ConversationRecord \<Rightarrow> bool \<Rightarrow> string" where
  "next_phase conv pending = (if cr_Inflight conv \<noteq> None then PhaseWorking else if pending then PhaseQueued else PhaseIdle)"

section \<open>A pass\<close>

text \<open>The stages up to the phase, with whether the conversation's pod is there and whether a topic is awaited.\<close>

definition reconcile_stages :: "'w ConversationReconciler \<Rightarrow> (int \<Rightarrow> int) \<Rightarrow> Run list \<Rightarrow> bool \<Rightarrow> bool \<Rightarrow> 'w pass
    \<Rightarrow> 'w pass \<times> (bool \<times> bool) flow" where
  "reconcile_stages r lower runs pending needsWorker p =
     then_do (reconcile_pod r p) (\<lambda>podExists p.
     then_do (backoff_gate r podExists p) (\<lambda>_ p.
     then_do (storage_gate r (needsWorker \<and> \<not> podExists) p) (\<lambda>_ p.
     then_do (capacity_gate r (needsWorker \<and> \<not> podExists) p) (\<lambda>_ p.
     (case chat_stage r runs p of (p, topicPending) \<Rightarrow>
     then_do (provision_stage r lower (needsWorker \<and> \<not> podExists) (member_stage r runs p)) (\<lambda>_ p.
     then_do (check (setPhase r (next_phase (snd p) pending) p)) (\<lambda>_ p. (p, Proceed (podExists, topicPending)))))))))"

definition reconcileOpen :: "nat \<Rightarrow> 'w ConversationReconciler \<Rightarrow> (int \<Rightarrow> int) \<Rightarrow> Run list \<Rightarrow> duration \<Rightarrow> 'w pass
    \<Rightarrow> ('w pass \<times> duration \<times> err option) option" where
  "reconcileOpen n r lower runs deadline p =
     (case pruneProcessed r p of
        (p, Some e) \<Rightarrow> Some (p, 0, Some e)
      | (p, None) \<Rightarrow>
          (let pending = PendingInputs (snd p) \<noteq> []; needsWorker = NeedsWorker (snd p)
           in case reconcile_stages r lower runs pending needsWorker p of
                (p, Return d e) \<Rightarrow> Some (p, d, e)
              | (p, Proceed (podExists, topicPending)) \<Rightarrow>
                  if topicPending then Some (p, capRequeue (15 * second) deadline, None)
                  else if needsWorker then Some (p, capRequeue (60 * second) deadline, None)
                  else map_option (\<lambda>(p, d, e). (p, capRequeue d deadline, e)) (autoClose n r runs podExists p)))"

definition add_finalizer :: "ConversationRecord \<Rightarrow> ConversationRecord" where
  "add_finalizer c = c\<lparr>cr_Finalizers := cr_Finalizers c @ [FinalizerCloseTopics]\<rparr>"

definition past_deadline_digest :: "go_time \<Rightarrow> string" where
  "past_deadline_digest t = ''budget-exceeded: deadline ('' @ time_RFC3339 t @ '') passed''"

definition deadline_of :: "'w ConversationReconciler \<Rightarrow> ConversationRecord \<Rightarrow> ('w Router \<times> go_time) option" where
  "deadline_of r conv =
     (case (cr_Budget conv, cv_Router r) of
        (Some b, Some router) \<Rightarrow> map_option (Pair router) (bd_Deadline b)
      | _ \<Rightarrow> None)"

definition reconcile_live :: "nat \<Rightarrow> 'w ConversationReconciler \<Rightarrow> (int \<Rightarrow> int) \<Rightarrow> Run list \<Rightarrow> 'w pass
    \<Rightarrow> ('w pass \<times> duration \<times> err option) option" where
  "reconcile_live n r lower runs p =
     (if cr_Phase (snd p) = PhaseClosed then Some (reconcileClosed r p)
      else (case (deadline_of r (snd p), p) of
         (None, _) \<Rightarrow> reconcileOpen n r lower runs 0 p
       | (Some (router, t), ((st, b), conv)) \<Rightarrow>
           if t \<le> cv_Now r (fst st) 0
           then map_option (\<lambda>(st, e). (((st, b), conv), 0, e)) (CloseBudgetExceeded n router conv (past_deadline_digest t) st)
           else reconcileOpen n r lower runs (time_sub t (cv_Now r (fst st) 1)) p))"

definition cv_Reconcile :: "nat \<Rightarrow> 'w ConversationReconciler \<Rightarrow> (int \<Rightarrow> int) \<Rightarrow> string \<Rightarrow> 'w serving
    \<Rightarrow> ('w serving \<times> duration \<times> err option) option" where
  "cv_Reconcile n r lower name s =
     (case s of ((w, q), b) \<Rightarrow>
        (case st_GetWithRuns (cv_Store r) w name of
           (w, Inl e) \<Rightarrow> Some (((w, q), b), 0, IgnoreNotFound (Some e))
         | (w, Inr (conv, _, runs)) \<Rightarrow>
             (let p = (((w, q), b), conv)
              in map_option (\<lambda>(p, d, e). (fst p, d, e))
                   (case cr_DeletionRequestedAt conv of
                      Some t \<Rightarrow> Some (finalizeClose r t p)
                    | None \<Rightarrow>
                        if FinalizerCloseTopics \<in> set (cr_Finalizers conv) then reconcile_live n r lower runs p
                        else (case patch r add_finalizer p of
                           (p, Some e) \<Rightarrow> Some (p, 0, IgnoreNotFound (Some e))
                         | (p, None) \<Rightarrow> reconcile_live n r lower runs p)))))"

end
