(* ===== verification/PassSamples.thy ===== *)
theory PassSamples
  imports Lifecycle CloseLaws BackendLaws PodLaws
begin

text \<open>
  Samples the laws of the reconciler are tried on: a cluster with nothing in it, a reconciler over a store, a
  conversation with a task waiting.
\<close>

definition bare_cluster :: "'w Cluster" where
  "bare_cluster = \<lparr>cl_GetPod = (\<lambda>w n. Inl ErrNotFound), cl_ListPods = (\<lambda>w. Inr []), cl_CreatePod = (\<lambda>w p. (w, None)),
     cl_DeletePod = (\<lambda>w n g. (w, Some ErrNotFound)), cl_GetNode = (\<lambda>w n. Inl ErrNotFound), cl_PutConfigMap = (\<lambda>w n d o'. (w, None)),
     cl_DeleteConfigMap = (\<lambda>w n. (w, None)), cl_GetMCPConfig = (\<lambda>w n. Inl ErrNotFound), cl_GetProfile = (\<lambda>w n. Inr sample_worker),
     cl_GetChannel = (\<lambda>w n. Inl ErrNotFound), cl_AdapterEchoes = (\<lambda>w n. Inr False), cl_Event = (\<lambda>w a k x m. w)\<rparr>"

definition reconciler_over :: "'w Store \<Rightarrow> 'w ConversationReconciler" where
  "reconciler_over s = \<lparr>cv_Client = bare_cluster, cv_Namespace = ''agents'', cv_Reader = no_api, cv_AgentRuntime = no_runtime,
     cv_Runtime = bare_config, cv_Store = s, cv_MaxActiveConversations = 1, cv_Ops = False, cv_CloseTopicGrace = 0,
     cv_RuntimeStartDeadline = 0, cv_MasterToken = ''key'', cv_StorageBreaker = False, cv_DrainAware = False, cv_Recorder = False,
     cv_Router = None, cv_AutoCloseEnabled = False, cv_AutoCloseIdleAge = 0, cv_AutoDeleteEnabled = False,
     cv_AutoDeleteClosedAge = 0, cv_ReplicaIdentity = ''m-0'', cv_ClaimStaleness = 0, cv_InProcess = (\<lambda>t. False), cv_Epoch = ''e'',
     cv_Now = (\<lambda>w n. 7), cv_Rand = (\<lambda>w. 0), cv_Quantity = Some, cv_Token = (\<lambda>k c n. k @ c @ n), cv_Order = (\<lambda>xs. xs)\<rparr>"

lemma bare_cluster_fields [simp]:
  "cl_GetPod bare_cluster = (\<lambda>w n. Inl ErrNotFound)"
  "cl_ListPods bare_cluster = (\<lambda>w. Inr [])"
  "cl_CreatePod bare_cluster = (\<lambda>w p. (w, None))"
  "cl_DeletePod bare_cluster = (\<lambda>w n g. (w, Some ErrNotFound))"
  "cl_GetNode bare_cluster = (\<lambda>w n. Inl ErrNotFound)"
  "cl_PutConfigMap bare_cluster = (\<lambda>w n d o'. (w, None))"
  "cl_DeleteConfigMap bare_cluster = (\<lambda>w n. (w, None))"
  "cl_GetMCPConfig bare_cluster = (\<lambda>w n. Inl ErrNotFound)"
  "cl_GetProfile bare_cluster = (\<lambda>w n. Inr sample_worker)"
  "cl_GetChannel bare_cluster = (\<lambda>w n. Inl ErrNotFound)"
  "cl_AdapterEchoes bare_cluster = (\<lambda>w n. Inr False)"
  "cl_Event bare_cluster = (\<lambda>w a k x m. w)"
  by (simp_all add: bare_cluster_def)

lemma reconciler_over_fields [simp]:
  "cv_Client (reconciler_over s) = bare_cluster"
  "cv_Namespace (reconciler_over s) = ''agents''"
  "cv_Reader (reconciler_over s) = no_api"
  "cv_AgentRuntime (reconciler_over s) = no_runtime"
  "cv_Runtime (reconciler_over s) = bare_config"
  "cv_Store (reconciler_over s) = s"
  "cv_MaxActiveConversations (reconciler_over s) = 1"
  "cv_Ops (reconciler_over s) = False"
  "cv_CloseTopicGrace (reconciler_over s) = 0"
  "cv_RuntimeStartDeadline (reconciler_over s) = 0"
  "cv_MasterToken (reconciler_over s) = ''key''"
  "cv_StorageBreaker (reconciler_over s) = False"
  "cv_DrainAware (reconciler_over s) = False"
  "cv_Recorder (reconciler_over s) = False"
  "cv_Router (reconciler_over s) = None"
  "cv_AutoCloseEnabled (reconciler_over s) = False"
  "cv_AutoCloseIdleAge (reconciler_over s) = 0"
  "cv_AutoDeleteEnabled (reconciler_over s) = False"
  "cv_AutoDeleteClosedAge (reconciler_over s) = 0"
  "cv_ReplicaIdentity (reconciler_over s) = ''m-0''"
  "cv_ClaimStaleness (reconciler_over s) = 0"
  "cv_InProcess (reconciler_over s) = (\<lambda>t. False)"
  "cv_Epoch (reconciler_over s) = ''e''"
  "cv_Now (reconciler_over s) = (\<lambda>w n. 7)"
  "cv_Rand (reconciler_over s) = (\<lambda>w. 0)"
  "cv_Quantity (reconciler_over s) = Some"
  "cv_Token (reconciler_over s) = (\<lambda>k c n. k @ c @ n)"
  "cv_Order (reconciler_over s) = (\<lambda>xs. xs)"
  by (simp_all add: reconciler_over_def)

definition new_task :: InputItem where
  "new_task = \<lparr>in_ID = ''t'', in_Type = InputTask, in_Agent = [], in_Payload = ''go'', in_PayloadRef = [], in_Origin = None,
     in_ReceivedAt = 5\<rparr>"

definition idle_conv :: "string \<Rightarrow> ConversationRecord" where
  "idle_conv name = (tree_conv name None)\<lparr>cr_Finalizers := [FinalizerCloseTopics]\<rparr>"

definition tasked :: "string \<Rightarrow> ConversationRecord" where
  "tasked name = (idle_conv name)\<lparr>cr_Inputs := [new_task]\<rparr>"

text \<open>The pod of a conversation, as the reconciler builds it.\<close>

definition pod_of :: "string \<Rightarrow> Pod" where
  "pod_of name = (sample_build name)\<lparr>kp_Phase := PodRunning\<rparr>"

lemma pod_of_fields [simp]: "live_pod (pod_of n)" "kp_Name (pod_of n) = PodName n" "conv_label (pod_of n) = n" "kp_Phase (pod_of n) = PodRunning"
  by (simp_all add: pod_of_def live_pod_def isRuntimePod_def conv_label_def Build_def label_def Let_def)

lemma mcp_Compile_none [simp]: "mcp_Compile ord [] [] = Inr (zero_result\<lparr>mr_JSON := Some []\<rparr>)"
  by (simp add: mcp_Compile_def)

lemmas record_eval = idle_conv_def tasked_def new_task_def PendingInputs_def NeedsWorker_def
lemmas provision_eval = createRuntimePod_def provision_def liveRuntimePods_def ensureMCPConfigMap_def binding_refs_def
  cv_setToolingCondition_def resolve_for_def create_pod_def contextLost_def patch_def

lemma samples [simp]: "cr_Name (idle_conv n) = n" "cr_Name (tasked n) = n" "\<not> NeedsWorker (idle_conv n)" "NeedsWorker (tasked n)"
  "cr_MCPConfigs (tasked n) = None" "cr_Toolsets (tasked n) = None" "cr_ExpiresAt (idle_conv n) = None"
  "cr_ExpiresAt (tasked n) = None" "cr_DeletionRequestedAt (idle_conv n) = None" "cr_DeletionRequestedAt (tasked n) = None"
  "cr_CoordinatorRef (tasked n) = []" "cr_CausedBy (tasked n) = None" "cr_RuntimeRef (tasked n) = []" "cr_ProfileRef (tasked n) = []"
  "\<not> contextLost (tasked n)" "cr_Phase (tasked n) = PhaseIdle" "runtimeStartCooldown (tasked n) t = 0"
  "cr_Finalizers (tasked n) = [FinalizerCloseTopics]" "cr_ProcessedInputIDs (tasked n) = []" "cr_Budget (tasked n) = None"
  "PendingInputs (tasked n) = [new_task]"
  by (simp_all add: record_eval tree_eval contextLost_def degradedStartAfter_def runtimeStartCooldown_def)

lemma mem_Store_fields [simp]:
  "st_Get mem_Store = mem_Get" "st_Update mem_Store = mem_Update" "st_Delete mem_Store = mem_Delete" "st_List mem_Store = mem_List"
  "st_UpdateRun mem_Store = mem_UpdateRun" "st_GetWithRuns mem_Store = mem_GetWithRuns"
  by (simp_all add: mem_Store_def)

section \<open>Records in memory\<close>

abbreviation kept :: "ConversationRecord list \<Rightarrow> bool" where
  "kept rs \<equiv> list_all (\<lambda>c. cr_ExpiresAt c = None \<and> cr_DeletionRequestedAt c = None) rs"

lemma mem_of_sweep: "kept rs \<Longrightarrow> sweepExpiredLocked (mem_of rs) = mem_of rs"
  by (induction rs) (auto simp: sweepExpiredLocked_def mem_of_def newMemStore_def expired_def)

lemma mem_of_lookup: "map_of (mem_records (mem_of rs)) k = map_option (\<lambda>c. (c, 1)) (List.find (\<lambda>c. cr_Name c = k) rs)"
  by (induction rs) (auto simp: mem_of_def)

lemma mem_of_Get: "kept rs \<Longrightarrow> List.find (\<lambda>c. cr_Name c = k) rs = Some c \<Longrightarrow> mem_Get (mem_of rs) k = (mem_of rs, Inr (c, revisionOf 1))"
  by (simp add: mem_Get_def mem_of_sweep mem_of_lookup Let_def)

lemma mem_of_all [simp]: "map (\<lambda>(k, r, v). r) (mem_records (mem_of rs)) = rs"
  by (simp add: mem_of_def comp_def)

text \<open>A patch of a record that is there succeeds.\<close>

lemma mem_of_patch:
  assumes "kept rs" and "List.find (\<lambda>c. cr_Name c = cr_Name old) rs = Some c"
  shows "\<exists>m. Patch mem_Store old fn (mem_of rs) = (m, fn c, None)"
proof -
  have "cr_DeletionRequestedAt c = None" using assms by (auto simp: list_all_iff find_Some_iff)
  then have "\<exists>m v. mem_Update (mem_of rs) (cr_Name old) (revisionOf 1) (fn c) = (m, Inr v)"
    using assms by (simp add: mem_Update_def mem_of_sweep mem_of_lookup Let_def mem_put_def mintLocked_def split: prod.split)
  then obtain m v where u: "mem_Update (mem_of rs) (cr_Name old) (revisionOf 1) (fn c) = (m, Inr v)" by blast
  have ten: "MutateMaxAttempts = Suc 9" by (simp add: MutateMaxAttempts_def)
  have "\<exists>m. Mutate_loop mem_Store (cr_Name old) (\<lambda>u r. (u, Inr (fn r))) (Suc 9) None () (mem_of rs) = (m, (), Inr (fn c))"
    unfolding Mutate_loop.simps using u mem_of_Get [OF assms] by (simp add: mem_Store_def)
  then show ?thesis by (auto simp: Patch_def Mutate_def ten simp del: Suc_numeral)
qed

lemma acting_walk_root: "cr_CausedBy c = None \<Longrightarrow> acting_walk s name walk_limit c w = (w, Inr (cr_CoordinatorRef c))"
proof -
  assume "cr_CausedBy c = None"
  moreover have "acting_walk s name (Suc 999) c w = (w, Inr (cr_CoordinatorRef c))"
    unfolding acting_walk.simps using calculation by simp
  ultimately show ?thesis by (simp add: walk_limit_def)
qed

lemmas resolution_eval = ResolveFor_def runtimeNameFor_def deprecatedProfileRuntime_def no_runtime_def
  resolveActingCoordinatorBestEffort_def pod_ActingCoordinator_def acting_walk_root pod_created_def applyMediationCondition_def
  mediationCondition_def zero_result_def unenforceable_def

end
