(* ===== verification/LifecycleLaws.thy ===== *)
theory LifecycleLaws
  imports PassSamples
begin

text \<open>
  What the reconciler promises: who is admitted, what an answer is owed, when a conversation is closed or let go, how many
  pods there may be, and the passes that undo or forget what another writer or an earlier pass recorded.
\<close>

section \<open>Admission\<close>

lemma position_nth:
  "distinct (map cr_Name cs) \<Longrightarrow> i < length cs \<Longrightarrow> position (cr_Name (cs ! i)) cs = Some (int i)"
proof (induction cs arbitrary: i)
  case (Cons c cs)
  then show ?case by (cases i) (use nth_mem in force)+
qed simp

lemma filter_first: "(\<And>i. i < length xs \<Longrightarrow> P (xs ! i) \<longleftrightarrow> i < n) \<Longrightarrow> filter P xs = take n xs"
proof (induction xs arbitrary: n)
  case (Cons x xs)
  show ?case
  proof (cases n)
    case 0
    with Cons.prems have "\<not> P ((x # xs) ! i)" if "i < length (x # xs)" for i using that by simp
    then have "filter P (x # xs) = []" by (metis filter_False in_set_conv_nth)
    with 0 show ?thesis by simp
  next
    case (Suc m)
    have "P (xs ! i) \<longleftrightarrow> i < m" if "i < length xs" for i using Cons.prems [of "Suc i"] that Suc by simp
    with Cons.IH [of m] Cons.prems [of 0] Suc show ?thesis by simp
  qed
qed simp

lemma fifo_sorted: "distinct (map cr_Name cs) \<Longrightarrow> sorted_wrt (\<lambda>a b. arrived a < arrived b) (fifo cs)"
proof -
  assume d: "distinct (map cr_Name cs)"
  have "inj_on cr_Name (set cs)" using d by (simp add: distinct_map)
  then have "inj_on arrived (set cs)" by (auto simp: inj_on_def arrived_def)
  with d have "distinct (map arrived (fifo cs))" by (simp add: fifo_def distinct_map)
  moreover have "sorted (map arrived (fifo cs))" by (simp add: fifo_def)
  ultimately have "sorted_wrt (<) (map arrived (fifo cs))" by (simp add: strict_sorted_iff)
  then show ?thesis by (simp add: sorted_wrt_map)
qed

text \<open>Of the conversations that need a worker, hold no pod, are open and are not backing off, exactly as many as
  there are slots are admitted, the oldest first: every conversation judges itself against the same lists, and no two
  of them come to different orders. The slots are those under the cap or, when it is reached, the pods of idle
  conversations.\<close>

theorem the_oldest_waiting_are_admitted:
  assumes "liveRuntimePods r w = Inr live"
    and "(w', free) = (if cv_MaxActiveConversations r - int (length live) \<le> 0 then evictableCount r live w
           else (w, cv_MaxActiveConversations r - int (length live)))"
    and "st_List (cv_Store r) w' ByAll no_key = (w'', Inr all)" and "distinct (map cr_Name all)"
  shows "let queue = waitingFIFO (cv_Now r w'' 0) all (map conv_label live) in
      set queue = {c \<in> set all. waits (cv_Now r w'' 0) (map conv_label live) c}
      \<and> sorted_wrt (\<lambda>a b. arrived a < arrived b) queue
      \<and> filter (\<lambda>c. snd (cv_admit r c w) = Inr True) queue = take (nat free) queue"
proof -
  define queue where "queue = waitingFIFO (cv_Now r w'' 0) all (map conv_label live)"
  have adm: "snd (cv_admit r c w) = Inr (0 < free \<and> admit_waiting free queue (cr_Name c))" for c
    using assms(1-3) by (auto simp: cv_admit_def queue_def Let_def split: prod.splits if_splits)
  have d: "distinct (map cr_Name (filter (waits (cv_Now r w'' 0) (map conv_label live)) all))"
    using assms(4) by (simp add: distinct_map_filter)
  then have dq: "distinct (map cr_Name queue)" by (simp add: queue_def waitingFIFO_def fifo_def distinct_map)
  have "snd (cv_admit r (queue ! i) w) = Inr True \<longleftrightarrow> i < nat free" if "i < length queue" for i
    using position_nth [OF dq that] by (auto simp: adm admit_waiting_def)
  then have "filter (\<lambda>c. snd (cv_admit r c w) = Inr True) queue = take (nat free) queue" by (rule filter_first)
  moreover have "sorted_wrt (\<lambda>a b. arrived a < arrived b) queue" unfolding queue_def waitingFIFO_def by (rule fifo_sorted [OF d])
  moreover have "set queue = {c \<in> set all. waits (cv_Now r w'' 0) (map conv_label live) c}"
    by (auto simp: queue_def waitingFIFO_def fifo_def)
  ultimately show ?thesis by (simp add: queue_def [symmetric] Let_def)
qed

text \<open>Two conversations wait for one slot: the one with the smaller name, both being created at once, takes it.\<close>

theorem the_oldest_waiting_are_admitted_witness:
  "filter (\<lambda>c. snd (cv_admit (reconciler_over mem_Store) c (mem_of [tasked ''b'', tasked ''a''])) = Inr True)
     (waitingFIFO 7 [tasked ''b'', tasked ''a''] []) = take 1 (waitingFIFO 7 [tasked ''b'', tasked ''a''] [])"
proof -
  have l: "st_List (cv_Store (reconciler_over mem_Store)) (mem_of [tasked ''b'', tasked ''a'']) ByAll no_key
      = (mem_of [tasked ''b'', tasked ''a''], Inr [tasked ''b'', tasked ''a''])"
    by (simp add: mem_List_def mem_of_sweep Let_def)
  from the_oldest_waiting_are_admitted [OF _ _ l, where live = "[]" and free = 1] show ?thesis
    by (simp add: liveRuntimePods_def Let_def)
qed

end
