(* ===== verification/PassLaws.thy ===== *)
theory PassLaws
  imports PassSamples
begin

text \<open>
  What a pass owes and what it may not do: the answers it queues, when it closes a conversation, what keeps a deleted one,
  a draining node; and the passes that undo or forget what another writer or an earlier pass recorded.
\<close>

section \<open>Answers\<close>

text \<open>A queue that came from another by enqueuing.\<close>

definition only_enqueued :: "OpQueue \<Rightarrow> OpQueue \<Rightarrow> bool" where
  "only_enqueued q q' \<longleftrightarrow> (\<forall>i. Pending q i \<longrightarrow> Pending q' i) \<and> q_recent q' = q_recent q"

definition queued :: "OpQueue \<Rightarrow> string \<Rightarrow> bool" where
  "queued q i \<longleftrightarrow> Pending q i \<or> Settled q i"

lemma only_enqueued_refl [simp]: "only_enqueued q q"
  by (simp add: only_enqueued_def)

lemma only_enqueued_trans [trans]: "only_enqueued a b \<Longrightarrow> only_enqueued b c \<Longrightarrow> only_enqueued a c"
  by (simp add: only_enqueued_def)

lemma queued_mono: "only_enqueued q q' \<Longrightarrow> queued q i \<Longrightarrow> queued q' i"
  by (auto simp: only_enqueued_def queued_def Settled_def)

lemma enqueue_enqueues: "only_enqueued q (enqueue ip now o' q)" "op_stable o' \<Longrightarrow> queued (enqueue ip now o' q) (op_ID o')"
  by (auto simp: only_enqueued_def queued_def enqueue_def suppressed_def Pending_def Settled_def insert_op_def q_emit_def Let_def)

lemma EnqueueRunReply_enqueues:
  "only_enqueued q (EnqueueRunReply ip now ch conv i tid m q)"
  "queued (EnqueueRunReply ip now ch conv i tid m q) (RunReplyOpID (cr_Name conv) (chn_Name ch) i)"
  using enqueue_enqueues(2) [of "zero_Op\<lparr>op_ID := RunReplyOpID (cr_Name conv) (chn_Name ch) i, op_Channel := chn_Name ch,
      op_Conversation := cr_Name conv, op_ConversationID := cr_ConversationID conv, op_Kind := OpSend, op_ThreadID := tid,
      op_Message := Some m, op_channelType := chn_Adapter ch, op_stable := True\<rparr>" ip now q]
  by (simp_all add: EnqueueRunReply_def enqueueMessage_def enqueue_enqueues(1))

lemma reply_to_enqueues: "only_enqueued (snd (fst a)) (snd (fst (reply_to r conv run t a)))"
  by (auto simp: reply_to_def EnqueueRunReply_enqueues split: prod.splits option.split)

lemma fold_enqueues: fixes h :: "'a \<Rightarrow> OpQueue" shows "(\<And>x a. only_enqueued (h a) (h (f x a))) \<Longrightarrow> only_enqueued (h a) (h (fold f xs a))"
proof (induction xs arbitrary: a)
  case (Cons x xs)
  then show ?case by (metis fold_simps(2) only_enqueued_trans)
qed simp

lemma enqueueRunReply_enqueues: "only_enqueued (snd (fst a)) (snd (fst (enqueueRunReply r conv run a)))"
  unfolding enqueueRunReply_def by (rule fold_enqueues) (rule reply_to_enqueues)

text \<open>What one element of a list brings about survives the rest of the loop.\<close>

lemma fold_brings:
  assumes "x \<in> set xs" and "\<And>a. queued (h (f x a)) i" and "\<And>x a. only_enqueued (h a) (h (f x a))"
  shows "queued (h (fold f xs a)) i"
  using assms(1)
proof (induction xs arbitrary: a)
  case (Cons y xs)
  then show ?case
  proof (cases "x = y")
    case True
    have "only_enqueued (h (f x a)) (h (fold f xs (f x a)))" by (rule fold_enqueues) (rule assms(3))
    from queued_mono [OF this assms(2)] True show ?thesis by simp
  qed simp
qed simp

lemma reply_to_queues:
  assumes "BoundTo conv (th_Channel t)" and "\<not> DeliveredTo run (th_Channel t)" and "th_ThreadID t \<noteq> []"
    and "\<And>w. servingChannel r (th_Channel t) w = Some ch"
  shows "queued (snd (fst (reply_to r conv run t a))) (RunReplyOpID (cr_Name conv) (chn_Name ch) (run_RunID run))"
  using assms by (auto simp: reply_to_def EnqueueRunReply_enqueues split: prod.split)

lemma fst_reply: "deliverRunReplies r runs ((st, b), conv) = (p', e) \<Longrightarrow> cr_ChannelRefs conv \<noteq> [] \<Longrightarrow> runs \<noteq> []
    \<Longrightarrow> snd (fst (fst p')) = snd (fst (fold (enqueueRunReply r conv) (filter run_DeliveryTracked runs) (st, [])))"
  by (auto simp: deliverRunReplies_def setDeliveryPendingCondition_def patch_def Let_def split: prod.splits if_splits)

text \<open>Every answer that is owed is queued by every pass. After the chat stage of a pass, each tracked run of the
  conversation has, for each channel it is bound to, has a thread in, is served by and has not been answered on, its
  operation waiting or completed before; which is why an answer survives a manager that restarts with it in memory.
  Stated while the channel is served throughout the pass.\<close>

theorem every_owed_answer_is_queued:
  assumes "cv_Ops r" and "cr_ChannelRefs conv \<noteq> []"
    and "run \<in> set runs" and "run_DeliveryTracked run"
    and "t \<in> set (cr_Threads conv)" and "BoundTo conv (th_Channel t)" and "\<not> DeliveredTo run (th_Channel t)"
    and "th_ThreadID t \<noteq> []" and "\<And>w. servingChannel r (th_Channel t) w = Some ch"
    and "chat_stage r runs ((st, b), conv) = (p', topicPending)"
  shows "queued (snd (fst (fst p'))) (RunReplyOpID (cr_Name conv) (chn_Name ch) (run_RunID run))"
proof -
  obtain st1 where p: "p' = fst (deliverRunReplies r runs ((st1, b), conv))"
    using assms(1,10) by (simp add: chat_stage_def Let_def split: prod.splits) blast
  have "queued (snd (fst (enqueueRunReply r conv run a))) (RunReplyOpID (cr_Name conv) (chn_Name ch) (run_RunID run))" for a
    unfolding enqueueRunReply_def
    by (rule fold_brings [where h = "\<lambda>a. snd (fst a)", OF assms(5)]) (rule reply_to_queues [OF assms(6-9)] reply_to_enqueues)+
  moreover have "run \<in> set (filter run_DeliveryTracked runs)" using assms(3,4) by simp
  ultimately have "queued (snd (fst (fold (enqueueRunReply r conv) (filter run_DeliveryTracked runs) (st1, []))))
      (RunReplyOpID (cr_Name conv) (chn_Name ch) (run_RunID run))"
    by (intro fold_brings [where h = "\<lambda>a. snd (fst a)"]) (auto intro: enqueueRunReply_enqueues)
  moreover have "runs \<noteq> []" using assms(3) by auto
  ultimately show ?thesis unfolding p by (metis fst_reply assms(2) prod.collapse)
qed

definition chat_channel :: Channel where
  "chat_channel = \<lparr>chn_Name = ''ops'', chn_Adapter = ''telegram''\<rparr>"

definition answered_thread :: ThreadBinding where
  "answered_thread = \<lparr>th_Channel = ''ops'', th_ThreadID = ''7'', th_ReadAt = None, th_ReadTracked = False, th_Readers = [],
     th_UndeliveredReply = [], th_Claim = None\<rparr>"

definition a_run :: Run where
  "a_run = \<lparr>run_RunID = ''1'', run_JobKind = [], run_Status = ''succeeded'', run_ExitCode = None, run_Result = ''ok'', run_StartedAt = None,
     run_FinishedAt = None, run_InputIDs = [], run_DeliveryTracked = True, run_Delivered = [], run_RoutedToParent = False, run_Inputs = []\<rparr>"

definition on_channel :: ConversationRecord where
  "on_channel = (idle_conv ''a'')\<lparr>cr_ChannelRefs := [''ops''], cr_Threads := [answered_thread]\<rparr>"

definition serving_reconciler :: "memStore ConversationReconciler" where
  "serving_reconciler = (reconciler_over mem_Store)\<lparr>cv_Ops := True, cv_Client := bare_cluster\<lparr>cl_GetChannel := (\<lambda>w n. Inr chat_channel)\<rparr>\<rparr>"

theorem every_owed_answer_is_queued_witness:
  "queued (snd (fst (fst (fst (chat_stage serving_reconciler [a_run]
     (((mem_of [on_channel], NewQueue None), Breaker_New), on_channel)))))) ''send:a:ops:1''"
proof -
  obtain p' tp where c: "chat_stage serving_reconciler [a_run] (((mem_of [on_channel], NewQueue None), Breaker_New), on_channel) = (p', tp)"
    by fastforce
  have "queued (snd (fst (fst p'))) (RunReplyOpID (cr_Name on_channel) (chn_Name chat_channel) (run_RunID a_run))"
    by (rule every_owed_answer_is_queued [OF _ _ _ _ _ _ _ _ _ c, where t = answered_thread])
      (simp_all add: serving_reconciler_def on_channel_def a_run_def answered_thread_def chat_channel_def servingChannel_def
        BoundTo_def DeliveredTo_def)
  with c show ?thesis by (simp add: RunReplyOpID_def on_channel_def chat_channel_def a_run_def)
qed

section \<open>Closing by idleness\<close>

lemma le_fold_max: "x \<in> set xs \<Longrightarrow> x \<le> fold max xs (a :: int)" "a \<le> fold max xs a"
proof -
  show le: "a \<le> fold max xs a" for xs and a :: int
    by (induction xs arbitrary: a) (auto intro: order_trans [OF max.cobounded2])
  show "x \<in> set xs \<Longrightarrow> x \<le> fold max xs a"
  proof (induction xs arbitrary: a)
    case (Cons y xs)
    then show ?case using le [of "max x a" xs] by auto
  qed simp
qed

text \<open>The instants a conversation was active at: its last activity, its inputs, the ends of its runs.\<close>

definition active_at :: "ConversationRecord \<Rightarrow> Run list \<Rightarrow> go_time set" where
  "active_at conv runs = set_option (cr_LastActivity conv) \<union> in_ReceivedAt ` set (cr_Inputs conv)
     \<union> {t. \<exists>run \<in> set runs. run_FinishedAt run = Some t}"

lemma lastActivity_latest: "t \<in> active_at conv runs \<Longrightarrow> 0 < t \<Longrightarrow> t \<le> lastActivity conv runs"
proof -
  define instants where "instants = (case cr_LastActivity conv of None \<Rightarrow> [] | Some t \<Rightarrow> [t]) @ map in_ReceivedAt (cr_Inputs conv)
    @ List.map_filter run_FinishedAt runs"
  assume "t \<in> active_at conv runs" "0 < t"
  then have "t \<in> set instants"
    by (auto simp: active_at_def instants_def List.map_filter_def image_iff split: option.splits)
  with \<open>0 < t\<close> le_fold_max(1) [of t instants 0] show ?thesis
    by (simp add: lastActivity_def instants_def [symmetric] Let_def IsZero_def)
qed

text \<open>Only what is finished is closed by idleness. Whatever the pass changes by it, the window is on, the conversation
  is idle with nothing pending and no pod, every tracked answer was delivered to every channel, and the window has passed
  since everything that was ever recorded on it: its last activity, its inputs and the ends of its runs.\<close>

theorem only_what_is_finished_is_closed:
  assumes "autoClose n r runs podExists ((st, b), conv) = Some (((st', b'), conv'), d, e)" and "st' \<noteq> st"
  shows "cv_AutoCloseEnabled r \<and> cr_Phase conv = PhaseIdle \<and> \<not> NeedsWorker conv \<and> \<not> podExists
    \<and> (\<forall>ch \<in> set (cr_ChannelRefs conv). \<forall>run \<in> set (filter run_DeliveryTracked runs). DeliveredTo run ch)
    \<and> (\<forall>t \<in> active_at conv runs. 0 < t \<longrightarrow> 0 < cv_AutoCloseIdleAge r \<and> cv_AutoCloseIdleAge r \<le> time_sub (cv_Now r (fst st) 0) t)"
proof -
  have f: "finished conv runs podExists" and on: "cv_AutoCloseEnabled r" "0 < cv_AutoCloseIdleAge r"
    and old: "cv_AutoCloseIdleAge r \<le> time_sub (cv_Now r (fst st) 0) (lastActivity conv runs)"
    using assms by (auto simp: autoClose_def Let_def split: option.splits if_splits)
  have "cv_AutoCloseIdleAge r \<le> time_sub (cv_Now r (fst st) 0) t" if "t \<in> active_at conv runs" "0 < t" for t
    using old lastActivity_latest [OF that] by (auto simp: time_sub_def)
  with f on show ?thesis by (auto simp: finished_def allRunsDelivered_def list_all_iff)
qed

definition closing_reconciler :: "memStore ConversationReconciler" where
  "closing_reconciler = (reconciler_over mem_Store)\<lparr>cv_Router := Some (router_over mem_Store), cv_AutoCloseEnabled := True,
     cv_AutoCloseIdleAge := 5\<rparr>"

definition long_idle :: ConversationRecord where
  "long_idle = (tree_conv ''a'' None)\<lparr>cr_LastActivity := Some 1\<rparr>"

theorem only_what_is_finished_is_closed_witness:
  "\<exists>m q e. autoClose 1 closing_reconciler [] False (((mem_of [long_idle], NewQueue None), Breaker_New), long_idle)
       = Some ((((m, q), Breaker_New), long_idle), 0, e) \<and> m \<noteq> mem_of [long_idle]
     \<and> (5 :: int) \<le> time_sub 7 1"
proof -
  have "\<exists>m q e. autoClose 1 closing_reconciler [] False (((mem_of [long_idle], NewQueue None), Breaker_New), long_idle)
       = Some ((((m, q), Breaker_New), long_idle), 0, e) \<and> m \<noteq> mem_of [long_idle]"
    by (simp add: autoClose_def closing_reconciler_def long_idle_def finished_def NeedsWorker_def PendingInputs_def allRunsDelivered_def
      lastActivity_def IsZero_def time_sub_def max_duration_def min_duration_def AutoCloseConversation_def closeConversation_def
      cascadeCloseMembers_def close_eval tree_eval mem_eval router_over_def numeral_eq_Suc Let_def)
  then obtain m q e where a: "autoClose 1 closing_reconciler [] False (((mem_of [long_idle], NewQueue None), Breaker_New), long_idle)
       = Some ((((m, q), Breaker_New), long_idle), 0, e)" and m: "m \<noteq> mem_of [long_idle]" by blast
  from only_what_is_finished_is_closed [OF a] m a show ?thesis
    by (auto simp: active_at_def long_idle_def closing_reconciler_def)
qed

section \<open>Deletion and draining\<close>

lemma releaseWorkload_quiet: "releaseWorkload r (((w, q), b), conv) = (p', e) \<Longrightarrow> \<exists>w'. p' = (((w', q), b), conv)"
  by (auto simp: releaseWorkload_def delete_pod_def split: prod.splits option.splits)

lemma delete_notice_enqueues: "only_enqueued (snd (fst a)) (snd (fst (delete_notice r conv t a)))"
  by (auto simp: delete_notice_def EnqueueDeleteConversation_def enqueue_enqueues Let_def split: prod.splits option.split)

lemma delete_notice_waits:
  assumes "servingChannel r (th_Channel t) (fst (fst a)) = Some ch" and "chn_Name ch = th_Channel t"
    and "\<not> Settled (snd (fst a)) (DeleteConversationOpID (cr_Name conv) (th_Channel t))"
  shows "snd (delete_notice r conv t a)" "Pending (snd (fst (delete_notice r conv t a))) (DeleteConversationOpID (cr_Name conv) (th_Channel t))"
proof -
  obtain w q o' where a: "a = ((w, q), o')" by (metis surj_pair)
  define i where "i = DeleteConversationOpID (cr_Name conv) (th_Channel t)"
  have "only_enqueued q (EnqueueDeleteConversation (cv_InProcess r) (cv_Now r w 0) ch (th_ThreadID t) conv q)"
    "queued (EnqueueDeleteConversation (cv_InProcess r) (cv_Now r w 0) ch (th_ThreadID t) conv q) i"
    using enqueue_enqueues(2) [of "zero_Op\<lparr>op_ID := i, op_Channel := chn_Name ch, op_Conversation := cr_Name conv,
        op_ConversationID := cr_ConversationID conv, op_Kind := OpDeleteConversation, op_ThreadID := Some (th_ThreadID t),
        op_Message := Some deleted_notice, op_channelType := chn_Adapter ch, op_stable := True\<rparr>" "cv_InProcess r" "cv_Now r w 0" q]
    by (simp_all add: EnqueueDeleteConversation_def enqueue_enqueues(1) assms(2) i_def)
  with assms a have "Pending (EnqueueDeleteConversation (cv_InProcess r) (cv_Now r w 0) ch (th_ThreadID t) conv q) i"
    by (auto simp: queued_def only_enqueued_def Settled_def i_def)
  with assms a show "snd (delete_notice r conv t a)" "Pending (snd (fst (delete_notice r conv t a))) (DeleteConversationOpID (cr_Name conv) (th_Channel t))"
    by (simp_all add: delete_notice_def i_def Let_def)
qed

lemma fold_notices:
  assumes "t \<in> set ts" and "\<And>w. servingChannel r (th_Channel t) w = Some ch" and "chn_Name ch = th_Channel t"
    and "\<not> Settled (snd (fst a)) (DeleteConversationOpID (cr_Name conv) (th_Channel t))"
  shows "snd (fold (delete_notice r conv) ts a) \<and> Pending (snd (fst (fold (delete_notice r conv) ts a))) (DeleteConversationOpID (cr_Name conv) (th_Channel t))"
  using assms(1,4)
proof (induction ts arbitrary: a)
  case (Cons u ts)
  have keep: "snd (fold (delete_notice r conv) ts a)" if "snd a" for a
    using that by (induction ts arbitrary: a) (auto simp: delete_notice_def Let_def split: prod.split option.split)
  show ?case
  proof (cases "u = t")
    case True
    note d = delete_notice_waits [OF assms(2,3) Cons.prems(2)]
    have "only_enqueued (snd (fst (delete_notice r conv t a))) (snd (fst (fold (delete_notice r conv) ts (delete_notice r conv t a))))"
      by (rule fold_enqueues) (rule delete_notice_enqueues)
    with keep [OF d(1)] d(2) True show ?thesis by (simp add: only_enqueued_def)
  next
    case False
    have "\<not> Settled (snd (fst (delete_notice r conv u a))) (DeleteConversationOpID (cr_Name conv) (th_Channel t))"
      using Cons.prems(2) delete_notice_enqueues [of a r conv u] by (simp add: only_enqueued_def Settled_def)
    with Cons False show ?thesis by simp
  qed
qed simp

text \<open>A deleted conversation does not leave before its threads are told, within the grace. While its closing grace
  runs and a thread of it is served by an adapter that has not taken the notice, the notice waits in the queue, the
  finalizer stays on the record and the pass comes back in ten seconds, unless its pod could not be released.\<close>

theorem deletion_waits_for_its_notices:
  assumes "finalizeClose r requested (((w, q), b), conv) = (p', d, e)"
    and "cv_Ops r" and "FinalizerCloseTopics \<in> set (cr_Finalizers conv)"
    and "t \<in> set (cr_Threads conv)" and "\<And>w. servingChannel r (th_Channel t) w = Some ch" and "chn_Name ch = th_Channel t"
    and "\<not> Settled q (DeleteConversationOpID (cr_Name conv) (th_Channel t))"
    and "\<And>w. time_sub (cv_Now r w 0) requested < closeGrace r"
  shows "snd p' = conv \<and> (e \<noteq> None \<or> d = 10 * second
    \<and> Pending (snd (fst (fst p'))) (DeleteConversationOpID (cr_Name conv) (th_Channel t)))"
proof -
  obtain p1 er where w: "releaseWorkload r (((w, q), b), conv) = (p1, er)" by fastforce
  from releaseWorkload_quiet [OF w] obtain w1 where p1: "p1 = (((w1, q), b), conv)" by blast
  show ?thesis
  proof (cases er)
    case None
    obtain w2 q2 o2 where n: "enqueueDeleteConversations r conv (w1, q) = ((w2, q2), o2)" by (metis surj_pair)
    have "o2 \<and> Pending q2 (DeleteConversationOpID (cr_Name conv) (th_Channel t))"
      using fold_notices [OF assms(4-6), of "((w1, q), False)" conv] assms(7) n by (simp add: enqueueDeleteConversations_def)
    with assms w p1 None n show ?thesis by (auto simp: finalizeClose_def)
  qed (use assms(1,3) w p1 in \<open>auto simp: finalizeClose_def\<close>)
qed

theorem deletion_waits_for_its_notices_witness:
  "\<exists>p'. finalizeClose serving_reconciler 5 (((mem_of [on_channel], NewQueue None), Breaker_New), on_channel) = (p', 10 * second, None)
     \<and> Pending (snd (fst (fst p'))) ''gone:a:ops'' \<and> snd p' = on_channel"
proof -
  obtain p' d e where f: "finalizeClose serving_reconciler 5 (((mem_of [on_channel], NewQueue None), Breaker_New), on_channel) = (p', d, e)"
    by (metis surj_pair)
  have "e = None"
    using f by (auto simp: finalizeClose_def releaseWorkload_def delete_pod_def serving_reconciler_def IgnoreNotFound_def on_channel_def
      idle_conv_def enqueueDeleteConversations_def delete_notice_def answered_thread_def servingChannel_def chat_channel_def
      EnqueueDeleteConversation_def enqueue_def suppressed_def insert_op_def q_emit_def Pending_def NewQueue_def zero_Op_def Let_def
      closeGrace_def DefaultCloseTopicGrace_def minute_def time_sub_def max_duration_def min_duration_def DeleteConversationOpID_def
      split: if_splits)
  moreover have "snd p' = on_channel \<and> (e \<noteq> None \<or> d = 10 * second
      \<and> Pending (snd (fst (fst p'))) (DeleteConversationOpID (cr_Name on_channel) (th_Channel answered_thread)))"
    by (rule deletion_waits_for_its_notices [OF f, where ch = chat_channel])
      (simp_all add: serving_reconciler_def on_channel_def idle_conv_def answered_thread_def chat_channel_def servingChannel_def
        closeGrace_def DefaultCloseTopicGrace_def minute_def time_sub_def max_duration_def min_duration_def Settled_def NewQueue_def)
  ultimately show ?thesis using f by (simp add: DeleteConversationOpID_def on_channel_def answered_thread_def)
qed

text \<open>A drain takes no work. A pass changes nothing on account of a pod's node unless the manager watches drains, the
  conversation needs no worker, and the node is cordoned or carries a taint that keeps pods off and is not one of the
  conditions kubelet reports by itself.\<close>

theorem a_drain_takes_no_work:
  assumes "releaseIfNodeDraining r pod p = (p', released, e)" and "p' \<noteq> p \<or> released"
  shows "cv_DrainAware r \<and> \<not> NeedsWorker (snd p)
    \<and> (\<exists>node. cl_GetNode (cv_Client r) (world p) (ps_NodeName (kp_Spec pod)) = Inr node
         \<and> (nd_Unschedulable node \<or> (\<exists>t \<in> set (nd_Taints node). tn_Effect t \<in> {''NoSchedule'', ''NoExecute''} \<and> tn_Key t \<notin> set conditionTaints)))"
proof -
  from assms obtain node where n: "cv_DrainAware r" "\<not> NeedsWorker (snd p)"
    "cl_GetNode (cv_Client r) (world p) (ps_NodeName (kp_Spec pod)) = Inr node" "nodeUnschedulable node"
    by (auto simp: releaseIfNodeDraining_def split: if_splits sum.splits)
  then show ?thesis unfolding nodeUnschedulable_def list_ex_iff by blast
qed

definition draining_reconciler :: "memStore ConversationReconciler" where
  "draining_reconciler = (reconciler_over mem_Store)\<lparr>cv_DrainAware := True, cv_Client := bare_cluster\<lparr>
     cl_DeletePod := (\<lambda>w n g. (w, None)), cl_GetNode := (\<lambda>w n. Inr \<lparr>nd_Name = n, nd_Unschedulable = True, nd_Taints = []\<rparr>)\<rparr>\<rparr>"

definition placed_pod :: Pod where
  "placed_pod = (pod_of ''a'')\<lparr>kp_Spec := (kp_Spec (pod_of ''a''))\<lparr>ps_NodeName := ''n1''\<rparr>\<rparr>"

theorem a_drain_takes_no_work_witness:
  "fst (snd (releaseIfNodeDraining draining_reconciler placed_pod (((mem_of [idle_conv ''a''], NewQueue None), Breaker_New), idle_conv ''a'')))
   \<and> \<not> NeedsWorker (idle_conv ''a'')"
proof -
  obtain p' released e where r: "releaseIfNodeDraining draining_reconciler placed_pod
      (((mem_of [idle_conv ''a''], NewQueue None), Breaker_New), idle_conv ''a'') = (p', released, e)" by (metis surj_pair)
  then have "released"
    by (auto simp: releaseIfNodeDraining_def draining_reconciler_def placed_pod_def nodeUnschedulable_def delete_pod_def Let_def
      split: prod.splits if_splits)
  with a_drain_takes_no_work [OF r] r show ?thesis by simp
qed

section \<open>What a pass undoes\<close>

definition ending :: ConversationRecord where
  "ending = (idle_conv ''a'')\<lparr>cr_Phase := PhaseWorking\<rparr>"

definition other_closes :: "memStore \<Rightarrow> memStore" where
  "other_closes m = fst (Patch mem_Store ending (close_with_reason 6 ''done'') m)"

lemma interleaved_fields [simp]:
  "st_Get (interleaved s) w k = lift_op (\<lambda>w. st_Get s w k) w" "st_Update (interleaved s) w k v c = lift_op (\<lambda>w. st_Update s w k v c) w"
  "st_GetWithRuns (interleaved s) w k = lift_op (\<lambda>w. st_GetWithRuns s w k) w"
  by (simp_all add: interleaved_def)

lemma other_closes_eval:
  "other_closes (mem_of [ending]) = (mem_of [ending])\<lparr>mem_seq := 2, mem_records := [(''a'', close_with_reason 6 ''done'' ending, 2)]\<rparr>"
  by (simp add: other_closes_def ending_def idle_conv_def close_with_reason_def boundedString_def MaxCloseReason_def Patch_def
    Mutate_def MutateMaxAttempts_def numeral_eq_Suc mem_eval tree_eval)

lemma ending_fields [simp]: "cr_Name ending = ''a''" "cr_Phase ending = PhaseWorking" "cr_DeletionRequestedAt ending = None"
  "cr_Finalizers ending = [FinalizerCloseTopics]" "cr_ExpiresAt ending = None" "cr_ProcessedInputIDs ending = []"
  "PendingInputs ending = []" "\<not> NeedsWorker ending" "cr_Inflight ending = None" "cr_Budget ending = None"
  by (simp_all add: ending_def record_eval tree_eval)

text \<open>A pass that was running undoes a close. When a conversation is closed by another writer between a pass's read of
  it and its last step, the pass writes the phase it had computed over the close: the record ends Idle, with its closing
  instant still on it, and every later pass takes it for an open conversation. The work report guards its own phase write
  against exactly this.\<close>

theorem a_running_pass_undoes_a_close:
  "\<exists>m es q' b' c. cv_Reconcile n (reconciler_over (interleaved mem_Store)) lower ''a'' (((mem_of [ending], [id, other_closes]), q), b)
       = Some ((((m, es), q'), b'), 0, None)
     \<and> map_option cr_Phase (mem_cur (other_closes (mem_of [ending])) ''a'') = Some PhaseClosed
     \<and> mem_cur m ''a'' = Some c \<and> cr_Phase c = PhaseIdle \<and> cr_ClosedAt c = Some 6"
proof -
  define closed where "closed = close_with_reason 6 ''done'' ending"
  define m where "m = (mem_of [ending])\<lparr>mem_seq := 3, mem_records := [(''a'', closed\<lparr>cr_Phase := PhaseIdle\<rparr>, 3)]\<rparr>"
  have c: "cr_ExpiresAt closed = None" "cr_Phase closed = PhaseClosed" "cr_DeletionRequestedAt closed = None" "cr_ClosedAt closed = Some 6"
    by (simp_all add: closed_def close_with_reason_def)
  have got: "mem_GetWithRuns (mem_of [ending]) ''a'' = (mem_of [ending], Inr (ending, revisionOf 1, runs_of (mem_of [ending]) ''a''))"
    by (simp add: mem_GetWithRuns_def mem_of_Get)
  have get: "mem_Get (other_closes (mem_of [ending])) ''a'' = (other_closes (mem_of [ending]), Inr (closed, revisionOf 2))"
    by (simp add: other_closes_eval closed_def [symmetric] mem_Get_def sweepExpiredLocked_def expired_def c Let_def)
  have put: "mem_Update (other_closes (mem_of [ending])) ''a'' (revisionOf 2) (closed\<lparr>cr_Phase := PhaseIdle\<rparr>) = (m, Inr (revisionOf 3))"
    by (simp add: other_closes_eval closed_def [symmetric] mem_Update_def sweepExpiredLocked_def expired_def c Let_def m_def
      mem_put_def mintLocked_def)
  have ph: "closed\<lparr>cr_Phase := PhaseIdle\<rparr> \<noteq> closed" by (auto dest: arg_cong [where f = cr_Phase] simp: c)
  have "setPhase (reconciler_over (interleaved mem_Store)) PhaseIdle ((((mem_of [ending], [other_closes]), q), b), ending)
      = (((((m, []), q), b), closed\<lparr>cr_Phase := PhaseIdle\<rparr>), None)"
    using get put ph by (simp add: setPhase_def patch_def Patch_def Mutate_def MutateMaxAttempts_def numeral_eq_Suc lift_op_def)
  then have "reconcileOpen n (reconciler_over (interleaved mem_Store)) lower rs 0 ((((mem_of [ending], [other_closes]), q), b), ending)
      = Some (((((m, []), q), b), closed\<lparr>cr_Phase := PhaseIdle\<rparr>), 0, None)" for rs
    by (simp add: reconcileOpen_def pruneProcessed_def reconcile_stages_def reconcile_pod_def then_do_def backoff_gate_def
      storage_gate_def capacity_gate_def chat_stage_def member_stage_def provision_stage_def next_phase_def check_def autoClose_def
      capRequeue_def Let_def)
  then have "cv_Reconcile n (reconciler_over (interleaved mem_Store)) lower ''a'' (((mem_of [ending], [id, other_closes]), q), b)
      = Some ((((m, []), q), b), 0, None)"
    using got by (simp add: cv_Reconcile_def lift_op_def reconcile_live_def deadline_of_def Let_def)
  moreover have "mem_cur m ''a'' = Some (closed\<lparr>cr_Phase := PhaseIdle\<rparr>)" "mem_cur (other_closes (mem_of [ending])) ''a'' = Some closed"
    by (simp_all add: m_def mem_cur_def other_closes_eval closed_def [symmetric])
  ultimately show ?thesis using c by auto
qed

lemma no_open_member: "list_all (\<lambda>m. cr_Phase m = PhaseClosed) ms \<Longrightarrow> close_members close parent ms st = Some (st, None)"
  by (induction ms) auto

text \<open>Past its deadline a conversation is left alone for good. Once the escalation of a conversation nobody caused is
  recorded and its members are closed, every later pass ends at the deadline: it posts nothing, so the digest the
  escalation stored for its threads is not delivered (that is done further down the pass), it delivers no answer, reaps no
  pod, leaves the conversation open, and asks for no other pass.\<close>

theorem past_its_deadline_nothing_moves:
  assumes "deadline_of r conv = Some (router, t)" and "t \<le> cv_Now r w 0"
    and "cr_Phase conv \<noteq> PhaseClosed" and "cr_CausedBy conv = None" and "cr_EscalatedAt conv \<noteq> None"
    and "st_List (ro_Store router) w ByCausedBy (no_key\<lparr>lk_CausedBy := cr_Name conv\<rparr>) = (w', Inr ms)"
    and "list_all (\<lambda>m. cr_Phase m = PhaseClosed) ms"
  shows "reconcile_live n r lower runs (((w, q), b), conv) = Some ((((w', q), b), conv), 0, None)"
  using assms by (simp add: reconcile_live_def CloseBudgetExceeded_def cascadeCloseMembers_def cascade_def no_open_member
      and_then_def Escalate_def)

definition overdue :: ConversationRecord where
  "overdue = on_channel\<lparr>cr_Budget := Some \<lparr>bd_MaxAgents = 9, bd_MaxTurns = 9, bd_Deadline = Some 5, bd_AgentsInvoked = 0, bd_Turns = 1\<rparr>,
     cr_EscalatedAt := Some 6, cr_EscalationMessage := past_deadline_digest 5, cr_Inputs := [new_task]\<rparr>"

definition routed_reconciler :: "memStore ConversationReconciler" where
  "routed_reconciler = serving_reconciler\<lparr>cv_Router := Some (router_over mem_Store)\<rparr>"

theorem past_its_deadline_nothing_moves_witness:
  "reconcile_live 1 routed_reconciler id [a_run] (((mem_of [overdue], NewQueue None), Breaker_New), overdue)
     = Some ((((mem_of [overdue], NewQueue None), Breaker_New), overdue), 0, None)
   \<and> NeedsWorker overdue \<and> deliverEscalation routed_reconciler overdue (mem_of [overdue], NewQueue None) \<noteq> (mem_of [overdue], NewQueue None)"
proof -
  have k: "cr_ExpiresAt overdue = None" "cr_CausedBy overdue = None" "cr_Phase overdue = PhaseIdle" "cr_Name overdue = ''a''"
    "NeedsWorker overdue"
    by (simp_all add: overdue_def on_channel_def record_eval tree_eval)
  have none: "st_List (ro_Store (router_over mem_Store)) (mem_of [overdue]) ByCausedBy (no_key\<lparr>lk_CausedBy := cr_Name overdue\<rparr>) = (mem_of [overdue], Inr [])"
    using k by (simp add: mem_List_def sweepExpiredLocked_def expired_def mem_of_def newMemStore_def Let_def)
  have "deliverEscalation routed_reconciler overdue (mem_of [overdue], NewQueue None)
      = (mem_of [overdue], EnqueueEscalationMessage (\<lambda>t. False) 7 chat_channel overdue (Some ''7'') (Notice (past_deadline_digest 5)) (NewQueue None))"
    by (simp add: deliverEscalation_def cv_eachBoundThread_def bound_thread_def ThreadFor_def overdue_def on_channel_def
      answered_thread_def routed_reconciler_def serving_reconciler_def)
  moreover have "Pending (EnqueueEscalationMessage (\<lambda>t. False) 7 chat_channel overdue (Some ''7'') m (NewQueue None))
      (reopen_keyed ''escalate'' overdue ''ops'')" for m
    by (simp add: EnqueueKeyed_def enqueueMessage_def enqueue_def suppressed_def insert_op_def q_emit_def Pending_def NewQueue_def
      zero_Op_def chat_channel_def Let_def)
  moreover have "\<not> Pending (NewQueue None) i" for i by (simp add: Pending_def NewQueue_def)
  ultimately have "deliverEscalation routed_reconciler overdue (mem_of [overdue], NewQueue None) \<noteq> (mem_of [overdue], NewQueue None)"
    by (metis prod.inject)
  moreover have "reconcile_live 1 routed_reconciler id [a_run] (((mem_of [overdue], NewQueue None), Breaker_New), overdue)
      = Some ((((mem_of [overdue], NewQueue None), Breaker_New), overdue), 0, None)"
    by (rule past_its_deadline_nothing_moves [where router = "router_over mem_Store" and t = 5, OF _ _ _ _ _ none])
      (simp_all add: k deadline_of_def, simp_all add: overdue_def routed_reconciler_def serving_reconciler_def)
  ultimately show ?thesis using k(5) by blast
qed

lemma set_reason: "co_Type c = t \<Longrightarrow> \<exists>e. FindCondition (fst (SetCondition now c r)) t = Some e \<and> co_Reason e = co_Reason c"
  by (auto simp: FindCondition_SetCondition_same merge_condition_def Let_def split: option.splits)

lemma SetCondition_identity [simp]: "same_identity r (fst (SetCondition now c r))"
  by (simp add: same_identity_def SetCondition_def Let_def split: option.split)

context quiet_store begin

lemma Patch_stored:
  assumes "Patch s conv f w = (w', conv', None)" and "ok w" and "\<And>r. same_identity r (f r)"
  shows "ok w' \<and> (\<exists>old. cur w (cr_Name conv) = Some old \<and> conv' = f old \<and> cr_Name conv' = cr_Name conv
    \<and> (\<forall>r. cur w' (cr_Name conv) = Some r \<longrightarrow> r = conv'))"
proof -
  obtain w1 u x where m: "Mutate s (cr_Name conv) (\<lambda>u r. (u, Inr (f r))) () w = (w1, u, x)" by (metis prod_cases3)
  with assms(1) have x: "x = Inr conv'" "w1 = w'" by (auto simp: Patch_def split: sum.splits)
  from Mutate_quiet [OF m assms(2,3)] x obtain old where o: "ok w'" "cur w (cr_Name conv) = Some old" "conv' = f old"
    "cur w' = (cur w)(cr_Name conv \<mapsto> conv') \<or> cur w' = (cur w)(cr_Name conv := None)" by auto
  then have "cr_Name conv' = cr_Name conv" using assms(3) [of old] named [OF assms(2) o(2)] by (simp add: same_identity_def)
  with o show ?thesis by auto
qed

lemma enterPendingFor_reason:
  assumes "cv_Store r = s" and "ok (world p)" and "enterPendingFor r reason m p = (p', None)"
  shows "\<exists>e. FindCondition (snd p') ConditionRuntimeStarted = Some e \<and> co_Reason e = reason"
proof -
  obtain w q b conv where p: "p = (((w, q), b), conv)" by (metis surj_pair)
  define f where "f = (\<lambda>c. fst (SetCondition (cv_Now r (world p) 0) (cond ConditionRuntimeStarted ''False'' reason m) c))"
  from assms(1,3) p obtain w1 conv1 where p1: "Patch s conv f w = (w1, conv1, None)" and e: "enterPending r (((w1, q), b), conv1) = (p', None)"
    by (auto simp: enterPendingFor_def patch_def f_def split: prod.splits option.splits)
  from Patch_stored [OF p1] assms(2) p have 1: "ok w1" "\<exists>old. conv1 = f old" "\<And>r. cur w1 (cr_Name conv1) = Some r \<Longrightarrow> r = conv1"
    by (auto simp: f_def)
  then have c1: "\<exists>e. FindCondition conv1 ConditionRuntimeStarted = Some e \<and> co_Reason e = reason"
    using set_reason [of "cond ConditionRuntimeStarted ''False'' reason m" ConditionRuntimeStarted] by (auto simp: f_def cond_def)
  show ?thesis
  proof (cases "cr_Phase conv1 = PhasePending")
    case True
    with e c1 show ?thesis by (auto simp: enterPending_def)
  next
    case False
    with e assms(1) obtain w2 where p2: "Patch s conv1 (\<lambda>c. c\<lparr>cr_Phase := PhasePending\<rparr>) w1 = (w2, snd p', None)"
      by (auto simp: enterPending_def setPhase_def patch_def on_chat_def split: prod.splits option.splits)
    from Patch_stored [OF p2 1(1)] 1(3) have "snd p' = conv1\<lparr>cr_Phase := PhasePending\<rparr>" by (auto simp: same_identity_def)
    with c1 show ?thesis by (simp add: FindCondition_def)
  qed
qed

end

text \<open>Work held by the storage breaker forgets that its context was lost. A pass that holds a conversation because
  storage is unreachable records that reason over the one of its own failed starts, so a conversation whose volume failed
  often enough to be started without it no longer counts as such when it is released, and mounts the volume again. Over
  a store nobody else writes.\<close>

theorem held_work_forgets_its_evidence:
  assumes "quiet_store s cur ok" and "cv_Store r = s" and "ok (world p)" and "storage_gate r True p = (p', Return d None)"
  shows "\<not> contextLost (snd p')"
proof -
  from assms(4) obtain m p1 where p1: "world p1 = world p" "enterPendingFor r ReasonStorageUnavailable m p1 = (p', None)"
    by (auto simp: storage_gate_def split: prod.splits bool.splits if_splits)
  then have "\<exists>e. FindCondition (snd p') ConditionRuntimeStarted = Some e \<and> co_Reason e = ReasonStorageUnavailable"
    by (intro quiet_store.enterPendingFor_reason [OF assms(1,2) _ p1(2)]) (simp add: assms(3))
  then show ?thesis by (auto simp: contextLost_def)
qed

definition lossy :: ConversationRecord where
  "lossy = (tasked ''a'')\<lparr>cr_Phase := PhasePending, cr_RuntimeStartFailures := 5,
     cr_Conditions := [cond ConditionRuntimeStarted ''False'' ReasonVolumeUnavailable []]\<rparr>"

definition open_breaker :: Breaker where
  "open_breaker = \<lparr>br_reports = [], br_open = True, br_since = 5, br_lastProbe = 6\<rparr>"

definition guarded_reconciler :: "memStore ConversationReconciler" where
  "guarded_reconciler = (reconciler_over mem_Store)\<lparr>cv_StorageBreaker := True\<rparr>"

theorem held_work_forgets_its_evidence_witness:
  "\<exists>p' d. storage_gate guarded_reconciler True (((mem_of [lossy], NewQueue None), open_breaker), lossy) = (p', Return d None)
     \<and> contextLost lossy \<and> \<not> contextLost (snd p')"
proof -
  have k: "cr_ExpiresAt lossy = None" "cr_DeletionRequestedAt lossy = None" "cr_Name lossy = ''a''" "contextLost lossy"
    by (simp_all add: lossy_def contextLost_def degradedStartAfter_def FindCondition_def cond_def)
  define f where "f = (\<lambda>c. fst (SetCondition 7 (cond ConditionRuntimeStarted ''False'' ReasonStorageUnavailable
    (''context storage has been unreachable across this install since '' @ time_RFC3339 5 @ ''; work is held, not failed'')) c))"
  obtain m where m: "Patch mem_Store lossy f (mem_of [lossy]) = (m, f lossy, None)"
    using mem_of_patch [of "[lossy]" lossy lossy f] k by auto
  have "cr_Phase (f lossy) = PhasePending" by (simp add: f_def SetCondition_def Let_def lossy_def split: option.split)
  with m have g: "storage_gate guarded_reconciler True (((mem_of [lossy], NewQueue None), open_breaker), lossy)
      = ((((m, NewQueue None), open_breaker), f lossy), Return (30 * second) None)"
    by (simp add: storage_gate_def guarded_reconciler_def open_breaker_def Breaker_Open_def ProbeDue_def IsZero_def time_sub_def
      max_duration_def min_duration_def ProbeInterval_def minute_def enterPendingFor_def enterPending_def patch_def f_def)
  have "mem_ok (mem_of [lossy])" using k by (simp add: mem_ok_def mem_of_def newMemStore_def expired_def)
  from held_work_forgets_its_evidence [OF mem.quiet_store_axioms _ _ g] this g k(4) show ?thesis
    by (auto simp: guarded_reconciler_def)
qed

end
