(* ===== verification/PodPool.thy ===== *)
theory PodPool
  imports Lifecycle CascadeLaws
begin

text \<open>
  The pool of pods under the reconciler's passes. \<open>store_frame\<close> is a store whose operations leave something of the world
  alone; \<open>pod_pool\<close> a cluster whose pods only the reconciler's own calls change, in which a deletion takes effect at once.
  The reference cluster keeps its pods beside the in-memory store; with \<open>graceful\<close> a pod deleted without a grace period of
  its own stays listed, as a real cluster lists a pod until its processes have ended.
\<close>

section \<open>What only the queue of operations is given\<close>

text \<open>A loop keeps what each of its rounds keeps.\<close>

lemma fold_frame: "(\<And>x a. g (f x a) = g a) \<Longrightarrow> g (fold f xs a) = g a"
  by (induction xs arbitrary: a) simp_all

lemma on_chat_world: "fst (f (fst (fst p))) = world p \<Longrightarrow> world (on_chat f p) = world p"
  by (auto simp: on_chat_def split: prod.splits)

lemma fst_notifyQueued [simp]: "fst (notifyQueued r conv st) = fst st"
  by (auto simp: notifyQueued_def split: list.split prod.splits option.split)

lemma fst_deliver_to [simp]: "fst (deliver_to r conv i su e m ref st) = fst st"
  by (auto simp: deliver_to_def split: prod.splits option.split sum.split)

lemma fst_FanOutReopenNotice [simp]: "fst (FanOutReopenNotice rt conv st) = fst st"
  by (simp add: FanOutReopenNotice_def split: prod.split)

lemma fst_deliverEscalation [simp]: "fst (deliverEscalation r conv st) = fst st"
proof -
  have "fst (fold (bound_thread r conv [] (\<lambda>ch tid (w, q). (w, f w ch tid q))) refs st) = fst st" for f refs and st :: "'a chat"
  proof (induction refs arbitrary: st)
    case (Cons ref refs)
    have "fst (bound_thread r conv [] (\<lambda>ch tid (w, q). (w, f w ch tid q)) ref st) = fst st"
      by (auto simp: bound_thread_def split: option.split sum.split prod.splits)
    with Cons.IH show ?case by simp
  qed simp
  then show ?thesis by (simp add: deliverEscalation_def cv_eachBoundThread_def)
qed

lemma archive_fold_frame [simp]: "fst (fold (archive_thread r conv) ts st) = fst st"
  by (rule fold_frame) (auto simp: archive_thread_def split: prod.splits option.splits)

lemma enqueueDeleteConversations_frame: "enqueueDeleteConversations r conv st = (st', o') \<Longrightarrow> fst st' = fst st"
proof -
  have "fst (fst (delete_notice r conv t a)) = fst (fst a)" for t and a :: "'a chat \<times> bool"
    by (auto simp: delete_notice_def Let_def split: prod.splits option.splits)
  from fold_frame [of "\<lambda>a. fst (fst a)" "delete_notice r conv", OF this]
  show "enqueueDeleteConversations r conv st = (st', o') \<Longrightarrow> fst st' = fst st"
    by (metis enqueueDeleteConversations_def fst_conv)
qed

section \<open>What a store leaves alone\<close>

named_theorems framed

locale store_frame =
  fixes s :: "'w Store" and obs :: "'w \<Rightarrow> 'o"
  assumes Get [framed]: "st_Get s w k = (w', x1) \<Longrightarrow> obs w' = obs w"
    and Update [framed]: "st_Update s w k v c = (w', x2) \<Longrightarrow> obs w' = obs w"
    and Delete [framed]: "st_Delete s w k = (w', x3) \<Longrightarrow> obs w' = obs w"
    and List [framed]: "st_List s w i l = (w', x4) \<Longrightarrow> obs w' = obs w"
    and UpdateRun [framed]: "st_UpdateRun s w k j u = (w', x5) \<Longrightarrow> obs w' = obs w"
    and ListRuns [framed]: "st_ListRuns s w k = (w', x6) \<Longrightarrow> obs w' = obs w"
    and GetWithRuns [framed]: "st_GetWithRuns s w k = (w', x7) \<Longrightarrow> obs w' = obs w"
    and GetBlob [framed]: "st_GetBlob s w k = (w', x8) \<Longrightarrow> obs w' = obs w"
    and DeleteBlob [framed]: "st_DeleteBlob s w k = (w', x9) \<Longrightarrow> obs w' = obs w"
begin

lemma Mutate_loop_frame: "Mutate_loop s k fn n le c w = (w', c', x) \<Longrightarrow> obs w' = obs w"
proof (induction n arbitrary: le c w)
  case (Suc n)
  then show ?case by (auto split: prod.splits sum.splits if_splits dest!: framed)
qed simp

lemma Mutate_frame [framed]: "Mutate s k fn c w = (w', y) \<Longrightarrow> obs w' = obs w"
  by (cases y) (auto simp: Mutate_def intro: Mutate_loop_frame)

lemma Patch_frame [framed]: "Patch s rec fn w = (w', y) \<Longrightarrow> obs w' = obs w"
  by (auto simp: Patch_def split: prod.splits sum.splits dest!: framed)

lemma clearUndeliveredNote_frame [framed]: "clearUndeliveredNote s k ch i w = (w', y) \<Longrightarrow> obs w' = obs w"
  by (auto simp: clearUndeliveredNote_def split: prod.splits sum.splits dest!: framed)

lemma SettleDeliveredNote_frame [simp]: "obs (SettleDeliveredNote s conv ch i w) = obs w"
  using clearUndeliveredNote_frame by (auto simp: SettleDeliveredNote_def split: option.split) (metis surjective_pairing)

lemma acting_walk_frame [framed]: "acting_walk s name n c w = (w', y) \<Longrightarrow> obs w' = obs w"
proof (induction n arbitrary: c w)
  case (Suc n)
  then show ?case by (auto split: option.splits prod.splits sum.splits dest!: framed)
qed simp

lemma ResolveFor_frame [framed]: "ResolveFor rd rt s conv cfg w = (w', y) \<Longrightarrow> obs w' = obs w"
  by (auto simp: ResolveFor_def resolveActingCoordinatorBestEffort_def pod_ActingCoordinator_def Let_def
      split: option.splits prod.splits sum.splits if_splits dest!: framed)

lemma delete_blobs_frame [framed]: "delete_blobs s is w = (w', y) \<Longrightarrow> obs w' = obs w"
  by (induction "is" arbitrary: w) (auto split: prod.splits sum.splits if_splits dest!: framed)

end

section \<open>Closing\<close>

locale routed_frame = store_frame s obs for s :: "'w Store" and obs :: "'w \<Rightarrow> 'o" +
  fixes rt :: "'w Router"
  assumes routed [simp]: "ro_Store rt = s"
begin

lemma appendInputIdempotent_frame [framed]: "appendInputIdempotent rt n item st = (st', y) \<Longrightarrow> obs (fst st') = obs (fst st)"
  by (auto simp: appendInputIdempotent_def split: prod.splits sum.splits dest!: framed)

lemma AppendMemberResult_frame [framed]: "AppendMemberResult rt c n i x st = (st', y) \<Longrightarrow> obs (fst st') = obs (fst st)"
  by (auto simp: AppendMemberResult_def split: option.splits if_splits dest!: framed)

lemma closeConversationReason_frame [framed]:
  assumes "closeConversationReason rt conv x st = (st', y)" shows "obs (fst st') = obs (fst st)"
proof -
  obtain w q where f: "farewell_to rt conv (reason_farewell x) st = (w, q)" by fastforce
  moreover have "fst st = w" using fst_farewell [of rt conv "reason_farewell x" st] f by simp
  ultimately show ?thesis using assms
    by (auto simp: closeConversationReason_def split: prod.splits if_splits dest!: framed)
qed

lemma close_members_frame:
  assumes "\<And>m st st' e. close m st = Some (st', e) \<Longrightarrow> obs (fst st') = obs (fst st)"
  shows "close_members close p ms st = Some (st', e) \<Longrightarrow> obs (fst st') = obs (fst st)"
proof (induction ms arbitrary: st)
  case (Cons m ms)
  show ?case
  proof (cases "cr_Phase m = PhaseClosed \<or> \<not> caused_by p m")
    case True
    with Cons.prems have "close_members close p ms st = Some (st', e)" by (auto split: if_splits)
    then show ?thesis by (rule Cons.IH)
  next
    case False
    with Cons.prems have "and_then (close m st) (close_members close p ms) = Some (st', e)" by simp
    then show ?thesis using assms Cons.IH by (elim and_thenE) metis+
  qed
qed simp

lemma cascade_frame:
  assumes "cascade rt close p st = Some (st', e)"
    and "\<And>m st st' e. close m st = Some (st', e) \<Longrightarrow> obs (fst st') = obs (fst st)"
  shows "obs (fst st') = obs (fst st)"
proof -
  obtain w q where st: "st = (w, q)" by fastforce
  obtain w1 x where l: "st_List s w ByCausedBy (no_key\<lparr>lk_CausedBy := p\<rparr>) = (w1, x)" by fastforce
  note f = List [OF l]
  show ?thesis
  proof (cases x)
    case (Inl a)
    with assms(1) st l f show ?thesis by (auto simp: cascade_def)
  next
    case (Inr ms)
    with assms(1) st l have "close_members close p ms (w1, q) = Some (st', e)" by (simp add: cascade_def)
    from close_members_frame [OF assms(2) this] f st show ?thesis by simp
  qed
qed

lemma closeWithCascade_frame [framed]:
  "closeWithCascade n rt x conv st = Some (st', e) \<Longrightarrow> obs (fst st') = obs (fst st)"
proof (induction n arbitrary: conv st st' e)
  case (Suc n)
  have c: "obs (fst b) = obs (fst a)" if "cascade rt (closeWithCascade n rt x) (cr_Name conv) a = Some (b, e')" for a b e'
    using cascade_frame [OF that Suc.IH] .
  from Suc.prems show ?case
    by (auto simp: and_then_Some dest!: c closeConversationReason_frame)
qed simp

lemma cascadeCloseMembers_frame [framed]:
  "cascadeCloseMembers n rt p x st = Some (st', e) \<Longrightarrow> obs (fst st') = obs (fst st)"
  unfolding cascadeCloseMembers_def using cascade_frame closeWithCascade_frame by blast

lemma closeConversation_frame [framed]:
  assumes "closeConversation n rt conv f st = Some (st', e)" shows "obs (fst st') = obs (fst st)"
proof (cases "cr_Phase conv = PhaseClosed")
  case True
  with assms cascadeCloseMembers_frame show ?thesis by (simp add: closeConversation_def)
next
  case False
  obtain w q where fw: "farewell_to rt conv f st = (w, q)" by fastforce
  have w: "fst st = w" using fst_farewell [of rt conv f st] fw by simp
  with False assms fw show ?thesis
    by (auto simp: closeConversation_def and_then_Some split: prod.splits dest!: framed)
qed

lemma Escalate_frame [framed]: "Escalate n rt conv m st = Some (st', e) \<Longrightarrow> obs (fst st') = obs (fst st)"
  by (auto simp: Escalate_def and_then_Some split: option.splits if_splits prod.splits dest!: framed)

lemma CloseBudgetExceeded_frame [framed]:
  "CloseBudgetExceeded n rt conv m st = Some (st', e) \<Longrightarrow> obs (fst st') = obs (fst st)"
  by (auto simp: CloseBudgetExceeded_def and_then_Some dest!: framed)

end

section \<open>The pool\<close>

definition live_count :: "Pod list \<Rightarrow> nat" where
  "live_count ps = length (filter live_pod ps)"

text \<open>A cluster that shows its pods as they are, where only creations and deletions of pods change them.\<close>

locale pod_frame = store_frame s pods for s :: "'w Store" and pods :: "'w \<Rightarrow> Pod list" +
  fixes r :: "'w ConversationReconciler"
  assumes stored [simp]: "cv_Store r = s"
    and routers: "cv_Router r = Some rt \<Longrightarrow> ro_Store rt = s"
    and listed [simp]: "cl_ListPods (cv_Client r) w = Inr (pods w)"
    and configured [framed]: "cl_PutConfigMap (cv_Client r) w m d o' = (w', y4) \<Longrightarrow> pods w' = pods w"
    and unconfigured [framed]: "cl_DeleteConfigMap (cv_Client r) w m = (w', y5) \<Longrightarrow> pods w' = pods w"
    and reported [simp]: "pods (cl_Event (cv_Client r) w a k x m) = pods w"
begin

abbreviation live :: "'w \<Rightarrow> nat" where "live w \<equiv> live_count (pods w)"

lemma patch_frame [framed]: "patch r fn p = (p', y) \<Longrightarrow> pods (world p') = pods (world p)"
  by (auto simp: patch_def split: prod.splits dest!: framed)

lemma setPhase_frame [framed]: "setPhase r ph p = (p', y) \<Longrightarrow> pods (world p') = pods (world p)"
  by (auto simp: setPhase_def split: if_splits dest!: framed)

lemma eviction_candidates_frame [framed]: "eviction_candidates r ps w = (w', y) \<Longrightarrow> pods w' = pods w"
  by (induction ps arbitrary: w w' y) (fastforce split: prod.splits sum.splits dest!: framed)+

lemma eviction_candidates_in: "eviction_candidates r ps w = (w', cands) \<Longrightarrow> set (map fst cands) \<subseteq> set ps"
  by (induction ps arbitrary: w w' cands) (fastforce split: prod.splits sum.splits if_splits)+

lemma setTooling_frame [simp]: "pods (world (cv_setToolingCondition r a b c p)) = pods (world p)"
proof -
  obtain p' y where "patch r (\<lambda>co. fst (SetCondition (cv_Now r (world p) 0) (cond ConditionToolingResolved a b c) co)) p = (p', y)"
    by fastforce
  then show ?thesis by (auto simp: cv_setToolingCondition_def dest: patch_frame)
qed

lemma resolve_for_frame [framed]: "resolve_for r p = (p', y) \<Longrightarrow> pods (world p') = pods (world p)"
  by (auto simp: resolve_for_def split: prod.splits dest!: framed)

lemma ensureMCPConfigMap_frame [framed]: "ensureMCPConfigMap r conv w = (w', y) \<Longrightarrow> pods w' = pods w"
  by (auto simp: ensureMCPConfigMap_def Let_def split: sum.splits option.splits prod.splits dest!: framed)

end

text \<open>A deletion that reports success, or that there was nothing to delete, leaves no live pod of the name.\<close>

locale pod_pool = pod_frame s pods r for s :: "'w Store" and pods :: "'w \<Rightarrow> Pod list" and r :: "'w ConversationReconciler" +
  assumes created: "cl_CreatePod (cv_Client r) w p = (w', y1) \<Longrightarrow> live w' \<le> Suc (live w)"
    and deleted: "cl_DeletePod (cv_Client r) w n g = (w', y2) \<Longrightarrow> live w' \<le> live w"
    and removed: "cl_DeletePod (cv_Client r) w n g = (w', y3) \<Longrightarrow> IgnoreNotFound y3 = None \<Longrightarrow> p \<in> set (pods w) \<Longrightarrow> live_pod p
        \<Longrightarrow> kp_Name p = n \<Longrightarrow> live w' < live w"
begin

lemma evictIdleWorker_removes:
  assumes "evictIdleWorker r (filter live_pod (pods w)) w = (w', Inr True)" shows "live w' < live w"
proof -
  obtain w1 cands where c: "eviction_candidates r (filter live_pod (pods w)) w = (w1, cands)" by fastforce
  with assms obtain d ds where cands: "cands = d # ds" by (cases cands) (auto simp: evictIdleWorker_def)
  define v where "v = fst (hd (sort_key snd cands))"
  obtain w2 e where del: "cl_DeletePod (cv_Client r) w1 (kp_Name v) None = (w2, e)" by fastforce
  have w2: "w2 = w'" "IgnoreNotFound e = None"
    using assms c cands del by (auto simp: evictIdleWorker_def v_def split: option.splits)
  have "sort_key snd cands \<noteq> []" using cands by (metis length_0_conv length_sort list.distinct(1))
  then have "hd (sort_key snd cands) \<in> set cands" using hd_in_set [of "sort_key snd cands"] by simp
  then have "v \<in> set (map fst cands)" by (simp add: v_def)
  with eviction_candidates_in [OF c] have v: "v \<in> set (pods w1)" "live_pod v"
    using eviction_candidates_frame [OF c] by auto
  from removed [OF del w2(2) v] show ?thesis using eviction_candidates_frame [OF c] w2(1) by simp
qed

lemma evictIdleWorker_shrinks: "evictIdleWorker r ps w = (w', y) \<Longrightarrow> live w' \<le> live w"
  by (auto simp: evictIdleWorker_def split: prod.splits list.splits dest!: framed deleted)

lemma create_pod_grows:
  assumes "create_pod r lower profile mcp cm res p = (p', y)" shows "live (world p') \<le> Suc (live (world p))"
proof -
  obtain w q b conv where p: "p = (((w, q), b), conv)" by (metis surj_pair)
  define pod where "pod = (Build (cv_Quantity r) (cv_Token r) conv profile mcp cm (if contextLost conv then degrade res else res)
    (cv_MasterToken r))\<lparr>kp_Namespace := cv_Namespace r, kp_Owners := [ownerOf conv]\<rparr>"
  obtain w1 e where c: "cl_CreatePod (cv_Client r) w pod = (w1, e)" by fastforce
  have "pods (world p') = pods w1"
    using assms c by (auto simp: create_pod_def p pod_def Let_def split: option.splits prod.splits dest!: patch_frame)
  with created [OF c] show ?thesis by (simp add: p)
qed

lemma provision_grows:
  assumes "provision r lower p = (p', y)" shows "live (world p') \<le> Suc (live (world p))"
proof -
  obtain w q b conv where p: "p = (((w, q), b), conv)" by (metis surj_pair)
  obtain w1 x where m: "ensureMCPConfigMap r conv w = (w1, x)" by fastforce
  have w1: "pods w1 = pods w" by (rule ensureMCPConfigMap_frame [OF m])
  show ?thesis
  proof (cases "cl_GetProfile (cv_Client r) w (cr_ProfileRef conv)")
    case (Inl e)
    with assms p show ?thesis by (auto simp: provision_def)
  next
    case (Inr profile)
    note got = this
    show ?thesis
    proof (cases x)
      case (Inl a)
      obtain ex e where a: "a = (ex, e)" by fastforce
      have "pods (world p') = pods (world (((w1, q), b), conv))"
        using assms by (auto simp: provision_def p m got Inl a)
      with w1 show ?thesis by (simp add: p)
    next
      case (Inr a)
      obtain mcp cm where a: "a = (mcp, cm)" by fastforce
      obtain p1 z where rs: "resolve_for r (cv_setToolingCondition r ''True'' ''Resolved'' [] (((w1, q), b), conv)) = (p1, z)" by fastforce
      have p1: "pods (world p1) = pods w" using resolve_for_frame [OF rs] w1 by simp
      show ?thesis
      proof (cases z)
        case (Inl e)
        with assms p m got Inr a rs p1 show ?thesis by (auto simp: provision_def world_pass)
      next
        case (Inr res)
        with assms p m got \<open>x = Inr a\<close> a rs have "create_pod r lower profile mcp cm res p1 = (p', y)" by (simp add: provision_def)
        from create_pod_grows [OF this] p1 p show ?thesis by simp
      qed
    qed
  qed
qed

lemma createRuntimePod_bounded:
  assumes "createRuntimePod r lower p = (p', y)"
  shows "live (world p') \<le> max (nat (cv_MaxActiveConversations r)) (live (world p))"
proof -
  obtain w q b conv where p: "p = (((w, q), b), conv)" by (metis surj_pair)
  define ps where "ps = filter live_pod (pods w)"
  have ps: "liveRuntimePods r w = Inr ps" "length ps = live w"
    by (simp_all add: liveRuntimePods_def ps_def live_count_def)
  show ?thesis
  proof (cases "int (length ps) \<ge> cv_MaxActiveConversations r")
    case False
    with assms p ps have "provision r lower p = (p', y)" by (simp add: createRuntimePod_def)
    from provision_grows [OF this] False ps p show ?thesis by simp
  next
    case True
    obtain w1 z where e: "evictIdleWorker r ps w = (w1, z)" by fastforce
    note s = evictIdleWorker_shrinks [OF e]
    show ?thesis
    proof (cases "z = Inr True")
      case False
      then have "world p' = w1" using assms p ps True e
        by (auto simp: createRuntimePod_def split: sum.splits bool.splits)
      with s p show ?thesis by simp
    next
      case zt: True
      with assms p ps True e have "provision r lower (((w1, q), b), conv) = (p', y)" by (simp add: createRuntimePod_def)
      from provision_grows [OF this] evictIdleWorker_removes [of w w1] e zt p show ?thesis by (simp add: ps_def)
    qed
  qed
qed

section \<open>The other stages\<close>

lemma then_doE:
  assumes "then_do x f = (p', y)"
  obtains d e where "x = (p', Return d e)" "y = Return d e" | a p1 where "x = (p1, Proceed a)" "f a p1 = (p', y)"
  using assms by (auto simp: then_do_def split: prod.splits flow.splits)

lemma delete_pod_shrinks: "delete_pod r n g p = (p', y) \<Longrightarrow> live (world p') \<le> live (world p)"
  by (auto simp: delete_pod_def split: prod.splits dest: deleted)

lemma record_event_frame [simp]: "pods (world (record_event r k x m p)) = pods (world p)"
  by (auto simp: record_event_def split: prod.splits)

lemma forget_workload_frame [framed]: "forget_workload r p = (p', y) \<Longrightarrow> pods (world p') = pods (world p)"
  by (auto simp: forget_workload_def split: if_splits dest!: framed)

lemma reapUnstartedPod_shrinks: "reapUnstartedPod r pod p = (p', y) \<Longrightarrow> live (world p') \<le> live (world p)"
proof -
  assume a: "reapUnstartedPod r pod p = (p', y)"
  obtain p1 e where d: "delete_pod r (kp_Name pod) (Some 0) p = (p1, e)" by fastforce
  note s = delete_pod_shrinks [OF d]
  show ?thesis
  proof (cases "IgnoreNotFound e")
    case (Some x)
    with a d s show ?thesis by (auto simp: reapUnstartedPod_def Let_def)
  next
    case None
    have "pods (world p') = pods (world p1)"
      using a d None by (auto simp: reapUnstartedPod_def Let_def split: if_splits dest!: patch_frame)
    with s show ?thesis by simp
  qed
qed

lemma clearRuntimeStartFailure_frame [framed]: "clearRuntimeStartFailure r p = (p', y) \<Longrightarrow> pods (world p') = pods (world p)"
  by (auto simp: clearRuntimeStartFailure_def Let_def split: if_splits dest!: framed)

lemma releaseIfNodeDraining_shrinks:
  assumes "releaseIfNodeDraining r pod p = (p', y)" shows "live (world p') \<le> live (world p)"
proof -
  obtain p1 e where d: "delete_pod r (kp_Name pod) (Some 0) p = (p1, e)" by fastforce
  note s = delete_pod_shrinks [OF d]
  have "pods (world p') = pods (world p) \<or> pods (world p') = pods (world p1)"
    using assms d by (auto simp: releaseIfNodeDraining_def Let_def split: if_splits sum.splits option.splits prod.splits
        dest!: patch_frame)
  with s show ?thesis by auto
qed

lemma checkE:
  assumes "check x = (p', y)" obtains e where "x = (p', e)"
  using assms by (auto simp: check_def split: prod.splits option.splits)

lemma check_frame: "check x = (p', y) \<Longrightarrow> fst x = p'"
  by (auto elim: checkE)

lemma pod_gone_shrinks: "pod_gone r pod p = (p', y) \<Longrightarrow> live (world p') \<le> live (world p)"
  by (auto simp: pod_gone_def split: if_splits prod.splits elim!: then_doE checkE dest!: delete_pod_shrinks forget_workload_frame)

lemma pod_unstarted_shrinks: "pod_unstarted r pod p = (p', y) \<Longrightarrow> live (world p') \<le> live (world p)"
  by (auto simp: pod_unstarted_def split: option.splits if_splits elim!: then_doE checkE
      dest!: reapUnstartedPod_shrinks clearRuntimeStartFailure_frame)

lemma pod_drained_shrinks: "pod_drained r pod p = (p', y) \<Longrightarrow> live (world p') \<le> live (world p)"
  by (auto simp: pod_drained_def split: option.splits prod.splits dest!: releaseIfNodeDraining_shrinks)

lemma reconcile_pod_shrinks: "reconcile_pod r p = (p', y) \<Longrightarrow> live (world p') \<le> live (world p)"
  by (auto simp: reconcile_pod_def split: sum.splits elim!: then_doE
      dest!: pod_gone_shrinks pod_unstarted_shrinks pod_drained_shrinks)

lemma enterPending_frame [framed]: "enterPending r p = (p', y) \<Longrightarrow> pods (world p') = pods (world p)"
  by (auto simp: enterPending_def on_chat_world split: if_splits prod.splits option.splits dest!: setPhase_frame)

lemma enterPendingFor_frame [framed]: "enterPendingFor r x m p = (p', y) \<Longrightarrow> pods (world p') = pods (world p)"
  by (auto simp: enterPendingFor_def split: prod.splits option.splits dest!: patch_frame enterPending_frame)

lemma evictableCount_frame [framed]: "evictableCount r ps w = (w', n) \<Longrightarrow> pods w' = pods w"
  by (induction ps arbitrary: w w' n) (fastforce split: prod.splits sum.splits dest!: framed)+

lemma cv_admit_frame [framed]: "cv_admit r conv w = (w', y) \<Longrightarrow> pods w' = pods w"
  by (auto simp: cv_admit_def Let_def split: sum.splits prod.splits if_splits dest!: framed)

lemma backoff_gate_frame [framed]: "backoff_gate r b p = (p', y) \<Longrightarrow> pods (world p') = pods (world p)"
  by (auto simp: backoff_gate_def Let_def split: if_splits)

lemma storage_gate_frame [framed]: "storage_gate r b p = (p', y) \<Longrightarrow> pods (world p') = pods (world p)"
  by (auto simp: storage_gate_def split: if_splits prod.splits bool.splits dest!: enterPendingFor_frame)

lemma capacity_gate_frame [framed]: "capacity_gate r b p = (p', y) \<Longrightarrow> pods (world p') = pods (world p)"
  by (auto simp: capacity_gate_def split: if_splits prod.splits sum.splits bool.splits dest!: cv_admit_frame enterPending_frame)

lemma claimEnsureTopic_frame [framed]: "claimEnsureTopic r n c w = (w', y) \<Longrightarrow> pods w' = pods w"
  by (auto simp: claimEnsureTopic_def split: prod.splits sum.splits dest!: framed)

lemma InputPayload_frame [framed]: "InputPayload s i w = (w', y) \<Longrightarrow> pods w' = pods w"
  by (auto simp: InputPayload_def split: if_splits prod.splits sum.splits dest!: framed)

lemma topicDescriptor_frame [framed]: "topicDescriptor r conv w = (w', y) \<Longrightarrow> pods w' = pods w"
  by (auto simp: topicDescriptor_def Let_def split: option.splits prod.splits dest!: framed)

lemma ensureTopic_frame: "pods (fst (fst (ensureTopic r conv ref st))) = pods (fst (fst st))"
  by (auto simp: ensureTopic_def split: prod.splits sum.splits bool.splits dest!: framed)

lemma ensureTopics_frame [framed]: "ensureTopics r conv st = (st', y) \<Longrightarrow> pods (fst st') = pods (fst st)"
  using fold_frame [of "\<lambda>a. pods (fst (fst a))" "ensureTopic r conv", OF ensureTopic_frame]
  by (metis ensureTopics_def fst_conv)

lemma deliver_frame: "pods (fst (fst (deliver r conv i a))) = pods (fst (fst a))"
proof -
  obtain w q dp where a: "a = ((w, q), dp)" by (metis surj_pair)
  obtain w1 blob where b: "InputPayload s i w = (w1, blob)" by fastforce
  have "fst (fold (deliver_to r conv i su e m) refs (w1, q)) = w1" for su e m refs
    using fold_frame [of fst "deliver_to r conv i su e m" refs "(w1, q)"] by simp
  with b show ?thesis by (auto simp: deliver_def a Let_def split: prod.splits dest!: framed)
qed

lemma DeliverInputs_frame [simp]: "pods (fst (DeliverInputs r conv st)) = pods (fst st)"
  using fold_frame [of "\<lambda>a. pods (fst (fst a))" "deliver r conv", OF deliver_frame] by (simp add: DeliverInputs_def)

lemma reply_to_frame: "pods (fst (fst (reply_to r conv run t a))) = pods (fst (fst a))"
  by (auto simp: reply_to_def split: prod.splits option.split)

lemma enqueueRunReply_frame: "pods (fst (fst (enqueueRunReply r conv run a))) = pods (fst (fst a))"
  unfolding enqueueRunReply_def by (rule fold_frame) (rule reply_to_frame)

lemma setDeliveryPendingCondition_frame [framed]:
  assumes "setDeliveryPendingCondition r owed p = p'" shows "pods (world p') = pods (world p)"
proof -
  obtain p1 y where "patch r (\<lambda>rec. fst (SetCondition (cv_Now r (world p) 0) (delivery_condition owed) rec)) p = (p1, y)"
    by fastforce
  with assms show ?thesis by (auto simp: setDeliveryPendingCondition_def Let_def dest: patch_frame split: if_splits)
qed

lemma backfillDelivered_frame [framed]: "backfillDelivered r conv runs ids w = (w', y) \<Longrightarrow> pods w' = pods w"
  by (induction ids arbitrary: w) (auto split: option.splits if_splits prod.splits sum.splits dest!: framed)

lemma deliverRunReplies_frame [framed]:
  assumes "deliverRunReplies r runs p = (p', y)" shows "pods (world p') = pods (world p)"
proof -
  obtain st b conv where p: "p = ((st, b), conv)" by (metis surj_pair)
  obtain st1 owed where f: "fold (enqueueRunReply r conv) (filter run_DeliveryTracked runs) (st, []) = (st1, owed)" by fastforce
  have f1: "pods (fst st1) = pods (fst st)"
    using fold_frame [of "\<lambda>a. pods (fst (fst a))" "enqueueRunReply r conv", OF enqueueRunReply_frame] f by (metis fst_conv)
  obtain w q b' conv' where c: "setDeliveryPendingCondition r owed ((st1, b), conv) = (((w, q), b'), conv')" by (metis surj_pair)
  from setDeliveryPendingCondition_frame [OF c] f1 have "pods w = pods (fst st)" by simp
  with assms p f c show ?thesis
    by (auto simp: deliverRunReplies_def split: if_splits prod.splits dest!: backfillDelivered_frame)
qed

lemma chat_stage_frame [framed]:
  assumes "chat_stage r runs p = (p', y)" shows "pods (world p') = pods (world p)"
proof -
  obtain st b conv where p: "p = ((st, b), conv)" by (metis surj_pair)
  obtain st1 tp e where t: "ensureTopics r conv st = (st1, tp, e)" by (metis surj_pair)
  define st2 where "st2 = DeliverInputs r conv (deliverEscalation r conv (case cv_Router r of
     Some router \<Rightarrow> if cr_Reopens conv > 0 then FanOutReopenNotice router conv st1 else st1 | None \<Rightarrow> st1))"
  have "pods (fst st2) = pods (fst st)" using ensureTopics_frame [OF t] by (auto simp: st2_def split: option.split)
  moreover obtain p1 x where d: "deliverRunReplies r runs ((st2, b), conv) = (p1, x)" by fastforce
  have "p' = (if cv_Ops r then p1 else p)"
    using assms p t d by (auto simp: chat_stage_def st2_def Let_def)
  ultimately show ?thesis using deliverRunReplies_frame [OF d] p by simp
qed

lemma router_frame: "cv_Router r = Some rt \<Longrightarrow> routed_frame s pods rt"
  by (intro routed_frame.intro store_frame_axioms routed_frame_axioms.intro routers)

lemma route_result_frame:
  assumes "cv_Router r = Some rt" shows "pods (fst (fst (route_result r rt conv run a))) = pods (fst (fst a))"
  by (auto simp: route_result_def split: prod.splits option.splits sum.splits
      dest!: routed_frame.AppendMemberResult_frame [OF router_frame [OF assms]] framed)

lemma member_stage_frame [simp]: "pods (world (member_stage r runs p)) = pods (world p)"
proof (cases "cv_Router r")
  case (Some rt)
  obtain st b conv where p: "p = ((st, b), conv)" by (metis surj_pair)
  have "pods (fst (fst (fold (route_result r rt conv) runs (st, None)))) = pods (fst st)"
    using fold_frame [of "\<lambda>a. pods (fst (fst a))" "route_result r rt conv", OF route_result_frame [OF Some]] by simp
  with Some p show ?thesis by (auto simp: member_stage_def deliverMemberResults_def split: prod.splits)
qed (simp add: member_stage_def)

text \<open>What a conversation's pass may add: nothing beyond the cap.\<close>

abbreviation bounded :: "'w pass \<Rightarrow> 'w pass \<Rightarrow> bool" where
  "bounded p p' \<equiv> live (world p') \<le> max (nat (cv_MaxActiveConversations r)) (live (world p))"

lemma provision_stage_bounded:
  assumes "provision_stage r lower wanted p = (p', y)" shows "bounded p p'"
proof (cases wanted)
  case True
  obtain p1 z where c: "createRuntimePod r lower p = (p1, z)" by fastforce
  have "pods (world p') = pods (world p1)"
    using assms True c by (auto simp: provision_stage_def split: sum.splits bool.splits prod.splits dest!: enterPending_frame)
  with createRuntimePod_bounded [OF c] show ?thesis by simp
qed (use assms in \<open>auto simp: provision_stage_def\<close>)

lemma reconcile_stages_bounded:
  assumes "reconcile_stages r lower runs pending needsWorker p = (p', y)" shows "bounded p p'"
  using assms
  by (auto simp: reconcile_stages_def split: prod.splits elim!: then_doE checkE
      dest!: reconcile_pod_shrinks backoff_gate_frame storage_gate_frame capacity_gate_frame chat_stage_frame
        provision_stage_bounded setPhase_frame)

lemma pruneProcessed_frame [framed]: "pruneProcessed r p = (p', y) \<Longrightarrow> pods (world p') = pods (world p)"
  by (auto simp: pruneProcessed_def Let_def split: if_splits prod.splits option.splits dest!: patch_frame delete_blobs_frame)

lemma releaseWorkload_shrinks: "releaseWorkload r p = (p', y) \<Longrightarrow> live (world p') \<le> live (world p)"
  by (auto simp: releaseWorkload_def split: prod.splits option.splits dest!: delete_pod_shrinks unconfigured)

lemma autoDelete_frame [framed]: "autoDelete r p = (p', y) \<Longrightarrow> pods (world p') = pods (world p)"
  by (auto simp: autoDelete_def Let_def split: prod.splits option.splits sum.splits if_splits dest!: framed)

lemma reconcileClosed_shrinks:
  assumes "reconcileClosed r p = (p', y)" shows "live (world p') \<le> live (world p)"
  using assms by (auto simp: reconcileClosed_def Let_def on_chat_world split: prod.splits option.splits if_splits
      dest!: releaseWorkload_shrinks forget_workload_frame autoDelete_frame)

lemma finalizeClose_shrinks:
  assumes "finalizeClose r t p = (p', y)" shows "live (world p') \<le> live (world p)"
proof (cases "FinalizerCloseTopics \<in> set (cr_Finalizers (snd p))")
  case True
  obtain st b conv e where w: "releaseWorkload r p = (((st, b), conv), e)" by (metis surj_pair)
  note small = releaseWorkload_shrinks [OF w]
  show ?thesis
  proof (cases e)
    case None
    obtain w1 q1 o' where n: "(if cv_Ops r then enqueueDeleteConversations r conv st else (st, False)) = ((w1, q1), o')" by (metis surj_pair)
    then have "w1 = fst st" by (auto split: if_splits dest: enqueueDeleteConversations_frame)
    with assms True w None n small show ?thesis
      by (auto simp: finalizeClose_def split: if_splits prod.splits dest!: patch_frame)
  qed (use assms True w small in \<open>auto simp: finalizeClose_def\<close>)
qed (use assms in \<open>auto simp: finalizeClose_def\<close>)

lemma autoClose_frame [framed]:
  assumes "autoClose n r runs podExists p = Some (p', y)" shows "pods (world p') = pods (world p)"
  using assms by (auto simp: autoClose_def AutoCloseConversation_def Let_def split: prod.splits option.splits if_splits
      dest!: routed_frame.closeConversation_frame [OF router_frame])

lemma reconcileOpen_bounded:
  assumes "reconcileOpen n r lower runs d p = Some (p', y)" shows "bounded p p'"
  using assms by (auto simp: reconcileOpen_def Let_def split: prod.splits option.splits flow.splits if_splits
      dest!: pruneProcessed_frame reconcile_stages_bounded autoClose_frame)

lemma reconcile_live_bounded:
  assumes "reconcile_live n r lower runs p = Some (p', y)" shows "bounded p p'"
  using assms by (auto simp: reconcile_live_def deadline_of_def split: prod.splits option.splits if_splits
      dest!: reconcileClosed_shrinks reconcileOpen_bounded routed_frame.CloseBudgetExceeded_frame [OF router_frame])

lemma Reconcile_bounded:
  assumes "cv_Reconcile n r lower name ((w, q), b) = Some (((w', q'), b'), y)"
  shows "live w' \<le> max (nat (cv_MaxActiveConversations r)) (live w)"
  using assms by (auto simp: cv_Reconcile_def Let_def split: prod.splits sum.splits option.splits if_splits
      dest!: framed finalizeClose_shrinks reconcile_live_bounded)

end

end
