(* ===== verification/CapLaws.thy ===== *)
theory CapLaws
  imports PodPool PassSamples
begin

text \<open>
  The cap on runtime pods. The reference cluster keeps its pods beside the in-memory store: a pod that is created is
  pending, one that is deleted is gone at once or, with \<open>graceful\<close> and unless the deletion gives a grace period of zero,
  stays listed as a real cluster lists a pod until its processes have ended. Passes are run one after the other and read
  the pods as they are.
\<close>

section \<open>The reference cluster\<close>

type_synonym hosting = "memStore \<times> Pod list"

definition on_left :: "('a \<Rightarrow> 'a \<times> 'x) \<Rightarrow> 'a \<times> 'b \<Rightarrow> ('a \<times> 'b) \<times> 'x" where
  "on_left f w = (case w of (a, b) \<Rightarrow> (case f a of (a, x) \<Rightarrow> ((a, b), x)))"

lemma on_left_frame: "on_left f w = (w', x) \<Longrightarrow> snd w' = snd w"
  by (auto simp: on_left_def split: prod.splits)

definition beside :: "'a Store \<Rightarrow> ('a \<times> 'b) Store" where
  "beside s = \<lparr>st_Get = (\<lambda>w k. on_left (\<lambda>a. st_Get s a k) w),
     st_Create = (\<lambda>w k c. on_left (\<lambda>a. st_Create s a k c) w),
     st_Update = (\<lambda>w k v c. on_left (\<lambda>a. st_Update s a k v c) w),
     st_Delete = (\<lambda>w k. on_left (\<lambda>a. st_Delete s a k) w),
     st_List = (\<lambda>w i k. on_left (\<lambda>a. st_List s a i k) w),
     st_AppendRun = (\<lambda>w k u. on_left (\<lambda>a. st_AppendRun s a k u) w),
     st_UpdateRun = (\<lambda>w k i u. on_left (\<lambda>a. st_UpdateRun s a k i u) w),
     st_ListRuns = (\<lambda>w k. on_left (\<lambda>a. st_ListRuns s a k) w),
     st_GetWithRuns = (\<lambda>w k. on_left (\<lambda>a. st_GetWithRuns s a k) w),
     st_PutBlob = (\<lambda>w k b. on_left (\<lambda>a. st_PutBlob s a k b) w),
     st_GetBlob = (\<lambda>w k. on_left (\<lambda>a. st_GetBlob s a k) w),
     st_DeleteBlob = (\<lambda>w k. on_left (\<lambda>a. st_DeleteBlob s a k) w)\<rparr>"

lemma beside_fields [simp]:
  "st_Get (beside s) w k = on_left (\<lambda>a. st_Get s a k) w"
  "st_Update (beside s) w k v c = on_left (\<lambda>a. st_Update s a k v c) w"
  "st_Delete (beside s) w k = on_left (\<lambda>a. st_Delete s a k) w"
  "st_List (beside s) w i l = on_left (\<lambda>a. st_List s a i l) w"
  "st_UpdateRun (beside s) w k j u = on_left (\<lambda>a. st_UpdateRun s a k j u) w"
  "st_ListRuns (beside s) w k = on_left (\<lambda>a. st_ListRuns s a k) w"
  "st_GetWithRuns (beside s) w k = on_left (\<lambda>a. st_GetWithRuns s a k) w"
  "st_GetBlob (beside s) w k = on_left (\<lambda>a. st_GetBlob s a k) w"
  "st_DeleteBlob (beside s) w k = on_left (\<lambda>a. st_DeleteBlob s a k) w"
  by (simp_all add: beside_def)



definition pool_CreatePod :: "'a \<times> Pod list \<Rightarrow> Pod \<Rightarrow> ('a \<times> Pod list) \<times> err option" where
  "pool_CreatePod w p =
     (case w of (a, ps) \<Rightarrow>
        if kp_Name p \<in> set (map kp_Name ps) then ((a, ps), Some ErrAlreadyExists)
        else ((a, ps @ [p\<lparr>kp_Phase := PodPending\<rparr>]), None))"

definition pool_DeletePod :: "bool \<Rightarrow> 'a \<times> Pod list \<Rightarrow> string \<Rightarrow> int option \<Rightarrow> ('a \<times> Pod list) \<times> err option" where
  "pool_DeletePod graceful w n grace =
     (case w of (a, ps) \<Rightarrow>
        if n \<notin> set (map kp_Name ps) then ((a, ps), Some ErrNotFound)
        else if graceful \<and> grace \<noteq> Some 0 then ((a, ps), None)
        else ((a, filter (\<lambda>p. kp_Name p \<noteq> n) ps), None))"

definition pool_cluster :: "bool \<Rightarrow> ('a \<times> Pod list) Cluster \<Rightarrow> ('a \<times> Pod list) Cluster" where
  "pool_cluster graceful c = c\<lparr>
     cl_GetPod := (\<lambda>w n. case List.find (\<lambda>p. kp_Name p = n) (snd w) of None \<Rightarrow> Inl ErrNotFound | Some p \<Rightarrow> Inr p),
     cl_ListPods := (\<lambda>w. Inr (snd w)),
     cl_CreatePod := pool_CreatePod,
     cl_DeletePod := pool_DeletePod graceful,
     cl_PutConfigMap := (\<lambda>w n d o'. (w, None)),
     cl_DeleteConfigMap := (\<lambda>w n. (w, None)),
     cl_Event := (\<lambda>w a k x m. w)\<rparr>"

text \<open>A reconciler on that cluster; everything else of it is as it was.\<close>

definition pooled :: "bool \<Rightarrow> hosting ConversationReconciler \<Rightarrow> hosting ConversationReconciler" where
  "pooled graceful r = r\<lparr>cv_Client := pool_cluster graceful (cv_Client r), cv_Store := beside mem_Store,
     cv_Router := map_option (\<lambda>rt. rt\<lparr>ro_Store := beside mem_Store\<rparr>) (cv_Router r)\<rparr>"

lemma pooled_fields [simp]:
  "cv_Client (pooled g r) = pool_cluster g (cv_Client r)" "cv_Store (pooled g r) = beside mem_Store"
  "cv_Router (pooled g r) = map_option (\<lambda>rt. rt\<lparr>ro_Store := beside mem_Store\<rparr>) (cv_Router r)"
  "cv_Namespace (pooled g r) = cv_Namespace r" "cv_Reader (pooled g r) = cv_Reader r"
  "cv_AgentRuntime (pooled g r) = cv_AgentRuntime r" "cv_Runtime (pooled g r) = cv_Runtime r"
  "cv_MaxActiveConversations (pooled g r) = cv_MaxActiveConversations r" "cv_Ops (pooled g r) = cv_Ops r"
  "cv_CloseTopicGrace (pooled g r) = cv_CloseTopicGrace r" "cv_RuntimeStartDeadline (pooled g r) = cv_RuntimeStartDeadline r"
  "cv_MasterToken (pooled g r) = cv_MasterToken r" "cv_StorageBreaker (pooled g r) = cv_StorageBreaker r"
  "cv_DrainAware (pooled g r) = cv_DrainAware r" "cv_Recorder (pooled g r) = cv_Recorder r"
  "cv_AutoCloseEnabled (pooled g r) = cv_AutoCloseEnabled r" "cv_AutoCloseIdleAge (pooled g r) = cv_AutoCloseIdleAge r"
  "cv_AutoDeleteEnabled (pooled g r) = cv_AutoDeleteEnabled r" "cv_AutoDeleteClosedAge (pooled g r) = cv_AutoDeleteClosedAge r"
  "cv_ReplicaIdentity (pooled g r) = cv_ReplicaIdentity r" "cv_ClaimStaleness (pooled g r) = cv_ClaimStaleness r"
  "cv_InProcess (pooled g r) = cv_InProcess r" "cv_Epoch (pooled g r) = cv_Epoch r" "cv_Now (pooled g r) = cv_Now r"
  "cv_Rand (pooled g r) = cv_Rand r" "cv_Quantity (pooled g r) = cv_Quantity r" "cv_Token (pooled g r) = cv_Token r"
  "cv_Order (pooled g r) = cv_Order r"
  by (simp_all add: pooled_def)

lemma pool_cluster_fields [simp]:
  "cl_GetPod (pool_cluster g c) w n = (case List.find (\<lambda>p. kp_Name p = n) (snd w) of None \<Rightarrow> Inl ErrNotFound | Some p \<Rightarrow> Inr p)"
  "cl_ListPods (pool_cluster g c) w = Inr (snd w)" "cl_CreatePod (pool_cluster g c) = pool_CreatePod"
  "cl_DeletePod (pool_cluster g c) = pool_DeletePod g" "cl_PutConfigMap (pool_cluster g c) w m d o' = (w, None)"
  "cl_DeleteConfigMap (pool_cluster g c) w m = (w, None)" "cl_Event (pool_cluster g c) w a k x t = w"
  "cl_GetProfile (pool_cluster g c) = cl_GetProfile c" "cl_GetMCPConfig (pool_cluster g c) = cl_GetMCPConfig c"
  "cl_GetNode (pool_cluster g c) = cl_GetNode c" "cl_GetChannel (pool_cluster g c) = cl_GetChannel c"
  by (simp_all add: pool_cluster_def)

lemma live_count_simps [simp]:
  "live_count [] = 0" "live_count (p # ps) = (if live_pod p then Suc (live_count ps) else live_count ps)"
  "live_count (ps @ qs) = live_count ps + live_count qs"
  by (simp_all add: live_count_def)



interpretation beside: store_frame "beside s" snd
  by unfold_locales (auto dest: on_left_frame)



section \<open>The cap\<close>



section \<open>A pod that is being deleted\<close>







text \<open>At a cap of one, with an evicted pod still ending beside the one that took its place.\<close>

definition crowd :: "ConversationRecord list" where "crowd = [idle_conv ''i'', tasked ''b'', tasked ''a'']"



lemma crowd_found [simp]:
  "kept crowd" "List.find (\<lambda>c. cr_Name c = ''i'') crowd = Some (idle_conv ''i'')"
  "List.find (\<lambda>c. cr_Name c = ''b'') crowd = Some (tasked ''b'')" "List.find (\<lambda>c. cr_Name c = ''a'') crowd = Some (tasked ''a'')"
  by (simp_all add: crowd_def)








end
