(* ===== verification/TypedPass.thy ===== *)
theory TypedPass
  imports CapLaws
begin

text \<open>
  The shape of a record: its phase is one of the vocabulary, it has one condition of each type and one thread for each
  channel. \<open>typed_store\<close> is a store of such records; everything a pass of the reconciler writes keeps it one.
\<close>

section \<open>The shape\<close>

definition phases :: "string set" where
  "phases = {PhasePending, PhaseIdle, PhaseQueued, PhaseWorking, PhaseClosed}"

definition well_formed :: "ConversationRecord \<Rightarrow> bool" where
  "well_formed c \<longleftrightarrow> cr_Phase c \<in> phases \<and> distinct (map co_Type (cr_Conditions c)) \<and> distinct (map th_Channel (cr_Threads c))"

lemma map_update_first: "(\<And>x. g (f x) = g x) \<Longrightarrow> map g (update_first P f xs) = map g xs"
  by (induction xs) auto

lemma well_formed_phase: "well_formed c \<Longrightarrow> ph \<in> phases \<Longrightarrow> well_formed (c\<lparr>cr_Phase := ph\<rparr>)"
  by (simp add: well_formed_def)

lemma merge_type [simp]: "co_Type (fst (merge_condition now x c)) = co_Type x"
  by (simp add: merge_condition_def Let_def)

lemma well_formed_SetCondition: "well_formed c \<Longrightarrow> well_formed (fst (SetCondition now x c))"
proof (cases "FindCondition c (co_Type x)")
  case None
  assume w: "well_formed c"
  have "co_Type x \<notin> set (map co_Type (cr_Conditions c))" using None by (auto simp: FindCondition_def find_None_iff)
  with w None show ?thesis by (simp add: well_formed_def SetCondition_def Let_def)
next
  case (Some y)
  assume "well_formed c"
  with Some show ?thesis by (simp add: well_formed_def SetCondition_def Let_def map_update_first)
qed

lemma distinct_remove_first: "distinct (map f xs) \<Longrightarrow> distinct (map f (remove_first P xs)) \<and> set (remove_first P xs) \<subseteq> set xs"
  by (induction xs) auto

lemma well_formed_RemoveCondition: "well_formed c \<Longrightarrow> well_formed (fst (RemoveCondition t c))"
  by (simp add: well_formed_def RemoveCondition_def distinct_remove_first split: option.split)

text \<open>Only the three parts count.\<close>

lemma well_formed_cong:
  "cr_Phase c = cr_Phase d \<Longrightarrow> cr_Conditions c = cr_Conditions d \<Longrightarrow> cr_Threads c = cr_Threads d \<Longrightarrow> well_formed c = well_formed d"
  by (simp add: well_formed_def)

lemma well_formed_setClaim: "well_formed c \<Longrightarrow> well_formed (setClaim r now c ch)"
proof (cases "Thread c ch")
  case None
  assume w: "well_formed c"
  have "ch \<notin> set (map th_Channel (cr_Threads c))" using None by (auto simp: Thread_def find_None_iff)
  with w None show ?thesis by (simp add: well_formed_def setClaim_def Let_def)
next
  case (Some t)
  assume "well_formed c"
  with Some show ?thesis by (simp add: well_formed_def setClaim_def Let_def map_update_first)
qed

lemma well_formed_clear_note: "well_formed c \<Longrightarrow> well_formed (clear_note ch i c)"
  by (simp add: well_formed_def clear_note_def map_update_first)

lemmas well_formed_writes = well_formed_phase well_formed_SetCondition well_formed_setClaim well_formed_clear_note

lemma well_formed_fields [simp]:
  "well_formed (c\<lparr>cr_Finalizers := x1\<rparr>) = well_formed c" "well_formed (c\<lparr>cr_RuntimePod := x2\<rparr>) = well_formed c"
  "well_formed (c\<lparr>cr_Inflight := x3\<rparr>) = well_formed c" "well_formed (c\<lparr>cr_Inputs := x4\<rparr>) = well_formed c"
  "well_formed (c\<lparr>cr_RuntimeStartFailures := x5\<rparr>) = well_formed c" "well_formed (c\<lparr>cr_LastRuntimeStartFailure := x6\<rparr>) = well_formed c"
  "well_formed (c\<lparr>cr_RuntimeContextID := x7\<rparr>) = well_formed c" "well_formed (c\<lparr>cr_SessionID := x8\<rparr>) = well_formed c"
  "well_formed (c\<lparr>cr_ClosedAt := x9\<rparr>) = well_formed c" "well_formed (c\<lparr>cr_CloseReason := x10\<rparr>) = well_formed c"
  "well_formed (c\<lparr>cr_EscalatedAt := x11\<rparr>) = well_formed c" "well_formed (c\<lparr>cr_EscalationMessage := x12\<rparr>) = well_formed c"
  "well_formed (c\<lparr>cr_ID := x13\<rparr>) = well_formed c" "well_formed (c\<lparr>cr_CreatedAt := x14\<rparr>) = well_formed c"
  "well_formed (c\<lparr>cr_DeletionRequestedAt := x15\<rparr>) = well_formed c"
  by (simp_all add: well_formed_def)

lemma phases_in [simp]: "PhasePending \<in> phases" "PhaseIdle \<in> phases" "PhaseQueued \<in> phases" "PhaseWorking \<in> phases" "PhaseClosed \<in> phases"
  by (simp_all add: phases_def)

section \<open>A store of such records\<close>

named_theorems typed

locale typed_store =
  fixes s :: "'w Store" and good :: "'w \<Rightarrow> bool"
  assumes Get [typed]: "st_Get s w k = (w', x1) \<Longrightarrow> good w \<Longrightarrow> good w' \<and> (\<forall>c v. x1 = Inr (c, v) \<longrightarrow> well_formed c)"
    and Update: "st_Update s w k v c = (w', x2) \<Longrightarrow> good w \<Longrightarrow> well_formed c \<Longrightarrow> good w'"
    and Delete [typed]: "st_Delete s w k = (w', x3) \<Longrightarrow> good w \<Longrightarrow> good w'"
    and List [typed]: "st_List s w i l = (w', x4) \<Longrightarrow> good w \<Longrightarrow> good w' \<and> (\<forall>cs. x4 = Inr cs \<longrightarrow> list_all well_formed cs)"
    and UpdateRun [typed]: "st_UpdateRun s w k j u = (w', x5) \<Longrightarrow> good w \<Longrightarrow> good w'"
    and GetWithRuns [typed]: "st_GetWithRuns s w k = (w', x6) \<Longrightarrow> good w \<Longrightarrow> good w' \<and> (\<forall>c v rs. x6 = Inr (c, v, rs) \<longrightarrow> well_formed c)"
    and GetBlob [typed]: "st_GetBlob s w k = (w', x7) \<Longrightarrow> good w \<Longrightarrow> good w'"
    and DeleteBlob [typed]: "st_DeleteBlob s w k = (w', x8) \<Longrightarrow> good w \<Longrightarrow> good w'"
begin

lemma Mutate_loop_typed:
  assumes "\<And>c r c' r'. well_formed r \<Longrightarrow> fn c r = (c', Inr r') \<Longrightarrow> well_formed r'"
  shows "Mutate_loop s k fn n le c w = (w', c', x) \<Longrightarrow> good w \<Longrightarrow> good w' \<and> (\<forall>r. x = Inr r \<longrightarrow> well_formed r)"
proof (induction n arbitrary: le c w)
  case (Suc n)
  obtain w1 y where g: "st_Get s w k = (w1, y)" by fastforce
  note t = Get [OF g Suc.prems(2)]
  show ?case
  proof (cases y)
    case (Inr a)
    obtain before rv where a: "a = (before, rv)" by fastforce
    obtain c1 z where f: "fn c before = (c1, z)" by fastforce
    show ?thesis
    proof (cases z)
      case (Inr after)
      have w: "well_formed after" using assms f t \<open>y = Inr a\<close> a Inr by blast
      obtain w2 u where up: "st_Update s w1 k rv after = (w2, u)" by fastforce
      from Update [OF up] t w have "good w2" by simp
      with Suc g t f up w \<open>y = Inr a\<close> a Inr show ?thesis by (auto split: if_splits sum.splits)
    qed (use Suc.prems g t f Inr a in auto)
  qed (use Suc.prems g t in auto)
qed auto

lemma Mutate_typed:
  "Mutate s k fn c w = (w', c', x) \<Longrightarrow> (\<And>c r c' r'. well_formed r \<Longrightarrow> fn c r = (c', Inr r') \<Longrightarrow> well_formed r') \<Longrightarrow> good w
    \<Longrightarrow> good w' \<and> (\<forall>r. x = Inr r \<longrightarrow> well_formed r)"
  unfolding Mutate_def by (rule Mutate_loop_typed)

lemma Patch_typed:
  assumes "Patch s conv f w = (w', conv', e)" and "\<And>r. well_formed r \<Longrightarrow> well_formed (f r)" and "good w"
  shows "good w'" "well_formed conv \<Longrightarrow> well_formed conv'"
proof -
  obtain w1 u x where m: "Mutate s (cr_Name conv) (\<lambda>u r. (u, Inr (f r))) () w = (w1, u, x)" by (metis prod_cases3)
  from Mutate_typed [OF m _ assms(3)] assms(2) have "good w1 \<and> (\<forall>r. x = Inr r \<longrightarrow> well_formed r)" by blast
  with assms(1) m show "good w'" "well_formed conv \<Longrightarrow> well_formed conv'" by (auto simp: Patch_def split: sum.splits)
qed

lemma clearUndeliveredNote_typed [typed]: "clearUndeliveredNote s k ch i w = (w', y) \<Longrightarrow> good w \<Longrightarrow> good w'"
  by (auto simp: clearUndeliveredNote_def split: prod.splits sum.splits dest!: Mutate_typed intro: well_formed_writes)

lemma SettleDeliveredNote_typed [intro]: "good w \<Longrightarrow> good (SettleDeliveredNote s conv ch i w)"
  using clearUndeliveredNote_typed by (auto simp: SettleDeliveredNote_def split: option.split) (metis surjective_pairing)

lemma acting_walk_typed [typed]: "acting_walk s name n c w = (w', y) \<Longrightarrow> good w \<Longrightarrow> good w'"
proof (induction n arbitrary: c w)
  case (Suc n)
  then show ?case by (auto split: option.splits prod.splits sum.splits dest!: Get)
qed simp

lemma ResolveFor_typed [typed]: "ResolveFor rd rt s conv cfg w = (w', y) \<Longrightarrow> good w \<Longrightarrow> good w'"
  by (auto simp: ResolveFor_def resolveActingCoordinatorBestEffort_def pod_ActingCoordinator_def Let_def
      split: option.splits prod.splits sum.splits if_splits dest!: acting_walk_typed)

lemma delete_blobs_typed [typed]: "delete_blobs s is w = (w', y) \<Longrightarrow> good w \<Longrightarrow> good w'"
  by (induction "is" arbitrary: w) (auto split: prod.splits sum.splits if_splits dest!: DeleteBlob)

end

section \<open>Closing\<close>

locale typed_router = typed_store s good for s :: "'w Store" and good :: "'w \<Rightarrow> bool" +
  fixes rt :: "'w Router"
  assumes routed [simp]: "ro_Store rt = s"
begin

lemma AppendMemberResult_typed: "AppendMemberResult rt c n i x st = (st', y) \<Longrightarrow> good (fst st) \<Longrightarrow> good (fst st')"
  by (auto simp: AppendMemberResult_def appendInputIdempotent_def idempotent_append_def
      split: option.splits if_splits prod.splits sum.splits dest!: Mutate_typed)

lemma closeConversationReason_typed:
  assumes "closeConversationReason rt conv x st = (st', y)" and "good (fst st)" shows "good (fst st')"
proof -
  obtain w q where f: "farewell_to rt conv (reason_farewell x) st = (w, q)" by fastforce
  moreover have "fst st = w" using fst_farewell [of rt conv "reason_farewell x" st] f by simp
  moreover obtain w1 c1 e1 where p: "Patch s conv (close_with_reason (ro_Now rt w 1) x) w = (w1, c1, e1)" by (metis prod_cases3)
  moreover have "good w \<Longrightarrow> good w1" by (rule Patch_typed(1) [OF p]) (simp_all add: close_with_reason_def well_formed_phase)
  ultimately show ?thesis using assms by (auto simp: closeConversationReason_def split: if_splits)
qed

lemma close_members_typed:
  assumes "\<And>m st st' e. close m st = Some (st', e) \<Longrightarrow> good (fst st) \<Longrightarrow> good (fst st')"
  shows "close_members close p ms st = Some (st', e) \<Longrightarrow> good (fst st) \<Longrightarrow> good (fst st')"
proof (induction ms arbitrary: st)
  case (Cons m ms)
  show ?case
  proof (cases "cr_Phase m = PhaseClosed \<or> \<not> caused_by p m")
    case True
    with Cons.prems have "close_members close p ms st = Some (st', e)" by (auto split: if_splits)
    then show ?thesis using Cons by blast
  next
    case False
    with Cons.prems have "and_then (close m st) (close_members close p ms) = Some (st', e)" by simp
    then show ?thesis using assms Cons by (elim and_thenE) blast+
  qed
qed simp

lemma cascade_typed:
  assumes "cascade rt close p st = Some (st', e)" and "good (fst st)"
    and "\<And>m st st' e. close m st = Some (st', e) \<Longrightarrow> good (fst st) \<Longrightarrow> good (fst st')"
  shows "good (fst st')"
proof -
  obtain w q where st: "st = (w, q)" by fastforce
  obtain w1 x where l: "st_List s w ByCausedBy (no_key\<lparr>lk_CausedBy := p\<rparr>) = (w1, x)" by fastforce
  with List [OF l] assms(2) st have w1: "good w1" by simp
  show ?thesis
  proof (cases x)
    case (Inl a)
    with assms(1) st l w1 show ?thesis by (auto simp: cascade_def)
  next
    case (Inr ms)
    with assms(1) st l have "close_members close p ms (w1, q) = Some (st', e)" by (simp add: cascade_def)
    from close_members_typed [OF assms(3) this] w1 show ?thesis by simp
  qed
qed

lemma closeWithCascade_typed: "closeWithCascade n rt x conv st = Some (st', e) \<Longrightarrow> good (fst st) \<Longrightarrow> good (fst st')"
proof (induction n arbitrary: conv st st' e)
  case (Suc n)
  have c: "good (fst b)" if "cascade rt (closeWithCascade n rt x) (cr_Name conv) a = Some (b, e')" "good (fst a)" for a b e'
    using cascade_typed [OF that Suc.IH] .
  from Suc.prems show ?case
    by (auto simp: and_then_Some dest!: c closeConversationReason_typed)
qed simp

lemma cascadeCloseMembers_typed: "cascadeCloseMembers n rt p x st = Some (st', e) \<Longrightarrow> good (fst st) \<Longrightarrow> good (fst st')"
  unfolding cascadeCloseMembers_def using cascade_typed closeWithCascade_typed by blast

lemma closeConversation_typed:
  assumes "closeConversation n rt conv f st = Some (st', e)" and "good (fst st)" shows "good (fst st')"
proof (cases "cr_Phase conv = PhaseClosed")
  case True
  with assms cascadeCloseMembers_typed show ?thesis by (simp add: closeConversation_def)
next
  case False
  obtain w q where fw: "farewell_to rt conv f st = (w, q)" by fastforce
  have w: "fst st = w" using fst_farewell [of rt conv f st] fw by simp
  obtain w1 c1 e1 where p: "Patch s conv (\<lambda>rec. rec\<lparr>cr_Phase := PhaseClosed, cr_ClosedAt := Some (ro_Now rt w 1)\<rparr>) w = (w1, c1, e1)"
    by (metis prod_cases3)
  moreover have "good w1" by (rule Patch_typed(1) [OF p]) (use assms(2) w in \<open>simp_all add: well_formed_phase\<close>)
  ultimately show ?thesis using False assms fw
    by (auto simp: closeConversation_def and_then_Some dest!: cascadeCloseMembers_typed)
qed

lemma CloseBudgetExceeded_typed:
  assumes "CloseBudgetExceeded n rt conv m st = Some (st', e)" and "good (fst st)" shows "good (fst st')"
proof -
  have p: "good w'" if "Patch s conv (\<lambda>rec. rec\<lparr>cr_EscalatedAt := a, cr_EscalationMessage := b\<rparr>) w = (w', y)" "good w" for w w' y a b
    using that by (cases y) (auto dest: Patch_typed(1))
  have "good (fst st2)" if "Escalate n rt conv m st1 = Some (st2, e2)" "good (fst st1)" for st1 st2 e2
    using that by (auto simp: Escalate_def and_then_Some split: option.splits if_splits prod.splits
        dest!: p closeWithCascade_typed AppendMemberResult_typed)
  with assms show ?thesis by (cases st') (auto simp: CloseBudgetExceeded_def and_then_Some dest!: cascadeCloseMembers_typed)
qed

end

section \<open>The pass\<close>

locale typed_pass = typed_store s good for s :: "'w Store" and good :: "'w \<Rightarrow> bool" +
  fixes r :: "'w ConversationReconciler"
  assumes stored [simp]: "cv_Store r = s"
    and routers: "cv_Router r = Some rt \<Longrightarrow> ro_Store rt = s"
    and created [typed]: "cl_CreatePod (cv_Client r) w p = (w', y1) \<Longrightarrow> good w \<Longrightarrow> good w'"
    and deleted [typed]: "cl_DeletePod (cv_Client r) w n g = (w', y2) \<Longrightarrow> good w \<Longrightarrow> good w'"
    and configured [typed]: "cl_PutConfigMap (cv_Client r) w m d o' = (w', y3) \<Longrightarrow> good w \<Longrightarrow> good w'"
    and unconfigured [typed]: "cl_DeleteConfigMap (cv_Client r) w m = (w', y4) \<Longrightarrow> good w \<Longrightarrow> good w'"
    and reported [simp]: "good (cl_Event (cv_Client r) w a k x m) = good w"
begin

definition ok_pass :: "'w pass \<Rightarrow> bool" where
  "ok_pass p \<longleftrightarrow> good (world p) \<and> well_formed (snd p)"

lemma ok_pass_simp [simp]: "ok_pass ((st, b), conv) \<longleftrightarrow> good (fst st) \<and> well_formed conv"
  by (simp add: ok_pass_def)

lemma patch_typed:
  assumes "patch r f p = (p', e)" and "ok_pass p" and "\<And>c. well_formed c \<Longrightarrow> well_formed (f c)" shows "ok_pass p'"
proof -
  obtain w q b conv where p: "p = (((w, q), b), conv)" by (metis surj_pair)
  obtain w1 c1 e1 where P: "Patch s conv f w = (w1, c1, e1)" by (metis prod_cases3)
  from assms(1,2) p P Patch_typed [OF P assms(3)] show ?thesis by (simp add: patch_def) force
qed

lemma setPhase_typed: "setPhase r ph p = (p', e) \<Longrightarrow> ok_pass p \<Longrightarrow> ph \<in> phases \<Longrightarrow> ok_pass p'"
  by (auto simp: setPhase_def split: if_splits dest!: patch_typed intro: well_formed_phase)

lemma delete_pod_typed [typed]: "delete_pod r n g p = (p', e) \<Longrightarrow> ok_pass p \<Longrightarrow> ok_pass p'"
  by (auto simp: delete_pod_def split: prod.splits dest!: deleted)

lemma record_event_typed [simp]: "ok_pass (record_event r k x m p) = ok_pass p"
  by (auto simp: record_event_def split: prod.split)

lemma forget_workload_typed [typed]: "forget_workload r p = (p', e) \<Longrightarrow> ok_pass p \<Longrightarrow> ok_pass p'"
  by (auto simp: forget_workload_def no_workload_def split: if_splits dest!: patch_typed)

lemma setCondition_typed:
  assumes "patch r (\<lambda>c. fst (SetCondition now x c)) p = (p', e)" and "ok_pass p" shows "ok_pass p'"
  using assms by (rule patch_typed) (rule well_formed_SetCondition)

lemma start_failed_typed: "well_formed c \<Longrightarrow> well_formed (start_failed now x c)"
  by (auto simp: start_failed_def intro: well_formed_SetCondition)

lemma start_cleared_typed: "well_formed c \<Longrightarrow> well_formed (start_cleared now c)"
  by (auto simp: start_cleared_def Let_def intro: well_formed_SetCondition)

lemma reapUnstartedPod_typed [typed]:
  assumes "reapUnstartedPod r pod p = (p', e)" and "ok_pass p" shows "ok_pass p'"
proof -
  obtain p1 x where d: "delete_pod r (kp_Name pod) (Some 0) p = (p1, x)" by fastforce
  obtain st b conv where p1: "p1 = ((st, b), conv)" by (metis surj_pair)
  show ?thesis using assms d delete_pod_typed [OF d assms(2)] p1
    by (auto simp: reapUnstartedPod_def Let_def record_event_def start_failed_typed split: option.splits if_splits prod.splits dest!: patch_typed)
qed

lemma clearRuntimeStartFailure_typed [typed]: "clearRuntimeStartFailure r p = (p', e) \<Longrightarrow> ok_pass p \<Longrightarrow> ok_pass p'"
  by (auto simp: clearRuntimeStartFailure_def Let_def start_cleared_typed split: if_splits dest!: patch_typed)

lemma releaseIfNodeDraining_typed [typed]: "releaseIfNodeDraining r pod p = (p', y) \<Longrightarrow> ok_pass p \<Longrightarrow> ok_pass p'"
  by (auto simp: releaseIfNodeDraining_def Let_def split: if_splits sum.splits option.splits prod.splits
      dest!: delete_pod_typed patch_typed)

lemma stepE:
  assumes "then_do x f = (p', y)" and "ok_pass p"
    and "\<And>p1 z. x = (p1, z) \<Longrightarrow> ok_pass p1" and "\<And>a p1 y. x = (p1, Proceed a) \<Longrightarrow> ok_pass p1 \<Longrightarrow> f a p1 = (p', y) \<Longrightarrow> ok_pass p'"
  shows "ok_pass p'"
  using assms by (auto simp: then_do_def split: prod.splits flow.splits)

lemma check_typed: "check x = (p', y) \<Longrightarrow> ok_pass (fst x) \<Longrightarrow> ok_pass p'"
  by (auto simp: check_def split: prod.splits option.splits)

lemma pod_gone_typed [typed]: "pod_gone r pod p = (p', y) \<Longrightarrow> ok_pass p \<Longrightarrow> ok_pass p'"
  by (auto simp: pod_gone_def then_do_def check_def split: if_splits prod.splits flow.splits option.splits
      dest!: delete_pod_typed forget_workload_typed)

lemma pod_unstarted_typed [typed]: "pod_unstarted r pod p = (p', y) \<Longrightarrow> ok_pass p \<Longrightarrow> ok_pass p'"
  by (auto simp: pod_unstarted_def then_do_def check_def split: option.splits if_splits prod.splits flow.splits
      dest!: reapUnstartedPod_typed clearRuntimeStartFailure_typed)

lemma pod_drained_typed [typed]: "pod_drained r pod p = (p', y) \<Longrightarrow> ok_pass p \<Longrightarrow> ok_pass p'"
  by (auto simp: pod_drained_def split: option.splits prod.splits dest!: releaseIfNodeDraining_typed)

lemma reconcile_pod_typed [typed]: "reconcile_pod r p = (p', y) \<Longrightarrow> ok_pass p \<Longrightarrow> ok_pass p'"
  by (auto simp: reconcile_pod_def then_do_def split: sum.splits prod.splits flow.splits
      dest!: pod_gone_typed pod_unstarted_typed pod_drained_typed)

lemma enterPending_typed [typed]: "enterPending r p = (p', e) \<Longrightarrow> ok_pass p \<Longrightarrow> ok_pass p'"
  by (auto simp: enterPending_def on_chat_def split: if_splits prod.splits option.splits dest!: setPhase_typed)

lemma enterPendingFor_typed [typed]: "enterPendingFor r x m p = (p', e) \<Longrightarrow> ok_pass p \<Longrightarrow> ok_pass p'"
  by (auto simp: enterPendingFor_def split: prod.splits option.splits dest!: setCondition_typed enterPending_typed)

lemma evictableCount_typed [typed]: "evictableCount r ps w = (w', n) \<Longrightarrow> good w \<Longrightarrow> good w'"
  by (induction ps arbitrary: w w' n) (fastforce split: prod.splits sum.splits dest!: Get)+

lemma eviction_candidates_typed [typed]: "eviction_candidates r ps w = (w', n) \<Longrightarrow> good w \<Longrightarrow> good w'"
  by (induction ps arbitrary: w w' n) (fastforce split: prod.splits sum.splits dest!: Get)+

lemma evictIdleWorker_typed [typed]: "evictIdleWorker r ps w = (w', n) \<Longrightarrow> good w \<Longrightarrow> good w'"
  by (auto simp: evictIdleWorker_def split: prod.splits list.splits dest!: eviction_candidates_typed deleted)

lemma cv_admit_typed [typed]: "cv_admit r conv w = (w', y) \<Longrightarrow> good w \<Longrightarrow> good w'"
  by (auto simp: cv_admit_def Let_def split: sum.splits prod.splits if_splits dest!: evictableCount_typed List)

lemma gates_typed:
  "backoff_gate r x p = (p', y) \<Longrightarrow> ok_pass p \<Longrightarrow> ok_pass p'"
  "storage_gate r x p = (p', y) \<Longrightarrow> ok_pass p \<Longrightarrow> ok_pass p'"
  "capacity_gate r x p = (p', y) \<Longrightarrow> ok_pass p \<Longrightarrow> ok_pass p'"
proof -
  show "backoff_gate r x p = (p', y) \<Longrightarrow> ok_pass p \<Longrightarrow> ok_pass p'"
    by (auto simp: backoff_gate_def Let_def split: if_splits)
  show "storage_gate r x p = (p', y) \<Longrightarrow> ok_pass p \<Longrightarrow> ok_pass p'"
    by (auto simp: storage_gate_def split: if_splits prod.splits bool.splits dest!: enterPendingFor_typed)
  show "capacity_gate r x p = (p', y) \<Longrightarrow> ok_pass p \<Longrightarrow> ok_pass p'"
    by (auto simp: capacity_gate_def split: if_splits prod.splits sum.splits bool.splits dest!: cv_admit_typed enterPending_typed)
qed

lemma setTooling_typed: "ok_pass p \<Longrightarrow> ok_pass (cv_setToolingCondition r a b c p)"
proof -
  assume ok: "ok_pass p"
  obtain p1 e where t: "patch r (\<lambda>x. fst (SetCondition (cv_Now r (world p) 0) (cond ConditionToolingResolved a b c) x)) p = (p1, e)"
    by fastforce
  from setCondition_typed [OF t ok] ok t show ?thesis by (simp add: cv_setToolingCondition_def)
qed

lemma resolve_for_typed [typed]: "resolve_for r p = (p', y) \<Longrightarrow> ok_pass p \<Longrightarrow> ok_pass p'"
  by (auto simp: resolve_for_def split: prod.splits dest!: ResolveFor_typed)

lemma ensureMCPConfigMap_typed [typed]: "ensureMCPConfigMap r conv w = (w', y) \<Longrightarrow> good w \<Longrightarrow> good w'"
  by (auto simp: ensureMCPConfigMap_def Let_def split: sum.splits option.splits prod.splits dest!: configured)

lemma pod_created_typed: "well_formed c \<Longrightarrow> well_formed (pod_created lower now pod mcp med d c)"
  by (auto simp: pod_created_def applyMediationCondition_def Let_def split: option.split
      intro!: well_formed_SetCondition well_formed_RemoveCondition)

lemma create_pod_typed [typed]: "create_pod r lower profile mcp cm res p = (p', y) \<Longrightarrow> ok_pass p \<Longrightarrow> ok_pass p'"
  by (auto simp: create_pod_def Let_def pod_created_typed split: prod.splits option.splits dest!: created patch_typed)

lemma provision_typed [typed]:
  assumes "provision r lower p = (p', y)" and "ok_pass p" shows "ok_pass p'"
proof -
  obtain w q b conv where p: "p = (((w, q), b), conv)" by (metis surj_pair)
  obtain w1 x where m: "ensureMCPConfigMap r conv w = (w1, x)" by fastforce
  then have w1: "ok_pass (((w1, q), b), conv)" using ensureMCPConfigMap_typed [OF m] assms(2) p by simp
  obtain p1 z where rs: "resolve_for r (cv_setToolingCondition r ''True'' ''Resolved'' [] (((w1, q), b), conv)) = (p1, z)" by fastforce
  have p1: "ok_pass p1" by (rule resolve_for_typed [OF rs setTooling_typed [OF w1]])
  show ?thesis using assms p m w1 rs p1 setTooling_typed [OF w1]
    by (auto simp: provision_def split: sum.splits prod.splits dest!: create_pod_typed)
qed

lemma createRuntimePod_typed [typed]:
  assumes "createRuntimePod r lower p = (p', y)" and "ok_pass p" shows "ok_pass p'"
  using assms by (auto simp: createRuntimePod_def split: prod.splits sum.splits if_splits bool.splits
      dest!: evictIdleWorker_typed provision_typed)

text \<open>What is owed to the channels; a loop keeps what each of its rounds keeps.\<close>

lemma claimEnsureTopic_typed [typed]: "claimEnsureTopic r n ch w = (w', y) \<Longrightarrow> good w \<Longrightarrow> good w'"
  by (auto simp: claimEnsureTopic_def claim_closure_def split: prod.splits sum.splits if_splits dest!: Mutate_typed
      intro: well_formed_setClaim)

lemma InputPayload_typed [typed]: "InputPayload s i w = (w', y) \<Longrightarrow> good w \<Longrightarrow> good w'"
  by (auto simp: InputPayload_def split: if_splits prod.splits sum.splits dest!: GetBlob)

lemma topicDescriptor_typed [typed]: "topicDescriptor r conv w = (w', y) \<Longrightarrow> good w \<Longrightarrow> good w'"
  by (auto simp: topicDescriptor_def Let_def split: option.splits prod.splits dest!: InputPayload_typed)

lemma fold_typed: fixes h :: "'a \<Rightarrow> bool" shows "(\<And>x a. h a \<Longrightarrow> h (f x a)) \<Longrightarrow> h a \<Longrightarrow> h (fold f xs a)"
  by (induction xs arbitrary: a) simp_all

lemma ensureTopic_typed: "good (fst (fst st)) \<Longrightarrow> good (fst (fst (ensureTopic r conv ref st)))"
  by (auto simp: ensureTopic_def split: prod.splits sum.splits bool.splits dest!: claimEnsureTopic_typed topicDescriptor_typed)

lemma ensureTopics_typed [typed]: "ensureTopics r conv st = (st', y) \<Longrightarrow> good (fst st) \<Longrightarrow> good (fst st')"
  using fold_typed [of "\<lambda>a. good (fst (fst a))" "ensureTopic r conv", OF ensureTopic_typed]
  by (metis ensureTopics_def fst_conv)

lemma deliver_typed: "good (fst (fst a)) \<Longrightarrow> good (fst (fst (deliver r conv i a)))"
proof -
  assume g: "good (fst (fst a))"
  obtain w q dp where a: "a = ((w, q), dp)" by (metis surj_pair)
  obtain w1 blob where b: "InputPayload s i w = (w1, blob)" by fastforce
  have "fst (fold (deliver_to r conv i su e m) refs st) = fst st" for su e m refs st
    by (rule fold_frame) simp
  with b g InputPayload_typed [OF b] show ?thesis by (auto simp: deliver_def a Let_def split: prod.splits)
qed

lemma DeliverInputs_typed [intro]: "good (fst st) \<Longrightarrow> good (fst (DeliverInputs r conv st))"
  using fold_typed [of "\<lambda>a. good (fst (fst a))" "deliver r conv", OF deliver_typed] by (simp add: DeliverInputs_def)

lemma enqueueRunReply_typed: "good (fst (fst a)) \<Longrightarrow> good (fst (fst (enqueueRunReply r conv run a)))"
  unfolding enqueueRunReply_def
  by (erule fold_typed [of "\<lambda>a. good (fst (fst a))", rotated]) (auto simp: reply_to_def split: prod.splits option.split)

lemma setDeliveryPendingCondition_typed: "ok_pass p \<Longrightarrow> ok_pass (setDeliveryPendingCondition r owed p)"
proof -
  assume ok: "ok_pass p"
  obtain p1 e where t: "patch r (\<lambda>c. fst (SetCondition (cv_Now r (world p) 0) (delivery_condition owed) c)) p = (p1, e)" by fastforce
  from setCondition_typed [OF t ok] ok t show ?thesis by (simp add: setDeliveryPendingCondition_def Let_def)
qed

lemma backfillDelivered_typed [typed]: "backfillDelivered r conv runs ids w = (w', y) \<Longrightarrow> good w \<Longrightarrow> good w'"
  by (induction ids arbitrary: w) (auto split: option.splits if_splits prod.splits sum.splits dest!: UpdateRun)

lemma deliverRunReplies_typed [typed]:
  assumes "deliverRunReplies r runs p = (p', y)" and "ok_pass p" shows "ok_pass p'"
proof -
  obtain st b conv where p: "p = ((st, b), conv)" by (metis surj_pair)
  obtain st1 owed where f: "fold (enqueueRunReply r conv) (filter run_DeliveryTracked runs) (st, []) = (st1, owed)" by fastforce
  have "good (fst st1)"
    using fold_typed [of "\<lambda>a. good (fst (fst a))" "enqueueRunReply r conv", OF enqueueRunReply_typed] f assms(2) p by (metis fst_conv ok_pass_simp)
  then have ok: "ok_pass ((st1, b), conv)" using assms(2) p by simp
  obtain w q b' conv' where c: "setDeliveryPendingCondition r owed ((st1, b), conv) = (((w, q), b'), conv')" by (metis surj_pair)
  from setDeliveryPendingCondition_typed [OF ok, of owed] assms p f c show ?thesis
    by (auto simp: deliverRunReplies_def split: if_splits prod.splits dest!: backfillDelivered_typed)
qed

lemma chat_stage_typed [typed]:
  assumes "chat_stage r runs p = (p', y)" and "ok_pass p" shows "ok_pass p'"
proof -
  obtain st b conv where p: "p = ((st, b), conv)" by (metis surj_pair)
  obtain st1 tp e where t: "ensureTopics r conv st = (st1, tp, e)" by (metis surj_pair)
  define st2 where "st2 = DeliverInputs r conv (deliverEscalation r conv (case cv_Router r of
     Some router \<Rightarrow> if cr_Reopens conv > 0 then FanOutReopenNotice router conv st1 else st1 | None \<Rightarrow> st1))"
  have "good (fst st2)" using ensureTopics_typed [OF t] assms(2) p
    by (auto simp: st2_def split: option.split)
  then have ok: "ok_pass ((st2, b), conv)" using assms(2) p by simp
  obtain p1 x where d: "deliverRunReplies r runs ((st2, b), conv) = (p1, x)" by fastforce
  have "p' = (if cv_Ops r then p1 else p)"
    using assms p t d by (auto simp: chat_stage_def st2_def Let_def)
  with deliverRunReplies_typed [OF d ok] assms(2) show ?thesis by simp
qed

lemma router_typed: "cv_Router r = Some rt \<Longrightarrow> typed_router s good rt"
  by (intro typed_router.intro typed_store_axioms typed_router_axioms.intro routers)

lemma route_result_typed:
  assumes "cv_Router r = Some rt" and "good (fst (fst a))" shows "good (fst (fst (route_result r rt conv run a)))"
proof -
  obtain st fe where a: "a = (st, fe)" by fastforce
  obtain st1 e1 where m: "AppendMemberResult rt (cr_CausedBy conv) (cr_Name conv) (member_dedup conv run) (run_Result run) st = (st1, e1)"
    by fastforce
  have "good (fst st1)" using typed_router.AppendMemberResult_typed [OF router_typed [OF assms(1)] m] assms(2) a by simp
  with assms(2) a m show ?thesis
    by (auto simp: route_result_def split: prod.splits option.splits sum.splits dest!: UpdateRun)
qed

lemma member_stage_typed: "ok_pass p \<Longrightarrow> ok_pass (member_stage r runs p)"
proof (cases "cv_Router r")
  case (Some rt)
  assume ok: "ok_pass p"
  obtain st b conv where p: "p = ((st, b), conv)" by (metis surj_pair)
  have "good (fst (fst (fold (route_result r rt conv) runs (st, None))))"
    by (rule fold_typed [of "\<lambda>a. good (fst (fst a))"]) (use route_result_typed [OF Some] ok p in auto)
  with Some p ok show ?thesis by (auto simp: member_stage_def deliverMemberResults_def split: prod.splits)
qed (simp add: member_stage_def)

lemma provision_stage_typed: "provision_stage r lower wanted p = (p', y) \<Longrightarrow> ok_pass p \<Longrightarrow> ok_pass p'"
  by (auto simp: provision_stage_def split: if_splits sum.splits bool.splits prod.splits dest!: createRuntimePod_typed enterPending_typed)

lemma next_phase_in [simp]: "next_phase conv pending \<in> phases"
  by (simp add: next_phase_def)

lemma setPhase_next_typed: "check (setPhase r (next_phase conv pending) p) = (p', y) \<Longrightarrow> ok_pass p \<Longrightarrow> ok_pass p'"
  by (auto simp: check_def split: prod.splits option.splits dest: setPhase_typed)

lemma reconcile_stages_typed:
  assumes "reconcile_stages r lower runs pending needsWorker p = (p', y)" and "ok_pass p" shows "ok_pass p'"
  using assms member_stage_typed
  by (auto simp: reconcile_stages_def then_do_def split: prod.splits flow.splits
      dest!: reconcile_pod_typed gates_typed chat_stage_typed provision_stage_typed setPhase_next_typed)

lemma pruneProcessed_typed: "pruneProcessed r p = (p', e) \<Longrightarrow> ok_pass p \<Longrightarrow> ok_pass p'"
  by (auto simp: pruneProcessed_def without_inputs_def Let_def split: if_splits prod.splits option.splits
      dest!: patch_typed delete_blobs_typed)

lemma releaseWorkload_typed: "releaseWorkload r p = (p', e) \<Longrightarrow> ok_pass p \<Longrightarrow> ok_pass p'"
  by (auto simp: releaseWorkload_def split: prod.splits option.splits dest!: delete_pod_typed unconfigured)

lemma autoDelete_typed: "autoDelete r p = (p', y) \<Longrightarrow> ok_pass p \<Longrightarrow> ok_pass p'"
  by (auto simp: autoDelete_def Let_def split: prod.splits option.splits sum.splits if_splits dest!: Delete)

lemma on_chat_typed: "fst (f (fst (fst p))) = world p \<Longrightarrow> ok_pass (on_chat f p) = ok_pass p"
proof -
  assume "fst (f (fst (fst p))) = world p"
  then have "world (on_chat f p) = world p" by (rule on_chat_world)
  moreover have "snd (on_chat f p) = snd p" by (simp add: on_chat_def split: prod.split)
  ultimately show ?thesis by (simp add: ok_pass_def)
qed

lemma reconcileClosed_typed: "reconcileClosed r p = (p', y) \<Longrightarrow> ok_pass p \<Longrightarrow> ok_pass p'"
  by (auto simp: reconcileClosed_def Let_def on_chat_typed split: prod.splits option.splits if_splits
      dest!: releaseWorkload_typed forget_workload_typed autoDelete_typed)

lemma finalizeClose_typed:
  assumes "finalizeClose r t p = (p', y)" and "ok_pass p" shows "ok_pass p'"
proof (cases "FinalizerCloseTopics \<in> set (cr_Finalizers (snd p))")
  case True
  obtain st b conv e where w: "releaseWorkload r p = (((st, b), conv), e)" by (metis surj_pair)
  note ok = releaseWorkload_typed [OF w assms(2)]
  show ?thesis
  proof (cases e)
    case None
    obtain w1 q1 o' where n: "(if cv_Ops r then enqueueDeleteConversations r conv st else (st, False)) = ((w1, q1), o')" by (metis surj_pair)
    then have "w1 = fst st" by (auto split: if_splits dest: enqueueDeleteConversations_frame)
    with assms True w None n ok show ?thesis
      by (auto simp: finalizeClose_def without_finalizer_def split: if_splits prod.splits dest!: patch_typed)
  qed (use assms True w ok in \<open>auto simp: finalizeClose_def\<close>)
qed (use assms in \<open>auto simp: finalizeClose_def\<close>)

lemma autoClose_typed:
  assumes "autoClose n r runs podExists p = Some (p', y)" and "ok_pass p" shows "ok_pass p'"
  using assms by (auto simp: autoClose_def AutoCloseConversation_def Let_def split: prod.splits option.splits if_splits
      dest!: typed_router.closeConversation_typed [OF router_typed])

lemma reconcileOpen_typed:
  assumes "reconcileOpen n r lower runs d p = Some (p', y)" and "ok_pass p" shows "ok_pass p'"
  using assms by (auto simp: reconcileOpen_def Let_def split: prod.splits option.splits flow.splits if_splits
      dest!: pruneProcessed_typed reconcile_stages_typed autoClose_typed)

lemma reconcile_live_typed:
  assumes "reconcile_live n r lower runs p = Some (p', y)" and "ok_pass p" shows "ok_pass p'"
  using assms by (auto simp: reconcile_live_def deadline_of_def split: prod.splits option.splits if_splits
      dest!: reconcileClosed_typed reconcileOpen_typed typed_router.CloseBudgetExceeded_typed [OF router_typed])

lemma add_finalizer_typed: "patch r add_finalizer p = (p', e) \<Longrightarrow> ok_pass p \<Longrightarrow> ok_pass p'"
  by (erule patch_typed) (simp_all add: add_finalizer_def)

lemma Reconcile_typed:
  assumes "cv_Reconcile n r lower name ((w, q), b) = Some (((w', q'), b'), y)" and "good w" shows "good w'"
proof -
  obtain w1 x where g: "st_GetWithRuns s w name = (w1, x)" by fastforce
  note t = GetWithRuns [OF g assms(2)]
  show ?thesis
  proof (cases x)
    case (Inr a)
    obtain conv v runs where a: "a = (conv, v, runs)" by (metis surj_pair)
    with t Inr have ok: "ok_pass (((w1, q), b), conv)" by simp
    obtain p1 e1 where f: "patch r add_finalizer (((w1, q), b), conv) = (p1, e1)" by fastforce
    from assms(1) g Inr a obtain p' z where p': "w' = world p'" "(case cr_DeletionRequestedAt conv of
        Some t \<Rightarrow> Some (finalizeClose r t (((w1, q), b), conv))
      | None \<Rightarrow> if FinalizerCloseTopics \<in> set (cr_Finalizers conv) then reconcile_live n r lower runs (((w1, q), b), conv)
          else (case patch r add_finalizer (((w1, q), b), conv) of
             (p, Some e) \<Rightarrow> Some (p, 0, IgnoreNotFound (Some e))
           | (p, None) \<Rightarrow> reconcile_live n r lower runs p)) = Some (p', z)"
      by (auto simp: cv_Reconcile_def Let_def)
    have "ok_pass p'" using p'(2) ok add_finalizer_typed [OF f ok] f
      by (auto split: option.splits if_splits dest: finalizeClose_typed reconcile_live_typed)
    with p'(1) show ?thesis by (simp add: ok_pass_def)
  qed (use assms(1) g t in \<open>auto simp: cv_Reconcile_def\<close>)
qed

end

section \<open>Over the reference cluster\<close>

definition all_well_formed :: "memStore \<Rightarrow> bool" where
  "all_well_formed m \<longleftrightarrow> list_all (\<lambda>(k, c, v). well_formed c) (mem_records m)"

lemma all_well_formed_sweep [simp]: "all_well_formed m \<Longrightarrow> all_well_formed (sweepExpiredLocked m)"
  by (auto simp: all_well_formed_def sweepExpiredLocked_def Let_def list_all_iff)

lemma all_well_formed_lookup: "all_well_formed m \<Longrightarrow> map_of (mem_records m) k = Some (c, v) \<Longrightarrow> well_formed c"
  by (auto simp: all_well_formed_def list_all_iff dest!: map_of_SomeD)

lemma all_well_formed_put: "all_well_formed m \<Longrightarrow> well_formed c \<Longrightarrow> all_well_formed (fst (mem_put k c m))"
proof -
  assume a: "all_well_formed m" "well_formed c"
  have "list_all (\<lambda>(k, c, v). well_formed c) xs \<Longrightarrow> list_all (\<lambda>(k, c, v). well_formed c) (AList.update k (c, n :: int) xs)" for n xs
    using a(2) by (induction xs) auto
  with a show ?thesis by (simp add: all_well_formed_def mem_put_def mintLocked_def Let_def)
qed

lemma all_well_formed_drop: "all_well_formed m \<Longrightarrow> all_well_formed (fst (mem_drop k m))"
  by (auto simp: all_well_formed_def mem_drop_def mintLocked_def Let_def list_all_iff AList.delete_eq)

lemma all_well_formed_parts [simp]: "all_well_formed (m\<lparr>mem_runs := rs\<rparr>) = all_well_formed m" "all_well_formed (m\<lparr>mem_blobs := bs\<rparr>) = all_well_formed m"
  by (simp_all add: all_well_formed_def)

lemma mem_Get_typed: "mem_Get m k = (m', x) \<Longrightarrow> all_well_formed m \<Longrightarrow> all_well_formed m' \<and> (\<forall>c v. x = Inr (c, v) \<longrightarrow> well_formed c)"
  by (auto simp: mem_Get_def Let_def split: option.splits dest: all_well_formed_lookup [OF all_well_formed_sweep])

lemma mem_Update_typed: "mem_Update m k v c = (m', x) \<Longrightarrow> all_well_formed m \<Longrightarrow> well_formed c \<Longrightarrow> all_well_formed m'"
proof -
  assume u: "mem_Update m k v c = (m', x)" and a: "all_well_formed m" and c: "well_formed c"
  define n where "n = sweepExpiredLocked m"
  have n: "all_well_formed n" using a by (simp add: n_def)
  show ?thesis
  proof (cases "map_of (mem_records n) k")
    case (Some e)
    obtain old v' where e: "e = (old, v')" by fastforce
    define d where "d = c\<lparr>cr_ID := cr_ID old, cr_CreatedAt := cr_CreatedAt old, cr_DeletionRequestedAt := cr_DeletionRequestedAt old\<rparr>"
    have "well_formed d" using c by (simp add: d_def)
    then have "all_well_formed (fst (mem_put k d n))" "all_well_formed (fst (mem_drop k n))"
      using n by (simp_all add: all_well_formed_put all_well_formed_drop)
    moreover have "m' \<in> {n, fst (mem_put k d n), fst (mem_drop k n)}"
      using u Some e by (auto simp: mem_Update_def n_def [symmetric] d_def Let_def split: if_splits)
    ultimately show ?thesis using n by auto
  qed (use u n in \<open>auto simp: mem_Update_def n_def [symmetric] Let_def\<close>)
qed

lemma mem_Delete_typed: "mem_Delete m k = (m', x) \<Longrightarrow> all_well_formed m \<Longrightarrow> all_well_formed m'"
proof -
  assume d: "mem_Delete m k = (m', x)" and a: "all_well_formed m"
  define n where "n = sweepExpiredLocked m"
  have n: "all_well_formed n" using a by (simp add: n_def)
  show ?thesis
  proof (cases "map_of (mem_records n) k")
    case (Some e)
    obtain c v where e: "e = (c, v)" by fastforce
    have "well_formed c" using all_well_formed_lookup [OF n] Some e by simp
    with d n Some e show ?thesis
      by (auto simp: mem_Delete_def n_def [symmetric] Let_def split: if_splits intro: all_well_formed_put all_well_formed_drop)
  qed (use d n in \<open>auto simp: mem_Delete_def n_def [symmetric] Let_def\<close>)
qed

interpretation mem_typed: typed_store mem_Store all_well_formed
proof unfold_locales
  show "all_well_formed w' \<and> (\<forall>c v. x = Inr (c, v) \<longrightarrow> well_formed c)" if "st_Get mem_Store w k = (w', x)" "all_well_formed w" for w k w' x
    using mem_Get_typed that by simp
  show "all_well_formed w'" if "st_Update mem_Store w k v c = (w', x)" "all_well_formed w" "well_formed c" for w k v c w' x
    using mem_Update_typed that by simp
  show "all_well_formed w'" if "st_Delete mem_Store w k = (w', x)" "all_well_formed w" for w k w' x
    using mem_Delete_typed that by simp
  show "all_well_formed w' \<and> (\<forall>cs. x = Inr cs \<longrightarrow> list_all well_formed cs)" if "st_List mem_Store w i l = (w', x)" "all_well_formed w" for w i l w' x
    using that all_well_formed_sweep [OF that(2)] by (auto simp: mem_List_def Let_def all_well_formed_def list_all_iff)
qed (auto simp: mem_Store_def mem_UpdateRun_def mem_GetWithRuns_def mem_GetBlob_def mem_DeleteBlob_def split: prod.splits sum.splits if_splits
    dest!: mem_Get_typed)

interpretation typed: typed_pass "beside mem_Store" "\<lambda>w. all_well_formed (fst w)" "pooled g r" for g r
proof unfold_locales
  show "all_well_formed (fst w') \<and> (\<forall>c v. x = Inr (c, v) \<longrightarrow> well_formed c)"
    if "st_Get (beside mem_Store) w k = (w', x)" "all_well_formed (fst w)" for w w' :: hosting and k x
    using that mem_typed.Get by (auto simp: on_left_def split: prod.splits)
  show "all_well_formed (fst w')" if "st_Update (beside mem_Store) w k v c = (w', x)" "all_well_formed (fst w)" "well_formed c"
    for w w' :: hosting and k v c x
    using that mem_typed.Update by (auto simp: on_left_def split: prod.splits)
  show "all_well_formed (fst w')" if "st_Delete (beside mem_Store) w k = (w', x)" "all_well_formed (fst w)" for w w' :: hosting and k x
    using that mem_typed.Delete by (auto simp: on_left_def split: prod.splits)
  show "all_well_formed (fst w') \<and> (\<forall>cs. x = Inr cs \<longrightarrow> list_all well_formed cs)"
    if "st_List (beside mem_Store) w i l = (w', x)" "all_well_formed (fst w)" for w w' :: hosting and i l x
    using that mem_typed.List by (auto simp: on_left_def split: prod.splits)
  show "all_well_formed (fst w')" if "st_UpdateRun (beside mem_Store) w k j u = (w', x)" "all_well_formed (fst w)" for w w' :: hosting and k j u x
    using that mem_typed.UpdateRun by (auto simp: on_left_def split: prod.splits)
  show "all_well_formed (fst w') \<and> (\<forall>c v rs. x = Inr (c, v, rs) \<longrightarrow> well_formed c)"
    if "st_GetWithRuns (beside mem_Store) w k = (w', x)" "all_well_formed (fst w)" for w w' :: hosting and k x
    using that mem_typed.GetWithRuns by (auto simp: on_left_def split: prod.splits)
  show "all_well_formed (fst w')" if "st_GetBlob (beside mem_Store) w k = (w', x)" "all_well_formed (fst w)" for w w' :: hosting and k x
    using that mem_typed.GetBlob by (auto simp: on_left_def split: prod.splits)
  show "all_well_formed (fst w')" if "st_DeleteBlob (beside mem_Store) w k = (w', x)" "all_well_formed (fst w)" for w w' :: hosting and k x
    using that mem_typed.DeleteBlob by (auto simp: on_left_def split: prod.splits)
qed (auto simp: pool_CreatePod_def pool_DeletePod_def split: prod.splits if_splits)



end
