(* ===== verification/Spec2Isabelle.thy ===== *)
theory Spec2Isabelle
  imports SignalLaws Breaker RouteLaws ConsumerLaws OpQueueLaws Dispatch ScopeLaws BackendLaws WorkLaws
    EgressLaws EgressListing EgressPod LifecycleLaws PassLaws TypedPass
begin

text \<open>
  Verification development of the agent-ops operator: the manager under \<open>src/platform/manager\<close> and the egress proxy
  of its pods under \<open>src/platform/egress-proxy\<close>.

  The program. Signals (alerts, jobs, chat messages) enter through signal sources and are kept as
  Signal objects. A consumer admits and routes each of them: it settles the claimants (Pipelines and
  Coordinators) that serve the source, and gives each claimant a conversation or an input on one.
  A conversation is a control record: its wiring snapshot, its queued inputs, its phase, its runs and
  the threads of the chat channels it is bound to. A runtime polls for the next work unit of its
  conversation and reports the run; what is to be said goes through a queue of channel operations that
  adapters poll. A Coordinator's conversation invokes members, which are conversations of their own,
  and closes them in a cascade. The runtime of a conversation is a pod, built from its wiring and from the tool servers
  bound to it; where its runtime declares mediation, every connection of the agent is redirected through a proxy in
  the pod, which enforces the tools the work unit grants. A reconciler makes passes over each conversation: it admits it
  to the pool of pods, provisions and releases its pod, derives what its channels and its parent are owed, and closes and
  tears it down. All state goes through a store with optimistic concurrency, whose
  production backend keeps the records as Kubernetes objects.

  The model. Each theory follows its source files function by function; Go names are kept. A world
  \<open>'w\<close> stands for what lies outside the manager (the API server, the clock's progress, other replicas) and
  every operation takes it and returns it. Errors are sums over \<open>err\<close>; optional pointers are
  options; Go strings are byte lists; times are integer nanoseconds since year 1; maps keyed by object
  names are partial functions or association lists, as the source needs their order or not.

  Theories and sources.
    \<open>Prelude\<close>, \<open>GoStrings\<close>, \<open>GoTime\<close>: the parts of the Go standard library the sources use (errors.Is,
      saturating time subtraction, strings, strconv, unicode/utf8, time.Format and time.Parse).
    \<open>StateRecord\<close>, \<open>StateHelpers\<close>, \<open>StateSignal\<close>, \<open>StateStore\<close>: \<open>internal/state\<close>, the records, their methods, the
      Store contract as a record of operations, Mutate and Patch. The locale \<open>cas_store\<close> states the
      contract of optimistic concurrency.
    \<open>ApiTypes\<close>, \<open>KubeMapping\<close>, \<open>KubeStore\<close>, \<open>KubeSignals\<close>: \<open>api/v1alpha1\<close> and \<open>internal/state/kube\<close>.
      \<open>KubeLaws\<close>, \<open>KubeServer\<close>, \<open>SignalLaws\<close> hold the locales \<open>kube_api\<close> and \<open>signal_api\<close>, the laws of the API
      server the backend relies on, and reference servers that satisfy them.
    \<open>MemStore\<close>: \<open>internal/state/conformance/memstore_test.go\<close>, with the locale \<open>quiet_store\<close> of a store nobody
      else writes, interpreted for it whole (\<open>mem\<close>) and over a connection that breaks (\<open>flaky_mem\<close>).
    \<open>Breaker\<close>: \<open>internal/storagebreaker\<close>. \<open>Cooldown\<close>: \<open>internal/ingest\<close>. \<open>Naming\<close>: \<open>internal/namewords\<close>,
      \<open>internal/addressing\<close>. \<open>Activity\<close>: \<open>internal/activity\<close>. \<open>Messages\<close>: \<open>internal/chat/message.go\<close>.
    \<open>Claimants\<close>: Pipelines, Coordinators, the claimant interface, capability resolution and snapshots
      (\<open>internal/chat\<close>, \<open>internal/dispatch/capability.go\<close>, \<open>internal/runtimepod\<close>).
    \<open>SignalRoute\<close>, \<open>RouteFacts\<close>, \<open>RouteFrames\<close>, \<open>RouteLaws\<close>: \<open>internal/signalroute\<close>, with the locale
      \<open>conversation_store\<close> for delivery and \<open>kube_inputs\<close> for the kube backend under it.
    \<open>SignalConsumer\<close>, \<open>ConsumerLaws\<close>: \<open>internal/controller/signal_controller.go\<close>.
    \<open>OpQueue\<close>, \<open>OpQueueLaws\<close>: \<open>internal/chat/ops.go\<close> and \<open>provider.go\<close>. \<open>Dispatch\<close>: \<open>internal/dispatch/dispatch.go\<close>.
    \<open>Coordinate\<close>, \<open>Invoke\<close>, \<open>CascadeLaws\<close>, \<open>CloseLaws\<close>, \<open>ScopeLaws\<close>: \<open>internal/chat/coordinate.go\<close>, \<open>moves.go\<close> and the
      closing and reopening of \<open>router.go\<close>.
    \<open>Backend\<close>, \<open>BackendLaws\<close>: the resolution of the execution backend in \<open>internal/runtimepod\<close> and the AgentRuntime
      resource. \<open>WorkLoop\<close>, \<open>WorkFrames\<close>, \<open>WorkLaws\<close>: \<open>internal/httpapi/server.go\<close>, \<open>workreport.go\<close>, \<open>moveperturn.go\<close>,
      with the locales \<open>reading_store\<close>, \<open>run_store\<close> and \<open>revision_store\<close> over \<open>quiet_store\<close>, again interpreted for the
      in-memory backend, whole and over a connection that breaks.
    \<open>Pods\<close>, \<open>RuntimeStart\<close>: the Kubernetes objects of a worker, and \<open>internal/controller/runtimestart.go\<close>.
      \<open>McpCompile\<close>: \<open>internal/mcpcompile\<close> and \<open>internal/controller/mediation.go\<close>. \<open>PodSpec\<close>: the builder of
      \<open>internal/runtimepod\<close> (\<open>podspec.go\<close>, \<open>egress.go\<close>, \<open>contextsync.go\<close>). \<open>PodLaws\<close>: what the built pods keep apart.
    \<open>Reconciler\<close>, \<open>Delivery\<close>, \<open>Admission\<close>, \<open>Lifecycle\<close>: \<open>internal/controller/conversation_controller.go\<close>, \<open>drain.go\<close> and
      \<open>internal/chat/delivery.go\<close>: the frame of a pass, what it owes to the channels, the pool, and \<open>cv_Reconcile\<close>, the
      pass. \<open>PassSamples\<close>: a cluster and a reconciler to try it on. \<open>LifecycleLaws\<close>, \<open>PassLaws\<close>: admission, answers, closing,
      deletion, and what a pass undoes. \<open>PodPool\<close>, \<open>CapLaws\<close>: the locales \<open>store_frame\<close>, \<open>routed_frame\<close>, \<open>pod_frame\<close> and
      \<open>pod_pool\<close> and the cap on pods, interpreted for a cluster kept beside the in-memory store. \<open>TypedPass\<close>: the locales
      \<open>typed_store\<close>, \<open>typed_router\<close> and \<open>typed_pass\<close> and the shape of records, for the same cluster.
    \<open>Json\<close>: decoding of \<open>encoding/json\<close> into the structs of the proxy. \<open>EgressProxy\<close>, \<open>EgressMcp\<close>:
      \<open>src/platform/egress-proxy\<close>. \<open>EgressLaws\<close>, \<open>EgressListing\<close>: what it enforces. \<open>EgressPod\<close>: the manager's side of
      mediation against the proxy's.

  What the lemmas show. The store: a Mutate that returns what it wrote lost no other write, appends and updates of
  runs are atomic, a record survives the round trip through the custom resources, and the points where
  the backend departs from its contract. Signals: each is counted once, delivered once, ends by its deadline,
  one per conversation is at work at a time, the cap evicts the oldest. The queue: no operation is lost
  under any interleaving, a poll is served, only a success suppresses a repeat. Coordination: a close
  strands no open member, returns on every tree, stays within the caller's scope. Work: a poll hands out
  what it records, a completion closes and never reopens, a run is recorded once, a held message is kept,
  and where the protocol departs from that. The reconciler: the pool keeps its cap where a deletion
  takes effect at once and overruns it where it does not, the oldest waiting are admitted, every owed answer is queued by
  every pass, only what is finished is closed by idleness, a deleted conversation waits for its notices, records stay
  well-formed through every branch of a pass, and the passes that undo a close, stop at a deadline or forget why a
  conversation could not start. Pods: every built pod is admissible, conversations share no directory,
  the redirect precedes every other container. Mediation: the installed rules redirect the agent and let the proxy
  through, both sides know the same endpoints, a plainly written call of an ungranted tool is refused and its listing
  filtered, and the messages, headers and addresses that get past.

  Bounds. Those of the source: 10 attempts of Mutate, 20 of a status update and of a name allocation, 10 runs of
  history, 200 recorded cooldown entries, 512 completed operations, 5 minutes to reclaim a claim, 1000 steps of an
  ancestry walk, 50 processed ids, 200 calls of each kind in a report, 17 rounds of a long poll, ten minutes for a
  pod to start, a backoff from thirty seconds to ten minutes, messages of at most 1 MiB read by the proxy. The closing cascade recurses without a bound in the source; its first argument is the depth of calls
  it may make, and \<open>closing_returns\<close> shows that the height of the tree is enough.

  Not modelled. The change feeds (Watch) and the wiring of the controllers to them, the staleness of the informer caches
  (a read of the cluster shows it as it is), passes of one reconciler that overlap (the controller runs one at a time), metrics and logging, the text inside wrapped errors beyond its
  shape (a name quoted by the formatter is kept without its quotes), and the components listed as such in the
  manifest: HTTP decoding, the sockets and the copying of bytes in the proxy, the adapter processes, the console and the charts.
\<close>

end
